(* ===== verification/Go_Prelude.thy ===== *)
theory Go_Prelude
  imports Main "HOL-Library.Word"
begin

text \<open>
  Shared vocabulary of the development: the Go values the components exchange (bytes, addresses,
  times, errors, results that may panic), slices with their spare capacity, bounded caches whose
  eviction policy is a parameter, and the generic lemmas and theorem collections the component
  theories use.
\<close>

named_theorems go_defs "definitions of Go primitives unfolded by the component proofs"
named_theorems go_splits "facts splitting results of fallible Go calls"

section \<open>Basic types\<close>

text \<open>
  Fixed-width Go integers are words (a signed one is read by \<open>sint\<close>); a Go \<open>int\<close> that is a
  length or an index is the \<open>int\<close> or \<open>nat\<close> it denotes; \<open>*big.Int\<close> is \<open>int\<close>. An account
  address is the 160-bit word of its 20 bytes, a transaction hash the 256-bit word of its 32 bytes.
  A \<open>time.Time\<close> is its number of nanoseconds since the Unix epoch and a \<open>time.Duration\<close> its
  number of nanoseconds.
\<close>

type_synonym byte = "8 word"
type_synonym bytes = "8 word list"
type_synonym uint16 = "16 word"
type_synonym uint32 = "32 word"
type_synonym int32 = "32 word"
type_synonym uint64 = "64 word"
type_synonym int64 = "64 word"
type_synonym address = "160 word"
type_synonym hash = "256 word"
type_synonym time = int
type_synonym duration = int

abbreviation (input) second :: duration where "second \<equiv> 1000000000"
abbreviation (input) minute :: duration where "minute \<equiv> 60000000000"
abbreviation (input) millisecond :: duration where "millisecond \<equiv> 1000000"

text \<open>\<open>t.Unix()\<close>, \<open>time.Unix(s, 0)\<close> and \<open>t.Sub(u)\<close>, which saturates at the range of a
  64-bit duration.\<close>

definition Unix :: "time \<Rightarrow> int" where
  "Unix t = t div second"

definition unixTime :: "int \<Rightarrow> time" where
  "unixTime s = s * second"

definition time_Sub :: "time \<Rightarrow> time \<Rightarrow> duration" where
  "time_Sub t u = max (- (2 ^ 63)) (min (2 ^ 63 - 1) (t - u))"

lemma Unix_unixTime [simp]: "Unix (unixTime s) = s"
  by (simp add: Unix_def unixTime_def)

lemma time_Sub_le_iff:
  assumes "0 \<le> d" and "d < 2 ^ 63 - 1"
  shows "time_Sub t u \<le> d \<longleftrightarrow> t - u \<le> d"
  using assms unfolding time_Sub_def by linarith

text \<open>\<open>a / b\<close> on Go integers is truncated.\<close>

definition quot :: "int \<Rightarrow> int \<Rightarrow> int" where
  "quot a b = sgn a * sgn b * (\<bar>a\<bar> div \<bar>b\<bar>)"

lemma quot_mult:
  assumes "b \<noteq> 0"
  shows "quot (a * b) b = a"
proof -
  have "\<bar>a * b\<bar> div \<bar>b\<bar> = \<bar>a\<bar>" using assms by (simp add: abs_mult)
  moreover have "sgn (a * b) * sgn b = sgn a" using assms by (cases "0 < b") (auto simp: sgn_mult)
  ultimately show ?thesis unfolding quot_def by (simp add: sgn_mult_abs)
qed

text \<open>\<open>(*big.Int).Uint64\<close> and \<open>(*big.Int).Int64\<close>: the low 64 bits of the absolute value,
  negated for a negative number in the second.\<close>

definition big_Uint64 :: "int \<Rightarrow> uint64" where
  "big_Uint64 x = word_of_int \<bar>x\<bar>"

definition big_Int64 :: "int \<Rightarrow> int64" where
  "big_Int64 x = word_of_int x"

lemma sint_big_Int64: "- (2 ^ 63) \<le> x \<Longrightarrow> x < 2 ^ 63 \<Longrightarrow> sint (big_Int64 x) = x"
  by (simp add: big_Int64_def signed_of_int signed_take_bit_int_eq_self)

lemma uint_big_Uint64: "0 \<le> x \<Longrightarrow> x < 2 ^ 64 \<Longrightarrow> uint (big_Uint64 x) = x"
  by (simp add: big_Uint64_def unsigned_of_int take_bit_int_eq_self)

section \<open>Errors, results and panics\<close>

text \<open>
  The text of an error or of a message is the list of its parts: the literal pieces of the format
  string and the formatted arguments, in order (their rendering to characters is never inspected
  by the program). A package-level \<open>errors.New\<close> value is a \<open>Sentinel\<close>, an error made by
  \<open>fmt.Errorf\<close> an \<open>Err\<close> with the errors it wraps by \<open>%w\<close>.
\<close>

datatype part = PStr string | PInt int | PAddr address | PHash hash | PBytes bytes

type_synonym msgtext = "part list"

datatype err = Sentinel string | Err msgtext "err list"

fun Error :: "err \<Rightarrow> msgtext" where
  "Error (Sentinel s) = [PStr s]"
| "Error (Err t ws) = t"

text \<open>\<open>fmt.Errorf("literal: %w", e)\<close>, the commonest way the code wraps an error.\<close>

definition wrap :: "string \<Rightarrow> err \<Rightarrow> err" where
  "wrap s e = Err (PStr s # Error e) [e]"

text \<open>\<open>errors.Is(e, s)\<close> for a sentinel \<open>s\<close>: \<open>s\<close> is \<open>e\<close> or is wrapped in it at any depth.\<close>

fun errors_Is :: "err \<Rightarrow> string \<Rightarrow> bool" where
  "errors_Is (Sentinel s) t \<longleftrightarrow> s = t"
| "errors_Is (Err m ws) t \<longleftrightarrow> list_ex (\<lambda>w. errors_Is w t) ws"

lemma errors_Is_wrap [simp]: "errors_Is (wrap s e) t \<longleftrightarrow> errors_Is e t"
  by (simp add: wrap_def)

text \<open>
  A call returns a value, returns an error, or panics. \<open>onErr r w k\<close> is the code's
  \<open>v, err := r; if err != nil { return w(err) }; k(v)\<close>.
\<close>

datatype 'a res = Ok (res_val: 'a) | Fail (res_err: err) | Panic msgtext

definition onErr :: "'a res \<Rightarrow> (err \<Rightarrow> err) \<Rightarrow> ('a \<Rightarrow> 'b res) \<Rightarrow> 'b res" where
  "onErr r w k = (case r of Ok v \<Rightarrow> k v | Fail e \<Rightarrow> Fail (w e) | Panic t \<Rightarrow> Panic t)"

lemma onErr_simps [simp]:
  "onErr (Ok v) w k = k v"
  "onErr (Fail e) w k = Fail (w e)"
  "onErr (Panic t) w k = Panic t"
  by (simp_all add: onErr_def)

lemma onErr_eq_Ok_iff: "onErr r w k = Ok b \<longleftrightarrow> (\<exists>v. r = Ok v \<and> k v = Ok b)"
  by (cases r) auto

lemma onErr_OkE [elim]:
  assumes "onErr r w k = Ok b"
  obtains v where "r = Ok v" and "k v = Ok b"
  using assms by (auto simp: onErr_eq_Ok_iff)

lemma onErr_split [go_splits]:
  "P (onErr r w k) \<longleftrightarrow>
     ((\<forall>v. r = Ok v \<longrightarrow> P (k v)) \<and> (\<forall>e. r = Fail e \<longrightarrow> P (Fail (w e))) \<and>
      (\<forall>t. r = Panic t \<longrightarrow> P (Panic t)))"
  by (cases r) auto

lemma res_not_Ok_cases:
  assumes "\<And>v. r \<noteq> Ok v"
  obtains e where "r = Fail e" | t where "r = Panic t"
  using assms by (cases r) auto

section \<open>Strings\<close>

text \<open>The white space of \<open>strings.TrimSpace\<close>, by the bytes of its characters in UTF-8, and the trimming at
  both ends.\<close>

definition space1 :: "nat \<Rightarrow> bool" where "space1 b \<longleftrightarrow> b \<in> {9, 10, 11, 12, 13, 32}"

definition space2 :: "nat \<Rightarrow> nat \<Rightarrow> bool" where "space2 b c \<longleftrightarrow> b = 0xC2 \<and> (c = 0x85 \<or> c = 0xA0)"

definition space3 :: "nat \<Rightarrow> nat \<Rightarrow> nat \<Rightarrow> bool" where
  "space3 b c d \<longleftrightarrow> (b, c, d) = (0xE1, 0x9A, 0x80) \<or>
     (b, c) = (0xE2, 0x80) \<and> (0x80 \<le> d \<and> d \<le> 0x8A \<or> d \<in> {0xA8, 0xA9, 0xAF}) \<or>
     (b, c, d) = (0xE2, 0x81, 0x9F) \<or> (b, c, d) = (0xE3, 0x80, 0x80)"

fun trimFront :: "string \<Rightarrow> string" where
  "trimFront (b # c # d # s) =
     (if space1 (of_char b) then trimFront (c # d # s)
      else if space2 (of_char b) (of_char c) then trimFront (d # s)
      else if space3 (of_char b) (of_char c) (of_char d) then trimFront s
      else b # c # d # s)"
| "trimFront [b, c] =
     (if space1 (of_char b) then trimFront [c]
      else if space2 (of_char b) (of_char c) then [] else [b, c])"
| "trimFront [b] = (if space1 (of_char b) then [] else [b])"
| "trimFront [] = []"

fun trimBack :: "string \<Rightarrow> string" where
  "trimBack (d # c # b # s) =
     (if space1 (of_char d) then trimBack (c # b # s)
      else if space2 (of_char c) (of_char d) then trimBack (b # s)
      else if space3 (of_char b) (of_char c) (of_char d) then trimBack s
      else d # c # b # s)"
| "trimBack [c, b] =
     (if space1 (of_char c) then trimBack [b]
      else if space2 (of_char b) (of_char c) then [] else [c, b])"
| "trimBack [b] = (if space1 (of_char b) then [] else [b])"
| "trimBack [] = []"

definition TrimSpace :: "string \<Rightarrow> string" where
  "TrimSpace s = rev (trimBack (rev (trimFront s)))"

text \<open>\<open>strings.ToLower\<close> on the ASCII letters.\<close>

definition char_lower :: "char \<Rightarrow> char" where
  "char_lower c =
     (let n = of_char c :: nat in if 65 \<le> n \<and> n \<le> 90 then char_of (n + 32) else c)"

definition ToLower :: "string \<Rightarrow> string" where
  "ToLower s = map char_lower s"

section \<open>Byte slices\<close>

text \<open>
  A Go byte slice is its elements and its spare capacity: the bytes of the backing array between
  length and capacity. A re-slice may extend into the spare capacity (\<open>s[:n]\<close> and \<open>s[a:b]\<close>
  check their upper bound against the capacity), while \<open>s[n:]\<close> ends at the length.
\<close>

type_synonym slice = "bytes \<times> bytes"

definition outOfRange :: msgtext where
  "outOfRange = [PStr ''runtime error: slice bounds out of range'']"

definition slice_to :: "slice \<Rightarrow> nat \<Rightarrow> bytes res" where
  "slice_to s n =
     (if n \<le> length (fst s) + length (snd s) then Ok (take n (fst s @ snd s)) else Panic outOfRange)"

definition slice_from :: "slice \<Rightarrow> nat \<Rightarrow> slice res" where
  "slice_from s n =
     (if n \<le> length (fst s) then Ok (drop n (fst s), snd s) else Panic outOfRange)"

definition slice_range :: "slice \<Rightarrow> nat \<Rightarrow> nat \<Rightarrow> bytes res" where
  "slice_range s a b =
     (if a \<le> b \<and> b \<le> length (fst s) + length (snd s)
      then Ok (drop a (take b (fst s @ snd s))) else Panic outOfRange)"

lemma slice_to_append: "slice_to (xs @ ys, sp) (length xs) = Ok xs"
  by (simp add: slice_to_def)

lemma slice_from_append: "slice_from (xs @ ys, sp) (length xs) = Ok (ys, sp)"
  by (simp add: slice_from_def)

lemma slice_range_append:
  "slice_range (xs @ ys @ zs, sp) (length xs) (length xs + length ys) = Ok ys"
  by (simp add: slice_range_def)

section \<open>Bounded caches\<close>

text \<open>
  The caches come from a third-party LRU package: what an \<open>Add\<close> evicts is a parameter \<open>ev\<close>, of
  which the code only relies on that it drops entries and invents none (\<open>evicts_only ev\<close>).
\<close>

definition evicts_only :: "(('k \<rightharpoonup> 'v) \<Rightarrow> ('k \<rightharpoonup> 'v)) \<Rightarrow> bool" where
  "evicts_only ev \<longleftrightarrow> (\<forall>m. ev m \<subseteq>\<^sub>m m)"

definition cache_Add :: "(('k \<rightharpoonup> 'v) \<Rightarrow> ('k \<rightharpoonup> 'v)) \<Rightarrow> 'k \<Rightarrow> 'v \<Rightarrow> ('k \<rightharpoonup> 'v) \<Rightarrow> ('k \<rightharpoonup> 'v)" where
  "cache_Add ev k v m = ev (m(k \<mapsto> v))"

lemma evicts_only_id [simp]: "evicts_only (\<lambda>m. m)"
  by (simp add: evicts_only_def)

lemma cache_Add_Some:
  assumes "evicts_only ev" and "cache_Add ev k v m j = Some u"
  shows "(j = k \<and> u = v) \<or> (j \<noteq> k \<and> m j = Some u)"
proof -
  have "ev (m(k \<mapsto> v)) \<subseteq>\<^sub>m m(k \<mapsto> v)"
    using assms(1) by (simp add: evicts_only_def)
  then have "(m(k \<mapsto> v)) j = Some u"
    using assms(2) unfolding cache_Add_def map_le_def by (metis domI)
  then show ?thesis by (auto split: if_splits)
qed

section \<open>Lists\<close>

lemma filter_single_iff:
  "length (filter P xs) = 1 \<longleftrightarrow> (\<exists>ys x zs. xs = ys @ x # zs \<and> P x \<and>
     (\<forall>y \<in> set ys. \<not> P y) \<and> (\<forall>z \<in> set zs. \<not> P z))"
proof
  assume "length (filter P xs) = 1"
  then obtain x where x: "filter P xs = [x]"
    by (metis One_nat_def length_0_conv length_Suc_conv)
  then obtain ys zs where "xs = ys @ x # zs" "\<forall>y\<in>set ys. \<not> P y" "P x" "[] = filter P zs"
    using filter_eq_Cons_iff[of P xs x "[]"] by auto
  then show "\<exists>ys x zs. xs = ys @ x # zs \<and> P x \<and>
     (\<forall>y \<in> set ys. \<not> P y) \<and> (\<forall>z \<in> set zs. \<not> P z)"
    by (metis filter_empty_conv)
qed (auto simp: filter_empty_conv)

section \<open>Runs\<close>

text \<open>The goroutines of a component are a step relation; what each step keeps holds in every run.\<close>

locale step_invariant =
  fixes step :: "'s \<Rightarrow> 's \<Rightarrow> bool" and keeps :: "'s \<Rightarrow> bool"
  assumes step_keeps: "step x y \<Longrightarrow> keeps x \<Longrightarrow> keeps y"
begin

lemma run_keeps: "step\<^sup>*\<^sup>* x y \<Longrightarrow> keeps x \<Longrightarrow> keeps y"
  by (induction rule: rtranclp_induct) (auto intro: step_keeps)

end

end
