(* ===== verification/Conversion.thy ===== *)
theory Conversion
  imports Go_Prelude
begin

text \<open>
  The integer conversions of \<^verbatim>\<open>pkg/conversion/conversion.go\<close>. A function that returns an
  error yields \<open>Fail\<close>, one that panics yields \<open>Panic\<close>; the converted value is the word the Go
  conversion produces (its low bits), so an unchecked upper bound shows as truncation.
\<close>

definition outOfRangeFor :: "string \<Rightarrow> int \<Rightarrow> msgtext" where
  "outOfRangeFor ty v = [PStr (''value out of range for '' @ ty @ '': ''), PInt v]"

definition IntToInt32 :: "int \<Rightarrow> int32 res" where
  "IntToInt32 value =
     (if value < 0 \<or> value > 2147483647 then Fail (Err (outOfRangeFor ''int32'' value) [])
      else Ok (word_of_int value))"

definition IntToUInt32 :: "int \<Rightarrow> uint32 res" where
  "IntToUInt32 value =
     (if value < 0 then Fail (Err (outOfRangeFor ''uint32'' value) [])
      else Ok (word_of_int value))"

definition MustUInt32ToInt32 :: "uint32 \<Rightarrow> int32 res" where
  "MustUInt32ToInt32 value =
     (if value > 2147483647 then Panic (outOfRangeFor ''int32'' (uint value)) else Ok value)"

definition MustInt32ToUInt32 :: "int32 \<Rightarrow> uint32 res" where
  "MustInt32ToUInt32 value =
     (if sint value < 0 then Panic (outOfRangeFor ''uint32'' (sint value)) else Ok value)"

definition MustIntToUInt32 :: "int \<Rightarrow> uint32 res" where
  "MustIntToUInt32 value =
     (if value < 0 \<or> value > 4294967295 then Panic (outOfRangeFor ''uint32'' value)
      else Ok (word_of_int value))"

definition MustIntToUInt16 :: "int \<Rightarrow> uint16 res" where
  "MustIntToUInt16 value =
     (if value < 0 \<or> value > 65535 then Panic (outOfRangeFor ''uint16'' value)
      else Ok (word_of_int value))"

definition MustUInt64ToInt64 :: "uint64 \<Rightarrow> int64 res" where
  "MustUInt64ToInt64 value =
     (if value > 9223372036854775807 then Panic (outOfRangeFor ''int64'' (uint value))
      else Ok value)"

definition MustInt64ToUInt64 :: "int64 \<Rightarrow> uint64 res" where
  "MustInt64ToUInt64 value =
     (if sint value < 0 then Panic (outOfRangeFor ''uint64'' (sint value)) else Ok value)"

definition MustDurationToUInt64 :: "int64 \<Rightarrow> uint64 res" where
  "MustDurationToUInt64 value =
     (if sint value < 0 then Panic (outOfRangeFor ''uint64'' (sint value)) else Ok value)"

definition MustInt32ToUInt64 :: "int32 \<Rightarrow> uint64 res" where
  "MustInt32ToUInt64 value =
     (if sint value < 0 then Panic (outOfRangeFor ''uint64'' (sint value))
      else Ok (word_of_int (sint value)))"

definition ProtoEnumNumberToUInt16 :: "int32 \<Rightarrow> uint16 res" where
  "ProtoEnumNumberToUInt16 value =
     (if sint value < 0 \<or> sint value > 65535
      then Fail (Err (outOfRangeFor ''uint16'' (sint value)) [])
      else Ok (word_of_int (sint value)))"

lemmas conversion_defs = IntToInt32_def IntToUInt32_def MustUInt32ToInt32_def
  MustInt32ToUInt32_def MustIntToUInt32_def MustIntToUInt16_def MustUInt64ToInt64_def
  MustInt64ToUInt64_def MustDurationToUInt64_def MustInt32ToUInt64_def ProtoEnumNumberToUInt16_def

lemma MustIntToUInt16_Ok [simp]: "0 \<le> n \<Longrightarrow> n \<le> 65535 \<Longrightarrow> MustIntToUInt16 n = Ok (word_of_int n)"
  by (simp add: MustIntToUInt16_def)

lemma MustIntToUInt32_Ok [simp]:
  "0 \<le> n \<Longrightarrow> n \<le> 4294967295 \<Longrightarrow> MustIntToUInt32 n = Ok (word_of_int n)"
  by (simp add: MustIntToUInt32_def)

section \<open>A conversion is faithful\<close>

text \<open>
  The contract the doc comments of the package promise: \<open>conv\<close> returns a value exactly for the
  inputs inside \<open>dom_ok\<close>, and the value returned denotes the same number.
\<close>

locale checked_conversion =
  fixes conv :: "'a \<Rightarrow> 'b res"
    and num :: "'a \<Rightarrow> int"
    and out :: "'b \<Rightarrow> int"
    and hi :: int
  assumes conv_ok: "0 \<le> num a \<Longrightarrow> num a \<le> hi \<Longrightarrow> \<exists>b. conv a = Ok b \<and> out b = num a"
    and conv_bad: "num a < 0 \<or> hi < num a \<Longrightarrow> \<exists>t. conv a = Fail t \<or> (\<exists>m. conv a = Panic m)"
begin

lemma conv_iff: "(\<exists>b. conv a = Ok b) \<longleftrightarrow> 0 \<le> num a \<and> num a \<le> hi"
  using conv_ok[of a] conv_bad[of a] by (metis linorder_not_less res.distinct(1,3))

lemma conv_exact: "conv a = Ok b \<Longrightarrow> out b = num a"
  using conv_ok[of a] conv_iff[of a] by force

end

lemma sint_eq_uint32: "uint (w :: 32 word) \<le> 2147483647 \<Longrightarrow> sint w = uint w"
  by (simp add: sint_uint signed_take_bit_int_eq_self[where n = 31] order_trans[OF _ uint_ge_0])

lemma sint_eq_uint64: "uint (w :: 64 word) \<le> 9223372036854775807 \<Longrightarrow> sint w = uint w"
  by (simp add: sint_uint signed_take_bit_int_eq_self[where n = 63] order_trans[OF _ uint_ge_0])

lemma uint_eq_sint: "0 \<le> sint (w :: 'a::len word) \<Longrightarrow> uint w = sint w"
proof -
  assume "0 \<le> sint w"
  moreover have "sint w < 2 ^ LENGTH('a)"
    using sint_lt[of w] by (rule order_less_le_trans) simp
  ultimately show ?thesis
    by (simp add: uint_sint take_bit_int_eq_self)
qed

lemma sint32_not_gt: "\<not> 2147483647 < sint (w :: 32 word)"
  using sint_lt[of w] by simp

lemma sint64_not_gt: "\<not> 9223372036854775807 < sint (w :: 64 word)"
  using sint_lt[of w] by simp

lemma uint_scast_eq:
  "0 \<le> sint w \<Longrightarrow> sint w < 2 ^ LENGTH('b) \<Longrightarrow> uint (scast w :: 'b::len word) = sint w"
  by (simp only: scast_eq unsigned_of_int of_int_eq_id id_apply take_bit_int_eq_self)

lemmas of_int_words = signed_of_int unsigned_of_int signed_take_bit_int_eq_self take_bit_int_eq_self

interpretation c_IntToInt32: checked_conversion IntToInt32 "\<lambda>n. n" sint 2147483647
  by unfold_locales (auto simp: IntToInt32_def of_int_words)

interpretation c_MustUInt32ToInt32: checked_conversion MustUInt32ToInt32 uint sint 2147483647
  by unfold_locales (auto simp: MustUInt32ToInt32_def word_less_def sint_eq_uint32)

interpretation c_MustInt32ToUInt32: checked_conversion MustInt32ToUInt32 sint uint 2147483647
  by unfold_locales (auto simp: MustInt32ToUInt32_def uint_eq_sint sint32_not_gt)

interpretation c_MustIntToUInt32: checked_conversion MustIntToUInt32 "\<lambda>n. n" uint 4294967295
  by unfold_locales (auto simp: MustIntToUInt32_def of_int_words)

interpretation c_MustIntToUInt16: checked_conversion MustIntToUInt16 "\<lambda>n. n" uint 65535
  by unfold_locales (auto simp: MustIntToUInt16_def of_int_words)

interpretation c_MustUInt64ToInt64:
  checked_conversion MustUInt64ToInt64 uint sint 9223372036854775807
  by unfold_locales (auto simp: MustUInt64ToInt64_def word_less_def sint_eq_uint64)

interpretation c_MustInt64ToUInt64:
  checked_conversion MustInt64ToUInt64 sint uint 9223372036854775807
  by unfold_locales (auto simp: MustInt64ToUInt64_def uint_eq_sint sint64_not_gt)

interpretation c_MustDurationToUInt64:
  checked_conversion MustDurationToUInt64 sint uint 9223372036854775807
  by unfold_locales (auto simp: MustDurationToUInt64_def uint_eq_sint sint64_not_gt)

interpretation c_MustInt32ToUInt64: checked_conversion MustInt32ToUInt64 sint uint 2147483647
  by unfold_locales (auto simp: MustInt32ToUInt64_def uint_scast_eq sint32_not_gt)

interpretation c_ProtoEnum: checked_conversion ProtoEnumNumberToUInt16 sint uint 65535
  by unfold_locales (auto simp: ProtoEnumNumberToUInt16_def uint_scast_eq)

section \<open>Properties\<close>


text \<open>\<open>IntToUInt32\<close> alone checks no upper bound: it returns a value for every
  non-negative argument, and that value is the argument reduced modulo \<open>2^32\<close>, so from \<open>2^32\<close>
  on it silently returns another number although its comment promises an error.\<close>

lemma IntToUInt32_truncates:
  "0 \<le> n \<Longrightarrow> (\<exists>r. IntToUInt32 n = Ok r \<and> uint r = n mod 2 ^ 32 \<and> (uint r = n \<longleftrightarrow> n < 2 ^ 32))"
  by (auto simp: IntToUInt32_def unsigned_of_int take_bit_eq_mod)

lemma IntToUInt32_truncates_witness: "IntToUInt32 4294967301 = Ok 5"
  using IntToUInt32_truncates[of 4294967301] by (simp add: IntToUInt32_def)

end
