(* ===== verification/Price.thy ===== *)
theory Price
  imports Conversion
begin

text \<open>
  Prices: \<^verbatim>\<open>pkg/price/price.go\<close> (a decimal string scaled to an integer amount),
  \<^verbatim>\<open>pkg/erc20/erc20.go\<close> (token decimals, allowances and approvals through a cache of contract
  bindings) and \<^verbatim>\<open>internal/price/price.go\<close> (the amount, payment token and ISO currency of a
  message's price in its versions 3, 4 and 5). Contract bindings and go-ethereum's address parsing
  are parameters.
\<close>

section \<open>Scaling a decimal price (pkg/price)\<close>

abbreviation NativeTokenDecimals :: int32 where "NativeTokenDecimals \<equiv> 18"
abbreviation ISODecimals :: int32 where "ISODecimals \<equiv> 6"

text \<open>\<open>(*big.Int).SetString(s, 10)\<close>: an optional sign, then one or more decimal digits and
  nothing else.\<close>

definition digit_val :: "char \<Rightarrow> int option" where
  "digit_val c = (let n = of_char c :: int in if 48 \<le> n \<and> n \<le> 57 then Some (n - 48) else None)"

fun parse_digits :: "int \<Rightarrow> string \<Rightarrow> int option" where
  "parse_digits acc [] = Some acc"
| "parse_digits acc (c # cs) =
     (case digit_val c of None \<Rightarrow> None | Some d \<Rightarrow> parse_digits (10 * acc + d) cs)"

definition parse_nat10 :: "string \<Rightarrow> int option" where
  "parse_nat10 s = (if s = [] then None else parse_digits 0 s)"

definition SetString10 :: "string \<Rightarrow> int option" where
  "SetString10 s =
     (case s of
        [] \<Rightarrow> None
      | c # cs \<Rightarrow>
          if c = CHR ''-'' then map_option uminus (parse_nat10 cs)
          else if c = CHR ''+'' then parse_nat10 cs
          else parse_nat10 s)"

text \<open>\<open>(*big.Int).Exp(x, y, nil)\<close>: \<open>x\<close> to the power \<open>y\<close>, and 1 when \<open>y\<close> is not positive.\<close>

definition big_Exp :: "int \<Rightarrow> int \<Rightarrow> int" where
  "big_Exp x y = (if y \<le> 0 then 1 else x ^ nat y)"

definition ToBigInt :: "string \<Rightarrow> int32 \<Rightarrow> int32 \<Rightarrow> int res" where
  "ToBigInt value decimals totalDecimals =
     (if sint decimals > sint totalDecimals
      then Fail (Err [PStr ''decimals ('', PInt (sint decimals), PStr '') > ('',
                      PInt (sint totalDecimals), PStr '') totalDecimals''] [])
      else case SetString10 value of
        None \<Rightarrow> Fail (Err [PStr ''failed to convert value to big.Int: '', PStr value] [])
      | Some valueBigInt \<Rightarrow>
          let multiplier = big_Exp 10 (sint (totalDecimals - decimals))
          in Ok (valueBigInt * multiplier))"

section \<open>ERC20 contracts (pkg/erc20)\<close>

text \<open>
  The environment of the ERC20 service: creating a contract binding, the binding's calls, sending
  an approval and waiting for it to be mined (\<open>Ok True\<close> for a successful receipt). \<open>erc20_evict\<close>
  is what the LRU cache evicts after an \<open>Add\<close>.
\<close>

record 'c erc20_env =
  NewErc20 :: "address \<Rightarrow> 'c res"
  contract_Decimals :: "'c \<Rightarrow> byte res"
  contract_Allowance :: "'c \<Rightarrow> address \<Rightarrow> address \<Rightarrow> int res"
  contract_Approve :: "'c \<Rightarrow> address \<Rightarrow> int \<Rightarrow> hash res"
  WaitMined_status :: "hash \<Rightarrow> bool res"
  erc20_evict :: "(address \<rightharpoonup> 'c) \<Rightarrow> (address \<rightharpoonup> 'c)"

record 'c erc20Service =
  erc20Cache :: "address \<rightharpoonup> 'c"

definition erc20 :: "'c erc20_env \<Rightarrow> 'c erc20Service \<Rightarrow> address \<Rightarrow> 'c res \<times> 'c erc20Service" where
  "erc20 env s contractAddress =
     (case erc20Cache s contractAddress of
        Some tokenContract \<Rightarrow> (Ok tokenContract, s)
      | None \<Rightarrow>
          (case NewErc20 env contractAddress of
             Ok tokenContract \<Rightarrow>
               (Ok tokenContract,
                s\<lparr>erc20Cache := cache_Add (erc20_evict env) contractAddress tokenContract (erc20Cache s)\<rparr>)
           | Fail e \<Rightarrow> (Fail (wrap ''failed to instantiate ERC20 contract: '' e), s)
           | Panic t \<Rightarrow> (Panic t, s)))"

definition Decimals :: "'c erc20_env \<Rightarrow> 'c erc20Service \<Rightarrow> address \<Rightarrow> int32 res \<times> 'c erc20Service" where
  "Decimals env s contractAddress =
     (case erc20 env s contractAddress of (r, s') \<Rightarrow>
        (onErr r (\<lambda>e. e) (\<lambda>tokenContract.
           onErr (contract_Decimals env tokenContract) (wrap ''failed to fetch token decimals: '')
             (\<lambda>decimals. Ok (ucast decimals))), s'))"

definition Allowance ::
  "'c erc20_env \<Rightarrow> 'c erc20Service \<Rightarrow> address \<Rightarrow> address \<Rightarrow> address \<Rightarrow> int res \<times> 'c erc20Service" where
  "Allowance env s contractAddress owner spender =
     (case erc20 env s contractAddress of (r, s') \<Rightarrow>
        (onErr r (\<lambda>e. e) (\<lambda>tokenContract.
           onErr (contract_Allowance env tokenContract owner spender)
             (wrap ''failed to fetch allowance: '') (\<lambda>allowance. Ok allowance)), s'))"

definition Approve ::
  "'c erc20_env \<Rightarrow> 'c erc20Service \<Rightarrow> address \<Rightarrow> address \<Rightarrow> int \<Rightarrow> unit res \<times> 'c erc20Service" where
  "Approve env s contractAddress spender price =
     (case erc20 env s contractAddress of (r, s') \<Rightarrow>
        (onErr r (\<lambda>e. e) (\<lambda>tokenContract.
           onErr (contract_Approve env tokenContract spender price)
             (wrap ''failed to approve token spending: '') (\<lambda>approveTx.
           onErr (WaitMined_status env approveTx)
             (wrap ''failed to wait for approval transaction to be mined: '') (\<lambda>successful.
             if successful then Ok ()
             else Fail (Err [PStr ''approval transaction failed: '', PHash approveTx] [])))), s'))"

section \<open>Price handler (internal/price)\<close>

abbreviation NativePaymentToken :: address where "NativePaymentToken \<equiv> 0"
abbreviation ISOPaymentToken :: address where "ISOPaymentToken \<equiv> 1"

text \<open>
  A protobuf price as the handler reads it. The one-of \<open>currency\<close> is \<open>None\<close> when the message
  sets none of the alternatives (or has no currency message at all). In version 3 the token is a
  message holding an optional contract address message, in versions 4 and 5 a message holding the
  address string; \<open>None\<close> stands for the nil message the code dereferences.
\<close>

datatype currencyV3 = NativeTokenV3 | TokenCurrencyV3 "string option" | IsoCurrencyV3 int32

record priceV3 =
  ValueV3 :: string
  DecimalsV3 :: int32
  CurrencyV3 :: "currencyV3 option"

datatype currencyV4 = NativeTokenV4 | TokenCurrencyV4 "string option" | IsoCurrencyV4 int32

record priceV4 =
  Value :: string
  PriceDecimals :: uint32
  Currency :: "currencyV4 option"

type_synonym priceV5 = priceV4

definition errMissingPrice :: err where "errMissingPrice = Sentinel ''missing price''"
definition errUnknownCurrency :: err where "errUnknownCurrency = Sentinel ''unknown currency''"

definition nilDereference :: msgtext where
  "nilDereference = [PStr ''runtime error: invalid memory address or nil pointer dereference'']"

text \<open>\<open>HexToAddress\<close> is go-ethereum's parsing of an address string.\<close>

definition GetPriceAndTokenV3 ::
  "(string \<Rightarrow> address) \<Rightarrow> 'c erc20_env \<Rightarrow> 'c erc20Service \<Rightarrow> priceV3 option \<Rightarrow>
   (int \<times> address \<times> int) res \<times> 'c erc20Service" where
  "GetPriceAndTokenV3 HexToAddress env s price =
     (case price of None \<Rightarrow> (Fail errMissingPrice, s) | Some p \<Rightarrow>
      let toBig = (\<lambda>total paymentToken isoCurrency.
            onErr (ToBigInt (ValueV3 p) (DecimalsV3 p) total)
              (wrap ''failed to convert price to big.Int: '')
              (\<lambda>priceBigInt. Ok (priceBigInt, paymentToken, isoCurrency)))
      in case CurrencyV3 p of
           Some NativeTokenV3 \<Rightarrow> (toBig NativeTokenDecimals NativePaymentToken 0, s)
         | Some (TokenCurrencyV3 None) \<Rightarrow> (Panic nilDereference, s)
         | Some (TokenCurrencyV3 (Some addr)) \<Rightarrow>
             let contractAddress = HexToAddress addr
             in (case Decimals env s contractAddress of (r, s') \<Rightarrow>
                   (onErr r (wrap ''failed to fetch token decimals: '')
                      (\<lambda>tokenDecimals. toBig tokenDecimals contractAddress 0), s'))
         | Some (IsoCurrencyV3 isoCode) \<Rightarrow> (toBig ISODecimals ISOPaymentToken (sint isoCode), s)
         | None \<Rightarrow> (Fail (Err (Error errUnknownCurrency @ [PStr '' (<nil>)'']) [errUnknownCurrency]), s))"

definition GetPriceAndTokenV4 ::
  "(string \<Rightarrow> address) \<Rightarrow> 'c erc20_env \<Rightarrow> 'c erc20Service \<Rightarrow> priceV4 option \<Rightarrow>
   (int \<times> address \<times> int) res \<times> 'c erc20Service" where
  "GetPriceAndTokenV4 HexToAddress env s price =
     (case price of None \<Rightarrow> (Fail errMissingPrice, s) | Some p \<Rightarrow>
      let toBig = (\<lambda>total paymentToken isoCurrency.
            onErr (MustUInt32ToInt32 (PriceDecimals p)) (\<lambda>e. e) (\<lambda>decimals.
            onErr (ToBigInt (Value p) decimals total)
              (wrap ''failed to convert price to big.Int: '')
              (\<lambda>priceBigInt. Ok (priceBigInt, paymentToken, isoCurrency))))
      in case Currency p of
           Some NativeTokenV4 \<Rightarrow> (toBig NativeTokenDecimals NativePaymentToken 0, s)
         | Some (TokenCurrencyV4 None) \<Rightarrow> (Panic nilDereference, s)
         | Some (TokenCurrencyV4 (Some addr)) \<Rightarrow>
             let contractAddress = HexToAddress addr
             in (case Decimals env s contractAddress of (r, s') \<Rightarrow>
                   (onErr r (wrap ''failed to fetch token decimals: '')
                      (\<lambda>tokenDecimals. toBig tokenDecimals contractAddress 0), s'))
         | Some (IsoCurrencyV4 isoCode) \<Rightarrow> (toBig ISODecimals ISOPaymentToken (sint isoCode), s)
         | None \<Rightarrow> (Fail (Err (Error errUnknownCurrency @ [PStr '' (<nil>)'']) [errUnknownCurrency]), s))"

definition GetPriceAndTokenV5 ::
  "(string \<Rightarrow> address) \<Rightarrow> 'c erc20_env \<Rightarrow> 'c erc20Service \<Rightarrow> priceV5 option \<Rightarrow>
   (int \<times> address \<times> int) res \<times> 'c erc20Service" where
  "GetPriceAndTokenV5 HexToAddress env s price =
     (case price of None \<Rightarrow> (Fail errMissingPrice, s) | Some p \<Rightarrow>
      let toBig = (\<lambda>total paymentToken isoCurrency.
            onErr (MustUInt32ToInt32 (PriceDecimals p)) (\<lambda>e. e) (\<lambda>decimals.
            onErr (ToBigInt (Value p) decimals total)
              (wrap ''failed to convert price to big.Int: '')
              (\<lambda>priceBigInt. Ok (priceBigInt, paymentToken, isoCurrency))))
      in case Currency p of
           Some NativeTokenV4 \<Rightarrow> (toBig NativeTokenDecimals NativePaymentToken 0, s)
         | Some (TokenCurrencyV4 None) \<Rightarrow> (Panic nilDereference, s)
         | Some (TokenCurrencyV4 (Some addr)) \<Rightarrow>
             let contractAddress = HexToAddress addr
             in (case Decimals env s contractAddress of (r, s') \<Rightarrow>
                   (onErr r (wrap ''failed to fetch token decimals: '')
                      (\<lambda>tokenDecimals. toBig tokenDecimals contractAddress 0), s'))
         | Some (IsoCurrencyV4 isoCode) \<Rightarrow> (toBig ISODecimals ISOPaymentToken (sint isoCode), s)
         | None \<Rightarrow> (Fail (Err (Error errUnknownCurrency @ [PStr '' (<nil>)'']) [errUnknownCurrency]), s))"

section \<open>The contract of the price handlers\<close>

text \<open>
  What the three handlers promise of a price with value string \<open>v\<close>, \<open>d\<close> decimals and a currency
  (read into one abstract type): the amount is the decoded value rescaled, without rounding, from
  \<open>d\<close> decimals to the decimals of the currency it is paid in.
\<close>

datatype payIn = PayNative | PayToken "string option" | PayIso int

fun payV3 :: "currencyV3 \<Rightarrow> payIn" where
  "payV3 NativeTokenV3 = PayNative"
| "payV3 (TokenCurrencyV3 a) = PayToken a"
| "payV3 (IsoCurrencyV3 c) = PayIso (sint c)"

fun payV4 :: "currencyV4 \<Rightarrow> payIn" where
  "payV4 NativeTokenV4 = PayNative"
| "payV4 (TokenCurrencyV4 a) = PayToken a"
| "payV4 (IsoCurrencyV4 c) = PayIso (sint c)"

fun currency_terms ::
  "(string \<Rightarrow> address) \<Rightarrow> 'c erc20_env \<Rightarrow> 'c erc20Service \<Rightarrow> payIn \<Rightarrow> int \<Rightarrow> address \<Rightarrow> int \<Rightarrow> bool" where
  "currency_terms hex env s PayNative tot token iso' \<longleftrightarrow>
     tot = 18 \<and> token = NativePaymentToken \<and> iso' = 0"
| "currency_terms hex env s (PayIso c) tot token iso' \<longleftrightarrow>
     tot = 6 \<and> token = ISOPaymentToken \<and> iso' = c"
| "currency_terms hex env s (PayToken a) tot token iso' \<longleftrightarrow>
     iso' = 0 \<and> (\<exists>addr d. a = Some addr \<and> token = hex addr \<and>
       fst (Decimals env s token) = Ok d \<and> tot = sint d)"

definition scaled_price ::
  "(string \<Rightarrow> address) \<Rightarrow> 'c erc20_env \<Rightarrow> 'c erc20Service \<Rightarrow> string \<Rightarrow> int \<Rightarrow> payIn option \<Rightarrow>
   int \<times> address \<times> int \<Rightarrow> bool" where
  "scaled_price hex env s v d cur r \<longleftrightarrow>
     (case r of (amount, token, iso') \<Rightarrow>
       \<exists>x tot c. SetString10 v = Some x \<and> cur = Some c \<and> d \<le> tot \<and>
         amount * 10 ^ nat d = x * 10 ^ nat tot \<and> currency_terms hex env s c tot token iso')"

lemma sint_word_of_int32: "- (2 ^ 31) \<le> n \<Longrightarrow> n < 2 ^ 31 \<Longrightarrow> sint (word_of_int n :: 32 word) = n"
  by (simp add: signed_of_int signed_take_bit_int_eq_self)

lemma sint_minus32:
  fixes a b :: "32 word"
  assumes "0 \<le> sint b" and "sint b \<le> sint a"
  shows "sint (a - b) = sint a - sint b"
proof -
  have "sint a < 2 ^ 31" using sint_lt[of a] by simp
  then have "sint (word_of_int (sint a - sint b) :: 32 word) = sint a - sint b"
    using assms by (intro sint_word_of_int32) linarith+
  then show ?thesis by (simp add: scast_id)
qed

lemma big_Exp_10: "0 \<le> n \<Longrightarrow> big_Exp 10 n = 10 ^ nat n"
  by (simp add: big_Exp_def)

lemma ToBigInt_OkD:
  assumes "ToBigInt v d t = Ok amount" and "0 \<le> sint d"
  shows "sint d \<le> sint t \<and> (\<exists>x. SetString10 v = Some x \<and>
           amount * 10 ^ nat (sint d) = x * 10 ^ nat (sint t))"
proof -
  from assms(1) obtain x where x: "sint d \<le> sint t" "SetString10 v = Some x"
      "amount = x * big_Exp 10 (sint (t - d))"
    by (auto simp: ToBigInt_def Let_def split: if_splits option.splits)
  have "nat (sint t) = nat (sint t - sint d) + nat (sint d)"
    using x(1) assms(2) by linarith
  then have "amount * 10 ^ nat (sint d) = x * 10 ^ nat (sint t)"
    using x assms(2) by (simp add: sint_minus32 big_Exp_10 power_add)
  with x show ?thesis by blast
qed

text \<open>
  The interface of the three handlers: \<open>get\<close> reads a message whose value string, decimals and
  currency are \<open>val\<close>, \<open>decs\<close> and \<open>cur\<close>; the decimals it scales from are the \<open>conv\<close> of the
  message's field.
\<close>

locale price_handler =
  fixes get :: "'c erc20Service \<Rightarrow> 'p option \<Rightarrow> (int \<times> address \<times> int) res \<times> 'c erc20Service"
    and hex :: "string \<Rightarrow> address"
    and env :: "'c erc20_env"
    and val :: "'p \<Rightarrow> string"
    and decs :: "'p \<Rightarrow> int"
    and conv :: "'p \<Rightarrow> int32 res"
    and cur :: "'p \<Rightarrow> payIn option"
  assumes get_missing: "get s None = (Fail errMissingPrice, s)"
    and get_unknown: "cur p = None \<Longrightarrow> \<exists>e. fst (get s (Some p)) = Fail e \<and> errors_Is e ''unknown currency''"
    and get_Ok: "fst (get s (Some p)) = Ok (amount, token, iso') \<Longrightarrow>
      \<exists>c d tot. cur p = Some c \<and> conv p = Ok d \<and> ToBigInt (val p) d tot = Ok amount \<and>
        currency_terms hex env s c (sint tot) token iso'"
    and conv_exact: "conv p = Ok d \<Longrightarrow> sint d = decs p"
begin

lemma get_scaled:
  assumes "fst (get s p) = Ok (amount, token, iso')" and "\<And>q. p = Some q \<Longrightarrow> 0 \<le> decs q"
  shows "\<exists>q. p = Some q \<and> scaled_price hex env s (val q) (decs q) (cur q) (amount, token, iso')"
proof (cases p)
  case None
  then show ?thesis using assms(1) by (simp add: get_missing)
next
  case (Some q)
  with assms(1) get_Ok obtain c d tot where *: "cur q = Some c" "conv q = Ok d"
      "ToBigInt (val q) d tot = Ok amount" "currency_terms hex env s c (sint tot) token iso'"
    by blast
  moreover have "sint d = decs q" and "0 \<le> sint d"
    using conv_exact[OF *(2)] assms(2)[OF Some] by simp_all
  ultimately have "sint d \<le> sint tot \<and> (\<exists>x. SetString10 (val q) = Some x \<and>
           amount * 10 ^ nat (sint d) = x * 10 ^ nat (sint tot))"
    using ToBigInt_OkD by blast
  with * \<open>sint d = decs q\<close> Some show ?thesis
    unfolding scaled_price_def by auto
qed

end

lemma ToBigInt_fixed_decimals:
  "ToBigInt v d NativeTokenDecimals = Ok a \<Longrightarrow> \<exists>tot. ToBigInt v d tot = Ok a \<and> sint tot = 18"
  "ToBigInt v d ISODecimals = Ok a \<Longrightarrow> \<exists>tot. ToBigInt v d tot = Ok a \<and> sint tot = 6"
  by (rule exI, rule conjI, assumption, simp)+

lemmas price_handler_simps = GetPriceAndTokenV3_def GetPriceAndTokenV4_def GetPriceAndTokenV5_def
  errUnknownCurrency_def Let_def onErr_eq_Ok_iff

interpretation priceV3: price_handler "GetPriceAndTokenV3 hex env" hex env ValueV3
  "\<lambda>p. sint (DecimalsV3 p)" "\<lambda>p. Ok (DecimalsV3 p)" "\<lambda>p. map_option payV3 (CurrencyV3 p)"
  by unfold_locales (auto simp: price_handler_simps ToBigInt_fixed_decimals
      split: option.splits currencyV3.splits prod.splits)

interpretation priceV4: price_handler "GetPriceAndTokenV4 hex env" hex env Value
  "\<lambda>p. uint (PriceDecimals p)" "\<lambda>p. MustUInt32ToInt32 (PriceDecimals p)"
  "\<lambda>p. map_option payV4 (Currency p)"
  by unfold_locales (auto simp: price_handler_simps ToBigInt_fixed_decimals
      split: option.splits currencyV4.splits prod.splits dest: c_MustUInt32ToInt32.conv_exact)

interpretation priceV5: price_handler "GetPriceAndTokenV5 hex env" hex env Value
  "\<lambda>p. uint (PriceDecimals p)" "\<lambda>p. MustUInt32ToInt32 (PriceDecimals p)"
  "\<lambda>p. map_option payV4 (Currency p)"
  by unfold_locales (auto simp: price_handler_simps ToBigInt_fixed_decimals
      split: option.splits currencyV4.splits prod.splits dest: c_MustUInt32ToInt32.conv_exact)

section \<open>Properties\<close>

text \<open>Property C17: whatever handler version reads a price, a returned amount is the decimal value
  of the message rescaled exactly (no rounding, no overflow) from the message's decimals to 18 for
  the native token, 6 for an ISO currency, and the ERC20 contract's own decimals for a token; the
  payment token is the zero address, the address 1 or the parsed contract address, and an ISO code
  is returned for ISO prices only. (A version 3 message can carry negative decimals, which the
  theorem excludes for that version only.)\<close>

lemma GetPriceAndToken_scaled:
  "(\<forall>p3. fst (GetPriceAndTokenV3 hex env s (Some p3)) = Ok (amount, token, iso') \<longrightarrow>
      0 \<le> sint (DecimalsV3 p3) \<longrightarrow>
      scaled_price hex env s (ValueV3 p3) (sint (DecimalsV3 p3)) (map_option payV3 (CurrencyV3 p3))
        (amount, token, iso')) \<and>
   (\<forall>p4. fst (GetPriceAndTokenV4 hex env s (Some p4)) = Ok (amount, token, iso') \<longrightarrow>
      scaled_price hex env s (Value p4) (uint (PriceDecimals p4)) (map_option payV4 (Currency p4))
        (amount, token, iso')) \<and>
   (\<forall>p5. fst (GetPriceAndTokenV5 hex env s (Some p5)) = Ok (amount, token, iso') \<longrightarrow>
      scaled_price hex env s (Value p5) (uint (PriceDecimals p5)) (map_option payV4 (Currency p5))
        (amount, token, iso'))"
  using priceV3.get_scaled priceV4.get_scaled priceV5.get_scaled by fastforce

definition sample_erc20 :: "address erc20_env" where
  "sample_erc20 = \<lparr>NewErc20 = Ok, contract_Decimals = (\<lambda>_. Ok 8),
     contract_Allowance = (\<lambda>_ _ _. Ok 0), contract_Approve = (\<lambda>_ _ _. Ok 0),
     WaitMined_status = (\<lambda>_. Ok True), erc20_evict = (\<lambda>m. m)\<rparr>"

lemma GetPriceAndToken_scaled_witness:
  "scaled_price (\<lambda>_. 9) sample_erc20 \<lparr>erc20Cache = Map.empty\<rparr> ''1250'' 2 (Some PayNative)
     (12500000000000000000, 0, 0) \<and>
   scaled_price (\<lambda>_. 9) sample_erc20 \<lparr>erc20Cache = Map.empty\<rparr> ''1250'' 2 (Some (PayToken (Some ''0x9'')))
     (1250000000, 9, 0)"
proof -
  let ?s = "\<lparr>erc20Cache = Map.empty\<rparr> :: address erc20Service"
  let ?p3 = "\<lparr>ValueV3 = ''1250'', DecimalsV3 = 2, CurrencyV3 = Some NativeTokenV3\<rparr>"
  let ?p4 = "\<lparr>Value = ''1250'', PriceDecimals = 2, Currency = Some (TokenCurrencyV4 (Some ''0x9''))\<rparr>"
  have "fst (GetPriceAndTokenV3 (\<lambda>_. 9) sample_erc20 ?s (Some ?p3)) = Ok (12500000000000000000, 0, 0)"
    by code_simp
  moreover have "fst (GetPriceAndTokenV4 (\<lambda>_. 9) sample_erc20 ?s (Some ?p4)) = Ok (1250000000, 9, 0)"
    by code_simp
  ultimately show ?thesis
    using GetPriceAndToken_scaled[of "\<lambda>_. 9" sample_erc20 ?s "12500000000000000000" 0 0]
      GetPriceAndToken_scaled[of "\<lambda>_. 9" sample_erc20 ?s "1250000000" 9 0] by force
qed

text \<open>A version 4 or 5 price whose decimals do not fit a signed 32-bit integer makes
  the handler panic instead of returning an error, for native and ISO prices always and for token
  prices whenever the token's decimals can be fetched.\<close>

lemma GetPriceAndTokenV4_V5_panic:
  assumes "uint (PriceDecimals p) > 2147483647"
    and "Currency p = Some NativeTokenV4 \<or> Currency p = Some (IsoCurrencyV4 c) \<or>
         (Currency p = Some (TokenCurrencyV4 (Some addr)) \<and> fst (Decimals env s (hex addr)) = Ok d)"
  shows "fst (GetPriceAndTokenV4 hex env s (Some p)) =
           Panic (outOfRangeFor ''int32'' (uint (PriceDecimals p))) \<and>
         fst (GetPriceAndTokenV5 hex env s (Some p)) =
           Panic (outOfRangeFor ''int32'' (uint (PriceDecimals p)))"
proof -
  have "MustUInt32ToInt32 (PriceDecimals p) = Panic (outOfRangeFor ''int32'' (uint (PriceDecimals p)))"
    using assms(1) by (simp add: MustUInt32ToInt32_def word_less_def)
  then show ?thesis
    using assms(2) by (auto simp: GetPriceAndTokenV4_def GetPriceAndTokenV5_def Let_def split: prod.splits)
qed

lemma GetPriceAndTokenV4_V5_panic_witness:
  "fst (GetPriceAndTokenV4 (\<lambda>_. 9) sample_erc20 \<lparr>erc20Cache = Map.empty\<rparr>
      (Some \<lparr>Value = ''1'', PriceDecimals = 2147483648, Currency = Some NativeTokenV4\<rparr>)) =
   Panic (outOfRangeFor ''int32'' 2147483648)"
  using GetPriceAndTokenV4_V5_panic[where env = sample_erc20 and
    p = "\<lparr>Value = ''1'', PriceDecimals = 2147483648, Currency = Some NativeTokenV4\<rparr>"]
  by simp

end
