(* ===== verification/Matrix_Login.thy ===== *)
theory Matrix_Login
  imports Go_Prelude
begin

text \<open>
  Logging in to the homeserver: the constructor in \<^verbatim>\<open>internal/matrix/client/client.go\<close> and
  \<^verbatim>\<open>internal/matrix/client/signing.go\<close>. The bot logs in with its public key and a signature of it, both printed in
  hex with a checksum. SHA-256, the signing of go-ethereum and mautrix are parameters.
\<close>

section \<open>Hex with a checksum (signing.go)\<close>

definition hexChar :: "nat \<Rightarrow> char" where "hexChar n = ''0123456789abcdef'' ! n"

definition hexByte :: "byte \<Rightarrow> string" where "hexByte b = [hexChar (unat b div 16), hexChar (unat b mod 16)]"

definition checksumLen :: nat where "checksumLen = 4"

definition hexWithChecksum :: "(bytes \<Rightarrow> bytes) \<Rightarrow> bytes \<Rightarrow> string res" where
  "hexWithChecksum sha256 bs =
     (if 2147483647 - checksumLen < length bs then Fail (Sentinel ''encoding overflow'')
      else let hash = sha256 bs
           in Ok (''0x'' @ concat (map hexByte (bs @ drop (length hash - checksumLen) hash))))"

record 'k login_env =
  sha256_Sum256 :: "bytes \<Rightarrow> bytes"
  FromECDSAPub :: "'k \<Rightarrow> bytes"
  login_Sign :: "bytes \<Rightarrow> 'k \<Rightarrow> bytes res"
  mautrix_NewClient :: "string \<Rightarrow> unit res"
  isDefaultSyncer :: bool
  NewCryptoHelper :: "string \<Rightarrow> unit res"
  cryptoHelper_Init :: "string \<Rightarrow> string \<Rightarrow> string res"

definition sign :: "'k login_env \<Rightarrow> bytes \<Rightarrow> 'k \<Rightarrow> bytes res" where
  "sign env msg key = onErr (login_Sign env (sha256_Sum256 env msg) key) (\<lambda>e. e) Ok"

definition SignPublicKey :: "'k login_env \<Rightarrow> 'k \<Rightarrow> (string \<times> string) res" where
  "SignPublicKey env key =
     (let pubKeyBytes = FromECDSAPub env key in
      onErr (sign env pubKeyBytes key) (\<lambda>e. e) (\<lambda>signatureBytes.
      onErr (hexWithChecksum (sha256_Sum256 env) signatureBytes) (\<lambda>e. e) (\<lambda>signature.
      onErr (hexWithChecksum (sha256_Sum256 env) pubKeyBytes) (\<lambda>e. e) (\<lambda>message. Ok (signature, message)))))"

section \<open>Login (client.go)\<close>

definition errNotDefaultSyncer :: err where
  "errNotDefaultSyncer = Sentinel ''matrix client syncer is not of type DefaultSyncer''"

text \<open>\<open>cryptoHelper.Init\<close> logs in with the key and the signature and yields the user ID.\<close>

definition initCryptoHelper :: "'k login_env \<Rightarrow> string \<Rightarrow> string \<Rightarrow> string \<Rightarrow> string res" where
  "initCryptoHelper env publicKey signature expectedBotUserID =
     onErr (cryptoHelper_Init env publicKey signature) (wrap ''failed to initialize crypto helper: '') (\<lambda>userID.
       if userID \<noteq> expectedBotUserID
       then Fail (Err [PStr ''logged in user ID '', PStr userID, PStr '' does not match expected bot user ID '', PStr expectedBotUserID] [])
       else Ok userID)"

text \<open>The constructor \<open>New\<close>: its result, the user ID of the client, and whether it leaves a crypto helper open. A failure to close
  the helper is only logged.\<close>

definition client_New :: "'k login_env \<Rightarrow> string \<Rightarrow> string \<Rightarrow> 'k \<Rightarrow> string \<Rightarrow> string res \<times> bool" where
  "client_New env homeserverURL dbPath botKey expectedBotUserID =
     (case mautrix_NewClient env homeserverURL of
        Fail e \<Rightarrow> (Fail (wrap ''failed to create matrix client: '' e), False)
      | Panic t \<Rightarrow> (Panic t, False)
      | Ok _ \<Rightarrow>
     if \<not> isDefaultSyncer env then (Fail errNotDefaultSyncer, False)
     else case NewCryptoHelper env dbPath of
        Fail e \<Rightarrow> (Fail (wrap ''failed to create crypto helper: '' e), False)
      | Panic t \<Rightarrow> (Panic t, False)
      | Ok _ \<Rightarrow>
     (case SignPublicKey env botKey of
        Fail e \<Rightarrow> (Fail (wrap ''failed to sign public key: '' e), True)
      | Panic t \<Rightarrow> (Panic t, True)
      | Ok (signature, message) \<Rightarrow>
     (case initCryptoHelper env (drop 2 message) (drop 2 signature) expectedBotUserID of
        Fail e \<Rightarrow> (Fail (wrap ''failed to initialize crypto helper: '' e), False)
      | Panic t \<Rightarrow> (Panic t, True)
      | Ok userID \<Rightarrow> (Ok userID, True))))"

section \<open>Reading the checksum back\<close>

text \<open>What a homeserver does with the printed text: read the hex digits and compare the last four bytes.\<close>

definition unhexChar :: "char \<Rightarrow> nat option" where
  "unhexChar c =
     (let n = of_char c :: nat in if 48 \<le> n \<and> n \<le> 57 then Some (n - 48) else if 97 \<le> n \<and> n \<le> 102 then Some (n - 87) else None)"

fun unhex :: "string \<Rightarrow> bytes option" where
  "unhex [] = Some []"
| "unhex (c # d # s) =
     (case (unhexChar c, unhexChar d, unhex s) of (Some m, Some n, Some bs) \<Rightarrow> Some (word_of_nat (16 * m + n) # bs) | _ \<Rightarrow> None)"
| "unhex _ = None"

definition checkedBytes :: "(bytes \<Rightarrow> bytes) \<Rightarrow> string \<Rightarrow> bytes option" where
  "checkedBytes sha256 s =
     (case unhex s of
        None \<Rightarrow> None
      | Some bs \<Rightarrow>
          (let n = length bs - checksumLen; hash = sha256 (take n bs)
           in if checksumLen \<le> length bs \<and> drop n bs = drop (length hash - checksumLen) hash then Some (take n bs) else None))"

lemma unhexChar_hexChar: "n < 16 \<Longrightarrow> unhexChar (hexChar n) = Some n"
proof -
  assume "n < 16"
  then have "n \<in> set [0..<16]" by simp
  moreover have "list_all (\<lambda>n. unhexChar (hexChar n) = Some n) [0..<16]" by code_simp
  ultimately show ?thesis by (simp add: list_all_iff)
qed

lemma unhex_hex: "unhex (concat (map hexByte bs)) = Some bs"
proof (induction bs)
  case (Cons b bs)
  have "unat b < 2 ^ 8" using unsigned_less[of b] by simp
  then have "unat b < 256" by simp
  then have "unat b div 16 < 16" "16 * (unat b div 16) + unat b mod 16 = unat b" by auto
  then show ?case using Cons by (simp add: hexByte_def unhexChar_hexChar)
qed simp

text \<open>The printed text is read back exactly, its checksum verified, if the hash has at least four bytes (SHA-256 has 32).\<close>

lemma hexWithChecksum_readable:
  assumes "hexWithChecksum sha256 bs = Ok s" and "checksumLen \<le> length (sha256 bs)"
  shows "checkedBytes sha256 (drop 2 s) = Some bs \<and> length s = 2 * length bs + 10"
proof -
  let ?sum = "drop (length (sha256 bs) - checksumLen) (sha256 bs)"
  have s: "s = ''0x'' @ concat (map hexByte (bs @ ?sum))" using assms(1) by (simp add: hexWithChecksum_def Let_def split: if_splits)
  have sum: "length ?sum = checksumLen" using assms(2) by simp
  have "checkedBytes sha256 (drop 2 s) = Some bs"
    using sum unfolding s by (simp add: checkedBytes_def unhex_hex Let_def del: map_append concat_append)
  moreover have "length (concat (map hexByte xs)) = 2 * length xs" for xs by (induction xs) (simp_all add: hexByte_def)
  ultimately show ?thesis using sum unfolding s by (simp add: checksumLen_def del: map_append concat_append)
qed

text \<open>A client exists only as the user the bot expects to be, and a login that fails leaves no crypto helper open; but a key that
  cannot be signed with does.\<close>

lemma client_New_identity:
  assumes "client_New env url path key expected = (r, helper)"
  shows "(\<forall>userID. r = Ok userID \<longrightarrow> userID = expected \<and> helper \<and> (\<exists>signature message. SignPublicKey env key = Ok (signature, message) \<and>
       cryptoHelper_Init env (drop 2 message) (drop 2 signature) = Ok expected)) \<and>
    (\<forall>e. r = Fail e \<and> helper \<longrightarrow> (\<exists>e'. SignPublicKey env key = Fail e'))"
  using assms by (auto simp: client_New_def initCryptoHelper_def onErr_def split: res.splits if_splits prod.splits)

end
