(* ===== verification/Matrix_Reassembly.thy ===== *)
theory Matrix_Reassembly
  imports Conversion
begin

text \<open>
  Receiving chunked messages: the event contents of \<^verbatim>\<open>pkg/matrix/matrix.go\<close> with their
  \<open>Verify\<close> methods, the reassembly of chunks and the eviction of stale partial messages of
  \<^verbatim>\<open>internal/matrix/messenger/messages.go\<close>, and the two message event handlers. The state is
  the messenger's \<open>chunkedMessages\<close> map; a handler's send on \<open>msgChannel\<close> is its optional
  result. The messenger's mutex makes each handler one atomic step.
\<close>

section \<open>Event contents (pkg/matrix)\<close>

record chunkData =
  MessageID :: string
  Data :: bytes

record messageChunkEventContent =
  mce_ChunkData :: chunkData
  ChunkIndex :: uint32

record signedMessageEventContent =
  sme_ChunkData :: chunkData
  ChunksCount :: uint32
  Signature :: bytes
  SenderTTMAccountAddress :: address

definition ErrWrongChunkIndex :: err where "ErrWrongChunkIndex = Sentinel ''wrong chunk index''"
definition ErrNoChunks :: err where "ErrNoChunks = Sentinel ''zero chunks count''"
definition ErrNoData :: err where "ErrNoData = Sentinel ''no data in message chunk''"
definition ErrNoMessageID :: err where "ErrNoMessageID = Sentinel ''missing message ID''"

definition ChunkData_Verify :: "chunkData \<Rightarrow> err option" where
  "ChunkData_Verify c =
     (if length (Data c) = 0 then Some ErrNoData
      else if MessageID c = '''' then Some ErrNoMessageID else None)"

definition MessageChunk_Verify :: "messageChunkEventContent \<Rightarrow> err option" where
  "MessageChunk_Verify e =
     (if ChunkIndex e = 0 then Some ErrWrongChunkIndex else ChunkData_Verify (mce_ChunkData e))"

definition SignedMessage_Verify :: "signedMessageEventContent \<Rightarrow> err option" where
  "SignedMessage_Verify e =
     (if ChunksCount e = 0 then Some ErrNoChunks else ChunkData_Verify (sme_ChunkData e))"

section \<open>Messages (internal/messaging/messenger.go)\<close>

record encodedSignedMessage =
  ChunkedEncodedMessage :: "bytes list"
  EncSignature :: bytes

record encodedSignedMessageWithSender =
  EncMessage :: encodedSignedMessage
  EncSenderTTMAccountAddress :: address
  SenderBotAddress :: address

section \<open>Reassembly state and operations\<close>

record chunkedMessage =
  chunksCount :: uint32
  fromTTMAccount :: address
  signature :: bytes
  chunks :: "uint32 \<rightharpoonup> bytes"
  firstSeen :: time

type_synonym partials = "string \<rightharpoonup> chunkedMessage"

abbreviation (input) partialMessageTTL :: duration where "partialMessageTTL \<equiv> 5 * minute"

text \<open>The two loops \<open>for i := uint32(0); i < chunksCount; i++\<close>, from an index \<open>i\<close> on.\<close>

function indexSetCompleteFrom :: "uint32 \<Rightarrow> uint32 \<Rightarrow> (uint32 \<rightharpoonup> bytes) \<Rightarrow> bool" where
  "indexSetCompleteFrom i n cs =
     (if i < n then (case cs i of None \<Rightarrow> False | Some _ \<Rightarrow> indexSetCompleteFrom (i + 1) n cs)
      else True)"
  by pat_completeness auto

function collectFrom :: "uint32 \<Rightarrow> uint32 \<Rightarrow> (uint32 \<rightharpoonup> bytes) \<Rightarrow> bytes list \<Rightarrow> bytes list" where
  "collectFrom i n cs acc =
     (if i < n then collectFrom (i + 1) n cs (acc @ [case cs i of None \<Rightarrow> [] | Some d \<Rightarrow> d])
      else acc)"
  by pat_completeness auto

lemma unat_Suc_lt:
  fixes i n :: "'a::len word"
  assumes "i < n"
  shows "unat (i + 1) = Suc (unat i)"
proof -
  have "unat i < unat n" and "unat n < 2 ^ LENGTH('a)"
    using assms by (simp_all add: word_less_nat_alt)
  then have "unat i + 1 < 2 ^ LENGTH('a)" by linarith
  then show ?thesis by (simp add: unat_word_ariths(1))
qed

termination indexSetCompleteFrom
  by (relation "measure (\<lambda>(i, n, _). unat n - unat i)") (auto simp: unat_Suc_lt word_less_nat_alt)

termination collectFrom
  by (relation "measure (\<lambda>(i, n, _). unat n - unat i)") (auto simp: unat_Suc_lt word_less_nat_alt)

declare indexSetCompleteFrom.simps [simp del]
declare collectFrom.simps [simp del]

definition messageIndexSetComplete :: "chunkedMessage \<Rightarrow> bool" where
  "messageIndexSetComplete message =
     (if chunksCount message = 0 then False
      else indexSetCompleteFrom 0 (chunksCount message) (chunks message))"

definition assembleEncodedMessage :: "chunkedMessage \<Rightarrow> encodedSignedMessageWithSender option" where
  "assembleEncodedMessage message =
     (if \<not> messageIndexSetComplete message then None
      else Some \<lparr>EncMessage = \<lparr>ChunkedEncodedMessage =
                    collectFrom 0 (chunksCount message) (chunks message) [],
                    EncSignature = signature message\<rparr>,
                  EncSenderTTMAccountAddress = fromTTMAccount message,
                  SenderBotAddress = 0\<rparr>)"

text \<open>
  \<open>addMessageChunk\<close> updates the message the map already holds (through its pointer), so the map
  it returns holds the updated message, or no longer holds it once it is complete.
\<close>

definition addMessageChunk ::
  "partials \<Rightarrow> chunkedMessage \<Rightarrow> chunkData \<Rightarrow> uint32 \<Rightarrow> partials \<times> chunkedMessage option" where
  "addMessageChunk msgs message chunkData chunkIndex =
     (if chunksCount message \<noteq> 0 \<and> chunkIndex \<ge> chunksCount message
      then (msgs(MessageID chunkData \<mapsto> message), None)
      else
        let message' = message\<lparr>chunks := (chunks message)(chunkIndex \<mapsto> Data chunkData)\<rparr>
        in if \<not> messageIndexSetComplete message'
           then (msgs(MessageID chunkData \<mapsto> message'), None)
           else (msgs(MessageID chunkData := None), Some message'))"

definition addMessageFirstChunk ::
  "time \<Rightarrow> partials \<Rightarrow> signedMessageEventContent \<Rightarrow> partials \<times> chunkedMessage option" where
  "addMessageFirstChunk now msgs eventContent =
     (let message = (case msgs (MessageID (sme_ChunkData eventContent)) of
            None \<Rightarrow> \<lparr>chunksCount = 0, fromTTMAccount = 0, signature = [], chunks = Map.empty,
                      firstSeen = now\<rparr>
          | Some message \<Rightarrow> message);
          message = message\<lparr>signature := Signature eventContent,
                            chunksCount := ChunksCount eventContent,
                            fromTTMAccount := SenderTTMAccountAddress eventContent\<rparr>
      in addMessageChunk msgs message (sme_ChunkData eventContent) 0)"

definition addMessageNextChunk ::
  "time \<Rightarrow> partials \<Rightarrow> messageChunkEventContent \<Rightarrow> partials \<times> chunkedMessage option" where
  "addMessageNextChunk now msgs eventContent =
     (let message = (case msgs (MessageID (mce_ChunkData eventContent)) of
            None \<Rightarrow> \<lparr>chunksCount = 0, fromTTMAccount = 0, signature = [], chunks = Map.empty,
                      firstSeen = now\<rparr>
          | Some message \<Rightarrow> message)
      in addMessageChunk msgs message (mce_ChunkData eventContent) (ChunkIndex eventContent))"

definition assembleOrDropMessage :: "chunkedMessage \<Rightarrow> encodedSignedMessageWithSender option" where
  "assembleOrDropMessage message =
     (case assembleEncodedMessage message of None \<Rightarrow> None | Some msg \<Rightarrow> Some msg)"

definition tryCompleteMessageWithFirstChunk ::
  "time \<Rightarrow> partials \<Rightarrow> signedMessageEventContent \<Rightarrow>
   partials \<times> encodedSignedMessageWithSender option" where
  "tryCompleteMessageWithFirstChunk now msgs eventContent =
     (if ChunksCount eventContent = 1
      then (msgs, Some \<lparr>EncMessage = \<lparr>ChunkedEncodedMessage = [Data (sme_ChunkData eventContent)],
                          EncSignature = Signature eventContent\<rparr>,
                        EncSenderTTMAccountAddress = SenderTTMAccountAddress eventContent,
                        SenderBotAddress = 0\<rparr>)
      else case addMessageFirstChunk now msgs eventContent of
             (msgs', None) \<Rightarrow> (msgs', None)
           | (msgs', Some message) \<Rightarrow> (msgs', assembleOrDropMessage message))"

definition tryCompleteMessage ::
  "time \<Rightarrow> partials \<Rightarrow> messageChunkEventContent \<Rightarrow>
   partials \<times> encodedSignedMessageWithSender option" where
  "tryCompleteMessage now msgs eventContent =
     (case addMessageNextChunk now msgs eventContent of
        (msgs', None) \<Rightarrow> (msgs', None)
      | (msgs', Some message) \<Rightarrow> (msgs', assembleOrDropMessage message))"

definition evictStalePartialMessages :: "time \<Rightarrow> partials \<Rightarrow> partials" where
  "evictStalePartialMessages now msgs = (\<lambda>messageID.
     case msgs messageID of
       None \<Rightarrow> None
     | Some message \<Rightarrow>
         if time_Sub now (firstSeen message) \<le> partialMessageTTL then Some message else None)"

section \<open>Event handlers\<close>

text \<open>
  An event as the syncer hands it over: its sender's user ID and its parsed content, which the
  handler casts to the content type it is registered for; a failed cast panics, and the handler
  recovers and does nothing. \<open>addressFromUserID\<close> is \<^verbatim>\<open>matrix.AddressFromUserID\<close>.
\<close>

datatype parsedContent =
  ParsedSigned signedMessageEventContent
| ParsedChunk messageChunkEventContent
| ParsedOther

record event =
  Sender :: string
  Parsed :: parsedContent

definition signedMessageEventHandler ::
  "(string \<Rightarrow> address) \<Rightarrow> string \<Rightarrow> time \<Rightarrow> partials \<Rightarrow> event \<Rightarrow>
   partials \<times> encodedSignedMessageWithSender option" where
  "signedMessageEventHandler addressFromUserID botUserID now msgs evt =
     (if Sender evt = botUserID then (msgs, None)
      else case Parsed evt of
        ParsedSigned eventContent \<Rightarrow>
          (case SignedMessage_Verify eventContent of
             Some _ \<Rightarrow> (msgs, None)
           | None \<Rightarrow>
               (case tryCompleteMessageWithFirstChunk now msgs eventContent of
                  (msgs', None) \<Rightarrow> (msgs', None)
                | (msgs', Some msg) \<Rightarrow>
                    (msgs', Some (msg\<lparr>SenderBotAddress := addressFromUserID (Sender evt)\<rparr>))))
      | _ \<Rightarrow> (msgs, None))"

definition messageChunkEventHandler ::
  "(string \<Rightarrow> address) \<Rightarrow> string \<Rightarrow> time \<Rightarrow> partials \<Rightarrow> event \<Rightarrow>
   partials \<times> encodedSignedMessageWithSender option" where
  "messageChunkEventHandler addressFromUserID botUserID now msgs evt =
     (if Sender evt = botUserID then (msgs, None)
      else case Parsed evt of
        ParsedChunk eventContent \<Rightarrow>
          (case MessageChunk_Verify eventContent of
             Some _ \<Rightarrow> (msgs, None)
           | None \<Rightarrow>
               (case tryCompleteMessage now msgs eventContent of
                  (msgs', None) \<Rightarrow> (msgs', None)
                | (msgs', Some msg) \<Rightarrow>
                    (msgs', Some (msg\<lparr>SenderBotAddress := addressFromUserID (Sender evt)\<rparr>))))
      | _ \<Rightarrow> (msgs, None))"

text \<open>What drives the messenger: the two kinds of message event and the ticks of the sweeper
  started by \<open>Start\<close>, each with the time it happens.\<close>

datatype input = SignedEvent time event | ChunkEvent time event | Sweep time

fun messenger_step ::
  "(string \<Rightarrow> address) \<Rightarrow> string \<Rightarrow> partials \<Rightarrow> input \<Rightarrow>
   partials \<times> encodedSignedMessageWithSender option" where
  "messenger_step addr self msgs (SignedEvent now evt) = signedMessageEventHandler addr self now msgs evt"
| "messenger_step addr self msgs (ChunkEvent now evt) = messageChunkEventHandler addr self now msgs evt"
| "messenger_step addr self msgs (Sweep now) = (evictStalePartialMessages now msgs, None)"

fun messenger_run ::
  "(string \<Rightarrow> address) \<Rightarrow> string \<Rightarrow> partials \<Rightarrow> input list \<Rightarrow>
   partials \<times> encodedSignedMessageWithSender list" where
  "messenger_run addr self msgs [] = (msgs, [])"
| "messenger_run addr self msgs (i # is) =
     (case messenger_step addr self msgs i of (msgs', out) \<Rightarrow>
      case messenger_run addr self msgs' is of (msgs'', outs) \<Rightarrow>
        (msgs'', (case out of None \<Rightarrow> outs | Some m \<Rightarrow> m # outs)))"

section \<open>The loops\<close>

lemma indexSetCompleteFrom_iff:
  "indexSetCompleteFrom i n cs \<longleftrightarrow> (\<forall>j. i \<le> j \<and> j < n \<longrightarrow> cs j \<noteq> None)"
proof (induction i n cs rule: indexSetCompleteFrom.induct)
  case (1 i n cs)
  show ?case
  proof (cases "i < n")
    case False
    then show ?thesis by (auto simp: indexSetCompleteFrom.simps[of i])
  next
    case True
    have split: "(\<forall>j. i \<le> j \<and> j < n \<longrightarrow> P j) \<longleftrightarrow> P i \<and> (\<forall>j. i + 1 \<le> j \<and> j < n \<longrightarrow> P j)" for P
      using True unat_Suc_lt[OF True] by (auto simp: word_le_nat_alt word_less_nat_alt)
        (metis Suc_leI le_neq_implies_less word_unat_eq_iff)+
    show ?thesis
      using True 1 by (subst split) (auto simp: indexSetCompleteFrom.simps[of i] split: option.splits)
  qed
qed

lemma collectFrom_eq:
  "collectFrom i n cs acc =
     acc @ map (\<lambda>k. case cs (word_of_nat k) of None \<Rightarrow> [] | Some d \<Rightarrow> d) [unat i..<unat n]"
proof (induction i n cs acc rule: collectFrom.induct)
  case (1 i n cs acc)
  show ?case
  proof (cases "i < n")
    case True
    then have "[unat i..<unat n] = unat i # [unat (i + 1)..<unat n]"
      by (simp add: unat_Suc_lt word_less_nat_alt upt_conv_Cons)
    then show ?thesis using True 1 by (simp add: collectFrom.simps[of i])
  next
    case False
    then show ?thesis by (simp add: collectFrom.simps[of i] word_less_nat_alt)
  qed
qed

lemma messageIndexSetComplete_iff:
  "messageIndexSetComplete m \<longleftrightarrow> chunksCount m \<noteq> 0 \<and> (\<forall>j < chunksCount m. chunks m j \<noteq> None)"
  by (simp add: messageIndexSetComplete_def indexSetCompleteFrom_iff)

lemma addMessageChunk_Some_complete:
  "addMessageChunk msgs message cd i = (msgs', Some m) \<Longrightarrow> messageIndexSetComplete m"
  by (auto simp: addMessageChunk_def Let_def split: if_splits)

text \<open>The backstop of \<open>assembleEncodedMessage\<close> never fires on a message \<open>addMessageChunk\<close> returns.\<close>

lemma assemble_complete:
  assumes "messageIndexSetComplete m"
  shows "assembleOrDropMessage m = Some \<lparr>EncMessage = \<lparr>ChunkedEncodedMessage =
       map (\<lambda>k. the (chunks m (word_of_nat k))) [0..<unat (chunksCount m)], EncSignature = signature m\<rparr>,
     EncSenderTTMAccountAddress = fromTTMAccount m, SenderBotAddress = 0\<rparr>"
proof -
  have "(case chunks m (word_of_nat k) of None \<Rightarrow> [] | Some d \<Rightarrow> d) = the (chunks m (word_of_nat k))"
    if "k < unat (chunksCount m)" for k
  proof -
    have "unat (chunksCount m) < 2 ^ LENGTH(32)" by (rule unsigned_less)
    then have "k < 2 ^ 32" using that by simp
    then have "(word_of_nat k :: uint32) < chunksCount m"
      using that by (simp add: word_less_nat_alt unat_of_nat take_bit_nat_eq_self)
    then show ?thesis using assms by (auto simp: messageIndexSetComplete_iff)
  qed
  then show ?thesis
    using assms by (simp add: assembleOrDropMessage_def assembleEncodedMessage_def collectFrom_eq)
qed

section \<open>Arrivals and deliveries of one message\<close>

text \<open>The message ID and chunk index of an input that reaches the reassembly: not the bot's own,
  of the right content type and passing \<open>Verify\<close>.\<close>

fun arrives :: "string \<Rightarrow> input \<Rightarrow> (string \<times> uint32) option" where
  "arrives self (SignedEvent now evt) =
     (if Sender evt = self then None
      else case Parsed evt of
        ParsedSigned c \<Rightarrow>
          if SignedMessage_Verify c = None then Some (MessageID (sme_ChunkData c), 0) else None
      | _ \<Rightarrow> None)"
| "arrives self (ChunkEvent now evt) =
     (if Sender evt = self then None
      else case Parsed evt of
        ParsedChunk c \<Rightarrow>
          if MessageChunk_Verify c = None then Some (MessageID (mce_ChunkData c), ChunkIndex c) else None
      | _ \<Rightarrow> None)"
| "arrives self (Sweep now) = None"

fun input_time :: "input \<Rightarrow> time" where
  "input_time (SignedEvent t e) = t"
| "input_time (ChunkEvent t e) = t"
| "input_time (Sweep t) = t"

fun input_sender :: "input \<Rightarrow> string" where
  "input_sender (SignedEvent t e) = Sender e"
| "input_sender (ChunkEvent t e) = Sender e"
| "input_sender (Sweep t) = []"

fun is_sweep :: "input \<Rightarrow> bool" where
  "is_sweep (Sweep t) = True"
| "is_sweep _ = False"

lemma step_no_arrival:
  "arrives self i = None \<Longrightarrow> \<not> is_sweep i \<Longrightarrow> messenger_step addr self msgs i = (msgs, None)"
  by (cases "(self, i)" rule: arrives.cases)
    (auto simp: signedMessageEventHandler_def messageChunkEventHandler_def
      split: if_splits parsedContent.splits option.splits)

lemma addMessageChunk_other:
  "MessageID cd \<noteq> mid \<Longrightarrow> fst (addMessageChunk msgs message cd i) mid = msgs mid"
  by (simp add: addMessageChunk_def Let_def)

lemma tryCompleteMessageWithFirstChunk_eq:
  "ChunksCount c \<noteq> 1 \<Longrightarrow> tryCompleteMessageWithFirstChunk now msgs c =
     (fst (addMessageFirstChunk now msgs c),
      Option.bind (snd (addMessageFirstChunk now msgs c)) assembleOrDropMessage)"
  by (simp add: tryCompleteMessageWithFirstChunk_def split: prod.splits option.splits)

lemma tryCompleteMessage_eq:
  "tryCompleteMessage now msgs d =
     (fst (addMessageNextChunk now msgs d),
      Option.bind (snd (addMessageNextChunk now msgs d)) assembleOrDropMessage)"
  by (simp add: tryCompleteMessage_def split: prod.splits option.splits)

lemma signed_step_eq:
  assumes "Sender evt \<noteq> self" "Parsed evt = ParsedSigned c" "SignedMessage_Verify c = None"
  shows "messenger_step addr self msgs (SignedEvent now evt) =
    map_prod id (map_option (\<lambda>m. m\<lparr>SenderBotAddress := addr (Sender evt)\<rparr>))
      (tryCompleteMessageWithFirstChunk now msgs c)"
  using assms by (simp add: signedMessageEventHandler_def split: prod.splits option.splits)

lemma chunk_step_eq:
  assumes "Sender evt \<noteq> self" "Parsed evt = ParsedChunk d" "MessageChunk_Verify d = None"
  shows "messenger_step addr self msgs (ChunkEvent now evt) =
    map_prod id (map_option (\<lambda>m. m\<lparr>SenderBotAddress := addr (Sender evt)\<rparr>))
      (tryCompleteMessage now msgs d)"
  using assms by (simp add: messageChunkEventHandler_def split: prod.splits option.splits)

text \<open>An input that arrives is a header or a trailing chunk.\<close>

lemma arrivesE:
  assumes "arrives self i = Some (m, k)"
  obtains (header) now evt c where "i = SignedEvent now evt" "Sender evt \<noteq> self"
      "Parsed evt = ParsedSigned c" "SignedMessage_Verify c = None"
      "m = MessageID (sme_ChunkData c)" "k = 0"
    | (trailing) now evt d where "i = ChunkEvent now evt" "Sender evt \<noteq> self"
      "Parsed evt = ParsedChunk d" "MessageChunk_Verify d = None"
      "m = MessageID (mce_ChunkData d)" "k = ChunkIndex d"
  using assms by (cases "(self, i)" rule: arrives.cases) (auto split: if_splits parsedContent.splits)

lemma addMessageFirstChunk_other:
  "MessageID (sme_ChunkData c) \<noteq> mid \<Longrightarrow> fst (addMessageFirstChunk now msgs c) mid = msgs mid"
  by (simp add: addMessageFirstChunk_def Let_def addMessageChunk_other)

lemma addMessageNextChunk_other:
  "MessageID (mce_ChunkData d) \<noteq> mid \<Longrightarrow> fst (addMessageNextChunk now msgs d) mid = msgs mid"
  by (simp add: addMessageNextChunk_def Let_def addMessageChunk_other)

lemma firstChunk_single:
  "ChunksCount c = 1 \<Longrightarrow> fst (tryCompleteMessageWithFirstChunk now msgs c) = msgs"
  by (simp add: tryCompleteMessageWithFirstChunk_def)

text \<open>Chunks of one message never touch the entry of another.\<close>

lemma step_other:
  assumes "arrives self i = Some (m, k)" and "m \<noteq> mid"
  shows "fst (messenger_step addr self msgs i) mid = msgs mid"
  using assms(1)
proof (cases rule: arrivesE)
  case (header now evt c)
  have "fst (tryCompleteMessageWithFirstChunk now msgs c) mid = msgs mid"
    using assms(2) header(5) by (cases "ChunksCount c = 1")
      (simp_all add: firstChunk_single tryCompleteMessageWithFirstChunk_eq addMessageFirstChunk_other)
  then show ?thesis using signed_step_eq[OF header(2-4)] header(1) by simp
next
  case (trailing now evt d)
  have "fst (tryCompleteMessage now msgs d) mid = msgs mid"
    using assms(2) trailing(5) by (simp add: tryCompleteMessage_eq addMessageNextChunk_other)
  then show ?thesis using chunk_step_eq[OF trailing(2-4)] trailing(1) by simp
qed

section \<open>Reassembly against its specification\<close>

text \<open>
  The message being sent: its ID, chunks, signature and sender account. An input is \<open>genuine\<close> for
  it when, if it arrives under that ID, its header fields are the sender's and its data is the
  chunk of its index; a chunk index the message does not have may come with any data.
\<close>

record sent_message =
  sm_id :: string
  sm_chunks :: "bytes list"
  sm_signature :: bytes
  sm_account :: address

abbreviation sm_count :: "sent_message \<Rightarrow> uint32" where
  "sm_count M \<equiv> word_of_nat (length (sm_chunks M))"

definition sendable :: "sent_message \<Rightarrow> bool" where
  "sendable M \<longleftrightarrow> 2 \<le> length (sm_chunks M) \<and> length (sm_chunks M) < 2 ^ 32"

fun genuine :: "sent_message \<Rightarrow> input \<Rightarrow> bool" where
  "genuine M (SignedEvent now evt) \<longleftrightarrow>
     (case Parsed evt of
        ParsedSigned c \<Rightarrow> MessageID (sme_ChunkData c) = sm_id M \<longrightarrow>
          ChunksCount c = sm_count M \<and> Signature c = sm_signature M \<and>
          SenderTTMAccountAddress c = sm_account M \<and> Data (sme_ChunkData c) = sm_chunks M ! 0
      | _ \<Rightarrow> True)"
| "genuine M (ChunkEvent now evt) \<longleftrightarrow>
     (case Parsed evt of
        ParsedChunk c \<Rightarrow> MessageID (mce_ChunkData c) = sm_id M \<longrightarrow> ChunkIndex c < sm_count M \<longrightarrow>
          Data (mce_ChunkData c) = sm_chunks M ! unat (ChunkIndex c)
      | _ \<Rightarrow> True)"
| "genuine M (Sweep now) \<longleftrightarrow> True"

definition whole :: "sent_message \<Rightarrow> address \<Rightarrow> encodedSignedMessageWithSender" where
  "whole M sender = \<lparr>EncMessage = \<lparr>ChunkedEncodedMessage = sm_chunks M, EncSignature = sm_signature M\<rparr>,
     EncSenderTTMAccountAddress = sm_account M, SenderBotAddress = sender\<rparr>"

text \<open>
  The specification: collect the distinct indices below the chunk count; deliver when the set is
  full, then start again. It yields the user IDs whose event completed the message.
\<close>

fun reassembly_spec :: "uint32 \<Rightarrow> uint32 set \<Rightarrow> (uint32 \<times> string) list \<Rightarrow> string list" where
  "reassembly_spec n R [] = []"
| "reassembly_spec n R ((i, sender) # xs) =
     (let R' = (if i < n then insert i R else R)
      in if {..<n} \<subseteq> R' then sender # reassembly_spec n {} xs else reassembly_spec n R' xs)"

fun arrivals_of :: "string \<Rightarrow> string \<Rightarrow> input list \<Rightarrow> (uint32 \<times> string) list" where
  "arrivals_of self mid [] = []"
| "arrivals_of self mid (i # is) =
     (case arrives self i of
        Some (m, k) \<Rightarrow> if m = mid then (k, input_sender i) # arrivals_of self mid is
                       else arrivals_of self mid is
      | None \<Rightarrow> arrivals_of self mid is)"

text \<open>What the messenger puts on its channel for the events of one message ID.\<close>

fun deliveries ::
  "(string \<Rightarrow> address) \<Rightarrow> string \<Rightarrow> string \<Rightarrow> partials \<Rightarrow> input list \<Rightarrow> encodedSignedMessageWithSender list" where
  "deliveries addr self mid msgs [] = []"
| "deliveries addr self mid msgs (i # is) =
     (case messenger_step addr self msgs i of (msgs', out) \<Rightarrow>
        (if map_option fst (arrives self i) = Some mid then (case out of None \<Rightarrow> [] | Some m \<Rightarrow> [m]) else [])
        @ deliveries addr self mid msgs' is)"

text \<open>
  The simulation relation between the indices collected and the map entry: \<open>slot\<close> describes a
  partial message whose header has (\<open>h\<close>) or has not arrived.
\<close>

definition slot :: "sent_message \<Rightarrow> time \<Rightarrow> uint32 set \<Rightarrow> bool \<Rightarrow> chunkedMessage \<Rightarrow> bool" where
  "slot M t0 R h m \<longleftrightarrow>
     (if h then chunksCount m = sm_count M \<and> signature m = sm_signature M \<and>
                fromTTMAccount m = sm_account M
      else chunksCount m = 0) \<and>
     {i. i < sm_count M \<and> chunks m i \<noteq> None} = R \<and>
     (\<forall>i \<in> R. chunks m i = Some (sm_chunks M ! unat i)) \<and> t0 \<le> firstSeen m"

definition tracks :: "sent_message \<Rightarrow> time \<Rightarrow> uint32 set \<Rightarrow> partials \<Rightarrow> bool" where
  "tracks M t0 R msgs \<longleftrightarrow> R \<subseteq> {..<sm_count M} \<and> \<not> {..<sm_count M} \<subseteq> R \<and>
     (case msgs (sm_id M) of None \<Rightarrow> R = {} | Some m \<Rightarrow> slot M t0 R (0 \<in> R) m)"

lemma sendable_count:
  assumes "sendable M"
  shows "unat (sm_count M) = length (sm_chunks M)" "sm_count M \<noteq> 0" "sm_count M \<noteq> 1" "0 < sm_count M"
proof -
  show u: "unat (sm_count M) = length (sm_chunks M)"
    using assms by (simp add: sendable_def unat_of_nat take_bit_nat_eq_self)
  have "2 \<le> unat (sm_count M)" using u assms by (simp add: sendable_def)
  then show "sm_count M \<noteq> 0" "sm_count M \<noteq> 1" "0 < sm_count M"
    by (auto simp: word_less_nat_alt)
qed

lemma assemble_whole:
  assumes "sendable M" "chunksCount m = sm_count M" "signature m = sm_signature M"
    "fromTTMAccount m = sm_account M" "\<forall>i < sm_count M. chunks m i = Some (sm_chunks M ! unat i)"
  shows "messageIndexSetComplete m \<and> assembleOrDropMessage m = Some (whole M 0)"
proof -
  have c: "messageIndexSetComplete m"
    using assms sendable_count[OF assms(1)] by (simp add: messageIndexSetComplete_iff)
  have "map (\<lambda>k. the (chunks m (word_of_nat k))) [0..<length (sm_chunks M)] = sm_chunks M"
  proof (rule nth_equalityI)
    fix k assume "k < length (map (\<lambda>k. the (chunks m (word_of_nat k))) [0..<length (sm_chunks M)])"
    then have k: "k < length (sm_chunks M)" by simp
    then have "unat (word_of_nat k :: uint32) = k"
      using assms(1) by (simp add: sendable_def unat_of_nat take_bit_nat_eq_self)
    moreover have "(word_of_nat k :: uint32) < sm_count M"
      using calculation k sendable_count(1)[OF assms(1)] by (simp add: word_less_nat_alt)
    ultimately show "map (\<lambda>k. the (chunks m (word_of_nat k))) [0..<length (sm_chunks M)] ! k = sm_chunks M ! k"
      using assms(5) k by simp
  qed simp
  then show ?thesis
    using c assms sendable_count(1)[OF assms(1)] by (simp add: assemble_complete whole_def)
qed

lemma slot_insert:
  assumes "slot M t0 R h m" and "k < sm_count M" and "d = sm_chunks M ! unat k"
  shows "slot M t0 (insert k R) h (m\<lparr>chunks := (chunks m)(k \<mapsto> d)\<rparr>)"
  using assms by (auto simp: slot_def)

lemma slot_bogus:
  assumes "slot M t0 R h m" and "\<not> k < sm_count M" and "R \<subseteq> {..<sm_count M}"
  shows "slot M t0 R h (m\<lparr>chunks := (chunks m)(k \<mapsto> d)\<rparr>)"
  using assms by (auto simp: slot_def)

lemma slot_complete_iff:
  assumes "slot M t0 R h m" and "sendable M"
  shows "messageIndexSetComplete m \<longleftrightarrow> h \<and> {..<sm_count M} \<subseteq> R"
  using assms sendable_count[OF assms(2)]
  by (cases h) (auto simp: slot_def messageIndexSetComplete_iff)

lemma slot_whole:
  assumes "slot M t0 R True m" and "sendable M" and "{..<sm_count M} \<subseteq> R"
  shows "assembleOrDropMessage m = Some (whole M 0)"
  using assms assemble_whole[of M m] by (auto simp: slot_def)

lemma addMessageChunk_slot:
  assumes M: "sendable M" and sl: "slot M t0 R h m" and h: "h \<longleftrightarrow> 0 \<in> R \<or> k = 0"
    and R: "R \<subseteq> {..<sm_count M}" "\<not> {..<sm_count M} \<subseteq> R"
    and cd: "MessageID cd = sm_id M" "k < sm_count M \<Longrightarrow> Data cd = sm_chunks M ! unat k"
    and R': "R' = (if k < sm_count M then insert k R else R)"
  shows "if {..<sm_count M} \<subseteq> R'
    then fst (addMessageChunk msgs m cd k) = msgs(sm_id M := None) \<and>
         Option.bind (snd (addMessageChunk msgs m cd k)) assembleOrDropMessage = Some (whole M 0)
    else snd (addMessageChunk msgs m cd k) = None \<and> tracks M t0 R' (fst (addMessageChunk msgs m cd k))"
proof (cases "k < sm_count M")
  case True
  let ?m' = "m\<lparr>chunks := (chunks m)(k \<mapsto> Data cd)\<rparr>"
  have sl': "slot M t0 R' h ?m'" and Rk: "R' = insert k R"
    using slot_insert[OF sl True cd(2)[OF True]] True R' by simp_all
  have h': "h \<longleftrightarrow> 0 \<in> R'" using h Rk by auto
  have keep: "\<not> (chunksCount m \<noteq> 0 \<and> k \<ge> chunksCount m)"
    using sl True by (cases h) (auto simp: slot_def)
  show ?thesis
  proof (cases "{..<sm_count M} \<subseteq> R'")
    case full: True
    then have "h" using h' sendable_count(4)[OF M] by auto
    then show ?thesis
      using full keep sl' slot_complete_iff[OF sl' M] slot_whole[OF _ M full, of t0 ?m'] cd(1)
      by (simp add: addMessageChunk_def Let_def)
  next
    case False
    then show ?thesis
      using keep sl' slot_complete_iff[OF sl' M] cd(1) h' R(1) True Rk
      by (auto simp: addMessageChunk_def Let_def tracks_def)
  qed
next
  case False
  then have "R' = R" and h0: "h \<longleftrightarrow> 0 \<in> R"
    using R' h sendable_count(4)[OF M] by auto
  then show ?thesis
    using False R sl cd(1) slot_complete_iff[OF slot_bogus[OF sl False R(1)] M]
      slot_bogus[OF sl False R(1), of "Data cd"]
    by (auto simp: addMessageChunk_def Let_def tracks_def)
qed

lemma lift_add:
  assumes "messenger_step addr self msgs i =
      map_prod id (map_option (\<lambda>m. m\<lparr>SenderBotAddress := a\<rparr>))
        (fst A, Option.bind (snd A) assembleOrDropMessage)"
    and "if b then fst A = X \<and> Option.bind (snd A) assembleOrDropMessage = Some (whole M 0)
         else snd A = None \<and> T (fst A)"
  shows "if b then messenger_step addr self msgs i = (X, Some (whole M a))
         else snd (messenger_step addr self msgs i) = None \<and> T (fst (messenger_step addr self msgs i))"
  using assms by (cases b) (simp_all add: whole_def)

text \<open>One arriving input under the message's ID.\<close>

lemma step_arrival:
  assumes M: "sendable M" and tr: "tracks M t0 R msgs" and g: "genuine M i"
    and arr: "arrives self i = Some (sm_id M, k)" and t0: "t0 \<le> input_time i"
    and R': "R' = (if k < sm_count M then insert k R else R)"
  shows "if {..<sm_count M} \<subseteq> R'
    then messenger_step addr self msgs i = (msgs(sm_id M := None), Some (whole M (addr (input_sender i))))
    else snd (messenger_step addr self msgs i) = None \<and> tracks M t0 R' (fst (messenger_step addr self msgs i))"
proof -
  have R: "R \<subseteq> {..<sm_count M}" "\<not> {..<sm_count M} \<subseteq> R"
    using tr by (simp_all add: tracks_def)
  show ?thesis
    using arr
  proof (cases rule: arrivesE)
  case (header now evt c)
  let ?m = "(case msgs (sm_id M) of None \<Rightarrow> \<lparr>chunksCount = 0, fromTTMAccount = 0, signature = [],
      chunks = Map.empty, firstSeen = now\<rparr> | Some m \<Rightarrow> m)\<lparr>signature := sm_signature M,
      chunksCount := sm_count M, fromTTMAccount := sm_account M\<rparr>"
  have c: "ChunksCount c = sm_count M" "Signature c = sm_signature M"
      "SenderTTMAccountAddress c = sm_account M" "Data (sme_ChunkData c) = sm_chunks M ! 0"
    using g header by simp_all
  have "slot M t0 R True ?m"
    using tr t0 header(1) by (auto simp: tracks_def slot_def split: option.splits if_splits)
  note add = addMessageChunk_slot[OF M this _ R header(5)[symmetric] _ R', of msgs]
  have "addMessageFirstChunk now msgs c = addMessageChunk msgs ?m (sme_ChunkData c) k"
    using c header(5,6) by (simp add: addMessageFirstChunk_def Let_def)
  then have "messenger_step addr self msgs i = map_prod id
      (map_option (\<lambda>m. m\<lparr>SenderBotAddress := addr (input_sender i)\<rparr>))
      (fst (addMessageChunk msgs ?m (sme_ChunkData c) k),
       Option.bind (snd (addMessageChunk msgs ?m (sme_ChunkData c) k)) assembleOrDropMessage)"
    using signed_step_eq[OF header(2-4)] header(1) c(1) sendable_count(3)[OF M]
    by (simp add: tryCompleteMessageWithFirstChunk_eq)
  then show ?thesis
    by (rule lift_add) (rule add, simp_all add: c(4) header(6))
next
  case (trailing now evt d)
  let ?m = "case msgs (sm_id M) of None \<Rightarrow> \<lparr>chunksCount = 0, fromTTMAccount = 0, signature = [],
      chunks = Map.empty, firstSeen = now\<rparr> | Some m \<Rightarrow> m"
  have k0: "k \<noteq> 0" using trailing(4,6) by (auto simp: MessageChunk_Verify_def split: if_splits)
  have d: "k < sm_count M \<Longrightarrow> Data (mce_ChunkData d) = sm_chunks M ! unat k"
    using g trailing by simp
  have "slot M t0 R (0 \<in> R) ?m"
    using tr t0 trailing(1) by (auto simp: tracks_def slot_def split: option.splits if_splits)
  note add = addMessageChunk_slot[OF M this _ R trailing(5)[symmetric] d R', of msgs]
  have "addMessageNextChunk now msgs d = addMessageChunk msgs ?m (mce_ChunkData d) k"
    using trailing(5,6) by (simp add: addMessageNextChunk_def Let_def)
  then have "messenger_step addr self msgs i = map_prod id
      (map_option (\<lambda>m. m\<lparr>SenderBotAddress := addr (input_sender i)\<rparr>))
      (fst (addMessageChunk msgs ?m (mce_ChunkData d) k),
       Option.bind (snd (addMessageChunk msgs ?m (mce_ChunkData d) k)) assembleOrDropMessage)"
    using chunk_step_eq[OF trailing(2-4)] trailing(1) by (simp add: tryCompleteMessage_eq)
  then show ?thesis
    by (rule lift_add) (rule add, simp_all add: k0)
  qed
qed

lemma step_sweep:
  assumes "tracks M t0 R msgs" and "now - t0 \<le> partialMessageTTL"
  shows "tracks M t0 R (evictStalePartialMessages now msgs)"
proof (cases "msgs (sm_id M)")
  case (Some m)
  then have "t0 \<le> firstSeen m" using assms(1) by (simp add: tracks_def slot_def)
  then have "time_Sub now (firstSeen m) \<le> partialMessageTTL"
    using assms(2) time_Sub_le_iff[of partialMessageTTL now "firstSeen m"] by simp
  then show ?thesis using assms(1) Some by (simp add: tracks_def evictStalePartialMessages_def)
qed (use assms in \<open>auto simp: tracks_def evictStalePartialMessages_def\<close>)

lemma deliveries_spec:
  assumes "sendable M" and "tracks M t0 R msgs"
    and "\<forall>i \<in> set is. genuine M i \<and> t0 \<le> input_time i \<and> (is_sweep i \<longrightarrow> input_time i - t0 \<le> partialMessageTTL)"
  shows "deliveries addr self (sm_id M) msgs is =
    map (\<lambda>u. whole M (addr u)) (reassembly_spec (sm_count M) R (arrivals_of self (sm_id M) is))"
  using assms(2,3)
proof (induction "is" arbitrary: R msgs)
  case (Cons i "is")
  let ?s = "messenger_step addr self msgs i"
  have i: "genuine M i" "t0 \<le> input_time i" "is_sweep i \<Longrightarrow> input_time i - t0 \<le> partialMessageTTL"
    and rest: "\<forall>i \<in> set is. genuine M i \<and> t0 \<le> input_time i \<and> (is_sweep i \<longrightarrow> input_time i - t0 \<le> partialMessageTTL)"
    using Cons.prems(2) by auto
  show ?case
  proof (cases "arrives self i")
    case None
    then have "tracks M t0 R (fst ?s)"
      using Cons.prems(1) step_sweep i step_no_arrival[OF None] by (cases i) auto
    then show ?thesis using None Cons.IH[OF _ rest] by (simp add: case_prod_beta)
  next
    case (Some a)
    obtain m k where a: "a = (m, k)" by (cases a)
    show ?thesis
    proof (cases "m = sm_id M")
      case True
      let ?R = "if k < sm_count M then insert k R else R"
      note st = step_arrival[OF assms(1) Cons.prems(1) i(1) _ i(2) refl, of self k addr]
      have arr: "arrives self i = Some (sm_id M, k)" using Some a True by simp
      have "tracks M t0 {} (msgs(sm_id M := None))"
        using sendable_count(4)[OF assms(1)] by (auto simp: tracks_def)
      then show ?thesis
        using st[OF arr] arr Cons.IH[OF _ rest]
        by (cases "{..<sm_count M} \<subseteq> ?R") (simp_all add: Let_def case_prod_beta)
    next
      case False
      then have "tracks M t0 R (fst ?s)"
        using Cons.prems(1) step_other[of self i m k "sm_id M"] Some a by (simp add: tracks_def)
      then show ?thesis using Some a False Cons.IH[OF _ rest] by (simp add: case_prod_beta)
    qed
  qed
qed simp

lemma reassembly_spec_completing:
  "R \<subseteq> {..<n} \<Longrightarrow> \<not> {..<n} \<subseteq> R \<union> fst ` set xs \<Longrightarrow> {..<n} \<subseteq> R \<union> fst ` set (xs @ [(k, u)]) \<Longrightarrow>
   reassembly_spec n R (xs @ [(k, u)]) = [u]"
proof (induction xs arbitrary: R)
  case Nil
  then show ?case by (auto simp: Let_def)
next
  case (Cons x xs)
  obtain i v where x: "x = (i, v)" by (cases x)
  let ?R = "if i < n then insert i R else R"
  have "\<not> {..<n} \<subseteq> ?R \<union> fst ` set xs" "?R \<subseteq> {..<n}" "{..<n} \<subseteq> ?R \<union> fst ` set (xs @ [(k, u)])"
    using Cons.prems x by auto
  moreover have "\<not> {..<n} \<subseteq> ?R" using Cons.prems(2) x by auto
  ultimately show ?case using Cons.IH[of ?R] x by (simp add: Let_def)
qed

lemma reassembly_spec_incomplete:
  "\<not> {..<n} \<subseteq> R \<union> fst ` set xs \<Longrightarrow> reassembly_spec n R xs = []"
proof (induction xs arbitrary: R)
  case (Cons x xs)
  obtain i v where x: "x = (i, v)" by (cases x)
  let ?R = "if i < n then insert i R else R"
  have "\<not> {..<n} \<subseteq> ?R \<union> fst ` set xs" using Cons.prems x by auto
  moreover have "\<not> {..<n} \<subseteq> ?R" using Cons.prems x by auto
  ultimately show ?case using Cons.IH[of ?R] x by (simp add: Let_def)
qed simp

lemma arrivals_of_append: "arrivals_of self mid (xs @ ys) = arrivals_of self mid xs @ arrivals_of self mid ys"
  by (induction xs) (auto split: option.splits)

lemma completed_exactly_once_aux:
  assumes "sendable M" and "msgs (sm_id M) = None"
    and "\<forall>i \<in> set (is @ [e]). genuine M i \<and> t0 \<le> input_time i \<and>
           (is_sweep i \<longrightarrow> input_time i - t0 \<le> partialMessageTTL)"
    and "\<not> {..<sm_count M} \<subseteq> fst ` set (arrivals_of self (sm_id M) is)"
    and "{..<sm_count M} \<subseteq> fst ` set (arrivals_of self (sm_id M) (is @ [e]))"
  shows "deliveries addr self (sm_id M) msgs is = [] \<and>
         deliveries addr self (sm_id M) msgs (is @ [e]) = [whole M (addr (input_sender e))]"
proof -
  have "tracks M t0 {} msgs"
    using assms(2) sendable_count(4)[OF assms(1)] by (auto simp: tracks_def)
  note d = deliveries_spec[OF assms(1) this]
  obtain k where k: "arrivals_of self (sm_id M) [e] = [(k, input_sender e)]"
    using assms(4,5) by (auto simp: arrivals_of_append split: option.splits if_splits)
  have "reassembly_spec (sm_count M) {} (arrivals_of self (sm_id M) is @ [(k, input_sender e)]) = [input_sender e]"
    using assms(4,5) k by (intro reassembly_spec_completing) (auto simp: arrivals_of_append)
  then show ?thesis
    using d[OF assms(3), of addr self] d[of "is" addr self] assms(3,4) k reassembly_spec_incomplete
    by (simp add: arrivals_of_append)
qed

section \<open>The invariant of the partial-message map\<close>

definition wf_partial :: "chunkedMessage \<Rightarrow> bool" where
  "wf_partial m \<longleftrightarrow> \<not> messageIndexSetComplete m \<and> chunksCount m \<noteq> 1 \<and>
     (chunksCount m \<noteq> 0 \<longrightarrow> chunks m 0 \<noteq> None) \<and> dom (chunks m) \<noteq> {}"

definition wf_partials :: "partials \<Rightarrow> bool" where
  "wf_partials msgs \<longleftrightarrow> (\<forall>mid m. msgs mid = Some m \<longrightarrow> wf_partial m)"

lemma wf_partials_D: "wf_partials msgs \<Longrightarrow> msgs mid = Some m \<Longrightarrow> wf_partial m"
  by (simp add: wf_partials_def)

lemma wf_addMessageChunk:
  assumes "wf_partials msgs" "chunksCount m \<noteq> 1"
    "if chunksCount m \<noteq> 0 \<and> k \<ge> chunksCount m then wf_partial m
     else chunksCount m \<noteq> 0 \<longrightarrow> k = 0 \<or> chunks m 0 \<noteq> None"
  shows "wf_partials (fst (addMessageChunk msgs m cd k))"
  using assms by (auto simp: addMessageChunk_def Let_def wf_partials_def wf_partial_def)

lemma wf_addMessageFirstChunk:
  assumes "wf_partials msgs" "ChunksCount c \<noteq> 1" "ChunksCount c \<noteq> 0"
  shows "wf_partials (fst (addMessageFirstChunk now msgs c))"
  unfolding addMessageFirstChunk_def Let_def
  by (rule wf_addMessageChunk) (use assms in \<open>auto simp: not_le word_neq_0_conv\<close>)

lemma wf_addMessageNextChunk:
  assumes "wf_partials msgs"
  shows "wf_partials (fst (addMessageNextChunk now msgs d))"
  unfolding addMessageNextChunk_def Let_def
  by (rule wf_addMessageChunk)
    (use assms wf_partials_D[OF assms] in \<open>auto simp: wf_partial_def split: option.splits\<close>)

lemma wf_step:
  assumes "wf_partials msgs"
  shows "wf_partials (fst (messenger_step addr self msgs i))"
proof (cases "arrives self i")
  case None
  then show ?thesis
    using assms step_no_arrival[OF None, of addr msgs]
    by (cases i) (auto simp: wf_partials_def evictStalePartialMessages_def split: option.splits if_splits)
next
  case (Some a)
  then obtain m k where "arrives self i = Some (m, k)" by (cases a) simp
  then show ?thesis
  proof (cases rule: arrivesE)
    case (header now evt c)
    have "ChunksCount c \<noteq> 0" using header(4) by (auto simp: SignedMessage_Verify_def split: if_splits)
    then have "wf_partials (fst (tryCompleteMessageWithFirstChunk now msgs c))"
      using assms wf_addMessageFirstChunk by (cases "ChunksCount c = 1")
        (simp_all add: firstChunk_single tryCompleteMessageWithFirstChunk_eq)
    then show ?thesis using signed_step_eq[OF header(2-4)] header(1) by simp
  next
    case (trailing now evt d)
    have "wf_partials (fst (tryCompleteMessage now msgs d))"
      using assms by (simp add: tryCompleteMessage_eq wf_addMessageNextChunk)
    then show ?thesis using chunk_step_eq[OF trailing(2-4)] trailing(1) by simp
  qed
qed

lemma wf_run: "wf_partials msgs \<Longrightarrow> wf_partials (fst (messenger_run addr self msgs is))"
proof (induction "is" arbitrary: msgs)
  case (Cons i "is")
  then show ?case using Cons.IH[OF wf_step[OF Cons.prems]] by (simp add: case_prod_beta)
qed simp

lemma messenger_run_append:
  "messenger_run addr self msgs (xs @ ys) =
     (let (m, o1) = messenger_run addr self msgs xs; (m', o2) = messenger_run addr self m ys in (m', o1 @ o2))"
  by (induction xs arbitrary: msgs) (auto simp: case_prod_beta Let_def split: option.splits)

lemma evict_age:
  "evictStalePartialMessages now msgs mid = Some m \<longleftrightarrow>
     msgs mid = Some m \<and> now - firstSeen m \<le> partialMessageTTL"
  using time_Sub_le_iff[of partialMessageTTL now "firstSeen m"]
  by (auto simp: evictStalePartialMessages_def split: option.splits if_splits)

section \<open>Properties\<close>

text \<open>Property C4: reassembly refines its specification. For a multi-chunk message of which the
  messenger holds nothing yet, whatever the order in which its header and chunks arrive, however
  often they are redelivered, whatever out-of-range indices and events of other messages are mixed
  in, and with sweeps no later than the time to live after the first arrival, what the messenger
  delivers for its ID is, each time the set of distinct indices gets full and only then, the whole
  message: its chunks in order, its signature, its sender account, and as sender bot the sender of
  the completing event.\<close>

lemma reassembly_refines_spec:
  assumes "sendable M" and "msgs (sm_id M) = None"
    and "\<forall>i \<in> set is. genuine M i \<and> t0 \<le> input_time i \<and>
           (is_sweep i \<longrightarrow> input_time i - t0 \<le> partialMessageTTL)"
  shows "deliveries addr self (sm_id M) msgs is =
    map (\<lambda>u. whole M (addr u)) (reassembly_spec (sm_count M) {} (arrivals_of self (sm_id M) is))"
proof -
  have "tracks M t0 {} msgs"
    using assms(2) sendable_count(4)[OF assms(1)] by (auto simp: tracks_def)
  then show ?thesis using deliveries_spec[OF assms(1) _ assms(3)] by blast
qed

definition sample_message :: sent_message where
  "sample_message = \<lparr>sm_id = ''id'', sm_chunks = [[1, 2], [3]], sm_signature = [9], sm_account = 5\<rparr>"

definition sample_header :: input where
  "sample_header = SignedEvent 7 \<lparr>Sender = ''peer'', Parsed = ParsedSigned
     \<lparr>sme_ChunkData = \<lparr>MessageID = ''id'', Data = [1, 2]\<rparr>, ChunksCount = 2, Signature = [9],
      SenderTTMAccountAddress = 5\<rparr>\<rparr>"

definition sample_chunk :: "uint32 \<Rightarrow> bytes \<Rightarrow> input" where
  "sample_chunk k d = ChunkEvent 3 \<lparr>Sender = ''peer'', Parsed = ParsedChunk
     \<lparr>mce_ChunkData = \<lparr>MessageID = ''id'', Data = d\<rparr>, ChunkIndex = k\<rparr>\<rparr>"

definition sample_inputs :: "input list" where
  "sample_inputs = [sample_chunk 1 [3], sample_chunk 8 [6], Sweep 5, sample_chunk 1 [3]]"

lemma sample_facts:
  "sendable sample_message"
  "\<forall>i \<in> set (sample_inputs @ [sample_header]). genuine sample_message i \<and> 3 \<le> input_time i \<and>
     (is_sweep i \<longrightarrow> input_time i - 3 \<le> partialMessageTTL)"
  "arrivals_of ''me'' ''id'' sample_inputs = [(1, ''peer''), (8, ''peer''), (1, ''peer'')]"
  "arrivals_of ''me'' ''id'' (sample_inputs @ [sample_header]) =
     [(1, ''peer''), (8, ''peer''), (1, ''peer''), (0, ''peer'')]"
  "sm_id sample_message = ''id''" "sm_count sample_message = 2"
proof -
  show "sendable sample_message" by (simp add: sendable_def sample_message_def)
qed code_simp+

lemma reassembly_refines_spec_witness:
  "deliveries (\<lambda>_. 4) ''me'' ''id'' Map.empty (sample_inputs @ [sample_header]) =
   map (\<lambda>u. whole sample_message 4)
     (reassembly_spec 2 {} [(1, ''peer''), (8, ''peer''), (1, ''peer''), (0, ''peer'')])"
  using reassembly_refines_spec[OF sample_facts(1) _ sample_facts(2), of Map.empty "\<lambda>_. 4" "''me''"]
  by (simp only: sample_facts simp_thms)

text \<open>Property C13: a message is delivered exactly once by the arrivals that first complete it. If
  the indices of the inputs so far leave one out, and the next arrival fills the last gap, the run
  delivers the whole message, once, and from that very arrival.\<close>

lemma completed_exactly_once:
  assumes "sendable M" and "msgs (sm_id M) = None"
    and "\<forall>i \<in> set (is @ [e]). genuine M i \<and> t0 \<le> input_time i \<and>
           (is_sweep i \<longrightarrow> input_time i - t0 \<le> partialMessageTTL)"
    and "\<not> {..<sm_count M} \<subseteq> fst ` set (arrivals_of self (sm_id M) is)"
    and "{..<sm_count M} \<subseteq> fst ` set (arrivals_of self (sm_id M) (is @ [e]))"
  shows "deliveries addr self (sm_id M) msgs is = [] \<and>
         deliveries addr self (sm_id M) msgs (is @ [e]) = [whole M (addr (input_sender e))]"
  using completed_exactly_once_aux[of M msgs "is" e t0 self addr] assms by blast

lemma lessThan_2_word: "{..<2 :: uint32} = {0, 1}"
proof -
  have "x = 0 \<or> x = 1" if "x < 2" for x :: uint32
  proof -
    have "unat x < 2" using that by (simp add: word_less_nat_alt)
    then have "unat x = unat (0 :: uint32) \<or> unat x = unat (1 :: uint32)"
      by (simp add: less_2_cases_iff)
    then show ?thesis by (simp only: word_unat_eq_iff)
  qed
  then show ?thesis by auto
qed

lemma completed_exactly_once_witness:
  "deliveries (\<lambda>_. 4) ''me'' ''id'' Map.empty (sample_inputs @ [sample_header]) = [whole sample_message 4]"
proof -
  have "\<not> {..<sm_count sample_message} \<subseteq> fst ` set (arrivals_of ''me'' (sm_id sample_message) sample_inputs)"
    "{..<sm_count sample_message} \<subseteq>
       fst ` set (arrivals_of ''me'' (sm_id sample_message) (sample_inputs @ [sample_header]))"
    by (simp_all only: sample_facts lessThan_2_word) simp_all
  then show ?thesis
    using completed_exactly_once[OF sample_facts(1) _ sample_facts(2), of Map.empty "''me''" "\<lambda>_. 4"]
    by (simp add: sample_facts)
qed

text \<open>Property C22: the invariant of the partial-message map. From the empty map, after any inputs
  at all, no complete message is held (a complete one is delivered and its entry deleted), no entry
  is of a single-chunk message, an entry whose count is known holds chunk 0, and no entry is
  empty; and right after a sweep every entry is at most the time to live old while every younger
  entry is still there, unchanged.\<close>

lemma partials_invariant:
  "wf_partials (fst (messenger_run addr self Map.empty is)) \<and>
   (\<forall>mid m. fst (messenger_run addr self Map.empty (is @ [Sweep now])) mid = Some m \<longleftrightarrow>
      fst (messenger_run addr self Map.empty is) mid = Some m \<and> now - firstSeen m \<le> partialMessageTTL)"
proof -
  have "wf_partials Map.empty" by (simp add: wf_partials_def)
  then show ?thesis
    using wf_run by (simp add: messenger_run_append evict_age case_prod_beta Let_def)
qed

end
