(* ===== verification/Matrix_Messenger.thy ===== *)
theory Matrix_Messenger
  imports Matrix_Reassembly
begin

text \<open>
  Sending messages and keeping rooms: user IDs of \<^verbatim>\<open>pkg/matrix/address.go\<close>, the client wrapper
  of \<^verbatim>\<open>internal/matrix/client\<close> (its calls, its login and its request signing), and of
  \<^verbatim>\<open>internal/matrix/messenger\<close> the room lookup, the removal of encrypted rooms, the invite
  handler, \<open>SendMessage\<close>, \<open>Start\<close> and \<open>Stop\<close>. The mautrix library and go-ethereum are parameters;
  what the code makes the homeserver do is recorded, in order, in a log.
\<close>

section \<open>User IDs (pkg/matrix)\<close>

record matrix_lib =
  HexToAddress :: "string \<Rightarrow> address"
  address_Hex :: "address \<Rightarrow> string"
  NewUserID :: "string \<Rightarrow> string \<Rightarrow> string"
  Localpart :: "string \<Rightarrow> string"

definition UserIDFromAddress :: "matrix_lib \<Rightarrow> address \<Rightarrow> string \<Rightarrow> string" where
  "UserIDFromAddress L addr host = NewUserID L (ToLower (address_Hex L addr)) host"

definition AddressFromUserID :: "matrix_lib \<Rightarrow> string \<Rightarrow> address" where
  "AddressFromUserID L userID = HexToAddress L (Localpart L userID)"

section \<open>The client wrapper (internal/matrix/client)\<close>

datatype effect =
  CreatedRoom string string
| JoinedRoom string
| LeftRoom string
| ForgotRoom string
| SentSigned string signedMessageEventContent
| SentChunk string messageChunkEventContent

text \<open>The mautrix calls the client makes. \<open>mx_Send\<close> gets the number of effects so far, so that
  each event sent may succeed or fail on its own.\<close>

record mautrix =
  mx_IsEncrypted :: "string \<Rightarrow> bool res"
  mx_CreateRoom :: "string \<Rightarrow> string res"
  mx_JoinRoomByID :: "string \<Rightarrow> unit res"
  mx_LeaveRoom :: "string \<Rightarrow> unit res"
  mx_ForgetRoom :: "string \<Rightarrow> unit res"
  mx_JoinedRooms :: "string list res"
  mx_JoinedMembers :: "string \<Rightarrow> string list res"
  mx_Send :: "nat \<Rightarrow> unit res"
  mx_Sync :: "unit res"
  mx_Close :: "unit res"

definition EventTypeSignedMessage :: string where
  "EventTypeSignedMessage = ''m.room.ttm-signed-msg''"

definition EventTypeMessageChunk :: string where
  "EventTypeMessageChunk = ''m.room.ttm-msg-chunk''"

definition errorf1 :: "string \<Rightarrow> string \<Rightarrow> err \<Rightarrow> err" where
  "errorf1 s x e = Err ([PStr s, PStr x, PStr '': ''] @ Error e) [e]"

definition errorf2 :: "string \<Rightarrow> string \<Rightarrow> string \<Rightarrow> string \<Rightarrow> err \<Rightarrow> err" where
  "errorf2 s x t y e = Err ([PStr s, PStr x, PStr t, PStr y, PStr '': ''] @ Error e) [e]"

text \<open>A call that has one effect when it succeeds.\<close>

definition effectful :: "'a res \<Rightarrow> (err \<Rightarrow> err) \<Rightarrow> ('a \<Rightarrow> effect) \<Rightarrow> effect list \<Rightarrow> 'a res \<times> effect list" where
  "effectful r w eff log =
     (case r of Ok v \<Rightarrow> (Ok v, log @ [eff v]) | Fail e \<Rightarrow> (Fail (w e), log) | Panic t \<Rightarrow> (Panic t, log))"

definition IsRoomEncrypted :: "mautrix \<Rightarrow> string \<Rightarrow> bool res" where
  "IsRoomEncrypted mx roomID = mx_IsEncrypted mx roomID"

definition CreateRoomForUser :: "mautrix \<Rightarrow> string \<Rightarrow> effect list \<Rightarrow> string res \<times> effect list" where
  "CreateRoomForUser mx recipient log =
     effectful (mx_CreateRoom mx recipient) (errorf1 ''failed to create new room for user '' recipient)
       (\<lambda>roomID. CreatedRoom recipient roomID) log"

definition JoinRoom :: "mautrix \<Rightarrow> string \<Rightarrow> effect list \<Rightarrow> unit res \<times> effect list" where
  "JoinRoom mx roomID log =
     effectful (mx_JoinRoomByID mx roomID) (errorf1 ''failed to join room '' roomID) (\<lambda>_. JoinedRoom roomID) log"

definition LeaveRoom :: "mautrix \<Rightarrow> string \<Rightarrow> effect list \<Rightarrow> unit res \<times> effect list" where
  "LeaveRoom mx roomID log =
     effectful (mx_LeaveRoom mx roomID) (errorf1 ''failed to leave room '' roomID) (\<lambda>_. LeftRoom roomID) log"

definition ForgetRoom :: "mautrix \<Rightarrow> string \<Rightarrow> effect list \<Rightarrow> unit res \<times> effect list" where
  "ForgetRoom mx roomID log =
     effectful (mx_ForgetRoom mx roomID) (errorf1 ''failed to forget room '' roomID) (\<lambda>_. ForgotRoom roomID) log"

definition JoinedRooms :: "mautrix \<Rightarrow> string list res" where
  "JoinedRooms mx = onErr (mx_JoinedRooms mx) (wrap ''failed to get joined rooms: '') Ok"

definition IsUserJoinedRoom :: "mautrix \<Rightarrow> string \<Rightarrow> string \<Rightarrow> bool res" where
  "IsUserJoinedRoom mx roomID userID =
     onErr (mx_JoinedMembers mx roomID) (errorf1 ''failed to get joined members for room '' roomID)
       (\<lambda>joined. Ok (userID \<in> set joined))"

definition SendSignedMessageEvent ::
  "mautrix \<Rightarrow> string \<Rightarrow> signedMessageEventContent \<Rightarrow> effect list \<Rightarrow> unit res \<times> effect list" where
  "SendSignedMessageEvent mx roomID ev log =
     effectful (mx_Send mx (length log))
       (errorf2 ''failed to send message event of type '' EventTypeSignedMessage '' to room '' roomID)
       (\<lambda>_. SentSigned roomID ev) log"

definition SendMessageChunkEvent ::
  "mautrix \<Rightarrow> string \<Rightarrow> messageChunkEventContent \<Rightarrow> effect list \<Rightarrow> unit res \<times> effect list" where
  "SendMessageChunkEvent mx roomID ev log =
     effectful (mx_Send mx (length log))
       (errorf2 ''failed to send message event of type '' EventTypeMessageChunk '' to room '' roomID)
       (\<lambda>_. SentChunk roomID ev) log"

text \<open>\<open>context canceled\<close> is the sentinel of a cancelled context.\<close>

definition SyncWithContext :: "mautrix \<Rightarrow> unit res" where
  "SyncWithContext mx =
     (case mx_Sync mx of
        Fail e \<Rightarrow> if errors_Is e ''context canceled'' then Ok () else Fail (wrap ''sync failed: '' e)
      | r \<Rightarrow> r)"

section \<open>Rooms (internal/matrix/messenger/rooms.go)\<close>

record messenger =
  botUserID :: string
  matrixHost :: string
  rooms :: "string \<rightharpoonup> string"
  cancelSync :: bool
  mx_log :: "effect list"

fun firstJoinedRoom :: "mautrix \<Rightarrow> string \<Rightarrow> string list \<Rightarrow> string option" where
  "firstJoinedRoom mx recipient [] = None"
| "firstJoinedRoom mx recipient (roomID # rs) =
     (case IsUserJoinedRoom mx roomID recipient of
        Ok joined \<Rightarrow> if joined then Some roomID else firstJoinedRoom mx recipient rs
      | _ \<Rightarrow> None)"

definition findExistingRoomForRecipient ::
  "((string \<rightharpoonup> string) \<Rightarrow> (string \<rightharpoonup> string)) \<Rightarrow> mautrix \<Rightarrow> messenger \<Rightarrow> string \<Rightarrow> string option \<times> messenger" where
  "findExistingRoomForRecipient ev mx m recipient =
     (case rooms m recipient of
        Some roomID \<Rightarrow> (Some roomID, m)
      | None \<Rightarrow>
          (case JoinedRooms mx of
             Ok joined \<Rightarrow>
               (case firstJoinedRoom mx recipient joined of
                  Some roomID \<Rightarrow> (Some roomID, m\<lparr>rooms := cache_Add ev recipient roomID (rooms m)\<rparr>)
                | None \<Rightarrow> (None, m))
           | _ \<Rightarrow> (None, m)))"

definition getRoomForRecipient ::
  "((string \<rightharpoonup> string) \<Rightarrow> (string \<rightharpoonup> string)) \<Rightarrow> mautrix \<Rightarrow> messenger \<Rightarrow> string \<Rightarrow> string res \<times> messenger" where
  "getRoomForRecipient ev mx m recipient =
     (case findExistingRoomForRecipient ev mx m recipient of
        (Some roomID, m) \<Rightarrow> (Ok roomID, m)
      | (None, m) \<Rightarrow>
          (case CreateRoomForUser mx recipient (mx_log m) of
             (Ok roomID, log) \<Rightarrow>
               (Ok roomID, m\<lparr>mx_log := log, rooms := cache_Add ev recipient roomID (rooms m)\<rparr>)
           | (Fail e, log) \<Rightarrow> (Fail (errorf1 ''failed to create room for user '' recipient e), m)
           | (Panic t, log) \<Rightarrow> (Panic t, m)))"

text \<open>
  \<open>removeEncryptedRooms\<close> checks and leaves all rooms concurrently; \<open>order\<close> is the order in which
  the rooms are worked through, and the error reported is the first one in that order. No room is
  skipped because another one failed.
\<close>

definition removeEncryptedRoom :: "mautrix \<Rightarrow> string \<Rightarrow> effect list \<Rightarrow> unit res \<times> effect list" where
  "removeEncryptedRoom mx roomID log =
     (case IsRoomEncrypted mx roomID of
        Panic t \<Rightarrow> (Panic t, log)
      | Fail e \<Rightarrow> (Fail (errorf2 ''failed to check if room '' roomID '' is encrypted'' [] e), log)
      | Ok encrypted \<Rightarrow>
          if \<not> encrypted then (Ok (), log)
          else (case LeaveRoom mx roomID log of
             (Ok _, log) \<Rightarrow>
               (case ForgetRoom mx roomID log of
                  (Ok _, log) \<Rightarrow> (Ok (), log)
                | (Fail e, log) \<Rightarrow> (Fail (errorf1 ''failed to forget room '' roomID e), log)
                | (Panic t, log) \<Rightarrow> (Panic t, log))
           | (Fail e, log) \<Rightarrow> (Fail (errorf1 ''failed to leave room '' roomID e), log)
           | (Panic t, log) \<Rightarrow> (Panic t, log)))"

fun removeEach :: "mautrix \<Rightarrow> string list \<Rightarrow> effect list \<Rightarrow> unit res \<times> effect list" where
  "removeEach mx [] log = (Ok (), log)"
| "removeEach mx (roomID # rs) log =
     (case removeEncryptedRoom mx roomID log of (r, log) \<Rightarrow>
      case removeEach mx rs log of (r', log) \<Rightarrow>
        (case r of Ok _ \<Rightarrow> r' | _ \<Rightarrow> r, log))"

definition removeEncryptedRooms ::
  "(string list \<Rightarrow> string list) \<Rightarrow> mautrix \<Rightarrow> messenger \<Rightarrow> unit res \<times> messenger" where
  "removeEncryptedRooms order mx m =
     (case JoinedRooms mx of
        Panic t \<Rightarrow> (Panic t, m)
      | Fail e \<Rightarrow> (Fail (wrap ''failed to get joined rooms: '' e), m)
      | Ok joined \<Rightarrow>
          (case removeEach mx (order joined) (mx_log m) of (r, log) \<Rightarrow>
             (onErr r (wrap ''failed to remove all encrypted rooms: '') Ok, m\<lparr>mx_log := log\<rparr>)))"

text \<open>A membership event: the user it is about, whether it is an invite, and its room.\<close>

definition stateMemberEventHandler ::
  "mautrix \<Rightarrow> messenger \<Rightarrow> string \<Rightarrow> bool \<Rightarrow> string \<Rightarrow> messenger" where
  "stateMemberEventHandler mx m stateKey invite roomID =
     (if stateKey = botUserID m \<and> invite
      then (case IsRoomEncrypted mx roomID of
              Ok encrypted \<Rightarrow>
                if encrypted then m else m\<lparr>mx_log := snd (JoinRoom mx roomID (mx_log m))\<rparr>
            | _ \<Rightarrow> m)
      else m)"

section \<open>Sending (internal/matrix/messenger/messages.go)\<close>

fun chunkEventsFrom :: "string \<Rightarrow> nat \<Rightarrow> bytes list \<Rightarrow> messageChunkEventContent list res" where
  "chunkEventsFrom messageID i [] = Ok []"
| "chunkEventsFrom messageID i (chunk # cs) =
     onErr (MustIntToUInt32 (int i + 1)) (\<lambda>e. e) (\<lambda>k.
     onErr (chunkEventsFrom messageID (i + 1) cs) (\<lambda>e. e) (\<lambda>evs.
       Ok (\<lparr>mce_ChunkData = \<lparr>MessageID = messageID, Data = chunk\<rparr>, ChunkIndex = k\<rparr> # evs)))"

fun sendChunkEvents ::
  "mautrix \<Rightarrow> string \<Rightarrow> messageChunkEventContent list \<Rightarrow> effect list \<Rightarrow> unit res \<times> effect list" where
  "sendChunkEvents mx roomID [] log = (Ok (), log)"
| "sendChunkEvents mx roomID (ev # evs) log =
     (case SendMessageChunkEvent mx roomID ev log of
        (Ok _, log) \<Rightarrow> sendChunkEvents mx roomID evs log
      | (r, log) \<Rightarrow> (r, log))"

text \<open>The first half of \<open>SendMessage\<close> builds the events, the second sends them in order and stops
  at the first error. \<open>uuid\<close> is the fresh message ID.\<close>

definition messageEvents ::
  "string \<Rightarrow> encodedSignedMessage \<Rightarrow> address \<Rightarrow>
   (signedMessageEventContent \<times> messageChunkEventContent list) res" where
  "messageEvents uuid msg senderTTMAccount =
     (case ChunkedEncodedMessage msg of
        [] \<Rightarrow> Panic [PStr ''runtime error: index out of range [0] with length 0'']
      | firstChunk # restChunks \<Rightarrow>
          onErr (MustIntToUInt32 (int (length (ChunkedEncodedMessage msg)))) (\<lambda>e. e) (\<lambda>count.
          onErr (if count > 1 then chunkEventsFrom uuid 0 restChunks else Ok []) (\<lambda>e. e) (\<lambda>chunkEvents.
            Ok (\<lparr>sme_ChunkData = \<lparr>MessageID = uuid, Data = firstChunk\<rparr>, ChunksCount = count,
                 Signature = EncSignature msg, SenderTTMAccountAddress = senderTTMAccount\<rparr>, chunkEvents))))"

definition sendEvents ::
  "mautrix \<Rightarrow> string \<Rightarrow> signedMessageEventContent \<Rightarrow> messageChunkEventContent list \<Rightarrow> effect list \<Rightarrow>
   unit res \<times> effect list" where
  "sendEvents mx roomID messageEvent chunkEvents log =
     (case SendSignedMessageEvent mx roomID messageEvent log of
        (Ok _, log) \<Rightarrow> sendChunkEvents mx roomID chunkEvents log
      | (r, log) \<Rightarrow> (r, log))"

definition SendMessage ::
  "matrix_lib \<Rightarrow> ((string \<rightharpoonup> string) \<Rightarrow> (string \<rightharpoonup> string)) \<Rightarrow> mautrix \<Rightarrow> string \<Rightarrow> messenger \<Rightarrow>
   encodedSignedMessage \<Rightarrow> address \<Rightarrow> address \<Rightarrow> unit res \<times> messenger" where
  "SendMessage L ev mx uuid m msg sendTo senderTTMAccount =
     (case getRoomForRecipient ev mx m (UserIDFromAddress L sendTo (matrixHost m)) of
        (Fail e, m) \<Rightarrow> (Fail e, m)
      | (Panic t, m) \<Rightarrow> (Panic t, m)
      | (Ok roomID, m) \<Rightarrow>
          (case messageEvents uuid msg senderTTMAccount of
             Fail e \<Rightarrow> (Fail e, m)
           | Panic t \<Rightarrow> (Panic t, m)
           | Ok (messageEvent, chunkEvents) \<Rightarrow>
               (case sendEvents mx roomID messageEvent chunkEvents (mx_log m) of
                  (r, log) \<Rightarrow> (r, m\<lparr>mx_log := log\<rparr>))))"

section \<open>Start and stop (internal/matrix/messenger/messenger.go)\<close>

definition NewMessenger :: "string \<Rightarrow> string \<Rightarrow> effect list \<Rightarrow> messenger" where
  "NewMessenger userID homeserver log =
     \<lparr>botUserID = userID, matrixHost = homeserver, rooms = Map.empty, cancelSync = False, mx_log = log\<rparr>"

text \<open>\<open>Start\<close> returns the errors the syncer goroutine sends on its channel before closing it.\<close>

definition syncerErrors :: "mautrix \<Rightarrow> err list" where
  "syncerErrors mx =
     (case SyncWithContext mx of
        Ok _ \<Rightarrow> []
      | Fail e \<Rightarrow> if errors_Is e ''context canceled'' then []
                  else [wrap ''matrix event syncer exited with error: '' e]
      | Panic t \<Rightarrow> [Err (PStr ''matrix event syncer panicked: '' # t) []])"

definition messenger_Start ::
  "(string list \<Rightarrow> string list) \<Rightarrow> mautrix \<Rightarrow> messenger \<Rightarrow> err list res \<times> messenger" where
  "messenger_Start order mx m =
     (case removeEncryptedRooms order mx m of
        (Ok _, m) \<Rightarrow> (Ok (syncerErrors mx), m\<lparr>cancelSync := True\<rparr>)
      | (Fail e, m) \<Rightarrow> (Fail (wrap ''failed to remove encrypted rooms: '' e), m)
      | (Panic t, m) \<Rightarrow> (Panic t, m))"

text \<open>\<open>cancelSync\<close> is set by \<open>Start\<close> and never reset: stopping twice cancels a cancelled context and
  reads a closed channel, which changes nothing.\<close>

definition messenger_Stop :: "mautrix \<Rightarrow> messenger \<Rightarrow> unit res \<times> messenger" where
  "messenger_Stop mx m =
     (onErr (mx_Close mx) (wrap ''failed to close matrix client: '') (\<lambda>_. Ok ()), m)"

section \<open>What is sent\<close>

lemma chunkEventsFrom_Ok:
  "chunkEventsFrom mid i cs = Ok evs \<Longrightarrow> length evs = length cs \<and>
     (\<forall>k < length cs. evs ! k = \<lparr>mce_ChunkData = \<lparr>MessageID = mid, Data = cs ! k\<rparr>,
                                  ChunkIndex = word_of_nat (Suc (i + k))\<rparr> \<and> Suc (i + k) < 2 ^ 32)"
proof (induction mid i cs arbitrary: evs rule: chunkEventsFrom.induct)
  case (2 mid i c cs)
  from 2(2) obtain w es where w: "MustIntToUInt32 (int i + 1) = Ok w"
      "chunkEventsFrom mid (i + 1) cs = Ok es"
      "evs = \<lparr>mce_ChunkData = \<lparr>MessageID = mid, Data = c\<rparr>, ChunkIndex = w\<rparr> # es"
    by (auto simp: onErr_eq_Ok_iff)
  have "int i + 1 \<le> 4294967295" "w = word_of_int (int i + 1)"
    using w(1) by (auto simp: MustIntToUInt32_def split: if_splits)
  then have "w = word_of_nat (Suc i)" "Suc i < 2 ^ 32" by (simp_all add: add.commute)
  then show ?case
    using 2(1)[OF w(2)] w(3) by (auto simp: less_Suc_eq_0_disj)
qed simp

lemma sendChunkEvents_Ok:
  "sendChunkEvents mx room evs log = (Ok u, log') \<Longrightarrow> log' = log @ map (SentChunk room) evs"
proof (induction evs arbitrary: log)
  case (Cons e evs)
  then have "sendChunkEvents mx room evs (log @ [SentChunk room e]) = (Ok u, log')"
    by (auto simp: SendMessageChunkEvent_def effectful_def split: res.splits)
  from Cons.IH[OF this] show ?case by simp
qed simp

lemma sendEvents_Ok:
  "sendEvents mx room h evs log = (Ok u, log') \<Longrightarrow> log' = log @ SentSigned room h # map (SentChunk room) evs"
  by (auto simp: sendEvents_def SendSignedMessageEvent_def effectful_def split: res.splits
      dest!: sendChunkEvents_Ok)

lemma messageEvents_Ok:
  assumes "messageEvents uuid msg acct = Ok (h, evs)"
  obtains c cs where "ChunkedEncodedMessage msg = c # cs" "length (c # cs) < 2 ^ 32"
    "h = \<lparr>sme_ChunkData = \<lparr>MessageID = uuid, Data = c\<rparr>, ChunksCount = word_of_nat (length (c # cs)),
          Signature = EncSignature msg, SenderTTMAccountAddress = acct\<rparr>"
    "length evs = length cs"
    "\<forall>k < length cs. evs ! k = \<lparr>mce_ChunkData = \<lparr>MessageID = uuid, Data = cs ! k\<rparr>,
        ChunkIndex = word_of_nat (Suc k)\<rparr>"
proof -
  obtain c cs where c: "ChunkedEncodedMessage msg = c # cs"
    using assms by (auto simp: messageEvents_def split: list.splits)
  obtain n where n: "MustIntToUInt32 (int (length (c # cs))) = Ok n"
      and evs: "(if n > 1 then chunkEventsFrom uuid 0 cs else Ok []) = Ok evs"
      and h: "h = \<lparr>sme_ChunkData = \<lparr>MessageID = uuid, Data = c\<rparr>, ChunksCount = n,
          Signature = EncSignature msg, SenderTTMAccountAddress = acct\<rparr>"
    using assms c by (auto simp: messageEvents_def onErr_eq_Ok_iff)
  have len: "length (c # cs) < 2 ^ 32" and nw: "n = word_of_nat (length (c # cs))"
    using n by (auto simp: MustIntToUInt32_def split: if_splits)
  have "length evs = length cs \<and> (\<forall>k < length cs. evs ! k = \<lparr>mce_ChunkData =
      \<lparr>MessageID = uuid, Data = cs ! k\<rparr>, ChunkIndex = word_of_nat (Suc k)\<rparr>)"
  proof (cases "n > 1")
    case True
    then show ?thesis using evs chunkEventsFrom_Ok[of uuid 0 cs evs] by simp
  next
    case False
    then have "unat n \<le> 1" by (simp add: word_less_nat_alt)
    then have "cs = []" using len nw by (cases cs) (simp_all add: unat_of_nat take_bit_nat_eq_self del: of_nat_Suc)
    then show ?thesis using False evs by simp
  qed
  then show thesis using that[OF c len] h nw by blast
qed

lemma find_log: "mx_log (snd (findExistingRoomForRecipient ev mx m u)) = mx_log m"
  by (simp add: findExistingRoomForRecipient_def split: option.splits res.splits)

lemma find_host: "matrixHost (snd (findExistingRoomForRecipient ev mx m u)) = matrixHost m"
  by (simp add: findExistingRoomForRecipient_def split: option.splits res.splits)

lemma getRoom_log:
  "getRoomForRecipient ev mx m u = (r, m') \<Longrightarrow>
   mx_log m' = mx_log m \<or> (\<exists>room. mx_log m' = mx_log m @ [CreatedRoom u room])"
  using find_log[of ev mx m u]
  by (auto simp: getRoomForRecipient_def CreateRoomForUser_def effectful_def
      split: prod.splits option.splits res.splits)

text \<open>The events a successful \<open>SendMessage\<close> sends: the header, then the chunks.\<close>

lemma SendMessage_Ok:
  assumes "SendMessage L ev mx uuid m msg sendTo acct = (Ok u, m')"
  obtains room m1 h evs where
    "getRoomForRecipient ev mx m (UserIDFromAddress L sendTo (matrixHost m)) = (Ok room, m1)"
    "messageEvents uuid msg acct = Ok (h, evs)"
    "mx_log m' = mx_log m1 @ SentSigned room h # map (SentChunk room) evs"
  using assms by (auto simp: SendMessage_def split: prod.splits res.splits dest!: sendEvents_Ok)

section \<open>Properties\<close>

text \<open>An input of the recipient carries what was sent: if its content names the message ID, that
  very content is among the sent events.\<close>

fun carries :: "string \<Rightarrow> effect list \<Rightarrow> input \<Rightarrow> bool" where
  "carries mid sent (SignedEvent t evt) \<longleftrightarrow>
     (case Parsed evt of
        ParsedSigned c \<Rightarrow> MessageID (sme_ChunkData c) = mid \<longrightarrow> (\<exists>room. SentSigned room c \<in> set sent)
      | _ \<Rightarrow> True)"
| "carries mid sent (ChunkEvent t evt) \<longleftrightarrow>
     (case Parsed evt of
        ParsedChunk c \<Rightarrow> MessageID (mce_ChunkData c) = mid \<longrightarrow> (\<exists>room. SentChunk room c \<in> set sent)
      | _ \<Rightarrow> True)"
| "carries mid sent (Sweep t) \<longleftrightarrow> True"

fun effect_id :: "effect \<Rightarrow> string option" where
  "effect_id (SentSigned room c) = Some (MessageID (sme_ChunkData c))"
| "effect_id (SentChunk room c) = Some (MessageID (mce_ChunkData c))"
| "effect_id _ = None"

definition sent_of :: "string \<Rightarrow> encodedSignedMessage \<Rightarrow> address \<Rightarrow> sent_message" where
  "sent_of uuid msg acct = \<lparr>sm_id = uuid, sm_chunks = ChunkedEncodedMessage msg,
     sm_signature = EncSignature msg, sm_account = acct\<rparr>"

lemma sent_is_genuine:
  assumes send: "SendMessage L ev mx uuid m msg sendTo acct = (Ok u, m')"
    and fresh: "\<forall>x \<in> set (mx_log m). effect_id x \<noteq> Some uuid"
    and i: "carries uuid (mx_log m') i"
  shows "genuine (sent_of uuid msg acct) i"
proof -
  obtain room m1 h evs where g: "getRoomForRecipient ev mx m (UserIDFromAddress L sendTo (matrixHost m)) = (Ok room, m1)"
    and me: "messageEvents uuid msg acct = Ok (h, evs)"
    and log: "mx_log m' = mx_log m1 @ SentSigned room h # map (SentChunk room) evs"
    using SendMessage_Ok[OF send] by metis
  have fresh1: "\<forall>x \<in> set (mx_log m1). effect_id x \<noteq> Some uuid"
    using getRoom_log[OF g] fresh by auto
  obtain c cs where c: "ChunkedEncodedMessage msg = c # cs" "length (c # cs) < 2 ^ 32"
    "h = \<lparr>sme_ChunkData = \<lparr>MessageID = uuid, Data = c\<rparr>, ChunksCount = word_of_nat (length (c # cs)),
          Signature = EncSignature msg, SenderTTMAccountAddress = acct\<rparr>"
    "length evs = length cs"
    "\<forall>k < length cs. evs ! k = \<lparr>mce_ChunkData = \<lparr>MessageID = uuid, Data = cs ! k\<rparr>,
        ChunkIndex = word_of_nat (Suc k)\<rparr>"
    using messageEvents_Ok[OF me] by metis
  have S: "d = h" if "SentSigned r d \<in> set (mx_log m')" "MessageID (sme_ChunkData d) = uuid" for r d
    using that log fresh1 by auto
  have C: "\<exists>k < length cs. d = evs ! k" if "SentChunk r d \<in> set (mx_log m')" "MessageID (mce_ChunkData d) = uuid" for r d
  proof -
    have "SentChunk r d \<notin> set (mx_log m1)" using that(2) fresh1 by force
    then have "d \<in> set evs" using that(1) log by auto
    then show ?thesis using c(4) by (metis in_set_conv_nth)
  qed
  have U: "unat (word_of_nat (Suc k) :: uint32) = Suc k" if "k < length cs" for k
    using that c(2) by (simp add: unat_of_nat take_bit_nat_eq_self del: of_nat_Suc)
  have hd: "ChunksCount d = sm_count (sent_of uuid msg acct) \<and> Signature d = EncSignature msg \<and>
      SenderTTMAccountAddress d = acct \<and> Data (sme_ChunkData d) = ChunkedEncodedMessage msg ! 0"
    if "SentSigned r d \<in> set (mx_log m')" "MessageID (sme_ChunkData d) = uuid" for r d
    using S[OF that] c(1,3) by (simp add: sent_of_def)
  have ch: "Data (mce_ChunkData d) = ChunkedEncodedMessage msg ! unat (ChunkIndex d)"
    if d: "SentChunk r d \<in> set (mx_log m')" "MessageID (mce_ChunkData d) = uuid" for r d
  proof -
    obtain k where "k < length cs" "d = evs ! k" using C[OF d] by blast
    then show ?thesis using c(1,5) U[of k] by (simp del: of_nat_Suc)
  qed
  show ?thesis
  proof (cases i)
    case (SignedEvent t evt)
    then show ?thesis using i hd by (cases "Parsed evt") (auto simp: sent_of_def)
  next
    case (ChunkEvent t evt)
    then show ?thesis using i ch by (cases "Parsed evt") (auto simp: sent_of_def)
  qed simp
qed

text \<open>What \<open>SendMessage\<close> sends, \<open>SendMessage\<close>'s peer receives. If a message of at
  least two chunks was sent under a fresh ID and the receiving messenger gets its events in any
  order, redelivered and interleaved with anything else, then the arrival of the last missing index
  delivers exactly the chunks, the signature and the sender account that were passed to
  \<open>SendMessage\<close>, and nothing was delivered for it before.\<close>

lemma send_then_receive:
  assumes "SendMessage L ev mx uuid m msg sendTo acct = (Ok u, m')"
    and "\<forall>x \<in> set (mx_log m). effect_id x \<noteq> Some uuid"
    and "2 \<le> length (ChunkedEncodedMessage msg)" and "msgs uuid = None"
    and "\<forall>i \<in> set (is @ [e]). carries uuid (mx_log m') i \<and> t0 \<le> input_time i \<and>
           (is_sweep i \<longrightarrow> input_time i - t0 \<le> partialMessageTTL)"
    and "\<not> {..<word_of_nat (length (ChunkedEncodedMessage msg))} \<subseteq> fst ` set (arrivals_of self uuid is)"
    and "{..<word_of_nat (length (ChunkedEncodedMessage msg))} \<subseteq> fst ` set (arrivals_of self uuid (is @ [e]))"
  shows "deliveries addr self uuid msgs is = [] \<and>
    deliveries addr self uuid msgs (is @ [e]) =
      [\<lparr>EncMessage = msg, EncSenderTTMAccountAddress = acct, SenderBotAddress = addr (input_sender e)\<rparr>]"
proof -
  let ?M = "sent_of uuid msg acct"
  obtain room m1 h evs where "messageEvents uuid msg acct = Ok (h, evs)"
    using SendMessage_Ok[OF assms(1)] by metis
  then have "sendable ?M"
    using assms(3) by (auto simp: sendable_def sent_of_def elim!: messageEvents_Ok)
  moreover have "\<forall>i \<in> set (is @ [e]). genuine ?M i \<and> t0 \<le> input_time i \<and>
           (is_sweep i \<longrightarrow> input_time i - t0 \<le> partialMessageTTL)"
    using assms(5) sent_is_genuine[OF assms(1,2)] by blast
  ultimately have "deliveries addr self uuid msgs is = [] \<and>
      deliveries addr self uuid msgs (is @ [e]) = [whole ?M (addr (input_sender e))]"
    using completed_exactly_once_aux[of ?M msgs "is" e t0 self addr] assms(4,6,7) by (simp add: sent_of_def)
  then show ?thesis by (simp add: whole_def sent_of_def)
qed

definition sample_lib :: matrix_lib where
  "sample_lib = \<lparr>HexToAddress = (\<lambda>_. 4), address_Hex = (\<lambda>_. ''0xAB''),
     NewUserID = (\<lambda>l h. ''@'' @ l @ '':'' @ h), Localpart = (\<lambda>u. u)\<rparr>"

definition sample_mx :: mautrix where
  "sample_mx = \<lparr>mx_IsEncrypted = (\<lambda>r. Ok (r = ''old'')), mx_CreateRoom = (\<lambda>_. Ok ''new''),
     mx_JoinRoomByID = (\<lambda>_. Ok ()), mx_LeaveRoom = (\<lambda>_. Ok ()), mx_ForgetRoom = (\<lambda>_. Ok ()),
     mx_JoinedRooms = Ok [''old'', ''room''], mx_JoinedMembers = (\<lambda>r. Ok []),
     mx_Send = (\<lambda>_. Ok ()), mx_Sync = Ok (), mx_Close = Ok ()\<rparr>"

definition sample_sender :: messenger where
  "sample_sender = NewMessenger ''@0x1:h'' ''h'' []"

definition sample_received :: "input list" where
  "sample_received = [sample_chunk 1 [3], Sweep 5, sample_chunk 1 [3]]"

lemma send_then_receive_witness:
  "deliveries (\<lambda>_. 4) ''me'' ''id'' Map.empty (sample_received @ [sample_header]) =
     [\<lparr>EncMessage = \<lparr>ChunkedEncodedMessage = [[1, 2], [3]], EncSignature = [9]\<rparr>,
       EncSenderTTMAccountAddress = 5, SenderBotAddress = 4\<rparr>]"
proof -
  let ?msg = "\<lparr>ChunkedEncodedMessage = [[1, 2], [3]], EncSignature = [9]\<rparr> :: encodedSignedMessage"
  let ?S = "SendMessage sample_lib (\<lambda>m. m) sample_mx ''id'' sample_sender ?msg 7 5"
  have log: "mx_log (snd ?S) = [CreatedRoom ''@0xab:h'' ''new'',
      SentSigned ''new'' \<lparr>sme_ChunkData = \<lparr>MessageID = ''id'', Data = [1, 2]\<rparr>, ChunksCount = 2,
        Signature = [9], SenderTTMAccountAddress = 5\<rparr>,
      SentChunk ''new'' \<lparr>mce_ChunkData = \<lparr>MessageID = ''id'', Data = [3]\<rparr>, ChunkIndex = 1\<rparr>]"
    by code_simp
  have "fst ?S = Ok ()" by code_simp
  then have "?S = (Ok (), snd ?S)" by (metis prod.collapse)
  moreover have "\<forall>x \<in> set (mx_log sample_sender). effect_id x \<noteq> Some ''id''" by code_simp
  moreover have "\<forall>i \<in> set (sample_received @ [sample_header]). carries ''id'' (mx_log (snd ?S)) i \<and>
      3 \<le> input_time i \<and> (is_sweep i \<longrightarrow> input_time i - 3 \<le> partialMessageTTL)"
    unfolding log by (auto simp: sample_received_def sample_header_def sample_chunk_def)
  moreover have "arrivals_of ''me'' ''id'' sample_received = [(1, ''peer''), (1, ''peer'')]"
    "arrivals_of ''me'' ''id'' (sample_received @ [sample_header]) = [(1, ''peer''), (1, ''peer''), (0, ''peer'')]"
    by code_simp+
  ultimately show ?thesis
    using send_then_receive[of sample_lib "\<lambda>m. m" sample_mx "''id''" sample_sender ?msg 7 5 "()" "snd ?S"
        Map.empty sample_received sample_header 3 "''me''" "\<lambda>_. 4"]
    by (simp add: lessThan_2_word)
qed

lemma removeEncryptedRoom_Ok:
  assumes "removeEncryptedRoom mx r log = (Ok u, log')"
  shows "(mx_IsEncrypted mx r = Ok True \<and> log' = log @ [LeftRoom r, ForgotRoom r]) \<or>
         (mx_IsEncrypted mx r = Ok False \<and> log' = log)"
  using assms
  by (auto simp: removeEncryptedRoom_def IsRoomEncrypted_def LeaveRoom_def ForgetRoom_def effectful_def
      split: res.splits if_splits)

lemma removeEach_Ok:
  "removeEach mx rs log = (Ok u, log') \<Longrightarrow>
     (\<exists>es. log' = log @ es \<and> set es = {x. \<exists>r \<in> set rs. mx_IsEncrypted mx r = Ok True \<and>
        (x = LeftRoom r \<or> x = ForgotRoom r)}) \<and> (\<forall>r \<in> set rs. \<exists>b. mx_IsEncrypted mx r = Ok b)"
proof (induction rs arbitrary: log)
  case (Cons r rs)
  obtain r1 l1 where r1: "removeEncryptedRoom mx r log = (r1, l1)" by fastforce
  obtain r2 l2 where r2: "removeEach mx rs l1 = (r2, l2)" by fastforce
  have ok: "r1 = Ok ()" "r2 = Ok u" "l2 = log'"
    using Cons.prems r1 r2 by (auto split: res.splits)
  then obtain es where es: "log' = l1 @ es" "set es = {x. \<exists>r \<in> set rs. mx_IsEncrypted mx r = Ok True \<and>
        (x = LeftRoom r \<or> x = ForgotRoom r)}" "\<forall>r \<in> set rs. \<exists>b. mx_IsEncrypted mx r = Ok b"
    using Cons.IH[of l1] r2 by auto
  from removeEncryptedRoom_Ok[OF r1[unfolded ok(1)]] show ?case
  proof
    assume a: "mx_IsEncrypted mx r = Ok True \<and> l1 = log @ [LeftRoom r, ForgotRoom r]"
    then show ?thesis using es by (intro conjI exI[of _ "[LeftRoom r, ForgotRoom r] @ es"]) auto
  next
    assume a: "mx_IsEncrypted mx r = Ok False \<and> l1 = log"
    then show ?thesis using es by (intro conjI exI[of _ es]) auto
  qed
qed simp

text \<open>If \<open>removeEncryptedRooms\<close> reports success, every joined room is known to be
  encrypted or not, each encrypted one has been left and forgotten, and no other room has been
  touched, whatever the order in which the concurrent removals run.\<close>

lemma removeEncryptedRooms_complete:
  assumes "removeEncryptedRooms order mx m = (Ok u, m')"
    and "\<And>xs. set (order xs) = set xs" and "mx_JoinedRooms mx = Ok joined"
  shows "\<exists>es. mx_log m' = mx_log m @ es \<and>
     set es = {x. \<exists>r \<in> set joined. mx_IsEncrypted mx r = Ok True \<and> (x = LeftRoom r \<or> x = ForgotRoom r)} \<and>
     (\<forall>r \<in> set joined. \<exists>b. mx_IsEncrypted mx r = Ok b)"
proof -
  obtain r log where r: "removeEach mx (order joined) (mx_log m) = (r, log)" by fastforce
  then have "r = Ok ()" "mx_log m' = log"
    using assms(1,3) by (auto simp: removeEncryptedRooms_def JoinedRooms_def onErr_eq_Ok_iff)
  then show ?thesis
    using removeEach_Ok[of mx "order joined" "mx_log m" "()" log] r assms(2)[of joined] by simp
qed

lemma removeEncryptedRooms_complete_witness:
  "\<exists>es. mx_log (snd (removeEncryptedRooms rev sample_mx sample_sender)) = [] @ es \<and>
     set es = {x. \<exists>r \<in> set [''old'', ''room'']. mx_IsEncrypted sample_mx r = Ok True \<and> (x = LeftRoom r \<or> x = ForgotRoom r)}"
proof -
  let ?R = "removeEncryptedRooms rev sample_mx sample_sender"
  have "fst ?R = Ok ()" by code_simp
  then have "?R = (Ok (), snd ?R)" by (metis prod.collapse)
  moreover have "mx_JoinedRooms sample_mx = Ok [''old'', ''room'']" "mx_log sample_sender = []"
    by (simp_all add: sample_mx_def sample_sender_def NewMessenger_def)
  ultimately show ?thesis
    using removeEncryptedRooms_complete[of rev sample_mx sample_sender "()" "snd ?R" "[''old'', ''room'']"]
    by auto
qed

lemma firstJoinedRoom_Some:
  "firstJoinedRoom mx u rs = Some r \<Longrightarrow> r \<in> set rs \<and> (\<exists>us. mx_JoinedMembers mx r = Ok us \<and> u \<in> set us)"
  by (induction rs) (auto simp: IsUserJoinedRoom_def onErr_def split: res.splits if_splits)

text \<open>A room is right for a recipient when the recipient is among its joined members, or it was
  created with the recipient invited.\<close>

definition room_of :: "mautrix \<Rightarrow> effect list \<Rightarrow> string \<Rightarrow> string \<Rightarrow> bool" where
  "room_of mx log u r \<longleftrightarrow>
     (\<exists>us. mx_JoinedMembers mx r = Ok us \<and> u \<in> set us) \<or> CreatedRoom u r \<in> set log"

definition rooms_ok :: "mautrix \<Rightarrow> messenger \<Rightarrow> bool" where
  "rooms_ok mx m \<longleftrightarrow> (\<forall>u r. rooms m u = Some r \<longrightarrow> room_of mx (mx_log m) u r)"

lemma room_of_mono: "room_of mx log u r \<Longrightarrow> room_of mx (log @ log') u r"
  by (auto simp: room_of_def)

text \<open>The room cache stays right and the room used is right. Whatever the LRU cache
  evicts, if every cached room is one the recipient is a member of or that was created for it,
  then so is the room \<open>getRoomForRecipient\<close> returns, and every room cached afterwards; and a room is
  created only when no cached one exists.\<close>

lemma getRoomForRecipient_sound:
  assumes "evicts_only ev" and "rooms_ok mx m" and "getRoomForRecipient ev mx m u = (r, m')"
  shows "rooms_ok mx m' \<and> (\<forall>room. r = Ok room \<longrightarrow> room_of mx (mx_log m') u room) \<and>
    (rooms m u \<noteq> None \<longrightarrow> m' = m)"
proof (cases "findExistingRoomForRecipient ev mx m u")
  case (Pair found m1)
  have ok1: "rooms_ok mx m1 \<and> (\<forall>room. found = Some room \<longrightarrow> room_of mx (mx_log m1) u room)"
    using Pair assms(1,2) firstJoinedRoom_Some[of mx u]
    by (auto simp: findExistingRoomForRecipient_def rooms_ok_def room_of_def
        split: option.splits res.splits dest!: cache_Add_Some[rotated]) blast+
  have "rooms m u \<noteq> None \<longrightarrow> found = rooms m u \<and> m1 = m"
    using Pair by (auto simp: findExistingRoomForRecipient_def)
  then show ?thesis
    using Pair assms ok1
    by (auto simp: getRoomForRecipient_def CreateRoomForUser_def effectful_def rooms_ok_def room_of_def
        split: option.splits res.splits dest!: cache_Add_Some[rotated]) blast+
qed

lemma getRoomForRecipient_sound_witness:
  "rooms_ok sample_mx (snd (getRoomForRecipient (\<lambda>m. m) sample_mx sample_sender ''@u:h''))"
proof -
  have "rooms_ok sample_mx sample_sender" by (simp add: rooms_ok_def sample_sender_def NewMessenger_def)
  then show ?thesis
    using getRoomForRecipient_sound[of "\<lambda>m. m" sample_mx sample_sender "''@u:h''"
        "fst (getRoomForRecipient (\<lambda>m. m) sample_mx sample_sender ''@u:h'')"
        "snd (getRoomForRecipient (\<lambda>m. m) sample_mx sample_sender ''@u:h'')"] by simp
qed

end
