(* ===== verification/Database.thy ===== *)
theory Database
  imports Go_Prelude
begin

text \<open>
  The SQLite layer of \<^verbatim>\<open>pkg/database/sqlite\<close>: opening and migrating a database, and the
  transaction sessions every storage uses. A database is the committed contents of its tables
  (type \<open>'d\<close>), together with an arbitrary schedule of driver failures: call number \<open>n\<close> of the
  driver fails with the error \<open>faults n\<close>, if any. A session is a working copy and a flag. Sessions
  are serialized (\<open>sql.LevelSerializable\<close> on a single SQLite file), so one is open at a time.
\<close>

section \<open>Sessions (session.go)\<close>

record 'd db =
  committed :: 'd
  faults :: "nat \<Rightarrow> err option"
  db_calls :: nat

record 'd sqlxTxSession =
  working :: 'd
  tx_done :: bool
  sess_committed :: bool

definition ErrAlreadyCommitted :: err where "ErrAlreadyCommitted = Sentinel ''already committed''"
definition ErrTxDone :: err where
  "ErrTxDone = Sentinel ''sql: transaction has already been committed or rolled back''"

text \<open>One call of the database driver: what it fails with, and the next state of the schedule.\<close>

definition driver_call :: "'d db \<Rightarrow> err option \<times> 'd db" where
  "driver_call db = (faults db (db_calls db), db\<lparr>db_calls := Suc (db_calls db)\<rparr>)"

definition NewSession :: "'d db \<Rightarrow> 'd sqlxTxSession res \<times> 'd db" where
  "NewSession db =
     (case driver_call db of
        (Some e, db) \<Rightarrow> (Fail (wrap ''failed to begin new sql transaction: '' e), db)
      | (None, db) \<Rightarrow> (Ok \<lparr>working = committed db, tx_done = False, sess_committed = False\<rparr>, db))"

text \<open>\<open>Commit\<close> and \<open>Rollback\<close> of \<open>database/sql\<close>: both end the transaction, also when they fail, and
  refuse one that has ended.\<close>

definition Tx_Commit :: "'d db \<Rightarrow> 'd sqlxTxSession \<Rightarrow> unit res \<times> 'd sqlxTxSession \<times> 'd db" where
  "Tx_Commit db s =
     (if tx_done s then (Fail ErrTxDone, s, db)
      else case driver_call db of
        (Some e, db) \<Rightarrow> (Fail e, s\<lparr>tx_done := True\<rparr>, db)
      | (None, db) \<Rightarrow> (Ok (), s\<lparr>tx_done := True\<rparr>, db\<lparr>committed := working s\<rparr>))"

definition Tx_Rollback :: "'d db \<Rightarrow> 'd sqlxTxSession \<Rightarrow> unit res \<times> 'd sqlxTxSession \<times> 'd db" where
  "Tx_Rollback db s =
     (if tx_done s then (Fail ErrTxDone, s, db)
      else case driver_call db of
        (Some e, db) \<Rightarrow> (Fail e, s\<lparr>tx_done := True\<rparr>, db)
      | (None, db) \<Rightarrow> (Ok (), s\<lparr>tx_done := True\<rparr>, db))"

definition Session_Commit :: "'d db \<Rightarrow> 'd sqlxTxSession \<Rightarrow> unit res \<times> 'd sqlxTxSession \<times> 'd db" where
  "Session_Commit db s =
     (if sess_committed s then (Fail ErrAlreadyCommitted, s, db)
      else case Tx_Commit db s of
        (Ok _, s, db) \<Rightarrow> (Ok (), s\<lparr>sess_committed := True\<rparr>, db)
      | (Fail e, s, db) \<Rightarrow> (Fail (wrap ''failed to commit sql transaction: '' e), s, db)
      | (Panic t, s, db) \<Rightarrow> (Panic t, s, db))"

definition Session_Abort :: "'d db \<Rightarrow> 'd sqlxTxSession \<Rightarrow> unit res \<times> 'd sqlxTxSession \<times> 'd db" where
  "Session_Abort db s =
     (if sess_committed s then (Ok (), s, db)
      else case Tx_Rollback db s of
        (Ok _, s, db) \<Rightarrow> (Ok (), s, db)
      | (Fail e, s, db) \<Rightarrow> (Fail (wrap ''failed to rollback sql transaction: '' e), s, db)
      | (Panic t, s, db) \<Rightarrow> (Panic t, s, db))"

definition DB_Commit :: "'d db \<Rightarrow> 'd sqlxTxSession \<Rightarrow> unit res \<times> 'd sqlxTxSession \<times> 'd db" where
  "DB_Commit db s =
     (case Session_Commit db s of (r, s, db) \<Rightarrow>
        (onErr r (wrap ''failed to commit db session: '') Ok, s, db))"

text \<open>\<open>Abort\<close> only logs an error.\<close>

definition DB_Abort :: "'d db \<Rightarrow> 'd sqlxTxSession \<Rightarrow> 'd sqlxTxSession \<times> 'd db" where
  "DB_Abort db s = (case Session_Abort db s of (_, s, db) \<Rightarrow> (s, db))"

section \<open>Storage code over a session\<close>

text \<open>
  Storage functions and their callers thread the database and the session. \<open>dbBind m w k\<close> is
  \<open>v, err := m(session); if err != nil { return w(err) }; k(v)\<close>; \<open>dbQuery\<close> and \<open>dbExec\<close> are one
  prepared statement, which may fail; \<open>withSession w body\<close> is the recurring
  \<open>session, err := NewSession(); if err != nil { return w(err) }; defer Abort(session)\<close> and then the body.
\<close>

type_synonym ('d, 'a) dbm = "'d db \<Rightarrow> 'd sqlxTxSession \<Rightarrow> 'a res \<times> 'd sqlxTxSession \<times> 'd db"

definition dbRet :: "'a \<Rightarrow> ('d, 'a) dbm" where
  "dbRet v = (\<lambda>db s. (Ok v, s, db))"

definition dbFail :: "err \<Rightarrow> ('d, 'a) dbm" where
  "dbFail e = (\<lambda>db s. (Fail e, s, db))"

definition dbBind :: "('d, 'a) dbm \<Rightarrow> (err \<Rightarrow> err) \<Rightarrow> ('a \<Rightarrow> ('d, 'b) dbm) \<Rightarrow> ('d, 'b) dbm" where
  "dbBind m w k = (\<lambda>db s. case m db s of
       (Ok v, s, db) \<Rightarrow> k v db s
     | (Fail e, s, db) \<Rightarrow> (Fail (w e), s, db)
     | (Panic t, s, db) \<Rightarrow> (Panic t, s, db))"

definition dbQuery :: "('d \<Rightarrow> 'a res) \<Rightarrow> ('d, 'a) dbm" where
  "dbQuery q = (\<lambda>db s. case driver_call db of
       (Some e, db) \<Rightarrow> (Fail e, s, db)
     | (None, db) \<Rightarrow> (q (working s), s, db))"

definition dbExec :: "('d \<Rightarrow> 'a \<times> 'd) \<Rightarrow> ('d, 'a) dbm" where
  "dbExec f = (\<lambda>db s. case driver_call db of
       (Some e, db) \<Rightarrow> (Fail e, s, db)
     | (None, db) \<Rightarrow> (Ok (fst (f (working s))), s\<lparr>working := snd (f (working s))\<rparr>, db))"

text \<open>A statement that the database itself may refuse (a constraint violation).\<close>

definition dbExecR :: "('d \<Rightarrow> ('a \<times> 'd) res) \<Rightarrow> ('d, 'a) dbm" where
  "dbExecR f = (\<lambda>db s. case driver_call db of
       (Some e, db) \<Rightarrow> (Fail e, s, db)
     | (None, db) \<Rightarrow>
         (case f (working s) of
            Ok (v, d) \<Rightarrow> (Ok v, s\<lparr>working := d\<rparr>, db)
          | Fail e \<Rightarrow> (Fail e, s, db)
          | Panic t \<Rightarrow> (Panic t, s, db)))"

text \<open>\<open>switch { case err == nil: ok; default: bad }\<close> on the result of a storage call.\<close>

definition dbTry :: "('d, 'a) dbm \<Rightarrow> ('a \<Rightarrow> ('d, 'b) dbm) \<Rightarrow> (err \<Rightarrow> ('d, 'b) dbm) \<Rightarrow> ('d, 'b) dbm" where
  "dbTry m ok bad = (\<lambda>db s. case m db s of
       (Ok v, s, db) \<Rightarrow> ok v db s
     | (Fail e, s, db) \<Rightarrow> bad e db s
     | (Panic t, s, db) \<Rightarrow> (Panic t, s, db))"

definition withSession :: "(err \<Rightarrow> err) \<Rightarrow> ('d, 'a) dbm \<Rightarrow> 'd db \<Rightarrow> 'a res \<times> 'd db" where
  "withSession w body db =
     (case NewSession db of
        (Ok s, db) \<Rightarrow> (case body db s of (r, s, db) \<Rightarrow> (r, snd (DB_Abort db s)))
      | (Fail e, db) \<Rightarrow> (Fail (w e), db)
      | (Panic t, db) \<Rightarrow> (Panic t, db))"

definition errRows :: "nat \<Rightarrow> err" where
  "errRows n = Err [PStr ''unexpected number of rows affected: expected 1, but affected '', PInt (int n)] []"

text \<open>The recurring statement that must affect exactly one row.\<close>

definition dbExecOne :: "string \<Rightarrow> ('d \<Rightarrow> nat \<times> 'd) \<Rightarrow> ('d, unit) dbm" where
  "dbExecOne what f =
     dbBind (dbExec f) (wrap what) (\<lambda>rowsAffected.
       if rowsAffected \<noteq> 1 then dbFail (errRows rowsAffected) else dbRet ())"

section \<open>Opening and migrating (storage.go)\<close>

text \<open>The migration library: creating its instance, the version before and after, and \<open>Up\<close>.
  \<open>''no change''\<close> and \<open>''no migration''\<close> are its sentinels \<open>ErrNoChange\<close> and \<open>ErrNilVersion\<close>.\<close>

record migrate_env =
  sqlite3_WithInstance :: "unit res"
  iofs_New :: "unit res"
  migrate_NewWithInstance :: "unit res"
  migration_Version :: "(nat \<times> bool) res"
  migration_Up :: "unit res"
  migration_Version_after :: "(nat \<times> bool) res"

definition errDirtyDB :: err where
  "errDirtyDB = Sentinel ''database in dirty state after previous migration, requires manual fixing''"

text \<open>\<open>Version()\<close> when no migration has run: the zero version, not dirty, and \<open>ErrNilVersion\<close>.\<close>

definition checkVersion :: "string \<Rightarrow> (nat \<times> bool) res \<Rightarrow> unit res" where
  "checkVersion what r =
     (case r of
        Panic t \<Rightarrow> Panic t
      | Fail e \<Rightarrow> if errors_Is e ''no migration'' then Ok () else Fail (wrap what e)
      | Ok (version, dirty) \<Rightarrow> if dirty then Fail errDirtyDB else Ok ())"

definition migrate :: "migrate_env \<Rightarrow> string \<Rightarrow> unit res" where
  "migrate env dbName =
     onErr (sqlite3_WithInstance env) (wrap ''failed to create sqlite3 driver: '') (\<lambda>_.
     onErr (iofs_New env) (wrap ''failed to create iofs migration source: '') (\<lambda>_.
     onErr (migrate_NewWithInstance env) (wrap ''failed to create migrate instance: '') (\<lambda>_.
     onErr (checkVersion ''failed to get migration version: '' (migration_Version env)) (\<lambda>e. e) (\<lambda>_.
       case migration_Up env of
         Panic t \<Rightarrow> Panic t
       | Fail e \<Rightarrow>
           if errors_Is e ''no change'' then Ok ()
           else Fail (wrap (''failed to migrate '' @ dbName @ '' database: '') e)
       | Ok _ \<Rightarrow> checkVersion ''failed to get new migration version: '' (migration_Version_after env)))))"

definition sqlite_New :: "unit res \<Rightarrow> 'd db res \<Rightarrow> migrate_env \<Rightarrow> string \<Rightarrow> 'd db res" where
  "sqlite_New mkdirAll sqlx_Open env dbName =
     onErr mkdirAll (wrap ''failed to create db directory: '') (\<lambda>_.
     onErr sqlx_Open (wrap ''failed to open sqlite database: '') (\<lambda>db.
     onErr (migrate env dbName) (wrap ''failed to migrate sqlite database: '') (\<lambda>_. Ok db)))"

section \<open>Sessions as a state machine\<close>

text \<open>What code may do with an open session: change its working copy, commit it, abort it.\<close>

inductive session_step ::
  "'d sqlxTxSession \<times> 'd db \<Rightarrow> 'd sqlxTxSession \<times> 'd db \<Rightarrow> bool" where
  work: "\<not> tx_done s \<Longrightarrow> dbExec (f :: 'd \<Rightarrow> nat \<times> 'd) db s = (r, s', db') \<Longrightarrow> session_step (s, db) (s', db')"
| commit: "DB_Commit db s = (r, s', db') \<Longrightarrow> session_step (s, db) (s', db')"
| abort: "DB_Abort db s = (s', db') \<Longrightarrow> session_step (s, db) (s', db')"

inductive_cases session_stepE [consumes 1, case_names work commit abort]:
  "session_step (s, db) (s', db')"

lemmas session_defs = driver_call_def Tx_Commit_def Tx_Rollback_def Session_Commit_def
  Session_Abort_def DB_Commit_def DB_Abort_def

text \<open>The session's contract: as long as it is not committed the tables are the ones it started
  from, once it is committed they are its final working copy and it is over.\<close>

definition session_inv :: "'d \<Rightarrow> 'd sqlxTxSession \<times> 'd db \<Rightarrow> bool" where
  "session_inv d0 x \<longleftrightarrow>
     (if sess_committed (fst x) then tx_done (fst x) \<and> committed (snd x) = working (fst x)
      else committed (snd x) = d0)"

lemma DB_Commit_eq:
  "DB_Commit db s =
     (if sess_committed s then (Fail (wrap ''failed to commit db session: '' ErrAlreadyCommitted), s, db)
      else if tx_done s then (Fail (wrap ''failed to commit db session: ''
        (wrap ''failed to commit sql transaction: '' ErrTxDone)), s, db)
      else case faults db (db_calls db) of
        Some e \<Rightarrow> (Fail (wrap ''failed to commit db session: '' (wrap ''failed to commit sql transaction: '' e)),
          s\<lparr>tx_done := True\<rparr>, db\<lparr>db_calls := Suc (db_calls db)\<rparr>)
      | None \<Rightarrow> (Ok (), s\<lparr>tx_done := True, sess_committed := True\<rparr>,
          db\<lparr>db_calls := Suc (db_calls db), committed := working s\<rparr>))"
  by (simp add: session_defs split: option.split)

lemma DB_Abort_keeps:
  "DB_Abort db s = (s', db') \<Longrightarrow> committed db' = committed db \<and> working s' = working s \<and>
     sess_committed s' = sess_committed s \<and> (tx_done s \<longrightarrow> tx_done s')"
  by (auto simp: session_defs split: if_splits option.splits)

lemma dbExec_keeps:
  "dbExec f db s = (r, s', db') \<Longrightarrow> committed db' = committed db \<and> sess_committed s' = sess_committed s \<and>
     tx_done s' = tx_done s"
  by (auto simp: dbExec_def driver_call_def split: option.splits)

lemma session_inv_step:
  assumes "session_step (s, db) (s', db')" and "session_inv d0 (s, db)"
  shows "session_inv d0 (s', db')"
  using assms(1)
proof (cases rule: session_stepE)
  case (work f r)
  then show ?thesis using assms(2) dbExec_keeps[OF work(2)] by (auto simp: session_inv_def)
next
  case (commit r)
  then show ?thesis using assms(2)
    by (auto simp: session_inv_def DB_Commit_eq split: if_splits option.splits)
next
  case abort
  then show ?thesis using assms(2) DB_Abort_keeps[OF abort] by (auto simp: session_inv_def)
qed

interpretation session: step_invariant session_step "session_inv d0" for d0
  by unfold_locales (metis session_inv_step prod.collapse)

text \<open>Once committed, a session is frozen.\<close>

lemma committed_frozen:
  assumes "session_step (s, db) (s', db')" and "sess_committed s" and "tx_done s"
  shows "s' = s \<and> committed db' = committed db"
  using assms(1)
proof (cases rule: session_stepE)
  case (commit r)
  then show ?thesis using assms(2) by (auto simp: DB_Commit_eq)
qed (use assms in \<open>auto simp: session_defs split: if_splits\<close>)

section \<open>Working on a session without committing\<close>

text \<open>\<open>dbwork m R\<close>: the body \<open>m\<close> neither commits nor ends the session, and when it returns \<open>v\<close> its
  effect on the working copy is described by \<open>R\<close>.\<close>

definition dbwork :: "('d, 'a) dbm \<Rightarrow> ('d \<Rightarrow> 'a \<Rightarrow> 'd \<Rightarrow> bool) \<Rightarrow> bool" where
  "dbwork m R \<longleftrightarrow> (\<forall>db s. case m db s of (r, s', db') \<Rightarrow>
     committed db' = committed db \<and> tx_done s' = tx_done s \<and> sess_committed s' = sess_committed s \<and>
     (\<forall>v. r = Ok v \<longrightarrow> R (working s) v (working s')))"

lemma dbwork_dest:
  assumes "dbwork m R" and "m db s = (r, s', db')"
  shows "committed db' = committed db" "tx_done s' = tx_done s" "sess_committed s' = sess_committed s"
    "r = Ok v \<Longrightarrow> R (working s) v (working s')"
  using assms by (auto simp: dbwork_def split: prod.splits)

lemma dbworkI:
  assumes "\<And>db s r s' db'. m db s = (r, s', db') \<Longrightarrow>
     committed db' = committed db \<and> tx_done s' = tx_done s \<and> sess_committed s' = sess_committed s \<and>
     (\<forall>v. r = Ok v \<longrightarrow> R (working s) v (working s'))"
  shows "dbwork m R"
  unfolding dbwork_def using assms by (simp split: prod.splits)

lemma dbwork_ret: "dbwork (dbRet v) (\<lambda>d u d'. u = v \<and> d' = d)"
  by (rule dbworkI) (auto simp: dbRet_def)

lemma dbwork_fail: "dbwork (dbFail e) R"
  by (rule dbworkI) (auto simp: dbFail_def)

lemma dbwork_query: "dbwork (dbQuery q) (\<lambda>d v d'. q d = Ok v \<and> d' = d)"
  by (rule dbworkI) (auto simp: dbQuery_def driver_call_def split: option.splits)

lemma dbwork_exec: "dbwork (dbExec f) (\<lambda>d v d'. f d = (v, d'))"
  by (rule dbworkI) (auto simp: dbExec_def driver_call_def split: option.splits)

lemma dbwork_execR: "dbwork (dbExecR f) (\<lambda>d v d'. f d = Ok (v, d'))"
  by (rule dbworkI) (auto simp: dbExecR_def driver_call_def split: option.splits res.splits)

lemma dbwork_bind:
  assumes "dbwork m P" and "\<And>v. dbwork (k v) (Q v)"
  shows "dbwork (dbBind m w k) (\<lambda>d v d'. \<exists>u d1. P d u d1 \<and> Q u d1 v d')"
proof (rule dbworkI)
  fix db s r s' db' assume b: "dbBind m w k db s = (r, s', db')"
  obtain r1 s1 db1 where m: "m db s = (r1, s1, db1)" by (metis prod.exhaust)
  show "committed db' = committed db \<and> tx_done s' = tx_done s \<and> sess_committed s' = sess_committed s \<and>
     (\<forall>v. r = Ok v \<longrightarrow> (\<exists>u d1. P (working s) u d1 \<and> Q u d1 v (working s')))"
  proof (cases r1)
    case (Ok u)
    then have "k u db1 s1 = (r, s', db')" using b m by (simp add: dbBind_def)
    then show ?thesis using dbwork_dest[OF assms(1) m] dbwork_dest[OF assms(2)] Ok by metis
  qed (use b m dbwork_dest[OF assms(1) m] in \<open>auto simp: dbBind_def\<close>)
qed

lemma dbwork_mono: "dbwork m P \<Longrightarrow> (\<And>d v d'. P d v d' \<Longrightarrow> Q d v d') \<Longrightarrow> dbwork m Q"
  by (auto simp: dbwork_def split: prod.splits)

lemma dbwork_if: "dbwork m P \<Longrightarrow> dbwork n P \<Longrightarrow> dbwork (if b then m else n) P"
  by simp

lemma dbwork_execOne: "dbwork (dbExecOne what f) (\<lambda>d v d'. f d = (1, d'))"
proof -
  have "dbwork (if n \<noteq> 1 then dbFail (errRows n) else dbRet ()) (\<lambda>d u d'. n = 1 \<and> d' = d)" for n
    by (simp add: dbwork_fail dbwork_mono[OF dbwork_ret])
  from dbwork_bind[OF dbwork_exec this] show ?thesis
    unfolding dbExecOne_def by (rule dbwork_mono) auto
qed

lemma NewSession_cases:
  obtains e db' where "NewSession db = (Fail e, db')" "committed db' = committed db"
  | s db' where "NewSession db = (Ok s, db')" "working s = committed db" "\<not> tx_done s" "\<not> sess_committed s"
      "committed db' = committed db"
proof (cases "faults db (db_calls db)")
  case None
  then show thesis
    using that(2)[of "\<lparr>working = committed db, tx_done = False, sess_committed = False\<rparr>"]
    by (simp add: NewSession_def driver_call_def)
qed (use that(1) in \<open>simp add: NewSession_def driver_call_def\<close>)

text \<open>A read-only transaction, and one that ends in a commit.\<close>

lemma withSession_read:
  assumes "dbwork m R" and "withSession w m db = (r, db')"
  shows "committed db' = committed db \<and> (\<forall>v. r = Ok v \<longrightarrow> (\<exists>d'. R (committed db) v d'))"
proof (cases rule: NewSession_cases[of db])
  case (1 e db1)
  then show ?thesis using assms(2) by (auto simp: withSession_def)
next
  case (2 s db1)
  obtain r2 s2 db2 where m: "m db1 s = (r2, s2, db2)" by (metis prod.exhaust)
  obtain s3 db3 where a: "DB_Abort db2 s2 = (s3, db3)" by fastforce
  have "r = r2" "db' = db3" using assms(2) 2(1) m a by (auto simp: withSession_def)
  then show ?thesis using dbwork_dest[OF assms(1) m] DB_Abort_keeps[OF a] 2 by auto
qed

lemma withSession_commit:
  assumes "dbwork m R"
    and "withSession w (dbBind m w1 (\<lambda>v. dbBind DB_Commit w2 (\<lambda>_. dbRet (f v)))) db = (r, db')"
  shows "(\<exists>v. r = Ok (f v) \<and> R (committed db) v (committed db')) \<or>
         ((\<forall>x. r \<noteq> Ok x) \<and> committed db' = committed db)"
proof (cases rule: NewSession_cases[of db])
  case (1 e db1)
  then show ?thesis using assms(2) by (auto simp: withSession_def)
next
  case (2 s db1)
  obtain r2 s2 db2 where m: "m db1 s = (r2, s2, db2)" by (metis prod.exhaust)
  note md = dbwork_dest[OF assms(1) m]
  show ?thesis
  proof (cases r2)
    case (Ok v)
    obtain r3 s3 db3 where c: "DB_Commit db2 s2 = (r3, s3, db3)" by (metis prod.exhaust)
    obtain s4 db4 where a: "DB_Abort db3 s3 = (s4, db4)" by fastforce
    have "R (committed db) v (working s2)" using md(4) Ok 2(2) by simp
    moreover have "(r3 = Ok () \<and> committed db3 = working s2) \<or> ((\<exists>e. r3 = Fail e) \<and> committed db3 = committed db)"
      using c md 2 by (auto simp: DB_Commit_eq split: if_splits option.splits)
    moreover have "db' = db4" "r = onErr r3 w2 (\<lambda>_. Ok (f v))"
      using assms(2) 2(1) m Ok c a by (cases r3; auto simp: withSession_def dbBind_def dbRet_def)+
    ultimately show ?thesis using DB_Abort_keeps[OF a] by auto
  next
    case (Fail e)
    obtain s4 db4 where a: "DB_Abort db2 s2 = (s4, db4)" by fastforce
    then show ?thesis
      using assms(2) 2 m Fail md(1) DB_Abort_keeps[OF a] by (auto simp: withSession_def dbBind_def)
  next
    case (Panic t)
    obtain s4 db4 where a: "DB_Abort db2 s2 = (s4, db4)" by fastforce
    then show ?thesis
      using assms(2) 2 m Panic md(1) DB_Abort_keeps[OF a] by (auto simp: withSession_def dbBind_def)
  qed
qed

section \<open>The contract of a transactional operation\<close>

text \<open>
  What every operation built on a session promises to its callers: if it returns a value its whole
  effect \<open>post\<close> is in the tables, and if it does not return a value the tables are untouched.
\<close>

locale transactional =
  fixes op :: "'d db \<Rightarrow> 'a res \<times> 'd db"
    and post :: "'d \<Rightarrow> 'a \<Rightarrow> 'd \<Rightarrow> bool"
  assumes op_ok: "op db = (Ok v, db') \<Longrightarrow> post (committed db) v (committed db')"
    and op_not_ok: "op db = (r, db') \<Longrightarrow> (\<And>v. r \<noteq> Ok v) \<Longrightarrow> committed db' = committed db"
begin

lemma op_all_or_nothing:
  "op db = (r, db') \<Longrightarrow> (\<exists>v. r = Ok v \<and> post (committed db) v (committed db')) \<or>
     ((\<forall>v. r \<noteq> Ok v) \<and> committed db' = committed db)"
  using op_ok op_not_ok by (cases r) auto

lemma op_preserves:
  assumes "\<And>d v d'. I d \<Longrightarrow> post d v d' \<Longrightarrow> I d'" and "I (committed db)"
  shows "I (committed (snd (op db)))"
proof (cases "op db")
  case (Pair r db')
  then show ?thesis using op_all_or_nothing[OF Pair] assms by auto
qed

end

section \<open>Properties\<close>

text \<open>Property C20: transactions are atomic and final. Whatever sequence of statements, commits and
  aborts code performs on a session, with whatever driver failures, the committed tables are those
  at its start until its first successful commit, and from then on its working copy at that commit;
  a second commit is refused and an abort after a commit does nothing.\<close>

lemma session_atomic:
  assumes "NewSession db = (Ok s, db1)" and "session_step\<^sup>*\<^sup>* (s, db1) (s', db')"
  shows "(if sess_committed s' then committed db' = working s' else committed db' = committed db) \<and>
    (sess_committed s' \<longrightarrow>
       DB_Commit db' s' = (Fail (wrap ''failed to commit db session: '' ErrAlreadyCommitted), s', db') \<and>
       DB_Abort db' s' = (s', db') \<and>
       (\<forall>s'' db''. session_step\<^sup>*\<^sup>* (s', db') (s'', db'') \<longrightarrow> s'' = s' \<and> committed db'' = committed db'))"
proof -
  have "session_inv (committed db) (s, db1)"
    using assms(1) by (cases rule: NewSession_cases[of db]) (auto simp: session_inv_def)
  then have inv: "session_inv (committed db) (s', db')" using session.run_keeps[OF assms(2)] by blast
  have "s'' = s' \<and> committed db'' = committed db'"
    if c: "sess_committed s'" and r: "session_step\<^sup>*\<^sup>* (s', db') (s'', db'')" for s'' db''
  proof -
    have "tx_done s'" using inv c by (simp add: session_inv_def)
    have "session_step\<^sup>*\<^sup>* x y \<Longrightarrow> fst x = s' \<Longrightarrow> fst y = s' \<and> committed (snd y) = committed (snd x)" for x y
    proof (induction rule: rtranclp_induct)
      case (step y z)
      then show ?case using committed_frozen c \<open>tx_done s'\<close> by (cases y; cases z) fastforce
    qed simp
    from this[OF r] show ?thesis by simp
  qed
  then show ?thesis using inv by (auto simp: session_inv_def DB_Commit_eq session_defs)
qed

definition sample_db :: "nat \<Rightarrow> nat db" where
  "sample_db n = \<lparr>committed = 3, faults = (\<lambda>_. None), db_calls = n\<rparr>"

definition sample_session :: "bool \<Rightarrow> nat sqlxTxSession" where
  "sample_session b = \<lparr>working = 3, tx_done = b, sess_committed = b\<rparr>"

lemma session_atomic_witness: "DB_Abort (sample_db 2) (sample_session True) = (sample_session True, sample_db 2)"
proof -
  have n: "NewSession (sample_db 0) = (Ok (sample_session False), sample_db 1)"
    by (simp add: NewSession_def driver_call_def sample_db_def sample_session_def)
  have "DB_Commit (sample_db 1) (sample_session False) = (Ok (), sample_session True, sample_db 2)"
    by (simp add: DB_Commit_eq sample_db_def sample_session_def)
  then have "session_step\<^sup>*\<^sup>* (sample_session False, sample_db 1) (sample_session True, sample_db 2)"
    by (intro r_into_rtranclp session_step.commit)
  moreover have "sess_committed (sample_session True)" by (simp add: sample_session_def)
  ultimately show ?thesis using session_atomic[OF n] by blast
qed

text \<open>A database is handed out only in a clean state: \<open>New\<close> returns it only if its
  migration version was readable or absent and not dirty, the migrations ran or had nothing to
  do, and the version after running them was again not dirty.\<close>

lemma sqlite_New_clean:
  assumes "sqlite_New mkdirAll sqlx_Open env name = Ok db"
  shows "sqlx_Open = Ok db \<and>
    (\<forall>v. migration_Version env \<noteq> Ok (v, True)) \<and>
    (migration_Up env = Ok () \<and> (\<forall>v. migration_Version_after env \<noteq> Ok (v, True)) \<or>
     (\<exists>e. migration_Up env = Fail e \<and> errors_Is e ''no change''))"
  using assms
  by (auto simp: sqlite_New_def migrate_def checkVersion_def onErr_eq_Ok_iff split: res.splits if_splits)

definition sample_migrate_env :: migrate_env where
  "sample_migrate_env = \<lparr>sqlite3_WithInstance = Ok (), iofs_New = Ok (), migrate_NewWithInstance = Ok (),
     migration_Version = Fail (Sentinel ''no migration''), migration_Up = Ok (),
     migration_Version_after = Ok (1, False)\<rparr>"

lemma sqlite_New_clean_witness:
  "migration_Up sample_migrate_env = Ok () \<and> (\<forall>v. migration_Version_after sample_migrate_env \<noteq> Ok (v, True)) \<or>
   (\<exists>e. migration_Up sample_migrate_env = Fail e \<and> errors_Is e ''no change'')"
proof -
  let ?db = "\<lparr>committed = (), faults = (\<lambda>_. None), db_calls = 0\<rparr> :: unit db"
  have "sqlite_New (Ok ()) (Ok ?db) sample_migrate_env ''bots'' = Ok ?db"
    by (simp add: sqlite_New_def migrate_def checkVersion_def sample_migrate_env_def)
  from sqlite_New_clean[OF this] show ?thesis by simp
qed

end
