(* ===== verification/Services.thy ===== *)
theory Services
  imports Go_Prelude
begin

text \<open>
  Message types and services: \<^verbatim>\<open>internal/messaging/message/message.go\<close>, the generated tables of
  \<^verbatim>\<open>internal/rpc/generated\<close> (which message types exist, how content is unmarshalled, how service
  clients are registered), the service values of \<^verbatim>\<open>internal/rpc/rpc.go\<close> and the service registry
  of \<^verbatim>\<open>internal/messaging/service_registry.go\<close>. Protobuf and the contract bindings are
  parameters.
\<close>

section \<open>Message types (message.go)\<close>

datatype category = Unknown | Request | Response

type_synonym mtype = string

text \<open>\<open>strings.LastIndex(s, ".")\<close> and what precedes it.\<close>

definition ToServiceName :: "mtype \<Rightarrow> string" where
  "ToServiceName m =
     (case dropWhile (\<lambda>c. c \<noteq> CHR ''.'') (rev m) of [] \<Rightarrow> '''' | _ # p \<Rightarrow> rev p)"

definition HasSuffix :: "string \<Rightarrow> string \<Rightarrow> bool" where
  "HasSuffix s suffix \<longleftrightarrow> length suffix \<le> length s \<and> drop (length s - length suffix) s = suffix"

definition Category :: "mtype \<Rightarrow> category" where
  "Category m =
     (if HasSuffix m ''.Request'' then Request
      else if HasSuffix m ''.Response'' then Response else Unknown)"

definition ServiceNameToRequestMessageType :: "string \<Rightarrow> mtype" where
  "ServiceNameToRequestMessageType serviceName = serviceName @ ''.Request''"

definition ErrUnknownMessageType :: err where
  "ErrUnknownMessageType = Sentinel ''unknown message type''"

section \<open>The generated tables\<close>

text \<open>The service names in the order of the generated code. Each service \<open>n\<close> has the message types
  \<open>n.Request\<close> and \<open>n.Response\<close>.\<close>

definition serviceNames :: "string list" where
  "serviceNames = [
     ''ttm.services.accommodation.v3.AccommodationProductInfoService'',
     ''ttm.services.accommodation.v3.AccommodationProductListService'',
     ''ttm.services.accommodation.v3.AccommodationSearchService'',
     ''ttm.services.accommodation.v4.AccommodationProductInfoService'',
     ''ttm.services.accommodation.v4.AccommodationProductListService'',
     ''ttm.services.accommodation.v4.AccommodationSearchService'',
     ''ttm.services.accommodation.v4.AccommodationProductShortListService'',
     ''ttm.services.accommodation.v5.AccommodationProductInfoService'',
     ''ttm.services.accommodation.v5.AccommodationProductListService'',
     ''ttm.services.accommodation.v5.AccommodationSearchService'',
     ''ttm.services.accommodation.v5.AccommodationProductShortListService'',
     ''ttm.services.activity.v3.ActivityProductInfoService'',
     ''ttm.services.activity.v3.ActivityProductListService'',
     ''ttm.services.activity.v3.ActivitySearchService'',
     ''ttm.services.activity.v4.ActivityProductInfoService'',
     ''ttm.services.activity.v4.ActivityProductListService'',
     ''ttm.services.activity.v4.ActivitySearchService'',
     ''ttm.services.activity.v4.ActivityProductShortListService'',
     ''ttm.services.activity.v5.ActivityProductInfoService'',
     ''ttm.services.activity.v5.ActivityProductListService'',
     ''ttm.services.activity.v5.ActivitySearchService'',
     ''ttm.services.activity.v5.ActivityProductShortListService'',
     ''ttm.services.book.v3.MintService'',
     ''ttm.services.book.v3.ValidationService'',
     ''ttm.services.book.v4.MintService'',
     ''ttm.services.book.v4.ValidationService'',
     ''ttm.services.book.v5.MintService'',
     ''ttm.services.book.v5.ValidationService'',
     ''ttm.services.cancellation.v1.CheckCancellationService'',
     ''ttm.services.cancellation.v2.CheckCancellationService'',
     ''ttm.services.cancellation.v3.CheckCancellationService'',
     ''ttm.services.info.v1.CountryEntryRequirementsService'',
     ''ttm.services.info.v2.CountryEntryRequirementsService'',
     ''ttm.services.info.v3.CountryEntryRequirementsService'',
     ''ttm.services.ping.v1.PingService'',
     ''ttm.services.ping.v2.PingService'',
     ''ttm.services.seat_map.v2.SeatMapAvailabilityService'',
     ''ttm.services.seat_map.v2.SeatMapService'',
     ''ttm.services.seat_map.v3.SeatMapAvailabilityService'',
     ''ttm.services.seat_map.v3.SeatMapService'',
     ''ttm.services.seat_map.v4.SeatMapAvailabilityService'',
     ''ttm.services.seat_map.v4.SeatMapService'',
     ''ttm.services.transport.v3.TransportProductListService'',
     ''ttm.services.transport.v3.TransportSearchService'',
     ''ttm.services.transport.v4.TransportProductListService'',
     ''ttm.services.transport.v4.TransportSearchService'',
     ''ttm.services.transport.v5.TransportProductListService'',
     ''ttm.services.transport.v5.TransportSearchService'']"

definition messageTypes :: "mtype list" where
  "messageTypes = concat (map (\<lambda>n. [n @ ''.Request'', n @ ''.Response'']) serviceNames)"

text \<open>\<open>proto_Unmarshal t b\<close> parses \<open>b\<close> as the protobuf message of type \<open>t\<close>.\<close>

definition UnmarshalContent :: "(mtype \<Rightarrow> bytes \<Rightarrow> 'c res) \<Rightarrow> bytes \<Rightarrow> mtype \<Rightarrow> 'c res" where
  "UnmarshalContent proto_Unmarshal src msgType =
     (if msgType \<in> set messageTypes then proto_Unmarshal msgType src
      else Fail ErrUnknownMessageType)"

text \<open>A service is its client (determined by its name) under its name.\<close>

record service =
  service_Name :: string

definition NewService :: "string \<Rightarrow> service" where
  "NewService name = \<lparr>service_Name = name\<rparr>"

fun registerClients ::
  "string list \<Rightarrow> string set \<Rightarrow> (mtype \<rightharpoonup> service) \<Rightarrow> (mtype \<rightharpoonup> service) \<times> string set" where
  "registerClients [] names services = (services, names)"
| "registerClients (n # ns) names services =
     (if n \<in> names
      then registerClients ns (names - {n}) (services(n @ ''.Request'' \<mapsto> NewService n))
      else registerClients ns names services)"

text \<open>The names left in the set afterwards are those the bot has no client for.\<close>

definition RegisterServiceClients :: "string set \<Rightarrow> (mtype \<rightharpoonup> service) \<times> string set" where
  "RegisterServiceClients names = registerClients serviceNames names Map.empty"

section \<open>The service registry (service_registry.go)\<close>

record serviceRegistry =
  services :: "mtype \<rightharpoonup> service"

text \<open>The account and manager contracts, and Keccak-256 of a name.\<close>

record registry_env =
  NewTtmaccount :: "unit res"
  GetSupportedServices :: "hash list res"
  GetManagerAddress :: "address res"
  NewTtmaccountmanager :: "address \<Rightarrow> unit res"
  GetAllRegisteredServiceNames :: "string list res"
  GetServiceNameByHash :: "hash \<Rightarrow> string res"
  Keccak256Hash :: "string \<Rightarrow> hash"

definition errUnsupportedService :: err where
  "errUnsupportedService = Sentinel ''ttm account support service, which bot doesn't support''"

definition ttmAccountManager :: "registry_env \<Rightarrow> unit res" where
  "ttmAccountManager env =
     onErr (GetManagerAddress env) (wrap ''failed to fetch TTM account manager address: '') (\<lambda>managerAddress.
     onErr (NewTtmaccountmanager env managerAddress) (wrap ''failed to fetch TTM account manager: '') (\<lambda>manager.
       Ok manager))"

definition nameByHash :: "registry_env \<Rightarrow> string list \<Rightarrow> hash \<rightharpoonup> string" where
  "nameByHash env names = fold (\<lambda>n m. m(Keccak256Hash env n \<mapsto> n)) names Map.empty"

fun resolveNames ::
  "registry_env \<Rightarrow> (hash \<rightharpoonup> string) \<Rightarrow> hash list \<Rightarrow> string set \<Rightarrow> string list \<Rightarrow> (string set \<times> string list) res" where
  "resolveNames env byHash [] names deprecated = Ok (names, deprecated)"
| "resolveNames env byHash (h # hs) names deprecated =
     (case byHash h of
        Some serviceName \<Rightarrow> resolveNames env byHash hs (insert serviceName names) deprecated
      | None \<Rightarrow>
          onErr (GetServiceNameByHash env h)
            (\<lambda>e. Err ([PStr ''failed to resolve service name for hash '', PHash h, PStr '': ''] @ Error e) [e])
            (\<lambda>serviceName.
               if serviceName = '''' then resolveNames env byHash hs names deprecated
               else resolveNames env byHash hs (insert serviceName names) (deprecated @ [serviceName])))"

definition NewServiceRegistry :: "registry_env \<Rightarrow> bool \<Rightarrow> serviceRegistry res" where
  "NewServiceRegistry env partnerPluginClientEnabled =
     onErr (NewTtmaccount env) (wrap ''failed to fetch TTM account: '') (\<lambda>_.
     onErr (GetSupportedServices env) (wrap ''failed to fetch Registered services: '') (\<lambda>supportedServices.
       let hasSupportedServices = length supportedServices > 0
       in if hasSupportedServices \<and> \<not> partnerPluginClientEnabled
          then Fail (Err [PStr ''bot supports some services, but doesn't have partner plugin rpc client enabled''] [])
          else if \<not> hasSupportedServices \<and> partnerPluginClientEnabled then Ok \<lparr>services = Map.empty\<rparr>
          else if hasSupportedServices \<and> partnerPluginClientEnabled
          then
            onErr (ttmAccountManager env) (\<lambda>e. e) (\<lambda>_.
            onErr (GetAllRegisteredServiceNames env) (wrap ''failed to fetch registered service names: '') (\<lambda>registered.
            onErr (resolveNames env (nameByHash env registered) supportedServices {} []) (\<lambda>e. e) (\<lambda>(names, deprecated).
              case RegisterServiceClients names of (svcs, unsupported) \<Rightarrow>
                if unsupported \<noteq> {} then Fail errUnsupportedService else Ok \<lparr>services = svcs\<rparr>)))
          else Ok \<lparr>services = Map.empty\<rparr>))"

definition GetService :: "serviceRegistry \<Rightarrow> mtype \<Rightarrow> service option" where
  "GetService s requestType =
     (case services s requestType of None \<Rightarrow> None | Some sv \<Rightarrow> Some sv)"

section \<open>Lemmas\<close>

lemma HasSuffix_append: "HasSuffix (s @ t) t"
  by (simp add: HasSuffix_def)

lemma HasSuffix_iff: "HasSuffix s t \<longleftrightarrow> (\<exists>p. s = p @ t)"
proof
  assume "HasSuffix s t"
  then have "s = take (length s - length t) s @ t"
    unfolding HasSuffix_def by (metis append_take_drop_id)
  then show "\<exists>p. s = p @ t" by blast
qed (auto simp: HasSuffix_append)

lemma not_both_suffixes: "n @ ''.Response'' \<noteq> m @ ''.Request''"
proof
  assume "n @ ''.Response'' = m @ ''.Request''"
  then have "rev (n @ ''.Response'') = rev (m @ ''.Request'')" by simp
  then show False by simp
qed

lemma Category_types: "Category (n @ ''.Request'') = Request" "Category (n @ ''.Response'') = Response"
  using not_both_suffixes by (auto simp: Category_def HasSuffix_iff)

lemma ToServiceName_append:
  "CHR ''.'' \<notin> set k \<Longrightarrow> ToServiceName (n @ CHR ''.'' # k) = n"
proof -
  assume k: "CHR ''.'' \<notin> set k"
  have "dropWhile (\<lambda>c. c \<noteq> CHR ''.'') (rev k @ CHR ''.'' # rev n) = CHR ''.'' # rev n"
    using k by (subst dropWhile_append2) auto
  then show ?thesis by (simp add: ToServiceName_def)
qed

lemma ToServiceName_types [simp]:
  "ToServiceName (n @ ''.Request'') = n" "ToServiceName (n @ ''.Response'') = n"
  by (rule ToServiceName_append, simp)+

lemma distinct_serviceNames: "distinct serviceNames"
  by code_simp

lemma registerClients_eq:
  "distinct ns \<Longrightarrow> (\<And>n. n \<in> set ns \<Longrightarrow> svcs (n @ ''.Request'') = None) \<Longrightarrow>
   registerClients ns names svcs = (svcs', left) \<Longrightarrow>
   left = names - set ns \<and>
   (\<forall>t. svcs' t = (if \<exists>n \<in> set ns \<inter> names. t = n @ ''.Request''
                   then Some \<lparr>service_Name = ToServiceName t\<rparr> else svcs t))"
proof (induction ns names svcs rule: registerClients.induct)
  case (2 n ns names svcs)
  show ?case
  proof (cases "n \<in> names")
    case True
    have "registerClients ns (names - {n}) (svcs(n @ ''.Request'' \<mapsto> NewService n)) = (svcs', left)"
      using 2(5) True by simp
    note ih = 2(1)[OF True _ _ this]
    have "left = names - {n} - set ns \<and> (\<forall>t. svcs' t = (if \<exists>m \<in> set ns \<inter> (names - {n}). t = m @ ''.Request''
        then Some \<lparr>service_Name = ToServiceName t\<rparr> else (svcs(n @ ''.Request'' \<mapsto> NewService n)) t))"
      by (rule ih) (use 2(3,4) in auto)
    then show ?thesis using 2(3) True by (auto simp: NewService_def)
  next
    case False
    then show ?thesis using 2(2)[OF False] 2(3-5) by auto
  qed
qed auto

lemma RegisterServiceClients_eq:
  assumes "RegisterServiceClients names = (svcs, left)"
  shows "left = names - set serviceNames"
    and "svcs t = (if \<exists>n \<in> set serviceNames \<inter> names. t = n @ ''.Request''
                   then Some \<lparr>service_Name = ToServiceName t\<rparr> else None)"
  using registerClients_eq[OF distinct_serviceNames _ assms[unfolded RegisterServiceClients_def]] by simp_all

text \<open>The name a supported hash stands for: the manager's current name, or the one it still
  resolves to after unregistering.\<close>

definition resolved :: "registry_env \<Rightarrow> (hash \<rightharpoonup> string) \<Rightarrow> hash \<Rightarrow> string set" where
  "resolved env byHash h =
     (case byHash h of Some n \<Rightarrow> {n}
      | None \<Rightarrow> (case GetServiceNameByHash env h of Ok n \<Rightarrow> if n = '''' then {} else {n} | _ \<Rightarrow> {}))"

lemma resolveNames_Ok:
  "resolveNames env byHash hs names dep = Ok (names', dep') \<Longrightarrow>
   names' = names \<union> (\<Union>h \<in> set hs. resolved env byHash h)"
proof (induction hs arbitrary: names dep)
  case (Cons h hs)
  then show ?case
    by (cases "byHash h"; cases "GetServiceNameByHash env h")
      (auto simp: resolved_def split: if_splits)
qed simp

section \<open>Properties\<close>

text \<open>The message types of the protocol are consistent. Exactly the request and
  response types of the known services can be unmarshalled, every other type is rejected with
  \<open>ErrUnknownMessageType\<close>; a request or response type is classified as such, and its service name
  and request type can be recovered from it.\<close>

lemma message_types_consistent:
  "UnmarshalContent pu src t =
     (if \<exists>n \<in> set serviceNames. t = ServiceNameToRequestMessageType n \<or> t = n @ ''.Response''
      then pu t src else Fail ErrUnknownMessageType) \<and>
   (t \<in> set messageTypes \<longleftrightarrow> ToServiceName t \<in> set serviceNames \<and>
      (t = ServiceNameToRequestMessageType (ToServiceName t) \<and> Category t = Request \<or>
       t = ToServiceName t @ ''.Response'' \<and> Category t = Response)) \<and>
   ToServiceName (ServiceNameToRequestMessageType n) = n \<and> distinct serviceNames \<and> length serviceNames = 48"
proof -
  have len: "length serviceNames = 48" by (simp add: serviceNames_def)
  have *: "t \<in> set messageTypes \<longleftrightarrow> (\<exists>m \<in> set serviceNames. t = m @ ''.Request'' \<or> t = m @ ''.Response'')"
    by (auto simp: messageTypes_def)
  have "t \<in> set messageTypes \<longleftrightarrow> ToServiceName t \<in> set serviceNames \<and>
      (t = ToServiceName t @ ''.Request'' \<and> Category t = Request \<or>
       t = ToServiceName t @ ''.Response'' \<and> Category t = Response)"
    unfolding * using Category_types by (metis ToServiceName_types)
  then show ?thesis
    using len distinct_serviceNames *
    by (simp add: UnmarshalContent_def ServiceNameToRequestMessageType_def)
qed

text \<open>Property C25: a bot starts serving only what its account supports and the bot implements. If
  the registry is created although the account supports services, then every supported hash
  resolves to a name the bot has a client for (otherwise creation fails with
  \<open>errUnsupportedService\<close>), and \<open>GetService\<close> returns a service exactly for the request types of
  those names, namely the service of that name.\<close>

lemma NewServiceRegistry_serves_supported:
  assumes "NewServiceRegistry env enabled = Ok reg"
    and "GetSupportedServices env = Ok hs" and "hs \<noteq> []" and "GetAllRegisteredServiceNames env = Ok registered"
  shows "enabled \<and> (\<Union>h \<in> set hs. resolved env (nameByHash env registered) h) \<subseteq> set serviceNames \<and>
    (\<forall>t. GetService reg t =
      (if \<exists>n \<in> (\<Union>h \<in> set hs. resolved env (nameByHash env registered) h). t = n @ ''.Request''
       then Some \<lparr>service_Name = ToServiceName t\<rparr> else None))"
proof -
  obtain names dep where en: "enabled"
    and r: "resolveNames env (nameByHash env registered) hs {} [] = Ok (names, dep)"
    and s: "(case RegisterServiceClients names of (svcs, unsupported) \<Rightarrow>
        if unsupported \<noteq> {} then Fail errUnsupportedService else Ok \<lparr>services = svcs\<rparr>) = Ok reg"
    using assms by (auto simp: NewServiceRegistry_def Let_def onErr_eq_Ok_iff split: if_splits)
  obtain svcs where reg: "RegisterServiceClients names = (svcs, {})" "reg = \<lparr>services = svcs\<rparr>"
    using s by (cases "RegisterServiceClients names") (auto split: if_splits)
  have names: "names = (\<Union>h \<in> set hs. resolved env (nameByHash env registered) h)"
    using resolveNames_Ok[OF r] by simp
  have sub: "names \<subseteq> set serviceNames" using RegisterServiceClients_eq(1)[OF reg(1)] by auto
  then have "set serviceNames \<inter> names = names" by auto
  then have "GetService reg t = (if \<exists>n \<in> names. t = n @ ''.Request''
       then Some \<lparr>service_Name = ToServiceName t\<rparr> else None)" for t
    using RegisterServiceClients_eq(2)[OF reg(1), of t] reg(2) by (simp add: GetService_def)
  then show ?thesis using en names sub by simp
qed

definition sample_registry_env :: registry_env where
  "sample_registry_env = \<lparr>NewTtmaccount = Ok (), GetSupportedServices = Ok [4], GetManagerAddress = Ok 1,
     NewTtmaccountmanager = (\<lambda>_. Ok ()), GetAllRegisteredServiceNames = Ok [''ttm.services.ping.v2.PingService''],
     GetServiceNameByHash = (\<lambda>_. Ok ''''), Keccak256Hash = (\<lambda>_. 4)\<rparr>"

lemma NewServiceRegistry_serves_supported_witness:
  "(\<Union>h \<in> set [4]. resolved sample_registry_env (nameByHash sample_registry_env [''ttm.services.ping.v2.PingService'']) h)
     \<subseteq> set serviceNames"
proof -
  have names: "resolveNames sample_registry_env (nameByHash sample_registry_env [''ttm.services.ping.v2.PingService'']) [4] {} []
      = Ok ({''ttm.services.ping.v2.PingService''}, [])"
    by (simp add: nameByHash_def sample_registry_env_def)
  have "''ttm.services.ping.v2.PingService'' \<in> set serviceNames" by code_simp
  then obtain svcs where "RegisterServiceClients {''ttm.services.ping.v2.PingService''} = (svcs, {})"
    using RegisterServiceClients_eq(1)[of "{''ttm.services.ping.v2.PingService''}"]
    by (cases "RegisterServiceClients {''ttm.services.ping.v2.PingService''}") auto
  then have "NewServiceRegistry sample_registry_env True = Ok \<lparr>services = svcs\<rparr>"
    using names by (simp add: NewServiceRegistry_def ttmAccountManager_def Let_def sample_registry_env_def)
  note ok = NewServiceRegistry_serves_supported[OF this,
      of "[4]" "[''ttm.services.ping.v2.PingService'']"]
  show ?thesis using ok by (simp add: sample_registry_env_def)
qed

end
