(* ===== verification/Metadata.thy ===== *)
theory Metadata
  imports Go_Prelude
begin

text \<open>
  Request metadata: \<^verbatim>\<open>pkg/metadata/metadata.go\<close> and \<^verbatim>\<open>pkg/metadata/timestamps.go\<close>. A
  \<open>Timestamps\<close> map is an association list without duplicate keys, or \<open>None\<close> for the nil map,
  assignment to which panics. JSON and the parsing of addresses are parameters.
\<close>

section \<open>Timestamps (timestamps.go)\<close>

type_synonym timestamps = "(string \<times> int) list option"

fun map_set :: "'k \<Rightarrow> 'v \<Rightarrow> ('k \<times> 'v) list \<Rightarrow> ('k \<times> 'v) list" where
  "map_set k v [] = [(k, v)]"
| "map_set k v ((j, u) # xs) = (if j = k then (j, v) # xs else (j, u) # map_set k v xs)"

text \<open>\<open>fmt.Sprintf("%d", n)\<close> of a length.\<close>

fun show_nat :: "nat \<Rightarrow> string" where
  "show_nat n = (if n < 10 then [char_of (48 + n)] else show_nat (n div 10) @ [char_of (48 + n mod 10)])"

declare show_nat.simps [simp del]

text \<open>\<open>now\<close> is the time of the call; the value stored is its Unix time in milliseconds.\<close>

definition stampKey :: "nat \<Rightarrow> string \<Rightarrow> string" where
  "stampKey n checkpoint = show_nat n @ ''-'' @ checkpoint"

definition Stamp :: "time \<Rightarrow> timestamps \<Rightarrow> string \<Rightarrow> timestamps res" where
  "Stamp now t checkpoint =
     (case t of
        None \<Rightarrow> Panic [PStr ''assignment to entry in nil map'']
      | Some xs \<Rightarrow> Ok (Some (map_set (stampKey (length xs) checkpoint) (now div millisecond) xs)))"

definition TimestampsFromString :: "(string \<Rightarrow> timestamps res) \<Rightarrow> string \<Rightarrow> timestamps res" where
  "TimestampsFromString json_Unmarshal s =
     onErr (json_Unmarshal s) (wrap ''error unmarshalling timestamps: '') Ok"

definition MarshalToString :: "(timestamps \<Rightarrow> string res) \<Rightarrow> timestamps \<Rightarrow> string res" where
  "MarshalToString json_Marshal t = onErr (json_Marshal t) (wrap ''error marshalling timestamps: '') Ok"

section \<open>Metadata of a gRPC request (metadata.go)\<close>

record grpc_metadata =
  md_RequestID :: string
  md_RecipientTTMAccount :: address
  md_SenderTTMAccount :: address
  md_Timestamps :: timestamps

text \<open>\<open>mdPairs\<close> is the incoming metadata of the context, if it has any. A key is used only when it
  has exactly one value.\<close>

definition single :: "(string \<rightharpoonup> string list) \<Rightarrow> string \<Rightarrow> string option" where
  "single mdPairs key =
     (case mdPairs key of Some [v] \<Rightarrow> Some v | _ \<Rightarrow> None)"

definition FromGRPCContext ::
  "(string \<Rightarrow> address) \<Rightarrow> (string \<Rightarrow> timestamps res) \<Rightarrow> (string \<rightharpoonup> string list) option \<Rightarrow> grpc_metadata" where
  "FromGRPCContext HexToAddress json_Unmarshal mdPairs =
     (let md = \<lparr>md_RequestID = '''', md_RecipientTTMAccount = 0, md_SenderTTMAccount = 0, md_Timestamps = None\<rparr>
      in case mdPairs of
           None \<Rightarrow> md
         | Some ps \<Rightarrow>
             let md = (case single ps ''request_id'' of None \<Rightarrow> md | Some v \<Rightarrow> md\<lparr>md_RequestID := v\<rparr>);
                 md = (case single ps ''recipient_ttm_account'' of None \<Rightarrow> md
                       | Some v \<Rightarrow> md\<lparr>md_RecipientTTMAccount := HexToAddress v\<rparr>);
                 md = (case single ps ''sender_ttm_account'' of None \<Rightarrow> md
                       | Some v \<Rightarrow> md\<lparr>md_SenderTTMAccount := HexToAddress v\<rparr>)
             in (case single ps ''timestamps'' of None \<Rightarrow> md
                 | Some v \<Rightarrow> md\<lparr>md_Timestamps :=
                     (case TimestampsFromString json_Unmarshal v of Ok t \<Rightarrow> t | _ \<Rightarrow> None)\<rparr>))"

section \<open>Stamping never loses a checkpoint\<close>

lemma map_set_fresh: "k \<notin> fst ` set xs \<Longrightarrow> map_set k v xs = xs @ [(k, v)]"
  by (induction xs) auto

lemma digit_char_inj:
  fixes a b :: nat
  assumes "a < 10" "b < 10" "(char_of (48 + a) :: char) = char_of (48 + b)"
  shows "a = b"
proof -
  have "of_char (char_of (48 + a) :: char) = (48 + a :: nat)" "of_char (char_of (48 + b) :: char) = (48 + b :: nat)"
    using assms by (simp_all add: of_char_of take_bit_nat_eq_self)
  then show ?thesis using assms(3) by simp
qed

lemma show_nat_ne: "show_nat n \<noteq> []" "[] \<noteq> show_nat n"
  by (subst show_nat.simps, simp)+

lemma dash_notin_show: "CHR ''-'' \<notin> set (show_nat n)"
proof (induction n rule: show_nat.induct)
  case (1 n)
  have "CHR ''-'' \<noteq> (char_of (48 + k) :: char)" if "k < 10" for k :: nat
  proof
    assume "CHR ''-'' = (char_of (48 + k) :: char)"
    then have "of_char CHR ''-'' = (of_char (char_of (48 + k) :: char) :: nat)" by simp
    then show False using that by (simp add: of_char_of take_bit_nat_eq_self)
  qed
  then show ?case using 1 by (subst show_nat.simps) auto
qed

lemma show_nat_small: "n < 10 \<Longrightarrow> show_nat n = [char_of (48 + n)]"
  by (subst show_nat.simps) simp

lemma show_nat_big: "\<not> n < 10 \<Longrightarrow> show_nat n = show_nat (n div 10) @ [char_of (48 + n mod 10)]"
  by (subst show_nat.simps) simp

lemma show_nat_inj: "show_nat m = show_nat n \<Longrightarrow> m = n"
proof (induction m arbitrary: n rule: less_induct)
  case (less m)
  consider "m < 10" "n < 10" | "m < 10" "\<not> n < 10" | "\<not> m < 10" "n < 10" | "\<not> m < 10" "\<not> n < 10" by blast
  then show ?case
  proof cases
    case 1
    then show ?thesis using less.prems digit_char_inj[of m n] by (simp add: show_nat_small)
  next
    case 2
    then show ?thesis using less.prems show_nat_ne by (simp add: show_nat_small show_nat_big)
  next
    case 3
    then show ?thesis using less.prems show_nat_ne by (simp add: show_nat_small show_nat_big)
  next
    case 4
    then have "show_nat (m div 10) = show_nat (n div 10)" "m mod 10 = n mod 10"
      using less.prems digit_char_inj[of "m mod 10" "n mod 10"] by (simp_all add: show_nat_big)
    then have "m div 10 = n div 10" using less.IH[of "m div 10" "n div 10"] 4 by simp
    then show ?thesis using \<open>m mod 10 = n mod 10\<close> by (metis div_mult_mod_eq)
  qed
qed

lemma stampKey_inj: "stampKey m c = stampKey n d \<Longrightarrow> m = n"
proof -
  assume "stampKey m c = stampKey n d"
  moreover have "takeWhile (\<lambda>x. x \<noteq> CHR ''-'') (stampKey k e) = show_nat k" for k e
    using dash_notin_show[of k] unfolding stampKey_def by (subst takeWhile_append2) auto
  ultimately show "m = n" by (metis show_nat_inj)
qed

fun stampAll :: "(time \<times> string) list \<Rightarrow> timestamps \<Rightarrow> timestamps res" where
  "stampAll [] t = Ok t"
| "stampAll ((now, c) # cs) t = onErr (Stamp now t c) (\<lambda>e. e) (stampAll cs)"

definition stamped :: "(time \<times> string) list \<Rightarrow> (string \<times> int) list" where
  "stamped cs = map (\<lambda>i. (stampKey i (snd (cs ! i)), fst (cs ! i) div millisecond)) [0..<length cs]"

lemma stamped_keys: "fst ` set (stamped cs) = {stampKey i (snd (cs ! i)) | i. i < length cs}"
  by (force simp: stamped_def)

lemma stamped_snoc: "stamped (cs @ [(now, c)]) = stamped cs @ [(stampKey (length cs) c, now div millisecond)]"
  by (simp add: stamped_def nth_append)

lemma length_stamped [simp]: "length (stamped cs) = length cs"
  by (simp add: stamped_def)

lemma stampAll_stamped: "stampAll cs (Some (stamped ds)) = Ok (Some (stamped (ds @ cs)))"
proof (induction cs arbitrary: ds)
  case (Cons x cs)
  obtain now c where x: "x = (now, c)" by (cases x)
  have "stampKey (length ds) c \<notin> fst ` set (stamped ds)"
    unfolding stamped_keys using stampKey_inj by fastforce
  then have "Stamp now (Some (stamped ds)) c = Ok (Some (stamped (ds @ [x])))"
    by (simp add: Stamp_def map_set_fresh stamped_snoc x)
  then show ?case using Cons.IH[of "ds @ [x]"] x by simp
qed simp

text \<open>Stamping never overwrites a checkpoint and never fails on a non-nil map. Starting
  from an empty map, any sequence of checkpoints (repeated ones included) leaves one entry per
  stamp, in order, under the key made of its position and its checkpoint.\<close>

lemma stamps_all_kept:
  "stampAll cs (Some []) = Ok (Some (stamped cs)) \<and> length (stamped cs) = length cs \<and> distinct (map fst (stamped cs))"
proof -
  have "distinct (map fst (stamped cs))"
    unfolding distinct_conv_nth by (auto simp: stamped_def dest: stampKey_inj)
  moreover have "stamped [] = []" by (simp add: stamped_def)
  ultimately show ?thesis using stampAll_stamped[of cs "[]"] by simp
qed

end
