(* ===== verification/Encoding.thy ===== *)
theory Encoding
  imports Conversion Database Services Metadata Matrix_Reassembly
begin

text \<open>
  The wire format: \<^verbatim>\<open>internal/messaging/encryption/aes_gcm.go\<close>,
  \<^verbatim>\<open>internal/messaging/encoding/encoder_decoder.go\<close> and the public-key table of
  \<^verbatim>\<open>internal/messaging/encoding/storage/sqlite\<close>. The primitives the code calls (signatures,
  ECIES, AES-GCM, zstd, JSON, protobuf) are fields of an environment; the byte layout, the length
  fields with their 16-bit arithmetic, slicing into spare capacity, and every error and panic are
  written out.
\<close>

section \<open>The primitives\<close>

record publicMetadata =
  pm_RequestID :: string
  EncryptedSharedKey :: bytes
  ExpiresAt :: uint64
  pm_SenderTTMAccount :: string

record privateMetadata =
  prv_Type :: mtype
  prv_Timestamps :: timestamps

record 'c message =
  msg_Type :: mtype
  msg_Content :: 'c
  msg_RequestID :: string
  msg_Timestamps :: timestamps

record ('pk, 'c) enc_env =
  crypto_Sign :: "bytes \<Rightarrow> bytes res"
  Keccak256 :: "bytes \<Rightarrow> bytes"
  SigToPub :: "bytes \<Rightarrow> bytes \<Rightarrow> 'pk res"
  PubkeyToAddress :: "'pk \<Rightarrow> address"
  CompressPubkey :: "'pk \<Rightarrow> bytes"
  DecompressPubkey :: "bytes \<Rightarrow> 'pk res"
  ecies_Encrypt :: "'pk \<Rightarrow> bytes \<Rightarrow> bytes res"
  ecies_Decrypt :: "bytes \<Rightarrow> bytes res"
  rand_Read :: "nat \<Rightarrow> bytes res"
  gcm_Seal :: "bytes \<Rightarrow> bytes \<Rightarrow> bytes \<Rightarrow> bytes"
  gcm_Open :: "bytes \<Rightarrow> bytes \<Rightarrow> bytes \<Rightarrow> bytes res"
  zstd_EncodeAll :: "bytes \<Rightarrow> bytes"
  zstd_DecodeAll :: "bytes \<Rightarrow> slice res"
  json_Marshal_public :: "publicMetadata \<Rightarrow> bytes res"
  json_Unmarshal_public :: "bytes \<Rightarrow> publicMetadata res"
  json_Marshal_private :: "privateMetadata \<Rightarrow> bytes res"
  json_Unmarshal_private :: "bytes \<Rightarrow> privateMetadata res"
  proto_Marshal :: "'c \<Rightarrow> bytes res"
  proto_Unmarshal :: "mtype \<Rightarrow> bytes \<Rightarrow> 'c res"
  enc_Hex :: "address \<Rightarrow> string"
  enc_HexToAddress :: "string \<Rightarrow> address"

section \<open>Session keys (aes_gcm.go)\<close>

datatype key = Aead bytes | NopKey bytes

text \<open>\<open>aes.NewCipher\<close> accepts keys of 16, 24 and 32 bytes; \<open>cipher.NewGCM\<close> does not fail on AES. A GCM
  nonce has 12 bytes.\<close>

definition aeadFromSessionKey :: "bytes \<Rightarrow> key res" where
  "aeadFromSessionKey sessionKey =
     (if length sessionKey \<in> {16, 24, 32} then Ok (Aead sessionKey)
      else Fail (wrap ''failed to create AES cipher: ''
             (Err [PStr ''crypto/aes: invalid key size '', PInt (int (length sessionKey))] [])))"

definition KeyFromBytes :: "bytes \<Rightarrow> key res" where
  "KeyFromBytes sessionKey = aeadFromSessionKey sessionKey"

definition NewKey :: "('pk, 'c) enc_env \<Rightarrow> key res" where
  "NewKey env =
     onErr (rand_Read env 32) (wrap ''failed to generate random session key: '') (\<lambda>sessionKey.
     onErr (aeadFromSessionKey sessionKey) (wrap ''failed to create AEAD from session key: '') Ok)"

fun key_Encrypt :: "('pk, 'c) enc_env \<Rightarrow> key \<Rightarrow> bytes \<Rightarrow> bytes res" where
  "key_Encrypt env (Aead k) data =
     onErr (rand_Read env 12) (\<lambda>e. e) (\<lambda>nonce. Ok (nonce @ gcm_Seal env k nonce data))"
| "key_Encrypt env (NopKey k) data = Ok data"

fun key_Decrypt :: "('pk, 'c) enc_env \<Rightarrow> key \<Rightarrow> bytes \<Rightarrow> bytes res" where
  "key_Decrypt env (Aead k) encryptedData =
     (if length encryptedData < 12
      then Fail (Err [PStr ''encryptedData is too short: '', PInt (int (length encryptedData)), PStr '' < '', PInt 12] [])
      else gcm_Open env k (take 12 encryptedData) (drop 12 encryptedData))"
| "key_Decrypt env (NopKey k) encryptedData = Ok encryptedData"

fun key_Bytes :: "key \<Rightarrow> bytes" where
  "key_Bytes (Aead k) = k"
| "key_Bytes (NopKey k) = k"

section \<open>Public keys of bots (storage/sqlite/pub_keys.go)\<close>

type_synonym pub_keys = "address \<rightharpoonup> bytes"

definition GetBotPubKey :: "('pk, 'c) enc_env \<Rightarrow> address \<Rightarrow> (pub_keys, 'pk option) dbm" where
  "GetBotPubKey env addr =
     dbBind (dbQuery (\<lambda>d. Ok (d addr))) (wrap ''failed to execute get public key statement: '') (\<lambda>row.
       case row of
         None \<Rightarrow> dbRet None
       | Some pubKeyBytes \<Rightarrow>
           (\<lambda>db s. (onErr (DecompressPubkey env pubKeyBytes) (wrap ''failed to decompress public key bytes: '')
              (\<lambda>pubKey. Ok (Some pubKey)), s, db)))"

definition SetBotPubKey :: "('pk, 'c) enc_env \<Rightarrow> address \<Rightarrow> 'pk \<Rightarrow> (pub_keys, unit) dbm" where
  "SetBotPubKey env addr pubKey =
     dbExecOne ''failed to execute set public key statement: ''
       (\<lambda>d. (1, d(addr \<mapsto> CompressPubkey env pubKey)))"

section \<open>The encoder and decoder (encoder_decoder.go)\<close>

abbreviation (input) messageVersion :: uint32 where "messageVersion \<equiv> 1"
abbreviation (input) defaultExpirationTime :: duration where "defaultExpirationTime \<equiv> 5 * minute"

record 'pk encoderDecoder =
  maxChunkSize :: nat
  pubKeysCache :: "address \<rightharpoonup> 'pk option"
  enc_db :: "pub_keys db"

definition BigEndian_PutUint16 :: "uint16 \<Rightarrow> bytes" where
  "BigEndian_PutUint16 v = [ucast (drop_bit 8 v), ucast v]"

definition BigEndian_PutUint32 :: "uint32 \<Rightarrow> bytes" where
  "BigEndian_PutUint32 v = [ucast (drop_bit 24 v), ucast (drop_bit 16 v), ucast (drop_bit 8 v), ucast v]"

text \<open>Reading takes the first bytes of a slice the code has just cut to the right length.\<close>

fun BigEndian_Uint16 :: "bytes \<Rightarrow> uint16" where
  "BigEndian_Uint16 (b0 # b1 # _) = push_bit 8 (ucast b0) + ucast b1"
| "BigEndian_Uint16 _ = 0"

fun BigEndian_Uint32 :: "bytes \<Rightarrow> uint32" where
  "BigEndian_Uint32 (b0 # b1 # b2 # b3 # _) =
     push_bit 24 (ucast b0) + push_bit 16 (ucast b1) + push_bit 8 (ucast b2) + ucast b3"
| "BigEndian_Uint32 _ = 0"

definition getBotPubKey ::
  "('pk, 'c) enc_env \<Rightarrow> ((address \<rightharpoonup> 'pk option) \<Rightarrow> (address \<rightharpoonup> 'pk option)) \<Rightarrow> 'pk encoderDecoder \<Rightarrow> address \<Rightarrow>
   'pk option res \<times> 'pk encoderDecoder" where
  "getBotPubKey env ev e botAddress =
     (case pubKeysCache e botAddress of
        Some pubKey \<Rightarrow> (Ok pubKey, e)
      | None \<Rightarrow>
          (case withSession (wrap ''failed to create new session: '')
                  (dbBind (GetBotPubKey env botAddress) (wrap ''failed to get bot public key: '') dbRet) (enc_db e) of
             (Ok pubKey, db) \<Rightarrow>
               (Ok pubKey, e\<lparr>enc_db := db, pubKeysCache := cache_Add ev botAddress pubKey (pubKeysCache e)\<rparr>)
           | (r, db) \<Rightarrow> (r, e\<lparr>enc_db := db\<rparr>)))"

definition setBotPubKey ::
  "('pk, 'c) enc_env \<Rightarrow> ((address \<rightharpoonup> 'pk option) \<Rightarrow> (address \<rightharpoonup> 'pk option)) \<Rightarrow> 'pk encoderDecoder \<Rightarrow> address \<Rightarrow>
   'pk \<Rightarrow> unit res \<times> 'pk encoderDecoder" where
  "setBotPubKey env ev e botAddress botPubKey =
     (case withSession (wrap ''failed to create new session: '')
             (dbBind (SetBotPubKey env botAddress botPubKey) (wrap ''failed to store bot public key: '') (\<lambda>u.
              dbBind DB_Commit (wrap ''failed to commit session: '') (\<lambda>_. dbRet u))) (enc_db e) of
        (Ok _, db) \<Rightarrow>
          (Ok (), e\<lparr>enc_db := db, pubKeysCache := cache_Add ev botAddress (Some botPubKey) (pubKeysCache e)\<rparr>)
      | (r, db) \<Rightarrow> (r, e\<lparr>enc_db := db\<rparr>))"

text \<open>\<open>chunk\<close> divides by \<open>maxChunkSize\<close>; the division by zero panics.\<close>

fun chunkLoop :: "nat \<Rightarrow> nat \<Rightarrow> nat \<Rightarrow> bytes \<Rightarrow> bytes list" where
  "chunkLoop mx 0 start data = []"
| "chunkLoop mx (Suc n) start data =
     (let e = min (start + mx) (length data)
      in take (e - start) (drop start data) # chunkLoop mx n e data)"

definition chunk :: "nat \<Rightarrow> bytes \<Rightarrow> bytes list res" where
  "chunk mx data =
     (if mx = 0 then Panic [PStr ''runtime error: integer divide by zero'']
      else Ok (chunkLoop mx ((length data + mx - 1) div mx) 0 data))"

text \<open>The byte layout: privateData and encodedData of \<open>EncodeMessage\<close>.\<close>

definition privateDataOf :: "bytes \<Rightarrow> bytes \<Rightarrow> bytes res" where
  "privateDataOf prv content =
     onErr (MustIntToUInt16 (int (length prv))) (\<lambda>e. e) (\<lambda>n. Ok (BigEndian_PutUint16 n @ prv @ content))"

definition encodedDataOf :: "bytes \<Rightarrow> bytes \<Rightarrow> bytes res" where
  "encodedDataOf pub encryptedData =
     onErr (MustIntToUInt16 (int (length pub))) (\<lambda>e. e) (\<lambda>n.
       Ok (BigEndian_PutUint32 messageVersion @ BigEndian_PutUint16 n @ pub @ encryptedData))"

text \<open>\<open>EncodeMessage\<close> after the recipient's key is known; \<open>now\<close> is the time of the call.\<close>

definition encodeWith ::
  "('pk, 'c) enc_env \<Rightarrow> time \<Rightarrow> nat \<Rightarrow> 'pk option \<Rightarrow> 'c message \<Rightarrow> key option \<Rightarrow> address \<Rightarrow> encodedSignedMessage res" where
  "encodeWith env now mx recipientPubKey msg sharedKey senderTTMAccount =
     onErr (case (recipientPubKey, sharedKey) of
              (Some pk, Some k) \<Rightarrow>
                onErr (ecies_Encrypt env pk (key_Bytes k)) (wrap ''failed to encrypt session key: '') (\<lambda>c. Ok (Some (k, c)))
            | _ \<Rightarrow> Ok None) (\<lambda>e. e) (\<lambda>encryptedSharedKey.
     onErr (json_Marshal_private env \<lparr>prv_Type = msg_Type msg, prv_Timestamps = msg_Timestamps msg\<rparr>)
       (wrap ''failed to marshal private metadata: '') (\<lambda>privateMetadata.
     onErr (MustInt64ToUInt64 (word_of_int (Unix (now + defaultExpirationTime)))) (\<lambda>e. e) (\<lambda>expiresAt.
     onErr (json_Marshal_public env \<lparr>pm_RequestID = msg_RequestID msg,
         EncryptedSharedKey = (case encryptedSharedKey of None \<Rightarrow> [] | Some (k, c) \<Rightarrow> c),
         ExpiresAt = expiresAt, pm_SenderTTMAccount = enc_Hex env senderTTMAccount\<rparr>)
       (wrap ''failed to marshal public metadata: '') (\<lambda>publicMetadata.
     onErr (proto_Marshal env (msg_Content msg)) (wrap ''failed to marshal message content: '') (\<lambda>content.
     onErr (privateDataOf privateMetadata content) (\<lambda>e. e) (\<lambda>privateData.
     onErr (let compressed = zstd_EncodeAll env privateData
            in case encryptedSharedKey of
                 None \<Rightarrow> Ok compressed
               | Some (k, c) \<Rightarrow> key_Encrypt env k compressed)
       (wrap ''failed to encrypt data with shared key: '') (\<lambda>encryptedData.
     onErr (encodedDataOf publicMetadata encryptedData) (\<lambda>e. e) (\<lambda>encodedData.
     onErr (crypto_Sign env (Keccak256 env encodedData)) (wrap ''failed to sign message: '') (\<lambda>signature.
     onErr (chunk mx encodedData) (\<lambda>e. e) (\<lambda>chunks.
       Ok \<lparr>ChunkedEncodedMessage = chunks, EncSignature = signature\<rparr>))))))))))"

definition EncodeMessage ::
  "('pk, 'c) enc_env \<Rightarrow> ((address \<rightharpoonup> 'pk option) \<Rightarrow> (address \<rightharpoonup> 'pk option)) \<Rightarrow> time \<Rightarrow> 'pk encoderDecoder \<Rightarrow>
   'c message \<Rightarrow> address \<Rightarrow> key option \<Rightarrow> address \<Rightarrow> encodedSignedMessage res \<times> 'pk encoderDecoder" where
  "EncodeMessage env ev now e msg toBot sharedKey senderTTMAccount =
     (case getBotPubKey env ev e toBot of (r, e) \<Rightarrow>
        (onErr r (wrap ''failed to get recipient public key: '') (\<lambda>recipientPubKey.
           encodeWith env now (maxChunkSize e) recipientPubKey msg sharedKey senderTTMAccount), e))"

text \<open>
  \<open>publicMetadata.ExpiresAtTime().Before(now)\<close>. A \<open>time.Time\<close> counts seconds from the year 1 in an
  \<open>int64\<close>, so the conversion from Unix seconds wraps around for huge values.
\<close>

definition expiresBefore :: "uint64 \<Rightarrow> time \<Rightarrow> bool res" where
  "expiresBefore expiresAt now =
     onErr (MustUInt64ToInt64 expiresAt) (\<lambda>e. e) (\<lambda>sec.
       Ok (sint (sec + 62135596800) * second < now + 62135596800 * second))"

text \<open>\<open>binary.BigEndian.Uint16(b)\<close> of the data's first bytes, then the field of that length, then the
  rest; the upper bound is computed in 16 bits.\<close>

definition lengthPrefixed :: "slice \<Rightarrow> (bytes \<times> slice res) res" where
  "lengthPrefixed data =
     onErr (slice_to data 2) (\<lambda>e. e) (\<lambda>b.
       let n = BigEndian_Uint16 b; upper = unat (2 + n :: uint16)
       in onErr (slice_range data 2 upper) (\<lambda>e. e) (\<lambda>field. Ok (field, slice_from data upper)))"

definition decodeAndVerifyMessageV1 ::
  "('pk, 'c) enc_env \<Rightarrow> time \<Rightarrow> slice \<Rightarrow> ('c message \<times> key option \<times> address) res" where
  "decodeAndVerifyMessageV1 env now encodedData =
     onErr (lengthPrefixed encodedData) (\<lambda>e. e) (\<lambda>(publicBytes, rest).
     onErr (json_Unmarshal_public env publicBytes) (wrap ''failed to unmarshal metadata: '') (\<lambda>publicMetadata.
     onErr (expiresBefore (ExpiresAt publicMetadata) now) (\<lambda>e. e) (\<lambda>expired.
       if expired
       then Fail (Err [PStr ''message has expired at '', PInt (uint (ExpiresAt publicMetadata))] [])
       else
     onErr rest (\<lambda>e. e) (\<lambda>compressed.
     onErr (if length (EncryptedSharedKey publicMetadata) > 0
            then onErr (ecies_Decrypt env (EncryptedSharedKey publicMetadata)) (wrap ''failed to decrypt shared key: '') (\<lambda>sharedKeyBytes.
                 onErr (KeyFromBytes sharedKeyBytes) (\<lambda>e. e) (\<lambda>sharedKey.
                 onErr (key_Decrypt env sharedKey (fst compressed)) (wrap ''failed to decrypt data with shared key: '') (\<lambda>data.
                   Ok (Some sharedKey, data))))
            else Ok (None, fst compressed)) (\<lambda>e. e) (\<lambda>(sharedKey, compressedData).
     onErr (zstd_DecodeAll env compressedData) (wrap ''failed to decompress data: '') (\<lambda>privateData.
     onErr (lengthPrefixed privateData) (\<lambda>e. e) (\<lambda>(privateBytes, contentSlice).
     onErr (json_Unmarshal_private env privateBytes) (wrap ''failed to unmarshal private metadata: '') (\<lambda>privateMetadata.
     onErr contentSlice (\<lambda>e. e) (\<lambda>content.
     onErr (UnmarshalContent (proto_Unmarshal env) (fst content) (prv_Type privateMetadata))
       (wrap ''failed to unmarshal content: '') (\<lambda>c.
       Ok (\<lparr>msg_Type = prv_Type privateMetadata, msg_Content = c, msg_RequestID = pm_RequestID publicMetadata,
            msg_Timestamps = prv_Timestamps privateMetadata\<rparr>,
           sharedKey, enc_HexToAddress env (pm_SenderTTMAccount publicMetadata))))))))))))"

text \<open>\<open>bytes.Join\<close> of the chunks may leave spare capacity \<open>spare\<close> behind the joined data.\<close>

definition DecodeAndVerifyMessage ::
  "('pk, 'c) enc_env \<Rightarrow> ((address \<rightharpoonup> 'pk option) \<Rightarrow> (address \<rightharpoonup> 'pk option)) \<Rightarrow> time \<Rightarrow> bytes \<Rightarrow> 'pk encoderDecoder \<Rightarrow>
   encodedSignedMessage \<Rightarrow> address \<Rightarrow> ('c message \<times> key option \<times> address) res \<times> 'pk encoderDecoder" where
  "DecodeAndVerifyMessage env ev now spare e encodedMessage senderBotAddress =
     (let encodedData = (concat (ChunkedEncodedMessage encodedMessage), spare)
      in case
        onErr (slice_to encodedData 4) (\<lambda>e. e) (\<lambda>v.
          let version = BigEndian_Uint32 v
          in if version \<noteq> messageVersion
             then Fail (Err [PStr ''unsupported message version: '', PInt (uint version)] [])
             else
        onErr (SigToPub env (Keccak256 env (fst encodedData)) (EncSignature encodedMessage))
          (wrap ''failed to recover public key from signature: '') (\<lambda>senderPubKey.
          if PubkeyToAddress env senderPubKey \<noteq> senderBotAddress
          then Fail (Err [PStr ''sender address '', PAddr senderBotAddress,
                 PStr '' does not match recovered address '', PAddr (PubkeyToAddress env senderPubKey)] [])
          else
        onErr (slice_from encodedData 4) (\<lambda>e. e) (\<lambda>body.
        onErr (decodeAndVerifyMessageV1 env now body) (wrap ''failed to decode and verify message: '') (\<lambda>r.
          Ok (senderPubKey, r)))))
        of
          Fail err \<Rightarrow> (Fail err, e)
        | Panic t \<Rightarrow> (Panic t, e)
        | Ok (senderPubKey, msg, sharedKey, senderTTMAccount) \<Rightarrow>
            (case setBotPubKey env ev e senderBotAddress senderPubKey of
               (Ok _, e) \<Rightarrow>
                 (Ok (msg\<lparr>msg_Timestamps := Some (case msg_Timestamps msg of None \<Rightarrow> [] | Some t \<Rightarrow> t)\<rparr>,
                      sharedKey, senderTTMAccount), e)
             | (Fail err, e) \<Rightarrow> (Fail (wrap ''failed to store sender public key: '' err), e)
             | (Panic t, e) \<Rightarrow> (Panic t, e)))"

section \<open>Lemmas on the layout\<close>

lemma BigEndian_Uint16_Put: "BigEndian_Uint16 (BigEndian_PutUint16 v @ xs) = v"
proof -
  have "uint (push_bit 8 (ucast (ucast (drop_bit 8 v) :: byte)) + ucast (ucast v :: byte) :: uint16) = uint v"
  proof -
    have v: "uint v < 65536" using uint_bounded[of v] by simp
    have hi: "uint (ucast (ucast (drop_bit 8 v) :: byte) :: uint16) = uint v div 256"
    proof -
      have "0 \<le> uint v div 256" "uint v div 256 < 256" using v uint_ge_0[of v] by linarith+
      then show ?thesis
        by (simp add: unsigned_ucast_eq drop_bit_eq_div take_bit_eq_mod uint_div uint_mod)
    qed
    have lo: "uint (ucast (ucast v :: byte) :: uint16) = uint v mod 256"
      by (simp add: unsigned_ucast_eq take_bit_eq_mod uint_mod)
    have "0 \<le> uint v div 256" "uint v div 256 < 256" using v uint_ge_0[of v] by linarith+
    then have "uint v div 256 * 256 mod 65536 = uint v div 256 * 256"
      by (intro mod_pos_pos_trivial) auto
    then show ?thesis
      using v by (simp add: uint_word_ariths hi lo push_bit_eq_mult uint_word_of_int div_mult_mod_eq)
  qed
  then show ?thesis by (simp add: BigEndian_PutUint16_def word_uint_eq_iff)
qed

lemma BigEndian_Uint32_version: "BigEndian_Uint32 (BigEndian_PutUint32 messageVersion) = 1"
  by code_simp

lemma length_Put [simp]: "length (BigEndian_PutUint16 v) = 2" "length (BigEndian_PutUint32 w) = 4"
  by (simp_all add: BigEndian_PutUint16_def BigEndian_PutUint32_def)

lemma unat_uint16_plus2:
  assumes "n < 65536"
  shows "unat (2 + word_of_nat n :: uint16) = (if n < 65534 then n + 2 else n - 65534)"
proof -
  have "unat (word_of_nat n :: uint16) = n" using assms by (simp add: unat_of_nat take_bit_nat_eq_self)
  then show ?thesis using assms by (simp add: unat_word_ariths mod_if)
qed

text \<open>A length-prefixed field is read back, unless the 16-bit sum of its bounds overflows, which
  happens for the two largest lengths the writer accepts: then the slice expression panics.\<close>

lemma lengthPrefixed_append:
  assumes "length field < 65536"
  shows "lengthPrefixed (BigEndian_PutUint16 (word_of_nat (length field)) @ field @ rest, sp) =
    (if length field < 65534 then Ok (field, Ok (rest, sp)) else Panic outOfRange)"
proof -
  let ?n = "word_of_nat (length field) :: uint16" and ?h = "BigEndian_PutUint16 (word_of_nat (length field))"
  have to: "slice_to (?h @ field @ rest, sp) 2 = Ok ?h"
    using slice_to_append[of ?h "field @ rest" sp] by simp
  have n: "BigEndian_Uint16 ?h = ?n" using BigEndian_Uint16_Put[of ?n "[]"] by simp
  show ?thesis
  proof (cases "length field < 65534")
    case True
    have "slice_range (?h @ field @ rest, sp) 2 (length field + 2) = Ok field"
      using slice_range_append[of ?h field rest sp] by (simp add: add.commute)
    moreover have "slice_from (?h @ field @ rest, sp) (length field + 2) = Ok (rest, sp)"
      using slice_from_append[of "?h @ field" rest sp] by (simp add: add.commute)
    ultimately show ?thesis
      using True to n unat_uint16_plus2[OF assms] by (simp add: lengthPrefixed_def Let_def)
  next
    case False
    then have "slice_range (?h @ field @ rest, sp) 2 (length field - 65534) = Panic outOfRange"
      using assms by (simp add: slice_range_def)
    then show ?thesis
      using False to n unat_uint16_plus2[OF assms] by (simp add: lengthPrefixed_def Let_def)
  qed
qed

lemma MustIntToUInt16_length:
  "MustIntToUInt16 (int n) = (if n < 65536 then Ok (word_of_nat n) else Panic (outOfRangeFor ''uint16'' (int n)))"
  by (simp add: MustIntToUInt16_def)

section \<open>Chunking\<close>

lemma chunkLoop_concat:
  "start \<le> length data \<Longrightarrow> length data \<le> start + n * mx \<Longrightarrow> concat (chunkLoop mx n start data) = drop start data"
proof (induction n arbitrary: start)
  case (Suc n)
  let ?e = "min (start + mx) (length data)"
  have "concat (chunkLoop mx n ?e data) = drop ?e data" using Suc.prems by (intro Suc.IH) auto
  moreover have "take (?e - start) (drop start data) @ drop ?e data = drop start data"
    using Suc.prems by (metis append_take_drop_id drop_drop le_add_diff_inverse2 min.boundedI le_add1)
  ultimately show ?case by (simp add: Let_def)
qed simp

lemma chunkLoop_sizes:
  "c \<in> set (chunkLoop mx n start data) \<Longrightarrow> length c \<le> mx"
  by (induction n arbitrary: start) (auto simp: Let_def)

lemma chunkLoop_nonempty:
  "start + (n - 1) * mx < length data \<Longrightarrow> 0 < mx \<Longrightarrow> c \<in> set (chunkLoop mx n start data) \<Longrightarrow> c \<noteq> []"
proof (induction n arbitrary: start)
  case (Suc n)
  show ?case
  proof (cases n)
    case 0
    then show ?thesis using Suc.prems by (auto simp: Let_def)
  next
    case (Suc k)
    let ?e = "min (start + mx) (length data)"
    have e: "?e = start + mx" using Suc.prems(1) Suc by simp
    have "start + mx + (n - 1) * mx < length data" using Suc.prems(1) Suc by (simp add: algebra_simps)
    then show ?thesis using Suc.IH[of "start + mx"] Suc.prems e by (auto simp: Let_def)
  qed
qed simp

lemma length_chunkLoop: "length (chunkLoop mx n start data) = n"
  by (induction n arbitrary: start) (simp_all add: Let_def)

lemma chunk_Ok:
  assumes "chunk mx data = Ok cs"
  shows "concat cs = data" "\<forall>c \<in> set cs. 0 < length c \<and> length c \<le> mx" "0 < mx"
    "length cs = (length data + mx - 1) div mx"
proof -
  let ?n = "(length data + mx - 1) div mx"
  have mx: "0 < mx" and cs: "cs = chunkLoop mx ?n 0 data"
    using assms by (auto simp: chunk_def split: if_splits)
  show "0 < mx" by (rule mx)
  show "length cs = ?n" using cs by (simp add: length_chunkLoop)
  have "length data + mx - 1 < mx + ?n * mx" by (rule dividend_less_div_times[OF mx])
  then have "length data \<le> ?n * mx" using mx by linarith
  then show "concat cs = data" using chunkLoop_concat[of 0 data ?n mx] cs by simp
  show "\<forall>c \<in> set cs. 0 < length c \<and> length c \<le> mx"
  proof (cases ?n)
    case (Suc k)
    have "Suc k * mx \<le> length data + mx - 1"
      unfolding Suc[symmetric] by (rule div_times_less_eq_dividend)
    then have "mx + k * mx \<le> length data + mx - 1" by simp
    then have "k * mx < length data" using mx by linarith
    then show ?thesis
      using chunkLoop_nonempty[of 0 "Suc k" mx data] chunkLoop_sizes mx cs Suc by fastforce
  qed (simp add: cs)
qed

section \<open>The public-key store\<close>

definition storeBotPubKey :: "('pk, 'c) enc_env \<Rightarrow> address \<Rightarrow> 'pk \<Rightarrow> pub_keys db \<Rightarrow> unit res \<times> pub_keys db" where
  "storeBotPubKey env a pk = withSession (wrap ''failed to create new session: '')
     (dbBind (SetBotPubKey env a pk) (wrap ''failed to store bot public key: '') (\<lambda>u.
      dbBind DB_Commit (wrap ''failed to commit session: '') (\<lambda>_. dbRet u)))"

lemma dbwork_SetBotPubKey:
  "dbwork (SetBotPubKey env a pk) (\<lambda>d u d'. d' = d(a \<mapsto> CompressPubkey env pk))"
  unfolding SetBotPubKey_def by (rule dbwork_mono[OF dbwork_execOne]) auto

lemma dbwork_GetBotPubKey:
  "dbwork (GetBotPubKey env a) (\<lambda>d v d'. d' = d \<and>
     (case d a of None \<Rightarrow> v = None | Some b \<Rightarrow> \<exists>pk. v = Some pk \<and> DecompressPubkey env b = Ok pk))"
proof -
  have "dbwork (case row of None \<Rightarrow> dbRet None | Some b \<Rightarrow>
      (\<lambda>db s. (onErr (DecompressPubkey env b) w (\<lambda>pk. Ok (Some pk)), s, db)))
      (\<lambda>d v d'. d' = d \<and> (case row of None \<Rightarrow> v = None | Some b \<Rightarrow> \<exists>pk. v = Some pk \<and> DecompressPubkey env b = Ok pk))"
    for row w
    by (cases row) (auto intro!: dbworkI simp: dbRet_def onErr_eq_Ok_iff)
  from dbwork_bind[OF dbwork_query this] show ?thesis
    unfolding GetBotPubKey_def by (rule dbwork_mono) auto
qed

interpretation tx_store_pub_key:
  transactional "storeBotPubKey env a pk" "\<lambda>d u d'. d' = d(a \<mapsto> CompressPubkey env pk)"
proof
  fix db v db' assume "storeBotPubKey env a pk db = (Ok v, db')"
  then show "committed db' = (committed db)(a \<mapsto> CompressPubkey env pk)"
    using withSession_commit[OF dbwork_SetBotPubKey, where f = "\<lambda>u. u"] unfolding storeBotPubKey_def by fastforce
next
  fix db r db' assume "storeBotPubKey env a pk db = (r, db')" "\<And>v. r \<noteq> Ok v"
  then show "committed db' = committed db"
    using withSession_commit[OF dbwork_SetBotPubKey, where f = "\<lambda>u. u"] unfolding storeBotPubKey_def by fastforce
qed

lemma setBotPubKey_alt:
  "setBotPubKey env ev e a pk =
     (case storeBotPubKey env a pk (enc_db e) of
        (Ok _, db) \<Rightarrow> (Ok (), e\<lparr>enc_db := db, pubKeysCache := cache_Add ev a (Some pk) (pubKeysCache e)\<rparr>)
      | (r, db) \<Rightarrow> (r, e\<lparr>enc_db := db\<rparr>))"
  by (simp add: setBotPubKey_def storeBotPubKey_def)

lemma setBotPubKey_no_faults:
  assumes "faults (enc_db e) = (\<lambda>_. None)"
  shows "\<exists>db. setBotPubKey env ev e a pk = (Ok (), e\<lparr>enc_db := db,
     pubKeysCache := cache_Add ev a (Some pk) (pubKeysCache e)\<rparr>) \<and>
     committed db = (committed (enc_db e))(a \<mapsto> CompressPubkey env pk)"
  using assms
  by (intro exI[of _ "(enc_db e)\<lparr>db_calls := Suc (Suc (Suc (db_calls (enc_db e)))),
        committed := (committed (enc_db e))(a \<mapsto> CompressPubkey env pk)\<rparr>"])
    (simp add: setBotPubKey_def withSession_def NewSession_def driver_call_def dbBind_def SetBotPubKey_def
      dbExecOne_def dbExec_def dbRet_def DB_Commit_eq session_defs)

text \<open>What the database says about a bot, and the coherence of the cache with it.\<close>

definition stored_key :: "('pk, 'c) enc_env \<Rightarrow> pub_keys \<Rightarrow> address \<Rightarrow> 'pk option \<Rightarrow> bool" where
  "stored_key env d a v \<longleftrightarrow>
     (case d a of None \<Rightarrow> v = None | Some b \<Rightarrow> \<exists>pk. v = Some pk \<and> DecompressPubkey env b = Ok pk)"

definition cache_coherent :: "('pk, 'c) enc_env \<Rightarrow> 'pk encoderDecoder \<Rightarrow> bool" where
  "cache_coherent env e \<longleftrightarrow>
     (\<forall>a v. pubKeysCache e a = Some v \<longrightarrow> stored_key env (committed (enc_db e)) a v)"

lemma getBotPubKey_read:
  assumes "withSession w (dbBind (GetBotPubKey env a) w1 dbRet) db = (r, db')"
  shows "committed db' = committed db" "r = Ok v \<Longrightarrow> stored_key env (committed db) a v"
  using withSession_read[OF dbwork_bind[OF dbwork_GetBotPubKey dbwork_ret] assms]
  by (auto simp: stored_key_def)

lemma getBotPubKey_coherent:
  assumes "evicts_only ev" and "cache_coherent env e" and "getBotPubKey env ev e a = (r, e')"
  shows "cache_coherent env e' \<and> committed (enc_db e') = committed (enc_db e) \<and>
    (\<forall>v. r = Ok v \<longrightarrow> stored_key env (committed (enc_db e)) a v)"
proof (cases "pubKeysCache e a")
  case None
  obtain r1 db1 where w: "withSession (wrap ''failed to create new session: '')
      (dbBind (GetBotPubKey env a) (wrap ''failed to get bot public key: '') dbRet) (enc_db e) = (r1, db1)"
    by fastforce
  note rd = getBotPubKey_read[OF w]
  show ?thesis
  proof (cases r1)
    case (Ok v)
    then have "r = Ok v" "e' = e\<lparr>enc_db := db1, pubKeysCache := cache_Add ev a v (pubKeysCache e)\<rparr>"
      using assms(3) None w by (auto simp: getBotPubKey_def)
    then show ?thesis
      using assms(1,2) rd Ok by (auto simp: cache_coherent_def dest!: cache_Add_Some[rotated])
  qed (use assms(2,3) None w rd in \<open>auto simp: getBotPubKey_def cache_coherent_def\<close>)
qed (use assms in \<open>auto simp: getBotPubKey_def cache_coherent_def\<close>)

lemma setBotPubKey_coherent:
  assumes "evicts_only ev" and "cache_coherent env e"
    and "DecompressPubkey env (CompressPubkey env pk) = Ok pk"
    and "setBotPubKey env ev e a pk = (r, e')"
  shows "cache_coherent env e'"
proof -
  obtain r1 db1 where st: "storeBotPubKey env a pk (enc_db e) = (r1, db1)" by fastforce
  from tx_store_pub_key.op_all_or_nothing[OF st] show ?thesis
  proof
    assume "\<exists>v. r1 = Ok v \<and> committed db1 = (committed (enc_db e))(a \<mapsto> CompressPubkey env pk)"
    then have c: "committed db1 = (committed (enc_db e))(a \<mapsto> CompressPubkey env pk)"
      "e' = e\<lparr>enc_db := db1, pubKeysCache := cache_Add ev a (Some pk) (pubKeysCache e)\<rparr>"
      using assms(4) st by (auto simp: setBotPubKey_alt)
    then show ?thesis
      using assms(1-3)
      by (auto simp: cache_coherent_def stored_key_def dest!: cache_Add_Some[rotated])
  next
    assume "(\<forall>v. r1 \<noteq> Ok v) \<and> committed db1 = committed (enc_db e)"
    then show ?thesis
      using assms(2,4) st by (cases r1) (auto simp: setBotPubKey_alt cache_coherent_def)
  qed
qed

section \<open>Encoding, then decoding\<close>

text \<open>
  The documented behaviour of the primitives, for a sender with environment \<open>E\<close> and address
  \<open>from\<close> and a recipient with environment \<open>D\<close> and public key \<open>pk\<close>: a signature recovers to the
  signer's key, decryption inverts encryption, decompression inverts compression, and parsing
  inverts printing.
\<close>

definition signature_law :: "('pk, 'c) enc_env \<Rightarrow> ('pk, 'c) enc_env \<Rightarrow> address \<Rightarrow> bool" where
  "signature_law E D from \<longleftrightarrow> (\<forall>data sig. crypto_Sign E (Keccak256 E data) = Ok sig \<longrightarrow>
     (\<exists>pk. SigToPub D (Keccak256 D data) sig = Ok pk \<and> PubkeyToAddress D pk = from))"

definition cipher_law :: "('pk, 'c) enc_env \<Rightarrow> ('pk, 'c) enc_env \<Rightarrow> 'pk \<Rightarrow> bool" where
  "cipher_law E D pk \<longleftrightarrow>
     (\<forall>k c. ecies_Encrypt E pk k = Ok c \<longrightarrow> c \<noteq> [] \<and> ecies_Decrypt D c = Ok k) \<and>
     (\<forall>n b. rand_Read E n = Ok b \<longrightarrow> length b = n) \<and>
     (\<forall>k n d. gcm_Open D k n (gcm_Seal E k n d) = Ok d)"

definition coding_law :: "('pk, 'c) enc_env \<Rightarrow> ('pk, 'c) enc_env \<Rightarrow> bool" where
  "coding_law E D \<longleftrightarrow>
     (\<forall>d. \<exists>sp. zstd_DecodeAll D (zstd_EncodeAll E d) = Ok (d, sp)) \<and>
     (\<forall>m b. json_Marshal_public E m = Ok b \<longrightarrow> json_Unmarshal_public D b = Ok m) \<and>
     (\<forall>m b. json_Marshal_private E m = Ok b \<longrightarrow> json_Unmarshal_private D b = Ok m) \<and>
     (\<forall>a. enc_HexToAddress D (enc_Hex E a) = a)"

text \<open>The content has the protobuf type its message type names.\<close>

definition content_law :: "('pk, 'c) enc_env \<Rightarrow> ('pk, 'c) enc_env \<Rightarrow> 'c message \<Rightarrow> bool" where
  "content_law E D msg \<longleftrightarrow> msg_Type msg \<in> set messageTypes \<and>
     (\<forall>b. proto_Marshal E (msg_Content msg) = Ok b \<longrightarrow> proto_Unmarshal D (msg_Type msg) b = Ok (msg_Content msg))"

text \<open>The public and private metadata bytes of an encoding.\<close>

definition encryptedKeyOf :: "('pk, 'c) enc_env \<Rightarrow> 'pk option \<Rightarrow> key option \<Rightarrow> bytes" where
  "encryptedKeyOf E recipient k =
     (case (recipient, k) of (Some pk, Some key) \<Rightarrow> (case ecies_Encrypt E pk (key_Bytes key) of Ok c \<Rightarrow> c | _ \<Rightarrow> []) | _ \<Rightarrow> [])"

definition publicBytes ::
  "('pk, 'c) enc_env \<Rightarrow> time \<Rightarrow> 'pk option \<Rightarrow> 'c message \<Rightarrow> key option \<Rightarrow> address \<Rightarrow> bytes res" where
  "publicBytes E now recipient msg k acct =
     json_Marshal_public E \<lparr>pm_RequestID = msg_RequestID msg, EncryptedSharedKey = encryptedKeyOf E recipient k,
       ExpiresAt = word_of_int (Unix (now + defaultExpirationTime)), pm_SenderTTMAccount = enc_Hex E acct\<rparr>"

definition privateBytes :: "('pk, 'c) enc_env \<Rightarrow> 'c message \<Rightarrow> bytes res" where
  "privateBytes E msg = json_Marshal_private E \<lparr>prv_Type = msg_Type msg, prv_Timestamps = msg_Timestamps msg\<rparr>"

definition usedKey :: "'pk option \<Rightarrow> key option \<Rightarrow> key option" where
  "usedKey recipient k = (if recipient = None then None else k)"

definition key_ok :: "key option \<Rightarrow> bool" where
  "key_ok k \<longleftrightarrow> (case k of None \<Rightarrow> True | Some (Aead b) \<Rightarrow> length b \<in> {16, 24, 32} | Some (NopKey b) \<Rightarrow> False)"

text \<open>What a successful encoding consists of.\<close>

lemma encodeWith_Ok:
  assumes "encodeWith E now mx recipient msg k acct = Ok enc"
  obtains pub prv content encrypted where
    "publicBytes E now recipient msg k acct = Ok pub" "privateBytes E msg = Ok prv"
    "proto_Marshal E (msg_Content msg) = Ok content" "length pub < 65536" "length prv < 65536"
    "0 \<le> sint (word_of_int (Unix (now + defaultExpirationTime)) :: int64)"
    "case usedKey recipient k of
       None \<Rightarrow> encrypted = zstd_EncodeAll E (BigEndian_PutUint16 (word_of_nat (length prv)) @ prv @ content)
     | Some key \<Rightarrow> (\<exists>pk c. recipient = Some pk \<and> ecies_Encrypt E pk (key_Bytes key) = Ok c \<and>
         key_Encrypt E key (zstd_EncodeAll E (BigEndian_PutUint16 (word_of_nat (length prv)) @ prv @ content)) = Ok encrypted)"
    "concat (ChunkedEncodedMessage enc) =
       BigEndian_PutUint32 1 @ BigEndian_PutUint16 (word_of_nat (length pub)) @ pub @ encrypted"
    "crypto_Sign E (Keccak256 E (concat (ChunkedEncodedMessage enc))) = Ok (EncSignature enc)"
    "chunk mx (concat (ChunkedEncodedMessage enc)) = Ok (ChunkedEncodedMessage enc)"
proof -
  define esk where "esk = (case (recipient, k) of
      (Some pk, Some key) \<Rightarrow> onErr (ecies_Encrypt E pk (key_Bytes key)) (wrap ''failed to encrypt session key: '') (\<lambda>c. Ok (Some (key, c)))
    | _ \<Rightarrow> Ok None)"
  obtain ek prv expires pub content pd encrypted ed sig cs where
    ek: "esk = Ok ek" and prv: "privateBytes E msg = Ok prv"
    and ex: "MustInt64ToUInt64 (word_of_int (Unix (now + defaultExpirationTime))) = Ok expires"
    and pub: "json_Marshal_public E \<lparr>pm_RequestID = msg_RequestID msg,
         EncryptedSharedKey = (case ek of None \<Rightarrow> [] | Some (k, c) \<Rightarrow> c),
         ExpiresAt = expires, pm_SenderTTMAccount = enc_Hex E acct\<rparr> = Ok pub"
    and content: "proto_Marshal E (msg_Content msg) = Ok content"
    and pd: "privateDataOf prv content = Ok pd"
    and en: "(case ek of None \<Rightarrow> Ok (zstd_EncodeAll E pd) | Some (k, c) \<Rightarrow> key_Encrypt E k (zstd_EncodeAll E pd)) = Ok encrypted"
    and ed: "encodedDataOf pub encrypted = Ok ed" and sig: "crypto_Sign E (Keccak256 E ed) = Ok sig"
    and cs: "chunk mx ed = Ok cs" and enc: "enc = \<lparr>ChunkedEncodedMessage = cs, EncSignature = sig\<rparr>"
    using assms unfolding encodeWith_def esk_def[symmetric] privateBytes_def[symmetric] Let_def
    by (fastforce simp: onErr_eq_Ok_iff)
  have e: "expires = word_of_int (Unix (now + defaultExpirationTime))"
    "0 \<le> sint (word_of_int (Unix (now + defaultExpirationTime)) :: int64)"
    using ex by (auto simp: MustInt64ToUInt64_def split: if_splits)
  have ekc: "(case ek of None \<Rightarrow> [] | Some (k, c) \<Rightarrow> c) = encryptedKeyOf E recipient k"
    using ek by (auto simp: esk_def encryptedKeyOf_def onErr_eq_Ok_iff split: option.splits)
  have pd': "pd = BigEndian_PutUint16 (word_of_nat (length prv)) @ prv @ content" "length prv < 65536"
    using pd by (auto simp: privateDataOf_def MustIntToUInt16_length onErr_eq_Ok_iff split: if_splits)
  have ed': "ed = BigEndian_PutUint32 1 @ BigEndian_PutUint16 (word_of_nat (length pub)) @ pub @ encrypted" "length pub < 65536"
    using ed by (auto simp: encodedDataOf_def MustIntToUInt16_length onErr_eq_Ok_iff split: if_splits)
  have used: "case usedKey recipient k of None \<Rightarrow> encrypted = zstd_EncodeAll E pd
     | Some key \<Rightarrow> (\<exists>pk c. recipient = Some pk \<and> ecies_Encrypt E pk (key_Bytes key) = Ok c \<and>
         key_Encrypt E key (zstd_EncodeAll E pd) = Ok encrypted)"
    using ek en by (auto simp: esk_def usedKey_def onErr_eq_Ok_iff split: option.splits)
  show thesis
    using that[OF _ prv content ed'(2) pd'(2) e(2), of encrypted] used[unfolded pd'(1)] pub e(1) ekc ed'(1) sig cs enc
      chunk_Ok(1)[OF cs]
    by (simp add: publicBytes_def)
qed

lemma encodeWith_frame:
  assumes "encodeWith E now mx recipient msg k acct = Ok enc"
  obtains pub encrypted where "publicBytes E now recipient msg k acct = Ok pub" "length pub < 65536"
    "concat (ChunkedEncodedMessage enc) =
       BigEndian_PutUint32 1 @ BigEndian_PutUint16 (word_of_nat (length pub)) @ pub @ encrypted"
    "crypto_Sign E (Keccak256 E (concat (ChunkedEncodedMessage enc))) = Ok (EncSignature enc)"
  by (rule encodeWith_Ok[OF assms]) (rule that)

lemma key_roundtrip:
  assumes "cipher_law E D pk" and "ecies_Encrypt E pk (key_Bytes key) = Ok c" and "key_ok (Some key)"
    and "key_Encrypt E key data = Ok encrypted"
  shows "c \<noteq> [] \<and> ecies_Decrypt D c = Ok (key_Bytes key) \<and> KeyFromBytes (key_Bytes key) = Ok key \<and>
    key_Decrypt D key encrypted = Ok data"
proof -
  obtain b where b: "key = Aead b" "length b \<in> {16, 24, 32}"
    using assms(3) by (cases key) (auto simp: key_ok_def)
  then obtain nonce where n: "rand_Read E 12 = Ok nonce" "encrypted = nonce @ gcm_Seal E b nonce data"
    using assms(4) by (auto simp: onErr_eq_Ok_iff)
  then have "length nonce = 12" using assms(1) by (auto simp: cipher_law_def)
  then show ?thesis
    using assms(1,2) b n by (auto simp: cipher_law_def KeyFromBytes_def aeadFromSessionKey_def)
qed

text \<open>The time of expiry set by the encoder has not passed for a decoder whose clock is at most the
  encoder's (whole) expiry second.\<close>

lemma not_expired:
  assumes "0 \<le> sint (word_of_int x :: int64)" and "0 \<le> x" and "x < 2 ^ 62" and "now' \<le> unixTime x"
  shows "expiresBefore (word_of_int x) now' = Ok False"
proof -
  have u: "uint (word_of_int x :: uint64) = x"
    using assms(2,3) by (simp add: of_int_words)
  then have ok: "MustUInt64ToInt64 (word_of_int x) = Ok (word_of_int x)"
    using assms(3) by (simp add: MustUInt64ToInt64_def word_less_def)
  have "sint (word_of_int x + 62135596800 :: int64) = x + 62135596800"
    using sint_big_Int64[of "x + 62135596800"] assms(2,3) by (simp add: big_Int64_def)
  then show ?thesis
    using ok assms(4) by (simp add: expiresBefore_def unixTime_def algebra_simps)
qed

text \<open>Decoding what a sender encoded, up to the storing of the sender's key.\<close>

lemma decode_of_encode:
  assumes enc: "encodeWith E now mx recipient msg k acct = Ok enc"
    and laws: "coding_law E D" "content_law E D msg" "\<And>pk. recipient = Some pk \<Longrightarrow> cipher_law E D pk"
    and key: "key_ok k"
    and pub: "publicBytes E now recipient msg k acct = Ok pub" "length pub < 65534"
    and prv: "privateBytes E msg = Ok prv" "length prv < 65534"
    and time: "0 \<le> now" "now < 2 ^ 62" "now' \<le> unixTime (Unix (now + defaultExpirationTime))"
  shows "decodeAndVerifyMessageV1 D now' (drop 4 (concat (ChunkedEncodedMessage enc)), spare) =
    Ok (msg, usedKey recipient k, acct)"
proof -
  let ?x = "Unix (now + defaultExpirationTime)"
  obtain content encrypted where
    c: "proto_Marshal E (msg_Content msg) = Ok content" and s0: "0 \<le> sint (word_of_int ?x :: int64)"
    and used: "case usedKey recipient k of
       None \<Rightarrow> encrypted = zstd_EncodeAll E (BigEndian_PutUint16 (word_of_nat (length prv)) @ prv @ content)
     | Some key \<Rightarrow> (\<exists>pk c. recipient = Some pk \<and> ecies_Encrypt E pk (key_Bytes key) = Ok c \<and>
         key_Encrypt E key (zstd_EncodeAll E (BigEndian_PutUint16 (word_of_nat (length prv)) @ prv @ content)) = Ok encrypted)"
    and cat: "concat (ChunkedEncodedMessage enc) =
       BigEndian_PutUint32 1 @ BigEndian_PutUint16 (word_of_nat (length pub)) @ pub @ encrypted"
  proof -
    obtain pub' prv' content encrypted where
      e: "publicBytes E now recipient msg k acct = Ok pub'" "privateBytes E msg = Ok prv'" and
      c: "proto_Marshal E (msg_Content msg) = Ok content" and s: "0 \<le> sint (word_of_int ?x :: int64)"
      and u: "case usedKey recipient k of
         None \<Rightarrow> encrypted = zstd_EncodeAll E (BigEndian_PutUint16 (word_of_nat (length prv')) @ prv' @ content)
       | Some key \<Rightarrow> (\<exists>pk c. recipient = Some pk \<and> ecies_Encrypt E pk (key_Bytes key) = Ok c \<and>
           key_Encrypt E key (zstd_EncodeAll E (BigEndian_PutUint16 (word_of_nat (length prv')) @ prv' @ content)) = Ok encrypted)"
      and k: "concat (ChunkedEncodedMessage enc) =
         BigEndian_PutUint32 1 @ BigEndian_PutUint16 (word_of_nat (length pub')) @ pub' @ encrypted"
      by (rule encodeWith_Ok[OF enc])
    have eq: "pub' = pub" "prv' = prv" using e pub(1) prv(1) by simp_all
    show thesis by (rule that[OF c s u[unfolded eq] k[unfolded eq]])
  qed
  have "0 \<le> ?x" "?x < 2 ^ 62" using time(1,2) by (simp_all add: Unix_def)
  then have ex: "expiresBefore (word_of_int ?x) now' = Ok False" using s0 time(3) by (intro not_expired)
  have lp: "lengthPrefixed (BigEndian_PutUint16 (word_of_nat (length pub)) @ pub @ encrypted, spare) = Ok (pub, Ok (encrypted, spare))"
    "lengthPrefixed (BigEndian_PutUint16 (word_of_nat (length prv)) @ prv @ content, sp) = Ok (prv, Ok (content, sp))" for sp
    using pub(2) prv(2) lengthPrefixed_append[of pub] lengthPrefixed_append[of prv] by simp_all
  have json: "json_Unmarshal_public D pub = Ok \<lparr>pm_RequestID = msg_RequestID msg,
      EncryptedSharedKey = encryptedKeyOf E recipient k, ExpiresAt = word_of_int ?x, pm_SenderTTMAccount = enc_Hex E acct\<rparr>"
    "json_Unmarshal_private D prv = Ok \<lparr>prv_Type = msg_Type msg, prv_Timestamps = msg_Timestamps msg\<rparr>"
    using laws(1) pub(1) prv(1) by (simp_all add: coding_law_def publicBytes_def privateBytes_def)
  obtain sp where z: "zstd_DecodeAll D (zstd_EncodeAll E (BigEndian_PutUint16 (word_of_nat (length prv)) @ prv @ content))
      = Ok (BigEndian_PutUint16 (word_of_nat (length prv)) @ prv @ content, sp)"
    using laws(1) unfolding coding_law_def by blast
  have hex: "enc_HexToAddress D (enc_Hex E acct) = acct" using laws(1) by (simp add: coding_law_def)
  have cont: "UnmarshalContent (proto_Unmarshal D) content (msg_Type msg) = Ok (msg_Content msg)"
    using laws(2) c by (simp add: content_law_def UnmarshalContent_def)
  note facts = cat lp json ex z hex cont
  show ?thesis
  proof (cases "usedKey recipient k")
    case None
    then have "encryptedKeyOf E recipient k = []"
      by (cases recipient) (auto simp: usedKey_def encryptedKeyOf_def)
    then show ?thesis using None used facts by (simp add: decodeAndVerifyMessageV1_def)
  next
    case (Some key)
    then obtain pk c where pk: "recipient = Some pk" "k = Some key" "ecies_Encrypt E pk (key_Bytes key) = Ok c"
      "key_Encrypt E key (zstd_EncodeAll E (BigEndian_PutUint16 (word_of_nat (length prv)) @ prv @ content)) = Ok encrypted"
      using used by (auto simp: usedKey_def split: if_splits)
    then have "encryptedKeyOf E recipient k = c" by (simp add: encryptedKeyOf_def)
    then show ?thesis
      using Some facts key_roundtrip[OF laws(3)[OF pk(1)] pk(3) _ pk(4)] key pk(2)
      by (simp add: decodeAndVerifyMessageV1_def)
  qed
qed

lemma decode_head:
  assumes "concat (ChunkedEncodedMessage enc) = BigEndian_PutUint32 1 @ body"
    and "SigToPub D (Keccak256 D (concat (ChunkedEncodedMessage enc))) (EncSignature enc) = Ok pk"
    and "PubkeyToAddress D pk = from"
  shows "DecodeAndVerifyMessage D ev now spare e enc from =
    (case onErr (decodeAndVerifyMessageV1 D now (body, spare)) (wrap ''failed to decode and verify message: '') (\<lambda>r. Ok (pk, r)) of
       Fail err \<Rightarrow> (Fail err, e)
     | Panic t \<Rightarrow> (Panic t, e)
     | Ok (senderPubKey, msg, sharedKey, senderTTMAccount) \<Rightarrow>
         (case setBotPubKey D ev e from senderPubKey of
            (Ok _, e) \<Rightarrow>
              (Ok (msg\<lparr>msg_Timestamps := Some (case msg_Timestamps msg of None \<Rightarrow> [] | Some t \<Rightarrow> t)\<rparr>,
                   sharedKey, senderTTMAccount), e)
          | (Fail err, e) \<Rightarrow> (Fail (wrap ''failed to store sender public key: '' err), e)
          | (Panic t, e) \<Rightarrow> (Panic t, e)))"
proof -
  have "slice_to (BigEndian_PutUint32 1 @ body, spare) 4 = Ok (BigEndian_PutUint32 1)"
    "slice_from (BigEndian_PutUint32 1 @ body, spare) 4 = Ok (body, spare)"
    using slice_to_append[of "BigEndian_PutUint32 1" body spare] slice_from_append[of "BigEndian_PutUint32 1" body spare]
    by simp_all
  then show ?thesis
    using assms BigEndian_Uint32_version by (simp add: DecodeAndVerifyMessage_def Let_def)
qed

section \<open>Properties\<close>

text \<open>Property C11: what one bot encodes, the other decodes. If the primitives behave as documented
  and both metadata blocks are shorter than 65534 bytes, then the message a recipient decodes and
  verifies, under the sender's address and before the expiry time the sender set, is the message
  that was encoded (its nil timestamps made empty), with the same sender account, and with the
  shared key exactly when the message was encrypted; the recipient afterwards has the sender's
  public key in its database.\<close>

lemma encode_decode_roundtrip:
  assumes "encodeWith E now mx recipient msg k acct = Ok enc"
    and "signature_law E D from" "coding_law E D" "content_law E D msg"
    and "\<And>pk. recipient = Some pk \<Longrightarrow> cipher_law E D pk" and "key_ok k"
    and "publicBytes E now recipient msg k acct = Ok pub" "length pub < 65534"
    and "privateBytes E msg = Ok prv" "length prv < 65534"
    and "0 \<le> now" "now < 2 ^ 62" "now' \<le> unixTime (Unix (now + defaultExpirationTime))"
    and "faults (enc_db e) = (\<lambda>_. None)"
  shows "\<exists>pk e'. DecodeAndVerifyMessage D ev now' spare e enc from =
      (Ok (msg\<lparr>msg_Timestamps := Some (case msg_Timestamps msg of None \<Rightarrow> [] | Some t \<Rightarrow> t)\<rparr>,
           usedKey recipient k, acct), e') \<and>
    PubkeyToAddress D pk = from \<and> committed (enc_db e') = (committed (enc_db e))(from \<mapsto> CompressPubkey D pk)"
proof -
  obtain body where body: "concat (ChunkedEncodedMessage enc) = BigEndian_PutUint32 1 @ body"
    and sig: "crypto_Sign E (Keccak256 E (concat (ChunkedEncodedMessage enc))) = Ok (EncSignature enc)"
    using encodeWith_Ok[OF assms(1)] by metis
  obtain pk where pk: "SigToPub D (Keccak256 D (concat (ChunkedEncodedMessage enc))) (EncSignature enc) = Ok pk"
      "PubkeyToAddress D pk = from"
    using assms(2) sig by (auto simp: signature_law_def)
  have "drop 4 (concat (ChunkedEncodedMessage enc)) = body" using body by simp
  then have "decodeAndVerifyMessageV1 D now' (body, spare) = Ok (msg, usedKey recipient k, acct)"
    using decode_of_encode[OF assms(1,3,4,5,6,7,8,9,10,11,12,13), of spare] by simp
  then show ?thesis
    using decode_head[OF body pk, of ev now' spare e] setBotPubKey_no_faults[OF assms(14), of D ev "from" pk] pk(2)
    by auto
qed

text \<open>Property C3: a message that is accepted is authentic, current and of the supported version.
  If decoding succeeds, the joined chunks start with version 1, the signature over all of them
  recovers to a key whose address is the claimed sender's, the public metadata parsed from them
  has not expired, the message's type is one the bot knows, its timestamps are not nil, and the
  recovered key has been stored for the sender.\<close>

lemma decoded_is_authentic:
  assumes "DecodeAndVerifyMessage D ev now spare e enc from = (Ok (msg, k, acct), e')"
  shows "\<exists>pk pubBytes rest pm.
    BigEndian_Uint32 (take 4 (concat (ChunkedEncodedMessage enc) @ spare)) = 1 \<and>
    SigToPub D (Keccak256 D (concat (ChunkedEncodedMessage enc))) (EncSignature enc) = Ok pk \<and>
    PubkeyToAddress D pk = from \<and>
    lengthPrefixed (drop 4 (concat (ChunkedEncodedMessage enc)), spare) = Ok (pubBytes, rest) \<and>
    json_Unmarshal_public D pubBytes = Ok pm \<and> expiresBefore (ExpiresAt pm) now = Ok False \<and>
    msg_RequestID msg = pm_RequestID pm \<and> acct = enc_HexToAddress D (pm_SenderTTMAccount pm) \<and>
    msg_Type msg \<in> set messageTypes \<and> msg_Timestamps msg \<noteq> None \<and>
    (k = None \<longleftrightarrow> EncryptedSharedKey pm = []) \<and>
    committed (enc_db e') = (committed (enc_db e))(from \<mapsto> CompressPubkey D pk)"
proof -
  let ?d = "concat (ChunkedEncodedMessage enc)"
  obtain pk m1 k1 a1 where v: "BigEndian_Uint32 (take 4 (?d @ spare)) = 1"
    and pk: "SigToPub D (Keccak256 D ?d) (EncSignature enc) = Ok pk" "PubkeyToAddress D pk = from"
    and dec: "decodeAndVerifyMessageV1 D now (drop 4 ?d, spare) = Ok (m1, k1, a1)"
    and st: "setBotPubKey D ev e from pk = (Ok (), e')"
    and m: "msg = m1\<lparr>msg_Timestamps := Some (case msg_Timestamps m1 of None \<Rightarrow> [] | Some t \<Rightarrow> t)\<rparr>" "k = k1" "acct = a1"
    using assms
    by (auto simp: DecodeAndVerifyMessage_def Let_def onErr_eq_Ok_iff slice_to_def slice_from_def
        split: res.splits if_splits prod.splits)
  obtain pubBytes rest pm where p: "lengthPrefixed (drop 4 ?d, spare) = Ok (pubBytes, rest)"
      "json_Unmarshal_public D pubBytes = Ok pm" "expiresBefore (ExpiresAt pm) now = Ok False"
      "msg_RequestID m1 = pm_RequestID pm" "a1 = enc_HexToAddress D (pm_SenderTTMAccount pm)"
      "msg_Type m1 \<in> set messageTypes" "k1 = None \<longleftrightarrow> EncryptedSharedKey pm = []"
    using dec
    by (auto simp: decodeAndVerifyMessageV1_def UnmarshalContent_def onErr_eq_Ok_iff split: if_splits)
  have "committed (enc_db e') = (committed (enc_db e))(from \<mapsto> CompressPubkey D pk)"
  proof -
    obtain r1 db1 where s: "storeBotPubKey D from pk (enc_db e) = (r1, db1)" by fastforce
    then have "r1 = Ok ()" "enc_db e' = db1" using st by (auto simp: setBotPubKey_alt split: res.splits)
    then show ?thesis using tx_store_pub_key.op_ok s by metis
  qed
  then show ?thesis using v pk p m by auto
qed

text \<open>Property C23: an encoded message is cut into chunks that are joined back to exactly the signed
  bytes, each chunk non-empty and no longer than the limit, as few as the limit allows.\<close>

lemma encoded_chunks:
  assumes "encodeWith E now mx recipient msg k acct = Ok enc"
  shows "0 < mx \<and> (\<forall>c \<in> set (ChunkedEncodedMessage enc). 0 < length c \<and> length c \<le> mx) \<and>
    length (ChunkedEncodedMessage enc) = (length (concat (ChunkedEncodedMessage enc)) + mx - 1) div mx \<and>
    ChunkedEncodedMessage enc \<noteq> [] \<and>
    crypto_Sign E (Keccak256 E (concat (ChunkedEncodedMessage enc))) = Ok (EncSignature enc)"
proof -
  obtain body where b: "concat (ChunkedEncodedMessage enc) = BigEndian_PutUint32 1 @ body"
    and s: "crypto_Sign E (Keccak256 E (concat (ChunkedEncodedMessage enc))) = Ok (EncSignature enc)"
    and c: "chunk mx (concat (ChunkedEncodedMessage enc)) = Ok (ChunkedEncodedMessage enc)"
    using encodeWith_Ok[OF assms] by metis
  have "ChunkedEncodedMessage enc \<noteq> []" using b by (auto simp: BigEndian_PutUint32_def)
  then show ?thesis using chunk_Ok[OF c] s by simp
qed

text \<open>The two largest metadata lengths the encoder accepts cannot be decoded. A message
  whose public metadata has 65534 or 65535 bytes is encoded and signed without error, but the
  recipient's 16-bit bound \<open>2 + length\<close> wraps around and the slice expression panics.\<close>

lemma oversized_metadata_panics:
  assumes "encodeWith E now mx recipient msg k acct = Ok enc" and "signature_law E D from"
    and "publicBytes E now recipient msg k acct = Ok pub" and "65534 \<le> length pub"
  shows "length pub \<le> 65535 \<and> DecodeAndVerifyMessage D ev now' spare e enc from = (Panic outOfRange, e)"
proof -
  obtain pub' encrypted where pub': "publicBytes E now recipient msg k acct = Ok pub'" "length pub' < 65536"
    and body: "concat (ChunkedEncodedMessage enc) =
       BigEndian_PutUint32 1 @ BigEndian_PutUint16 (word_of_nat (length pub')) @ pub' @ encrypted"
    and sig: "crypto_Sign E (Keccak256 E (concat (ChunkedEncodedMessage enc))) = Ok (EncSignature enc)"
    by (rule encodeWith_frame[OF assms(1)])
  obtain pk where pk: "SigToPub D (Keccak256 D (concat (ChunkedEncodedMessage enc))) (EncSignature enc) = Ok pk"
      "PubkeyToAddress D pk = from"
    using assms(2) sig by (auto simp: signature_law_def)
  have eq: "pub' = pub" using pub'(1) assms(3) by simp
  then have "decodeAndVerifyMessageV1 D now'
      (BigEndian_PutUint16 (word_of_nat (length pub')) @ pub' @ encrypted, spare) = Panic outOfRange"
    using lengthPrefixed_append[OF pub'(2), of encrypted spare] assms(4) by (simp add: decodeAndVerifyMessageV1_def)
  then show ?thesis
    using decode_head[OF body pk, of ev now' spare e] pub'(2) eq by simp
qed


text \<open>A concrete pair of peers: toy primitives that satisfy the laws, with one fixed metadata block
  whose JSON text is \<open>b\<close>.\<close>

definition sample_pm :: publicMetadata where
  "sample_pm = \<lparr>pm_RequestID = ''r'', EncryptedSharedKey = 0 # replicate 16 1, ExpiresAt = 300,
     pm_SenderTTMAccount = ''x''\<rparr>"

definition sample_enc :: "bytes \<Rightarrow> (address, bytes) enc_env" where
  "sample_enc b = \<lparr>crypto_Sign = (\<lambda>_. Ok [7]), Keccak256 = (\<lambda>d. d), SigToPub = (\<lambda>_ _. Ok 7),
     PubkeyToAddress = (\<lambda>a. a), CompressPubkey = (\<lambda>_. [7]), DecompressPubkey = (\<lambda>_. Ok 7),
     ecies_Encrypt = (\<lambda>_ k. Ok (0 # k)), ecies_Decrypt = (\<lambda>c. Ok (tl c)),
     rand_Read = (\<lambda>n. Ok (replicate n 0)), gcm_Seal = (\<lambda>_ _ d. d), gcm_Open = (\<lambda>_ _ d. Ok d),
     zstd_EncodeAll = (\<lambda>d. d), zstd_DecodeAll = (\<lambda>d. Ok (d, [])),
     json_Marshal_public = (\<lambda>m. if m = sample_pm then Ok b else Fail (Sentinel ''json'')),
     json_Unmarshal_public = (\<lambda>_. Ok sample_pm),
     json_Marshal_private = (\<lambda>m. if m = \<lparr>prv_Type = ''ttm.services.ping.v2.PingService.Request'', prv_Timestamps = None\<rparr>
        then Ok [9] else Fail (Sentinel ''json'')),
     json_Unmarshal_private = (\<lambda>_. Ok \<lparr>prv_Type = ''ttm.services.ping.v2.PingService.Request'', prv_Timestamps = None\<rparr>),
     proto_Marshal = Ok, proto_Unmarshal = (\<lambda>_. Ok),
     enc_Hex = (\<lambda>a. replicate (unat a) CHR ''x''), enc_HexToAddress = (\<lambda>s. word_of_nat (length s))\<rparr>"

definition sample_msg :: "bytes message" where
  "sample_msg = \<lparr>msg_Type = ''ttm.services.ping.v2.PingService.Request'', msg_Content = [4, 5],
     msg_RequestID = ''r'', msg_Timestamps = None\<rparr>"

definition sample_key :: key where "sample_key = Aead (replicate 16 1)"

definition sample_decoder :: "address encoderDecoder" where
  "sample_decoder = \<lparr>maxChunkSize = 8, pubKeysCache = Map.empty,
     enc_db = \<lparr>committed = Map.empty, faults = (\<lambda>_. None), db_calls = 0\<rparr>\<rparr>"

definition sample_encoded :: "bytes \<Rightarrow> encodedSignedMessage" where
  "sample_encoded b = \<lparr>ChunkedEncodedMessage = chunkLoop 8 ((length (BigEndian_PutUint32 1 @ BigEndian_PutUint16 (word_of_nat (length b)) @ b @
      replicate 12 0 @ [0, 1, 9, 4, 5]) + 7) div 8) 0 (BigEndian_PutUint32 1 @ BigEndian_PutUint16 (word_of_nat (length b)) @ b @
      replicate 12 0 @ [0, 1, 9, 4, 5]), EncSignature = [7]\<rparr>"

lemma sample_laws:
  "signature_law (sample_enc b) (sample_enc b) 7" "coding_law (sample_enc b) (sample_enc b)"
  "content_law (sample_enc b) (sample_enc b) sample_msg" "cipher_law (sample_enc b) (sample_enc b) pk"
  "key_ok (Some sample_key)" "privateBytes (sample_enc b) sample_msg = Ok [9]"
  "publicBytes (sample_enc b) 0 (Some 3) sample_msg (Some sample_key) 1 = Ok b"
proof -
  have "''ttm.services.ping.v2.PingService.Request'' \<in> set messageTypes" by code_simp
  then show "content_law (sample_enc b) (sample_enc b) sample_msg"
    by (simp add: content_law_def sample_msg_def sample_enc_def)
  show "coding_law (sample_enc b) (sample_enc b)" by (auto simp: coding_law_def sample_enc_def split: if_splits)
  show "publicBytes (sample_enc b) 0 (Some 3) sample_msg (Some sample_key) 1 = Ok b"
    by (simp add: publicBytes_def sample_enc_def sample_pm_def sample_msg_def sample_key_def encryptedKeyOf_def Unix_def)
qed (auto simp: signature_law_def cipher_law_def key_ok_def privateBytes_def sample_enc_def sample_key_def sample_msg_def)

lemma sample_encodes:
  "length b \<le> 65535 \<Longrightarrow>
   encodeWith (sample_enc b) 0 8 (Some 3) sample_msg (Some sample_key) 1 = Ok (sample_encoded b)"
proof -
  assume b: "length b \<le> 65535"
  have "json_Marshal_public (sample_enc b) \<lparr>pm_RequestID = msg_RequestID sample_msg, EncryptedSharedKey = 0 # key_Bytes sample_key,
      ExpiresAt = 300, pm_SenderTTMAccount = enc_Hex (sample_enc b) 1\<rparr> = Ok b"
    by (simp add: sample_enc_def sample_pm_def sample_msg_def sample_key_def)
  moreover have "json_Marshal_private (sample_enc b) \<lparr>prv_Type = msg_Type sample_msg, prv_Timestamps = msg_Timestamps sample_msg\<rparr> = Ok [9]"
    using sample_laws(6) by (simp add: privateBytes_def)
  moreover have "MustInt64ToUInt64 (word_of_int (Unix (0 + defaultExpirationTime))) = Ok 300"
    by (simp add: Unix_def MustInt64ToUInt64_def)
  moreover have "privateDataOf [9] [4, 5] = Ok [0, 1, 9, 4, 5]" by code_simp
  moreover have "proto_Marshal (sample_enc b) (msg_Content sample_msg) = Ok [4, 5]"
    "ecies_Encrypt (sample_enc b) 3 (key_Bytes sample_key) = Ok (0 # key_Bytes sample_key)"
    "key_Encrypt (sample_enc b) sample_key (zstd_EncodeAll (sample_enc b) [0, 1, 9, 4, 5]) = Ok (replicate 12 0 @ [0, 1, 9, 4, 5])"
    "crypto_Sign (sample_enc b) d = Ok [7]" for d
    by (simp_all add: sample_enc_def sample_msg_def sample_key_def)
  moreover have "encodedDataOf b (replicate 12 0 @ [0, 1, 9, 4, 5]) = Ok (BigEndian_PutUint32 1 @
      BigEndian_PutUint16 (word_of_nat (length b)) @ b @ replicate 12 0 @ [0, 1, 9, 4, 5])"
    using b by (simp add: encodedDataOf_def MustIntToUInt16_length)
  ultimately show ?thesis
    by (simp add: encodeWith_def Let_def chunk_def sample_encoded_def del: replicate.simps replicate_Suc append_assoc)
qed

lemma encode_decode_roundtrip_witness:
  "\<exists>pk e'. DecodeAndVerifyMessage (sample_enc [1, 2, 3]) (\<lambda>m. m) 1000 [] sample_decoder (sample_encoded [1, 2, 3]) 7 =
      (Ok (sample_msg\<lparr>msg_Timestamps := Some []\<rparr>, Some sample_key, 1), e') \<and>
    PubkeyToAddress (sample_enc [1, 2, 3]) pk = 7 \<and>
    committed (enc_db e') = (committed (enc_db sample_decoder))(7 \<mapsto> CompressPubkey (sample_enc [1, 2, 3]) pk)"
proof -
  have t: "1000 \<le> unixTime (Unix (0 + defaultExpirationTime))" by (simp add: Unix_def unixTime_def)
  have f: "faults (enc_db sample_decoder) = (\<lambda>_. None)" by (simp add: sample_decoder_def)
  show ?thesis
    using encode_decode_roundtrip[where mx = 8 and recipient = "Some 3" and k = "Some sample_key" and acct = 1
        and ev = "\<lambda>m. m" and spare = "[]" and now = 0,
        OF sample_encodes sample_laws(1-4) sample_laws(5) sample_laws(7) _ sample_laws(6) _ _ _ t f]
    by (simp add: usedKey_def sample_msg_def)
qed

lemma decoded_is_authentic_witness:
  "\<exists>pk. SigToPub (sample_enc [1, 2, 3]) (Keccak256 (sample_enc [1, 2, 3]) (concat (ChunkedEncodedMessage (sample_encoded [1, 2, 3]))))
      (EncSignature (sample_encoded [1, 2, 3])) = Ok pk \<and> PubkeyToAddress (sample_enc [1, 2, 3]) pk = 7"
proof -
  let ?D = "DecodeAndVerifyMessage (sample_enc [1, 2, 3]) (\<lambda>m. m) 1000 [] sample_decoder (sample_encoded [1, 2, 3]) 7"
  have "fst ?D = Ok (sample_msg\<lparr>msg_Timestamps := Some []\<rparr>, Some sample_key, 1)" by code_simp
  then have "?D = (Ok (sample_msg\<lparr>msg_Timestamps := Some []\<rparr>, Some sample_key, 1), snd ?D)"
    by (metis prod.collapse)
  from decoded_is_authentic[OF this] show ?thesis by blast
qed

lemma encoded_chunks_witness:
  "list_all (\<lambda>c. 0 < length c \<and> length c \<le> 8) (ChunkedEncodedMessage (sample_encoded [1, 2, 3]))"
  using encoded_chunks[OF sample_encodes[of "[1, 2, 3]"]] by (simp add: list_all_iff)

lemma oversized_metadata_panics_witness:
  "DecodeAndVerifyMessage (sample_enc (replicate 65534 0)) (\<lambda>m. m) 1000 [] sample_decoder
     (sample_encoded (replicate 65534 0)) 7 = (Panic outOfRange, sample_decoder)"
  using oversized_metadata_panics[OF sample_encodes[of "replicate 65534 0"] sample_laws(1) sample_laws(7),
      where ev = "\<lambda>m. m" and now' = 1000 and spare = "[]" and e = sample_decoder] by simp


end
