(* ===== verification/Resolver.thy ===== *)
theory Resolver
  imports Database
begin

text \<open>
  Choosing the bot that represents an account: \<^verbatim>\<open>internal/resolver/resolver.go\<close> and its table
  \<^verbatim>\<open>internal/resolver/storage/sqlite/bots.go\<close>. The table is its list of rows, with the primary
  key \<open>(ttm_account, bot)\<close>. A \<open>SELECT ... LIMIT 1\<close> without an order returns any matching row: which
  one is the parameter \<open>pick\<close>. Reading the bots of an account from the chain
  (\<open>ttmAccounts.GetAllMessengerBots\<close>) is the parameter \<open>chain\<close>.
\<close>

section \<open>The bots table (bots.go)\<close>

datatype botStatus = BotStatusUnknown | BotStatusReachable | BotStatusUnreachable

record bot_row =
  ttm_account :: address
  bot_addr :: address
  bot_status :: botStatus

type_synonym bots = "bot_row list"

definition ErrNotFound :: err where
  "ErrNotFound = Sentinel ''no bot found for the given TTM account and status''"

definition errRowsAffected :: "string \<Rightarrow> nat \<Rightarrow> err" where
  "errRowsAffected what n = Err [PStr (what @ '': expected to affect 1 row, but affected ''), PInt (int n)] []"

definition matching :: "bots \<Rightarrow> address \<Rightarrow> botStatus \<Rightarrow> address list" where
  "matching d acct st = map bot_addr (filter (\<lambda>r. ttm_account r = acct \<and> bot_status r = st) d)"

definition GetFirstBotWithStatus ::
  "(address list \<Rightarrow> address) \<Rightarrow> address \<Rightarrow> botStatus \<Rightarrow> (bots, address) dbm" where
  "GetFirstBotWithStatus pick acct st =
     dbQuery (\<lambda>d. case matching d acct st of [] \<Rightarrow> Fail ErrNotFound | b # bs \<Rightarrow> Ok (pick (b # bs)))"

definition storage_SetBotStatus :: "address \<Rightarrow> botStatus \<Rightarrow> (bots, unit) dbm" where
  "storage_SetBotStatus botAddress st =
     dbBind (dbExec (\<lambda>d. (length (filter (\<lambda>r. bot_addr r = botAddress) d),
                          map (\<lambda>r. if bot_addr r = botAddress then r\<lparr>bot_status := st\<rparr> else r) d))) (\<lambda>e. e) (\<lambda>rowsAffected.
       if rowsAffected \<noteq> 1 then dbFail (errRowsAffected ''failed to set bot status'' rowsAffected) else dbRet ())"

definition insertBot :: "address \<Rightarrow> address \<Rightarrow> bots \<Rightarrow> (nat \<times> bots) res" where
  "insertBot acct b d =
     (if \<exists>r \<in> set d. ttm_account r = acct \<and> bot_addr r = b
      then Fail (Sentinel ''UNIQUE constraint failed: bots.ttm_account, bots.bot'')
      else Ok (1, d @ [\<lparr>ttm_account = acct, bot_addr = b, bot_status = BotStatusUnknown\<rparr>]))"

fun insertBots :: "address \<Rightarrow> address list \<Rightarrow> (bots, unit) dbm" where
  "insertBots acct [] = dbRet ()"
| "insertBots acct (b # bs) =
     dbBind (dbExecR (insertBot acct b)) (\<lambda>e. e) (\<lambda>rowsAffected.
       if rowsAffected \<noteq> 1 then dbFail (errRowsAffected ''failed to insert bot'' rowsAffected)
       else insertBots acct bs)"

definition SetBots :: "address \<Rightarrow> address list \<Rightarrow> (bots, unit) dbm" where
  "SetBots acct bs =
     dbBind (dbExec (\<lambda>d. ((), filter (\<lambda>r. ttm_account r \<noteq> acct) d))) (\<lambda>e. e) (\<lambda>_. insertBots acct bs)"

section \<open>The resolver (resolver.go)\<close>

definition GetBotAddress ::
  "(address list \<Rightarrow> address) \<Rightarrow> (address \<Rightarrow> address list res) \<Rightarrow> address \<Rightarrow> bots db \<Rightarrow> address res \<times> bots db" where
  "GetBotAddress pick chain acct =
     withSession (\<lambda>e. e)
       (dbTry (GetFirstBotWithStatus pick acct BotStatusReachable) dbRet (\<lambda>err.
          if \<not> errors_Is err ''no bot found for the given TTM account and status''
          then dbFail (wrap ''failed to get first reachable bot from db: '' err)
          else
        dbTry (GetFirstBotWithStatus pick acct BotStatusUnknown) dbRet (\<lambda>err.
          if \<not> errors_Is err ''no bot found for the given TTM account and status''
          then dbFail (wrap ''failed to get first bot with unknown reachability status from db: '' err)
          else
        dbBind (\<lambda>db s. (chain acct, s, db)) (\<lambda>e. e) (\<lambda>recipientBots.
        dbBind (SetBots acct recipientBots) (wrap ''failed to set bots in db: '') (\<lambda>_.
        dbBind DB_Commit (wrap ''failed to commit session: '') (\<lambda>_.
          case recipientBots of
            [] \<Rightarrow> dbFail (Err ([PStr ''no bots found for recipient TTM account '', PAddr acct, PStr '': ''] @ Error ErrNotFound)
                          [ErrNotFound])
          | b # bs \<Rightarrow> dbRet b))))))"

definition SetBotStatus :: "address \<Rightarrow> botStatus \<Rightarrow> bots db \<Rightarrow> unit res \<times> bots db" where
  "SetBotStatus botAddress st =
     withSession (\<lambda>e. e)
       (dbBind (storage_SetBotStatus botAddress st) (wrap ''failed to set bot status in db: '') (\<lambda>u.
        dbBind DB_Commit (wrap ''failed to commit session: '') (\<lambda>_. dbRet u)))"

section \<open>The table and its operations\<close>

definition pk_ok :: "bots \<Rightarrow> bool" where
  "pk_ok d \<longleftrightarrow> distinct (map (\<lambda>r. (ttm_account r, bot_addr r)) d)"

definition refreshed :: "address \<Rightarrow> address list \<Rightarrow> bots \<Rightarrow> bots" where
  "refreshed acct bs d = filter (\<lambda>r. ttm_account r \<noteq> acct) d @
     map (\<lambda>b. \<lparr>ttm_account = acct, bot_addr = b, bot_status = BotStatusUnknown\<rparr>) bs"

definition with_status :: "address \<Rightarrow> botStatus \<Rightarrow> bots \<Rightarrow> bots" where
  "with_status b st d = map (\<lambda>r. if bot_addr r = b then r\<lparr>bot_status := st\<rparr> else r) d"

lemma dbwork_storage_SetBotStatus:
  "dbwork (storage_SetBotStatus b st)
     (\<lambda>d u d'. length (filter (\<lambda>r. bot_addr r = b) d) = 1 \<and> d' = with_status b st d)"
proof -
  have "dbwork (if n \<noteq> 1 then dbFail (errRowsAffected w n) else dbRet ()) (\<lambda>d u d'. n = 1 \<and> d' = d)" for n w
    by (simp add: dbwork_fail dbwork_mono[OF dbwork_ret])
  from dbwork_bind[OF dbwork_exec this] show ?thesis
    unfolding storage_SetBotStatus_def with_status_def by (rule dbwork_mono) auto
qed

lemma dbwork_insertBots:
  "dbwork (insertBots acct bs) (\<lambda>d u d'.
     d' = d @ map (\<lambda>b. \<lparr>ttm_account = acct, bot_addr = b, bot_status = BotStatusUnknown\<rparr>) bs \<and> (pk_ok d \<longrightarrow> pk_ok d'))"
proof (induction bs)
  case Nil
  then show ?case by (simp add: dbwork_mono[OF dbwork_ret])
next
  case (Cons b bs)
  have "dbwork (if n \<noteq> 1 then dbFail (errRowsAffected w n) else insertBots acct bs) (\<lambda>d u d'.
     d' = d @ map (\<lambda>b. \<lparr>ttm_account = acct, bot_addr = b, bot_status = BotStatusUnknown\<rparr>) bs \<and> (pk_ok d \<longrightarrow> pk_ok d'))" for n w
    using Cons by (simp add: dbwork_fail)
  from dbwork_bind[OF dbwork_execR this] show ?case
    by (simp only: insertBots.simps) (rule dbwork_mono, assumption, auto simp: insertBot_def pk_ok_def split: if_splits)
qed

lemma dbwork_SetBots:
  "dbwork (SetBots acct bs) (\<lambda>d u d'. d' = refreshed acct bs d \<and> (pk_ok d \<longrightarrow> pk_ok d'))"
  unfolding SetBots_def
proof (rule dbwork_mono[OF dbwork_bind[OF dbwork_exec dbwork_insertBots]])
  have "pk_ok d \<Longrightarrow> pk_ok (filter P d)" for d P
    unfolding pk_ok_def by (metis distinct_map_filter)
  then show "\<And>d v d'. \<exists>u d1. ((), filter (\<lambda>r. ttm_account r \<noteq> acct) d) = (u, d1) \<and>
       d' = d1 @ map (\<lambda>b. \<lparr>ttm_account = acct, bot_addr = b, bot_status = BotStatusUnknown\<rparr>) bs \<and>
       (pk_ok d1 \<longrightarrow> pk_ok d') \<Longrightarrow> d' = refreshed acct bs d \<and> (pk_ok d \<longrightarrow> pk_ok d')"
    by (auto simp: refreshed_def)
qed

interpretation tx_SetBotStatus: transactional "SetBotStatus b st"
  "\<lambda>d u d'. length (filter (\<lambda>r. bot_addr r = b) d) = 1 \<and> d' = with_status b st d"
proof
  fix db v db' assume "SetBotStatus b st db = (Ok v, db')"
  then show "length (filter (\<lambda>r. bot_addr r = b) (committed db)) = 1 \<and> committed db' = with_status b st (committed db)"
    using withSession_commit[OF dbwork_storage_SetBotStatus, where f = "\<lambda>u. u"] unfolding SetBotStatus_def by fastforce
next
  fix db r db' assume "SetBotStatus b st db = (r, db')" "\<And>v. r \<noteq> Ok v"
  then show "committed db' = committed db"
    using withSession_commit[OF dbwork_storage_SetBotStatus, where f = "\<lambda>u. u"] unfolding SetBotStatus_def by fastforce
qed

lemma SetBotStatus_no_faults:
  assumes "faults db = (\<lambda>_. None)" and "length (filter (\<lambda>r. bot_addr r = b) (committed db)) = 1"
  shows "fst (SetBotStatus b st db) = Ok ()"
  using assms
  by (simp add: SetBotStatus_def withSession_def NewSession_def driver_call_def dbBind_def
      storage_SetBotStatus_def dbExec_def dbRet_def DB_Commit_eq session_defs)

text \<open>The part of \<open>GetBotAddress\<close> that refreshes the table from the chain.\<close>

definition refreshBots :: "(address \<Rightarrow> address list res) \<Rightarrow> address \<Rightarrow> (bots, address) dbm" where
  "refreshBots chain acct =
     dbBind (\<lambda>db s. (chain acct, s, db)) (\<lambda>e. e) (\<lambda>recipientBots.
        dbBind (SetBots acct recipientBots) (wrap ''failed to set bots in db: '') (\<lambda>_.
        dbBind DB_Commit (wrap ''failed to commit session: '') (\<lambda>_.
          case recipientBots of
            [] \<Rightarrow> dbFail (Err ([PStr ''no bots found for recipient TTM account '', PAddr acct, PStr '': ''] @ Error ErrNotFound)
                          [ErrNotFound])
          | b # bs \<Rightarrow> dbRet b)))"

lemma refreshBots_result:
  assumes "refreshBots chain acct db s = (r, s', db')" and "\<not> sess_committed s"
  shows "(\<exists>b bs. chain acct = Ok (b # bs) \<and> r = Ok b \<and> committed db' = refreshed acct (b # bs) (working s) \<and>
      (pk_ok (working s) \<longrightarrow> pk_ok (committed db'))) \<or>
    (chain acct = Ok [] \<and> (\<exists>e. r = Fail e) \<and> committed db' = refreshed acct [] (working s) \<and>
      (pk_ok (working s) \<longrightarrow> pk_ok (committed db'))) \<or>
    ((\<forall>b. r \<noteq> Ok b) \<and> committed db' = committed db)"
proof (cases "chain acct")
  case (Ok bs)
  obtain r2 s2 db2 where m: "SetBots acct bs db s = (r2, s2, db2)" by (metis prod.exhaust)
  note md = dbwork_dest[OF dbwork_SetBots m]
  show ?thesis
  proof (cases r2)
    case ok2: (Ok u)
    obtain r3 s3 db3 where c: "DB_Commit db2 s2 = (r3, s3, db3)" by (metis prod.exhaust)
    have cc: "(r3 = Ok () \<and> committed db3 = working s2 \<and> sess_committed s3) \<or>
        ((\<exists>e. r3 = Fail e) \<and> committed db3 = committed db)"
      using c md(1,3) assms(2) by (auto simp: DB_Commit_eq split: if_splits option.splits)
    show ?thesis
      using cc md(4)[of u] assms(1) Ok ok2 m c
      by (auto simp: refreshBots_def dbBind_def dbRet_def dbFail_def ErrNotFound_def split: list.splits)
  qed (use assms(1) Ok m md(1) in \<open>auto simp: refreshBots_def dbBind_def\<close>)
qed (use assms(1) in \<open>auto simp: refreshBots_def dbBind_def\<close>)

definition sane_faults :: "'d db \<Rightarrow> bool" where
  "sane_faults db \<longleftrightarrow>
     (\<forall>n e. faults db n = Some e \<longrightarrow> \<not> errors_Is e ''no bot found for the given TTM account and status'')"

text \<open>The specification of \<open>GetBotAddress\<close>, given the table \<open>d\<close> before and \<open>d'\<close> after.\<close>

definition resolves :: "(address list \<Rightarrow> address) \<Rightarrow> (address \<Rightarrow> address list res) \<Rightarrow> address \<Rightarrow> bots \<Rightarrow> address \<Rightarrow> bots \<Rightarrow> bool" where
  "resolves pick chain acct d b d' \<longleftrightarrow>
     (let reachable = matching d acct BotStatusReachable; unknown = matching d acct BotStatusUnknown
      in if reachable \<noteq> [] then b = pick reachable \<and> d' = d
         else if unknown \<noteq> [] then b = pick unknown \<and> d' = d
         else \<exists>bs. chain acct = Ok (b # bs) \<and> d' = refreshed acct (b # bs) d)"

lemma GetBotAddress_result:
  assumes "GetBotAddress pick chain acct db = (r, db')" and "sane_faults db"
  shows "(\<exists>b. r = Ok b \<and> resolves pick chain acct (committed db) b (committed db')) \<or>
    ((\<forall>b. r \<noteq> Ok b) \<and> (committed db' = committed db \<or>
       (chain acct = Ok [] \<and> committed db' = refreshed acct [] (committed db))))"
    and "pk_ok (committed db) \<Longrightarrow> pk_ok (committed db')"
proof -
  let ?d = "committed db"
  let ?c = "\<lambda>n. db\<lparr>db_calls := db_calls db + n\<rparr>"
  let ?s = "\<lparr>working = ?d, tx_done = False, sess_committed = False\<rparr>"
  let ?R = "(\<exists>b. r = Ok b \<and> resolves pick chain acct ?d b (committed db')) \<or>
    ((\<forall>b. r \<noteq> Ok b) \<and> (committed db' = ?d \<or> (chain acct = Ok [] \<and> committed db' = refreshed acct [] ?d)))"
  obtain r3 s3 db3 where t: "refreshBots chain acct (?c 3) ?s = (r3, s3, db3)" by (metis prod.exhaust)
  obtain s4 db4 where a: "DB_Abort db3 s3 = (s4, db4)" by fastforce
  note tail = refreshBots_result[OF t] DB_Abort_keeps[OF a]
  have f: "faults db n = Some e \<Longrightarrow> \<not> errors_Is e ''no bot found for the given TTM account and status''" for n e
    using assms(2) by (auto simp: sane_faults_def)
  note defs = GetBotAddress_def withSession_def NewSession_def driver_call_def dbTry_def
    GetFirstBotWithStatus_def dbQuery_def dbRet_def dbFail_def refreshBots_def[symmetric] ErrNotFound_def
  have ab: "committed (snd (DB_Abort x y)) = committed x" for x :: "bots db" and y
    using DB_Abort_keeps[of x y] by (metis prod.collapse)
  have tl: "r = r3 \<and> db' = db4" if "faults db (db_calls db) = None" "faults db (db_calls db + 1) = None"
      "faults db (db_calls db + 2) = None" "matching ?d acct BotStatusReachable = []" "matching ?d acct BotStatusUnknown = []"
    using assms(1) that t a by (simp add: defs numeral_2_eq_2 numeral_3_eq_3)
  have early: "?R \<and> (pk_ok ?d \<longrightarrow> pk_ok (committed db'))"
    if "\<not> (faults db (db_calls db) = None \<and> faults db (db_calls db + 1) = None \<and>
      faults db (db_calls db + 2) = None \<and> matching ?d acct BotStatusReachable = [] \<and> matching ?d acct BotStatusUnknown = [])"
    using assms(1) that f ab
    by (auto simp: defs resolves_def Let_def split: option.splits list.splits if_splits)
  have "?R \<and> (pk_ok ?d \<longrightarrow> pk_ok (committed db'))"
    using early tl tail by (cases "faults db (db_calls db) = None \<and> faults db (db_calls db + 1) = None \<and>
      faults db (db_calls db + 2) = None \<and> matching ?d acct BotStatusReachable = [] \<and> matching ?d acct BotStatusUnknown = []")
      (auto simp: resolves_def Let_def)
  then show ?R "pk_ok ?d \<Longrightarrow> pk_ok (committed db')" by auto
qed

definition usable :: "bots \<Rightarrow> address \<Rightarrow> nat" where
  "usable d acct = length (filter (\<lambda>r. ttm_account r = acct \<and> bot_status r \<noteq> BotStatusUnreachable) d)"

lemma usable_drop:
  assumes "length (filter (\<lambda>r. bot_addr r = b) d) = 1"
    and "b \<in> set (matching d acct BotStatusReachable) \<union> set (matching d acct BotStatusUnknown)"
  shows "usable d acct = Suc (usable (with_status b BotStatusUnreachable d) acct)"
proof -
  obtain ys x zs where d: "d = ys @ x # zs" "bot_addr x = b" "\<forall>y \<in> set ys. bot_addr y \<noteq> b" "\<forall>z \<in> set zs. bot_addr z \<noteq> b"
    using assms(1) unfolding filter_single_iff by blast
  have x: "ttm_account x = acct" "bot_status x \<noteq> BotStatusUnreachable"
    using assms(2) d by (auto simp: matching_def split: if_splits)
  have "with_status b BotStatusUnreachable ys = ys" "with_status b BotStatusUnreachable zs = zs"
    using d(3,4) by (auto simp: with_status_def intro!: map_idI)
  then have "with_status b BotStatusUnreachable d = ys @ x\<lparr>bot_status := BotStatusUnreachable\<rparr> # zs"
    using d(1,2) by (simp add: with_status_def)
  then show ?thesis using d(1) x by (simp add: usable_def)
qed

section \<open>Properties\<close>

text \<open>Property C19: the order of preference. The address returned is a reachable bot of the account if
  the table has one, otherwise one whose status is unknown, otherwise the first bot the chain lists,
  in which case the account's rows have been replaced by all the listed bots with unknown status;
  on an error the table is unchanged, or the chain listed no bot and the account has no rows left;
  and the primary key is kept.\<close>

lemma GetBotAddress_prefers:
  assumes "GetBotAddress pick chain acct db = (r, db')" and "sane_faults db"
  shows "((\<exists>b. r = Ok b \<and> resolves pick chain acct (committed db) b (committed db')) \<or>
     ((\<forall>b. r \<noteq> Ok b) \<and> (committed db' = committed db \<or>
        (chain acct = Ok [] \<and> committed db' = refreshed acct [] (committed db))))) \<and>
    (pk_ok (committed db) \<longrightarrow> pk_ok (committed db'))"
  using GetBotAddress_result[OF assms] by blast

definition sample_bots :: "bots db" where
  "sample_bots = \<lparr>committed = [\<lparr>ttm_account = 1, bot_addr = 5, bot_status = BotStatusUnreachable\<rparr>,
     \<lparr>ttm_account = 1, bot_addr = 6, bot_status = BotStatusUnknown\<rparr>], faults = (\<lambda>_. None), db_calls = 0\<rparr>"

lemma GetBotAddress_prefers_witness:
  "fst (GetBotAddress hd (\<lambda>_. Ok [8]) 1 sample_bots) = Ok 6 \<and>
   resolves hd (\<lambda>_. Ok [8]) 1 (committed sample_bots) 6 (committed (snd (GetBotAddress hd (\<lambda>_. Ok [8]) 1 sample_bots)))"
proof -
  let ?G = "GetBotAddress hd (\<lambda>_. Ok [8]) 1 sample_bots"
  have ok: "fst ?G = Ok 6" by code_simp
  have "sane_faults sample_bots" by (simp add: sane_faults_def sample_bots_def)
  moreover have "?G = (Ok 6, snd ?G)" using ok by (metis prod.collapse)
  ultimately show ?thesis
    using GetBotAddress_prefers[of hd "\<lambda>_. Ok [8]" 1 sample_bots "Ok 6" "snd ?G"] ok by auto
qed



text \<open>The status of a bot that serves two accounts can never be set. The update names
  only the bot and must affect one row, but the table holds one row per account and bot: with two
  such rows \<open>SetBotStatus\<close> fails, and the table, an unreachable bot included, stays as it was.\<close>

lemma shared_bot_status_stuck:
  assumes "r1 \<in> set (committed db)" "r2 \<in> set (committed db)" "bot_addr r1 = b" "bot_addr r2 = b"
    and "ttm_account r1 \<noteq> ttm_account r2"
  shows "(\<forall>u. fst (SetBotStatus b st db) \<noteq> Ok u) \<and> committed (snd (SetBotStatus b st db)) = committed db"
proof -
  let ?f = "filter (\<lambda>r. bot_addr r = b) (committed db)"
  have "r1 \<in> set ?f" "r2 \<in> set ?f" "r1 \<noteq> r2" using assms by auto
  then have "length ?f \<noteq> 1" by (auto simp: length_Suc_conv simp del: set_filter)
  then show ?thesis
    using tx_SetBotStatus.op_all_or_nothing[of b st db "fst (SetBotStatus b st db)" "snd (SetBotStatus b st db)"] by auto
qed

lemma shared_bot_status_stuck_witness:
  "committed (snd (SetBotStatus 6 BotStatusUnreachable
     (sample_bots\<lparr>committed := committed sample_bots @ [\<lparr>ttm_account = 2, bot_addr = 6, bot_status = BotStatusUnknown\<rparr>]\<rparr>))) =
   committed sample_bots @ [\<lparr>ttm_account = 2, bot_addr = 6, bot_status = BotStatusUnknown\<rparr>]"
  using shared_bot_status_stuck[of "\<lparr>ttm_account = 1, bot_addr = 6, bot_status = BotStatusUnknown\<rparr>"
      "sample_bots\<lparr>committed := committed sample_bots @ [\<lparr>ttm_account = 2, bot_addr = 6, bot_status = BotStatusUnknown\<rparr>]\<rparr>"
      "\<lparr>ttm_account = 2, bot_addr = 6, bot_status = BotStatusUnknown\<rparr>" 6 BotStatusUnreachable]
  by (simp add: sample_bots_def)

end
