(* ===== verification/Effects.thy ===== *)
theory Effects
  imports Go_Prelude
begin

text \<open>
  Code that changes state and may fail: an \<open>act\<close> takes the state and returns a result and the new
  state. \<open>aBind m w k\<close> is \<open>v, err := m(); if err != nil { return w(err) }; k(v)\<close> and \<open>aTry m ok bad\<close>
  the code that goes on after an error. The chain and the libraries around it are parameters, whose
  answers depend on everything done so far: \<open>aAsk\<close> is one such call.
\<close>

type_synonym ('s, 'a) act = "'s \<Rightarrow> 'a res \<times> 's"

definition aRet :: "'a \<Rightarrow> ('s, 'a) act" where "aRet v = (\<lambda>s. (Ok v, s))"

definition aFail :: "err \<Rightarrow> ('s, 'a) act" where "aFail e = (\<lambda>s. (Fail e, s))"

definition aBind :: "('s, 'a) act \<Rightarrow> (err \<Rightarrow> err) \<Rightarrow> ('a \<Rightarrow> ('s, 'b) act) \<Rightarrow> ('s, 'b) act" where
  "aBind m w k = (\<lambda>s. case m s of
       (Ok v, s) \<Rightarrow> k v s
     | (Fail e, s) \<Rightarrow> (Fail (w e), s)
     | (Panic t, s) \<Rightarrow> (Panic t, s))"

definition aTry :: "('s, 'a) act \<Rightarrow> ('a \<Rightarrow> ('s, 'b) act) \<Rightarrow> (err \<Rightarrow> ('s, 'b) act) \<Rightarrow> ('s, 'b) act" where
  "aTry m ok bad = (\<lambda>s. case m s of
       (Ok v, s) \<Rightarrow> ok v s
     | (Fail e, s) \<Rightarrow> bad e s
     | (Panic t, s) \<Rightarrow> (Panic t, s))"

definition aLift :: "'a res \<Rightarrow> ('s, 'a) act" where "aLift r = (\<lambda>s. (r, s))"

text \<open>What a run of an \<open>act\<close> does, with every way it can end; the rules follow the code.\<close>

definition does :: "('s, 'a) act \<Rightarrow> ('s \<Rightarrow> 'a res \<Rightarrow> 's \<Rightarrow> bool) \<Rightarrow> bool" where
  "does m R \<longleftrightarrow> (\<forall>s. R s (fst (m s)) (snd (m s)))"

lemma doesI: "(\<And>s r s'. m s = (r, s') \<Longrightarrow> R s r s') \<Longrightarrow> does m R"
  by (simp add: does_def)

lemma doesD: "does m R \<Longrightarrow> m s = (r, s') \<Longrightarrow> R s r s'"
  by (metis does_def fst_conv snd_conv)

lemma does_mono: "does m P \<Longrightarrow> (\<And>s r s'. P s r s' \<Longrightarrow> Q s r s') \<Longrightarrow> does m Q"
  by (simp add: does_def)

lemma does_conj: "does m P \<Longrightarrow> does m Q \<Longrightarrow> does m (\<lambda>s r s'. P s r s' \<and> Q s r s')"
  by (simp add: does_def)

lemma does_ret: "(\<And>s. R s (Ok v) s) \<Longrightarrow> does (aRet v) R"
  by (simp add: does_def aRet_def)

lemma does_fail: "(\<And>s. R s (Fail e) s) \<Longrightarrow> does (aFail e) R"
  by (simp add: does_def aFail_def)

lemma does_lift: "(\<And>s. R s r s) \<Longrightarrow> does (aLift r) R"
  by (simp add: does_def aLift_def)

lemma does_bind:
  assumes "does m P" and "\<And>v. does (k v) (Q v)"
    and "\<And>s v s1 r s'. P s (Ok v) s1 \<Longrightarrow> Q v s1 r s' \<Longrightarrow> R s r s'"
    and "\<And>s e s1. P s (Fail e) s1 \<Longrightarrow> R s (Fail (w e)) s1"
    and "\<And>s t s1. P s (Panic t) s1 \<Longrightarrow> R s (Panic t) s1"
  shows "does (aBind m w k) R"
proof (rule doesI)
  fix s r s' assume b: "aBind m w k s = (r, s')"
  obtain r1 s1 where m: "m s = (r1, s1)" by (metis prod.exhaust)
  show "R s r s'"
    using b m doesD[OF assms(1) m] assms(3-5) doesD[OF assms(2)]
    by (cases r1) (auto simp: aBind_def)
qed

lemma does_try:
  assumes "does m P" and "\<And>v. does (ok v) (Q v)" and "\<And>e. does (bad e) (B e)"
    and "\<And>s v s1 r s'. P s (Ok v) s1 \<Longrightarrow> Q v s1 r s' \<Longrightarrow> R s r s'"
    and "\<And>s e s1 r s'. P s (Fail e) s1 \<Longrightarrow> B e s1 r s' \<Longrightarrow> R s r s'"
    and "\<And>s t s1. P s (Panic t) s1 \<Longrightarrow> R s (Panic t) s1"
  shows "does (aTry m ok bad) R"
proof (rule doesI)
  fix s r s' assume b: "aTry m ok bad s = (r, s')"
  obtain r1 s1 where m: "m s = (r1, s1)" by (metis prod.exhaust)
  show "R s r s'"
    using b m doesD[OF assms(1) m] assms(4-6) doesD[OF assms(2)] doesD[OF assms(3)]
    by (cases r1) (auto simp: aTry_def)
qed

lemma aBind_OkE:
  assumes "aBind m w k s = (Ok b, s')"
  obtains v s1 where "m s = (Ok v, s1)" and "k v s1 = (Ok b, s')"
  using assms by (auto simp: aBind_def split: prod.splits res.splits)

lemma aBind_eq:
  "m s = (Ok v, s1) \<Longrightarrow> aBind m w k s = k v s1"
  "m s = (Fail e, s1) \<Longrightarrow> aBind m w k s = (Fail (w e), s1)"
  "m s = (Panic t, s1) \<Longrightarrow> aBind m w k s = (Panic t, s1)"
  by (simp_all add: aBind_def)

lemma act_simps [simp]:
  "aRet v s = (Ok v, s)" "aFail e s = (Fail e, s)" "aLift r s = (r, s)"
  by (simp_all add: aRet_def aFail_def aLift_def)

end
