(* ===== verification/Ttm_Accounts.thy ===== *)
theory Ttm_Accounts
  imports Effects
begin

text \<open>
  The client of the TTM account contracts, \<^verbatim>\<open>pkg/ttm_accounts\<close>: reading accounts, the cached bot
  authorization, sending transactions and waiting for them, and decoding reverts. go-ethereum and
  the contract bindings are the parameter \<open>chain_env\<close>; what they answer depends on the list of
  everything asked so far (\<open>ops\<close>), so the chain may change between any two calls. A binding of a
  contract is the address it is bound to.
\<close>

section \<open>The chain\<close>

type_synonym private_key = "256 word"
type_synonym transactor = address

datatype txcall =
    TxMintBookingToken address string int int address int bool
  | TxBuyBookingToken int int address
  | TxRecordExpiration int
  | TxInitiateCancellation int int uint16 uint16
  | TxCounterCancellation int int uint16 uint16
  | TxAcceptCancellation int int
  | TxRejectCancellation int uint16 uint16
  | TxWithdrawCancellation int uint16 uint16
  | TxFinalizeCancellation int int

datatype chain_op =
    OpCall
  | OpReadReservation int
  | OpTransact transactor address txcall
  | OpWaitMined hash
  | OpSleep duration

record eth_log =
  log_topics :: "hash list"
  log_data :: bytes

record receipt =
  receipt_Status :: uint64
  receipt_Logs :: "eth_log list"
  receipt_TxHash :: hash

record abi_error =
  abi_ID :: bytes
  abi_Name :: string
  abi_Unpack :: "bytes \<Rightarrow> msgtext res"

record chain_env =
  NewTtmaccount :: "address \<Rightarrow> unit res"
  evictAccount :: "(address \<rightharpoonup> address) \<Rightarrow> (address \<rightharpoonup> address)"
  GetRoleMembers :: "chain_op list \<Rightarrow> address \<Rightarrow> hash \<Rightarrow> address list res"
  acc_IsBotAllowed :: "chain_op list \<Rightarrow> address \<Rightarrow> address \<Rightarrow> bool res"
  acc_IsServiceSupported :: "chain_op list \<Rightarrow> address \<Rightarrow> hash \<Rightarrow> bool res"
  GetManagerAddress :: "chain_op list \<Rightarrow> address \<Rightarrow> address res"
  NewTtmaccountmanager :: "address \<Rightarrow> unit res"
  GetAccountImplementation :: "chain_op list \<Rightarrow> address \<Rightarrow> address res"
  StorageAt :: "chain_op list \<Rightarrow> address \<Rightarrow> hash \<Rightarrow> bytes res"
  NewKeyedTransactorWithChainID :: "private_key \<Rightarrow> int \<Rightarrow> transactor res"
  Transact :: "chain_op list \<Rightarrow> transactor \<Rightarrow> address \<Rightarrow> txcall \<Rightarrow> hash res"
  WaitMined :: "chain_op list \<Rightarrow> hash \<Rightarrow> receipt res"
  Keccak256Hash :: "string \<Rightarrow> hash"
  errorData :: "err \<Rightarrow> string option"
  hexutil_Decode :: "string \<Rightarrow> bytes res"
  revertABIs :: "abi_error list list"

definition ReceiptStatusSuccessful :: uint64 where "ReceiptStatusSuccessful = 1"

definition managerTTMAccountImplementationSlot :: hash where
  "managerTTMAccountImplementationSlot = 0x360894a13ba1a3210667c828492db98dca3e2076cc3735a920a3ca505d382bbc"

section \<open>Reverts (revert.go)\<close>

text \<open>The known errors are searched ABI by ABI; within an ABI they are a Go map, whose order is
  arbitrary: an ABI is any list of them.\<close>

fun findRevert :: "bytes \<Rightarrow> abi_error list \<Rightarrow> msgtext option" where
  "findRevert data [] = None"
| "findRevert data (e # es) =
     (if take 4 (abi_ID e) \<noteq> take 4 data then findRevert data es
      else case abi_Unpack e data of
        Ok args \<Rightarrow> Some (PStr (abi_Name e) # args)
      | _ \<Rightarrow> Some [PStr (abi_Name e)])"

definition decodeRevert :: "chain_env \<Rightarrow> err \<Rightarrow> msgtext option" where
  "decodeRevert env err =
     (case errorData env err of
        None \<Rightarrow> None
      | Some hexData \<Rightarrow>
          (case hexutil_Decode env hexData of
             Ok data \<Rightarrow> if length data < 4 then None else findRevert data (concat (revertABIs env))
           | _ \<Rightarrow> None))"

definition wrapTxErr :: "chain_env \<Rightarrow> string \<Rightarrow> err \<Rightarrow> err" where
  "wrapTxErr env action err =
     (case decodeRevert env err of
        Some decoded \<Rightarrow> Err ([PStr action, PStr '': ''] @ decoded @ [PStr '': ''] @ Error err) [err]
      | None \<Rightarrow> Err ([PStr action, PStr '': ''] @ Error err) [err])"

section \<open>The service (ttm_accounts.go)\<close>

record botAuthCacheVal =
  allowed :: bool
  expiresAt :: time

record accounts_service =
  ops :: "chain_op list"
  account_cache :: "address \<rightharpoonup> address"
  chainID :: int
  botAuthCacheTimeout :: duration
  botAuthCache :: "(address \<times> address) \<rightharpoonup> botAuthCacheVal"
  serviceHashCache :: "string \<rightharpoonup> hash"

definition NewAccountsService :: "int res \<Rightarrow> unit res \<Rightarrow> duration \<Rightarrow> accounts_service res" where
  "NewAccountsService chain_id lru_New timeout =
     onErr chain_id (wrap ''failed to get chain ID: '') (\<lambda>chain_id.
     onErr lru_New (wrap ''failed to create ttm account cache: '') (\<lambda>_.
       Ok \<lparr>ops = [], account_cache = Map.empty, chainID = chain_id, botAuthCacheTimeout = timeout,
           botAuthCache = Map.empty, serviceHashCache = Map.empty\<rparr>))"

definition chainCall :: "(chain_op list \<Rightarrow> 'a res) \<Rightarrow> (accounts_service, 'a) act" where
  "chainCall f = (\<lambda>s. (f (ops s), s\<lparr>ops := ops s @ [OpCall]\<rparr>))"

definition TTMAccount :: "chain_env \<Rightarrow> address \<Rightarrow> (accounts_service, address) act" where
  "TTMAccount env addr = (\<lambda>s.
     case account_cache s addr of
       Some ttmAccount \<Rightarrow> (Ok ttmAccount, s)
     | None \<Rightarrow>
         (case NewTtmaccount env addr of
            Ok _ \<Rightarrow> (Ok addr, s\<lparr>account_cache := cache_Add (evictAccount env) addr addr (account_cache s)\<rparr>)
          | Fail e \<Rightarrow> (Fail (wrap ''failed to create ttm account contract binding: '' e), s)
          | Panic t \<Rightarrow> (Panic t, s)))"

definition GetAllMessengerBots :: "chain_env \<Rightarrow> address \<Rightarrow> (accounts_service, address list) act" where
  "GetAllMessengerBots env addr =
     aBind (TTMAccount env addr) (\<lambda>e. e) (\<lambda>ttmAccount.
       chainCall (\<lambda>h. GetRoleMembers env h ttmAccount (Keccak256Hash env ''MESSENGER_BOT_ROLE'')))"

text \<open>\<open>IsBotAllowed\<close> reads the clock twice: \<open>now\<close> before the cache lookup and \<open>now'\<close> when it stores the
  answer of the chain.\<close>

definition askIsBotAllowed :: "chain_env \<Rightarrow> time \<Rightarrow> address \<Rightarrow> address \<Rightarrow> (accounts_service, bool) act" where
  "askIsBotAllowed env now' addr botAddress =
     aBind (TTMAccount env addr) (\<lambda>e. e) (\<lambda>ttmAccount.
     aBind (chainCall (\<lambda>h. acc_IsBotAllowed env h ttmAccount botAddress)) (wrap ''failed to check if bot is allowed: '') (\<lambda>a s.
       (Ok a, if botAuthCacheTimeout s > 0
              then s\<lparr>botAuthCache := (botAuthCache s)((addr, botAddress) \<mapsto>
                       \<lparr>allowed = a, expiresAt = now' + botAuthCacheTimeout s\<rparr>)\<rparr>
              else s)))"

definition IsBotAllowed :: "chain_env \<Rightarrow> time \<Rightarrow> time \<Rightarrow> address \<Rightarrow> address \<Rightarrow> (accounts_service, bool) act" where
  "IsBotAllowed env now now' addr botAddress = (\<lambda>s.
     case botAuthCache s (addr, botAddress) of
       Some cached \<Rightarrow>
         (if now < expiresAt cached then aRet (allowed cached)
          else askIsBotAllowed env now' addr botAddress) s
     | None \<Rightarrow> askIsBotAllowed env now' addr botAddress s)"

definition serviceHash :: "chain_env \<Rightarrow> string \<Rightarrow> (accounts_service, hash) act" where
  "serviceHash env name = (\<lambda>s.
     case serviceHashCache s name of
       Some hash \<Rightarrow> (Ok hash, s)
     | None \<Rightarrow> (Ok (Keccak256Hash env name),
                s\<lparr>serviceHashCache := (serviceHashCache s)(name \<mapsto> Keccak256Hash env name)\<rparr>))"

definition IsServiceSupported :: "chain_env \<Rightarrow> address \<Rightarrow> string \<Rightarrow> (accounts_service, bool) act" where
  "IsServiceSupported env addr serviceFullName =
     aBind (TTMAccount env addr) (\<lambda>e. e) (\<lambda>ttmAccount.
     aBind (serviceHash env serviceFullName) (\<lambda>e. e) (\<lambda>hash.
       chainCall (\<lambda>h. acc_IsServiceSupported env h ttmAccount hash)))"

text \<open>
  Every transaction is sent, waited for, and must have succeeded; only the texts of the errors
  differ. A receipt in an error text is shown by its transaction hash.
\<close>

definition transactAndWait ::
  "chain_env \<Rightarrow> string \<Rightarrow> (err \<Rightarrow> err) \<Rightarrow> string \<Rightarrow> transactor \<Rightarrow> address \<Rightarrow> txcall \<Rightarrow> (accounts_service, receipt) act" where
  "transactAndWait env action waitErr failed sender ttmAccount call =
     aBind (\<lambda>s. (Transact env (ops s) sender ttmAccount call, s\<lparr>ops := ops s @ [OpTransact sender ttmAccount call]\<rparr>))
       (wrapTxErr env action) (\<lambda>tx.
     aBind (\<lambda>s. (WaitMined env (ops s) tx, s\<lparr>ops := ops s @ [OpWaitMined tx]\<rparr>)) waitErr (\<lambda>receipt.
       if receipt_Status receipt \<noteq> ReceiptStatusSuccessful
       then aFail (Err [PStr failed, PHash (receipt_TxHash receipt)] [])
       else aRet receipt))"

definition Accounts_MintBookingToken ::
  "chain_env \<Rightarrow> transactor \<Rightarrow> address \<Rightarrow> address \<Rightarrow> string \<Rightarrow> int \<Rightarrow> int \<Rightarrow> address \<Rightarrow> int \<Rightarrow> bool \<Rightarrow>
     (accounts_service, receipt) act" where
  "Accounts_MintBookingToken env sender addr reservedFor uri expirationTimestamp price paymentToken offChainPaymentCurrency isCancellable =
     aBind (TTMAccount env addr) (\<lambda>e. e) (\<lambda>ttmAccount.
       transactAndWait env ''failed to mint booking token''
         (wrap ''failed to wait for MintBookingToken transaction to be mined: '') ''MintBookingToken transaction failed: ''
         sender ttmAccount
         (TxMintBookingToken reservedFor uri expirationTimestamp price paymentToken offChainPaymentCurrency isCancellable))"

definition Accounts_BuyBookingToken ::
  "chain_env \<Rightarrow> transactor \<Rightarrow> address \<Rightarrow> int \<Rightarrow> int \<Rightarrow> address \<Rightarrow> (accounts_service, receipt) act" where
  "Accounts_BuyBookingToken env sender addr tokenID price paymentToken =
     aBind (TTMAccount env addr) (\<lambda>e. e) (\<lambda>ttmAccount.
       transactAndWait env ''failed to buy booking token''
         (wrap ''failed to wait for BuyBookingToken transaction to be mined: '') ''BuyBookingToken transaction failed: ''
         sender ttmAccount (TxBuyBookingToken tokenID price paymentToken))"

definition Accounts_RecordExpiration ::
  "chain_env \<Rightarrow> transactor \<Rightarrow> address \<Rightarrow> int \<Rightarrow> (accounts_service, receipt) act" where
  "Accounts_RecordExpiration env sender addr tokenID =
     aBind (TTMAccount env addr) (\<lambda>e. e) (\<lambda>ttmAccount.
       transactAndWait env ''failed to record expiration''
         (wrap ''failed to wait for RecordExpiration transaction to be mined: '') ''transaction failed: ''
         sender ttmAccount (TxRecordExpiration tokenID))"

section \<open>Implementation check\<close>

definition slotValueToAddress :: "bytes \<Rightarrow> address res" where
  "slotValueToAddress slotValue =
     (if length slotValue < 32
      then Fail (Err [PStr ''slot value storage read returned unexpected size: '', PInt (int (length slotValue))] [])
      else Ok (word_rcat (drop 12 slotValue)))"

definition getLatestTTMAccountImplementation :: "chain_env \<Rightarrow> address \<Rightarrow> (accounts_service, address) act" where
  "getLatestTTMAccountImplementation env addr =
     aBind (TTMAccount env addr) (\<lambda>e. e) (\<lambda>ttmAccount.
     aBind (chainCall (\<lambda>h. GetManagerAddress env h ttmAccount)) (wrap ''failed to fetch TTM account manager address: '') (\<lambda>managerAddress.
     aBind (aLift (NewTtmaccountmanager env managerAddress)) (wrap ''failed to create TTM account manager contract binding: '') (\<lambda>_.
     aBind (chainCall (\<lambda>h. GetAccountImplementation env h managerAddress)) (wrap ''failed to get account implementation: '') aRet)))"

definition getCurrentImplementationOnProxy :: "chain_env \<Rightarrow> address \<Rightarrow> (accounts_service, address) act" where
  "getCurrentImplementationOnProxy env addr =
     aBind (chainCall (\<lambda>h. StorageAt env h addr managerTTMAccountImplementationSlot))
       (wrap ''failed to get implementation address from proxy: '') (\<lambda>implAddressSlotValue.
       aLift (slotValueToAddress implAddressSlotValue))"

definition IsTTMAccountImplementationUpToDate :: "chain_env \<Rightarrow> address \<Rightarrow> (accounts_service, bool) act" where
  "IsTTMAccountImplementationUpToDate env addr =
     aBind (getLatestTTMAccountImplementation env addr)
       (wrap ''failed to get latest ttm account implementation from ttm account manager: '') (\<lambda>currentImplOnManager.
     aBind (getCurrentImplementationOnProxy env addr)
       (wrap ''failed to get current ttm account implementation implementation: '') (\<lambda>currentImplOnProxy.
       aRet (currentImplOnManager = currentImplOnProxy)))"

section \<open>Cancellation (cancellation.go)\<close>

text \<open>The six operations have the same steps: the account, a transactor for the key of the bot, the
  transaction.\<close>

definition cancellationTx ::
  "chain_env \<Rightarrow> string \<Rightarrow> private_key \<Rightarrow> address \<Rightarrow> txcall \<Rightarrow> (accounts_service, receipt) act" where
  "cancellationTx env action botKey addr call =
     aBind (TTMAccount env addr) (wrap ''failed to get ttmAccount contract instance: '') (\<lambda>ttmAccount.
     aBind (\<lambda>s. (NewKeyedTransactorWithChainID env botKey (chainID s), s)) (wrap ''failed to create transactor: '') (\<lambda>transactor.
       transactAndWait env action (\<lambda>e. e) ''transaction failed: '' transactor ttmAccount call))"

definition InitiateCancellationProposal ::
  "chain_env \<Rightarrow> private_key \<Rightarrow> address \<Rightarrow> int \<Rightarrow> int \<Rightarrow> uint16 \<Rightarrow> uint16 \<Rightarrow> (accounts_service, receipt) act" where
  "InitiateCancellationProposal env botKey addr tokenID refundAmount reason reasonVersion =
     cancellationTx env ''failed to initiate cancellation'' botKey addr
       (TxInitiateCancellation tokenID refundAmount reason reasonVersion)"

definition CounterCancellation ::
  "chain_env \<Rightarrow> private_key \<Rightarrow> address \<Rightarrow> int \<Rightarrow> int \<Rightarrow> uint16 \<Rightarrow> uint16 \<Rightarrow> (accounts_service, receipt) act" where
  "CounterCancellation env botKey addr tokenID refundAmount reason reasonVersion =
     cancellationTx env ''failed to counter cancellation proposal'' botKey addr
       (TxCounterCancellation tokenID refundAmount reason reasonVersion)"

definition AcceptCancellationProposal ::
  "chain_env \<Rightarrow> private_key \<Rightarrow> address \<Rightarrow> int \<Rightarrow> int \<Rightarrow> (accounts_service, receipt) act" where
  "AcceptCancellationProposal env botKey addr tokenID refundAmount =
     cancellationTx env ''failed to accept cancellation'' botKey addr (TxAcceptCancellation tokenID refundAmount)"

definition RejectCancellationProposal ::
  "chain_env \<Rightarrow> private_key \<Rightarrow> address \<Rightarrow> int \<Rightarrow> uint16 \<Rightarrow> uint16 \<Rightarrow> (accounts_service, receipt) act" where
  "RejectCancellationProposal env botKey addr tokenID reason reasonVersion =
     cancellationTx env ''failed to reject cancellation'' botKey addr (TxRejectCancellation tokenID reason reasonVersion)"

definition WithdrawCancellation ::
  "chain_env \<Rightarrow> private_key \<Rightarrow> address \<Rightarrow> int \<Rightarrow> uint16 \<Rightarrow> uint16 \<Rightarrow> (accounts_service, receipt) act" where
  "WithdrawCancellation env botKey addr tokenID reason reasonVersion =
     cancellationTx env ''failed to withdraw cancellation'' botKey addr (TxWithdrawCancellation tokenID reason reasonVersion)"

definition FinalizeCancellation ::
  "chain_env \<Rightarrow> private_key \<Rightarrow> address \<Rightarrow> int \<Rightarrow> int \<Rightarrow> (accounts_service, receipt) act" where
  "FinalizeCancellation env botKey addr tokenID refundAmount =
     cancellationTx env ''failed to finalize cancellation'' botKey addr (TxFinalizeCancellation tokenID refundAmount)"

section \<open>Account bindings\<close>

definition bindings_ok :: "accounts_service \<Rightarrow> bool" where
  "bindings_ok s \<longleftrightarrow> (\<forall>a b. account_cache s a = Some b \<longrightarrow> b = a)"

lemma TTMAccount_cases:
  assumes "evicts_only (evictAccount env)" and "bindings_ok s" and "TTMAccount env addr s = (r, s')"
  shows "(r = Ok addr \<or> (\<forall>a. r \<noteq> Ok a)) \<and> bindings_ok s' \<and> (\<exists>c. s' = s\<lparr>account_cache := c\<rparr>)"
proof (cases "account_cache s addr")
  case None
  have "bindings_ok (s\<lparr>account_cache := cache_Add (evictAccount env) addr addr (account_cache s)\<rparr>)"
    using assms(2) cache_Add_Some[OF assms(1)] by (fastforce simp: bindings_ok_def)
  moreover have "\<exists>c. s = s\<lparr>account_cache := c\<rparr>" by (rule exI[of _ "account_cache s"]) simp
  ultimately show ?thesis
    using None assms(2,3) by (auto simp: TTMAccount_def split: res.splits)
next
  case (Some b)
  moreover have "\<exists>c. s = s\<lparr>account_cache := c\<rparr>" by (rule exI[of _ "account_cache s"]) simp
  ultimately show ?thesis using assms(2,3) by (auto simp: TTMAccount_def bindings_ok_def)
qed

section \<open>Authorization\<close>

text \<open>\<open>truth acct b t\<close>: whether the contract of \<open>acct\<close> allows the bot \<open>b\<close> at time \<open>t\<close>. A cache entry is
  sound if it was true at most \<open>L\<close> (the latency of a call) plus the timeout before it expires.\<close>

definition auth_sound :: "(address \<Rightarrow> address \<Rightarrow> time \<Rightarrow> bool) \<Rightarrow> duration \<Rightarrow> accounts_service \<Rightarrow> bool" where
  "auth_sound truth L s \<longleftrightarrow> (\<forall>a b v. botAuthCache s (a, b) = Some v \<longrightarrow>
     (\<exists>t. truth a b t = allowed v \<and> expiresAt v \<le> t + L + botAuthCacheTimeout s))"

definition truthful :: "chain_env \<Rightarrow> (address \<Rightarrow> address \<Rightarrow> time \<Rightarrow> bool) \<Rightarrow> time \<Rightarrow> accounts_service \<Rightarrow> bool" where
  "truthful env truth t s \<longleftrightarrow> (\<forall>acct b a. acc_IsBotAllowed env (ops s) acct b = Ok a \<longrightarrow> a = truth acct b t)"

inductive auth_reach ::
  "chain_env \<Rightarrow> (address \<Rightarrow> address \<Rightarrow> time \<Rightarrow> bool) \<Rightarrow> duration \<Rightarrow> duration \<Rightarrow> accounts_service \<Rightarrow> bool"
  for env truth L timeout where
  start: "NewAccountsService (Ok cid) (Ok ()) timeout = Ok s \<Longrightarrow> auth_reach env truth L timeout s"
| check: "auth_reach env truth L timeout s \<Longrightarrow> now' \<le> t + L \<Longrightarrow> truthful env truth t s \<Longrightarrow>
     IsBotAllowed env now now' addr b s = (r, s') \<Longrightarrow> auth_reach env truth L timeout s'"

lemma askIsBotAllowed_cases:
  assumes "evicts_only (evictAccount env)" and "bindings_ok s" and "askIsBotAllowed env now' addr b s = (r, s')"
  shows "bindings_ok s' \<and> botAuthCacheTimeout s' = botAuthCacheTimeout s \<and>
    (case r of
       Ok a \<Rightarrow> acc_IsBotAllowed env (ops s) addr b = Ok a \<and>
         botAuthCache s' = (if botAuthCacheTimeout s > 0
           then (botAuthCache s)((addr, b) \<mapsto> \<lparr>allowed = a, expiresAt = now' + botAuthCacheTimeout s\<rparr>)
           else botAuthCache s)
     | _ \<Rightarrow> botAuthCache s' = botAuthCache s)"
proof -
  obtain r1 s1 where m: "TTMAccount env addr s = (r1, s1)" by (metis prod.exhaust)
  from TTMAccount_cases[OF assms(1,2) m] obtain c where
    c: "s1 = s\<lparr>account_cache := c\<rparr>" and b1: "bindings_ok s1" and r1: "r1 = Ok addr \<or> (\<forall>a. r1 \<noteq> Ok a)" by blast
  show ?thesis
    using assms(3) m c b1 r1
    by (cases r1) (auto simp: askIsBotAllowed_def aBind_def chainCall_def bindings_ok_def split: res.splits if_splits)
qed

lemma IsBotAllowed_sound:
  assumes e: "evicts_only (evictAccount env)" and b: "bindings_ok s" and i: "auth_sound truth L s"
    and n: "now' \<le> t + L" and tr: "truthful env truth t s"
    and c: "IsBotAllowed env now now' addr b s = (r, s')"
  shows "bindings_ok s' \<and> auth_sound truth L s' \<and> botAuthCacheTimeout s' = botAuthCacheTimeout s \<and>
    (\<forall>a. r = Ok a \<longrightarrow> a = truth addr b t \<or>
       (\<exists>t'. a = truth addr b t' \<and> now < t' + L + botAuthCacheTimeout s))"
proof (cases "\<exists>v. botAuthCache s (addr, b) = Some v \<and> now < expiresAt v")
  case True
  then obtain v where v: "botAuthCache s (addr, b) = Some v" "now < expiresAt v" by blast
  moreover obtain t' where "truth addr b t' = allowed v" "expiresAt v \<le> t' + L + botAuthCacheTimeout s"
    using i v(1) unfolding auth_sound_def by blast
  ultimately show ?thesis using c b i by (force simp: IsBotAllowed_def)
next
  case False
  then have "askIsBotAllowed env now' addr b s = (r, s')"
    using c by (auto simp: IsBotAllowed_def split: option.splits if_splits)
  note a = askIsBotAllowed_cases[OF e \<open>bindings_ok s\<close> this]
  then have "auth_sound truth L s'" using i n tr
    by (cases r) (auto simp: auth_sound_def truthful_def intro!: exI[of _ t])
  then show ?thesis using a tr by (cases r) (auto simp: truthful_def)
qed

lemma auth_reach_sound:
  assumes "auth_reach env truth L timeout s" and "evicts_only (evictAccount env)"
  shows "bindings_ok s \<and> auth_sound truth L s \<and> botAuthCacheTimeout s = timeout"
  using assms(1)
proof induction
  case (start cid s)
  then show ?case by (auto simp: NewAccountsService_def bindings_ok_def auth_sound_def)
next
  case (check s now' t now addr b r s')
  then show ?case using IsBotAllowed_sound[OF assms(2), of s truth L now' t now addr b r s'] by auto
qed

text \<open>Property C15: authorization is never staler than the configured timeout. Whatever checks were made
  before, an answer of \<open>IsBotAllowed\<close> is what the contract says when asked, or what it said less than
  the timeout plus the latency of one call before; so a bot revoked at \<open>t0\<close> is refused by every
  check made from \<open>t0\<close> plus that bound on.\<close>

lemma authorization_fresh:
  assumes "evicts_only (evictAccount env)" and "auth_reach env truth L timeout s"
    and "now \<le> t" and "t \<le> now'" and "now' \<le> t + L" and "truthful env truth t s"
    and "IsBotAllowed env now now' addr b s = (Ok a, s')"
  shows "(\<exists>t'. a = truth addr b t' \<and> now < t' + L + timeout \<or> a = truth addr b t) \<and>
    ((\<forall>u \<ge> t0. \<not> truth addr b u) \<and> t0 \<le> t \<and> t0 + L + timeout \<le> now \<longrightarrow> \<not> a)"
proof -
  have "a = truth addr b t \<or> (\<exists>t'. a = truth addr b t' \<and> now < t' + L + timeout)"
    using IsBotAllowed_sound[OF assms(1) _ _ assms(5-7)] auth_reach_sound[OF assms(2,1)] by auto
  then show ?thesis by force
qed

definition sample_env :: chain_env where
  "sample_env = \<lparr>NewTtmaccount = (\<lambda>_. Ok ()), evictAccount = (\<lambda>m. m), GetRoleMembers = (\<lambda>_ _ _. Ok []),
     acc_IsBotAllowed = (\<lambda>h _ _. Ok (h = [])), acc_IsServiceSupported = (\<lambda>_ _ _. Ok True),
     GetManagerAddress = (\<lambda>_ _. Ok 3), NewTtmaccountmanager = (\<lambda>_. Ok ()), GetAccountImplementation = (\<lambda>_ _. Ok 4),
     StorageAt = (\<lambda>_ _ _. Ok (replicate 32 0)), NewKeyedTransactorWithChainID = (\<lambda>_ _. Ok 5),
     Transact = (\<lambda>_ _ _ _. Ok 77), WaitMined = (\<lambda>_ tx. Ok \<lparr>receipt_Status = 1, receipt_Logs = [], receipt_TxHash = tx\<rparr>),
     Keccak256Hash = (\<lambda>_. 0), errorData = (\<lambda>_. None), hexutil_Decode = (\<lambda>_. Ok []), revertABIs = []\<rparr>"

definition sample_service :: accounts_service where
  "sample_service = \<lparr>ops = [], account_cache = Map.empty, chainID = 1, botAuthCacheTimeout = 60,
     botAuthCache = Map.empty, serviceHashCache = Map.empty\<rparr>"

text \<open>The contract allows the bot until time 10; the second check, at time 100, no longer sees it.\<close>

lemma authorization_fresh_witness:
  "fst (IsBotAllowed sample_env 100 101 1 2 (snd (IsBotAllowed sample_env 5 6 1 2 sample_service))) = Ok False \<and>
   (\<exists>t'. False = (t' < (10::int)) \<and> (100::int) < t' + 2 + 60 \<or> False = ((100::int) < 10))"
proof -
  let ?s = "snd (IsBotAllowed sample_env 5 6 1 2 sample_service)"
  let ?r = "IsBotAllowed sample_env 100 101 1 2 ?s"
  note defs = IsBotAllowed_def askIsBotAllowed_def aBind_def TTMAccount_def chainCall_def sample_env_def
    sample_service_def cache_Add_def
  have r: "fst ?r = Ok False" by (simp add: defs)
  have st: "auth_reach sample_env (\<lambda>_ _ t. t < 10) 2 60 sample_service"
    by (rule auth_reach.start[of 1]) (simp add: NewAccountsService_def sample_service_def)
  have tr: "truthful sample_env (\<lambda>_ _ t. t < 10) 6 sample_service" "truthful sample_env (\<lambda>_ _ t. t < 10) 100 ?s"
    by (simp_all add: truthful_def defs)
  have "auth_reach sample_env (\<lambda>_ _ t. t < 10) 2 60 ?s"
    by (rule auth_reach.check[OF st _ tr(1), of 6 5 1 2 "fst (IsBotAllowed sample_env 5 6 1 2 sample_service)"]) simp_all
  moreover have "evicts_only (evictAccount sample_env)" by (simp add: sample_env_def)
  moreover have "?r = (Ok False, snd ?r)" using r by (metis prod.collapse)
  ultimately show ?thesis
    using authorization_fresh[of sample_env "\<lambda>_ _ t. t < 10" 2 60 ?s 100 100 101 1 2 False "snd ?r"] r tr(2) by simp
qed

section \<open>Transactions\<close>

text \<open>\<open>sends env sender addr call m\<close>: a run of \<open>m\<close> sends at most one transaction, this one, waits only
  for it, and returns a receipt only if it was mined successfully.\<close>

definition sends ::
  "chain_env \<Rightarrow> transactor \<Rightarrow> address \<Rightarrow> txcall \<Rightarrow> (accounts_service, receipt) act \<Rightarrow> accounts_service \<Rightarrow> bool" where
  "sends env sender addr call m s \<longleftrightarrow>
     (case m s of (r, s') \<Rightarrow> bindings_ok s' \<and>
       (ops s' = ops s \<and> (\<forall>v. r \<noteq> Ok v) \<or>
        ops s' = ops s @ [OpTransact sender addr call] \<and> (\<forall>v. r \<noteq> Ok v) \<or>
        (\<exists>tx. Transact env (ops s) sender addr call = Ok tx \<and>
           ops s' = ops s @ [OpTransact sender addr call, OpWaitMined tx] \<and>
           (\<forall>v. r = Ok v \<longrightarrow> receipt_Status v = ReceiptStatusSuccessful \<and>
              WaitMined env (ops s @ [OpTransact sender addr call]) tx = Ok v))))"

lemma transactAndWait_sends:
  "bindings_ok s \<Longrightarrow> sends env sender addr call (transactAndWait env action w failed sender addr call) s"
  by (auto simp: sends_def transactAndWait_def aBind_def bindings_ok_def split: res.splits prod.splits if_splits)

lemma sends_after_account:
  assumes "evicts_only (evictAccount env)" and "bindings_ok s"
    and "\<And>s1 c. s1 = s\<lparr>account_cache := c\<rparr> \<Longrightarrow> bindings_ok s1 \<Longrightarrow> sends env sender addr call (k addr) s1"
  shows "sends env sender addr call (aBind (TTMAccount env addr) w k) s"
proof -
  obtain r1 s1 where m: "TTMAccount env addr s = (r1, s1)" by (metis prod.exhaust)
  from TTMAccount_cases[OF assms(1,2) m] obtain c where
    c: "s1 = s\<lparr>account_cache := c\<rparr>" "bindings_ok s1" "r1 = Ok addr \<or> (\<forall>a. r1 \<noteq> Ok a)" by blast
  show ?thesis
  proof (cases r1)
    case (Ok a)
    then have "aBind (TTMAccount env addr) w k s = k addr s1" using m c(3) by (simp add: aBind_def)
    then show ?thesis using assms(3)[OF c(1,2)] c(1) by (simp add: sends_def)
  qed (use m c in \<open>auto simp: sends_def aBind_def\<close>)
qed

lemma accountTx_sends:
  assumes "evicts_only (evictAccount env)" and "bindings_ok s"
  shows "sends env sender addr call (aBind (TTMAccount env addr) w (\<lambda>a. transactAndWait env x y z sender a call)) s"
  using assms by (auto intro: sends_after_account transactAndWait_sends)

lemma cancellationTx_sends:
  assumes "evicts_only (evictAccount env)" and "bindings_ok s"
    and "NewKeyedTransactorWithChainID env botKey (chainID s) = Ok sender"
  shows "sends env sender addr call (cancellationTx env action botKey addr call) s"
  unfolding cancellationTx_def
proof (rule sends_after_account[OF assms(1,2)])
  fix s1 c assume "s1 = s\<lparr>account_cache := c\<rparr>" "bindings_ok s1"
  then show "sends env sender addr call (aBind (\<lambda>s. (NewKeyedTransactorWithChainID env botKey (chainID s), s))
     (wrap ''failed to create transactor: '') (\<lambda>transactor.
       transactAndWait env action (\<lambda>e. e) ''transaction failed: '' transactor addr call)) s1"
    using transactAndWait_sends[of s1 env sender addr call action] assms(3) by (simp add: sends_def aBind_def)
qed

text \<open>Property C16: each of the nine operations that write to the chain sends at most one transaction,
  to the account it was asked for and with exactly its arguments, and reports success only with the
  receipt of that transaction, mined with the successful status.\<close>

lemma transactions_sent_once:
  assumes e: "evicts_only (evictAccount env)" and b: "bindings_ok s"
    and t: "NewKeyedTransactorWithChainID env botKey (chainID s) = Ok sender"
  shows "sends env from addr (TxMintBookingToken reservedFor uri expiry price token currency cancellable)
      (Accounts_MintBookingToken env from addr reservedFor uri expiry price token currency cancellable) s \<and>
    sends env from addr (TxBuyBookingToken tokenID price token) (Accounts_BuyBookingToken env from addr tokenID price token) s \<and>
    sends env from addr (TxRecordExpiration tokenID) (Accounts_RecordExpiration env from addr tokenID) s \<and>
    sends env sender addr (TxInitiateCancellation tokenID refund reason version)
      (InitiateCancellationProposal env botKey addr tokenID refund reason version) s \<and>
    sends env sender addr (TxCounterCancellation tokenID refund reason version)
      (CounterCancellation env botKey addr tokenID refund reason version) s \<and>
    sends env sender addr (TxAcceptCancellation tokenID refund) (AcceptCancellationProposal env botKey addr tokenID refund) s \<and>
    sends env sender addr (TxRejectCancellation tokenID reason version)
      (RejectCancellationProposal env botKey addr tokenID reason version) s \<and>
    sends env sender addr (TxWithdrawCancellation tokenID reason version)
      (WithdrawCancellation env botKey addr tokenID reason version) s \<and>
    sends env sender addr (TxFinalizeCancellation tokenID refund) (FinalizeCancellation env botKey addr tokenID refund) s"
  by (simp add: Accounts_MintBookingToken_def Accounts_BuyBookingToken_def Accounts_RecordExpiration_def
      InitiateCancellationProposal_def CounterCancellation_def AcceptCancellationProposal_def
      RejectCancellationProposal_def WithdrawCancellation_def FinalizeCancellation_def
      cancellationTx_sends[OF e b t]
      accountTx_sends[OF e b])

lemma transactions_sent_once_witness:
  "sends sample_env 9 1 (TxBuyBookingToken 4 100 0) (Accounts_BuyBookingToken sample_env 9 1 4 100 0) sample_service"
  using transactions_sent_once[of sample_env sample_service 8 5 9 1 0 "''uri''" 0 100 0 0 True 4]
  by (simp add: sample_env_def sample_service_def bindings_ok_def)

end
