(* ===== verification/Booking.thy ===== *)
theory Booking
  imports Ttm_Accounts
begin

text \<open>
  The booking service, \<^verbatim>\<open>pkg/booking/booking.go\<close>: minting and buying booking tokens through the TTM
  account, waiting until a minted token is visible on the node asked, and reading booking and
  cancellation state. The booking token contract is the parameter \<open>booking_env\<close>; as in
  \<open>Ttm_Accounts\<close>, its answers depend on everything asked so far.
\<close>

section \<open>Data\<close>

type_synonym status = "8 word"

definition StatusUnspecified :: status where "StatusUnspecified = 0"
definition StatusReserved :: status where "StatusReserved = 1"
definition StatusReservationExpired :: status where "StatusReservationExpired = 2"
definition StatusBought :: status where "StatusBought = 3"
definition StatusCancelled :: status where "StatusCancelled = 4"

definition NativePaymentToken :: address where "NativePaymentToken = 0"
definition ISOPaymentToken :: address where "ISOPaymentToken = 1"

record cancellationReasons =
  CancellationReason :: uint16
  CancellationVersion :: uint16
  RejectionReason :: uint16
  RejectionVersion :: uint16
  CounterReason :: uint16
  CounterVersion :: uint16
  WithdrawalReason :: uint16
  WithdrawalVersion :: uint16

type_synonym cancellationProposalStatus = "8 word"

definition ProposalStatusNoProposal :: cancellationProposalStatus where "ProposalStatusNoProposal = 0"
definition ProposalStatusPending :: cancellationProposalStatus where "ProposalStatusPending = 1"
definition ProposalStatusRejected :: cancellationProposalStatus where "ProposalStatusRejected = 2"
definition ProposalStatusWithdrawn :: cancellationProposalStatus where "ProposalStatusWithdrawn = 3"
definition ProposalStatusFinalized :: cancellationProposalStatus where "ProposalStatusFinalized = 4"

record cancellationProposal =
  proposal_Status :: cancellationProposalStatus
  RefundAmount :: int
  InitialProposer :: address
  CurrentProposer :: address
  OwnerAccepted :: bool
  SupplierAccepted :: bool
  TimesCountered :: uint32
  TimesRejected :: uint32

record booking_env =
  chain :: chain_env
  GetReservationPrice :: "chain_op list \<Rightarrow> int \<Rightarrow> (int \<times> address) res"
  contract_GetBookingStatus :: "chain_op list \<Rightarrow> int option \<Rightarrow> int \<Rightarrow> 8 word res"
  contract_IsCancellable :: "chain_op list \<Rightarrow> int option \<Rightarrow> int \<Rightarrow> bool res"
  TransactionReceipt :: "chain_op list \<Rightarrow> hash \<Rightarrow> receipt option res"
  ParseTokenReserved :: "eth_log \<Rightarrow> int res"
  ParseCancellationReasons :: "eth_log \<Rightarrow> cancellationReasons res"
  contract_GetCancellationReasons :: "chain_op list \<Rightarrow> int option \<Rightarrow> int \<Rightarrow> cancellationReasons res"
  contract_GetCancellationProposal :: "chain_op list \<Rightarrow> int option \<Rightarrow> int \<Rightarrow> cancellationProposal res"
  ctx_Done :: "chain_op list \<Rightarrow> err option"

record booking_service =
  transactOpts :: transactor
  minterTTMAccountAddress :: address
  tokenVisibleMaxAttempts :: int
  tokenVisibleRetryDelay :: duration

section \<open>Minting\<close>

text \<open>\<open>strings.TrimSpace(s) == ""\<close>: the bytes of \<open>s\<close> are the UTF-8 encodings of white space characters.\<close>

fun blankBytes :: "nat list \<Rightarrow> bool" where
  "blankBytes [] = True"
| "blankBytes (b # bs) =
     (if space1 b then blankBytes bs
      else case bs of
        [] \<Rightarrow> False
      | c # cs \<Rightarrow>
          if space2 b c then blankBytes cs
          else (case cs of [] \<Rightarrow> False | d # ds \<Rightarrow> space3 b c d \<and> blankBytes ds))"

definition isBlank :: "string \<Rightarrow> bool" where "isBlank s \<longleftrightarrow> blankBytes (map of_char s)"

definition errEmptyURI :: err where "errEmptyURI = Sentinel ''uri cannot be empty''"

text \<open>The first log that parses gives the event; logs that do not parse are skipped.\<close>

fun firstEvent :: "(eth_log \<Rightarrow> 'e res) \<Rightarrow> eth_log list \<Rightarrow> 'e option" where
  "firstEvent parse [] = None"
| "firstEvent parse (log # logs) =
     (case parse log of Ok event \<Rightarrow> Some event | _ \<Rightarrow> firstEvent parse logs)"

definition MintBookingToken ::
  "booking_env \<Rightarrow> booking_service \<Rightarrow> address \<Rightarrow> string \<Rightarrow> int \<Rightarrow> int \<Rightarrow> address \<Rightarrow> int \<Rightarrow> bool \<Rightarrow>
     (accounts_service, receipt \<times> int) act" where
  "MintBookingToken env bs reservedFor uri expirationTimestamp price paymentToken offChainPaymentCurrency isCancellable =
     (if isBlank uri then aFail errEmptyURI
      else aBind (Accounts_MintBookingToken (chain env) (transactOpts bs) (minterTTMAccountAddress bs) reservedFor uri
                    expirationTimestamp price paymentToken offChainPaymentCurrency isCancellable)
             (\<lambda>e. Err ([PStr ''mint reservedFor '', PAddr reservedFor, PStr '' (price '', PInt price, PStr ''): ''] @ Error e) [e])
             (\<lambda>receipt. case firstEvent (ParseTokenReserved env) (receipt_Logs receipt) of
                Some tokenID \<Rightarrow> aRet (receipt, tokenID)
              | None \<Rightarrow> aFail (Err [PStr ''failed to parse TokenReserved event from tx receipt logs (txID: '',
                                     PHash (receipt_TxHash receipt), PStr '')''] [])))"

section \<open>Buying\<close>

definition ErrReservationPriceMismatch :: "int \<Rightarrow> int \<Rightarrow> address \<Rightarrow> int \<Rightarrow> address \<Rightarrow> err" where
  "ErrReservationPriceMismatch tokenID expectedPrice expectedToken actualPrice actualToken =
     Err [PStr ''reserved token '', PInt tokenID, PStr '' has price '', PInt actualPrice, PStr '' (paymentToken '',
          PAddr actualToken, PStr '') but expected '', PInt expectedPrice, PStr '' (paymentToken '', PAddr expectedToken, PStr '')''] []"

definition ErrTokenNotVisible :: "int \<Rightarrow> int \<Rightarrow> address \<Rightarrow> int \<Rightarrow> err" where
  "ErrTokenNotVisible tokenID expectedPrice expectedToken attempts =
     Err [PStr ''token '', PInt tokenID, PStr '' (price '', PInt expectedPrice, PStr '', paymentToken '', PAddr expectedToken,
          PStr '') not visible on local RPC node after '', PInt attempts, PStr '' attempts''] []"

text \<open>The loop with \<open>n\<close> attempts left. \<open>ctx_Done\<close> is the choice of the \<open>select\<close>: the error of the
  context, or none when the delay elapsed.\<close>

fun pollLoop ::
  "booking_env \<Rightarrow> int \<Rightarrow> int \<Rightarrow> address \<Rightarrow> int \<Rightarrow> duration \<Rightarrow> nat \<Rightarrow> (accounts_service, unit) act" where
  "pollLoop env tokenID expectedPrice expectedPaymentToken attempts delay 0 =
     aFail (ErrTokenNotVisible tokenID expectedPrice expectedPaymentToken attempts)"
| "pollLoop env tokenID expectedPrice expectedPaymentToken attempts delay (Suc n) = (\<lambda>s.
     let reservation = GetReservationPrice env (ops s) tokenID;
         s = s\<lparr>ops := ops s @ [OpReadReservation tokenID]\<rparr>;
         retry = (if n = 0 then (Fail (ErrTokenNotVisible tokenID expectedPrice expectedPaymentToken attempts), s)
                  else case ctx_Done env (ops s) of
                    Some e \<Rightarrow> (Fail e, s)
                  | None \<Rightarrow> pollLoop env tokenID expectedPrice expectedPaymentToken attempts delay n
                             (s\<lparr>ops := ops s @ [OpSleep delay]\<rparr>))
     in case reservation of
          Ok (price, paymentToken) \<Rightarrow>
            if price \<noteq> 0 \<or> paymentToken \<noteq> 0
            then (if price = expectedPrice \<and> paymentToken = expectedPaymentToken then (Ok (), s)
                  else (Fail (ErrReservationPriceMismatch tokenID expectedPrice expectedPaymentToken price paymentToken), s))
            else retry
        | Fail e \<Rightarrow> retry
        | Panic t \<Rightarrow> (Panic t, s))"

definition pollTokenVisible ::
  "booking_env \<Rightarrow> int \<Rightarrow> int \<Rightarrow> address \<Rightarrow> int \<Rightarrow> duration \<Rightarrow> (accounts_service, unit) act" where
  "pollTokenVisible env tokenID expectedPrice expectedPaymentToken attempts delay =
     pollLoop env tokenID expectedPrice expectedPaymentToken attempts delay (nat attempts)"

definition waitForTokenVisible ::
  "booking_env \<Rightarrow> booking_service \<Rightarrow> int \<Rightarrow> int \<Rightarrow> address \<Rightarrow> (accounts_service, unit) act" where
  "waitForTokenVisible env bs tokenID expectedPrice expectedPaymentToken =
     pollTokenVisible env tokenID expectedPrice expectedPaymentToken (tokenVisibleMaxAttempts bs) (tokenVisibleRetryDelay bs)"

definition errNegativeTokenID :: err where
  "errNegativeTokenID = Err [PStr ''tokenID must be a positive integer (>= 0)''] []"

definition BuyBookingToken ::
  "booking_env \<Rightarrow> booking_service \<Rightarrow> int \<Rightarrow> int \<Rightarrow> address \<Rightarrow> (accounts_service, receipt) act" where
  "BuyBookingToken env bs tokenID price paymentToken =
     (if tokenID < 0 then aFail errNegativeTokenID
      else aBind (waitForTokenVisible env bs tokenID price paymentToken)
             (\<lambda>e. Err ([PStr ''buy tokenID '', PInt tokenID, PStr '': ''] @ Error e) [e]) (\<lambda>_.
           aBind (Accounts_BuyBookingToken (chain env) (transactOpts bs) (minterTTMAccountAddress bs) tokenID price paymentToken)
             (\<lambda>e. Err ([PStr ''buy tokenID '', PInt tokenID, PStr '' (price '', PInt price, PStr '', paymentToken '',
                       PAddr paymentToken, PStr ''): ''] @ Error e) [e])
             aRet))"

definition RecordExpiration :: "booking_env \<Rightarrow> booking_service \<Rightarrow> int \<Rightarrow> (accounts_service, receipt) act" where
  "RecordExpiration env bs tokenID =
     (if tokenID < 0 then aFail errNegativeTokenID
      else aBind (Accounts_RecordExpiration (chain env) (transactOpts bs) (minterTTMAccountAddress bs) tokenID)
             (wrap ''failed to record token expiration: '') aRet)"

section \<open>Reading\<close>

definition GetBookingStatus :: "booking_env \<Rightarrow> int option \<Rightarrow> int \<Rightarrow> (accounts_service, status) act" where
  "GetBookingStatus env blockNumber tokenID =
     aBind (chainCall (\<lambda>h. contract_GetBookingStatus env h blockNumber tokenID)) (wrap ''failed to get booking status: '') aRet"

definition IsBookingCancellable :: "booking_env \<Rightarrow> int option \<Rightarrow> int \<Rightarrow> (accounts_service, bool) act" where
  "IsBookingCancellable env blockNumber tokenID =
     aBind (chainCall (\<lambda>h. contract_IsCancellable env h blockNumber tokenID)) (wrap ''failed to get booking cancellable status: '') aRet"

definition GetCancellationReasonsEvent :: "booking_env \<Rightarrow> hash \<Rightarrow> (accounts_service, cancellationReasons) act" where
  "GetCancellationReasonsEvent env txHash =
     aBind (chainCall (\<lambda>h. TransactionReceipt env h txHash)) (wrap ''failed to get transaction receipt: '') (\<lambda>txReceipt.
       case txReceipt of
         None \<Rightarrow> aFail (Err [PStr ''transaction receipt not found or failed for txHash: '', PHash txHash] [])
       | Some rcpt \<Rightarrow>
           if receipt_Status rcpt \<noteq> ReceiptStatusSuccessful
           then aFail (Err [PStr ''transaction receipt not found or failed for txHash: '', PHash txHash] [])
           else (case firstEvent (ParseCancellationReasons env) (receipt_Logs rcpt) of
                   Some event \<Rightarrow> aRet event
                 | None \<Rightarrow> aFail (Err [PStr ''failed to parse CancellationReasons event from tx receipt logs (txID: '',
                                        PHash txHash, PStr '')''] [])))"

definition GetCancellationReasons :: "booking_env \<Rightarrow> int option \<Rightarrow> int \<Rightarrow> (accounts_service, cancellationReasons) act" where
  "GetCancellationReasons env blockNumber tokenID =
     aBind (chainCall (\<lambda>h. contract_GetCancellationReasons env h blockNumber tokenID)) (wrap ''failed to get cancellation reasons: '') aRet"

definition GetCancellationProposal :: "booking_env \<Rightarrow> int option \<Rightarrow> int \<Rightarrow> (accounts_service, cancellationProposal) act" where
  "GetCancellationProposal env blockNumber tokenID =
     aBind (chainCall (\<lambda>h. contract_GetCancellationProposal env h blockNumber tokenID)) (wrap ''failed to get cancellation proposal: '') aRet"

section \<open>Polling for the reservation\<close>

text \<open>The history at the start of attempt \<open>k\<close>, what it reads, and whether the loop goes on after it.\<close>

definition pollHist :: "chain_op list \<Rightarrow> int \<Rightarrow> duration \<Rightarrow> nat \<Rightarrow> chain_op list" where
  "pollHist h tokenID delay k = h @ concat (replicate k [OpReadReservation tokenID, OpSleep delay])"

definition lagging :: "(int \<times> address) res \<Rightarrow> bool" where
  "lagging r \<longleftrightarrow> (case r of Ok (price, token) \<Rightarrow> price = 0 \<and> token = 0 | Fail _ \<Rightarrow> True | Panic _ \<Rightarrow> False)"

definition waited :: "booking_env \<Rightarrow> int \<Rightarrow> chain_op list \<Rightarrow> bool" where
  "waited env tokenID h \<longleftrightarrow> lagging (GetReservationPrice env h tokenID) \<and> ctx_Done env (h @ [OpReadReservation tokenID]) = None"

text \<open>The result of the last attempt made, \<open>final\<close> if no attempt is left.\<close>

definition verdict :: "booking_env \<Rightarrow> int \<Rightarrow> int \<Rightarrow> address \<Rightarrow> int \<Rightarrow> chain_op list \<Rightarrow> bool \<Rightarrow> unit res \<Rightarrow> bool" where
  "verdict env tokenID price token attempts h final r \<longleftrightarrow>
     (let rd = GetReservationPrice env h tokenID in
      if lagging rd
      then (if final then r = Fail (ErrTokenNotVisible tokenID price token attempts)
            else \<exists>e. ctx_Done env (h @ [OpReadReservation tokenID]) = Some e \<and> r = Fail e)
      else (case rd of
              Ok (p, t) \<Rightarrow> r = (if p = price \<and> t = token then Ok ()
                              else Fail (ErrReservationPriceMismatch tokenID price token p t))
            | Panic t \<Rightarrow> r = Panic t
            | Fail e \<Rightarrow> False))"

definition pollResult ::
  "booking_env \<Rightarrow> int \<Rightarrow> int \<Rightarrow> address \<Rightarrow> int \<Rightarrow> duration \<Rightarrow> nat \<Rightarrow> accounts_service \<Rightarrow> unit res \<Rightarrow> accounts_service \<Rightarrow> bool" where
  "pollResult env tokenID price token attempts delay n s r s' \<longleftrightarrow>
     (\<exists>k < n. (\<forall>j < k. waited env tokenID (pollHist (ops s) tokenID delay j)) \<and>
        verdict env tokenID price token attempts (pollHist (ops s) tokenID delay k) (Suc k = n) r \<and>
        s' = s\<lparr>ops := pollHist (ops s) tokenID delay k @ [OpReadReservation tokenID]\<rparr>)"

lemma pollHist_Suc:
  "pollHist (h @ [OpReadReservation tokenID, OpSleep delay]) tokenID delay k = pollHist h tokenID delay (Suc k)"
  by (simp add: pollHist_def)

lemma pollHist_0 [simp]: "pollHist h tokenID delay 0 = h"
  by (simp add: pollHist_def)

lemma pollResult_last:
  assumes "verdict env tokenID price token attempts (ops s) (n = 1) r" and "0 < n"
  shows "pollResult env tokenID price token attempts delay n s r (s\<lparr>ops := ops s @ [OpReadReservation tokenID]\<rparr>)"
  using assms unfolding pollResult_def by (intro exI[of _ 0]) (auto simp: eq_commute[of "Suc 0"])

lemma pollResult_next:
  assumes "pollResult env tokenID price token attempts delay n
      (s\<lparr>ops := ops s @ [OpReadReservation tokenID, OpSleep delay]\<rparr>) r s'"
    and "waited env tokenID (ops s)"
  shows "pollResult env tokenID price token attempts delay (Suc n) s r s'"
proof -
  obtain k where k: "k < n" "\<And>j. j < k \<Longrightarrow> waited env tokenID (pollHist (ops s) tokenID delay (Suc j))"
    "verdict env tokenID price token attempts (pollHist (ops s) tokenID delay (Suc k)) (Suc k = n) r"
    "s' = s\<lparr>ops := pollHist (ops s) tokenID delay (Suc k) @ [OpReadReservation tokenID]\<rparr>"
    using assms(1) by (auto simp: pollResult_def pollHist_Suc)
  have "waited env tokenID (pollHist (ops s) tokenID delay j)" if "j < Suc k" for j
    using that assms(2) k(2) by (cases j) auto
  then show ?thesis using k by (auto simp: pollResult_def intro!: exI[of _ "Suc k"])
qed

lemma pollLoop_result:
  "0 < n \<Longrightarrow> pollLoop env tokenID price token attempts delay n s = (r, s') \<Longrightarrow>
     pollResult env tokenID price token attempts delay n s r s'"
proof (induction n arbitrary: s)
  case (Suc n)
  let ?s = "s\<lparr>ops := ops s @ [OpReadReservation tokenID]\<rparr>"
  let ?rd = "GetReservationPrice env (ops s) tokenID"
  show ?case
  proof (cases "lagging ?rd \<and> n \<noteq> 0 \<and> ctx_Done env (ops ?s) = None")
    case True
    then have "pollLoop env tokenID price token attempts delay n
        (s\<lparr>ops := ops s @ [OpReadReservation tokenID, OpSleep delay]\<rparr>) = (r, s')"
      using Suc.prems(2) by (auto simp: Let_def lagging_def split: res.splits)
    from Suc.IH[OF _ this] True show ?thesis
      by (intro pollResult_next) (auto simp: waited_def)
  next
    case False
    then have "verdict env tokenID price token attempts (ops s) (Suc n = 1) r \<and> s' = ?s"
      using Suc.prems(2)
      by (auto simp: verdict_def Let_def lagging_def split: res.splits if_splits prod.splits option.splits)
    then show ?thesis using pollResult_last[of env tokenID price token attempts s "Suc n" r] by simp
  qed
qed simp

text \<open>Property C38: waiting for a reservation is decided by the first read that shows it. Before the
  last attempt made every read failed or returned the zero reservation and the context was alive;
  the last one shows the reservation, and it matches or is refused for good, or it is the last
  allowed attempt, or the context ended. There is one read more than sleeps and never more than
  \<open>attempts\<close> reads.\<close>

lemma pollTokenVisible_decides:
  "case pollTokenVisible env tokenID price token attempts delay s of (r, s') \<Rightarrow>
     if attempts \<le> 0 then r = Fail (ErrTokenNotVisible tokenID price token attempts) \<and> s' = s
     else pollResult env tokenID price token attempts delay (nat attempts) s r s'"
proof -
  obtain r s' where m: "pollTokenVisible env tokenID price token attempts delay s = (r, s')" by (metis prod.exhaust)
  show ?thesis
  proof (cases "attempts \<le> 0")
    case False
    then show ?thesis using m pollLoop_result[of "nat attempts"] by (simp add: pollTokenVisible_def)
  qed (simp add: pollTokenVisible_def)
qed

section \<open>Buying\<close>

definition isTransact :: "chain_op \<Rightarrow> bool" where
  "isTransact op \<longleftrightarrow> (case op of OpTransact _ _ _ \<Rightarrow> True | _ \<Rightarrow> False)"

lemma pollHist_no_tx: "\<exists>ys. pollHist h tokenID delay k = h @ ys \<and> list_all (\<lambda>op. \<not> isTransact op) ys"
  unfolding pollHist_def by (rule exI, rule conjI, rule refl) (auto simp: list_all_iff isTransact_def)

lemma pollLoop_Ok:
  assumes "pollLoop env tokenID price token attempts delay n s = (Ok (), s')"
  shows "\<exists>ys. ops s' = ops s @ ys @ [OpReadReservation tokenID] \<and> list_all (\<lambda>op. \<not> isTransact op) ys \<and>
    GetReservationPrice env (ops s @ ys) tokenID = Ok (price, token) \<and> (price \<noteq> 0 \<or> token \<noteq> 0)"
proof (cases n)
  case (Suc m)
  obtain k where v: "verdict env tokenID price token attempts (pollHist (ops s) tokenID delay k) (Suc k = n) (Ok ())"
    and s': "ops s' = pollHist (ops s) tokenID delay k @ [OpReadReservation tokenID]"
    using pollLoop_result[OF _ assms] Suc by (auto simp: pollResult_def)
  have "GetReservationPrice env (pollHist (ops s) tokenID delay k) tokenID = Ok (price, token) \<and> (price \<noteq> 0 \<or> token \<noteq> 0)"
    using v by (auto simp: verdict_def Let_def lagging_def split: if_splits res.splits)
  then show ?thesis using s' pollHist_no_tx[of "ops s" tokenID delay k] by auto
qed (use assms in simp)

lemma pollLoop_no_tx:
  assumes "pollLoop env tokenID price token attempts delay n s = (r, s')"
  shows "(bindings_ok s \<longrightarrow> bindings_ok s') \<and> (\<exists>ys. ops s' = ops s @ ys \<and> list_all (\<lambda>op. \<not> isTransact op) ys)"
proof (cases n)
  case (Suc m)
  obtain k where k: "s' = s\<lparr>ops := pollHist (ops s) tokenID delay k @ [OpReadReservation tokenID]\<rparr>"
    using pollLoop_result[OF _ assms] Suc by (auto simp: pollResult_def)
  obtain ys where "pollHist (ops s) tokenID delay k = ops s @ ys" "list_all (\<lambda>op. \<not> isTransact op) ys"
    using pollHist_no_tx by blast
  then show ?thesis using k
    by (intro conjI exI[of _ "ys @ [OpReadReservation tokenID]"]) (auto simp: bindings_ok_def isTransact_def)
qed (use assms in simp)

text \<open>\<open>paid env tokenID price token h h'\<close>: going from \<open>h\<close> to \<open>h'\<close>, exactly one transaction was sent, to buy
  \<open>tokenID\<close> at \<open>price\<close>, right after the reservation was read with this price and token.\<close>

definition paid :: "booking_env \<Rightarrow> booking_service \<Rightarrow> int \<Rightarrow> int \<Rightarrow> address \<Rightarrow> chain_op list \<Rightarrow> chain_op list \<Rightarrow> bool" where
  "paid env bs tokenID price token h h' \<longleftrightarrow>
     (\<exists>ys zs. h' = h @ ys @ [OpReadReservation tokenID,
          OpTransact (transactOpts bs) (minterTTMAccountAddress bs) (TxBuyBookingToken tokenID price token)] @ zs \<and>
        GetReservationPrice env (h @ ys) tokenID = Ok (price, token) \<and> (price \<noteq> 0 \<or> token \<noteq> 0) \<and>
        list_all (\<lambda>op. \<not> isTransact op) (ys @ zs))"

lemma BuyBookingToken_result:
  assumes e: "evicts_only (evictAccount (chain env))" and b: "bindings_ok s"
    and buy: "BuyBookingToken env bs tokenID price token s = (r, s')"
  shows "(paid env bs tokenID price token (ops s) (ops s') \<and>
      (\<forall>v. r = Ok v \<longrightarrow> receipt_Status v = ReceiptStatusSuccessful) \<or>
     (\<exists>ys. ops s' = ops s @ ys \<and> list_all (\<lambda>op. \<not> isTransact op) ys) \<and> (\<forall>v. r \<noteq> Ok v))"
proof (cases "tokenID < 0")
  case True
  then show ?thesis using buy by (auto simp: BuyBookingToken_def)
next
  case False
  let ?call = "TxBuyBookingToken tokenID price token"
  obtain r1 s1 where w: "waitForTokenVisible env bs tokenID price token s = (r1, s1)" by (metis prod.exhaust)
  then have p: "pollLoop env tokenID price token (tokenVisibleMaxAttempts bs) (tokenVisibleRetryDelay bs)
      (nat (tokenVisibleMaxAttempts bs)) s = (r1, s1)" by (simp add: waitForTokenVisible_def pollTokenVisible_def)
  note no_tx = pollLoop_no_tx[OF p]
  show ?thesis
  proof (cases r1)
    case (Ok u)
    let ?b = "Accounts_BuyBookingToken (chain env) (transactOpts bs) (minterTTMAccountAddress bs) tokenID price token"
    obtain r2 s2 where m: "?b s1 = (r2, s2)" by (metis prod.exhaust)
    have sd: "sends (chain env) (transactOpts bs) (minterTTMAccountAddress bs) ?call ?b s1"
      unfolding Accounts_BuyBookingToken_def by (rule accountTx_sends[OF e]) (use no_tx b in blast)
    have r: "s' = s2" "\<And>v. r = Ok v \<Longrightarrow> r2 = Ok v"
      using buy False w Ok m by (cases r2; auto simp: BuyBookingToken_def aBind_def)+
    obtain ys where ys: "ops s1 = ops s @ ys @ [OpReadReservation tokenID]" "list_all (\<lambda>op. \<not> isTransact op) ys"
        "GetReservationPrice env (ops s @ ys) tokenID = Ok (price, token)" "price \<noteq> 0 \<or> token \<noteq> 0"
      using pollLoop_Ok[of env tokenID price token _ _ _ s s1] p Ok by (metis (full_types) old.unit.exhaust)
    have paidI: "paid env bs tokenID price token (ops s) (ops s2)"
      if "ops s2 = ops s1 @ OpTransact (transactOpts bs) (minterTTMAccountAddress bs) ?call # zs"
         "list_all (\<lambda>op. \<not> isTransact op) zs" for zs
      unfolding paid_def using that ys by (intro exI[of _ ys] exI[of _ zs]) auto
    have "ops s2 = ops s1 \<and> (\<forall>v. r2 \<noteq> Ok v) \<or>
        paid env bs tokenID price token (ops s) (ops s2) \<and> (\<forall>v. r2 = Ok v \<longrightarrow> receipt_Status v = ReceiptStatusSuccessful)"
      using sd m paidI[of "[]"] paidI[of "[OpWaitMined tx]" for tx] by (auto simp: sends_def isTransact_def)
    then show ?thesis
    proof
      assume "ops s2 = ops s1 \<and> (\<forall>v. r2 \<noteq> Ok v)"
      then show ?thesis using no_tx r by metis
    qed (use r in blast)
  qed (use buy False w no_tx in \<open>auto simp: BuyBookingToken_def aBind_def\<close>)
qed

text \<open>Property C9: a token is only ever bought at the price its reservation shows. If buying sends a
  transaction, it is the only one, it buys that token at that price, and the very last read before
  it returned a reservation with this price and payment token; success means that transaction was
  mined successfully. In every other case no transaction was sent and an error is returned.\<close>

lemma buys_only_at_reserved_price:
  assumes "evicts_only (evictAccount (chain env))" and "bindings_ok s"
    and "BuyBookingToken env bs tokenID price token s = (r, s')"
  shows "(paid env bs tokenID price token (ops s) (ops s') \<and>
      (\<forall>v. r = Ok v \<longrightarrow> receipt_Status v = ReceiptStatusSuccessful) \<or>
     (\<exists>ys. ops s' = ops s @ ys \<and> list_all (\<lambda>op. \<not> isTransact op) ys) \<and> (\<forall>v. r \<noteq> Ok v))"
  using BuyBookingToken_result[OF assms] .

definition sample_benv :: booking_env where
  "sample_benv = \<lparr>chain = sample_env, GetReservationPrice = (\<lambda>h _. if length h < 2 then Ok (0, 0) else Ok (1000, 0xaa)),
     contract_GetBookingStatus = (\<lambda>_ _ _. Ok 1), contract_IsCancellable = (\<lambda>_ _ _. Ok True),
     TransactionReceipt = (\<lambda>_ _. Ok None), ParseTokenReserved = (\<lambda>_. Ok 42),
     ParseCancellationReasons = (\<lambda>_. Fail (Sentinel ''no event'')),
     contract_GetCancellationReasons = (\<lambda>_ _ _. Fail (Sentinel ''none'')),
     contract_GetCancellationProposal = (\<lambda>_ _ _. Fail (Sentinel ''none'')), ctx_Done = (\<lambda>_. None)\<rparr>"

definition sample_booking :: booking_service where
  "sample_booking = \<lparr>transactOpts = 9, minterTTMAccountAddress = 1, tokenVisibleMaxAttempts = 3, tokenVisibleRetryDelay = 1000000\<rparr>"

lemma buys_only_at_reserved_price_witness:
  "fst (BuyBookingToken sample_benv sample_booking 42 1000 0xaa sample_service) =
     Ok \<lparr>receipt_Status = 1, receipt_Logs = [], receipt_TxHash = 77\<rparr> \<and>
   paid sample_benv sample_booking 42 1000 0xaa [] (ops (snd (BuyBookingToken sample_benv sample_booking 42 1000 0xaa sample_service)))"
proof -
  let ?B = "BuyBookingToken sample_benv sample_booking 42 1000 0xaa sample_service"
  have r: "fst ?B = Ok \<lparr>receipt_Status = 1, receipt_Logs = [], receipt_TxHash = 77\<rparr>"
    by (simp add: BuyBookingToken_def waitForTokenVisible_def pollTokenVisible_def sample_booking_def sample_benv_def
        sample_service_def sample_env_def numeral_3_eq_3 aBind_def Accounts_BuyBookingToken_def TTMAccount_def
        transactAndWait_def cache_Add_def ReceiptStatusSuccessful_def)
  then have "?B = (Ok \<lparr>receipt_Status = 1, receipt_Logs = [], receipt_TxHash = 77\<rparr>, snd ?B)" by (metis prod.collapse)
  moreover have "evicts_only (evictAccount (chain sample_benv))" "bindings_ok sample_service" "ops sample_service = []"
    by (simp_all add: sample_benv_def sample_env_def sample_service_def bindings_ok_def)
  ultimately show ?thesis
    using buys_only_at_reserved_price[of sample_benv sample_service sample_booking 42 1000 "0xaa" "fst ?B" "snd ?B"] r by simp
qed

end
