(* ===== verification/Partner_Plugin.thy ===== *)
theory Partner_Plugin
  imports Booking
begin

text \<open>
  Notifications to the partner plugin, \<^verbatim>\<open>internal/partnerplugin/partner_plugin.go\<close>. The gRPC client of
  the plugin is the parameter \<open>notify_env\<close>: what it answers to a notification depends on all those
  tried before. The state keeps what was tried and what was acknowledged. Addresses and hashes are
  passed on in hexadecimal; here they are the values themselves.
\<close>

record pendingNotification =
  pn_TokenId :: uint64
  pn_InitialProposer :: address
  pn_CurrentProposer :: address
  pn_RefundAmount :: uint64
  pn_OwnerAccepted :: bool
  pn_SupplierAccepted :: bool
  pn_TimesCountered :: uint64
  pn_TimesRejected :: uint64
  pn_TxId :: hash
  pn_CancellationReason :: int
  pn_RejectionReason :: int
  pn_CounterReason :: int
  pn_WithdrawalReason :: int

datatype notification =
    NTokenBought uint64 string "hash option"
  | NTokenReservationExpired uint64 string
  | NCancellationPending pendingNotification
  | NCancellationRejected uint64 int hash
  | NCancellationWithdrawn uint64 int hash
  | NCancellationFinalized uint64 hash

type_synonym notify_env = "notification list \<Rightarrow> notification \<Rightarrow> unit res"

record plugin_state =
  attempted :: "notification list"
  delivered :: "notification list"

definition callPlugin :: "notify_env \<Rightarrow> notification \<Rightarrow> (plugin_state, unit) act" where
  "callPlugin env n = (\<lambda>p.
     let r = env (attempted p) n; p = p\<lparr>attempted := attempted p @ [n]\<rparr>
     in (r, case r of Ok _ \<Rightarrow> p\<lparr>delivered := delivered p @ [n]\<rparr> | _ \<Rightarrow> p))"

definition tokenBoughtNotification :: "notify_env \<Rightarrow> uint64 \<Rightarrow> string \<Rightarrow> hash option \<Rightarrow> (plugin_state, unit) act" where
  "tokenBoughtNotification env tokenId mintId txId = callPlugin env (NTokenBought tokenId mintId txId)"

definition TokenBoughtNotificationWithoutBuyTx :: "notify_env \<Rightarrow> int \<Rightarrow> string \<Rightarrow> (plugin_state, unit) act" where
  "TokenBoughtNotificationWithoutBuyTx env tokenID mintID = tokenBoughtNotification env (big_Uint64 tokenID) mintID None"

definition TokenBoughtNotificationWithBuyTx :: "notify_env \<Rightarrow> int \<Rightarrow> string \<Rightarrow> hash \<Rightarrow> (plugin_state, unit) act" where
  "TokenBoughtNotificationWithBuyTx env tokenID mintID buyTxID =
     tokenBoughtNotification env (big_Uint64 tokenID) mintID (Some buyTxID)"

definition TokenExpiredNotification :: "notify_env \<Rightarrow> int \<Rightarrow> string \<Rightarrow> (plugin_state, unit) act" where
  "TokenExpiredNotification env tokenID mintID = callPlugin env (NTokenReservationExpired (big_Uint64 tokenID) mintID)"

definition CancellationPendingNotification :: "notify_env \<Rightarrow> pendingNotification \<Rightarrow> (plugin_state, unit) act" where
  "CancellationPendingNotification env n = callPlugin env (NCancellationPending n)"

definition CancellationRejectedNotification :: "notify_env \<Rightarrow> uint64 \<Rightarrow> int \<Rightarrow> hash \<Rightarrow> (plugin_state, unit) act" where
  "CancellationRejectedNotification env tokenId reason txId = callPlugin env (NCancellationRejected tokenId reason txId)"

definition CancellationWithdrawnNotification :: "notify_env \<Rightarrow> uint64 \<Rightarrow> int \<Rightarrow> hash \<Rightarrow> (plugin_state, unit) act" where
  "CancellationWithdrawnNotification env tokenId reason txId = callPlugin env (NCancellationWithdrawn tokenId reason txId)"

definition CancellationFinalizedNotification :: "notify_env \<Rightarrow> uint64 \<Rightarrow> hash \<Rightarrow> (plugin_state, unit) act" where
  "CancellationFinalizedNotification env tokenId txId = callPlugin env (NCancellationFinalized tokenId txId)"

lemmas plugin_defs = tokenBoughtNotification_def TokenBoughtNotificationWithoutBuyTx_def
  TokenBoughtNotificationWithBuyTx_def TokenExpiredNotification_def CancellationPendingNotification_def
  CancellationRejectedNotification_def CancellationWithdrawnNotification_def CancellationFinalizedNotification_def

lemma callPlugin_cases:
  assumes "callPlugin env n p = (r, p')"
  shows "r = env (attempted p) n \<and> attempted p' = attempted p @ [n] \<and>
    delivered p' = (case r of Ok _ \<Rightarrow> delivered p @ [n] | _ \<Rightarrow> delivered p)"
  using assms by (auto simp: callPlugin_def Let_def split: res.splits)

end
