(* ===== verification/Subscription_Storage.thy ===== *)
theory Subscription_Storage
  imports Database
begin

text \<open>
  The two tables of the event listener, \<^verbatim>\<open>internal/eventlistener/storage/sqlite\<close>: subscriptions for the
  sale of a token and for its cancellation. A table is its list of rows, with \<open>token_id\<close> the
  primary key of both. Token ids are big integers in the code and 64-bit integers in the tables.
\<close>

record tokenBoughtSubscription =
  TokenID :: int
  MintID :: string
  Timeout :: time

record tb_row =
  token_id :: int64
  mint_id :: string
  timeout :: int

record subscriptions =
  token_bought_subscriptions :: "tb_row list"
  cancellation_subscriptions :: "int64 list"

definition ErrSubscriptionNotFound :: err where "ErrSubscriptionNotFound = Sentinel ''not found''"

definition modelFromTokenBoughtSubscription :: "tb_row \<Rightarrow> tokenBoughtSubscription" where
  "modelFromTokenBoughtSubscription r =
     \<lparr>TokenID = sint (token_id r), MintID = mint_id r, Timeout = unixTime (timeout r)\<rparr>"

definition tokenBoughtSubscriptionFromModel :: "tokenBoughtSubscription \<Rightarrow> tb_row" where
  "tokenBoughtSubscriptionFromModel m =
     \<lparr>token_id = big_Int64 (TokenID m), mint_id = MintID m, timeout = Unix (Timeout m)\<rparr>"

section \<open>Sale subscriptions (subscription_token_bought.go)\<close>

definition insertRow :: "tb_row \<Rightarrow> subscriptions \<Rightarrow> (nat \<times> subscriptions) res" where
  "insertRow r d =
     (if token_id r \<in> set (map token_id (token_bought_subscriptions d))
      then Fail (Sentinel ''UNIQUE constraint failed: token_bought_subscriptions.token_id'')
      else Ok (1, d\<lparr>token_bought_subscriptions := token_bought_subscriptions d @ [r]\<rparr>))"

definition AddTokenBoughtSubscription :: "tokenBoughtSubscription \<Rightarrow> (subscriptions, unit) dbm" where
  "AddTokenBoughtSubscription subscription =
     dbBind (dbExecR (insertRow (tokenBoughtSubscriptionFromModel subscription)))
       (wrap ''failed to execute insert token bought subscription statement: '') (\<lambda>rowsAffected.
       if rowsAffected \<noteq> 1 then dbFail (errRows rowsAffected) else dbRet ())"

text \<open>The argument of the delete statement is a \<open>uint64\<close>, which \<open>database/sql\<close> refuses when its high bit is
  set.\<close>

definition deleteRow :: "uint64 \<Rightarrow> subscriptions \<Rightarrow> (nat \<times> subscriptions) res" where
  "deleteRow n d =
     (if bit n 63 then Fail (Sentinel ''sql: converting argument $1 type: uint64 values with high bit set are not supported'')
      else Ok (length (filter (\<lambda>r. token_id r = n) (token_bought_subscriptions d)),
               d\<lparr>token_bought_subscriptions := filter (\<lambda>r. token_id r \<noteq> n) (token_bought_subscriptions d)\<rparr>))"

definition RemoveTokenBoughtSubscription :: "int \<Rightarrow> (subscriptions, unit) dbm" where
  "RemoveTokenBoughtSubscription tokenID =
     dbBind (dbExecR (deleteRow (big_Uint64 tokenID)))
       (wrap ''failed to execute remove token bought subscription statement: '') (\<lambda>rowsAffected.
       if rowsAffected \<noteq> 1 then dbFail (errRows rowsAffected) else dbRet ())"

definition GetAllTokenBoughtSubscriptions :: "(subscriptions, tokenBoughtSubscription list) dbm" where
  "GetAllTokenBoughtSubscriptions =
     dbBind (dbQuery (\<lambda>d. Ok (map modelFromTokenBoughtSubscription (token_bought_subscriptions d))))
       (wrap ''failed to execute get all token bought subscriptions statement: '') dbRet"

text \<open>A read that finds no row returns the sentinel of the package, any other error is wrapped.\<close>

definition GetTokenBoughtSubscription :: "int \<Rightarrow> (subscriptions, tokenBoughtSubscription) dbm" where
  "GetTokenBoughtSubscription tokenID =
     dbBind (dbQuery (\<lambda>d. Ok (filter (\<lambda>r. token_id r = big_Int64 tokenID) (token_bought_subscriptions d))))
       (wrap ''failed to execute get token bought subscription statement: '') (\<lambda>rows.
       case rows of [] \<Rightarrow> dbFail ErrSubscriptionNotFound | r # _ \<Rightarrow> dbRet (modelFromTokenBoughtSubscription r))"

definition minRows :: "tb_row list \<Rightarrow> tb_row list" where
  "minRows rows = filter (\<lambda>r. \<forall>q \<in> set rows. timeout r \<le> timeout q) rows"

text \<open>Several rows may have the least timeout; the one returned is the parameter \<open>pick\<close>.\<close>

definition GetTokenBoughtSubscriptionByMinTimeout ::
  "(tb_row list \<Rightarrow> tb_row) \<Rightarrow> (subscriptions, tokenBoughtSubscription) dbm" where
  "GetTokenBoughtSubscriptionByMinTimeout pick =
     dbBind (dbQuery (\<lambda>d. Ok (minRows (token_bought_subscriptions d))))
       (wrap ''failed to execute get token bought subscription by min timeout statement: '') (\<lambda>rows.
       case rows of [] \<Rightarrow> dbFail ErrSubscriptionNotFound | _ \<Rightarrow> dbRet (modelFromTokenBoughtSubscription (pick rows)))"

section \<open>Cancellation subscriptions (subscription_cancellation.go)\<close>

definition insertCancellation :: "int64 \<Rightarrow> subscriptions \<Rightarrow> (nat \<times> subscriptions) res" where
  "insertCancellation n d =
     (if n \<in> set (cancellation_subscriptions d)
      then Fail (Sentinel ''UNIQUE constraint failed: cancellation_subscriptions.token_id'')
      else Ok (1, d\<lparr>cancellation_subscriptions := cancellation_subscriptions d @ [n]\<rparr>))"

definition AddCancellationSubscription :: "int \<Rightarrow> (subscriptions, unit) dbm" where
  "AddCancellationSubscription tokenID =
     dbBind (dbExecR (insertCancellation (big_Int64 tokenID)))
       (wrap ''failed to execute insert cancellation subscription statement: '') (\<lambda>rowsAffected.
       if rowsAffected \<noteq> 1 then dbFail (errRows rowsAffected) else dbRet ())"

definition RemoveCancellationSubscription :: "int \<Rightarrow> (subscriptions, unit) dbm" where
  "RemoveCancellationSubscription tokenID =
     dbExecOne ''failed to execute remove cancellation subscription statement: ''
       (\<lambda>d. (length (filter (\<lambda>n. n = big_Int64 tokenID) (cancellation_subscriptions d)),
             d\<lparr>cancellation_subscriptions := filter (\<lambda>n. n \<noteq> big_Int64 tokenID) (cancellation_subscriptions d)\<rparr>))"

definition GetAllCancellationSubscriptions :: "(subscriptions, int list) dbm" where
  "GetAllCancellationSubscriptions =
     dbBind (dbQuery (\<lambda>d. Ok (map sint (cancellation_subscriptions d))))
       (wrap ''failed to execute get all cancellation subscriptions statement: '') dbRet"

definition IsCancellationSubscriptionExist :: "int \<Rightarrow> (subscriptions, bool) dbm" where
  "IsCancellationSubscriptionExist tokenID =
     dbBind (dbQuery (\<lambda>d. Ok (big_Int64 tokenID \<in> set (cancellation_subscriptions d))))
       (wrap ''failed to execute get cancellation subscription statement: '') dbRet"

section \<open>What the operations do to the tables\<close>

definition tables_ok :: "subscriptions \<Rightarrow> bool" where
  "tables_ok d \<longleftrightarrow> distinct (map token_id (token_bought_subscriptions d)) \<and> distinct (cancellation_subscriptions d)"

definition without_sale :: "int \<Rightarrow> subscriptions \<Rightarrow> subscriptions" where
  "without_sale tokenID d = d\<lparr>token_bought_subscriptions :=
     filter (\<lambda>r. token_id r \<noteq> big_Uint64 tokenID) (token_bought_subscriptions d)\<rparr>"

definition without_cancellation :: "int \<Rightarrow> subscriptions \<Rightarrow> subscriptions" where
  "without_cancellation tokenID d = d\<lparr>cancellation_subscriptions :=
     filter (\<lambda>n. n \<noteq> big_Int64 tokenID) (cancellation_subscriptions d)\<rparr>"

definition with_cancellation :: "int \<Rightarrow> subscriptions \<Rightarrow> subscriptions" where
  "with_cancellation tokenID d = d\<lparr>cancellation_subscriptions := cancellation_subscriptions d @ [big_Int64 tokenID]\<rparr>"

lemma dbwork_if_one: "dbwork (if n \<noteq> 1 then dbFail (errRows n) else dbRet ()) (\<lambda>d u d'. n = 1 \<and> d' = d)"
  by (simp add: dbwork_fail dbwork_mono[OF dbwork_ret])

lemma dbwork_AddTokenBought:
  "dbwork (AddTokenBoughtSubscription sub) (\<lambda>d u d'.
     big_Int64 (TokenID sub) \<notin> set (map token_id (token_bought_subscriptions d)) \<and>
     d' = d\<lparr>token_bought_subscriptions := token_bought_subscriptions d @ [tokenBoughtSubscriptionFromModel sub]\<rparr>)"
  unfolding AddTokenBoughtSubscription_def
  by (rule dbwork_mono[OF dbwork_bind[OF dbwork_execR dbwork_if_one]])
     (auto simp: insertRow_def tokenBoughtSubscriptionFromModel_def split: if_splits)

lemma dbwork_RemoveTokenBought:
  "dbwork (RemoveTokenBoughtSubscription tokenID) (\<lambda>d u d'. d' = without_sale tokenID d \<and>
     length (filter (\<lambda>r. token_id r = big_Uint64 tokenID) (token_bought_subscriptions d)) = 1)"
  unfolding RemoveTokenBoughtSubscription_def
  by (rule dbwork_mono[OF dbwork_bind[OF dbwork_execR dbwork_if_one]])
     (auto simp: deleteRow_def without_sale_def split: if_splits)

lemma hd_filter: "filter P xs \<noteq> [] \<Longrightarrow> P (hd (filter P xs)) \<and> hd (filter P xs) \<in> set xs"
  using hd_in_set[of "filter P xs"] by auto

lemma dbwork_GetTokenBought:
  "dbwork (GetTokenBoughtSubscription tokenID) (\<lambda>d v d'. d' = d \<and>
     (\<exists>r \<in> set (token_bought_subscriptions d). token_id r = big_Int64 tokenID \<and> v = modelFromTokenBoughtSubscription r))"
proof -
  have "dbwork (case rows of [] \<Rightarrow> dbFail ErrSubscriptionNotFound | r # _ \<Rightarrow> dbRet (modelFromTokenBoughtSubscription r))
     (\<lambda>d v d'. d' = d \<and> rows \<noteq> [] \<and> v = modelFromTokenBoughtSubscription (hd rows))" for rows
    by (cases rows) (auto intro: dbwork_fail dbwork_mono[OF dbwork_ret])
  then show ?thesis
    unfolding GetTokenBoughtSubscription_def
    by (rule dbwork_mono[OF dbwork_bind[OF dbwork_query]]) (use hd_filter in fastforce)
qed

lemma dbwork_AddCancellation:
  "dbwork (AddCancellationSubscription tokenID) (\<lambda>d u d'. d' = with_cancellation tokenID d \<and>
     big_Int64 tokenID \<notin> set (cancellation_subscriptions d))"
  unfolding AddCancellationSubscription_def
  by (rule dbwork_mono[OF dbwork_bind[OF dbwork_execR dbwork_if_one]])
     (auto simp: insertCancellation_def with_cancellation_def split: if_splits)

lemma dbwork_RemoveCancellation:
  "dbwork (RemoveCancellationSubscription tokenID) (\<lambda>d u d'. d' = without_cancellation tokenID d)"
  unfolding RemoveCancellationSubscription_def
  by (rule dbwork_mono[OF dbwork_execOne]) (auto simp: without_cancellation_def)

lemma dbwork_IsCancellation:
  "dbwork (IsCancellationSubscriptionExist tokenID) (\<lambda>d v d'. d' = d \<and> v = (big_Int64 tokenID \<in> set (cancellation_subscriptions d)))"
  unfolding IsCancellationSubscriptionExist_def
  by (rule dbwork_mono[OF dbwork_bind[OF dbwork_query dbwork_ret]]) auto

lemma minRows_spec:
  "r \<in> set (minRows rows) \<longleftrightarrow> r \<in> set rows \<and> (\<forall>q \<in> set rows. timeout r \<le> timeout q)"
  by (simp add: minRows_def)

lemma minRows_Nil [simp]: "minRows [] = []"
  by (simp add: minRows_def)

lemma minRows_Nil_iff [simp]: "minRows rows = [] \<longleftrightarrow> rows = []"
proof (cases "rows = []")
  case False
  then have f: "finite (timeout ` set rows)" "timeout ` set rows \<noteq> {}" by auto
  obtain r where "r \<in> set rows" "timeout r = Min (timeout ` set rows)" using Min_in[OF f] by auto
  then have "r \<in> set (minRows rows)" using f(1) by (auto simp: minRows_spec)
  then show ?thesis using False by auto
qed (simp add: minRows_def)

end
