(* ===== verification/Event_Listener.thy ===== *)
theory Event_Listener
  imports Partner_Plugin Subscription_Storage
begin

text \<open>
  The event listener, \<^verbatim>\<open>internal/eventlistener\<close>, and the subscriber that feeds it: subscriptions for
  the sale and the cancellation of booking tokens, the handlers of the five contract events, the
  timer for reservations that run out, and the check at startup. The state of the listener
  contains its database, the state of the booking service and of the partner plugin. A handler runs
  as one step; interleavings of steps are explored at the end. Texts that are only logged are not
  kept: a handler that logs an error returns 0.
\<close>

section \<open>State (event_listener.go)\<close>

record listener_env =
  benv :: booking_env
  bsvc :: booking_service
  notifyEnv :: notify_env
  pickRow :: "tb_row list \<Rightarrow> tb_row"

text \<open>A feed is the subscription to contract events behind an unsubscribe function, nil before the start.
  \<open>tokenBoughtTimer\<close> is nil before the start, a timer that will not run the handler, or one that
  runs it after a delay.\<close>

datatype feed = NoFeed | OpenFeed | ClosedFeed

datatype timer = NilTimer | IdleTimer | Armed duration

record eventListener =
  startingBlockNumber :: int
  storage :: "subscriptions db"
  plugin :: plugin_state
  booking :: accounts_service
  recordTokenExpiration :: bool
  tokenBoughtTimer :: timer
  tokenBoughtTimerSubscription :: "tokenBoughtSubscription option"
  tokenBoughtFeed :: feed
  cancellationFeed :: feed

definition timeCheckBlockchainDelay :: duration where "timeCheckBlockchainDelay = 2 * second"

definition maxTime :: time where "maxTime = unixTime (2 ^ 63 - 62135596801)"

text \<open>Calls of the booking service and the plugin, and of the storage within a session.\<close>

definition onBooking :: "(accounts_service, 'a) act \<Rightarrow> (eventListener, 'a) act" where
  "onBooking m = (\<lambda>l. case m (booking l) of (r, b) \<Rightarrow> (r, l\<lparr>booking := b\<rparr>))"

definition onPlugin :: "(plugin_state, 'a) act \<Rightarrow> (eventListener, 'a) act" where
  "onPlugin m = (\<lambda>l. case m (plugin l) of (r, p) \<Rightarrow> (r, l\<lparr>plugin := p\<rparr>))"

type_synonym in_session = "subscriptions sqlxTxSession \<times> eventListener"

definition inDB :: "(subscriptions, 'a) dbm \<Rightarrow> (in_session, 'a) act" where
  "inDB m = (\<lambda>(s, l). case m (storage l) s of (r, s, db) \<Rightarrow> (r, s, l\<lparr>storage := db\<rparr>))"

definition outDB :: "(eventListener, 'a) act \<Rightarrow> (in_session, 'a) act" where
  "outDB m = (\<lambda>(s, l). case m l of (r, l) \<Rightarrow> (r, s, l))"

text \<open>\<open>session, err := NewSession(ctx); if err != nil { return w(err) }; defer Abort(session)\<close>\<close>

definition session :: "(err \<Rightarrow> err) \<Rightarrow> (in_session, 'a) act \<Rightarrow> (eventListener, 'a) act" where
  "session w body = (\<lambda>l. case NewSession (storage l) of
       (Ok s, db) \<Rightarrow> (case body (s, l\<lparr>storage := db\<rparr>) of
                        (r, s, l) \<Rightarrow> (r, l\<lparr>storage := snd (DB_Abort (storage l) s)\<rparr>))
     | (Fail e, db) \<Rightarrow> (Fail (w e), l\<lparr>storage := db\<rparr>)
     | (Panic t, db) \<Rightarrow> (Panic t, l\<lparr>storage := db\<rparr>))"

text \<open>A handler that logs its errors and then returns 0.\<close>

definition orZero :: "(eventListener, uint64) act \<Rightarrow> (eventListener, uint64) act" where
  "orZero m = aTry m aRet (\<lambda>_. aRet 0)"

section \<open>The timer (subscription_token_bought.go)\<close>

definition timeUntil :: "time \<Rightarrow> time \<Rightarrow> duration" where
  "timeUntil now t = (if t < now then 0 else time_Sub t now)"

definition nilTimer :: msgtext where
  "nilTimer = [PStr ''runtime error: invalid memory address or nil pointer dereference'']"

definition timer_Stop :: "(eventListener, unit) act" where
  "timer_Stop = (\<lambda>l. if tokenBoughtTimer l = NilTimer then (Panic nilTimer, l) else (Ok (), l\<lparr>tokenBoughtTimer := IdleTimer\<rparr>))"

definition armTimer :: "time \<Rightarrow> tokenBoughtSubscription \<Rightarrow> (eventListener, unit) act" where
  "armTimer now sub = (\<lambda>l. (Ok (), l\<lparr>tokenBoughtTimerSubscription := Some sub,
     tokenBoughtTimer := Armed (timeUntil now (Timeout sub))\<rparr>))"

definition startTokenBoughtTimer :: "time \<Rightarrow> tokenBoughtSubscription option \<Rightarrow> (eventListener, unit) act" where
  "startTokenBoughtTimer now nextToExpireSubscription =
     (case nextToExpireSubscription of
        None \<Rightarrow> (\<lambda>l. (Ok (), l\<lparr>tokenBoughtTimerSubscription := None, tokenBoughtTimer := IdleTimer\<rparr>))
      | Some sub \<Rightarrow> armTimer now sub)"

definition resetTokenBoughtTimerIfAfter :: "time \<Rightarrow> tokenBoughtSubscription \<Rightarrow> (eventListener, unit) act" where
  "resetTokenBoughtTimerIfAfter now newSubscription = (\<lambda>l.
     if (case tokenBoughtTimerSubscription l of None \<Rightarrow> False | Some sub \<Rightarrow> \<not> Timeout sub > Timeout newSubscription)
     then (Ok (), l)
     else aBind timer_Stop (\<lambda>e. e) (\<lambda>_. armTimer now newSubscription) l)"

definition resetTokenBoughtTimerFromDB :: "listener_env \<Rightarrow> time \<Rightarrow> (eventListener, unit) act" where
  "resetTokenBoughtTimerFromDB env now =
     aBind timer_Stop (\<lambda>e. e) (\<lambda>_.
     aBind (\<lambda>l. (Ok (), l\<lparr>tokenBoughtTimerSubscription := None\<rparr>)) (\<lambda>e. e) (\<lambda>_.
     aTry (session (\<lambda>e. e) (aBind (inDB (GetTokenBoughtSubscriptionByMinTimeout (pickRow env))) (\<lambda>e. e) (\<lambda>sub.
             outDB (armTimer now sub))))
       aRet (\<lambda>_. aRet ())))"

definition resetTokenBoughtTimer :: "listener_env \<Rightarrow> time \<Rightarrow> (eventListener, unit) act" where
  "resetTokenBoughtTimer env now = resetTokenBoughtTimerFromDB env now"

definition resetTokenBoughtTimerIfMatch :: "listener_env \<Rightarrow> time \<Rightarrow> int \<Rightarrow> (eventListener, unit) act" where
  "resetTokenBoughtTimerIfMatch env now tokenID = (\<lambda>l.
     if (case tokenBoughtTimerSubscription l of None \<Rightarrow> False | Some sub \<Rightarrow> TokenID sub \<noteq> tokenID)
     then (Ok (), l)
     else resetTokenBoughtTimerFromDB env now l)"

text \<open>\<open>defer f()\<close>: after the body returned its value \<open>r\<close>, \<open>f\<close> runs, and \<open>r\<close> is returned.\<close>

definition deferred :: "(eventListener, 'a) act \<Rightarrow> (eventListener, unit) act \<Rightarrow> (eventListener, 'a) act" where
  "deferred m f = (\<lambda>l. case m l of (r, l) \<Rightarrow>
     (case f l of (Panic t, l) \<Rightarrow> (Panic t, l) | (_, l) \<Rightarrow> (r, l)))"

section \<open>Sale of a token (subscription_token_bought.go)\<close>

definition SubscribeTokenBoughtEvent :: "time \<Rightarrow> int \<Rightarrow> string \<Rightarrow> time \<Rightarrow> (eventListener, unit) act" where
  "SubscribeTokenBoughtEvent now tokenID mintID tmo =
     (let subscription = \<lparr>TokenID = tokenID, MintID = mintID, Timeout = tmo + timeCheckBlockchainDelay\<rparr>
      in session (wrap ''failed to create db session: '')
           (aBind (inDB (AddTokenBoughtSubscription subscription)) (wrap ''error adding token bought subscription to db: '') (\<lambda>_.
            aBind (inDB DB_Commit) (wrap ''failed to commit db session: '') (\<lambda>_.
              outDB (resetTokenBoughtTimerIfAfter now subscription)))))"

record tokenBoughtEvent =
  tbe_TokenId :: int
  tbe_BlockNumber :: uint64
  tbe_TxHash :: hash

definition processSale :: "listener_env \<Rightarrow> tokenBoughtEvent \<Rightarrow> (in_session, uint64) act" where
  "processSale env event =
     aTry (inDB (GetTokenBoughtSubscription (tbe_TokenId event)))
       (\<lambda>subscription.
          aBind (outDB (onPlugin (TokenBoughtNotificationWithBuyTx (notifyEnv env) (TokenID subscription)
                   (MintID subscription) (tbe_TxHash event)))) (\<lambda>e. e) (\<lambda>_.
          aBind (outDB (onBooking (IsBookingCancellable (benv env) None (TokenID subscription)))) (\<lambda>e. e) (\<lambda>isCancellable.
          aBind (if isCancellable then inDB (AddCancellationSubscription (TokenID subscription)) else aRet ()) (\<lambda>e. e) (\<lambda>_.
          aBind (inDB (RemoveTokenBoughtSubscription (TokenID subscription))) (\<lambda>e. e) (\<lambda>_.
          aBind (inDB DB_Commit) (\<lambda>e. e) (\<lambda>_.
            aRet (tbe_BlockNumber event)))))))
       (\<lambda>err. if errors_Is err ''not found'' then aRet (tbe_BlockNumber event) else aFail err)"

definition tokenBoughtEventHandler :: "listener_env \<Rightarrow> time \<Rightarrow> tokenBoughtEvent \<Rightarrow> (eventListener, uint64) act" where
  "tokenBoughtEventHandler env now event =
     deferred (orZero (session (\<lambda>e. e) (processSale env event)))
       (resetTokenBoughtTimerIfMatch env now (tbe_TokenId event))"

text \<open>The handler reads the subscription of the timer without checking it for nil.\<close>

definition notifyExpired :: "listener_env \<Rightarrow> tokenBoughtSubscription \<Rightarrow> (in_session, unit) act" where
  "notifyExpired env sub =
     aBind (outDB (onPlugin (TokenExpiredNotification (notifyEnv env) (TokenID sub) (MintID sub)))) (\<lambda>e. e) (\<lambda>_.
     aBind (\<lambda>sl. if recordTokenExpiration (snd sl)
                 then aBind (outDB (onBooking (RecordExpiration (benv env) (bsvc env) (TokenID sub)))) (\<lambda>e. e) (\<lambda>_. aRet ()) sl
                 else (Ok (), sl)) (\<lambda>e. e) (\<lambda>_.
     aBind (inDB (RemoveTokenBoughtSubscription (TokenID sub))) (\<lambda>e. e) (\<lambda>_.
     aBind (inDB DB_Commit) (\<lambda>e. e) (\<lambda>_.
       aRet ()))))"

definition expireReservation :: "listener_env \<Rightarrow> tokenBoughtSubscription \<Rightarrow> (eventListener, unit) act" where
  "expireReservation env sub =
     aBind (onBooking (GetBookingStatus (benv env) None (TokenID sub))) (\<lambda>e. e) (\<lambda>status.
       if status \<noteq> StatusReserved then aRet () else session (\<lambda>e. e) (notifyExpired env sub))"

definition tokenBoughtTimeoutHandler :: "listener_env \<Rightarrow> time \<Rightarrow> (eventListener, unit) act" where
  "tokenBoughtTimeoutHandler env now = (\<lambda>l.
     case tokenBoughtTimerSubscription l of
       None \<Rightarrow> (Panic nilTimer, l)
     | Some sub \<Rightarrow> deferred (aTry (expireReservation env sub) aRet (\<lambda>_. aRet ())) (resetTokenBoughtTimer env now) l)"

definition getAllTokenBoughtSubscriptions :: "(eventListener, tokenBoughtSubscription list) act" where
  "getAllTokenBoughtSubscriptions =
     session (wrap ''failed to create db session: '')
       (aBind (inDB GetAllTokenBoughtSubscriptions) (wrap ''error getting all token bought subscriptions from db: '') aRet)"

definition forToken :: "string \<Rightarrow> int \<Rightarrow> err \<Rightarrow> err" where
  "forToken what tokenID e = Err ([PStr what, PInt tokenID, PStr '': ''] @ Error e) [e]"

text \<open>The loop of the startup check, with the next subscription to expire so far. Aborting a session
  that was committed does nothing, so that all sessions are aborted only when the function
  returns makes no difference.\<close>

fun startupTokenBought ::
  "listener_env \<Rightarrow> tokenBoughtSubscription option \<Rightarrow> time \<Rightarrow> tokenBoughtSubscription list \<Rightarrow>
     (eventListener, tokenBoughtSubscription option) act" where
  "startupTokenBought env next nextTimeoutTime [] = aRet next"
| "startupTokenBought env next nextTimeoutTime (sub # subs) = (\<lambda>l.
     aBind (onBooking (GetBookingStatus (benv env) (Some (startingBlockNumber l)) (TokenID sub)))
       (forToken ''failed to get booking status for token '' (TokenID sub)) (\<lambda>status.
       if status \<noteq> StatusReserved
       then
         aBind (if status = StatusBought
                then onPlugin (TokenBoughtNotificationWithoutBuyTx (notifyEnv env) (TokenID sub) (MintID sub))
                else aRet ())
           (forToken ''error sending token bought notification for token '' (TokenID sub)) (\<lambda>_.
         aBind (session (forToken ''failed to create db session for token '' (TokenID sub))
                  (aBind (inDB (RemoveTokenBoughtSubscription (TokenID sub)))
                     (forToken ''error removing token bought subscription for token '' (TokenID sub)) (\<lambda>_.
                   aBind (inDB DB_Commit) (forToken ''failed to commit db session for token '' (TokenID sub)) aRet)))
           (\<lambda>e. e) (\<lambda>_. startupTokenBought env next nextTimeoutTime subs))
       else if Timeout sub < nextTimeoutTime then startupTokenBought env (Some sub) (Timeout sub) subs
       else startupTokenBought env next nextTimeoutTime subs) l)"

definition tokenBoughtSubscriptionsStartupCheck :: "listener_env \<Rightarrow> (eventListener, tokenBoughtSubscription option) act" where
  "tokenBoughtSubscriptionsStartupCheck env =
     aBind getAllTokenBoughtSubscriptions (wrap ''error getting all token bought subscriptions: '') (\<lambda>subs.
       startupTokenBought env None maxTime subs)"

definition startTokenBoughtSubscriptions :: "listener_env \<Rightarrow> time \<Rightarrow> (eventListener, unit) act" where
  "startTokenBoughtSubscriptions env now =
     aBind (tokenBoughtSubscriptionsStartupCheck env) (wrap ''token bought subscriptions startup check error: '') (\<lambda>next.
     aBind (\<lambda>l. (Ok (), l\<lparr>tokenBoughtFeed := OpenFeed\<rparr>)) (\<lambda>e. e) (\<lambda>_.
       startTokenBoughtTimer now next))"

section \<open>Cancellation of a token (subscription_cancellation.go)\<close>

definition SubscribeCancellationEvents :: "int \<Rightarrow> (eventListener, unit) act" where
  "SubscribeCancellationEvents tokenID =
     session (wrap ''failed to create db session: '')
       (aBind (inDB (AddCancellationSubscription tokenID)) (wrap ''error adding cancellation subscription to db: '') (\<lambda>_.
        aBind (inDB DB_Commit) (wrap ''failed to commit db session: '') aRet))"

record cancellationPendingEvent =
  cpe_TokenId :: int
  cpe_InitialProposer :: address
  cpe_CurrentProposer :: address
  cpe_RefundAmount :: int
  cpe_OwnerAccepted :: bool
  cpe_SupplierAccepted :: bool
  cpe_TimesCountered :: uint32
  cpe_TimesRejected :: uint32
  cpe_BlockNumber :: uint64
  cpe_TxHash :: hash

record cancellationReasonEvent =
  cre_TokenId :: int
  cre_Reason :: uint16
  cre_BlockNumber :: uint64
  cre_TxHash :: hash

record cancellationFinalizedEvent =
  cfe_TokenId :: int
  cfe_BlockNumber :: uint64
  cfe_TxHash :: hash

text \<open>The common opening of the four handlers: within a session, an event of a token without
  subscription is done; otherwise the handler goes on.\<close>

definition ifSubscribed :: "int \<Rightarrow> uint64 \<Rightarrow> (in_session, unit) act \<Rightarrow> (eventListener, uint64) act" where
  "ifSubscribed tokenId blockNumber body =
     orZero (session (\<lambda>e. e)
       (aBind (inDB (IsCancellationSubscriptionExist tokenId)) (\<lambda>e. e) (\<lambda>ok.
          if \<not> ok then aRet blockNumber
          else aBind body (\<lambda>e. e) (\<lambda>_. aRet blockNumber))))"

definition pendingOfEvent :: "cancellationPendingEvent \<Rightarrow> cancellationReasons \<Rightarrow> pendingNotification" where
  "pendingOfEvent event reasons =
     \<lparr>pn_TokenId = big_Uint64 (cpe_TokenId event), pn_InitialProposer = cpe_InitialProposer event,
      pn_CurrentProposer = cpe_CurrentProposer event, pn_RefundAmount = big_Uint64 (cpe_RefundAmount event),
      pn_OwnerAccepted = cpe_OwnerAccepted event, pn_SupplierAccepted = cpe_SupplierAccepted event,
      pn_TimesCountered = ucast (cpe_TimesCountered event), pn_TimesRejected = ucast (cpe_TimesRejected event),
      pn_TxId = cpe_TxHash event,
      pn_CancellationReason = uint (CancellationReason reasons), pn_RejectionReason = uint (RejectionReason reasons),
      pn_CounterReason = uint (CounterReason reasons), pn_WithdrawalReason = uint (WithdrawalReason reasons)\<rparr>"

definition cancellationPendingEventHandler :: "listener_env \<Rightarrow> cancellationPendingEvent \<Rightarrow> (eventListener, uint64) act" where
  "cancellationPendingEventHandler env event =
     ifSubscribed (cpe_TokenId event) (cpe_BlockNumber event)
       (aBind (outDB (onBooking (GetCancellationReasonsEvent (benv env) (cpe_TxHash event)))) (\<lambda>e. e) (\<lambda>reasons.
          outDB (onPlugin (CancellationPendingNotification (notifyEnv env) (pendingOfEvent event reasons)))))"

definition cancellationRejectedEventHandler :: "listener_env \<Rightarrow> cancellationReasonEvent \<Rightarrow> (eventListener, uint64) act" where
  "cancellationRejectedEventHandler env event =
     ifSubscribed (cre_TokenId event) (cre_BlockNumber event)
       (outDB (onPlugin (CancellationRejectedNotification (notifyEnv env) (big_Uint64 (cre_TokenId event))
          (uint (cre_Reason event)) (cre_TxHash event))))"

definition cancellationWithdrawnEventHandler :: "listener_env \<Rightarrow> cancellationReasonEvent \<Rightarrow> (eventListener, uint64) act" where
  "cancellationWithdrawnEventHandler env event =
     ifSubscribed (cre_TokenId event) (cre_BlockNumber event)
       (outDB (onPlugin (CancellationWithdrawnNotification (notifyEnv env) (big_Uint64 (cre_TokenId event))
          (uint (cre_Reason event)) (cre_TxHash event))))"

definition cancellationFinalizedEventHandler :: "listener_env \<Rightarrow> cancellationFinalizedEvent \<Rightarrow> (eventListener, uint64) act" where
  "cancellationFinalizedEventHandler env event =
     ifSubscribed (cfe_TokenId event) (cfe_BlockNumber event)
       (aBind (outDB (onPlugin (CancellationFinalizedNotification (notifyEnv env) (big_Uint64 (cfe_TokenId event))
          (cfe_TxHash event)))) (\<lambda>e. e) (\<lambda>_.
        aBind (inDB (RemoveCancellationSubscription (cfe_TokenId event))) (\<lambda>e. e) (\<lambda>_.
          inDB DB_Commit)))"

definition getAllCancellationSubscriptionTokenIDs :: "(eventListener, int list) act" where
  "getAllCancellationSubscriptionTokenIDs =
     session (wrap ''failed to create db session: '')
       (aBind (inDB GetAllCancellationSubscriptions) (wrap ''error getting all cancellation subscriptions from db: '') aRet)"

definition pendingOfProposal :: "int \<Rightarrow> cancellationProposal \<Rightarrow> cancellationReasons \<Rightarrow> pendingNotification" where
  "pendingOfProposal tokenID c reasons =
     \<lparr>pn_TokenId = big_Uint64 tokenID, pn_InitialProposer = InitialProposer c, pn_CurrentProposer = CurrentProposer c,
      pn_RefundAmount = big_Uint64 (RefundAmount c), pn_OwnerAccepted = OwnerAccepted c,
      pn_SupplierAccepted = SupplierAccepted c, pn_TimesCountered = ucast (TimesCountered c),
      pn_TimesRejected = ucast (TimesRejected c), pn_TxId = 0,
      pn_CancellationReason = uint (CancellationReason reasons), pn_RejectionReason = uint (RejectionReason reasons),
      pn_CounterReason = uint (CounterReason reasons), pn_WithdrawalReason = uint (WithdrawalReason reasons)\<rparr>"

text \<open>One token of the startup check: what its proposal at the starting block asks for.\<close>

definition startupCancellationToken :: "listener_env \<Rightarrow> int \<Rightarrow> (eventListener, unit) act" where
  "startupCancellationToken env tokenID = (\<lambda>l.
     let blk = Some (startingBlockNumber l);
         reasonsThen = (\<lambda>k. aBind (onBooking (GetCancellationReasons (benv env) blk tokenID))
                              (forToken ''error getting cancellation reasons for token '' tokenID) k)
     in aBind (onBooking (GetCancellationProposal (benv env) blk tokenID))
          (forToken ''error getting cancellation proposal for token '' tokenID) (\<lambda>cancellation.
          let st = proposal_Status cancellation in
          if st = ProposalStatusNoProposal then aRet ()
          else if st = ProposalStatusPending then
            reasonsThen (\<lambda>reasons. aBind (onPlugin (CancellationPendingNotification (notifyEnv env)
                (pendingOfProposal tokenID cancellation reasons)))
              (forToken ''error sending CancellationPending notification for token '' tokenID) aRet)
          else if st = ProposalStatusRejected then
            reasonsThen (\<lambda>reasons. aBind (onPlugin (CancellationRejectedNotification (notifyEnv env) (big_Uint64 tokenID)
                (uint (RejectionReason reasons)) 0))
              (forToken ''error sending CancellationRejected notification for token '' tokenID) aRet)
          else if st = ProposalStatusWithdrawn then
            reasonsThen (\<lambda>reasons. aBind (onPlugin (CancellationWithdrawnNotification (notifyEnv env) (big_Uint64 tokenID)
                (uint (WithdrawalReason reasons)) 0))
              (forToken ''error sending CancellationWithdrawn notification for token '' tokenID) aRet)
          else if st = ProposalStatusFinalized then
            session (wrap ''failed to create db session: '')
              (aBind (outDB (onPlugin (CancellationFinalizedNotification (notifyEnv env) (big_Uint64 tokenID) 0)))
                 (forToken ''error sending CancellationFinalized notification for token '' tokenID) (\<lambda>_.
               aBind (inDB (RemoveCancellationSubscription tokenID))
                 (forToken ''error removing CancellationFinalized subscription from db for token '' tokenID) (\<lambda>_.
               aBind (inDB DB_Commit) (wrap ''failed to commit db session: '') aRet)))
          else aFail (Err [PStr ''unknown cancellation proposal status for token '', PInt tokenID, PStr '': '', PInt (uint st)] [])) l)"

fun startupCancellation :: "listener_env \<Rightarrow> int list \<Rightarrow> (eventListener, unit) act" where
  "startupCancellation env [] = aRet ()"
| "startupCancellation env (tokenID # tokenIDs) =
     aBind (startupCancellationToken env tokenID) (\<lambda>e. e) (\<lambda>_. startupCancellation env tokenIDs)"

definition cancellationSubscriptionsStartupCheck :: "listener_env \<Rightarrow> (eventListener, unit) act" where
  "cancellationSubscriptionsStartupCheck env =
     aBind getAllCancellationSubscriptionTokenIDs (wrap ''error getting cancellation subscription token IDs: '') (\<lambda>tokenIDs.
       startupCancellation env tokenIDs)"

definition startCancellationSubscriptions :: "listener_env \<Rightarrow> (eventListener, unit) act" where
  "startCancellationSubscriptions env =
     aBind (cancellationSubscriptionsStartupCheck env) (wrap ''cancellation subscriptions startup check error: '') (\<lambda>_ l.
       (Ok (), l\<lparr>cancellationFeed := OpenFeed\<rparr>))"

section \<open>Starting and stopping (event_listener.go)\<close>

definition eventListener_Start :: "listener_env \<Rightarrow> time \<Rightarrow> (eventListener, unit) act" where
  "eventListener_Start env now =
     aBind (startTokenBoughtSubscriptions env now) (wrap ''failed to start token bought subscriptions: '') (\<lambda>_.
     aBind (startCancellationSubscriptions env) (wrap ''failed to start cancellation subscriptions: '') aRet)"

text \<open>Unsubscribing closes the channel of the events, which panics the second time.\<close>

definition closeFeed :: "feed \<Rightarrow> feed res" where
  "closeFeed f = (case f of NoFeed \<Rightarrow> Ok NoFeed | OpenFeed \<Rightarrow> Ok ClosedFeed | ClosedFeed \<Rightarrow> Panic [PStr ''close of closed channel''])"

definition eventListener_Stop :: "(eventListener, unit) act" where
  "eventListener_Stop = (\<lambda>l.
     aBind (aLift (closeFeed (tokenBoughtFeed l))) (\<lambda>e. e) (\<lambda>f.
     aBind (\<lambda>l. if f = NoFeed then (Ok (), l) else timer_Stop (l\<lparr>tokenBoughtFeed := f\<rparr>)) (\<lambda>e. e) (\<lambda>_.
     aBind (aLift (closeFeed (cancellationFeed l))) (\<lambda>e. e) (\<lambda>g l.
       (Ok (), l\<lparr>cancellationFeed := g\<rparr>)))) l)"

section \<open>The subscriber (subscriber.go)\<close>

text \<open>The goroutine of a subscription: the number of the block from which a resubscription starts is
  the last non-zero result of a handler. All subscriptions share it.\<close>

definition storeBlock :: "uint64 \<Rightarrow> uint64 \<Rightarrow> uint64" where
  "storeBlock blockNumber processed = (if processed \<noteq> 0 then processed else blockNumber)"

fun eventLoop :: "('e \<Rightarrow> (eventListener, uint64) act) \<Rightarrow> 'e list \<Rightarrow> uint64 \<Rightarrow> (eventListener, uint64) act" where
  "eventLoop handler [] blockNumber = aRet blockNumber"
| "eventLoop handler (e # es) blockNumber =
     aBind (handler e) (\<lambda>e. e) (\<lambda>processed. eventLoop handler es (storeBlock blockNumber processed))"

section \<open>Reasoning about sessions\<close>

abbreviation tables :: "eventListener \<Rightarrow> subscriptions" where "tables l \<equiv> committed (storage l)"

text \<open>\<open>frame l l'\<close>: only the database, the plugin and the booking service changed, and no notification that
  was delivered is forgotten.\<close>

definition frame :: "eventListener \<Rightarrow> eventListener \<Rightarrow> bool" where
  "frame l l' \<longleftrightarrow> l' = l\<lparr>storage := storage l', plugin := plugin l', booking := booking l'\<rparr> \<and>
     faults (storage l') = faults (storage l) \<and> (\<exists>ns. delivered (plugin l') = delivered (plugin l) @ ns)"

lemma frame_refl [simp]: "frame l l" by (simp add: frame_def)

lemma frame_trans: "frame l l1 \<Longrightarrow> frame l1 l2 \<Longrightarrow> frame l l2"
  unfolding frame_def by (cases l; cases l1; cases l2) auto

lemma frame_fields:
  "frame l l' \<Longrightarrow> tokenBoughtTimer l' = tokenBoughtTimer l"
  "frame l l' \<Longrightarrow> tokenBoughtTimerSubscription l' = tokenBoughtTimerSubscription l"
  "frame l l' \<Longrightarrow> startingBlockNumber l' = startingBlockNumber l"
  "frame l l' \<Longrightarrow> faults (storage l') = faults (storage l)"
  unfolding frame_def by (cases l; cases l'; simp)+

record outer_state =
  opl :: plugin_state
  obk :: accounts_service

definition outer :: "eventListener \<Rightarrow> outer_state" where "outer l = \<lparr>opl = plugin l, obk = booking l\<rparr>"

text \<open>\<open>inwork F m R\<close>: within an open session of a database with the failures \<open>F\<close> \<open>m\<close> does not commit; \<open>R\<close> relates the working
  tables, the plugin and the booking service before, the result, and all of them after.\<close>

definition inwork ::
  "(nat \<Rightarrow> err option) \<Rightarrow> (in_session, 'a) act \<Rightarrow> (subscriptions \<Rightarrow> outer_state \<Rightarrow> 'a res \<Rightarrow> subscriptions \<Rightarrow> outer_state \<Rightarrow> bool) \<Rightarrow> bool" where
  "inwork F m R \<longleftrightarrow> (\<forall>s l r s' l'. faults (storage l) = F \<longrightarrow> m (s, l) = (r, s', l') \<longrightarrow>
     frame l l' \<and> tables l' = tables l \<and> tx_done s' = tx_done s \<and> sess_committed s' = sess_committed s \<and>
     R (working s) (outer l) r (working s') (outer l'))"

text \<open>\<open>ends F m Q\<close>: started in an open session, \<open>m\<close> leaves the committed tables as \<open>Q\<close> says.\<close>

definition ends ::
  "(nat \<Rightarrow> err option) \<Rightarrow> (in_session, 'a) act \<Rightarrow>
     (subscriptions \<Rightarrow> subscriptions \<Rightarrow> outer_state \<Rightarrow> 'a res \<Rightarrow> subscriptions \<Rightarrow> outer_state \<Rightarrow> bool) \<Rightarrow> bool" where
  "ends F m Q \<longleftrightarrow> (\<forall>s l r s' l'. faults (storage l) = F \<longrightarrow> \<not> tx_done s \<longrightarrow> \<not> sess_committed s \<longrightarrow> m (s, l) = (r, s', l') \<longrightarrow>
     frame l l' \<and> Q (tables l) (working s) (outer l) r (tables l') (outer l'))"

lemma inworkD:
  assumes "inwork F m P" and "faults (storage l) = F" and "m (s, l) = (r, s', l')"
  shows "frame l l'" "tables l' = tables l" "tx_done s' = tx_done s" "sess_committed s' = sess_committed s"
    "P (working s) (outer l) r (working s') (outer l')" "faults (storage l') = F"
  using assms unfolding inwork_def frame_def by metis+

lemma endsD:
  assumes "ends F m Q" and "faults (storage l) = F" and "\<not> tx_done s" and "\<not> sess_committed s" and "m (s, l) = (r, s', l')"
  shows "frame l l'" "Q (tables l) (working s) (outer l) r (tables l') (outer l')"
  using assms unfolding ends_def by metis+

lemma ends_mono: "ends F m P \<Longrightarrow> (\<And>c d p r c' p'. P c d p r c' p' \<Longrightarrow> Q c d p r c' p') \<Longrightarrow> ends F m Q"
  by (auto simp: ends_def)

lemma inwork_mono: "inwork F m P \<Longrightarrow> (\<And>d p r d' p'. P d p r d' p' \<Longrightarrow> Q d p r d' p') \<Longrightarrow> inwork F m Q"
  by (auto simp: inwork_def)

lemma driver_keeps_faults:
  "dbExecR f db s = (r, s', db') \<Longrightarrow> faults db' = faults db"
  "dbExec g db s = (r2, s', db') \<Longrightarrow> faults db' = faults db"
  "dbQuery q db s = (r3, s', db') \<Longrightarrow> faults db' = faults db"
  by (auto simp: dbExecR_def dbExec_def dbQuery_def driver_call_def split: option.splits res.splits)

lemma dbBind_keeps_faults:
  assumes "dbBind m w k db s = (r, s', db')"
    and "\<And>r s' db'. m db s = (r, s', db') \<Longrightarrow> faults db' = faults db"
    and "\<And>v s db r s' db'. k v db s = (r, s', db') \<Longrightarrow> faults db' = faults db"
  shows "faults db' = faults db"
  using assms by (auto simp: dbBind_def split: prod.splits res.splits)

definition calm :: "('d, 'a) dbm \<Rightarrow> bool" where
  "calm m \<longleftrightarrow> (\<forall>db s r s' db'. m db s = (r, s', db') \<longrightarrow> faults db' = faults db)"

lemma calm_prims: "calm (dbExecR f)" "calm (dbExec g)" "calm (dbQuery q)" "calm (dbRet v)" "calm (dbFail e)"
  by (auto simp: calm_def driver_keeps_faults dbRet_def dbFail_def)

lemma calm_bind: "calm m \<Longrightarrow> (\<And>v. calm (k v)) \<Longrightarrow> calm (dbBind m w k)"
  unfolding calm_def using dbBind_keeps_faults by metis

lemma calm_ops:
  "calm (AddTokenBoughtSubscription sub)" "calm (RemoveTokenBoughtSubscription i)" "calm (GetTokenBoughtSubscription i)"
  "calm (AddCancellationSubscription i)" "calm (RemoveCancellationSubscription i)" "calm (IsCancellationSubscriptionExist i)"
  "calm GetAllTokenBoughtSubscriptions" "calm GetAllCancellationSubscriptions" "calm (GetTokenBoughtSubscriptionByMinTimeout pick)"
  by (auto simp: AddTokenBoughtSubscription_def RemoveTokenBoughtSubscription_def GetTokenBoughtSubscription_def
      AddCancellationSubscription_def RemoveCancellationSubscription_def IsCancellationSubscriptionExist_def dbExecOne_def
      GetAllTokenBoughtSubscriptions_def GetAllCancellationSubscriptions_def GetTokenBoughtSubscriptionByMinTimeout_def
      intro!: calm_bind calm_prims split: list.splits)

lemma inwork_db:
  assumes "dbwork m P" and "calm m"
  shows "inwork F (inDB m) (\<lambda>d p r d' p'. p' = p \<and> (\<forall>v. r = Ok v \<longrightarrow> P d v d'))"
  unfolding inwork_def
proof (intro allI impI)
  fix s l r s' l' assume "inDB m (s, l) = (r, s', l')"
  then obtain db where m: "m (storage l) s = (r, s', db)" and l': "l' = l\<lparr>storage := db\<rparr>"
    by (auto simp: inDB_def split: prod.splits)
  show "frame l l' \<and> tables l' = tables l \<and> tx_done s' = tx_done s \<and> sess_committed s' = sess_committed s \<and>
     outer l' = outer l \<and> (\<forall>v. r = Ok v \<longrightarrow> P (working s) v (working s'))"
    using dbwork_dest[OF assms(1) m] assms(2) m l' by (auto simp: frame_def calm_def outer_def)
qed

lemma inwork_plugin:
  "inwork F (outDB (onPlugin (callPlugin env n))) (\<lambda>d p r d' p'. d' = d \<and> obk p' = obk p \<and> r = env (attempted (opl p)) n \<and>
     delivered (opl p') = (case r of Ok _ \<Rightarrow> delivered (opl p) @ [n] | _ \<Rightarrow> delivered (opl p)))"
  unfolding inwork_def
proof (intro allI impI)
  fix s l r s' l' assume "outDB (onPlugin (callPlugin env n)) (s, l) = (r, s', l')"
  then obtain q where c: "callPlugin env n (plugin l) = (r, q)" and "s' = s" "l' = l\<lparr>plugin := q\<rparr>"
    by (auto simp: outDB_def onPlugin_def split: prod.splits)
  then show "frame l l' \<and> tables l' = tables l \<and> tx_done s' = tx_done s \<and> sess_committed s' = sess_committed s \<and>
     working s' = working s \<and> obk (outer l') = obk (outer l) \<and> r = env (attempted (opl (outer l))) n \<and>
     delivered (opl (outer l')) = (case r of Ok _ \<Rightarrow> delivered (opl (outer l)) @ [n] | _ \<Rightarrow> delivered (opl (outer l)))"
    using callPlugin_cases[OF c] by (auto simp: frame_def outer_def split: res.splits)
qed

lemma inwork_booking:
  "inwork F (outDB (onBooking m)) (\<lambda>d p r d' p'. d' = d \<and> opl p' = opl p \<and> m (obk p) = (r, obk p'))"
  by (auto simp: inwork_def outDB_def onBooking_def frame_def outer_def split: prod.splits)

lemma inwork_ret: "inwork F (aRet v) (\<lambda>d p r d' p'. r = Ok v \<and> d' = d \<and> p' = p)"
  by (auto simp: inwork_def)

lemma inwork_fail: "inwork F (aFail e) (\<lambda>d p r d' p'. r = Fail e \<and> d' = d \<and> p' = p)"
  by (auto simp: inwork_def)

lemma ends_work:
  assumes "inwork F m P" and "\<And>c d p r d' p'. P d p r d' p' \<Longrightarrow> Q c d p r c p'"
  shows "ends F m Q"
  unfolding ends_def
proof (intro allI impI)
  fix s l r s' l' assume "faults (storage l) = F" "m (s, l) = (r, s', l')"
  note w = inworkD[OF assms(1) this]
  show "frame l l' \<and> Q (tables l) (working s) (outer l) r (tables l') (outer l')"
    using w(1) assms(2)[OF w(5)] w(2) by simp
qed

lemma ends_try:
  assumes "inwork F m P" and "\<And>v. ends F (ok v) (Q v)" and "\<And>e. ends F (bad e) (B e)"
  shows "ends F (aTry m ok bad) (\<lambda>c d p r c' p'.
     (\<exists>v d1 p1. P d p (Ok v) d1 p1 \<and> Q v c d1 p1 r c' p') \<or>
     (\<exists>e d1 p1. P d p (Fail e) d1 p1 \<and> B e c d1 p1 r c' p') \<or>
     (\<exists>t d1. P d p (Panic t) d1 p' \<and> r = Panic t \<and> c' = c))"
  unfolding ends_def
proof (intro allI impI)
  fix s l r s' l' assume F: "faults (storage l) = F" and o: "\<not> tx_done s" "\<not> sess_committed s" and b: "aTry m ok bad (s, l) = (r, s', l')"
  obtain r1 s1 l1 where m: "m (s, l) = (r1, s1, l1)" by (metis prod.exhaust)
  note w = inworkD[OF assms(1) F m]
  show "frame l l' \<and> ((\<exists>v d1 p1. P (working s) (outer l) (Ok v) d1 p1 \<and> Q v (tables l) d1 p1 r (tables l') (outer l')) \<or>
     (\<exists>e d1 p1. P (working s) (outer l) (Fail e) d1 p1 \<and> B e (tables l) d1 p1 r (tables l') (outer l')) \<or>
     (\<exists>t d1. P (working s) (outer l) (Panic t) d1 (outer l') \<and> r = Panic t \<and> tables l' = tables l))"
  proof (cases r1)
    case (Ok v)
    then have "ok v (s1, l1) = (r, s', l')" using b m by (simp add: aTry_def)
    note e = endsD[OF assms(2) w(6) _ _ this]
    show ?thesis using e w o Ok frame_trans[OF w(1)] by auto
  next
    case (Fail e)
    then have "bad e (s1, l1) = (r, s', l')" using b m by (simp add: aTry_def)
    note e = endsD[OF assms(3) w(6) _ _ this]
    show ?thesis using e w o Fail frame_trans[OF w(1)] by auto
  next
    case (Panic t)
    then show ?thesis using w b m by (auto simp: aTry_def)
  qed
qed

lemma aBind_as_try: "aBind m w k = aTry m k (\<lambda>e. aFail (w e))"
  by (rule ext) (simp add: aBind_def aTry_def split: prod.split res.split)

lemma ends_bind:
  assumes "inwork F m P" and "\<And>v. ends F (k v) (Q v)"
  shows "ends F (aBind m w k) (\<lambda>c d p r c' p'.
     (\<exists>v d1 p1. P d p (Ok v) d1 p1 \<and> Q v c d1 p1 r c' p') \<or>
     (\<exists>e d1. P d p (Fail e) d1 p' \<and> r = Fail (w e) \<and> c' = c) \<or>
     (\<exists>t d1. P d p (Panic t) d1 p' \<and> r = Panic t \<and> c' = c))"
proof -
  have f: "ends F (aFail (w e)) (\<lambda>c d p r c' p'. r = Fail (w e) \<and> c' = c \<and> p' = p)" for e
    by (rule ends_work[OF inwork_fail]) auto
  show ?thesis
    unfolding aBind_as_try by (rule ends_mono[OF ends_try[OF assms(1) assms(2) f]]) auto
qed

lemma inwork_bind:
  assumes "inwork F m P" and "\<And>v. inwork F (k v) (Q v)"
  shows "inwork F (aBind m w k) (\<lambda>d p r d' p'.
     (\<exists>v d1 p1. P d p (Ok v) d1 p1 \<and> Q v d1 p1 r d' p') \<or>
     (\<exists>e. P d p (Fail e) d' p' \<and> r = Fail (w e)) \<or> (\<exists>t. P d p (Panic t) d' p' \<and> r = Panic t))"
  unfolding inwork_def
proof (intro allI impI)
  fix s l r s' l' assume F: "faults (storage l) = F" and b: "aBind m w k (s, l) = (r, s', l')"
  obtain r1 s1 l1 where m: "m (s, l) = (r1, s1, l1)" by (metis prod.exhaust)
  note w = inworkD[OF assms(1) F m]
  show "frame l l' \<and> tables l' = tables l \<and> tx_done s' = tx_done s \<and> sess_committed s' = sess_committed s \<and>
     ((\<exists>v d1 p1. P (working s) (outer l) (Ok v) d1 p1 \<and> Q v d1 p1 r (working s') (outer l')) \<or>
     (\<exists>e. P (working s) (outer l) (Fail e) (working s') (outer l') \<and> r = Fail (w e)) \<or>
     (\<exists>t. P (working s) (outer l) (Panic t) (working s') (outer l') \<and> r = Panic t))"
  proof (cases r1)
    case (Ok v)
    then have "k v (s1, l1) = (r, s', l')" using b m by (simp add: aBind_def)
    note e = inworkD[OF assms(2) w(6) this]
    show ?thesis using e w Ok frame_trans[OF w(1) e(1)] by auto
  qed (use w b m in \<open>auto simp: aBind_def\<close>)
qed

lemma ends_commit:
  "ends F (inDB DB_Commit) (\<lambda>c d p r c' p'. p' = p \<and> (r = Ok () \<and> c' = d \<or> (\<exists>e. r = Fail e) \<and> c' = c))"
  by (auto simp: ends_def inDB_def DB_Commit_eq frame_def outer_def split: prod.splits option.splits if_splits)

lemma ends_commit_then:
  "ends F (aBind (inDB DB_Commit) w (\<lambda>_. aRet v)) (\<lambda>c d p r c' p'. p' = p \<and> (r = Ok v \<and> c' = d \<or> (\<exists>e. r = Fail e) \<and> c' = c))"
  by (auto simp: ends_def inDB_def aBind_def DB_Commit_eq frame_def outer_def split: prod.splits option.splits if_splits)

lemma session_ends:
  assumes "ends (faults (storage l)) body Q" and "session w body l = (r, l')"
  shows "frame l l' \<and> ((\<exists>e. r = Fail e) \<and> tables l' = tables l \<and> outer l' = outer l \<or>
     Q (tables l) (tables l) (outer l) r (tables l') (outer l'))"
proof (cases "faults (storage l) (db_calls (storage l))")
  case (Some e)
  then show ?thesis using assms(2) by (auto simp: session_def NewSession_def driver_call_def frame_def outer_def)
next
  case None
  let ?s = "\<lparr>working = tables l, tx_done = False, sess_committed = False\<rparr>"
  let ?l = "l\<lparr>storage := (storage l)\<lparr>db_calls := Suc (db_calls (storage l))\<rparr>\<rparr>"
  obtain r2 s2 l2 where b: "body (?s, ?l) = (r2, s2, l2)" by (metis prod.exhaust)
  have fs: "faults (storage ?l) = faults (storage l)" by simp
  note e = endsD[OF assms(1) fs _ _ b, simplified]
  have o: "outer ?l = outer l" by (simp add: outer_def)
  obtain s3 db3 where a: "DB_Abort (storage l2) s2 = (s3, db3)" by fastforce
  have f3: "faults db3 = faults (storage l2)" using a
    by (auto simp: session_defs split: if_splits option.splits)
  have r: "r = r2" "l' = l2\<lparr>storage := db3\<rparr>"
    using assms(2) None b a by (auto simp: session_def NewSession_def driver_call_def)
  have "frame l ?l" "frame l2 l'" using r f3 by (simp_all add: frame_def)
  then have "frame l l'" using frame_trans e(1) by blast
  then show ?thesis using e(2) r DB_Abort_keeps[OF a] o by (simp add: outer_def)
qed

section \<open>The timer follows the table\<close>

definition timerFor :: "listener_env \<Rightarrow> time \<Rightarrow> tb_row list \<Rightarrow> eventListener \<Rightarrow> bool" where
  "timerFor env now rows l \<longleftrightarrow>
     (if rows = [] then tokenBoughtTimerSubscription l = None \<and> tokenBoughtTimer l = IdleTimer
      else let sub = modelFromTokenBoughtSubscription (pickRow env (minRows rows))
           in tokenBoughtTimerSubscription l = Some sub \<and> tokenBoughtTimer l = Armed (timeUntil now (Timeout sub)))"

definition same_outside_timer :: "eventListener \<Rightarrow> eventListener \<Rightarrow> bool" where
  "same_outside_timer l l' \<longleftrightarrow> tables l' = tables l \<and> plugin l' = plugin l \<and> booking l' = booking l \<and>
     faults (storage l') = faults (storage l) \<and> startingBlockNumber l' = startingBlockNumber l \<and>
     recordTokenExpiration l' = recordTokenExpiration l \<and> tokenBoughtTimer l' \<noteq> NilTimer"

lemma resetFromDB_result:
  assumes "tokenBoughtTimer l \<noteq> NilTimer" and "resetTokenBoughtTimerFromDB env now l = (r, l')"
  shows "r = Ok () \<and> same_outside_timer l l' \<and>
    (faults (storage l) = (\<lambda>_. None) \<longrightarrow> timerFor env now (token_bought_subscriptions (tables l)) l')"
proof (cases "faults (storage l) (db_calls (storage l)) = None \<and> faults (storage l) (Suc (db_calls (storage l))) = None")
  case True
  show ?thesis
  proof (cases "minRows (token_bought_subscriptions (tables l))")
    case Nil
    then show ?thesis using True assms
      by (auto simp: resetTokenBoughtTimerFromDB_def aBind_def aTry_def timer_Stop_def session_def NewSession_def driver_call_def
          inDB_def GetTokenBoughtSubscriptionByMinTimeout_def dbBind_def dbQuery_def dbFail_def same_outside_timer_def timerFor_def
          session_defs split: option.splits)
  next
    case (Cons q qs)
    then have "token_bought_subscriptions (tables l) \<noteq> []" by (metis minRows_Nil_iff list.distinct(1))
    then show ?thesis using True assms Cons
      by (auto simp: resetTokenBoughtTimerFromDB_def aBind_def aTry_def timer_Stop_def session_def NewSession_def driver_call_def
          inDB_def outDB_def armTimer_def GetTokenBoughtSubscriptionByMinTimeout_def dbBind_def dbQuery_def dbRet_def
          same_outside_timer_def timerFor_def session_defs Let_def split: option.splits)
  qed
next
  case False
  then show ?thesis using assms
    by (auto simp: resetTokenBoughtTimerFromDB_def aBind_def aTry_def timer_Stop_def session_def NewSession_def driver_call_def
        inDB_def GetTokenBoughtSubscriptionByMinTimeout_def dbBind_def dbQuery_def same_outside_timer_def session_defs
        split: option.splits)
qed

lemma resetIfMatch_result:
  assumes "tokenBoughtTimer l \<noteq> NilTimer" and "resetTokenBoughtTimerIfMatch env now i l = (r, l')"
  shows "r = Ok () \<and> same_outside_timer l l' \<and>
    ((\<exists>sub. tokenBoughtTimerSubscription l = Some sub \<and> TokenID sub \<noteq> i) \<and> l' = l \<or>
     (faults (storage l) = (\<lambda>_. None) \<longrightarrow> timerFor env now (token_bought_subscriptions (tables l)) l'))"
  using assms resetFromDB_result[OF assms(1), of env now r l']
  by (auto simp: resetTokenBoughtTimerIfMatch_def same_outside_timer_def split: option.splits if_splits)

section \<open>What the handlers do\<close>

definition saneDB :: "(nat \<Rightarrow> err option) \<Rightarrow> bool" where
  "saneDB F \<longleftrightarrow> (\<forall>n e. F n = Some e \<longrightarrow> \<not> errors_Is e ''not found'')"

lemma GetTokenBoughtSubscription_eq:
  "GetTokenBoughtSubscription i db s =
     (case faults db (db_calls db) of
        Some e \<Rightarrow> Fail (wrap ''failed to execute get token bought subscription statement: '' e)
      | None \<Rightarrow> (case filter (\<lambda>r. token_id r = big_Int64 i) (token_bought_subscriptions (working s)) of
                   [] \<Rightarrow> Fail ErrSubscriptionNotFound
                 | q # _ \<Rightarrow> Ok (modelFromTokenBoughtSubscription q)),
      s, db\<lparr>db_calls := Suc (db_calls db)\<rparr>)"
  by (simp add: GetTokenBoughtSubscription_def dbBind_def dbQuery_def driver_call_def dbRet_def dbFail_def
      split: option.split list.split)

lemma inwork_get:
  assumes "saneDB F"
  shows "inwork F (inDB (GetTokenBoughtSubscription i)) (\<lambda>d p r d' p'. d' = d \<and> p' = p \<and>
     (case r of
        Ok sub \<Rightarrow> \<exists>row \<in> set (token_bought_subscriptions d). token_id row = big_Int64 i \<and> sub = modelFromTokenBoughtSubscription row
      | Fail e \<Rightarrow> errors_Is e ''not found'' \<longrightarrow> (\<forall>row \<in> set (token_bought_subscriptions d). token_id row \<noteq> big_Int64 i)
      | Panic _ \<Rightarrow> False))"
  unfolding inwork_def
proof (intro allI impI)
  fix s l r s' l' assume F: "faults (storage l) = F" and m: "inDB (GetTokenBoughtSubscription i) (s, l) = (r, s', l')"
  let ?rows = "filter (\<lambda>r. token_id r = big_Int64 i) (token_bought_subscriptions (working s))"
  let ?R = "case r of
        Ok sub \<Rightarrow> \<exists>row \<in> set (token_bought_subscriptions (working s)). token_id row = big_Int64 i \<and> sub = modelFromTokenBoughtSubscription row
      | Fail e \<Rightarrow> errors_Is e ''not found'' \<longrightarrow> (\<forall>row \<in> set (token_bought_subscriptions (working s)). token_id row \<noteq> big_Int64 i)
      | Panic _ \<Rightarrow> False"
  have l': "s' = s" "l' = l\<lparr>storage := (storage l)\<lparr>db_calls := Suc (db_calls (storage l))\<rparr>\<rparr>"
    using m by (simp_all add: inDB_def GetTokenBoughtSubscription_eq)
  have r: "r = fst (GetTokenBoughtSubscription i (storage l) s)"
    using m by (auto simp: inDB_def split: prod.splits)
  have ?R
  proof (cases "F (db_calls (storage l))")
    case None
    show ?thesis
    proof (cases ?rows)
      case Nil
      then show ?thesis using r None F by (simp add: GetTokenBoughtSubscription_eq filter_empty_conv)
    next
      case (Cons q qs)
      then have "q \<in> {x \<in> set (token_bought_subscriptions (working s)). token_id x = big_Int64 i}"
        by (metis list.set_intros(1) set_filter)
      then show ?thesis using r None F Cons by (auto simp: GetTokenBoughtSubscription_eq)
    qed
  next
    case (Some e)
    then show ?thesis using r F assms by (simp add: GetTokenBoughtSubscription_eq saneDB_def)
  qed
  then show "frame l l' \<and> tables l' = tables l \<and> tx_done s' = tx_done s \<and> sess_committed s' = sess_committed s \<and>
     working s' = working s \<and> outer l' = outer l \<and> ?R"
    using l' by (simp add: frame_def outer_def)
qed

end
