(* ===== verification/Event_Handlers.thy ===== *)
theory Event_Handlers
  imports Event_Listener
begin

text \<open>
  What the event listener guarantees: the outcomes of the handlers of the five contract events as one
  contract that all of them implement, that no subscription disappears without its notification,
  that the timer follows the earliest reservation, and how handlers interleave.
\<close>

section \<open>The contract of an event handler\<close>

text \<open>
  \<open>subscribed d e\<close>: the tables \<open>d\<close> have a subscription for the token of the event \<open>e\<close>;
  \<open>processed d e ns d'\<close>: processing it delivers the notifications \<open>ns\<close> and leaves the tables \<open>d'\<close>.
  A handler ends in one of three ways: it failed and left the tables alone, the event is not
  subscribed and nothing happened, or it was processed completely.
\<close>

locale event_handler =
  fixes handle :: "'e \<Rightarrow> eventListener \<Rightarrow> uint64 res \<times> eventListener"
    and ready :: "eventListener \<Rightarrow> bool"
    and block :: "'e \<Rightarrow> uint64"
    and subscribed :: "subscriptions \<Rightarrow> 'e \<Rightarrow> bool"
    and processed :: "eventListener \<Rightarrow> 'e \<Rightarrow> notification list \<Rightarrow> subscriptions \<Rightarrow> bool"
  assumes outcome: "ready l \<Longrightarrow> handle e l = (r, l') \<Longrightarrow>
      (r = Ok 0 \<or> (\<exists>t. r = Panic t)) \<and> tables l' = tables l \<or>
      r = Ok (block e) \<and> \<not> subscribed (tables l) e \<and> tables l' = tables l \<and> plugin l' = plugin l \<or>
      r = Ok (block e) \<and> subscribed (tables l) e \<and>
        (\<exists>ns. delivered (plugin l') = delivered (plugin l) @ ns \<and> processed l e ns (tables l'))"
    and ready_kept: "ready l \<Longrightarrow> handle e l = (r, l') \<Longrightarrow> ready l'"
    and processed_notifies: "processed l e ns d' \<Longrightarrow> ns \<noteq> []"
begin

text \<open>A handler that changes the tables has notified the plugin.\<close>

lemma changes_only_with_notification:
  assumes "ready l" and "handle e l = (r, l')" and "tables l' \<noteq> tables l"
  shows "r = Ok (block e) \<and> subscribed (tables l) e \<and>
    (\<exists>ns. ns \<noteq> [] \<and> delivered (plugin l') = delivered (plugin l) @ ns \<and> processed l e ns (tables l'))"
  using outcome[OF assms(1,2)] assms(3) processed_notifies by blast

text \<open>A non-zero result means that the event needs no further processing.\<close>

lemma nonzero_is_done:
  assumes "ready l" and "handle e l = (Ok n, l')" and "n \<noteq> 0"
  shows "n = block e \<and> (\<not> subscribed (tables l) e \<and> tables l' = tables l \<and> plugin l' = plugin l \<or>
    (\<exists>ns. delivered (plugin l') = delivered (plugin l) @ ns \<and> processed l e ns (tables l')))"
  using outcome[OF assms(1,2)] assms(3) by auto

text \<open>The loop of the subscriber: if it does not panic, the block number it ends with is the one it
  started with or that of an event of the loop.\<close>

lemma eventLoop_block:
  "ready l \<Longrightarrow> eventLoop handle es b l = (Ok n, l') \<Longrightarrow> ready l' \<and> (n = b \<or> n \<in> block ` set es)"
proof (induction es arbitrary: b l)
  case (Cons e es)
  obtain v l1 where h: "handle e l = (Ok v, l1)" and k: "eventLoop handle es (storeBlock b v) l1 = (Ok n, l')"
    using Cons.prems(2) by (auto elim: aBind_OkE)
  have "storeBlock b v = b \<or> storeBlock b v = block e"
    using outcome[OF Cons.prems(1) h] by (auto simp: storeBlock_def)
  then show ?case using Cons.IH[OF ready_kept[OF Cons.prems(1) h] k] by auto
qed simp

end

section \<open>The sale of a token\<close>

definition boughtNote :: "tokenBoughtEvent \<Rightarrow> tb_row \<Rightarrow> notification" where
  "boughtNote e row = NTokenBought (big_Uint64 (sint (token_id row))) (mint_id row) (Some (tbe_TxHash e))"

definition sale_subscribed :: "subscriptions \<Rightarrow> tokenBoughtEvent \<Rightarrow> bool" where
  "sale_subscribed d e \<longleftrightarrow> (\<exists>row \<in> set (token_bought_subscriptions d). token_id row = big_Int64 (tbe_TokenId e))"

definition sold :: "bool \<Rightarrow> int \<Rightarrow> subscriptions \<Rightarrow> subscriptions" where
  "sold c i d = without_sale i (if c then with_cancellation i d else d)"

text \<open>Processing a sale: the plugin is told, the sale subscription is removed, and a cancellation
  subscription added exactly if the contract says that the booking can be cancelled.\<close>

definition sale_processed :: "listener_env \<Rightarrow> eventListener \<Rightarrow> tokenBoughtEvent \<Rightarrow> notification list \<Rightarrow> subscriptions \<Rightarrow> bool" where
  "sale_processed env l e ns d' \<longleftrightarrow>
     (\<exists>row \<in> set (token_bought_subscriptions (tables l)).
        token_id row = big_Int64 (tbe_TokenId e) \<and> ns = [boughtNote e row] \<and>
        (\<exists>c. contract_IsCancellable (benv env) (ops (booking l)) None (sint (token_id row)) = Ok c \<and>
          d' = sold c (sint (token_id row)) (tables l)))"

lemma IsBookingCancellable_Ok:
  "IsBookingCancellable env b i s = (Ok c, s') \<Longrightarrow> contract_IsCancellable env (ops s) b i = Ok c"
  by (auto simp: IsBookingCancellable_def aBind_def chainCall_def split: res.splits)

lemma inwork_maybe_add:
  "inwork F (if c then inDB (AddCancellationSubscription i) else aRet ())
     (\<lambda>d p r d' p'. p' = p \<and> (\<forall>v. r = Ok v \<longrightarrow> d' = (if c then with_cancellation i d else d)))"
proof (cases c)
  case True
  have "inwork F (inDB (AddCancellationSubscription i)) (\<lambda>d p r d' p'. p' = p \<and> (\<forall>v. r = Ok v \<longrightarrow> d' = with_cancellation i d))"
    by (rule inwork_mono[OF inwork_db[OF dbwork_AddCancellation calm_ops(4)]]) blast
  then show ?thesis using True by simp
next
  case False
  have "inwork F (aRet ()) (\<lambda>d p r d' p'. p' = p \<and> (\<forall>v. r = Ok v \<longrightarrow> d' = d))"
    by (rule inwork_mono[OF inwork_ret]) blast
  then show ?thesis using False by simp
qed

lemma inwork_notify:
  "inwork F (outDB (onPlugin (callPlugin env n))) (\<lambda>d p r d' p'. d' = d \<and> obk p' = obk p \<and>
     (\<forall>v. r = Ok v \<longrightarrow> delivered (opl p') = delivered (opl p) @ [n]))"
  by (rule inwork_mono[OF inwork_plugin]) simp

text \<open>The end of a handler that changes the tables: one more change \<open>f\<close>, then the commit.\<close>

lemma ends_change_commit:
  assumes "dbwork m (\<lambda>d u d'. d' = f d)" and "calm m"
  shows "ends F (aBind (inDB m) w (\<lambda>_. aBind (inDB DB_Commit) w' (\<lambda>_. aRet v)))
     (\<lambda>c d p r c' p'. p' = p \<and> (c' = c \<and> (\<forall>v. r \<noteq> Ok v) \<or> r = Ok v \<and> c' = f d))"
  by (rule ends_mono[OF ends_bind[OF inwork_db[OF assms] ends_commit_then]]) (elim disjE exE conjE; simp)

lemma dbwork_RemoveTokenBought': "dbwork (RemoveTokenBoughtSubscription i) (\<lambda>d u d'. d' = without_sale i d)"
  by (rule dbwork_mono[OF dbwork_RemoveTokenBought]) blast

lemma sale_body:
  "ends F (aBind (outDB (onPlugin (TokenBoughtNotificationWithBuyTx nenv i mint tx))) (\<lambda>e. e) (\<lambda>_.
           aBind (outDB (onBooking (IsBookingCancellable env None i))) (\<lambda>e. e) (\<lambda>isCancellable.
           aBind (if isCancellable then inDB (AddCancellationSubscription i) else aRet ()) (\<lambda>e. e) (\<lambda>_.
           aBind (inDB (RemoveTokenBoughtSubscription i)) (\<lambda>e. e) (\<lambda>_.
           aBind (inDB DB_Commit) (\<lambda>e. e) (\<lambda>_. aRet blk))))))
     (\<lambda>c d p r c' p'. c' = c \<and> (\<forall>v. r \<noteq> Ok v) \<or>
        r = Ok blk \<and> delivered (opl p') = delivered (opl p) @ [NTokenBought (big_Uint64 i) mint (Some tx)] \<and>
        (\<exists>cn. contract_IsCancellable env (ops (obk p)) None i = Ok cn \<and>
           c' = sold cn i d))"
proof -
  let ?rm = "aBind (inDB (RemoveTokenBoughtSubscription i)) (\<lambda>e. e) (\<lambda>_. aBind (inDB DB_Commit) (\<lambda>e. e) (\<lambda>_. aRet blk))"
  let ?add = "\<lambda>cn. aBind (if cn then inDB (AddCancellationSubscription i) else aRet ()) (\<lambda>e. e) (\<lambda>_. ?rm)"
  let ?ask = "aBind (outDB (onBooking (IsBookingCancellable env None i))) (\<lambda>e. e) ?add"
  have rm: "ends F ?rm (\<lambda>c d p r c' p'. p' = p \<and> (c' = c \<and> (\<forall>v. r \<noteq> Ok v) \<or> r = Ok blk \<and> c' = without_sale i d))"
    by (rule ends_change_commit[OF dbwork_RemoveTokenBought' calm_ops(2)])
  have add: "ends F (?add cn) (\<lambda>c d p r c' p'. p' = p \<and> (c' = c \<and> (\<forall>v. r \<noteq> Ok v) \<or>
      r = Ok blk \<and> c' = sold cn i d))" for cn
    by (rule ends_mono[OF ends_bind[OF inwork_maybe_add rm]]) (elim disjE exE conjE; simp add: sold_def)
  have ask: "ends F ?ask (\<lambda>c d p r c' p'. opl p' = opl p \<and> (c' = c \<and> (\<forall>v. r \<noteq> Ok v) \<or>
      r = Ok blk \<and> (\<exists>cn. contract_IsCancellable env (ops (obk p)) None i = Ok cn \<and>
        c' = sold cn i d)))"
    by (rule ends_mono[OF ends_bind[where k = ?add, OF inwork_booking add]]) (auto dest!: IsBookingCancellable_Ok)
  show ?thesis
    unfolding TokenBoughtNotificationWithBuyTx_def tokenBoughtNotification_def
    by (rule ends_mono[OF ends_bind[OF inwork_notify ask]]) auto
qed

lemma processSale_ends:
  assumes "saneDB F"
  shows "ends F (processSale env event)
     (\<lambda>c d p r c' p'. c' = c \<and> (\<forall>v. r \<noteq> Ok v) \<or> (\<exists>v. r = Ok v \<and> v = tbe_BlockNumber event \<and>
        (c' = c \<and> p' = p \<and> \<not> sale_subscribed d event \<or>
         (\<exists>row \<in> set (token_bought_subscriptions d). token_id row = big_Int64 (tbe_TokenId event) \<and>
           delivered (opl p') = delivered (opl p) @ [boughtNote event row] \<and>
           (\<exists>cn. contract_IsCancellable (benv env) (ops (obk p)) None (sint (token_id row)) = Ok cn \<and>
              c' = sold cn (sint (token_id row)) d)))))"
proof -
  let ?bad = "\<lambda>err. if errors_Is err ''not found'' then aRet (tbe_BlockNumber event) else aFail err"
  have bad: "ends F (?bad err) (\<lambda>c d p r c' p'. c' = c \<and> p' = p \<and>
      (if errors_Is err ''not found'' then r = Ok (tbe_BlockNumber event) else r = Fail err))" for err
    by (cases "errors_Is err ''not found''") (auto intro: ends_work[OF inwork_ret] ends_work[OF inwork_fail])
  note t = ends_try[where bad = ?bad, OF inwork_get[OF assms, of "tbe_TokenId event"] sale_body bad]
  show ?thesis
    unfolding processSale_def
    by (rule ends_mono[OF t], elim disjE exE conjE)
       (auto simp: sale_subscribed_def boughtNote_def modelFromTokenBoughtSubscription_def split: if_splits)
qed

definition listening :: "eventListener \<Rightarrow> bool" where
  "listening l \<longleftrightarrow> tokenBoughtTimer l \<noteq> NilTimer \<and> saneDB (faults (storage l))"

text \<open>\<open>ends_or_fails F m S\<close>: \<open>m\<close> fails and leaves the tables, or returns a value and does \<open>S\<close>.\<close>

definition ends_or_fails ::
  "(nat \<Rightarrow> err option) \<Rightarrow> (in_session, 'a) act \<Rightarrow>
     (subscriptions \<Rightarrow> subscriptions \<Rightarrow> outer_state \<Rightarrow> 'a \<Rightarrow> subscriptions \<Rightarrow> outer_state \<Rightarrow> bool) \<Rightarrow> bool" where
  "ends_or_fails F m S \<longleftrightarrow> ends F m (\<lambda>c d p r c' p'. c' = c \<and> (\<forall>v. r \<noteq> Ok v) \<or> (\<exists>v. r = Ok v \<and> S c d p v c' p'))"

lemma session_or_fails:
  assumes "ends_or_fails (faults (storage l)) body S" and "session w body l = (r, l')"
  shows "frame l l' \<and> ((\<forall>v. r \<noteq> Ok v) \<and> tables l' = tables l \<or>
     (\<exists>v. r = Ok v \<and> S (tables l) (tables l) (outer l) v (tables l') (outer l')))"
  using session_ends[OF assms(1)[unfolded ends_or_fails_def] assms(2)] by auto

lemma orZero_session:
  assumes "ends_or_fails (faults (storage l)) body S" and "orZero (session w body) l = (r, l')"
  shows "frame l l' \<and> ((r = Ok 0 \<or> (\<exists>t. r = Panic t)) \<and> tables l' = tables l \<or>
     (\<exists>v. r = Ok v \<and> S (tables l) (tables l) (outer l) v (tables l') (outer l')))"
proof -
  obtain r0 l0 where m: "session w body l = (r0, l0)" by (cases "session w body l")
  then have "l' = l0" "r = (case r0 of Fail e \<Rightarrow> Ok 0 | x \<Rightarrow> x)"
    using assms(2) by (auto simp: orZero_def aTry_def split: res.splits)
  then show ?thesis using session_or_fails[OF assms(1) m] by (cases r0) auto
qed

definition same_timer :: "eventListener \<Rightarrow> eventListener \<Rightarrow> bool" where
  "same_timer l l' \<longleftrightarrow> tokenBoughtTimer l' = tokenBoughtTimer l \<and> tokenBoughtTimerSubscription l' = tokenBoughtTimerSubscription l"

lemma frame_listening: "frame l l' \<Longrightarrow> listening l \<Longrightarrow> listening l'"
  by (simp add: listening_def frame_fields)

lemma sale_outcome:
  assumes "listening l" and "tokenBoughtEventHandler env now e l = (r, l')"
  shows "listening l' \<and> ((r = Ok 0 \<or> (\<exists>t. r = Panic t)) \<and> tables l' = tables l \<or>
      r = Ok (tbe_BlockNumber e) \<and> \<not> sale_subscribed (tables l) e \<and> tables l' = tables l \<and> plugin l' = plugin l \<or>
      r = Ok (tbe_BlockNumber e) \<and> sale_subscribed (tables l) e \<and>
        (\<exists>ns. delivered (plugin l') = delivered (plugin l) @ ns \<and> sale_processed env l e ns (tables l'))) \<and>
    (\<exists>ns. delivered (plugin l') = delivered (plugin l) @ ns) \<and> faults (storage l') = faults (storage l) \<and>
    (faults (storage l) = (\<lambda>_. None) \<longrightarrow>
       (\<exists>sub. tokenBoughtTimerSubscription l = Some sub \<and> TokenID sub \<noteq> tbe_TokenId e \<and> same_timer l l') \<or>
       timerFor env now (token_bought_subscriptions (tables l')) l')"
proof -
  obtain r1 l1 where m: "orZero (session (\<lambda>e. e) (processSale env e)) l = (r1, l1)"
    by (cases "orZero (session (\<lambda>e. e) (processSale env e)) l")
  obtain r2 l2 where d: "resetTokenBoughtTimerIfMatch env now (tbe_TokenId e) l1 = (r2, l2)"
    by (cases "resetTokenBoughtTimerIfMatch env now (tbe_TokenId e) l1")
  have sane: "saneDB (faults (storage l))" using assms(1) by (simp add: listening_def)
  note o = orZero_session[OF processSale_ends[OF sane, of env e, folded ends_or_fails_def] m]
  have l1: "listening l1" using o assms(1) frame_listening by blast
  then have nil: "tokenBoughtTimer l1 \<noteq> NilTimer" by (simp add: listening_def)
  note k = resetIfMatch_result[OF nil d]
  have e: "r = r1" "l' = l2" using assms(2) m d k by (auto simp: tokenBoughtEventHandler_def deferred_def)
  then have same: "listening l'" "tables l' = tables l1" "plugin l' = plugin l1" "faults (storage l') = faults (storage l1)"
    using k l1 by (auto simp: listening_def same_outside_timer_def)
  have f1: "\<exists>ns. delivered (plugin l1) = delivered (plugin l) @ ns" "faults (storage l1) = faults (storage l)"
      "tokenBoughtTimerSubscription l1 = tokenBoughtTimerSubscription l" "tokenBoughtTimer l1 = tokenBoughtTimer l"
    using frame_fields[OF conjunct1[OF o]] conjunct1[OF o] by (simp_all add: frame_def)
  have out: "(r1 = Ok 0 \<or> (\<exists>t. r1 = Panic t)) \<and> tables l1 = tables l \<or>
      r1 = Ok (tbe_BlockNumber e) \<and> \<not> sale_subscribed (tables l) e \<and> tables l1 = tables l \<and> plugin l1 = plugin l \<or>
      r1 = Ok (tbe_BlockNumber e) \<and> sale_subscribed (tables l) e \<and>
        (\<exists>ns. delivered (plugin l1) = delivered (plugin l) @ ns \<and> sale_processed env l e ns (tables l1))"
    using o by (auto simp: outer_def sale_processed_def sale_subscribed_def split: res.splits)
  have "(\<exists>sub. tokenBoughtTimerSubscription l = Some sub \<and> TokenID sub \<noteq> tbe_TokenId e) \<and> same_timer l l' \<or>
      timerFor env now (token_bought_subscriptions (tables l')) l'" if "faults (storage l) = (\<lambda>_. None)"
    using k that f1 e same(2) unfolding same_timer_def by force
  then show ?thesis using same f1 out e(1) by auto
qed

interpretation sale: event_handler "tokenBoughtEventHandler env now" listening tbe_BlockNumber sale_subscribed "sale_processed env"
proof
  fix l e r l' assume "listening l" "tokenBoughtEventHandler env now e l = (r, l')"
  note o = sale_outcome[OF this]
  show "(r = Ok 0 \<or> (\<exists>t. r = Panic t)) \<and> tables l' = tables l \<or>
      r = Ok (tbe_BlockNumber e) \<and> \<not> sale_subscribed (tables l) e \<and> tables l' = tables l \<and> plugin l' = plugin l \<or>
      r = Ok (tbe_BlockNumber e) \<and> sale_subscribed (tables l) e \<and>
        (\<exists>ns. delivered (plugin l') = delivered (plugin l) @ ns \<and> sale_processed env l e ns (tables l'))"
    using o by (elim conjE)
  show "listening l'" using o by (elim conjE)
qed (auto simp: sale_processed_def)

section \<open>Cancellation events\<close>

lemma inwork_subscribed:
  "inwork F (inDB (IsCancellationSubscriptionExist i)) (\<lambda>d p r d' p'. p' = p \<and>
     (\<forall>v. r = Ok v \<longrightarrow> d' = d \<and> v = (big_Int64 i \<in> set (cancellation_subscriptions d))))"
  by (rule inwork_db[OF dbwork_IsCancellation calm_ops(6)])

lemma ends_then_block:
  assumes "ends_or_fails F body S"
  shows "ends_or_fails F (aBind body (\<lambda>e. e) (\<lambda>_. aRet blk)) (\<lambda>c d p v c' p'. v = blk \<and> (\<exists>u. S c d p u c' p'))"
  unfolding ends_or_fails_def ends_def
proof (intro allI impI)
  fix s l r s' l' assume a: "faults (storage l) = F" "\<not> tx_done s" "\<not> sess_committed s"
    and b: "aBind body (\<lambda>e. e) (\<lambda>_. aRet blk) (s, l) = (r, s', l')"
  obtain r1 s1 l1 where m: "body (s, l) = (r1, s1, l1)" by (metis prod.exhaust)
  note e = endsD[OF assms[unfolded ends_or_fails_def] a m]
  show "frame l l' \<and> (tables l' = tables l \<and> (\<forall>v. r \<noteq> Ok v) \<or>
      (\<exists>v. r = Ok v \<and> v = blk \<and> (\<exists>u. S (tables l) (working s) (outer l) u (tables l') (outer l'))))"
    using e b m by (cases r1) (auto simp: aBind_def)
qed

lemma ifSubscribed_outcome:
  assumes body: "ends_or_fails (faults (storage l)) body S"
    and "ifSubscribed i blk body l = (r, l')"
  shows "frame l l' \<and> ((r = Ok 0 \<or> (\<exists>t. r = Panic t)) \<and> tables l' = tables l \<or>
      r = Ok blk \<and> big_Int64 i \<notin> set (cancellation_subscriptions (tables l)) \<and> tables l' = tables l \<and> plugin l' = plugin l \<or>
      r = Ok blk \<and> big_Int64 i \<in> set (cancellation_subscriptions (tables l)) \<and>
        (\<exists>u. S (tables l) (tables l) (outer l) u (tables l') (outer l')))"
proof -
  let ?F = "faults (storage l)"
  let ?k = "\<lambda>ok. if \<not> ok then aRet blk else aBind body (\<lambda>e. e) (\<lambda>_. aRet blk)"
  let ?S = "\<lambda>ok c d p v c' p'. v = blk \<and> (if ok then \<exists>u. S c d p u c' p' else c' = c \<and> p' = p)"
  let ?R = "\<lambda>ok c d p r c' p'. c' = c \<and> (\<forall>v. r \<noteq> Ok v) \<or> (\<exists>v. r = Ok v \<and> ?S ok c d p v c' p')"
  have k: "ends ?F (?k ok) (?R ok)" for ok
    using ends_then_block[OF body, of blk] by (cases ok) (simp_all add: ends_or_fails_def ends_work[OF inwork_ret])
  have "session (\<lambda>e. e) (aBind (inDB (IsCancellationSubscriptionExist i)) (\<lambda>e. e) ?k) l = (r0, l0) \<Longrightarrow>
     frame l l0 \<and> ((\<forall>v. r0 \<noteq> Ok v) \<and> tables l0 = tables l \<or> r0 = Ok blk \<and>
       (if big_Int64 i \<in> set (cancellation_subscriptions (tables l))
        then \<exists>u. S (tables l) (tables l) (outer l) u (tables l0) (outer l0) else tables l0 = tables l \<and> outer l0 = outer l))" for r0 l0
    using session_ends[OF ends_bind[where k = ?k and Q = ?R, OF inwork_subscribed k]] by fastforce
  moreover obtain r0 l0 where m: "session (\<lambda>e. e) (aBind (inDB (IsCancellationSubscriptionExist i)) (\<lambda>e. e) ?k) l = (r0, l0)"
    by (cases "session (\<lambda>e. e) (aBind (inDB (IsCancellationSubscriptionExist i)) (\<lambda>e. e) ?k) l")
  moreover have "l' = l0" "r = (case r0 of Fail e \<Rightarrow> Ok 0 | x \<Rightarrow> x)"
    using assms(2) m by (auto simp: ifSubscribed_def orZero_def aTry_def split: res.splits)
  ultimately show ?thesis by (cases r0) (auto simp: outer_def split: if_splits)
qed

definition cancel_subscribed :: "subscriptions \<Rightarrow> int \<Rightarrow> bool" where
  "cancel_subscribed d i \<longleftrightarrow> big_Int64 i \<in> set (cancellation_subscriptions d)"

definition pending_processed ::
  "listener_env \<Rightarrow> eventListener \<Rightarrow> cancellationPendingEvent \<Rightarrow> notification list \<Rightarrow> subscriptions \<Rightarrow> bool" where
  "pending_processed env l e ns d' \<longleftrightarrow> d' = tables l \<and>
     (\<exists>reasons. fst (GetCancellationReasonsEvent (benv env) (cpe_TxHash e) (booking l)) = Ok reasons \<and>
        ns = [NCancellationPending (pendingOfEvent e reasons)])"

definition rejected_processed :: "eventListener \<Rightarrow> cancellationReasonEvent \<Rightarrow> notification list \<Rightarrow> subscriptions \<Rightarrow> bool" where
  "rejected_processed l e ns d' \<longleftrightarrow> d' = tables l \<and>
     ns = [NCancellationRejected (big_Uint64 (cre_TokenId e)) (uint (cre_Reason e)) (cre_TxHash e)]"

definition withdrawn_processed :: "eventListener \<Rightarrow> cancellationReasonEvent \<Rightarrow> notification list \<Rightarrow> subscriptions \<Rightarrow> bool" where
  "withdrawn_processed l e ns d' \<longleftrightarrow> d' = tables l \<and>
     ns = [NCancellationWithdrawn (big_Uint64 (cre_TokenId e)) (uint (cre_Reason e)) (cre_TxHash e)]"

definition finalized_processed :: "eventListener \<Rightarrow> cancellationFinalizedEvent \<Rightarrow> notification list \<Rightarrow> subscriptions \<Rightarrow> bool" where
  "finalized_processed l e ns d' \<longleftrightarrow> d' = without_cancellation (cfe_TokenId e) (tables l) \<and>
     ns = [NCancellationFinalized (big_Uint64 (cfe_TokenId e)) (cfe_TxHash e)]"

lemma notify_ends:
  "ends_or_fails F (outDB (onPlugin (callPlugin nenv n)))
     (\<lambda>c d p v c' p'. c' = c \<and> delivered (opl p') = delivered (opl p) @ [n])"
  unfolding ends_or_fails_def by (rule ends_work[OF inwork_notify]) auto

lemma pending_ends:
  "ends_or_fails F (aBind (outDB (onBooking m)) (\<lambda>e. e) (\<lambda>reasons. outDB (onPlugin (callPlugin nenv (f reasons)))))
     (\<lambda>c d p v c' p'. c' = c \<and> (\<exists>reasons. fst (m (obk p)) = Ok reasons \<and> delivered (opl p') = delivered (opl p) @ [f reasons]))"
proof -
  note n = notify_ends[of F nenv "f reasons" for reasons, unfolded ends_or_fails_def]
  from ends_bind[where k = "\<lambda>reasons. outDB (onPlugin (callPlugin nenv (f reasons)))", OF inwork_booking n]
  show ?thesis unfolding ends_or_fails_def by (rule ends_mono) auto
qed

lemma finalized_ends:
  "ends_or_fails F (aBind (outDB (onPlugin (callPlugin nenv n))) (\<lambda>e. e) (\<lambda>_.
        aBind (inDB (RemoveCancellationSubscription i)) (\<lambda>e. e) (\<lambda>_. inDB DB_Commit)))
     (\<lambda>c d p v c' p'. c' = without_cancellation i d \<and> delivered (opl p') = delivered (opl p) @ [n])"
proof -
  have "ends F (aBind (inDB (RemoveCancellationSubscription i)) (\<lambda>e. e) (\<lambda>_. inDB DB_Commit))
     (\<lambda>c d p r c' p'. p' = p \<and> (c' = c \<and> (\<forall>v. r \<noteq> Ok v) \<or> r = Ok () \<and> c' = without_cancellation i d))"
    by (rule ends_mono[OF ends_bind[OF inwork_db[OF dbwork_RemoveCancellation calm_ops(5)] ends_commit]]) (elim disjE exE conjE; simp)
  from ends_bind[OF inwork_notify this] show ?thesis
    unfolding ends_or_fails_def by (rule ends_mono) auto
qed

interpretation rejected: event_handler "cancellationRejectedEventHandler env" "\<lambda>_. True" cre_BlockNumber
  "\<lambda>d e. cancel_subscribed d (cre_TokenId e)" rejected_processed
proof
  fix l e r l' assume "cancellationRejectedEventHandler env e l = (r, l')"
  from ifSubscribed_outcome[OF notify_ends this[unfolded cancellationRejectedEventHandler_def CancellationRejectedNotification_def]]
  show "(r = Ok 0 \<or> (\<exists>t. r = Panic t)) \<and> tables l' = tables l \<or>
      r = Ok (cre_BlockNumber e) \<and> \<not> cancel_subscribed (tables l) (cre_TokenId e) \<and> tables l' = tables l \<and> plugin l' = plugin l \<or>
      r = Ok (cre_BlockNumber e) \<and> cancel_subscribed (tables l) (cre_TokenId e) \<and>
        (\<exists>ns. delivered (plugin l') = delivered (plugin l) @ ns \<and> rejected_processed l e ns (tables l'))"
    by (auto simp: cancel_subscribed_def rejected_processed_def outer_def)
qed (auto simp: rejected_processed_def)

interpretation withdrawn: event_handler "cancellationWithdrawnEventHandler env" "\<lambda>_. True" cre_BlockNumber
  "\<lambda>d e. cancel_subscribed d (cre_TokenId e)" withdrawn_processed
proof
  fix l e r l' assume "cancellationWithdrawnEventHandler env e l = (r, l')"
  from ifSubscribed_outcome[OF notify_ends this[unfolded cancellationWithdrawnEventHandler_def CancellationWithdrawnNotification_def]]
  show "(r = Ok 0 \<or> (\<exists>t. r = Panic t)) \<and> tables l' = tables l \<or>
      r = Ok (cre_BlockNumber e) \<and> \<not> cancel_subscribed (tables l) (cre_TokenId e) \<and> tables l' = tables l \<and> plugin l' = plugin l \<or>
      r = Ok (cre_BlockNumber e) \<and> cancel_subscribed (tables l) (cre_TokenId e) \<and>
        (\<exists>ns. delivered (plugin l') = delivered (plugin l) @ ns \<and> withdrawn_processed l e ns (tables l'))"
    by (auto simp: cancel_subscribed_def withdrawn_processed_def outer_def)
qed (auto simp: withdrawn_processed_def)

interpretation pending: event_handler "cancellationPendingEventHandler env" "\<lambda>_. True" cpe_BlockNumber
  "\<lambda>d e. cancel_subscribed d (cpe_TokenId e)" "pending_processed env"
proof
  fix l e r l' assume "cancellationPendingEventHandler env e l = (r, l')"
  from ifSubscribed_outcome[OF pending_ends this[unfolded cancellationPendingEventHandler_def CancellationPendingNotification_def]]
  show "(r = Ok 0 \<or> (\<exists>t. r = Panic t)) \<and> tables l' = tables l \<or>
      r = Ok (cpe_BlockNumber e) \<and> \<not> cancel_subscribed (tables l) (cpe_TokenId e) \<and> tables l' = tables l \<and> plugin l' = plugin l \<or>
      r = Ok (cpe_BlockNumber e) \<and> cancel_subscribed (tables l) (cpe_TokenId e) \<and>
        (\<exists>ns. delivered (plugin l') = delivered (plugin l) @ ns \<and> pending_processed env l e ns (tables l'))"
    by (auto simp: cancel_subscribed_def pending_processed_def outer_def)
qed (auto simp: pending_processed_def)

interpretation finalized: event_handler "cancellationFinalizedEventHandler env" "\<lambda>_. True" cfe_BlockNumber
  "\<lambda>d e. cancel_subscribed d (cfe_TokenId e)" finalized_processed
proof
  fix l e r l' assume "cancellationFinalizedEventHandler env e l = (r, l')"
  from ifSubscribed_outcome[OF finalized_ends this[unfolded cancellationFinalizedEventHandler_def CancellationFinalizedNotification_def]]
  show "(r = Ok 0 \<or> (\<exists>t. r = Panic t)) \<and> tables l' = tables l \<or>
      r = Ok (cfe_BlockNumber e) \<and> \<not> cancel_subscribed (tables l) (cfe_TokenId e) \<and> tables l' = tables l \<and> plugin l' = plugin l \<or>
      r = Ok (cfe_BlockNumber e) \<and> cancel_subscribed (tables l) (cfe_TokenId e) \<and>
        (\<exists>ns. delivered (plugin l') = delivered (plugin l) @ ns \<and> finalized_processed l e ns (tables l'))"
    by (auto simp: cancel_subscribed_def finalized_processed_def outer_def)
qed (auto simp: finalized_processed_def)

section \<open>Expiry of a reservation\<close>

lemma inwork_record:
  "inwork F (\<lambda>sl. if recordTokenExpiration (snd sl)
               then aBind (outDB (onBooking m)) (\<lambda>e. e) (\<lambda>_. aRet ()) sl else (Ok (), sl))
     (\<lambda>d p r d' p'. d' = d \<and> opl p' = opl p)"
  unfolding inwork_def
proof (intro allI impI)
  fix s l r s' l' assume F: "faults (storage l) = F" and
    m: "(if recordTokenExpiration (snd (s, l)) then aBind (outDB (onBooking m)) (\<lambda>e. e) (\<lambda>_. aRet ()) (s, l) else (Ok (), s, l)) = (r, s', l')"
  show "frame l l' \<and> tables l' = tables l \<and> tx_done s' = tx_done s \<and> sess_committed s' = sess_committed s \<and>
     working s' = working s \<and> opl (outer l') = opl (outer l)"
  proof (cases "recordTokenExpiration l")
    case True
    have w: "inwork F (aBind (outDB (onBooking m)) (\<lambda>e. e) (\<lambda>_. aRet ())) (\<lambda>d p r d' p'. d' = d \<and> opl p' = opl p)"
      by (rule inwork_mono[OF inwork_bind[OF inwork_booking inwork_ret]]) auto
    show ?thesis using inworkD[OF w F] m True by simp
  qed (use m in auto)
qed

definition expiredNote :: "tokenBoughtSubscription \<Rightarrow> notification" where
  "expiredNote sub = NTokenReservationExpired (big_Uint64 (TokenID sub)) (MintID sub)"

lemma notifyExpired_ends:
  "ends_or_fails F (notifyExpired env sub)
     (\<lambda>c d p v c' p'. c' = without_sale (TokenID sub) d \<and> delivered (opl p') = delivered (opl p) @ [expiredNote sub])"
proof -
  have rm: "ends F (aBind (inDB (RemoveTokenBoughtSubscription (TokenID sub))) (\<lambda>e. e) (\<lambda>_. aBind (inDB DB_Commit) (\<lambda>e. e) (\<lambda>_. aRet ())))
     (\<lambda>c d p r c' p'. p' = p \<and> (c' = c \<and> (\<forall>v. r \<noteq> Ok v) \<or> r = Ok () \<and> c' = without_sale (TokenID sub) d))"
    by (rule ends_change_commit[OF dbwork_RemoveTokenBought' calm_ops(2)])
  let ?tail = "aBind (\<lambda>sl. if recordTokenExpiration (snd sl)
                 then aBind (outDB (onBooking (RecordExpiration (benv env) (bsvc env) (TokenID sub)))) (\<lambda>e. e) (\<lambda>_. aRet ()) sl
                 else (Ok (), sl)) (\<lambda>e. e) (\<lambda>_.
     aBind (inDB (RemoveTokenBoughtSubscription (TokenID sub))) (\<lambda>e. e) (\<lambda>_. aBind (inDB DB_Commit) (\<lambda>e. e) (\<lambda>_. aRet ())))"
  have "ends F ?tail (\<lambda>c d p r c' p'. opl p' = opl p \<and> (c' = c \<and> (\<forall>v. r \<noteq> Ok v) \<or> r = Ok () \<and> c' = without_sale (TokenID sub) d))"
    by (rule ends_mono[OF ends_bind[OF inwork_record rm]]) (elim disjE exE conjE; simp)
  from ends_bind[OF inwork_notify this] show ?thesis
    unfolding notifyExpired_def ends_or_fails_def TokenExpiredNotification_def expiredNote_def[symmetric]
    by (rule ends_mono) auto
qed

lemma onBooking_frame: "onBooking m l = (r, l') \<Longrightarrow> frame l l' \<and> tables l' = tables l \<and> plugin l' = plugin l"
  by (auto simp: onBooking_def frame_def split: prod.splits)

lemma expireReservation_outcome:
  assumes "expireReservation env sub l = (r, l')"
  shows "frame l l' \<and> (tables l' = tables l \<or>
     tables l' = without_sale (TokenID sub) (tables l) \<and> delivered (plugin l') = delivered (plugin l) @ [expiredNote sub])"
proof -
  obtain r1 l1 where b: "onBooking (GetBookingStatus (benv env) None (TokenID sub)) l = (r1, l1)"
    by (cases "onBooking (GetBookingStatus (benv env) None (TokenID sub)) l")
  note f = onBooking_frame[OF b]
  show ?thesis
  proof (cases "r1 = Ok StatusReserved")
    case True
    then have s: "session (\<lambda>e. e) (notifyExpired env sub) l1 = (r, l')"
      using assms b by (simp add: expireReservation_def aBind_def)
    from session_or_fails[OF notifyExpired_ends s] f show ?thesis
      using frame_trans[of l l1 l'] by (auto simp: outer_def)
  next
    case False
    then show ?thesis using assms b f by (cases r1) (auto simp: expireReservation_def aBind_def)
  qed
qed

lemma timeout_outcome:
  assumes "listening l" and "tokenBoughtTimeoutHandler env now l = (r, l')"
  shows "listening l' \<and> (\<exists>ns. delivered (plugin l') = delivered (plugin l) @ ns) \<and> (tables l' = tables l \<or>
    (\<exists>sub. tokenBoughtTimerSubscription l = Some sub \<and> tables l' = without_sale (TokenID sub) (tables l) \<and>
       delivered (plugin l') = delivered (plugin l) @ [expiredNote sub])) \<and> faults (storage l') = faults (storage l) \<and>
    (if tokenBoughtTimerSubscription l = None then r = Panic nilTimer \<and> l' = l
     else faults (storage l) = (\<lambda>_. None) \<longrightarrow> timerFor env now (token_bought_subscriptions (tables l')) l')"
proof (cases "tokenBoughtTimerSubscription l")
  case None
  then show ?thesis using assms by (simp add: tokenBoughtTimeoutHandler_def)
next
  case (Some sub)
  obtain r1 l1 where e: "expireReservation env sub l = (r1, l1)" by (cases "expireReservation env sub l")
  note o = expireReservation_outcome[OF e]
  have l1: "listening l1" using o assms(1) frame_listening by blast
  then have nil: "tokenBoughtTimer l1 \<noteq> NilTimer" by (simp add: listening_def)
  obtain r2 l2 where d: "resetTokenBoughtTimer env now l1 = (r2, l2)" by (cases "resetTokenBoughtTimer env now l1")
  note k = resetFromDB_result[OF nil d[unfolded resetTokenBoughtTimer_def]]
  have "l' = l2" using assms(2) Some e d k
    by (cases r1) (auto simp: tokenBoughtTimeoutHandler_def deferred_def aTry_def)
  moreover have "listening l2" "tables l2 = tables l1" "plugin l2 = plugin l1"
    using k l1 by (auto simp: listening_def same_outside_timer_def)
  moreover have "faults (storage l1) = faults (storage l)" "\<exists>ns. delivered (plugin l1) = delivered (plugin l) @ ns"
    using frame_fields[OF conjunct1[OF o]] conjunct1[OF o] by (simp_all add: frame_def)
  ultimately show ?thesis using conjunct2[OF o] Some k by (auto simp: same_outside_timer_def)
qed

section \<open>Subscribing\<close>

definition with_sale :: "tokenBoughtSubscription \<Rightarrow> subscriptions \<Rightarrow> subscriptions" where
  "with_sale sub d = d\<lparr>token_bought_subscriptions := token_bought_subscriptions d @ [tokenBoughtSubscriptionFromModel sub]\<rparr>"

lemma subscribe_cancellation_outcome:
  assumes "SubscribeCancellationEvents i l = (r, l')"
  shows "frame l l' \<and> ((\<forall>v. r \<noteq> Ok v) \<and> tables l' = tables l \<or> r = Ok () \<and> tables l' = with_cancellation i (tables l))"
proof -
  have w: "dbwork (AddCancellationSubscription i) (\<lambda>d u d'. d' = with_cancellation i d)"
    by (rule dbwork_mono[OF dbwork_AddCancellation]) blast
  have "(\<lambda>_. aRet ()) = (aRet :: unit \<Rightarrow> (in_session, unit) act)" by (rule ext) simp
  then have "ends_or_fails (faults (storage l)) (aBind (inDB (AddCancellationSubscription i)) (wrap ''error adding cancellation subscription to db: '')
       (\<lambda>_. aBind (inDB DB_Commit) (wrap ''failed to commit db session: '') aRet))
     (\<lambda>c d p v c' p'. c' = with_cancellation i d)"
    unfolding ends_or_fails_def using ends_change_commit[OF w calm_ops(4), of _ _ _ "()"]
    by (auto intro: ends_mono)
  from session_or_fails[OF this assms[unfolded SubscribeCancellationEvents_def]] show ?thesis by auto
qed

lemma AddTokenBoughtSubscription_cases:
  obtains e where "AddTokenBoughtSubscription sub db s = (Fail e, s, db\<lparr>db_calls := Suc (db_calls db)\<rparr>)"
  | "AddTokenBoughtSubscription sub db s = (Ok (), s\<lparr>working := with_sale sub (working s)\<rparr>, db\<lparr>db_calls := Suc (db_calls db)\<rparr>)"
    "big_Int64 (TokenID sub) \<notin> set (map token_id (token_bought_subscriptions (working s)))"
proof (cases "faults db (db_calls db) = None \<and> big_Int64 (TokenID sub) \<notin> set (map token_id (token_bought_subscriptions (working s)))")
  case True
  then show thesis using that(2)
    by (simp add: AddTokenBoughtSubscription_def dbBind_def dbExecR_def driver_call_def insertRow_def dbRet_def with_sale_def
        tokenBoughtSubscriptionFromModel_def)
next
  case False
  then show thesis using that(1)
    by (cases "faults db (db_calls db)")
       (auto simp: AddTokenBoughtSubscription_def dbBind_def dbExecR_def driver_call_def insertRow_def tokenBoughtSubscriptionFromModel_def)
qed

text \<open>Subscribing changes the tables and the timer together, or nothing.\<close>

definition timer_after_subscribe :: "time \<Rightarrow> tokenBoughtSubscription \<Rightarrow> eventListener \<Rightarrow> eventListener \<Rightarrow> bool" where
  "timer_after_subscribe now sub l l' \<longleftrightarrow>
     (if (case tokenBoughtTimerSubscription l of None \<Rightarrow> False | Some old \<Rightarrow> Timeout old \<le> Timeout sub)
      then tokenBoughtTimer l' = tokenBoughtTimer l \<and> tokenBoughtTimerSubscription l' = tokenBoughtTimerSubscription l
      else tokenBoughtTimer l' = Armed (timeUntil now (Timeout sub)) \<and> tokenBoughtTimerSubscription l' = Some sub)"

lemma resetIfAfter_result:
  assumes "tokenBoughtTimer l \<noteq> NilTimer"
  obtains l' where "resetTokenBoughtTimerIfAfter now sub l = (Ok (), l')" "storage l' = storage l"
    "same_outside_timer l l'" "timer_after_subscribe now sub l l'"
proof -
  let ?r = "resetTokenBoughtTimerIfAfter now sub l"
  have "fst ?r = Ok () \<and> storage (snd ?r) = storage l \<and> same_outside_timer l (snd ?r) \<and> timer_after_subscribe now sub l (snd ?r)"
    using assms by (cases "tokenBoughtTimerSubscription l")
      (auto simp: resetTokenBoughtTimerIfAfter_def aBind_def timer_Stop_def armTimer_def same_outside_timer_def timer_after_subscribe_def)
  then show thesis using that[of "snd ?r"] by (metis prod.collapse)
qed

lemma subscribe_sale_outcome:
  assumes "SubscribeTokenBoughtEvent now i m t l = (r, l')" and nil: "tokenBoughtTimer l \<noteq> NilTimer"
  defines "sub \<equiv> \<lparr>TokenID = i, MintID = m, Timeout = t + timeCheckBlockchainDelay\<rparr>"
  shows "plugin l' = plugin l \<and> tokenBoughtTimer l' \<noteq> NilTimer \<and> faults (storage l') = faults (storage l) \<and>
    ((\<forall>v. r \<noteq> Ok v) \<and> tables l' = tables l \<and> same_timer l l' \<or>
     r = Ok () \<and> tables l' = with_sale sub (tables l) \<and> timer_after_subscribe now sub l l' \<and>
       big_Int64 i \<notin> set (map token_id (token_bought_subscriptions (tables l))))"
proof (cases "faults (storage l) (db_calls (storage l))")
  case (Some e)
  then show ?thesis using assms(1) nil
    by (auto simp: SubscribeTokenBoughtEvent_def session_def NewSession_def driver_call_def same_timer_def Let_def)
next
  case None
  let ?s = "\<lparr>working = tables l, tx_done = False, sess_committed = False\<rparr>"
  let ?db = "(storage l)\<lparr>db_calls := Suc (db_calls (storage l))\<rparr>"
  note start = SubscribeTokenBoughtEvent_def session_def NewSession_def driver_call_def Let_def sub_def[symmetric] None
  have ab: "committed (snd (DB_Abort x y)) = committed x \<and> faults (snd (DB_Abort x y)) = faults x" for x :: "subscriptions db" and y
    by (simp add: session_defs split: option.split)
  show ?thesis
  proof (cases rule: AddTokenBoughtSubscription_cases[of sub ?db ?s])
    case (1 e)
    then show ?thesis using assms(1) nil ab by (auto simp: start aBind_def inDB_def same_timer_def)
  next
    case 2
    let ?s2 = "?s\<lparr>working := with_sale sub (tables l)\<rparr>"
    let ?db2 = "?db\<lparr>db_calls := Suc (db_calls ?db)\<rparr>"
    show ?thesis
    proof (cases "faults (storage l) (db_calls ?db2)")
      case (Some e)
      then show ?thesis using assms(1) nil ab 2 by (auto simp: start aBind_def inDB_def same_timer_def DB_Commit_eq)
    next
      case commit: None
      let ?l3 = "l\<lparr>storage := ?db2\<lparr>db_calls := Suc (db_calls ?db2), committed := with_sale sub (tables l)\<rparr>\<rparr>"
      have "tokenBoughtTimer ?l3 \<noteq> NilTimer" using nil by simp
      from this obtain l4 where k: "resetTokenBoughtTimerIfAfter now sub ?l3 = (Ok (), l4)" "storage l4 = storage ?l3"
        "same_outside_timer ?l3 l4" "timer_after_subscribe now sub ?l3 l4" by (rule resetIfAfter_result)
      have "SubscribeTokenBoughtEvent now i m t l =
          (Ok (), l4\<lparr>storage := snd (DB_Abort (storage l4) (?s2\<lparr>tx_done := True, sess_committed := True\<rparr>))\<rparr>)"
        using 2(1) commit k(1) by (simp add: start aBind_def inDB_def outDB_def DB_Commit_eq)
      then have "r = Ok ()" "l' = l4\<lparr>storage := snd (DB_Abort (storage l4) (?s2\<lparr>tx_done := True, sess_committed := True\<rparr>))\<rparr>"
        using assms(1) by auto
      then show ?thesis using k(2-4) ab 2(2)
        by (simp add: same_outside_timer_def timer_after_subscribe_def sub_def)
    qed
  qed
qed

end
