(* ===== verification/Event_Runs.thy ===== *)
theory Event_Runs
  imports Event_Handlers
begin

text \<open>
  Runs of the event listener: the steps that subscriptions, contract events and the timer make in any
  order, and the properties of all runs.
\<close>

section \<open>Steps\<close>

inductive listener_step :: "listener_env \<Rightarrow> eventListener \<Rightarrow> eventListener \<Rightarrow> bool" for env where
  subscribe_sale: "SubscribeTokenBoughtEvent now i m t l = (r, l') \<Longrightarrow> 0 \<le> i \<Longrightarrow> i < 2 ^ 63 \<Longrightarrow> listener_step env l l'"
| subscribe_cancellation: "SubscribeCancellationEvents i l = (r, l') \<Longrightarrow> listener_step env l l'"
| sale_event: "tokenBoughtEventHandler env now e l = (r, l') \<Longrightarrow> 0 \<le> tbe_TokenId e \<Longrightarrow> tbe_TokenId e < 2 ^ 63 \<Longrightarrow>
    listener_step env l l'"
| timeout: "tokenBoughtTimeoutHandler env now l = (r, l') \<Longrightarrow> listener_step env l l'"
| pending_event: "cancellationPendingEventHandler env pe l = (r, l') \<Longrightarrow> listener_step env l l'"
| rejected_event: "cancellationRejectedEventHandler env re l = (r, l') \<Longrightarrow> listener_step env l l'"
| withdrawn_event: "cancellationWithdrawnEventHandler env re l = (r, l') \<Longrightarrow> listener_step env l l'"
| finalized_event: "cancellationFinalizedEventHandler env fe l = (r, l') \<Longrightarrow> 0 \<le> cfe_TokenId fe \<Longrightarrow> listener_step env l l'"

inductive_cases listener_stepE [elim]: "listener_step env l l'"

section \<open>No subscription is dropped silently\<close>

definition notifies_drops :: "subscriptions \<Rightarrow> notification list \<Rightarrow> subscriptions \<Rightarrow> bool" where
  "notifies_drops d ns d' \<longleftrightarrow>
     (\<forall>row \<in> set (token_bought_subscriptions d). row \<notin> set (token_bought_subscriptions d') \<longrightarrow>
        (\<exists>m tx. NTokenBought (token_id row) m tx \<in> set ns \<or> NTokenReservationExpired (token_id row) m \<in> set ns)) \<and>
     (\<forall>i \<in> set (cancellation_subscriptions d). i \<notin> set (cancellation_subscriptions d') \<longrightarrow>
        (\<exists>tx. NCancellationFinalized i tx \<in> set ns))"

lemma notifies_drops_same: "notifies_drops d ns d"
  by (simp add: notifies_drops_def)

lemma notifies_drops_trans:
  "notifies_drops d ns d' \<Longrightarrow> notifies_drops d' ms d'' \<Longrightarrow> notifies_drops d (ns @ ms) d''"
  unfolding notifies_drops_def by (intro conjI ballI impI) (metis UnCI set_append)+

lemma drops_without_sale:
  "NTokenBought (big_Uint64 i) m tx \<in> set ns \<or> NTokenReservationExpired (big_Uint64 i) m \<in> set ns \<Longrightarrow>
     notifies_drops d ns (without_sale i d)"
  by (auto simp: notifies_drops_def without_sale_def)

lemma drops_sold: "NTokenBought (big_Uint64 i) m tx \<in> set ns \<Longrightarrow> notifies_drops d ns (sold c i d)"
  by (auto simp: notifies_drops_def sold_def without_sale_def with_cancellation_def)

lemma big_Int64_Uint64: "0 \<le> i \<Longrightarrow> big_Int64 i = big_Uint64 i"
  by (simp add: big_Int64_def big_Uint64_def)

lemma listener_step_notifies:
  assumes "listener_step env l l'" and "listening l"
  shows "listening l' \<and> (\<exists>ns. delivered (plugin l') = delivered (plugin l) @ ns \<and> notifies_drops (tables l) ns (tables l'))"
  using assms(1)
proof cases
  case (subscribe_sale now i m t r)
  have nil: "tokenBoughtTimer l \<noteq> NilTimer" using assms(2) by (simp add: listening_def)
  show ?thesis using subscribe_sale_outcome[OF subscribe_sale(1) nil] assms(2)
    by (auto simp: listening_def notifies_drops_def with_sale_def)
next
  case (subscribe_cancellation i r)
  note o = subscribe_cancellation_outcome[OF this]
  then show ?thesis using frame_listening[OF conjunct1[OF o] assms(2)]
    by (auto simp: frame_def notifies_drops_def with_cancellation_def)
next
  case (sale_event now e r)
  note o = sale_outcome[OF assms(2) sale_event(1)]
  show ?thesis
  proof (cases "tables l' = tables l")
    case True
    then show ?thesis using o notifies_drops_same by force
  next
    case False
    then show ?thesis using o by (auto simp: sale_processed_def boughtNote_def intro!: drops_sold)
  qed
next
  case (timeout now r)
  note o = timeout_outcome[OF assms(2) timeout]
  show ?thesis
  proof (cases "tables l' = tables l")
    case True
    then show ?thesis using o notifies_drops_same by force
  next
    case False
    then show ?thesis using o by (auto simp: expiredNote_def intro!: drops_without_sale)
  qed
next
  case (pending_event pe r)
  note f = conjunct1[OF ifSubscribed_outcome[OF pending_ends pending_event[unfolded cancellationPendingEventHandler_def CancellationPendingNotification_def]]]
  have "tables l' = tables l" using pending.outcome[OF _ pending_event] by (auto simp: pending_processed_def)
  then show ?thesis using f frame_listening[OF f assms(2)] notifies_drops_same by (auto simp: frame_def)
next
  case (rejected_event re r)
  note f = conjunct1[OF ifSubscribed_outcome[OF notify_ends rejected_event[unfolded cancellationRejectedEventHandler_def CancellationRejectedNotification_def]]]
  have "tables l' = tables l" using rejected.outcome[OF _ rejected_event] by (auto simp: rejected_processed_def)
  then show ?thesis using f frame_listening[OF f assms(2)] notifies_drops_same by (auto simp: frame_def)
next
  case (withdrawn_event re r)
  note f = conjunct1[OF ifSubscribed_outcome[OF notify_ends withdrawn_event[unfolded cancellationWithdrawnEventHandler_def CancellationWithdrawnNotification_def]]]
  have "tables l' = tables l" using withdrawn.outcome[OF _ withdrawn_event] by (auto simp: withdrawn_processed_def)
  then show ?thesis using f frame_listening[OF f assms(2)] notifies_drops_same by (auto simp: frame_def)
next
  case (finalized_event fe r)
  note f = conjunct1[OF ifSubscribed_outcome[OF finalized_ends finalized_event(1)[unfolded cancellationFinalizedEventHandler_def CancellationFinalizedNotification_def]]]
  show ?thesis
  proof (cases "tables l' = tables l")
    case True
    then show ?thesis using f frame_listening[OF f assms(2)] notifies_drops_same by (auto simp: frame_def)
  next
    case False
    then have "\<exists>ns. delivered (plugin l') = delivered (plugin l) @ ns \<and> finalized_processed l fe ns (tables l')"
      using finalized.outcome[OF _ finalized_event(1)] by auto
    then show ?thesis using frame_listening[OF f assms(2)] big_Int64_Uint64[OF finalized_event(2)]
      by (auto simp: finalized_processed_def notifies_drops_def without_cancellation_def)
  qed
qed

lemma run_notifies:
  "(listener_step env)\<^sup>*\<^sup>* l l' \<Longrightarrow> listening l \<Longrightarrow>
     listening l' \<and> (\<exists>ns. delivered (plugin l') = delivered (plugin l) @ ns \<and> notifies_drops (tables l) ns (tables l'))"
proof (induction rule: rtranclp_induct)
  case base
  then show ?case using notifies_drops_same by force
next
  case (step l1 l2)
  then obtain ns where "delivered (plugin l1) = delivered (plugin l) @ ns" "notifies_drops (tables l) ns (tables l1)" "listening l1" by blast
  moreover from listener_step_notifies[OF step(2) this(3)] obtain ms where
    "delivered (plugin l2) = delivered (plugin l1) @ ms" "notifies_drops (tables l1) ms (tables l2)" "listening l2" by blast
  ultimately show ?case using notifies_drops_trans by (metis append.assoc)
qed

section \<open>The timer follows the earliest reservation\<close>

definition ids_ok :: "subscriptions \<Rightarrow> bool" where
  "ids_ok d \<longleftrightarrow> (\<forall>row \<in> set (token_bought_subscriptions d). 0 \<le> sint (token_id row))"

definition pick_ok :: "listener_env \<Rightarrow> bool" where
  "pick_ok env \<longleftrightarrow> (\<forall>rows. rows \<noteq> [] \<longrightarrow> pickRow env rows \<in> set rows)"

definition earliest :: "tb_row list \<Rightarrow> tokenBoughtSubscription \<Rightarrow> bool" where
  "earliest rows sub \<longleftrightarrow> 0 \<le> TokenID sub \<and> TokenID sub < 2 ^ 63 \<and>
     (\<exists>row \<in> set rows. token_id row = big_Int64 (TokenID sub) \<and> timeout row = Unix (Timeout sub) \<and>
        (\<forall>q \<in> set rows. timeout row \<le> timeout q))"

text \<open>The timer waits for a subscription with the least timeout of the table, and is idle exactly if
  the table is empty.\<close>

definition tracks :: "eventListener \<Rightarrow> bool" where
  "tracks l \<longleftrightarrow> ids_ok (tables l) \<and>
     (case tokenBoughtTimerSubscription l of
        None \<Rightarrow> token_bought_subscriptions (tables l) = []
      | Some sub \<Rightarrow> earliest (token_bought_subscriptions (tables l)) sub \<and>
                   (\<exists>now. tokenBoughtTimer l = Armed (timeUntil now (Timeout sub))))"

lemma timerFor_tracks:
  assumes "pick_ok env" and "ids_ok (tables l)" and "timerFor env now (token_bought_subscriptions (tables l)) l"
  shows "tracks l"
proof (cases "token_bought_subscriptions (tables l) = []")
  case False
  let ?row = "pickRow env (minRows (token_bought_subscriptions (tables l)))"
  have "?row \<in> set (minRows (token_bought_subscriptions (tables l)))" using assms(1) False by (simp add: pick_ok_def)
  then have m: "?row \<in> set (token_bought_subscriptions (tables l))" "\<forall>q \<in> set (token_bought_subscriptions (tables l)). timeout ?row \<le> timeout q"
    by (auto simp: minRows_spec)
  have "earliest (token_bought_subscriptions (tables l)) (modelFromTokenBoughtSubscription ?row)"
    using m assms(2) sint_less[of "token_id ?row"]
    by (auto simp: earliest_def modelFromTokenBoughtSubscription_def ids_ok_def big_Int64_def intro!: bexI[of _ ?row])
  then show ?thesis using assms(2,3) False by (auto simp: tracks_def timerFor_def Let_def)
qed (use assms in \<open>simp add: tracks_def timerFor_def\<close>)

lemma Unix_mono: "s \<le> t \<Longrightarrow> Unix s \<le> Unix t"
  by (simp add: Unix_def zdiv_mono1)

lemma sint_big_Int64_nonneg: "0 \<le> i \<Longrightarrow> i < 2 ^ 63 \<Longrightarrow> sint (big_Int64 i) = i"
  by (rule sint_big_Int64) auto

lemma big_Int64_inj: "0 \<le> i \<Longrightarrow> i < 2 ^ 63 \<Longrightarrow> 0 \<le> j \<Longrightarrow> j < 2 ^ 63 \<Longrightarrow> big_Int64 i = big_Int64 j \<Longrightarrow> i = j"
  by (metis sint_big_Int64_nonneg)

lemma tracks_subscribe:
  assumes "tracks l" and "tables l' = with_sale sub (tables l)" and "timer_after_subscribe now sub l l'"
    and "0 \<le> TokenID sub" and "TokenID sub < 2 ^ 63"
  shows "tracks l'"
proof -
  let ?rows = "token_bought_subscriptions (tables l)" and ?new = "tokenBoughtSubscriptionFromModel sub"
  have rows: "token_bought_subscriptions (tables l') = ?rows @ [?new]" using assms(2) by (simp add: with_sale_def)
  have new: "token_id ?new = big_Int64 (TokenID sub)" "timeout ?new = Unix (Timeout sub)"
    by (simp_all add: tokenBoughtSubscriptionFromModel_def)
  have "ids_ok (tables l')" using assms(1,4,5) rows new sint_big_Int64_nonneg[of "TokenID sub"] by (auto simp: tracks_def ids_ok_def)
  moreover have "earliest (?rows @ [?new]) old" if "earliest ?rows old" "Timeout old \<le> Timeout sub" for old
    using that Unix_mono[OF that(2)] new by (auto simp: earliest_def)
  moreover have "earliest (?rows @ [?new]) sub" if "?rows = []" using that new assms(4,5) by (simp add: earliest_def)
  moreover have "earliest (?rows @ [?new]) sub" if "earliest ?rows old" "Timeout sub \<le> Timeout old" for old
    using that Unix_mono[OF that(2)] new assms(4,5) by (auto simp: earliest_def)
  ultimately show ?thesis using assms(1,3) rows
    by (auto simp: tracks_def timer_after_subscribe_def split: option.splits if_splits)
qed

lemma tracks_sale:
  assumes "tracks l" and "tokenBoughtTimerSubscription l = Some sub" and "TokenID sub \<noteq> tbe_TokenId e" and "same_timer l l'"
    and "tables l' = tables l \<or> (\<exists>ns. sale_processed env l e ns (tables l'))" and "0 \<le> tbe_TokenId e" and "tbe_TokenId e < 2 ^ 63"
  shows "tracks l'"
proof (cases "tables l' = tables l")
  case False
  let ?rows = "token_bought_subscriptions (tables l)"
  have es: "earliest ?rows sub" using assms(1,2) by (simp add: tracks_def)
  have "big_Int64 (TokenID sub) \<noteq> big_Int64 (tbe_TokenId e)"
    using es assms(3,6,7) big_Int64_inj[of "TokenID sub" "tbe_TokenId e"] by (auto simp: earliest_def)
  moreover have rows: "token_bought_subscriptions (tables l') = filter (\<lambda>r. token_id r \<noteq> big_Int64 (tbe_TokenId e)) ?rows"
    using False assms(5,6,7) sint_big_Int64_nonneg[of "tbe_TokenId e"] big_Int64_Uint64[of "tbe_TokenId e"]
    by (auto simp: sale_processed_def sold_def without_sale_def with_cancellation_def)
  ultimately have "earliest (token_bought_subscriptions (tables l')) sub" using es by (auto simp: earliest_def)
  moreover have "ids_ok (tables l')" using assms(1) rows by (simp add: tracks_def ids_ok_def)
  ultimately show ?thesis using assms(1,2,4) by (auto simp: tracks_def same_timer_def)
qed (use assms in \<open>auto simp: tracks_def same_timer_def\<close>)

lemma tracks_other:
  assumes "tracks l" and "frame l l'" and "token_bought_subscriptions (tables l') = token_bought_subscriptions (tables l)"
  shows "tracks l' \<and> faults (storage l') = faults (storage l)"
  using assms frame_fields[OF assms(2)] by (auto simp: tracks_def ids_ok_def split: option.splits)

lemma ids_ok_sold: "ids_ok d \<Longrightarrow> ids_ok (sold c i d)" "ids_ok d \<Longrightarrow> ids_ok (without_sale i d)"
  by (auto simp: ids_ok_def sold_def without_sale_def with_cancellation_def)

lemma tracks_step:
  assumes "listener_step env l l'" and "listening l" and "pick_ok env" and "tracks l" and "faults (storage l) = (\<lambda>_. None)"
  shows "tracks l' \<and> faults (storage l') = (\<lambda>_. None)"
  using assms(1)
proof cases
  case (subscribe_sale now i m t r)
  have nil: "tokenBoughtTimer l \<noteq> NilTimer" using assms(2) by (simp add: listening_def)
  note o = subscribe_sale_outcome[OF subscribe_sale(1) nil]
  show ?thesis
  proof (cases "r = Ok ()")
    case True
    then show ?thesis using o assms(4,5) subscribe_sale(2,3) tracks_subscribe[OF assms(4), of l' _ now] by auto
  next
    case False
    then show ?thesis using o assms(4,5) by (auto simp: tracks_def same_timer_def split: option.splits)
  qed
next
  case (sale_event now e r)
  note o = sale_outcome[OF assms(2) sale_event(1)]
  have ids: "ids_ok (tables l')" using o assms(4) by (auto simp: tracks_def sale_processed_def intro: ids_ok_sold)
  have ch: "tables l' = tables l \<or> (\<exists>ns. sale_processed env l e ns (tables l'))" using o by blast
  from o assms(5) consider sub where "tokenBoughtTimerSubscription l = Some sub" "TokenID sub \<noteq> tbe_TokenId e" "same_timer l l'"
    | "timerFor env now (token_bought_subscriptions (tables l')) l'" by blast
  then have "tracks l'"
  proof cases
    case 1
    then show ?thesis using tracks_sale[OF assms(4) 1 ch] sale_event(2,3) by blast
  next
    case 2
    then show ?thesis by (rule timerFor_tracks[OF assms(3) ids])
  qed
  then show ?thesis using o assms(5) by simp
next
  case (timeout now r)
  note o = timeout_outcome[OF assms(2) timeout]
  have ids: "ids_ok (tables l')" using o assms(4) by (auto simp: tracks_def intro: ids_ok_sold)
  show ?thesis
  proof (cases "tokenBoughtTimerSubscription l")
    case None
    then show ?thesis using o assms(4,5) by simp
  next
    case (Some sub)
    then show ?thesis using o assms(5) timerFor_tracks[OF assms(3) ids, of now] by simp
  qed
next
  case (subscribe_cancellation i r)
  note o = subscribe_cancellation_outcome[OF this]
  then show ?thesis using tracks_other[OF assms(4) conjunct1[OF o]] assms(5) by (auto simp: with_cancellation_def)
next
  case (pending_event pe r)
  note f = conjunct1[OF ifSubscribed_outcome[OF pending_ends pending_event[unfolded cancellationPendingEventHandler_def CancellationPendingNotification_def]]]
  show ?thesis using pending.outcome[OF _ pending_event] tracks_other[OF assms(4) f] assms(5) by (auto simp: pending_processed_def)
next
  case (rejected_event re r)
  note f = conjunct1[OF ifSubscribed_outcome[OF notify_ends rejected_event[unfolded cancellationRejectedEventHandler_def CancellationRejectedNotification_def]]]
  show ?thesis using rejected.outcome[OF _ rejected_event] tracks_other[OF assms(4) f] assms(5) by (auto simp: rejected_processed_def)
next
  case (withdrawn_event re r)
  note f = conjunct1[OF ifSubscribed_outcome[OF notify_ends withdrawn_event[unfolded cancellationWithdrawnEventHandler_def CancellationWithdrawnNotification_def]]]
  show ?thesis using withdrawn.outcome[OF _ withdrawn_event] tracks_other[OF assms(4) f] assms(5) by (auto simp: withdrawn_processed_def)
next
  case (finalized_event fe r)
  note f = conjunct1[OF ifSubscribed_outcome[OF finalized_ends finalized_event(1)[unfolded cancellationFinalizedEventHandler_def CancellationFinalizedNotification_def]]]
  show ?thesis using finalized.outcome[OF _ finalized_event(1)] tracks_other[OF assms(4) f] assms(5)
    by (auto simp: finalized_processed_def without_cancellation_def)
qed

lemma tracks_run:
  assumes "(listener_step env)\<^sup>*\<^sup>* l l'" and "listening l" and "pick_ok env" and "tracks l" and "faults (storage l) = (\<lambda>_. None)"
  shows "tracks l' \<and> faults (storage l') = (\<lambda>_. None)"
  using assms(1)
proof (induction rule: rtranclp_induct)
  case (step l1 l2)
  then show ?case using tracks_step[OF step(2) _ assms(3)] run_notifies[OF step(1) assms(2)] by blast
qed (use assms in simp)

section \<open>Running the timeout handler again\<close>

primrec timeouts :: "listener_env \<Rightarrow> time \<Rightarrow> nat \<Rightarrow> eventListener \<Rightarrow> eventListener" where
  "timeouts env now 0 l = l"
| "timeouts env now (Suc n) l = timeouts env now n (snd (tokenBoughtTimeoutHandler env now l))"

lemma timeout_not_reserved:
  assumes "listening l" and "faults (storage l) = (\<lambda>_. None)" and "tokenBoughtTimerSubscription l = Some sub"
    and "\<And>h. contract_GetBookingStatus (benv env) h None (TokenID sub) = Ok st" and "st \<noteq> StatusReserved"
  shows "tables (snd (tokenBoughtTimeoutHandler env now l)) = tables l \<and> plugin (snd (tokenBoughtTimeoutHandler env now l)) = plugin l \<and>
    listening (snd (tokenBoughtTimeoutHandler env now l)) \<and> faults (storage (snd (tokenBoughtTimeoutHandler env now l))) = (\<lambda>_. None) \<and>
    timerFor env now (token_bought_subscriptions (tables l)) (snd (tokenBoughtTimeoutHandler env now l))"
proof -
  obtain r l' where h: "tokenBoughtTimeoutHandler env now l = (r, l')" by (cases "tokenBoughtTimeoutHandler env now l")
  let ?l1 = "l\<lparr>booking := (booking l)\<lparr>ops := ops (booking l) @ [OpCall]\<rparr>\<rparr>"
  have e: "expireReservation env sub l = (Ok (), ?l1)"
    using assms(4,5) by (simp add: expireReservation_def onBooking_def GetBookingStatus_def aBind_def chainCall_def)
  have nil: "tokenBoughtTimer ?l1 \<noteq> NilTimer" using assms(1) by (simp add: listening_def)
  obtain r2 l2 where d: "resetTokenBoughtTimerFromDB env now ?l1 = (r2, l2)" by (cases "resetTokenBoughtTimerFromDB env now ?l1")
  note k = resetFromDB_result[OF nil d]
  have "l' = l2" using h assms(3) e d k
    by (auto simp: tokenBoughtTimeoutHandler_def deferred_def aTry_def resetTokenBoughtTimer_def)
  then show ?thesis using h k assms(1,2) by (auto simp: same_outside_timer_def listening_def)
qed

lemma timeouts_spin:
  assumes "listening l" and "faults (storage l) = (\<lambda>_. None)" and "pick_ok env"
    and "minRows (token_bought_subscriptions (tables l)) = [row]" and "tokenBoughtTimerSubscription l = Some sub"
    and "TokenID sub = sint (token_id row)" and "unixTime (timeout row) < now"
    and "\<And>h. contract_GetBookingStatus (benv env) h None (TokenID sub) = Ok st" and "st \<noteq> StatusReserved"
  shows "tables (timeouts env now n l) = tables l \<and> plugin (timeouts env now n l) = plugin l \<and>
    (n > 0 \<longrightarrow> tokenBoughtTimer (timeouts env now n l) = Armed 0 \<and>
       tokenBoughtTimerSubscription (timeouts env now n l) = Some (modelFromTokenBoughtSubscription row))"
  using assms(1,2,4,5,6,8)
proof (induction n arbitrary: l sub)
  case (Suc n)
  let ?l = "snd (tokenBoughtTimeoutHandler env now l)"
  have s: "tables ?l = tables l" "plugin ?l = plugin l" "listening ?l" "faults (storage ?l) = (\<lambda>_. None)"
    "timerFor env now (token_bought_subscriptions (tables l)) ?l"
    using timeout_not_reserved[OF Suc.prems(1,2,4,6) assms(9)] by blast+
  have p: "pickRow env [row] = row" using assms(3) unfolding pick_ok_def by (metis list.distinct(1) list.set(1,2) singletonD)
  have ne: "token_bought_subscriptions (tables l) \<noteq> []" using Suc.prems(3) by (metis minRows_Nil list.distinct(1))
  have t: "tokenBoughtTimerSubscription ?l = Some (modelFromTokenBoughtSubscription row)" "tokenBoughtTimer ?l = Armed 0"
    using s(5) ne Suc.prems(3) p assms(7) by (simp_all add: timerFor_def Let_def timeUntil_def modelFromTokenBoughtSubscription_def)
  have "TokenID (modelFromTokenBoughtSubscription row) = TokenID sub" using Suc.prems(5) by (simp add: modelFromTokenBoughtSubscription_def)
  then have IH: "tables (timeouts env now n ?l) = tables ?l \<and> plugin (timeouts env now n ?l) = plugin ?l \<and>
    (n > 0 \<longrightarrow> tokenBoughtTimer (timeouts env now n ?l) = Armed 0 \<and>
       tokenBoughtTimerSubscription (timeouts env now n ?l) = Some (modelFromTokenBoughtSubscription row))"
    using Suc.IH[OF s(3,4) _ t(1)] s(1) Suc.prems(3,5,6) by simp
  then show ?case using s t by (cases n) auto
qed simp

section \<open>Properties\<close>

text \<open>Property C10: handlers process an event completely or not at all. Whatever fails (the database,
  the chain, the plugin), the handlers of the five contract events either leave the tables as they
  were and return 0 (or panic), or return the block number of an event of an unsubscribed token
  with nothing changed and no one notified, or return it after the notification of exactly this
  event was delivered and the tables changed as specified.\<close>

lemma handlers_all_or_nothing:
  assumes "listening l"
  shows "(tokenBoughtEventHandler env now e l = (r, l') \<longrightarrow>
      (r = Ok 0 \<or> (\<exists>t. r = Panic t)) \<and> tables l' = tables l \<or>
      r = Ok (tbe_BlockNumber e) \<and> \<not> sale_subscribed (tables l) e \<and> tables l' = tables l \<and> plugin l' = plugin l \<or>
      r = Ok (tbe_BlockNumber e) \<and> sale_subscribed (tables l) e \<and>
        (\<exists>ns. delivered (plugin l') = delivered (plugin l) @ ns \<and> sale_processed env l e ns (tables l'))) \<and>
    (cancellationPendingEventHandler env pe l = (r, l') \<longrightarrow>
      (r = Ok 0 \<or> (\<exists>t. r = Panic t)) \<and> tables l' = tables l \<or>
      r = Ok (cpe_BlockNumber pe) \<and> \<not> cancel_subscribed (tables l) (cpe_TokenId pe) \<and> tables l' = tables l \<and> plugin l' = plugin l \<or>
      r = Ok (cpe_BlockNumber pe) \<and> cancel_subscribed (tables l) (cpe_TokenId pe) \<and>
        (\<exists>ns. delivered (plugin l') = delivered (plugin l) @ ns \<and> pending_processed env l pe ns (tables l'))) \<and>
    (cancellationRejectedEventHandler env re l = (r, l') \<longrightarrow>
      (r = Ok 0 \<or> (\<exists>t. r = Panic t)) \<and> tables l' = tables l \<or>
      r = Ok (cre_BlockNumber re) \<and> \<not> cancel_subscribed (tables l) (cre_TokenId re) \<and> tables l' = tables l \<and> plugin l' = plugin l \<or>
      r = Ok (cre_BlockNumber re) \<and> cancel_subscribed (tables l) (cre_TokenId re) \<and>
        (\<exists>ns. delivered (plugin l') = delivered (plugin l) @ ns \<and> rejected_processed l re ns (tables l'))) \<and>
    (cancellationWithdrawnEventHandler env re l = (r, l') \<longrightarrow>
      (r = Ok 0 \<or> (\<exists>t. r = Panic t)) \<and> tables l' = tables l \<or>
      r = Ok (cre_BlockNumber re) \<and> \<not> cancel_subscribed (tables l) (cre_TokenId re) \<and> tables l' = tables l \<and> plugin l' = plugin l \<or>
      r = Ok (cre_BlockNumber re) \<and> cancel_subscribed (tables l) (cre_TokenId re) \<and>
        (\<exists>ns. delivered (plugin l') = delivered (plugin l) @ ns \<and> withdrawn_processed l re ns (tables l'))) \<and>
    (cancellationFinalizedEventHandler env fe l = (r, l') \<longrightarrow>
      (r = Ok 0 \<or> (\<exists>t. r = Panic t)) \<and> tables l' = tables l \<or>
      r = Ok (cfe_BlockNumber fe) \<and> \<not> cancel_subscribed (tables l) (cfe_TokenId fe) \<and> tables l' = tables l \<and> plugin l' = plugin l \<or>
      r = Ok (cfe_BlockNumber fe) \<and> cancel_subscribed (tables l) (cfe_TokenId fe) \<and>
        (\<exists>ns. delivered (plugin l') = delivered (plugin l) @ ns \<and> finalized_processed l fe ns (tables l')))"
  by (intro conjI impI sale.outcome[OF assms] pending.outcome[OF TrueI] rejected.outcome[OF TrueI]
      withdrawn.outcome[OF TrueI] finalized.outcome[OF TrueI])

definition sample_lenv :: "status \<Rightarrow> listener_env" where
  "sample_lenv st = \<lparr>benv = sample_benv\<lparr>contract_GetBookingStatus := (\<lambda>_ _ _. Ok st)\<rparr>, bsvc = sample_booking,
     notifyEnv = (\<lambda>_ _. Ok ()), pickRow = hd\<rparr>"

definition sample_row :: tb_row where "sample_row = \<lparr>token_id = 42, mint_id = ''m'', timeout = 100\<rparr>"

definition sample_listener :: "eventListener" where
  "sample_listener = \<lparr>startingBlockNumber = 5,
     storage = \<lparr>committed = \<lparr>token_bought_subscriptions = [sample_row], cancellation_subscriptions = []\<rparr>, faults = (\<lambda>_. None), db_calls = 0\<rparr>,
     plugin = \<lparr>attempted = [], delivered = []\<rparr>, booking = sample_service, recordTokenExpiration = False,
     tokenBoughtTimer = Armed 0, tokenBoughtTimerSubscription = Some (modelFromTokenBoughtSubscription sample_row),
     tokenBoughtFeed = OpenFeed, cancellationFeed = OpenFeed\<rparr>"

definition sample_sale :: tokenBoughtEvent where
  "sample_sale = \<lparr>tbe_TokenId = 42, tbe_BlockNumber = 7, tbe_TxHash = 0xbeef\<rparr>"

lemma sample_listening: "listening sample_listener"
  by (simp add: listening_def saneDB_def sample_listener_def)

lemma handlers_all_or_nothing_witness:
  "fst (tokenBoughtEventHandler (sample_lenv 3) 0 sample_sale sample_listener) = Ok 7 \<and>
   (\<exists>ns. delivered (plugin (snd (tokenBoughtEventHandler (sample_lenv 3) 0 sample_sale sample_listener))) = [] @ ns \<and>
      sale_processed (sample_lenv 3) sample_listener sample_sale ns
        (tables (snd (tokenBoughtEventHandler (sample_lenv 3) 0 sample_sale sample_listener))))"
proof -
  let ?h = "tokenBoughtEventHandler (sample_lenv 3) 0 sample_sale sample_listener"
  have r: "fst ?h = Ok 7" by code_simp
  have ch: "token_bought_subscriptions (tables (snd ?h)) = []" by code_simp
  have e: "?h = (Ok 7, snd ?h)" using r by (metis prod.collapse)
  have t: "tables (snd ?h) \<noteq> tables sample_listener" using ch by (auto simp: sample_listener_def)
  have d: "delivered (plugin sample_listener) = []" by (simp add: sample_listener_def)
  note o = mp[OF conjunct1[OF handlers_all_or_nothing[OF sample_listening, of "sample_lenv 3" 0 sample_sale "Ok 7" "snd ?h"]] e]
  show ?thesis using o t d r by auto
qed


lemma sample_sale_step:
  "listener_step (sample_lenv 3) sample_listener (snd (tokenBoughtEventHandler (sample_lenv 3) 0 sample_sale sample_listener))"
  by (rule listener_step.sale_event[of _ 0 sample_sale _ "fst (tokenBoughtEventHandler (sample_lenv 3) 0 sample_sale sample_listener)"])
     (simp_all add: sample_sale_def)




text \<open>The timeout handler can spin. When the contract reports the token of the earliest
  subscription as anything but reserved and its timeout has passed, the handler neither notifies nor
  removes the subscription and arms the timer for it again with delay 0; so it runs again at once,
  any number of times, without progress.\<close>

lemma timeout_handler_spins:
  assumes "listening l" and "faults (storage l) = (\<lambda>_. None)" and "pick_ok env"
    and "minRows (token_bought_subscriptions (tables l)) = [row]" and "tokenBoughtTimerSubscription l = Some sub"
    and "TokenID sub = sint (token_id row)" and "unixTime (timeout row) < now"
    and "\<And>h. contract_GetBookingStatus (benv env) h None (TokenID sub) = Ok st" and "st \<noteq> StatusReserved"
  shows "tables (timeouts env now (Suc n) l) = tables l \<and> plugin (timeouts env now (Suc n) l) = plugin l \<and>
    tokenBoughtTimer (timeouts env now (Suc n) l) = Armed 0 \<and>
    tokenBoughtTimerSubscription (timeouts env now (Suc n) l) = Some (modelFromTokenBoughtSubscription row)"
  using timeouts_spin[OF assms, of "Suc n"] by simp

lemma timeout_handler_spins_witness:
  "tokenBoughtTimer (timeouts (sample_lenv StatusReservationExpired) 200000000000 (Suc 9) sample_listener) = Armed 0 \<and>
   plugin (timeouts (sample_lenv StatusReservationExpired) 200000000000 (Suc 9) sample_listener) = plugin sample_listener"
  by (rule conjI; rule timeout_handler_spins[of sample_listener "sample_lenv StatusReservationExpired" sample_row
        "modelFromTokenBoughtSubscription sample_row" 200000000000 StatusReservationExpired 9, THEN conjunct2, THEN conjunct2, THEN conjunct1]
      timeout_handler_spins[of sample_listener "sample_lenv StatusReservationExpired" sample_row
        "modelFromTokenBoughtSubscription sample_row" 200000000000 StatusReservationExpired 9, THEN conjunct2, THEN conjunct1])
     (simp_all add: listening_def saneDB_def sample_listener_def sample_lenv_def pick_ok_def minRows_def sample_row_def
        modelFromTokenBoughtSubscription_def unixTime_def StatusReservationExpired_def StatusReserved_def)

text \<open>A sale can crash a timeout that has already fired. If the sale of a token empties the
  table, the timer has no subscription left; a timeout handler whose timer fired before then
  dereferences nil, and its goroutine has no recovery.\<close>

lemma timeout_after_last_sale_panics:
  assumes "listening l" and "faults (storage l) = (\<lambda>_. None)"
    and "case tokenBoughtTimerSubscription l of None \<Rightarrow> True | Some sub \<Rightarrow> TokenID sub = tbe_TokenId e"
    and "tokenBoughtEventHandler env now e l = (r, l')" and "token_bought_subscriptions (tables l') = []"
  shows "tokenBoughtTimeoutHandler env now' l' = (Panic nilTimer, l')"
proof -
  have "timerFor env now [] l'"
    using sale_outcome[OF assms(1,4)] assms(2,3,5) by (auto split: option.splits)
  then show ?thesis by (simp add: timerFor_def tokenBoughtTimeoutHandler_def)
qed

lemma timeout_after_last_sale_panics_witness:
  "fst (tokenBoughtTimeoutHandler (sample_lenv 3) 1 (snd (tokenBoughtEventHandler (sample_lenv 3) 0 sample_sale sample_listener))) =
     Panic nilTimer"
proof -
  let ?h = "tokenBoughtEventHandler (sample_lenv 3) 0 sample_sale sample_listener"
  have "token_bought_subscriptions (tables (snd ?h)) = []" by code_simp
  moreover have "faults (storage sample_listener) = (\<lambda>_. None)"
    "case tokenBoughtTimerSubscription sample_listener of None \<Rightarrow> True | Some sub \<Rightarrow> TokenID sub = tbe_TokenId sample_sale"
    by (simp_all add: sample_listener_def sample_sale_def sample_row_def modelFromTokenBoughtSubscription_def)
  ultimately show ?thesis
    using timeout_after_last_sale_panics[OF sample_listening, of sample_sale "sample_lenv 3" 0 "fst ?h" "snd ?h" 1] by simp
qed

text \<open>An event whose processing failed is skipped by the next success. If the handler of a
  sale fails and the next event is processed, the block from which a resubscription starts is that
  of the second event, although the subscription of the first is still open and it was not
  notified; a resubscription from a later block does not deliver the first event again.\<close>

lemma failed_event_skipped:
  assumes "listening l" and "tokenBoughtEventHandler env now e1 l = (Ok 0, l1)" and "tbe_BlockNumber e1 \<noteq> 0"
    and "tokenBoughtEventHandler env now e2 l1 = (Ok n, l2)" and "n \<noteq> 0"
  shows "eventLoop (tokenBoughtEventHandler env now) [e1, e2] start l = (Ok (tbe_BlockNumber e2), l2) \<and> tables l1 = tables l"
proof -
  have "listening l1" by (rule sale.ready_kept[OF assms(1,2)])
  from sale.nonzero_is_done[OF this assms(4,5)] have "n = tbe_BlockNumber e2" by blast
  moreover have "tables l1 = tables l" using sale.outcome[OF assms(1,2)] assms(3) by auto
  ultimately show ?thesis using assms(2,4,5) by (simp add: aBind_def storeBlock_def)
qed

text \<open>The plugin refuses the first notification; the second event is of a token without subscription.\<close>

definition refusing_env :: listener_env where
  "refusing_env = (sample_lenv 3)\<lparr>notifyEnv := (\<lambda>h _. if h = [] then Fail (Sentinel ''unavailable'') else Ok ())\<rparr>"

lemma failed_event_skipped_witness:
  "fst (eventLoop (tokenBoughtEventHandler refusing_env 0) [sample_sale, \<lparr>tbe_TokenId = 43, tbe_BlockNumber = 9, tbe_TxHash = 1\<rparr>] 3 sample_listener) =
     Ok 9"
proof -
  let ?e = "\<lparr>tbe_TokenId = 43, tbe_BlockNumber = 9, tbe_TxHash = 1\<rparr>"
  let ?h1 = "tokenBoughtEventHandler refusing_env 0 sample_sale sample_listener"
  let ?h2 = "tokenBoughtEventHandler refusing_env 0 ?e (snd ?h1)"
  have "fst ?h1 = Ok 0" "fst ?h2 = Ok 9" by code_simp+
  then have "?h1 = (Ok 0, snd ?h1)" "?h2 = (Ok 9, snd ?h2)" by (metis prod.collapse)+
  from failed_event_skipped[OF sample_listening this(1) _ this(2)] show ?thesis by (simp add: sample_sale_def)
qed

end
