(* ===== verification/Mint.thy ===== *)
theory Mint
  imports Price Encoding Event_Listener
begin

text \<open>
  Minting and buying booking tokens around the exchange of messages:
  \<^verbatim>\<open>internal/messaging/response_handler.go\<close>, \<^verbatim>\<open>mint.go\<close>, \<^verbatim>\<open>mint_v3.go\<close>, \<^verbatim>\<open>mint_v4.go\<close>,
  \<^verbatim>\<open>mint_v5.go\<close> and \<^verbatim>\<open>mint_price_error.go\<close>. The supplier mints a token before it answers a mint
  request, the distributor buys the token of the answer. The state holds the event listener (with
  the booking service and the subscriptions) and the ERC20 service. Parameters are the environments
  of these, and the functions of go-ethereum and protobuf the code calls.
\<close>

section \<open>Messages\<close>

text \<open>Protobuf messages with the fields the code reads or writes; \<open>None\<close> is a nil message. The open
  enum of the status has other values than the two named in the code. A response of version 4 or 5
  is a one-of.\<close>

record timestamp =
  Seconds :: int64
  Nanos :: int32

datatype statusType = STATUS_TYPE_SUCCESS | STATUS_TYPE_FAILURE | StatusTypeOther int32

datatype alertType = ALERT_TYPE_ERROR | ALERT_CODE_INFORMATIONAL | AlertOther int32

datatype errorCode = ERROR_CODE_INTERNAL | ERROR_CODE_INVALID_PROTO | ERROR_CODE_BLOCKCHAIN_ERROR | ERROR_CODE_BUSINESS_PROCESS_ERROR | ErrorCodeOther int32

record responseHeaderV1 =
  Status :: statusType
  Alerts :: "(alertType \<times> msgtext) list"

record mintRequestV3 =
  BuyerAddressV3 :: "string option"
  BookingReferenceV3 :: string

record mintResponseV3 =
  HeaderV3 :: "responseHeaderV1 option"
  MintIdV3 :: "string option"
  BuyableUntilV3 :: "timestamp option"
  PriceV3 :: "priceV3 option"
  BookingTokenUriV3 :: string
  BookingTokenIdV3 :: uint64
  MintTransactionIdV3 :: "string option"
  CancellableV3 :: bool
  BuyTransactionIdV3 :: "string option"

record mintRequestV4 =
  BuyerAddress :: "string option"
  ExpectedPrice :: "priceV4 option"

record mintSuccessResponse =
  Header :: "(alertType \<times> msgtext) list option"
  MintId :: "string option"
  BuyableUntil :: "timestamp option"
  Price :: "priceV4 option"
  BookingTokenUri :: string
  BookingTokenId :: uint64
  MintTransactionId :: "string option"
  Cancellable :: bool
  BuyTransactionId :: "string option"

datatype mintResponseV4 =
    SuccessResponse mintSuccessResponse
  | ErrorResponse "(errorCode \<times> msgtext) list"
  | NoResponse

datatype content =
    MintRequestV3 mintRequestV3
  | MintRequestV4 mintRequestV4
  | MintRequestV5 mintRequestV4
  | MintResponseV3 mintResponseV3
  | MintResponseV4 mintResponseV4
  | MintResponseV5 mintResponseV4
  | OtherContent bytes

section \<open>State and parameters\<close>

record 'c mint_env =
  lenv :: listener_env
  tokens :: "'c erc20_env"
  HexToAddress :: "string \<Rightarrow> address"
  IsHexAddress :: "string \<Rightarrow> bool"
  Hash_Hex :: "hash \<Rightarrow> string"
  timestamppb_New :: "time \<Rightarrow> timestamp"
  proto_Equal :: "priceV4 option \<Rightarrow> priceV4 option \<Rightarrow> bool"

record 'c mint_state =
  listener :: eventListener
  erc20s :: "'c erc20Service"

record tokenBuyableUntil =
  Default :: duration
  Minimal :: duration
  Maximal :: duration

record evmResponseHandler =
  ttmAccountAddressStr :: string
  buyableLimits :: tokenBuyableUntil

definition NewResponseHandler :: "string \<Rightarrow> bool \<Rightarrow> evmResponseHandler" where
  "NewResponseHandler ttmAccountAddress e2eTestMode =
     (let limits = \<lparr>Default = 300 * second, Minimal = 70 * second, Maximal = 600 * second\<rparr>;
          limits = (if e2eTestMode then limits\<lparr>Default := 10 * second, Minimal := 5 * second, Maximal := 20 * second\<rparr> else limits)
      in \<lparr>ttmAccountAddressStr = ttmAccountAddress, buyableLimits = limits\<rparr>)"

definition onListener :: "(eventListener, 'a) act \<Rightarrow> ('c mint_state, 'a) act" where
  "onListener m = (\<lambda>s. case m (listener s) of (r, l) \<Rightarrow> (r, s\<lparr>listener := l\<rparr>))"

definition onErc20 :: "('c erc20Service, 'a) act \<Rightarrow> ('c mint_state, 'a) act" where
  "onErc20 m = (\<lambda>s. case m (erc20s s) of (r, e) \<Rightarrow> (r, s\<lparr>erc20s := e\<rparr>))"

text \<open>Reading a field through a pointer that may be nil.\<close>

definition deref :: "'a option \<Rightarrow> 'a res" where
  "deref p = (case p of Some v \<Rightarrow> Ok v | None \<Rightarrow> Panic nilDereference)"

section \<open>The token URI (mint.go)\<close>

text \<open>\<open>utf8.DecodeRune\<close>: the length of the first character, 0 when the bytes are not valid UTF-8.\<close>

definition cont :: "nat \<Rightarrow> bool" where "cont b \<longleftrightarrow> 0x80 \<le> b \<and> b \<le> 0xBF"

definition runeLen4 :: "nat \<Rightarrow> nat \<Rightarrow> nat \<Rightarrow> nat \<Rightarrow> nat" where
  "runeLen4 a b c d =
     (if a < 0x80 then 1
      else if 0xC2 \<le> a \<and> a \<le> 0xDF \<and> cont b then 2
      else if (a = 0xE0 \<and> 0xA0 \<le> b \<and> b \<le> 0xBF \<or> a = 0xED \<and> 0x80 \<le> b \<and> b \<le> 0x9F \<or>
               0xE1 \<le> a \<and> a \<le> 0xEF \<and> a \<noteq> 0xED \<and> cont b) \<and> cont c then 3
      else if (a = 0xF0 \<and> 0x90 \<le> b \<and> b \<le> 0xBF \<or> a = 0xF4 \<and> 0x80 \<le> b \<and> b \<le> 0x8F \<or>
               0xF1 \<le> a \<and> a \<le> 0xF3 \<and> cont b) \<and> cont c \<and> cont d then 4
      else 0)"

text \<open>Missing bytes are read as 0, which continues no character.\<close>

fun runeLen :: "nat list \<Rightarrow> nat" where
  "runeLen [] = 0"
| "runeLen [a] = runeLen4 a 0 0 0"
| "runeLen [a, b] = runeLen4 a b 0 0"
| "runeLen [a, b, c] = runeLen4 a b c 0"
| "runeLen (a # b # c # d # ds) = runeLen4 a b c d"

definition hexDigit :: "nat \<Rightarrow> char" where "hexDigit n = ''0123456789abcdef'' ! n"

text \<open>The escaping of \<open>encoding/json\<close> for a byte of a string literal, and for the literal.\<close>

definition jsonByte :: "nat \<Rightarrow> string" where
  "jsonByte b =
     (if b = 34 \<or> b = 92 then [CHR 0x5C, char_of b]
      else if b = 8 then [CHR 0x5C, CHR ''b''] else if b = 12 then [CHR 0x5C, CHR ''f'']
      else if b = 10 then [CHR 0x5C, CHR ''n''] else if b = 13 then [CHR 0x5C, CHR ''r'']
      else if b = 9 then [CHR 0x5C, CHR ''t'']
      else if b < 32 \<or> b = 60 \<or> b = 62 \<or> b = 38
      then CHR 0x5C # ''u00'' @ [hexDigit (b div 16), hexDigit (b mod 16)]
      else [char_of b])"

fun jsonEscape :: "nat list \<Rightarrow> string" where
  "jsonEscape [] = []"
| "jsonEscape (b # bs) =
     (if b < 0x80 then jsonByte b @ jsonEscape bs
      else let n = runeLen (b # bs) in
        if n = 0 then CHR 0x5C # ''ufffd'' @ jsonEscape bs
        else if take 2 (b # bs) = [0xE2, 0x80] \<and> (drop 2 (take 3 (b # bs)) = [0xA8] \<or> drop 2 (take 3 (b # bs)) = [0xA9])
        then CHR 0x5C # ''u202'' @ (if drop 2 (take 3 (b # bs)) = [0xA8] then ''8'' else ''9'') @ jsonEscape (drop 2 bs)
        else map char_of (take n (b # bs)) @ jsonEscape (drop (n - 1) bs))"

definition jsonString :: "string \<Rightarrow> string" where
  "jsonString s = CHR 0x22 # jsonEscape (map of_char s) @ [CHR 0x22]"

definition jsonField :: "string \<Rightarrow> string \<Rightarrow> string" where
  "jsonField name value = jsonString name @ '':'' @ value"

fun commaJoin :: "string list \<Rightarrow> string" where
  "commaJoin [] = []"
| "commaJoin [x] = x"
| "commaJoin (x # y # ys) = x @ '','' @ commaJoin (y # ys)"

record hotelAttribute =
  TraitType :: string
  AttrValue :: string

definition attributeJSON :: "hotelAttribute \<Rightarrow> string" where
  "attributeJSON a = ''{'' @ jsonField ''trait_type'' (jsonString (TraitType a)) @ '','' @ jsonField ''value'' (jsonString (AttrValue a)) @ ''}''"

text \<open>\<open>base64.StdEncoding\<close>.\<close>

definition b64Digit :: "nat \<Rightarrow> char" where
  "b64Digit n = ''ABCDEFGHIJKLMNOPQRSTUVWXYZabcdefghijklmnopqrstuvwxyz0123456789+/'' ! (n mod 64)"

fun base64 :: "nat list \<Rightarrow> string" where
  "base64 [] = []"
| "base64 [a] = [b64Digit (a div 4), b64Digit (a mod 4 * 16), CHR ''='', CHR ''='']"
| "base64 [a, b] = [b64Digit (a div 4), b64Digit (a mod 4 * 16 + b div 16), b64Digit (b mod 16 * 4), CHR ''='']"
| "base64 (a # b # c # cs) =
     [b64Digit (a div 4), b64Digit (a mod 4 * 16 + b div 16), b64Digit (b mod 16 * 4 + c div 64), b64Digit (c mod 64)] @ base64 cs"

text \<open>Empty fields marked \<open>omitempty\<close> are left out.\<close>

definition generateAndEncodeJSON :: "string \<Rightarrow> string \<Rightarrow> string \<Rightarrow> string \<Rightarrow> string \<Rightarrow> hotelAttribute list \<Rightarrow> string \<times> string" where
  "generateAndEncodeJSON nm description date externalURL img attributes =
     (let opt = (\<lambda>k v. if v = [] then [] else [jsonField k (jsonString v)]);
          jsonData = ''{'' @ commaJoin ([jsonField ''name'' (jsonString nm)] @ opt ''description'' description @ opt ''date'' date @
            opt ''external_url'' externalURL @ opt ''image'' img @
            (if attributes = [] then [] else [jsonField ''attributes'' (''['' @ commaJoin (map attributeJSON attributes) @ '']'')])) @ ''}''
      in (jsonData, base64 (map of_char jsonData)))"

definition createTokenURIforMintResponse :: "string \<Rightarrow> string \<Rightarrow> string \<times> string" where
  "createTokenURIforMintResponse mintID bookingReference =
     (case generateAndEncodeJSON ''CM Booking Token'' ''This NFT represents the booking with the specified attributes.''
             ''2024-09-27'' ''https://camino.network'' ''https://camino.network/static/images/N9IkxmG-Sg-1800.webp''
             [\<lparr>TraitType = ''Mint ID'', AttrValue = mintID\<rparr>, \<lparr>TraitType = ''Reference'', AttrValue = bookingReference\<rparr>]
      of (jsonPlain, jsonEncoded) \<Rightarrow> (jsonPlain, ''data:application/json;base64,'' @ jsonEncoded))"

section \<open>Time limits and subscriptions (mint.go)\<close>

definition verifyAndFixBuyableUntil ::
  "'c mint_env \<Rightarrow> evmResponseHandler \<Rightarrow> timestamp option \<Rightarrow> time \<Rightarrow> timestamp res" where
  "verifyAndFixBuyableUntil env h buyableUntil currentTime =
     (case buyableUntil of
        None \<Rightarrow> Ok (timestamppb_New env (currentTime + Default (buyableLimits h)))
      | Some b \<Rightarrow>
          if Seconds b = 0 then Ok (timestamppb_New env (currentTime + Default (buyableLimits h)))
          else if sint (Seconds b) < sint (Seconds (timestamppb_New env currentTime))
          then Fail (Err [PStr ''BuyableUntil is in the past: '', PInt (sint (Seconds b)), PInt (sint (Nanos b))] [])
          else if sint (Seconds b) < sint (Seconds (timestamppb_New env (currentTime + Minimal (buyableLimits h))))
          then Ok (timestamppb_New env (currentTime + Minimal (buyableLimits h)))
          else if sint (Seconds b) > sint (Seconds (timestamppb_New env (currentTime + Maximal (buyableLimits h))))
          then Ok (timestamppb_New env (currentTime + Maximal (buyableLimits h)))
          else Ok b)"

text \<open>A failure to subscribe is only logged.\<close>

definition subscribeForTokenBoughtEvent :: "time \<Rightarrow> int \<Rightarrow> string \<Rightarrow> timestamp \<Rightarrow> ('c mint_state, unit) act" where
  "subscribeForTokenBoughtEvent now tokenID mintID buyableUntil =
     aTry (onListener (SubscribeTokenBoughtEvent now tokenID mintID (unixTime (sint (Seconds buyableUntil)))))
       aRet (\<lambda>_. aRet ())"

definition errMissingMintTxID :: err where "errMissingMintTxID = Sentinel ''missing mint transaction id''"

definition errUnexpectedMintResponsePrice :: err where
  "errUnexpectedMintResponsePrice = Sentinel ''expected price does not match the mint response price''"

section \<open>What the versions share\<close>

text \<open>The versions do the same work between reading the request and building the answer, and answer
  its failures with different messages.\<close>

datatype mint_failure = BadBuyableUntil err | BadPrice err | BadTransaction err

definition mintOffer ::
  "'c mint_env \<Rightarrow> evmResponseHandler \<Rightarrow> time \<Rightarrow> time \<Rightarrow> timestamp option \<Rightarrow> ('c erc20Service, int \<times> address \<times> int) act \<Rightarrow>
     string option \<Rightarrow> string \<Rightarrow> bool \<Rightarrow> string option \<Rightarrow> ('c mint_state, mint_failure + timestamp \<times> receipt \<times> int) act" where
  "mintOffer env h now later offered getPrice buyer uri cancellable mintId =
     aTry (aLift (verifyAndFixBuyableUntil env h offered now)) (\<lambda>buyableUntil.
     aTry (onErc20 getPrice) (\<lambda>(price, paymentToken, isoCurrency).
     aTry (aBind (aLift (deref buyer)) (\<lambda>e. e) (\<lambda>buyer.
             onListener (onBooking (MintBookingToken (benv (lenv env)) (bsvc (lenv env)) (HexToAddress env buyer) uri
               (sint (Seconds buyableUntil)) price paymentToken isoCurrency cancellable))))
       (\<lambda>(receipt, tokenID).
         aBind (aLift (deref mintId)) (\<lambda>e. e) (\<lambda>mintID.
         aBind (subscribeForTokenBoughtEvent later tokenID mintID buyableUntil) (\<lambda>e. e) (\<lambda>_.
           aRet (Inr (buyableUntil, receipt, tokenID)))))
       (\<lambda>e. aRet (Inl (BadTransaction e))))
       (\<lambda>e. aRet (Inl (BadPrice e))))
       (\<lambda>e. aRet (Inl (BadBuyableUntil e)))"

definition buyOffer ::
  "'c mint_env \<Rightarrow> ('c erc20Service, int \<times> address \<times> int) act \<Rightarrow> int \<Rightarrow> ('c mint_state, mint_failure + receipt) act" where
  "buyOffer env getPrice tokenID =
     aTry (onErc20 getPrice) (\<lambda>(price, paymentToken, _).
     aTry (onListener (onBooking (BuyBookingToken (benv (lenv env)) (bsvc (lenv env)) tokenID price paymentToken)))
       (\<lambda>receipt. aRet (Inr receipt)) (\<lambda>e. aRet (Inl (BadTransaction e))))
       (\<lambda>e. aRet (Inl (BadPrice e)))"

text \<open>The subscription of the buyer: a failure becomes an alert of the answer.\<close>

definition cancellationAlert :: "int \<Rightarrow> string option \<Rightarrow> ('c mint_state, msgtext option) act" where
  "cancellationAlert tokenID mintId =
     aTry (onListener (SubscribeCancellationEvents tokenID)) (\<lambda>_. aRet None) (\<lambda>e.
       aBind (aLift (deref mintId)) (\<lambda>e. e) (\<lambda>mintID.
         aRet (Some ([PStr ''error subscribing for cancellation events as distributor (tokenID: '', PInt (sint (big_Int64 tokenID)),
           PStr '', mintID: '', PStr mintID, PStr ''): ''] @ Error e))))"

section \<open>Version 3 (mint_v3.go)\<close>

definition mintErrResponseV3 :: "msgtext \<Rightarrow> mintResponseV3" where
  "mintErrResponseV3 errMessage =
     \<lparr>HeaderV3 = Some \<lparr>Status = STATUS_TYPE_FAILURE, Alerts = [(ALERT_TYPE_ERROR, errMessage)]\<rparr>, MintIdV3 = None, BuyableUntilV3 = None,
      PriceV3 = None, BookingTokenUriV3 = [], BookingTokenIdV3 = 0, MintTransactionIdV3 = None, CancellableV3 = False, BuyTransactionIdV3 = None\<rparr>"

fun mintFailureV3 :: "string \<Rightarrow> mint_failure \<Rightarrow> mintResponseV3" where
  "mintFailureV3 action (BadBuyableUntil e) = mintErrResponseV3 (Error e)"
| "mintFailureV3 action (BadPrice e) = mintErrResponseV3 (PStr ''error getting price and payment token: '' # Error e)"
| "mintFailureV3 action (BadTransaction e) = mintErrResponseV3 (PStr action # Error e)"

definition prepareMintResponseV3 ::
  "'c mint_env \<Rightarrow> evmResponseHandler \<Rightarrow> time \<Rightarrow> time \<Rightarrow> mintRequestV3 \<Rightarrow> mintResponseV3 \<Rightarrow> ('c mint_state, mintResponseV3) act" where
  "prepareMintResponseV3 env h now later request response =
     aBind (aLift (deref (HeaderV3 response))) (\<lambda>e. e) (\<lambda>header.
     if Status header \<noteq> STATUS_TYPE_SUCCESS then aRet response
     else aBind (aLift (deref (BuyerAddressV3 request))) (\<lambda>e. e) (\<lambda>buyer.
     if \<not> IsHexAddress env buyer then aRet (mintErrResponseV3 [PStr ''Invalid BuyerAddress: '', PStr buyer])
     else aBind (aLift (if BookingTokenUriV3 response \<noteq> [] then Ok (BookingTokenUriV3 response)
                        else onErr (deref (MintIdV3 response)) (\<lambda>e. e)
                               (\<lambda>mintID. Ok (snd (createTokenURIforMintResponse mintID (BookingReferenceV3 request)))))) (\<lambda>e. e) (\<lambda>uri.
     aBind (mintOffer env h now later (BuyableUntilV3 response)
              (\<lambda>s. GetPriceAndTokenV3 (HexToAddress env) (tokens env) s (PriceV3 response))
              (Some buyer) uri (CancellableV3 response) (MintIdV3 response)) (\<lambda>e. e) (\<lambda>r.
       aRet (case r of
          Inl f \<Rightarrow> mintFailureV3 ''error minting NFT: '' f
        | Inr (buyableUntil, receipt, tokenID) \<Rightarrow>
            response\<lparr>HeaderV3 := Some (header\<lparr>Status := STATUS_TYPE_SUCCESS\<rparr>), BookingTokenUriV3 := uri, BuyableUntilV3 := Some buyableUntil,
              BookingTokenIdV3 := big_Uint64 tokenID, MintTransactionIdV3 := Some (Hash_Hex env (receipt_TxHash receipt))\<rparr>)))))"

definition processMintResponseV3 :: "'c mint_env \<Rightarrow> mintResponseV3 \<Rightarrow> ('c mint_state, mintResponseV3) act" where
  "processMintResponseV3 env response =
     aBind (aLift (deref (HeaderV3 response))) (\<lambda>e. e) (\<lambda>header.
     if Status header = STATUS_TYPE_FAILURE then aRet response
     else if MintTransactionIdV3 response = None \<or> MintTransactionIdV3 response = Some []
     then aRet (mintErrResponseV3 (Error errMissingMintTxID))
     else let tokenID = uint (BookingTokenIdV3 response) in
     aBind (buyOffer env (\<lambda>s. GetPriceAndTokenV3 (HexToAddress env) (tokens env) s (PriceV3 response)) tokenID) (\<lambda>e. e) (\<lambda>r.
       case r of
         Inl f \<Rightarrow> aRet (mintFailureV3 ''error buying NFT: '' f)
       | Inr receipt \<Rightarrow>
           let response = response\<lparr>BuyTransactionIdV3 := Some (Hash_Hex env (receipt_TxHash receipt))\<rparr> in
           if \<not> CancellableV3 response then aRet response
           else aBind (cancellationAlert tokenID (MintIdV3 response)) (\<lambda>e. e) (\<lambda>alert.
             aRet (case alert of None \<Rightarrow> response
               | Some t \<Rightarrow> response\<lparr>HeaderV3 := Some (header\<lparr>Alerts := Alerts header @ [(ALERT_TYPE_ERROR, t)]\<rparr>)\<rparr>))))"

section \<open>Versions 4 and 5 (mint_v4.go, mint_v5.go)\<close>

definition mintErrResponseV4 :: "errorCode \<Rightarrow> msgtext \<Rightarrow> mintResponseV4" where
  "mintErrResponseV4 code errMessage = ErrorResponse [(code, errMessage)]"

definition mintErrResponseV5 :: "errorCode \<Rightarrow> msgtext \<Rightarrow> mintResponseV4" where
  "mintErrResponseV5 code errMessage = ErrorResponse [(code, errMessage)]"

fun mintFailureV4 :: "(errorCode \<Rightarrow> msgtext \<Rightarrow> mintResponseV4) \<Rightarrow> string \<Rightarrow> mint_failure \<Rightarrow> mintResponseV4" where
  "mintFailureV4 resp action (BadBuyableUntil e) = resp ERROR_CODE_INTERNAL (Error e)"
| "mintFailureV4 resp action (BadPrice e) = resp ERROR_CODE_INTERNAL (PStr ''error getting price and payment token: '' # Error e)"
| "mintFailureV4 resp action (BadTransaction e) = resp ERROR_CODE_BLOCKCHAIN_ERROR (PStr action # Error e)"

definition mintedV4 :: "'c mint_env \<Rightarrow> mintSuccessResponse \<Rightarrow> timestamp \<times> receipt \<times> int \<Rightarrow> mintSuccessResponse" where
  "mintedV4 env successResp = (\<lambda>(buyableUntil, receipt, tokenID).
     successResp\<lparr>BuyableUntil := Some buyableUntil, BookingTokenId := big_Uint64 tokenID,
       MintTransactionId := Some (Hash_Hex env (receipt_TxHash receipt))\<rparr>)"

definition prepareMintResponseV4 ::
  "'c mint_env \<Rightarrow> evmResponseHandler \<Rightarrow> time \<Rightarrow> time \<Rightarrow> mintRequestV4 \<Rightarrow> mintResponseV4 \<Rightarrow> ('c mint_state, mintResponseV4) act" where
  "prepareMintResponseV4 env h now later request response =
     (case response of
        SuccessResponse successResp \<Rightarrow>
          aBind (mintOffer env h now later (BuyableUntil successResp)
                   (\<lambda>s. GetPriceAndTokenV4 (HexToAddress env) (tokens env) s (Price successResp))
                   (BuyerAddress request) (BookingTokenUri successResp) (Cancellable successResp) (MintId successResp)) (\<lambda>e. e) (\<lambda>r.
            aRet (case r of
               Inl f \<Rightarrow> mintFailureV4 mintErrResponseV4 ''error minting booking token: '' f
             | Inr m \<Rightarrow> SuccessResponse (mintedV4 env successResp m)))
      | _ \<Rightarrow> aRet response)"

definition prepareMintResponseV5 ::
  "'c mint_env \<Rightarrow> evmResponseHandler \<Rightarrow> time \<Rightarrow> time \<Rightarrow> mintRequestV4 \<Rightarrow> mintResponseV4 \<Rightarrow> ('c mint_state, mintResponseV4) act" where
  "prepareMintResponseV5 env h now later request response =
     (case response of
        SuccessResponse successResp \<Rightarrow>
          aBind (mintOffer env h now later (BuyableUntil successResp)
                   (\<lambda>s. GetPriceAndTokenV5 (HexToAddress env) (tokens env) s (Price successResp))
                   (BuyerAddress request) (BookingTokenUri successResp) (Cancellable successResp) (MintId successResp)) (\<lambda>e. e) (\<lambda>r.
            aRet (case r of
               Inl f \<Rightarrow> mintFailureV4 mintErrResponseV5 ''error minting booking token: '' f
             | Inr m \<Rightarrow> SuccessResponse (mintedV4 env successResp m)))
      | _ \<Rightarrow> aRet response)"

text \<open>The text of a price that does not match (\<^verbatim>\<open>mint_price_error.go\<close>); the currency is rendered by its
  kind and argument.\<close>

definition currencyText :: "currencyV4 option \<Rightarrow> msgtext" where
  "currencyText c = (case c of None \<Rightarrow> [] | Some NativeTokenV4 \<Rightarrow> [PStr ''native_token'']
     | Some (TokenCurrencyV4 a) \<Rightarrow> PStr ''token_currency'' # (case a of None \<Rightarrow> [] | Some s \<Rightarrow> [PStr s])
     | Some (IsoCurrencyV4 i) \<Rightarrow> [PStr ''iso_currency'', PInt (sint i)])"

definition priceStringV4 :: "priceV4 option \<Rightarrow> msgtext" where
  "priceStringV4 p = (case p of None \<Rightarrow> [PStr ''<nil>'']
     | Some p \<Rightarrow> [PStr ''{value='', PStr (Value p), PStr '' decimals='', PInt (uint (PriceDecimals p)), PStr '' currency=''] @
                 currencyText (Currency p) @ [PStr ''}''])"

definition formatMintPriceMismatchV4 :: "priceV4 option \<Rightarrow> priceV4 option \<Rightarrow> msgtext" where
  "formatMintPriceMismatchV4 expected actual =
     Error errUnexpectedMintResponsePrice @ [PStr '': expected ''] @ priceStringV4 expected @ [PStr '', got ''] @ priceStringV4 actual"

definition priceStringV5 :: "priceV5 option \<Rightarrow> msgtext" where "priceStringV5 p = priceStringV4 p"

definition formatMintPriceMismatchV5 :: "priceV5 option \<Rightarrow> priceV5 option \<Rightarrow> msgtext" where
  "formatMintPriceMismatchV5 expected actual =
     Error errUnexpectedMintResponsePrice @ [PStr '': expected ''] @ priceStringV5 expected @ [PStr '', got ''] @ priceStringV5 actual"

text \<open>The end of both versions: the transaction and, for a cancellable booking, the subscription.\<close>

definition boughtV4 :: "'c mint_env \<Rightarrow> mintSuccessResponse \<Rightarrow> receipt \<Rightarrow> ('c mint_state, mintSuccessResponse) act" where
  "boughtV4 env successResp receipt =
     (let successResp = successResp\<lparr>BuyTransactionId := Some (Hash_Hex env (receipt_TxHash receipt))\<rparr> in
      if \<not> Cancellable successResp then aRet successResp
      else aBind (cancellationAlert (uint (BookingTokenId successResp)) (MintId successResp)) (\<lambda>e. e) (\<lambda>alert.
        case alert of
          None \<Rightarrow> aRet successResp
        | Some t \<Rightarrow> aBind (aLift (deref (Header successResp))) (\<lambda>e. e) (\<lambda>alerts.
            aRet (successResp\<lparr>Header := Some (alerts @ [(ALERT_CODE_INFORMATIONAL, t)])\<rparr>))))"

definition processMintResponseV4 :: "'c mint_env \<Rightarrow> mintRequestV4 \<Rightarrow> mintResponseV4 \<Rightarrow> ('c mint_state, mintResponseV4) act" where
  "processMintResponseV4 env request response =
     (case response of
        SuccessResponse successResp \<Rightarrow>
          if MintTransactionId successResp = None
          then aRet (mintErrResponseV4 ERROR_CODE_BUSINESS_PROCESS_ERROR (Error errMissingMintTxID))
          else if \<not> proto_Equal env (ExpectedPrice request) (Price successResp)
          then aRet (mintErrResponseV4 ERROR_CODE_BUSINESS_PROCESS_ERROR
                 (formatMintPriceMismatchV4 (ExpectedPrice request) (Price successResp)))
          else aBind (buyOffer env (\<lambda>s. GetPriceAndTokenV4 (HexToAddress env) (tokens env) s (Price successResp))
                        (uint (BookingTokenId successResp))) (\<lambda>e. e) (\<lambda>r.
            case r of
              Inl f \<Rightarrow> aRet (mintFailureV4 mintErrResponseV4 ''error buying booking token: '' f)
            | Inr receipt \<Rightarrow> aBind (boughtV4 env successResp receipt) (\<lambda>e. e) (\<lambda>b. aRet (SuccessResponse b)))
      | _ \<Rightarrow> aRet response)"

definition processMintResponseV5 :: "'c mint_env \<Rightarrow> mintRequestV4 \<Rightarrow> mintResponseV4 \<Rightarrow> ('c mint_state, mintResponseV4) act" where
  "processMintResponseV5 env request response =
     (case response of
        SuccessResponse successResp \<Rightarrow>
          if MintTransactionId successResp = None
          then aRet (mintErrResponseV5 ERROR_CODE_BUSINESS_PROCESS_ERROR (Error errMissingMintTxID))
          else if \<not> proto_Equal env (ExpectedPrice request) (Price successResp)
          then aRet (mintErrResponseV5 ERROR_CODE_BUSINESS_PROCESS_ERROR
                 (formatMintPriceMismatchV5 (ExpectedPrice request) (Price successResp)))
          else aBind (buyOffer env (\<lambda>s. GetPriceAndTokenV5 (HexToAddress env) (tokens env) s (Price successResp))
                        (uint (BookingTokenId successResp))) (\<lambda>e. e) (\<lambda>r.
            case r of
              Inl f \<Rightarrow> aRet (mintFailureV4 mintErrResponseV5 ''error buying booking token: '' f)
            | Inr receipt \<Rightarrow> aBind (boughtV4 env successResp receipt) (\<lambda>e. e) (\<lambda>b. aRet (SuccessResponse b)))
      | _ \<Rightarrow> aRet response)"

section \<open>Dispatch (response_handler.go)\<close>

definition badAssertion :: msgtext where "badAssertion = [PStr ''interface conversion'']"

definition ProcessResponseMessage ::
  "'c mint_env \<Rightarrow> content message \<Rightarrow> content message \<Rightarrow> ('c mint_state, content message) act" where
  "ProcessResponseMessage env requestMsg responseMsg =
     aBind (case msg_Content responseMsg of
              MintResponseV3 response \<Rightarrow> aBind (processMintResponseV3 env response) (\<lambda>e. e) (\<lambda>r. aRet (MintResponseV3 r))
            | MintResponseV4 response \<Rightarrow>
                (case msg_Content requestMsg of
                   MintRequestV4 request \<Rightarrow> aBind (processMintResponseV4 env request response) (\<lambda>e. e) (\<lambda>r. aRet (MintResponseV4 r))
                 | _ \<Rightarrow> aLift (Panic badAssertion))
            | MintResponseV5 response \<Rightarrow>
                (case msg_Content requestMsg of
                   MintRequestV5 request \<Rightarrow> aBind (processMintResponseV5 env request response) (\<lambda>e. e) (\<lambda>r. aRet (MintResponseV5 r))
                 | _ \<Rightarrow> aLift (Panic badAssertion))
            | c \<Rightarrow> aRet c)
       (\<lambda>e. e) (\<lambda>c. aRet (responseMsg\<lparr>msg_Content := c\<rparr>))"

definition PrepareResponseMessage ::
  "'c mint_env \<Rightarrow> evmResponseHandler \<Rightarrow> time \<Rightarrow> time \<Rightarrow> content message \<Rightarrow> content message \<Rightarrow> ('c mint_state, content message) act" where
  "PrepareResponseMessage env h now later requestMsg responseMsg =
     aBind (case msg_Content responseMsg of
              MintResponseV3 response \<Rightarrow>
                (case msg_Content requestMsg of
                   MintRequestV3 request \<Rightarrow>
                     aBind (prepareMintResponseV3 env h now later request response) (\<lambda>e. e) (\<lambda>r. aRet (MintResponseV3 r))
                 | _ \<Rightarrow> aLift (Panic badAssertion))
            | MintResponseV4 response \<Rightarrow>
                (case msg_Content requestMsg of
                   MintRequestV4 request \<Rightarrow>
                     aBind (prepareMintResponseV4 env h now later request response) (\<lambda>e. e) (\<lambda>r. aRet (MintResponseV4 r))
                 | _ \<Rightarrow> aLift (Panic badAssertion))
            | MintResponseV5 response \<Rightarrow>
                (case msg_Content requestMsg of
                   MintRequestV5 request \<Rightarrow>
                     aBind (prepareMintResponseV5 env h now later request response) (\<lambda>e. e) (\<lambda>r. aRet (MintResponseV5 r))
                 | _ \<Rightarrow> aLift (Panic badAssertion))
            | c \<Rightarrow> aRet c)
       (\<lambda>e. e) (\<lambda>c. aRet (responseMsg\<lparr>msg_Content := c\<rparr>))"

fun PrepareRequest :: "evmResponseHandler \<Rightarrow> content \<Rightarrow> content" where
  "PrepareRequest h (MintRequestV3 request) = MintRequestV3 (request\<lparr>BuyerAddressV3 := Some (ttmAccountAddressStr h)\<rparr>)"
| "PrepareRequest h (MintRequestV4 request) = MintRequestV4 (request\<lparr>BuyerAddress := Some (ttmAccountAddressStr h)\<rparr>)"
| "PrepareRequest h (MintRequestV5 request) = MintRequestV5 (request\<lparr>BuyerAddress := Some (ttmAccountAddressStr h)\<rparr>)"
| "PrepareRequest h c = c"

end
