(* ===== verification/Mint_Trade.thy ===== *)
theory Mint_Trade
  imports Mint
begin

text \<open>
  What the mint handlers do on the chain: the supplier mints at most one token per answer, for the
  buyer and the price of the exchange and within the time limits; the distributor buys at the price
  it asked for in versions 4 and 5, and at whatever the answer says in version 3.
\<close>

section \<open>Transactions of a run\<close>

abbreviation history :: "'c mint_state \<Rightarrow> chain_op list" where "history s \<equiv> ops (booking (listener s))"

definition txs :: "'c mint_state \<Rightarrow> chain_op list" where "txs s = filter isTransact (history s)"

lemma filter_no_tx: "list_all (\<lambda>op. \<not> isTransact op) ys \<Longrightarrow> filter isTransact ys = []"
  by (simp add: list_all_iff filter_empty_conv)

text \<open>Work on the tables and on the timer does not touch the booking service.\<close>

lemma inDB_booking: "inDB m (s, l) = (r, s', l') \<Longrightarrow> booking l' = booking l"
  by (auto simp: inDB_def split: prod.splits)

lemma session_booking:
  assumes "session w body l = (r, l')" and "\<And>s l r s' l'. body (s, l) = (r, s', l') \<Longrightarrow> booking l' = booking l"
  shows "booking l' = booking l"
proof -
  obtain r0 d where n: "NewSession (storage l) = (r0, d)" by (cases "NewSession (storage l)")
  show ?thesis
  proof (cases r0)
    case (Ok s)
    obtain r1 s1 l1 where b: "body (s, l\<lparr>storage := d\<rparr>) = (r1, s1, l1)" by (cases "body (s, l\<lparr>storage := d\<rparr>)")
    from assms(2)[OF b] have "booking l1 = booking l" by simp
    moreover have "booking l' = booking l1" using assms(1) n Ok b by (auto simp: session_def)
    ultimately show ?thesis by simp
  qed (use assms(1) n in \<open>auto simp: session_def\<close>)
qed

lemma aBind_inDB_booking:
  assumes "aBind (inDB m) w k (s, l) = (r, s', l')"
    and "\<And>v s l r s' l'. k v (s, l) = (r, s', l') \<Longrightarrow> booking l' = booking l"
  shows "booking l' = booking l"
proof -
  obtain r1 s1 l1 where i: "inDB m (s, l) = (r1, s1, l1)" by (cases "inDB m (s, l)")
  show ?thesis
    using assms(1) i inDB_booking[OF i] assms(2)[of _ s1 l1] by (cases r1) (auto simp: aBind_def)
qed

lemma timerIfAfter_booking: "outDB (resetTokenBoughtTimerIfAfter now sub) (s, l) = (r, s', l') \<Longrightarrow> booking l' = booking l"
  by (auto simp: outDB_def resetTokenBoughtTimerIfAfter_def aBind_def timer_Stop_def armTimer_def
      split: prod.splits option.splits if_splits res.splits)

lemma SubscribeTokenBoughtEvent_booking:
  assumes "SubscribeTokenBoughtEvent now tokenID mintID tmo l = (r, l')"
  shows "booking l' = booking l"
  using assms unfolding SubscribeTokenBoughtEvent_def Let_def
  by (elim session_booking aBind_inDB_booking) (elim aBind_inDB_booking timerIfAfter_booking)+

lemma SubscribeCancellationEvents_booking:
  assumes "SubscribeCancellationEvents tokenID l = (r, l')"
  shows "booking l' = booking l"
  using assms unfolding SubscribeCancellationEvents_def
  by (elim session_booking aBind_inDB_booking) (auto simp: aRet_def)

lemma subscribeForTokenBoughtEvent_history:
  assumes "subscribeForTokenBoughtEvent now tokenID mintID b s = (r, s')"
  shows "booking (listener s') = booking (listener s) \<and> erc20s s' = erc20s s \<and> (r = Ok () \<or> (\<exists>t. r = Panic t))"
proof -
  obtain r1 l1 where m: "SubscribeTokenBoughtEvent now tokenID mintID (unixTime (sint (Seconds b))) (listener s) = (r1, l1)"
    by (cases "SubscribeTokenBoughtEvent now tokenID mintID (unixTime (sint (Seconds b))) (listener s)")
  show ?thesis
    using assms m SubscribeTokenBoughtEvent_booking[OF m]
    by (cases r1) (auto simp: subscribeForTokenBoughtEvent_def aTry_def onListener_def)
qed

section \<open>Minting\<close>

lemma MintBookingToken_result:
  assumes e: "evicts_only (evictAccount (chain env))" and b: "bindings_ok a"
    and m: "MintBookingToken env bs reservedFor uri expiry price token currency cancellable a = (r, a')"
  shows "filter isTransact (ops a') = filter isTransact (ops a) \<and> (\<forall>v. r \<noteq> Ok v) \<or>
    filter isTransact (ops a') = filter isTransact (ops a) @ [OpTransact (transactOpts bs) (minterTTMAccountAddress bs)
        (TxMintBookingToken reservedFor uri expiry price token currency cancellable)] \<and> \<not> isBlank uri \<and>
    (\<forall>receipt tokenID. r = Ok (receipt, tokenID) \<longrightarrow> receipt_Status receipt = ReceiptStatusSuccessful \<and>
       firstEvent (ParseTokenReserved env) (receipt_Logs receipt) = Some tokenID)"
proof (cases "isBlank uri")
  case False
  let ?call = "TxMintBookingToken reservedFor uri expiry price token currency cancellable"
  let ?m = "Accounts_MintBookingToken (chain env) (transactOpts bs) (minterTTMAccountAddress bs) reservedFor uri expiry price token currency cancellable"
  obtain r1 a1 where m1: "?m a = (r1, a1)" by (cases "?m a")
  have sd: "sends (chain env) (transactOpts bs) (minterTTMAccountAddress bs) ?call ?m a"
    unfolding Accounts_MintBookingToken_def by (rule accountTx_sends[OF e b])
  have a': "a' = a1" and ok: "\<And>receipt tokenID. r = Ok (receipt, tokenID) \<Longrightarrow>
      r1 = Ok receipt \<and> firstEvent (ParseTokenReserved env) (receipt_Logs receipt) = Some tokenID"
    using m m1 False by (cases r1; auto simp: MintBookingToken_def aBind_def split: option.splits)+
  have fails: "\<forall>v. r \<noteq> Ok v" if "\<forall>v. r1 \<noteq> Ok v" using ok that by (metis surj_pair)
  from sd m1 have "ops a1 = ops a \<and> (\<forall>v. r1 \<noteq> Ok v) \<or>
      (\<exists>tx. ops a1 = ops a @ [OpTransact (transactOpts bs) (minterTTMAccountAddress bs) ?call] @ tx \<and> filter isTransact tx = [] \<and>
        (\<forall>v. r1 = Ok v \<longrightarrow> receipt_Status v = ReceiptStatusSuccessful))"
    unfolding sends_def by (fastforce simp: isTransact_def)
  then show ?thesis
  proof (elim disjE exE conjE)
    fix tx assume t: "ops a1 = ops a @ [OpTransact (transactOpts bs) (minterTTMAccountAddress bs) ?call] @ tx" "filter isTransact tx = []"
      "\<forall>v. r1 = Ok v \<longrightarrow> receipt_Status v = ReceiptStatusSuccessful"
    then have "filter isTransact (ops a') = filter isTransact (ops a) @ [OpTransact (transactOpts bs) (minterTTMAccountAddress bs) ?call]"
      using a' by (simp add: isTransact_def)
    then show ?thesis using t(3) ok False by blast
  qed (use a' fails in simp)
qed (use m in \<open>auto simp: MintBookingToken_def\<close>)

definition minting :: "'c mint_env \<Rightarrow> string \<Rightarrow> string \<Rightarrow> int \<Rightarrow> int \<times> address \<times> int \<Rightarrow> bool \<Rightarrow> chain_op" where
  "minting env buyer uri expiry = (\<lambda>(price, token, currency) cancellable.
     OpTransact (transactOpts (bsvc (lenv env))) (minterTTMAccountAddress (bsvc (lenv env)))
       (TxMintBookingToken (HexToAddress env buyer) uri expiry price token currency cancellable))"

definition mined :: "'c mint_env \<Rightarrow> receipt \<Rightarrow> int \<Rightarrow> bool" where
  "mined env receipt tokenID \<longleftrightarrow> receipt_Status receipt = ReceiptStatusSuccessful \<and>
     firstEvent (ParseTokenReserved (benv (lenv env))) (receipt_Logs receipt) = Some tokenID"

lemma onBooking_listener:
  "onListener (onBooking m) s = (r, s') \<longleftrightarrow>
     m (booking (listener s)) = (r, booking (listener s')) \<and> s' = s\<lparr>listener := (listener s)\<lparr>booking := booking (listener s')\<rparr>\<rparr>"
  by (auto simp: onListener_def onBooking_def split: prod.splits)

text \<open>What \<open>mintOffer\<close> does after the price is known.\<close>

lemma mint_step_result:
  assumes e: "evicts_only (evictAccount (chain (benv (lenv env))))" and b: "bindings_ok (booking (listener s))"
    and m: "aBind (aLift (deref buyer)) (\<lambda>e. e) (\<lambda>buyer. onListener (onBooking (MintBookingToken (benv (lenv env)) (bsvc (lenv env))
        (HexToAddress env buyer) uri expiry price token currency cancellable))) s = (r, s')"
  shows "erc20s s' = erc20s s \<and>
    (txs s' = txs s \<and> (\<forall>v. r \<noteq> Ok v) \<or>
     (\<exists>a. buyer = Some a \<and> txs s' = txs s @ [minting env a uri expiry (price, token, currency) cancellable] \<and> \<not> isBlank uri \<and>
       (\<forall>receipt tokenID. r = Ok (receipt, tokenID) \<longrightarrow> mined env receipt tokenID)))"
proof (cases buyer)
  case (Some a)
  then have m': "onListener (onBooking (MintBookingToken (benv (lenv env)) (bsvc (lenv env)) (HexToAddress env a) uri expiry
      price token currency cancellable)) s = (r, s')"
    using m by (simp add: deref_def aBind_def)
  then have run: "MintBookingToken (benv (lenv env)) (bsvc (lenv env)) (HexToAddress env a) uri expiry price token currency cancellable
      (booking (listener s)) = (r, booking (listener s'))" and s': "erc20s s' = erc20s s"
    unfolding onBooking_listener by (simp, metis mint_state.select_convs(2) mint_state.surjective mint_state.update_convs(1))
  from MintBookingToken_result[OF e b run] show ?thesis
    using s' Some by (auto simp: txs_def minting_def mined_def)
qed (use m in \<open>auto simp: deref_def aBind_def\<close>)

lemma mint_tail_result:
  assumes m: "aBind (aLift (deref mintId)) (\<lambda>e. e) (\<lambda>mintID. aBind (subscribeForTokenBoughtEvent later tokenID mintID b) (\<lambda>e. e)
      (\<lambda>_. aRet v)) s = (r, s')"
  shows "txs s' = txs s \<and> erc20s s' = erc20s s \<and> (r = Ok v \<or> (\<exists>t. r = Panic t))"
proof (cases mintId)
  case (Some mintID)
  obtain r1 s1 where s1: "subscribeForTokenBoughtEvent later tokenID mintID b s = (r1, s1)"
    by (cases "subscribeForTokenBoughtEvent later tokenID mintID b s")
  from subscribeForTokenBoughtEvent_history[OF s1] show ?thesis
    using m Some s1 by (auto simp: deref_def aBind_def txs_def)
qed (use m in \<open>auto simp: deref_def aBind_def\<close>)

definition mint_effect ::
  "'c mint_env \<Rightarrow> evmResponseHandler \<Rightarrow> time \<Rightarrow> timestamp option \<Rightarrow> ('c erc20Service, int \<times> address \<times> int) act \<Rightarrow> string option \<Rightarrow>
     string \<Rightarrow> bool \<Rightarrow> 'c mint_state \<Rightarrow> 'c mint_state \<Rightarrow> timestamp \<Rightarrow> bool" where
  "mint_effect env h now offered getPrice buyer uri cancellable s s' b \<longleftrightarrow>
     (\<exists>a p. buyer = Some a \<and> verifyAndFixBuyableUntil env h offered now = Ok b \<and> fst (getPrice (erc20s s)) = Ok p \<and> \<not> isBlank uri \<and>
       txs s' = txs s @ [minting env a uri (sint (Seconds b)) p cancellable])"

lemma mintOffer_result:
  assumes e: "evicts_only (evictAccount (chain (benv (lenv env))))" and b: "bindings_ok (booking (listener s))"
    and m: "mintOffer env h now later offered getPrice buyer uri cancellable mintId s = (r, s')"
  shows "txs s' = txs s \<and> ((\<exists>f. r = Ok (Inl f)) \<or> (\<exists>t. r = Panic t)) \<or>
    (\<exists>b. mint_effect env h now offered getPrice buyer uri cancellable s s' b \<and>
      ((\<exists>f. r = Ok (Inl f)) \<or> (\<exists>t. r = Panic t) \<or>
       (\<exists>receipt tokenID. r = Ok (Inr (b, receipt, tokenID)) \<and> mined env receipt tokenID)))"
proof (cases "verifyAndFixBuyableUntil env h offered now")
  case (Ok b0)
  obtain r1 g where g: "getPrice (erc20s s) = (r1, g)" by (cases "getPrice (erc20s s)")
  let ?s1 = "s\<lparr>erc20s := g\<rparr>"
  show ?thesis
  proof (cases r1)
    fix p assume p: "r1 = Ok p"
    obtain price token currency where pp: "p = (price, token, currency)" by (cases p)
    let ?m = "aBind (aLift (deref buyer)) (\<lambda>e. e) (\<lambda>buyer. onListener (onBooking (MintBookingToken (benv (lenv env)) (bsvc (lenv env))
        (HexToAddress env buyer) uri (sint (Seconds b0)) price token currency cancellable)))"
    obtain r2 s2 where m2: "?m ?s1 = (r2, s2)" by (cases "?m ?s1")
    have r: "(r, s') = (case r2 of
        Ok (receipt, tokenID) \<Rightarrow> aBind (aLift (deref mintId)) (\<lambda>e. e) (\<lambda>mintID. aBind (subscribeForTokenBoughtEvent later tokenID mintID b0)
            (\<lambda>e. e) (\<lambda>_. aRet (Inr (b0, receipt, tokenID)))) s2
      | Fail e \<Rightarrow> (Ok (Inl (BadTransaction e)), s2) | Panic t \<Rightarrow> (Panic t, s2))"
      using m Ok g p pp m2 by (cases r2) (simp_all add: mintOffer_def aTry_def onErc20_def split: prod.splits)
    have b1: "bindings_ok (booking (listener ?s1))" using b by simp
    note step = mint_step_result[OF e b1 m2]
    show ?thesis
    proof (cases r2)
      case (Ok v)
      obtain receipt tokenID where v: "v = (receipt, tokenID)" by (cases v)
      from r Ok v have tail: "aBind (aLift (deref mintId)) (\<lambda>e. e) (\<lambda>mintID. aBind (subscribeForTokenBoughtEvent later tokenID mintID b0)
            (\<lambda>e. e) (\<lambda>_. aRet (Inr (b0, receipt, tokenID)))) s2 = (r, s')" by simp
      from step Ok v obtain a where "buyer = Some a" "txs s2 = txs s @ [minting env a uri (sint (Seconds b0)) p cancellable]" "\<not> isBlank uri"
          "mined env receipt tokenID" by (auto simp: txs_def pp)
      moreover note mint_tail_result[OF tail]
      ultimately show ?thesis
        using \<open>verifyAndFixBuyableUntil env h offered now = Ok b0\<close> g p unfolding mint_effect_def by auto
    qed (use r step g p pp Ok in \<open>auto simp: mint_effect_def txs_def\<close>)
  qed (use m Ok g in \<open>auto simp: mintOffer_def aTry_def onErc20_def txs_def\<close>)
qed (use m in \<open>auto simp: mintOffer_def aTry_def\<close>)

section \<open>Time limits\<close>

text \<open>Documented behaviour of \<open>timestamppb.New\<close>: the seconds are those of the time, where they fit.\<close>

definition timestamps_ok :: "'c mint_env \<Rightarrow> bool" where
  "timestamps_ok env \<longleftrightarrow> (\<forall>t. - (2 ^ 63) \<le> Unix t \<longrightarrow> Unix t < 2 ^ 63 \<longrightarrow> sint (Seconds (timestamppb_New env t)) = Unix t)"

definition shortest :: "bool \<Rightarrow> int" where "shortest e2e = (if e2e then 5 else 70)"
definition longest :: "bool \<Rightarrow> int" where "longest e2e = (if e2e then 20 else 600)"

lemma Unix_add: "Unix (t + n * second) = Unix t + n"
  by (simp add: Unix_def)

lemma limits_of_handler:
  "Unix (now + Minimal (buyableLimits (NewResponseHandler acc e2e))) = Unix now + shortest e2e"
  "Unix (now + Maximal (buyableLimits (NewResponseHandler acc e2e))) = Unix now + longest e2e"
  "Unix (now + Default (buyableLimits (NewResponseHandler acc e2e))) = Unix now + (if e2e then 10 else 300)"
  using Unix_add[of now 5] Unix_add[of now 70] Unix_add[of now 20] Unix_add[of now 600] Unix_add[of now 10] Unix_add[of now 300]
  by (simp_all add: NewResponseHandler_def shortest_def longest_def)

lemma verifyAndFixBuyableUntil_bounds:
  assumes "timestamps_ok env" and "0 \<le> now" and "Unix now < 2 ^ 62" and h: "h = NewResponseHandler acc e2e"
    and v: "verifyAndFixBuyableUntil env h offered now = Ok b"
  shows "Unix now + shortest e2e \<le> sint (Seconds b) \<and> sint (Seconds b) \<le> Unix now + longest e2e"
proof -
  have "0 \<le> Unix now" using assms(2) by (simp add: Unix_def)
  then have s: "sint (Seconds (timestamppb_New env t)) = Unix t" if "Unix now \<le> Unix t" "Unix t \<le> Unix now + 600" for t
    using assms(1,3) that by (simp add: timestamps_ok_def)
  have "sint (Seconds (timestamppb_New env (now + Minimal (buyableLimits h)))) = Unix now + shortest e2e"
    "sint (Seconds (timestamppb_New env (now + Maximal (buyableLimits h)))) = Unix now + longest e2e"
    "sint (Seconds (timestamppb_New env (now + Default (buyableLimits h)))) = Unix now + (if e2e then 10 else 300)"
    unfolding h by (subst s; simp add: limits_of_handler shortest_def longest_def)+
  then show ?thesis
    using v unfolding verifyAndFixBuyableUntil_def
    by (auto simp: shortest_def longest_def split: option.splits if_splits)
qed

section \<open>The three versions of the supplier's side\<close>

record 'c offer =
  o_until :: "timestamp option"
  o_price :: "('c erc20Service, int \<times> address \<times> int) act"
  o_buyer :: "string option"
  o_uri :: string
  o_cancellable :: bool
  o_mintId :: "string option"

abbreviation mintOfOffer :: "'c mint_env \<Rightarrow> evmResponseHandler \<Rightarrow> time \<Rightarrow> time \<Rightarrow> 'c offer \<Rightarrow> ('c mint_state, mint_failure + timestamp \<times> receipt \<times> int) act" where
  "mintOfOffer env h now later x \<equiv> mintOffer env h now later (o_until x) (o_price x) (o_buyer x) (o_uri x) (o_cancellable x) (o_mintId x)"

text \<open>A version reads an offer from the request and the plugin's answer, mints it, and turns the
  outcome into an answer that refuses (\<open>failed\<close>) or announces the token (\<open>announces\<close>).\<close>

locale mint_version =
  fixes env :: "'c mint_env" and h :: evmResponseHandler and now later :: time
    and prep :: "'q \<Rightarrow> 'p \<Rightarrow> ('c mint_state, 'p) act"
    and offered :: "'q \<Rightarrow> 'p \<Rightarrow> 'c offer option"
    and failed :: "'p \<Rightarrow> bool"
    and announces :: "'p \<Rightarrow> timestamp \<Rightarrow> uint64 \<Rightarrow> string \<Rightarrow> bool"
    and refusal :: "'q \<Rightarrow> 'p \<Rightarrow> mint_failure \<Rightarrow> 'p"
    and answer :: "'q \<Rightarrow> 'p \<Rightarrow> timestamp \<times> receipt \<times> int \<Rightarrow> 'p"
  assumes no_offer: "offered q p = None \<Longrightarrow> prep q p s = (r, s') \<Longrightarrow>
      s' = s \<and> (r = Ok p \<or> (\<exists>p'. r = Ok p' \<and> failed p') \<or> (\<exists>t. r = Panic t))"
    and offer: "offered q p = Some x \<Longrightarrow> prep q p = aBind (mintOfOffer env h now later x) (\<lambda>e. e)
      (\<lambda>r. aRet (case r of Inl f \<Rightarrow> refusal q p f | Inr m \<Rightarrow> answer q p m))"
    and refusal_failed: "failed (refusal q p f)"
    and answer_announces: "offered q p = Some x \<Longrightarrow> announces (answer q p (b, receipt, tokenID)) b (big_Uint64 tokenID) (Hash_Hex env (receipt_TxHash receipt))"
begin

definition outcome :: "'c offer \<Rightarrow> 'c mint_state \<Rightarrow> 'p res \<Rightarrow> 'c mint_state \<Rightarrow> bool" where
  "outcome x s r s' \<longleftrightarrow>
     txs s' = txs s \<and> ((\<exists>p. r = Ok p \<and> failed p) \<or> (\<exists>t. r = Panic t)) \<or>
     (\<exists>b. mint_effect env h now (o_until x) (o_price x) (o_buyer x) (o_uri x) (o_cancellable x) s s' b \<and>
       ((\<exists>p. r = Ok p \<and> failed p) \<or> (\<exists>t. r = Panic t) \<or>
        (\<exists>receipt tokenID p. mined env receipt tokenID \<and> r = Ok p \<and>
           announces p b (big_Uint64 tokenID) (Hash_Hex env (receipt_TxHash receipt)))))"

lemma prepared:
  assumes "evicts_only (evictAccount (chain (benv (lenv env))))" and "bindings_ok (booking (listener s))"
    and "offered q p = Some x" and "prep q p s = (r, s')"
  shows "outcome x s r s'"
proof -
  obtain r1 s1 where m: "mintOfOffer env h now later x s = (r1, s1)" by (cases "mintOfOffer env h now later x s")
  have "s' = s1" and r: "r = (case r1 of Ok (Inl f) \<Rightarrow> Ok (refusal q p f) | Ok (Inr m) \<Rightarrow> Ok (answer q p m) | Fail e \<Rightarrow> Fail e | Panic t \<Rightarrow> Panic t)"
    using assms(4) offer[OF assms(3)] m by (auto simp: aBind_def split: res.splits sum.splits)
  with mintOffer_result[OF assms(1,2) m] show ?thesis
    unfolding outcome_def using refusal_failed answer_announces[OF assms(3)] by (auto 4 4)
qed

end

definition uriV3 :: "mintRequestV3 \<Rightarrow> mintResponseV3 \<Rightarrow> string option" where
  "uriV3 q p = (if BookingTokenUriV3 p \<noteq> [] then Some (BookingTokenUriV3 p)
     else map_option (\<lambda>i. snd (createTokenURIforMintResponse i (BookingReferenceV3 q))) (MintIdV3 p))"

definition offerV3 :: "'c mint_env \<Rightarrow> mintRequestV3 \<Rightarrow> mintResponseV3 \<Rightarrow> 'c offer option" where
  "offerV3 env q p = (case (HeaderV3 p, BuyerAddressV3 q, uriV3 q p) of
       (Some hdr, Some buyer, Some uri) \<Rightarrow>
         if Status hdr = STATUS_TYPE_SUCCESS \<and> IsHexAddress env buyer
         then Some \<lparr>o_until = BuyableUntilV3 p, o_price = (\<lambda>s. GetPriceAndTokenV3 (HexToAddress env) (tokens env) s (PriceV3 p)),
                o_buyer = Some buyer, o_uri = uri, o_cancellable = CancellableV3 p, o_mintId = MintIdV3 p\<rparr>
         else None
     | _ \<Rightarrow> None)"

definition failedV3 :: "mintResponseV3 \<Rightarrow> bool" where
  "failedV3 p \<longleftrightarrow> (\<exists>hdr. HeaderV3 p = Some hdr \<and> Status hdr = STATUS_TYPE_FAILURE)"

definition announcesV3 :: "mintResponseV3 \<Rightarrow> timestamp \<Rightarrow> uint64 \<Rightarrow> string \<Rightarrow> bool" where
  "announcesV3 p b i tx \<longleftrightarrow> BuyableUntilV3 p = Some b \<and> BookingTokenIdV3 p = i \<and> MintTransactionIdV3 p = Some tx"

definition answerV3 :: "'c mint_env \<Rightarrow> mintRequestV3 \<Rightarrow> mintResponseV3 \<Rightarrow> timestamp \<times> receipt \<times> int \<Rightarrow> mintResponseV3" where
  "answerV3 env q p = (\<lambda>(b, receipt, tokenID). p\<lparr>HeaderV3 := map_option (Status_update (\<lambda>_. STATUS_TYPE_SUCCESS)) (HeaderV3 p),
     BookingTokenUriV3 := the (uriV3 q p), BuyableUntilV3 := Some b, BookingTokenIdV3 := big_Uint64 tokenID,
     MintTransactionIdV3 := Some (Hash_Hex env (receipt_TxHash receipt))\<rparr>)"

definition offerV4 :: "'c mint_env \<Rightarrow> ('c erc20Service \<Rightarrow> priceV4 option \<Rightarrow> (int \<times> address \<times> int) res \<times> 'c erc20Service) \<Rightarrow>
    mintRequestV4 \<Rightarrow> mintResponseV4 \<Rightarrow> 'c offer option" where
  "offerV4 env get q p = (case p of
       SuccessResponse x \<Rightarrow> Some \<lparr>o_until = BuyableUntil x, o_price = (\<lambda>s. get s (Price x)), o_buyer = BuyerAddress q,
         o_uri = BookingTokenUri x, o_cancellable = Cancellable x, o_mintId = MintId x\<rparr>
     | _ \<Rightarrow> None)"

definition failedV4 :: "mintResponseV4 \<Rightarrow> bool" where
  "failedV4 p \<longleftrightarrow> (\<exists>es. p = ErrorResponse es)"

definition announcesV4 :: "mintResponseV4 \<Rightarrow> timestamp \<Rightarrow> uint64 \<Rightarrow> string \<Rightarrow> bool" where
  "announcesV4 p b i tx \<longleftrightarrow>
     (\<exists>x. p = SuccessResponse x \<and> BuyableUntil x = Some b \<and> BookingTokenId x = i \<and> MintTransactionId x = Some tx)"

fun answerV4 :: "'c mint_env \<Rightarrow> mintResponseV4 \<Rightarrow> timestamp \<times> receipt \<times> int \<Rightarrow> mintResponseV4" where
  "answerV4 env (SuccessResponse x) m = SuccessResponse (mintedV4 env x m)"
| "answerV4 env p m = p"

lemma mintErrResponseV3_failed [simp]: "failedV3 (mintErrResponseV3 t)"
  by (simp add: failedV3_def mintErrResponseV3_def)

lemma mintFailure_failed [simp]:
  "failedV3 (mintFailureV3 a f)" "failedV4 (mintFailureV4 mintErrResponseV4 a f)" "failedV4 (mintFailureV4 mintErrResponseV5 a f)"
  by (cases f; simp add: failedV4_def mintErrResponseV4_def mintErrResponseV5_def)+

lemma mintedV4_announces:
  "announcesV4 (SuccessResponse (mintedV4 env x (b, receipt, tokenID))) b (big_Uint64 tokenID) (Hash_Hex env (receipt_TxHash receipt))"
  by (simp add: announcesV4_def mintedV4_def)

lemma bind_lift_Ok: "aBind (aLift (Ok v)) w k = k v"
  by (simp add: aBind_def fun_eq_iff)

lemma prepareV3_no_offer:
  assumes "offerV3 env q p = None" and "prepareMintResponseV3 env h now later q p s = (r, s')"
  shows "s' = s \<and> (r = Ok p \<or> (\<exists>p'. r = Ok p' \<and> failedV3 p') \<or> (\<exists>t. r = Panic t))"
  using assms by (auto simp: offerV3_def uriV3_def prepareMintResponseV3_def aBind_def deref_def split: option.splits if_splits)

lemma prepareV3_offer:
  assumes "offerV3 env q p = Some x"
  shows "prepareMintResponseV3 env h now later q p = aBind (mintOfOffer env h now later x) (\<lambda>e. e)
    (\<lambda>r. aRet (case r of Inl f \<Rightarrow> mintFailureV3 ''error minting NFT: '' f | Inr m \<Rightarrow> answerV3 env q p m))"
proof -
  from assms obtain hdr buyer uri where *: "HeaderV3 p = Some hdr" "Status hdr = STATUS_TYPE_SUCCESS" "BuyerAddressV3 q = Some buyer"
      "IsHexAddress env buyer" "uriV3 q p = Some uri" and
    x: "x = \<lparr>o_until = BuyableUntilV3 p, o_price = (\<lambda>s. GetPriceAndTokenV3 (HexToAddress env) (tokens env) s (PriceV3 p)),
      o_buyer = Some buyer, o_uri = uri, o_cancellable = CancellableV3 p, o_mintId = MintIdV3 p\<rparr>"
    by (auto simp: offerV3_def split: option.splits if_splits)
  have uri: "(if BookingTokenUriV3 p \<noteq> [] then Ok (BookingTokenUriV3 p) else onErr (deref (MintIdV3 p)) (\<lambda>e. e)
      (\<lambda>i. Ok (snd (createTokenURIforMintResponse i (BookingReferenceV3 q))))) = Ok uri"
    using *(5) by (auto simp: uriV3_def deref_def split: if_splits option.splits)
  have k: "(\<lambda>r. aRet (case r of Inl f \<Rightarrow> mintFailureV3 ''error minting NFT: '' f
      | Inr (b, receipt, tokenID) \<Rightarrow> p\<lparr>HeaderV3 := Some (hdr\<lparr>Status := STATUS_TYPE_SUCCESS\<rparr>), BookingTokenUriV3 := uri,
          BuyableUntilV3 := Some b, BookingTokenIdV3 := big_Uint64 tokenID,
          MintTransactionIdV3 := Some (Hash_Hex env (receipt_TxHash receipt))\<rparr>)) =
      (\<lambda>r. aRet (case r of Inl f \<Rightarrow> mintFailureV3 ''error minting NFT: '' f | Inr m \<Rightarrow> answerV3 env q p m))"
    using * by (auto simp: fun_eq_iff answerV3_def split: sum.splits)
  show ?thesis
    unfolding prepareMintResponseV3_def uri k[symmetric] using * x by (simp add: deref_def bind_lift_Ok)
qed

interpretation mintV3: mint_version env h now later "prepareMintResponseV3 env h now later" "offerV3 env" failedV3 announcesV3
    "\<lambda>_ _. mintFailureV3 ''error minting NFT: ''" "answerV3 env"
  by unfold_locales (fact prepareV3_no_offer prepareV3_offer | simp add: announcesV3_def answerV3_def)+

interpretation mintV4: mint_version env h now later "prepareMintResponseV4 env h now later"
    "offerV4 env (GetPriceAndTokenV4 (HexToAddress env) (tokens env))" failedV4 announcesV4
    "\<lambda>_ _. mintFailureV4 mintErrResponseV4 ''error minting booking token: ''" "\<lambda>_. answerV4 env"
  by unfold_locales (auto simp: offerV4_def prepareMintResponseV4_def mintedV4_announces split: mintResponseV4.splits cong: sum.case_cong)

interpretation mintV5: mint_version env h now later "prepareMintResponseV5 env h now later"
    "offerV4 env (GetPriceAndTokenV5 (HexToAddress env) (tokens env))" failedV4 announcesV4
    "\<lambda>_ _. mintFailureV4 mintErrResponseV5 ''error minting booking token: ''" "\<lambda>_. answerV4 env"
  by unfold_locales (auto simp: offerV4_def prepareMintResponseV5_def mintedV4_announces split: mintResponseV4.splits cong: sum.case_cong)

section \<open>The supplier\<close>

fun offer_of :: "'c mint_env \<Rightarrow> content \<Rightarrow> content \<Rightarrow> 'c offer option" where
  "offer_of env (MintRequestV3 q) (MintResponseV3 p) = offerV3 env q p"
| "offer_of env (MintRequestV4 q) (MintResponseV4 p) = offerV4 env (GetPriceAndTokenV4 (HexToAddress env) (tokens env)) q p"
| "offer_of env (MintRequestV5 q) (MintResponseV5 p) = offerV4 env (GetPriceAndTokenV5 (HexToAddress env) (tokens env)) q p"
| "offer_of env _ _ = None"

fun refuses :: "content \<Rightarrow> bool" where
  "refuses (MintResponseV3 p) \<longleftrightarrow> failedV3 p"
| "refuses (MintResponseV4 p) \<longleftrightarrow> failedV4 p"
| "refuses (MintResponseV5 p) \<longleftrightarrow> failedV4 p"
| "refuses _ \<longleftrightarrow> False"

fun announces_token :: "content \<Rightarrow> timestamp \<Rightarrow> uint64 \<Rightarrow> string \<Rightarrow> bool" where
  "announces_token (MintResponseV3 p) b i tx \<longleftrightarrow> announcesV3 p b i tx"
| "announces_token (MintResponseV4 p) b i tx \<longleftrightarrow> announcesV4 p b i tx"
| "announces_token (MintResponseV5 p) b i tx \<longleftrightarrow> announcesV4 p b i tx"
| "announces_token _ b i tx \<longleftrightarrow> False"

text \<open>What a supplier's answer did: refused without minting, or minted the offer until \<open>b\<close> and then
  refused, panicked, or announced the token the mined transaction created.\<close>

definition supplied :: "'c mint_env \<Rightarrow> evmResponseHandler \<Rightarrow> time \<Rightarrow> 'c offer \<Rightarrow> 'c mint_state \<Rightarrow> content message res \<Rightarrow> 'c mint_state \<Rightarrow> bool" where
  "supplied env h now x s r s' \<longleftrightarrow>
     txs s' = txs s \<and> ((\<exists>m. r = Ok m \<and> refuses (msg_Content m)) \<or> (\<exists>t. r = Panic t)) \<or>
     (\<exists>b. mint_effect env h now (o_until x) (o_price x) (o_buyer x) (o_uri x) (o_cancellable x) s s' b \<and>
       ((\<exists>m. r = Ok m \<and> refuses (msg_Content m)) \<or> (\<exists>t. r = Panic t) \<or>
        (\<exists>receipt tokenID m. mined env receipt tokenID \<and> r = Ok m \<and>
           announces_token (msg_Content m) b (big_Uint64 tokenID) (Hash_Hex env (receipt_TxHash receipt)))))"

lemma supplied_wrap:
  assumes "prep s = (r0, s')" and "aBind (aBind prep (\<lambda>e. e) (\<lambda>r. aRet (C r))) (\<lambda>e. e) (\<lambda>c. aRet (resp\<lparr>msg_Content := c\<rparr>)) s = (r, s'')"
  shows "s'' = s' \<and> r = (case r0 of Ok p \<Rightarrow> Ok (resp\<lparr>msg_Content := C p\<rparr>) | Fail e \<Rightarrow> Fail e | Panic t \<Rightarrow> Panic t)"
  using assms by (cases r0) (auto simp: aBind_def)

lemma PrepareResponseMessage_supplied:
  assumes e: "evicts_only (evictAccount (chain (benv (lenv env))))" and b: "bindings_ok (booking (listener s))"
    and m: "PrepareResponseMessage env h now later req resp s = (r, s')" and x: "offer_of env (msg_Content req) (msg_Content resp) = Some x"
  shows "supplied env h now x s r s'"
proof -
  consider (v3) q p where "msg_Content req = MintRequestV3 q" "msg_Content resp = MintResponseV3 p" "offerV3 env q p = Some x"
    | (v4) q p where "msg_Content req = MintRequestV4 q" "msg_Content resp = MintResponseV4 p"
        "offerV4 env (GetPriceAndTokenV4 (HexToAddress env) (tokens env)) q p = Some x"
    | (v5) q p where "msg_Content req = MintRequestV5 q" "msg_Content resp = MintResponseV5 p"
        "offerV4 env (GetPriceAndTokenV5 (HexToAddress env) (tokens env)) q p = Some x"
    using x by (cases "(env, msg_Content req, msg_Content resp)" rule: offer_of.cases) auto
  then show ?thesis
  proof cases
    case v3
    obtain r0 s0 where p: "prepareMintResponseV3 env h now later q p s = (r0, s0)"
      by (cases "prepareMintResponseV3 env h now later q p s")
    from mintV3.prepared[OF e b v3(3) p] supplied_wrap[of "prepareMintResponseV3 env h now later q p", OF p, of MintResponseV3 resp r s'] m v3(1,2)
    show ?thesis unfolding supplied_def mintV3.outcome_def by (cases r0) (auto simp: PrepareResponseMessage_def)
  next
    case v4
    obtain r0 s0 where p: "prepareMintResponseV4 env h now later q p s = (r0, s0)"
      by (cases "prepareMintResponseV4 env h now later q p s")
    from mintV4.prepared[OF e b v4(3) p] supplied_wrap[of "prepareMintResponseV4 env h now later q p", OF p, of MintResponseV4 resp r s'] m v4(1,2)
    show ?thesis unfolding supplied_def mintV4.outcome_def by (cases r0) (auto simp: PrepareResponseMessage_def)
  next
    case v5
    obtain r0 s0 where p: "prepareMintResponseV5 env h now later q p s = (r0, s0)"
      by (cases "prepareMintResponseV5 env h now later q p s")
    from mintV5.prepared[OF e b v5(3) p] supplied_wrap[of "prepareMintResponseV5 env h now later q p", OF p, of MintResponseV5 resp r s'] m v5(1,2)
    show ?thesis unfolding supplied_def mintV5.outcome_def by (cases r0) (auto simp: PrepareResponseMessage_def)
  qed
qed


text \<open>A chain whose transactions succeed with one log, and a listener with empty tables.\<close>

definition sample_menv :: "nat mint_env" where
  "sample_menv = \<lparr>lenv = \<lparr>benv = sample_benv\<lparr>chain := sample_env\<lparr>WaitMined := (\<lambda>_ tx. Ok \<lparr>receipt_Status = 1,
        receipt_Logs = [\<lparr>log_topics = [], log_data = []\<rparr>], receipt_TxHash = tx\<rparr>)\<rparr>,
        GetReservationPrice := (\<lambda>_ _. Ok (1000, 0))\<rparr>,
      bsvc = sample_booking, notifyEnv = (\<lambda>_ _. Ok ()), pickRow = hd\<rparr>,
    tokens = \<lparr>NewErc20 = (\<lambda>_. Ok 0), contract_Decimals = (\<lambda>_. Ok 18), contract_Allowance = (\<lambda>_ _ _. Ok 0),
      contract_Approve = (\<lambda>_ _ _. Ok 0), WaitMined_status = (\<lambda>_. Ok True), erc20_evict = (\<lambda>m. m)\<rparr>,
    HexToAddress = (\<lambda>_. 7), IsHexAddress = (\<lambda>_. True), Hash_Hex = (\<lambda>_. ''0x1''),
    timestamppb_New = (\<lambda>t. \<lparr>Seconds = word_of_int (Unix t), Nanos = 0\<rparr>), proto_Equal = (=)\<rparr>"

definition sample_mstate :: "nat mint_state" where
  "sample_mstate = \<lparr>listener = \<lparr>startingBlockNumber = 0, storage = \<lparr>committed = \<lparr>token_bought_subscriptions = [], cancellation_subscriptions = []\<rparr>,
       faults = (\<lambda>_. None), db_calls = 0\<rparr>, plugin = \<lparr>attempted = [], delivered = []\<rparr>, booking = sample_service, recordTokenExpiration = False,
       tokenBoughtTimer = IdleTimer, tokenBoughtTimerSubscription = None, tokenBoughtFeed = OpenFeed, cancellationFeed = OpenFeed\<rparr>,
     erc20s = \<lparr>erc20Cache = Map.empty\<rparr>\<rparr>"

definition sample_msg_of :: "content \<Rightarrow> content message" where
  "sample_msg_of c = \<lparr>msg_Type = ''t'', msg_Content = c, msg_RequestID = ''1'', msg_Timestamps = None\<rparr>"

definition sample_price :: priceV4 where "sample_price = \<lparr>Value = ''1000'', PriceDecimals = 18, Currency = Some NativeTokenV4\<rparr>"

definition sample_offer :: "string option \<Rightarrow> mintSuccessResponse" where
  "sample_offer i = \<lparr>Header = None, MintId = i, BuyableUntil = None, Price = Some sample_price, BookingTokenUri = ''u'',
     BookingTokenId = 0, MintTransactionId = None, Cancellable = True, BuyTransactionId = None\<rparr>"

definition sample_ask :: "content message" where
  "sample_ask = sample_msg_of (MintRequestV5 \<lparr>BuyerAddress = Some ''b'', ExpectedPrice = Some sample_price\<rparr>)"

lemma sample_timestamps_ok: "timestamps_ok sample_menv"
  by (simp add: timestamps_ok_def sample_menv_def signed_of_int signed_take_bit_int_eq_self)

lemma sample_chain_ok: "evicts_only (evictAccount (chain (benv (lenv sample_menv))))" "bindings_ok (booking (listener sample_mstate))"
  "txs sample_mstate = []"
  by (simp_all add: sample_menv_def sample_benv_def sample_env_def sample_mstate_def sample_service_def bindings_ok_def txs_def)


section \<open>The distributor\<close>

definition bought :: "'c mint_env \<Rightarrow> int \<Rightarrow> int \<times> address \<times> int \<Rightarrow> 'c mint_state \<Rightarrow> 'c mint_state \<Rightarrow> bool" where
  "bought env tokenID = (\<lambda>(price, token, _) s s'.
     paid (benv (lenv env)) (bsvc (lenv env)) tokenID price token (history s) (history s'))"

lemma buyOffer_result:
  assumes e: "evicts_only (evictAccount (chain (benv (lenv env))))" and b: "bindings_ok (booking (listener s))"
    and m: "buyOffer env getPrice tokenID s = (r, s')"
  shows "(txs s' = txs s \<or> (\<exists>p. fst (getPrice (erc20s s)) = Ok p \<and> bought env tokenID p s s')) \<and>
    ((\<exists>f. r = Ok (Inl f)) \<or> (\<exists>t. r = Panic t) \<or>
     (\<exists>receipt p. r = Ok (Inr receipt) \<and> fst (getPrice (erc20s s)) = Ok p \<and> bought env tokenID p s s'))"
proof -
  obtain r1 g where g: "getPrice (erc20s s) = (r1, g)" by (cases "getPrice (erc20s s)")
  show ?thesis
  proof (cases r1)
    case (Ok p)
    obtain price token currency where p: "p = (price, token, currency)" by (cases p)
    let ?m = "BuyBookingToken (benv (lenv env)) (bsvc (lenv env)) tokenID price token"
    obtain r2 a where a: "?m (booking (listener s)) = (r2, a)" by (cases "?m (booking (listener s))")
    from m g Ok p a have s': "s' = s\<lparr>erc20s := g, listener := (listener s)\<lparr>booking := a\<rparr>\<rparr>" and
      r: "r = (case r2 of Ok v \<Rightarrow> Ok (Inr v) | Fail e \<Rightarrow> Ok (Inl (BadTransaction e)) | Panic t \<Rightarrow> Panic t)"
      by (cases r2; simp add: buyOffer_def aTry_def onErc20_def onListener_def onBooking_def)+
    from BuyBookingToken_result[OF e b a] consider
        "bought env tokenID p s s'" | "txs s' = txs s" "\<forall>v. r2 \<noteq> Ok v"
      by (auto simp: bought_def p s' txs_def filter_no_tx)
    then show ?thesis by cases (use r g Ok p in \<open>auto split: res.splits\<close>)
  qed (use m g in \<open>auto simp: buyOffer_def aTry_def onErc20_def txs_def\<close>)
qed

lemma cancellationAlert_history:
  assumes "cancellationAlert tokenID i s = (r, s')"
  shows "history s' = history s \<and> (\<forall>e. r \<noteq> Fail e)"
proof -
  obtain r1 l1 where c: "SubscribeCancellationEvents tokenID (listener s) = (r1, l1)" by (cases "SubscribeCancellationEvents tokenID (listener s)")
  show ?thesis
    using assms c SubscribeCancellationEvents_booking[OF c]
    by (cases r1) (auto simp: cancellationAlert_def aTry_def aBind_def onListener_def deref_def split: option.splits)
qed

lemma boughtV4_history:
  assumes "boughtV4 env x receipt s = (r, s')"
  shows "history s' = history s \<and> (\<forall>e. r \<noteq> Fail e)"
proof -
  obtain r1 s1 where c: "cancellationAlert (uint (BookingTokenId x)) (MintId x) s = (r1, s1)"
    by (cases "cancellationAlert (uint (BookingTokenId x)) (MintId x) s")
  show ?thesis
    using assms c cancellationAlert_history[OF c]
    by (cases r1) (auto simp: boughtV4_def Let_def aBind_def deref_def split: option.splits if_splits)
qed

text \<open>Version 5 is a copy of version 4.\<close>

lemma version5_as_4:
  fixes env :: "'c mint_env"
  shows "processMintResponseV5 env q p = processMintResponseV4 env q p"
  "prepareMintResponseV5 env h now later q p = prepareMintResponseV4 env h now later q p"
proof -
  have eqs: "mintErrResponseV5 = mintErrResponseV4" "GetPriceAndTokenV5 = (GetPriceAndTokenV4 :: (string \<Rightarrow> address) \<Rightarrow> 'c erc20_env \<Rightarrow> _)"
    "formatMintPriceMismatchV5 = formatMintPriceMismatchV4"
    by (simp_all add: fun_eq_iff mintErrResponseV5_def mintErrResponseV4_def GetPriceAndTokenV5_def GetPriceAndTokenV4_def
        formatMintPriceMismatchV5_def formatMintPriceMismatchV4_def priceStringV5_def)
  show "processMintResponseV5 env q p = processMintResponseV4 env q p"
    "prepareMintResponseV5 env h now later q p = prepareMintResponseV4 env h now later q p"
    unfolding processMintResponseV5_def processMintResponseV4_def prepareMintResponseV5_def prepareMintResponseV4_def eqs
    by (rule refl)+
qed

lemma processMintResponseV4_result:
  assumes e: "evicts_only (evictAccount (chain (benv (lenv env))))" and b: "bindings_ok (booking (listener s))"
    and eq: "\<forall>a b. proto_Equal env a b \<longrightarrow> a = b"
    and m: "processMintResponseV4 env q p s = (r, s')"
  shows "(txs s' = txs s \<and> (\<forall>p'. r = Ok p' \<longrightarrow> failedV4 p' \<or> p' = p \<and> (\<forall>x. p \<noteq> SuccessResponse x))) \<or>
    (\<exists>x v. p = SuccessResponse x \<and> fst (GetPriceAndTokenV4 (HexToAddress env) (tokens env) (erc20s s) (ExpectedPrice q)) = Ok v \<and>
       bought env (uint (BookingTokenId x)) v s s')"
proof (cases "\<exists>x. p = SuccessResponse x \<and> MintTransactionId x \<noteq> None \<and> proto_Equal env (ExpectedPrice q) (Price x)")
  case True
  then obtain x where x: "p = SuccessResponse x" "MintTransactionId x \<noteq> None" "proto_Equal env (ExpectedPrice q) (Price x)" by blast
  let ?get = "\<lambda>s. GetPriceAndTokenV4 (HexToAddress env) (tokens env) s (Price x)"
  obtain r1 s1 where bo: "buyOffer env ?get (uint (BookingTokenId x)) s = (r1, s1)"
    by (cases "buyOffer env ?get (uint (BookingTokenId x)) s")
  note res = buyOffer_result[OF e b bo]
  have h: "history s' = history s1" and fail: "\<And>f. r1 = Ok (Inl f) \<Longrightarrow> \<exists>p'. r = Ok p' \<and> failedV4 p'"
    and panic: "\<And>t. r1 = Panic t \<Longrightarrow> r = Panic t"
    using m x bo res by (auto simp: processMintResponseV4_def aBind_def split: res.splits sum.splits prod.splits dest!: boughtV4_history)
  have "ExpectedPrice q = Price x" using eq x(3) by blast
  then show ?thesis
    using res h fail panic x(1) by (auto simp: txs_def bought_def)
next
  case False
  then show ?thesis using m
    by (auto simp: processMintResponseV4_def failedV4_def mintErrResponseV4_def split: mintResponseV4.splits if_splits)
qed

text \<open>The amount, payment token and currency the distributor's own request stands for.\<close>

fun expected_terms :: "'c mint_env \<Rightarrow> 'c erc20Service \<Rightarrow> content \<Rightarrow> (int \<times> address \<times> int) res option" where
  "expected_terms env s (MintRequestV4 q) = Some (fst (GetPriceAndTokenV4 (HexToAddress env) (tokens env) s (ExpectedPrice q)))"
| "expected_terms env s (MintRequestV5 q) = Some (fst (GetPriceAndTokenV5 (HexToAddress env) (tokens env) s (ExpectedPrice q)))"
| "expected_terms env s _ = None"

text \<open>Property C1: in versions 4 and 5 a distributor pays only what it asked to pay. If processing the
  answer to a mint request sends a transaction, it is one that buys the answered token for exactly
  the amount and in the payment token that the expected price of the request stands for, after
  the reservation on the chain showed the same price; otherwise nothing is sent and the caller gets
  an error.\<close>

lemma distributor_pays_expected_price:
  assumes "evicts_only (evictAccount (chain (benv (lenv env))))" and "bindings_ok (booking (listener s))"
    and "\<forall>a b. proto_Equal env a b \<longrightarrow> a = b"
    and "msg_Content resp = MintResponseV4 (SuccessResponse x) \<or> msg_Content resp = MintResponseV5 (SuccessResponse x)"
    and "ProcessResponseMessage env req resp s = (r, s')"
  shows "txs s' = txs s \<and> (\<forall>m. r = Ok m \<longrightarrow> refuses (msg_Content m)) \<or>
    (\<exists>v. expected_terms env (erc20s s) (msg_Content req) = Some (Ok v) \<and> bought env (uint (BookingTokenId x)) v s s')"
proof -
  have "\<exists>q. msg_Content req = MintRequestV4 q \<and> msg_Content resp = MintResponseV4 (SuccessResponse x) \<or>
         msg_Content req = MintRequestV5 q \<and> msg_Content resp = MintResponseV5 (SuccessResponse x)" if "s' \<noteq> s \<or> (\<exists>m. r = Ok m)"
    using that assms(4,5) by (auto simp: ProcessResponseMessage_def aBind_def split: content.splits)
  then consider "s' = s" "\<forall>m. r \<noteq> Ok m"
    | (v4) q where "msg_Content req = MintRequestV4 q" "msg_Content resp = MintResponseV4 (SuccessResponse x)"
    | (v5) q where "msg_Content req = MintRequestV5 q" "msg_Content resp = MintResponseV5 (SuccessResponse x)" by blast
  then show ?thesis
  proof cases
    case v4
    obtain r1 s1 where m: "processMintResponseV4 env q (SuccessResponse x) s = (r1, s1)" by (cases "processMintResponseV4 env q (SuccessResponse x) s")
    have "s' = s1" "\<And>m. r = Ok m \<Longrightarrow> \<exists>p. r1 = Ok p \<and> msg_Content m = MintResponseV4 p"
      using assms(5) v4 m by (cases r1; simp add: ProcessResponseMessage_def aBind_def; fastforce)+
    with processMintResponseV4_result[OF assms(1-3) m] v4 show ?thesis by fastforce
  next
    case v5
    obtain r1 s1 where m: "processMintResponseV4 env q (SuccessResponse x) s = (r1, s1)" by (cases "processMintResponseV4 env q (SuccessResponse x) s")
    have "s' = s1" "\<And>m. r = Ok m \<Longrightarrow> \<exists>p. r1 = Ok p \<and> msg_Content m = MintResponseV5 p"
      using assms(5) v5 m by (cases r1; simp add: ProcessResponseMessage_def aBind_def version5_as_4; fastforce)+
    moreover have "GetPriceAndTokenV5 (HexToAddress env) (tokens env) s p = GetPriceAndTokenV4 (HexToAddress env) (tokens env) s p" for s p
      by (simp add: GetPriceAndTokenV5_def GetPriceAndTokenV4_def)
    ultimately show ?thesis using processMintResponseV4_result[OF assms(1-3) m] v5 by fastforce
  qed simp
qed

lemma distributor_pays_expected_price_witness:
  "bought sample_menv 42 (1000, 0, 0) sample_mstate (snd (ProcessResponseMessage sample_menv sample_ask
     (sample_msg_of (MintResponseV5 (SuccessResponse ((sample_offer (Some ''i''))\<lparr>BookingTokenId := 42, MintTransactionId := Some ''0x1''\<rparr>)))) sample_mstate))"
proof -
  let ?x = "(sample_offer (Some ''i''))\<lparr>BookingTokenId := 42, MintTransactionId := Some ''0x1''\<rparr>"
  let ?resp = "sample_msg_of (MintResponseV5 (SuccessResponse ?x))"
  let ?R = "ProcessResponseMessage sample_menv sample_ask ?resp sample_mstate"
  have "\<forall>a b. proto_Equal sample_menv a b \<longrightarrow> a = b" by (simp add: sample_menv_def)
  moreover have "msg_Content ?resp = MintResponseV4 (SuccessResponse ?x) \<or> msg_Content ?resp = MintResponseV5 (SuccessResponse ?x)"
    by (simp add: sample_msg_of_def)
  moreover have "txs (snd ?R) \<noteq> []" by code_simp
  moreover have "expected_terms sample_menv (erc20s sample_mstate) (msg_Content sample_ask) = Some (Ok (1000, 0, 0))" by code_simp
  ultimately show ?thesis
    using distributor_pays_expected_price[OF sample_chain_ok(1,2), of ?resp ?x sample_ask "fst ?R" "snd ?R"]
    by (simp add: sample_chain_ok)
qed

text \<open>In version 3 the supplier decides. Whatever the distributor asked for, and even if it
  did not ask for a mint at all, an answer that is a mint response of version 3, not marked as a
  failure and naming a mint transaction makes it buy the named token at the named price, as long as
  the reservation on the chain shows that price.\<close>

lemma v3_answer_is_paid:
  assumes "evicts_only (evictAccount (chain (benv (lenv env))))" and "bindings_ok (booking (listener s))"
    and "msg_Content resp = MintResponseV3 p" and "HeaderV3 p = Some hdr" and "Status hdr \<noteq> STATUS_TYPE_FAILURE"
    and "MintTransactionIdV3 p = Some tx" and "tx \<noteq> []" and "\<not> CancellableV3 p"
    and "GetPriceAndTokenV3 (HexToAddress env) (tokens env) (erc20s s) (PriceV3 p) = (Ok (price, token, currency), g)"
    and "BuyBookingToken (benv (lenv env)) (bsvc (lenv env)) (uint (BookingTokenIdV3 p)) price token (booking (listener s)) = (Ok receipt, a)"
  shows "\<exists>s'. (\<forall>req. ProcessResponseMessage env req resp s =
      (Ok (resp\<lparr>msg_Content := MintResponseV3 (p\<lparr>BuyTransactionIdV3 := Some (Hash_Hex env (receipt_TxHash receipt))\<rparr>)\<rparr>), s')) \<and>
    bought env (uint (BookingTokenIdV3 p)) (price, token, currency) s s'"
proof -
  let ?s' = "s\<lparr>erc20s := g, listener := (listener s)\<lparr>booking := a\<rparr>\<rparr>"
  have "buyOffer env (\<lambda>s. GetPriceAndTokenV3 (HexToAddress env) (tokens env) s (PriceV3 p)) (uint (BookingTokenIdV3 p)) s = (Ok (Inr receipt), ?s')"
    using assms(9,10) by (simp add: buyOffer_def aTry_def onErc20_def onListener_def onBooking_def)
  then have "ProcessResponseMessage env req resp s =
      (Ok (resp\<lparr>msg_Content := MintResponseV3 (p\<lparr>BuyTransactionIdV3 := Some (Hash_Hex env (receipt_TxHash receipt))\<rparr>)\<rparr>), ?s')" for req
    using assms(3-8) by (simp add: ProcessResponseMessage_def processMintResponseV3_def deref_def aBind_def)
  moreover have "bought env (uint (BookingTokenIdV3 p)) (price, token, currency) s ?s'"
    using BuyBookingToken_result[OF assms(1,2,10)] by (simp add: bought_def)
  ultimately show ?thesis by blast
qed

text \<open>The distributor sent no mint request at all.\<close>

lemma v3_answer_is_paid_witness:
  "bought sample_menv 42 (1000, 0, 0) sample_mstate (snd (ProcessResponseMessage sample_menv (sample_msg_of (OtherContent []))
     (sample_msg_of (MintResponseV3 \<lparr>HeaderV3 = Some \<lparr>Status = StatusTypeOther 0, Alerts = []\<rparr>, MintIdV3 = None, BuyableUntilV3 = None,
       PriceV3 = Some \<lparr>ValueV3 = ''1000'', DecimalsV3 = 18, CurrencyV3 = Some NativeTokenV3\<rparr>, BookingTokenUriV3 = [], BookingTokenIdV3 = 42,
       MintTransactionIdV3 = Some ''0x'', CancellableV3 = False, BuyTransactionIdV3 = None\<rparr>)) sample_mstate))"
proof -
  let ?p = "\<lparr>HeaderV3 = Some \<lparr>Status = StatusTypeOther 0, Alerts = []\<rparr>, MintIdV3 = None, BuyableUntilV3 = None,
       PriceV3 = Some \<lparr>ValueV3 = ''1000'', DecimalsV3 = 18, CurrencyV3 = Some NativeTokenV3\<rparr>, BookingTokenUriV3 = [], BookingTokenIdV3 = 42,
       MintTransactionIdV3 = Some ''0x'', CancellableV3 = False, BuyTransactionIdV3 = None\<rparr>"
  let ?resp = "sample_msg_of (MintResponseV3 ?p)"
  let ?G = "GetPriceAndTokenV3 (HexToAddress sample_menv) (tokens sample_menv) (erc20s sample_mstate) (PriceV3 ?p)"
  let ?B = "BuyBookingToken (benv (lenv sample_menv)) (bsvc (lenv sample_menv)) 42 1000 0 (booking (listener sample_mstate))"
  have "fst ?G = Ok (1000, 0, 0)" by code_simp
  then have G: "?G = (Ok (1000, 0, 0), snd ?G)" by (metis prod.collapse)
  have "case fst ?B of Ok _ \<Rightarrow> True | _ \<Rightarrow> False" by code_simp
  then obtain receipt where "fst ?B = Ok receipt" by (auto split: res.splits)
  then have B: "?B = (Ok receipt, snd ?B)" by (metis prod.collapse)
  show ?thesis
    using v3_answer_is_paid[OF sample_chain_ok(1,2), of ?resp ?p "\<lparr>Status = StatusTypeOther 0, Alerts = []\<rparr>" "''0x''" 1000 0 0 "snd ?G" receipt "snd ?B"] G B
    by (auto simp: sample_msg_of_def)
qed

text \<open>A plugin's offer without a mint ID is minted and then lost. In versions 4 and 5 the ID is
  read only after the transaction: the handler panics with the token minted for the buyer, no
  subscription for it in the tables and no answer to send.\<close>

lemma mint_without_id_is_lost:
  assumes "msg_Content req = MintRequestV5 q" and "msg_Content resp = MintResponseV5 (SuccessResponse x)" and "MintId x = None"
    and "BuyerAddress q = Some buyer" and "verifyAndFixBuyableUntil env h (BuyableUntil x) now = Ok b"
    and "GetPriceAndTokenV5 (HexToAddress env) (tokens env) (erc20s s) (Price x) = (Ok (price, token, currency), g)"
    and "MintBookingToken (benv (lenv env)) (bsvc (lenv env)) (HexToAddress env buyer) (BookingTokenUri x) (sint (Seconds b))
      price token currency (Cancellable x) (booking (listener s)) = (Ok (receipt, tokenID), a)"
  shows "PrepareResponseMessage env h now later req resp s =
    (Panic nilDereference, s\<lparr>erc20s := g, listener := (listener s)\<lparr>booking := a\<rparr>\<rparr>)"
  using assms by (simp add: PrepareResponseMessage_def prepareMintResponseV5_def mintOffer_def aBind_def aTry_def onErc20_def
      onListener_def onBooking_def deref_def)

lemma mint_without_id_is_lost_witness:
  "fst (PrepareResponseMessage sample_menv (NewResponseHandler ''me'' False) 0 0 sample_ask
     (sample_msg_of (MintResponseV5 (SuccessResponse (sample_offer None)))) sample_mstate) = Panic nilDereference"
proof -
  let ?x = "sample_offer None"
  let ?G = "GetPriceAndTokenV5 (HexToAddress sample_menv) (tokens sample_menv) (erc20s sample_mstate) (Price ?x)"
  let ?b = "timestamppb_New sample_menv (300 * second)"
  let ?B = "MintBookingToken (benv (lenv sample_menv)) (bsvc (lenv sample_menv)) (HexToAddress sample_menv ''b'') (BookingTokenUri ?x)
      (sint (Seconds ?b)) 1000 0 0 (Cancellable ?x) (booking (listener sample_mstate))"
  have "fst ?G = Ok (1000, 0, 0)" by code_simp
  then have G: "?G = (Ok (1000, 0, 0), snd ?G)" by (metis prod.collapse)
  have "case fst ?B of Ok _ \<Rightarrow> True | _ \<Rightarrow> False" by code_simp
  then obtain receipt tokenID where "fst ?B = Ok (receipt, tokenID)" by (auto split: res.splits)
  then have B: "?B = (Ok (receipt, tokenID), snd ?B)" by (metis prod.collapse)
  have "verifyAndFixBuyableUntil sample_menv (NewResponseHandler ''me'' False) (BuyableUntil ?x) 0 = Ok ?b"
    by (simp add: verifyAndFixBuyableUntil_def sample_offer_def NewResponseHandler_def)
  then show ?thesis
    using mint_without_id_is_lost[of sample_ask "\<lparr>BuyerAddress = Some ''b'', ExpectedPrice = Some sample_price\<rparr>"
      "sample_msg_of (MintResponseV5 (SuccessResponse ?x))" ?x "''b''" sample_menv "NewResponseHandler ''me'' False" 0 ?b sample_mstate
      1000 0 0 "snd ?G" receipt tokenID "snd ?B" 0] G B
    by (simp add: sample_ask_def sample_msg_of_def sample_offer_def)
qed

end
