(* ===== verification/Processor.thy ===== *)
theory Processor
  imports Mint_Trade Resolver
begin

text \<open>
  The message processor, \<^verbatim>\<open>internal/messaging/processor.go\<close>: incoming messages are decoded,
  authorized and answered or handed to the request that waits for them; outgoing requests are
  encoded, sent, and wait for their response. One goroutine runs per incoming message and per
  request; they meet at an unbuffered channel per request. The sequential parts are functions on
  the state of the processor, the meeting of goroutines is a step relation.

  Parameters are the messenger (an interface of the code; \<open>Matrix_Messenger\<close> is its
  implementation), protobuf validation and the clients of the partner plugin's services. A
  function takes the clock as \<open>clk\<close>, its \<open>i\<close>-th reading being \<open>clk i\<close>, and what the chain lists
  as the bots of the recipient as an argument.
\<close>

section \<open>State\<close>

text \<open>Where a message was sent and from which account, in order.\<close>

type_synonym outbox = "(encodedSignedMessage \<times> address \<times> address) list"

record ('c, 'pk) processor_env =
  menv :: "'c mint_env"
  eenv :: "('pk, content) enc_env"
  evictKey :: "(address \<rightharpoonup> 'pk option) \<Rightarrow> (address \<rightharpoonup> 'pk option)"
  messenger_Send :: "outbox \<Rightarrow> encodedSignedMessage \<Rightarrow> address \<Rightarrow> address \<Rightarrow> unit res"
  Validate :: "content \<Rightarrow> unit res"
  client_Call :: "string \<Rightarrow> address \<Rightarrow> address \<Rightarrow> service \<Rightarrow> content \<Rightarrow> content \<times> mtype"
  InvalidProtoErrResponseAndType :: "service \<Rightarrow> msgtext \<Rightarrow> content \<times> mtype"
  pickBot :: "address list \<Rightarrow> address"

record processor_cfg =
  botAddress :: address
  ttmAccountAddress :: address
  responseTimeout :: duration
  registry :: serviceRegistry
  responseHandler :: evmResponseHandler

record ('c, 'pk) messageProcessor =
  mints :: "'c mint_state"
  encoder :: "'pk encoderDecoder"
  resolverDB :: "bots db"
  outbox :: outbox
  responseChannels :: "string \<rightharpoonup> nat"

definition onAccounts :: "(accounts_service, 'a) act \<Rightarrow> (('c, 'pk) messageProcessor, 'a) act" where
  "onAccounts m = (\<lambda>p. case onListener (onBooking m) (mints p) of (r, s) \<Rightarrow> (r, p\<lparr>mints := s\<rparr>))"

definition onMints :: "('c mint_state, 'a) act \<Rightarrow> (('c, 'pk) messageProcessor, 'a) act" where
  "onMints m = (\<lambda>p. case m (mints p) of (r, s) \<Rightarrow> (r, p\<lparr>mints := s\<rparr>))"

definition onEncoder :: "('pk encoderDecoder, 'a) act \<Rightarrow> (('c, 'pk) messageProcessor, 'a) act" where
  "onEncoder m = (\<lambda>p. case m (encoder p) of (r, e) \<Rightarrow> (r, p\<lparr>encoder := e\<rparr>))"

definition onResolver :: "(bots db, 'a) act \<Rightarrow> (('c, 'pk) messageProcessor, 'a) act" where
  "onResolver m = (\<lambda>p. case m (resolverDB p) of (r, d) \<Rightarrow> (r, p\<lparr>resolverDB := d\<rparr>))"

definition messengerSend :: "('c, 'pk) processor_env \<Rightarrow> encodedSignedMessage \<Rightarrow> address \<Rightarrow> address \<Rightarrow> (('c, 'pk) messageProcessor, unit) act" where
  "messengerSend env msg sendTo senderTTMAccount = (\<lambda>p.
     (messenger_Send env (outbox p) msg sendTo senderTTMAccount, p\<lparr>outbox := outbox p @ [(msg, sendTo, senderTTMAccount)]\<rparr>))"

section \<open>Errors\<close>

definition ErrUnknownMessageCategory :: err where "ErrUnknownMessageCategory = Sentinel ''unknown message category''"
definition ErrUnsupportedService :: err where "ErrUnsupportedService = Sentinel ''unsupported service''"
definition ErrExceededResponseTimeout :: err where "ErrExceededResponseTimeout = Sentinel ''response exceeded configured timeout''"
definition ErrInvalidProto :: err where "ErrInvalidProto = Sentinel ''invalid proto message''"
definition ErrBlockchain :: err where "ErrBlockchain = Sentinel ''blockchain error''"
definition ErrBusinessProcess :: err where "ErrBusinessProcess = Sentinel ''business process error''"
definition ErrServiceNotSupported :: err where "ErrServiceNotSupported = Sentinel ''service is not supported''"

text \<open>\<open>fmt.Errorf("%w: ... %w", class, err)\<close>\<close>

definition classified :: "err \<Rightarrow> msgtext \<Rightarrow> err \<Rightarrow> err" where
  "classified cls t e = Err (Error cls @ [PStr '': ''] @ t @ Error e) [cls, e]"

section \<open>Response channels\<close>

definition setResponseChannel :: "string \<Rightarrow> nat \<Rightarrow> ('c, 'pk) messageProcessor \<Rightarrow> ('c, 'pk) messageProcessor" where
  "setResponseChannel requestID ch p = p\<lparr>responseChannels := (responseChannels p)(requestID \<mapsto> ch)\<rparr>"

definition deleteResponseChannel :: "string \<Rightarrow> ('c, 'pk) messageProcessor \<Rightarrow> ('c, 'pk) messageProcessor" where
  "deleteResponseChannel requestID p = p\<lparr>responseChannels := (responseChannels p)(requestID := None)\<rparr>"

definition getResponseChannel :: "string \<Rightarrow> ('c, 'pk) messageProcessor \<Rightarrow> nat option" where
  "getResponseChannel requestID p = responseChannels p requestID"

text \<open>How the work on an incoming message goes on: it is finished, or it sends the message on a
  channel and then closes it.\<close>

datatype incoming = Handled | Forward nat "content message"

definition forwardToHandler :: "content message \<Rightarrow> (('c, 'pk) messageProcessor, incoming) act" where
  "forwardToHandler msg = (\<lambda>p.
     case getResponseChannel (msg_RequestID msg) p of
       None \<Rightarrow> (Fail (Err [PStr ''no response channel for request ID: '', PStr (msg_RequestID msg)] []), p)
     | Some responseChan \<Rightarrow> (Ok (Forward responseChan msg), p))"

section \<open>Answering a request\<close>

text \<open>\<open>msg.Timestamps.Stamp(checkpoint)\<close>\<close>

definition stampMsg :: "time \<Rightarrow> string \<Rightarrow> 'm message \<Rightarrow> 'm message res" where
  "stampMsg now checkpoint msg =
     onErr (Stamp now (msg_Timestamps msg) checkpoint) (\<lambda>e. e) (\<lambda>t. Ok (msg\<lparr>msg_Timestamps := t\<rparr>))"

definition DoServiceRequest ::
  "('c, 'pk) processor_env \<Rightarrow> content message \<Rightarrow> service \<Rightarrow> address \<Rightarrow> address \<Rightarrow> content \<times> mtype" where
  "DoServiceRequest env requestMsg serviceClient fromAccount toAccount =
     client_Call env (msg_RequestID requestMsg) toAccount fromAccount serviceClient (msg_Content requestMsg)"

text \<open>The response shares the map of the request's timestamps, so stamps of either are stamps of both.\<close>

definition validateAndRespond ::
  "('c, 'pk) processor_env \<Rightarrow> processor_cfg \<Rightarrow> (nat \<Rightarrow> time) \<Rightarrow> content message \<Rightarrow> service \<Rightarrow> address \<Rightarrow> address \<Rightarrow>
     (('c, 'pk) messageProcessor, content message) act" where
  "validateAndRespond env cfg clk requestMsg serviceClient fromAccount toAccount =
     aTry (aLift (Validate env (msg_Content requestMsg)))
       (\<lambda>_. aBind (aLift (stampMsg (clk 0) ''p2p_request_message_sent_to_pp'' requestMsg)) (\<lambda>e. e) (\<lambda>requestMsg.
          case DoServiceRequest env requestMsg serviceClient fromAccount toAccount of (c, t) \<Rightarrow>
          aBind (aLift (stampMsg (clk 1) ''p2p_response_message_received_from_pp'' requestMsg)) (\<lambda>e. e) (\<lambda>requestMsg.
          onMints (PrepareResponseMessage (menv env) (responseHandler cfg) (clk 2) (clk 3) requestMsg
            \<lparr>msg_Type = t, msg_Content = c, msg_RequestID = msg_RequestID requestMsg, msg_Timestamps = msg_Timestamps requestMsg\<rparr>))))
       (\<lambda>e. case InvalidProtoErrResponseAndType env serviceClient (PStr ''request message validation failed: '' # Error e) of (c, t) \<Rightarrow>
          aRet \<lparr>msg_Type = t, msg_Content = c, msg_RequestID = msg_RequestID requestMsg, msg_Timestamps = msg_Timestamps requestMsg\<rparr>)"

definition respond ::
  "('c, 'pk) processor_env \<Rightarrow> processor_cfg \<Rightarrow> (nat \<Rightarrow> time) \<Rightarrow> content message \<Rightarrow> address \<Rightarrow> address \<Rightarrow> key option \<Rightarrow>
     (('c, 'pk) messageProcessor, unit) act" where
  "respond env cfg clk requestMsg senderBotAddress senderTTMAccountAddress sharedKey =
     (case GetService (registry cfg) (msg_Type requestMsg) of
        None \<Rightarrow> aFail (Err (Error ErrUnsupportedService @ [PStr '': '', PStr (msg_Type requestMsg)]) [ErrUnsupportedService])
      | Some service \<Rightarrow>
          aBind (validateAndRespond env cfg (\<lambda>i. clk (i + 1)) requestMsg service senderTTMAccountAddress (ttmAccountAddress cfg)) (\<lambda>e. e) (\<lambda>responseMsg.
          aBind (aLift (stampMsg (clk 5) ''p2p_response_message_sent_to_server'' responseMsg)) (\<lambda>e. e) (\<lambda>responseMsg.
          aBind (onEncoder (\<lambda>e. EncodeMessage (eenv env) (evictKey env) (clk 6) e responseMsg senderBotAddress sharedKey (ttmAccountAddress cfg)))
            (wrap ''failed to encode response message: '') (\<lambda>encoded.
            messengerSend env encoded senderBotAddress (ttmAccountAddress cfg)))))"

section \<open>Incoming messages\<close>

definition processIncomingMessage ::
  "('c, 'pk) processor_env \<Rightarrow> processor_cfg \<Rightarrow> (nat \<Rightarrow> time) \<Rightarrow> content message \<Rightarrow> address \<Rightarrow> address \<Rightarrow> key option \<Rightarrow>
     (('c, 'pk) messageProcessor, incoming) act" where
  "processIncomingMessage env cfg clk msg senderBotAddress senderTTMAccountAddress sharedKey =
     aBind (onAccounts (IsBotAllowed (chain (benv (lenv (menv env)))) (clk 0) (clk 1) senderTTMAccountAddress senderBotAddress))
       (\<lambda>e. Err ([PStr ''failed to verify bot authorization for TTM account '', PAddr senderTTMAccountAddress, PStr '' and bot '',
                 PAddr senderBotAddress, PStr '': ''] @ Error e) [e]) (\<lambda>allowed.
     if \<not> allowed
     then aFail (Err [PStr ''bot '', PAddr senderBotAddress, PStr '' is not authorized for TTM account '', PAddr senderTTMAccountAddress] [])
     else case Category (msg_Type msg) of
       Request \<Rightarrow>
         aBind (aLift (stampMsg (clk 2) ''p2p_request_message_received_from_server'' msg)) (\<lambda>e. e) (\<lambda>msg.
         aBind (respond env cfg (\<lambda>i. clk (i + 3)) msg senderBotAddress senderTTMAccountAddress sharedKey)
           (\<lambda>e. Err ([PStr ''failed to respond to request message '', PStr (msg_Type msg), PStr '' (id '', PStr (msg_RequestID msg), PStr ''): ''] @ Error e) [e])
           (\<lambda>_. aRet Handled))
     | Response \<Rightarrow>
         aBind (aLift (stampMsg (clk 2) ''p2p_response_message_received_from_server'' msg)) (\<lambda>e. e) (\<lambda>msg.
         aBind (forwardToHandler msg)
           (\<lambda>e. Err ([PStr ''failed to forward response message '', PStr (msg_Type msg), PStr '' (id '', PStr (msg_RequestID msg),
                     PStr '') to its handler: ''] @ Error e) [e])
           aRet)
     | Unknown \<Rightarrow> aFail ErrUnknownMessageCategory)"

text \<open>The goroutine \<open>Start\<close> runs for a received message: errors are logged, panics recovered. The spare
  capacity behind the joined chunks is \<open>spare\<close>.\<close>

definition receive ::
  "('c, 'pk) processor_env \<Rightarrow> processor_cfg \<Rightarrow> (nat \<Rightarrow> time) \<Rightarrow> bytes \<Rightarrow> encodedSignedMessageWithSender \<Rightarrow>
     ('c, 'pk) messageProcessor \<Rightarrow> incoming \<times> ('c, 'pk) messageProcessor" where
  "receive env cfg clk spare m p =
     (if SenderBotAddress m = botAddress cfg \<or> EncSenderTTMAccountAddress m = ttmAccountAddress cfg then (Handled, p)
      else case aBind (onEncoder (\<lambda>e. DecodeAndVerifyMessage (eenv env) (evictKey env) (clk 0) spare e (EncMessage m) (SenderBotAddress m))) (\<lambda>e. e)
             (\<lambda>(msg, sharedKey, senderTTMAccountAddress).
                if senderTTMAccountAddress = ttmAccountAddress cfg then aRet Handled
                else processIncomingMessage env cfg (\<lambda>i. clk (i + 1)) msg (SenderBotAddress m) senderTTMAccountAddress sharedKey) p
        of (Ok next, p) \<Rightarrow> (next, p) | (_, p) \<Rightarrow> (Handled, p))"

section \<open>Outgoing requests\<close>

text \<open>\<open>SendRequestMessage\<close> up to the wait, after the channel was registered: the bot asked and the request
  as it was sent.\<close>

definition sendRequest ::
  "('c, 'pk) processor_env \<Rightarrow> processor_cfg \<Rightarrow> (nat \<Rightarrow> time) \<Rightarrow> address list res \<Rightarrow> content message \<Rightarrow> address \<Rightarrow>
     (('c, 'pk) messageProcessor, address \<times> content message) act" where
  "sendRequest env cfg clk chainBots requestMsg recipientTTMAccount =
     aBind (onResolver (GetBotAddress (pickBot env) (\<lambda>_. chainBots) recipientTTMAccount))
       (classified ErrBusinessProcess [PStr ''failed to resolve bot address for TTM account '', PAddr recipientTTMAccount, PStr '': '']) (\<lambda>recipientBotAddr.
     aBind (onAccounts (IsServiceSupported (chain (benv (lenv (menv env)))) recipientTTMAccount (ToServiceName (msg_Type requestMsg))))
       (\<lambda>e. classified ErrBlockchain [] (Err ([PStr ''failed to check service support for service '', PStr (ToServiceName (msg_Type requestMsg)), PStr '': ''] @ Error e) [e])) (\<lambda>supported.
     if \<not> supported
     then aFail (classified ErrBusinessProcess [] (Err ([PStr ''service '', PStr (ToServiceName (msg_Type requestMsg)), PStr '' not supported by TTMAccount '',
            PAddr recipientTTMAccount, PStr '': ''] @ Error ErrServiceNotSupported) [ErrServiceNotSupported]))
     else
     let requestMsg = requestMsg\<lparr>msg_Content := PrepareRequest (responseHandler cfg) (msg_Content requestMsg)\<rparr> in
     aBind (aLift (NewKey (eenv env))) (wrap ''failed to create new encryption key: '') (\<lambda>sharedKey.
     aBind (aLift (stampMsg (clk 0) ''p2p_request_message_sent_to_server'' requestMsg)) (\<lambda>e. e) (\<lambda>requestMsg.
     aBind (onEncoder (\<lambda>e. EncodeMessage (eenv env) (evictKey env) (clk 1) e requestMsg recipientBotAddr (Some sharedKey) (ttmAccountAddress cfg)))
       (wrap ''failed to encode request message: '') (\<lambda>encoded.
     aBind (messengerSend env encoded recipientBotAddr (ttmAccountAddress cfg)) (wrap ''failed to send request message: '') (\<lambda>_.
       aRet (recipientBotAddr, requestMsg)))))))"

text \<open>The two branches of the select; a failure to store the status of the bot is only logged.\<close>

definition onResponse ::
  "('c, 'pk) processor_env \<Rightarrow> address \<Rightarrow> content message \<Rightarrow> content message \<Rightarrow> (('c, 'pk) messageProcessor, content message) act" where
  "onResponse env recipientBotAddr requestMsg responseMsg =
     aBind (aTry (onResolver (SetBotStatus recipientBotAddr BotStatusReachable)) aRet (\<lambda>_. aRet ())) (\<lambda>e. e) (\<lambda>_.
     aBind (aLift (Validate env (msg_Content responseMsg)))
       (\<lambda>e. Err ([PStr ''response validation failed: ''] @ Error ErrInvalidProto @ [PStr '': ''] @ Error e) [ErrInvalidProto, e]) (\<lambda>_.
       onMints (ProcessResponseMessage (menv env) requestMsg responseMsg)))"

definition onTimeout :: "processor_cfg \<Rightarrow> address \<Rightarrow> content message \<Rightarrow> (('c, 'pk) messageProcessor, content message) act" where
  "onTimeout cfg recipientBotAddr requestMsg =
     aBind (aTry (onResolver (SetBotStatus recipientBotAddr BotStatusUnreachable)) aRet (\<lambda>_. aRet ())) (\<lambda>e. e) (\<lambda>_.
       aFail (Err (Error ErrExceededResponseTimeout @ [PStr '' of '', PInt (responseTimeout cfg), PStr '' seconds for request: '',
         PStr (msg_RequestID requestMsg)]) [ErrExceededResponseTimeout]))"

section \<open>Goroutines\<close>

text \<open>A request is in one phase; its channel is its position in the list of all requests. A forwarder is
  the goroutine of a response, at its send or at its close.\<close>

datatype phase =
    Preparing "content message" address
  | Waiting address "content message"
  | Received address "content message" "content message"
  | ReceivedNil
  | Returned "content message res"

datatype forwarder = Sending nat "content message" | Closing nat | Ended | Panicked

record request =
  request_ID :: string
  request_phase :: phase

record ('c, 'pk) network =
  proc :: "('c, 'pk) messageProcessor"
  requests :: "request list"
  forwarders :: "forwarder list"
  closedChannels :: "nat set"

definition goto_phase :: "nat \<Rightarrow> phase \<Rightarrow> ('c, 'pk) network \<Rightarrow> ('c, 'pk) network" where
  "goto_phase i ph n = n\<lparr>requests := (requests n)[i := (requests n ! i)\<lparr>request_phase := ph\<rparr>]\<rparr>"

definition forwarder_to :: "nat \<Rightarrow> forwarder \<Rightarrow> ('c, 'pk) network \<Rightarrow> ('c, 'pk) network" where
  "forwarder_to j f n = n\<lparr>forwarders := (forwarders n)[j := f]\<rparr>"

inductive network_step :: "('c, 'pk) processor_env \<Rightarrow> processor_cfg \<Rightarrow> ('c, 'pk) network \<Rightarrow> ('c, 'pk) network \<Rightarrow> bool"
  for env cfg where
  register: "network_step env cfg n (n\<lparr>proc := setResponseChannel (msg_RequestID msg) (length (requests n)) (proc n),
      requests := requests n @ [\<lparr>request_ID = msg_RequestID msg, request_phase = Preparing msg to\<rparr>]\<rparr>)"
| prepared: "i < length (requests n) \<Longrightarrow> request_phase (requests n ! i) = Preparing msg to \<Longrightarrow>
    sendRequest env cfg clk bots msg to (proc n) = (Ok (peer, msg'), p) \<Longrightarrow>
    network_step env cfg n (goto_phase i (Waiting peer msg') (n\<lparr>proc := p\<rparr>))"
| not_prepared: "i < length (requests n) \<Longrightarrow> request_phase (requests n ! i) = Preparing msg to \<Longrightarrow>
    sendRequest env cfg clk bots msg to (proc n) = (r, p) \<Longrightarrow> r = Fail e \<and> r' = Fail e \<or> r = Panic t \<and> r' = Panic t \<Longrightarrow>
    network_step env cfg n (goto_phase i (Returned r') (n\<lparr>proc := deleteResponseChannel (request_ID (requests n ! i)) p\<rparr>))"
| arrive: "receive env cfg clk spare m (proc n) = (Handled, p) \<Longrightarrow> network_step env cfg n (n\<lparr>proc := p\<rparr>)"
| arrive_response: "receive env cfg clk spare m (proc n) = (Forward ch msg, p) \<Longrightarrow>
    network_step env cfg n (n\<lparr>proc := p, forwarders := forwarders n @ [Sending ch msg]\<rparr>)"
| rendezvous: "j < length (forwarders n) \<Longrightarrow> forwarders n ! j = Sending i msg \<Longrightarrow> i < length (requests n) \<Longrightarrow>
    request_phase (requests n ! i) = Waiting peer req \<Longrightarrow> i \<notin> closedChannels n \<Longrightarrow>
    network_step env cfg n (forwarder_to j (Closing i) (goto_phase i (Received peer req msg) n))"
| send_on_closed: "j < length (forwarders n) \<Longrightarrow> forwarders n ! j = Sending i msg \<Longrightarrow> i \<in> closedChannels n \<Longrightarrow>
    network_step env cfg n (forwarder_to j Panicked n)"
| close: "j < length (forwarders n) \<Longrightarrow> forwarders n ! j = Closing i \<Longrightarrow> i \<notin> closedChannels n \<Longrightarrow>
    network_step env cfg n ((forwarder_to j Ended n)\<lparr>closedChannels := insert i (closedChannels n)\<rparr>)"
| close_closed: "j < length (forwarders n) \<Longrightarrow> forwarders n ! j = Closing i \<Longrightarrow> i \<in> closedChannels n \<Longrightarrow>
    network_step env cfg n (forwarder_to j Panicked n)"
| receive_closed: "i < length (requests n) \<Longrightarrow> request_phase (requests n ! i) = Waiting peer req \<Longrightarrow> i \<in> closedChannels n \<Longrightarrow>
    network_step env cfg n (goto_phase i ReceivedNil n)"
| returned: "i < length (requests n) \<Longrightarrow> request_phase (requests n ! i) = Received peer req msg \<Longrightarrow>
    onResponse env peer req msg (proc n) = (r, p) \<Longrightarrow>
    network_step env cfg n (goto_phase i (Returned r) (n\<lparr>proc := deleteResponseChannel (request_ID (requests n ! i)) p\<rparr>))"
| timed_out: "i < length (requests n) \<Longrightarrow> request_phase (requests n ! i) = Waiting peer req \<Longrightarrow>
    onTimeout cfg peer req (proc n) = (r, p) \<Longrightarrow>
    network_step env cfg n (goto_phase i (Returned r) (n\<lparr>proc := deleteResponseChannel (request_ID (requests n ! i)) p\<rparr>))"

end
