(* ===== verification/Processor_Runs.thy ===== *)
theory Processor_Runs
  imports Processor
begin

text \<open>
  Runs of the message processor: who is listened to, and how responses find their requests when
  goroutines interleave in any way.
\<close>

section \<open>What keeps the channels\<close>

definition keeps_channels :: "(('c, 'pk) messageProcessor, 'a) act \<Rightarrow> bool" where
  "keeps_channels m \<longleftrightarrow> (\<forall>p r p'. m p = (r, p') \<longrightarrow> responseChannels p' = responseChannels p)"

named_theorems keeps "actions that keep the response channels"

lemma keeps_basic [keeps]:
  "keeps_channels (aRet v)" "keeps_channels (aFail e)" "keeps_channels (aLift r)"
  "keeps_channels (onAccounts m1)" "keeps_channels (onMints m2)" "keeps_channels (onEncoder m3)" "keeps_channels (onResolver m4)"
  "keeps_channels (messengerSend env msg b a)"
  by (auto simp: keeps_channels_def onAccounts_def onMints_def onEncoder_def onResolver_def messengerSend_def split: prod.splits)

lemma keeps_bind [keeps]: "keeps_channels m \<Longrightarrow> (\<And>v. keeps_channels (k v)) \<Longrightarrow> keeps_channels (aBind m w k)"
  unfolding keeps_channels_def aBind_def by (fastforce split: prod.splits res.splits)

lemma keeps_try [keeps]:
  "keeps_channels m \<Longrightarrow> (\<And>v. keeps_channels (k v)) \<Longrightarrow> (\<And>e. keeps_channels (b e)) \<Longrightarrow> keeps_channels (aTry m k b)"
  unfolding keeps_channels_def aTry_def by (fastforce split: prod.splits res.splits)

lemma keeps_forward [keeps]: "keeps_channels (forwardToHandler msg)"
  by (auto simp: keeps_channels_def forwardToHandler_def split: option.splits)

lemma keeps_respond [keeps]:
  "keeps_channels (validateAndRespond env cfg clk msg sv a b)" "keeps_channels (respond env cfg clk msg peer acc k)"
  unfolding validateAndRespond_def respond_def by (auto intro!: keeps split: prod.splits option.splits)

lemma keeps_processIncoming [keeps]: "keeps_channels (processIncomingMessage env cfg clk msg peer acc k)"
  unfolding processIncomingMessage_def by (auto intro!: keeps split: category.splits)

lemma keeps_request [keeps]:
  "keeps_channels (sendRequest env cfg clk bots msg to)" "keeps_channels (onResponse env peer req resp)" "keeps_channels (onTimeout cfg peer req)"
  unfolding sendRequest_def onResponse_def onTimeout_def Let_def by (auto intro!: keeps)

lemma channels_kept: "keeps_channels m \<Longrightarrow> m p = (r, p') \<Longrightarrow> responseChannels p' = responseChannels p"
  by (simp add: keeps_channels_def)

lemma stampMsg_RequestID: "stampMsg now c msg = Ok msg' \<Longrightarrow> msg_RequestID msg' = msg_RequestID msg"
  by (auto simp: stampMsg_def)

text \<open>A message is only forwarded to the channel registered for its request ID.\<close>

definition forwards_registered :: "(('c, 'pk) messageProcessor, incoming) act \<Rightarrow> bool" where
  "forwards_registered m \<longleftrightarrow> (\<forall>p r p' ch msg. m p = (r, p') \<longrightarrow> r = Ok (Forward ch msg) \<longrightarrow> responseChannels p (msg_RequestID msg) = Some ch)"

lemma forwards_bind:
  assumes "keeps_channels m" and "\<And>v. forwards_registered (k v)"
  shows "forwards_registered (aBind m w k)"
  using assms unfolding forwards_registered_def keeps_channels_def aBind_def by (fastforce split: prod.splits res.splits)

lemma forwards_simple: "forwards_registered (aFail e)" "forwards_registered (aRet Handled)" "forwards_registered (forwardToHandler msg)"
  by (auto simp: forwards_registered_def forwardToHandler_def getResponseChannel_def split: option.splits)

lemma aBind_aRet: "aBind m (\<lambda>e. e) aRet = m"
  by (auto simp: aBind_def fun_eq_iff split: prod.splits res.splits)

lemma forwards_then_ret: "forwards_registered m \<Longrightarrow> forwards_registered (aBind m w aRet)"
  unfolding forwards_registered_def aBind_def by (fastforce split: prod.splits res.splits)

lemma processIncomingMessage_forwards: "forwards_registered (processIncomingMessage env cfg clk msg peer acc k)"
  unfolding processIncomingMessage_def
  by (auto intro!: forwards_bind keeps forwards_simple forwards_then_ret split: category.splits)

lemma receive_cases:
  assumes "receive env cfg clk spare m p = (next, p')"
  shows "responseChannels p' = responseChannels p \<and>
    (\<forall>ch msg. next = Forward ch msg \<longrightarrow> responseChannels p (msg_RequestID msg) = Some ch)"
proof (cases "SenderBotAddress m = botAddress cfg \<or> EncSenderTTMAccountAddress m = ttmAccountAddress cfg")
  case False
  let ?m = "aBind (onEncoder (\<lambda>e. DecodeAndVerifyMessage (eenv env) (evictKey env) (clk 0) spare e (EncMessage m) (SenderBotAddress m))) (\<lambda>e. e)
      (\<lambda>(msg, sharedKey, acc). if acc = ttmAccountAddress cfg then aRet Handled
         else processIncomingMessage env cfg (\<lambda>i. clk (i + 1)) msg (SenderBotAddress m) acc sharedKey)"
  have k: "keeps_channels ?m"
    by (intro keeps_bind keeps_basic) (auto simp: keeps_basic keeps_processIncoming split: prod.splits)
  have f: "forwards_registered ?m"
    by (auto intro!: forwards_bind keeps forwards_simple processIncomingMessage_forwards split: prod.splits)
  obtain r p1 where r: "?m p = (r, p1)" by (cases "?m p")
  then have "p' = p1 \<and> (next = Handled \<or> r = Ok next)"
    using assms False by (auto simp: receive_def split: res.splits)
  then show ?thesis using channels_kept[OF k r] f r unfolding forwards_registered_def by auto
qed (use assms in \<open>auto simp: receive_def\<close>)

section \<open>Responses find their requests\<close>

text \<open>A channel is taken when a response was handed over on it: its forwarder is about to close it, or has.\<close>

definition taken :: "('c, 'pk) network \<Rightarrow> nat \<Rightarrow> nat" where
  "taken n i = count_list (forwarders n) (Closing i) + (if i \<in> closedChannels n then 1 else 0)"

fun handed :: "phase \<Rightarrow> bool" where
  "handed (Received _ _ _) = True"
| "handed (Returned _) = True"
| "handed _ = False"

definition phase_of :: "('c, 'pk) network \<Rightarrow> nat \<Rightarrow> phase" where "phase_of n i = request_phase (requests n ! i)"

definition net_ok :: "('c, 'pk) network \<Rightarrow> bool" where
  "net_ok n \<longleftrightarrow>
     (\<forall>rid i. responseChannels (proc n) rid = Some i \<longrightarrow> i < length (requests n) \<and> request_ID (requests n ! i) = rid) \<and>
     (\<forall>i msg. Sending i msg \<in> set (forwarders n) \<longrightarrow> i < length (requests n) \<and> request_ID (requests n ! i) = msg_RequestID msg) \<and>
     (\<forall>i < length (requests n). \<forall>peer req msg. phase_of n i = Received peer req msg \<longrightarrow> msg_RequestID msg = request_ID (requests n ! i)) \<and>
     (\<forall>i < length (requests n). phase_of n i \<noteq> ReceivedNil) \<and>
     (\<forall>i. taken n i \<le> 1 \<and> (0 < taken n i \<longrightarrow> i < length (requests n) \<and> handed (phase_of n i)))"

lemma goto_phase_simps [simp]:
  "proc (goto_phase i ph n) = proc n" "forwarders (goto_phase i ph n) = forwarders n"
  "closedChannels (goto_phase i ph n) = closedChannels n" "length (requests (goto_phase i ph n)) = length (requests n)"
  "taken (goto_phase i ph n) k = taken n k"
  by (simp_all add: goto_phase_def taken_def)

lemma request_ID_goto [simp]: "k < length (requests n) \<Longrightarrow> request_ID (requests (goto_phase i ph n) ! k) = request_ID (requests n ! k)"
  by (cases "k = i") (auto simp: goto_phase_def)

lemma phase_of_goto: "i < length (requests n) \<Longrightarrow> phase_of (goto_phase i ph n) k = (if k = i then ph else phase_of n k)"
  by (auto simp: phase_of_def goto_phase_def nth_list_update)

lemma forwarder_to_simps [simp]:
  "proc (forwarder_to j f n) = proc n" "requests (forwarder_to j f n) = requests n"
  "closedChannels (forwarder_to j f n) = closedChannels n" "phase_of (forwarder_to j f n) k = phase_of n k"
  "forwarders (forwarder_to j f n) = (forwarders n)[j := f]"
  by (simp_all add: forwarder_to_def phase_of_def)

lemma network_proc [simp]: "phase_of (n\<lparr>proc := p\<rparr>) k = phase_of n k" "taken (n\<lparr>proc := p\<rparr>) k = taken n k"
  by (simp_all add: phase_of_def taken_def)

lemma count_list_update:
  "j < length xs \<Longrightarrow> count_list (xs[j := y]) x + (if xs ! j = x then 1 else 0) = count_list xs x + (if y = x then 1 else 0)"
proof (induction xs arbitrary: j)
  case (Cons a xs)
  show ?case
  proof (cases j)
    case (Suc k)
    then show ?thesis using Cons.IH[of k] Cons.prems by (auto split: if_splits simp del: One_nat_def)
  qed simp
qed simp

lemma taken_forwarder_to:
  assumes "j < length (forwarders n)"
  shows "taken (forwarder_to j f n) k + (if forwarders n ! j = Closing k then 1 else 0) = taken n k + (if f = Closing k then 1 else 0)"
  using count_list_update[OF assms, of f "Closing k"] by (simp add: taken_def)

lemma Sending_in_update: "Sending i msg \<in> set (xs[j := f]) \<Longrightarrow> f \<noteq> Sending i msg \<Longrightarrow> Sending i msg \<in> set xs"
  using set_update_subset_insert[of xs j f] by blast

text \<open>What a step does to the request it moves and to the others; the invariant is kept.\<close>

lemma net_okD:
  assumes "net_ok n"
  shows "responseChannels (proc n) rid = Some i \<Longrightarrow> i < length (requests n) \<and> request_ID (requests n ! i) = rid"
    "Sending i msg \<in> set (forwarders n) \<Longrightarrow> i < length (requests n) \<and> request_ID (requests n ! i) = msg_RequestID msg"
    "i < length (requests n) \<Longrightarrow> phase_of n i = Received peer req msg \<Longrightarrow> msg_RequestID msg = request_ID (requests n ! i)"
    "i < length (requests n) \<Longrightarrow> phase_of n i \<noteq> ReceivedNil"
    "taken n i \<le> 1" "0 < taken n i \<Longrightarrow> i < length (requests n) \<and> handed (phase_of n i)"
  using assms unfolding net_ok_def by blast+

lemma net_okI:
  assumes "\<And>rid i. responseChannels (proc n) rid = Some i \<Longrightarrow> i < length (requests n) \<and> request_ID (requests n ! i) = rid"
    and "\<And>i msg. Sending i msg \<in> set (forwarders n) \<Longrightarrow> i < length (requests n) \<and> request_ID (requests n ! i) = msg_RequestID msg"
    and "\<And>i peer req msg. i < length (requests n) \<Longrightarrow> phase_of n i = Received peer req msg \<Longrightarrow> msg_RequestID msg = request_ID (requests n ! i)"
    and "\<And>i. i < length (requests n) \<Longrightarrow> phase_of n i \<noteq> ReceivedNil"
    and "\<And>i. taken n i \<le> 1" and "\<And>i. 0 < taken n i \<Longrightarrow> i < length (requests n) \<and> handed (phase_of n i)"
  shows "net_ok n"
  using assms unfolding net_ok_def by blast

text \<open>The request \<open>i\<close> goes on to a phase that has received nothing new.\<close>

lemma net_ok_goto:
  assumes n: "net_ok n" and i: "i < length (requests n)" and ph: "\<And>peer req m. ph \<noteq> Received peer req m" "ph \<noteq> ReceivedNil"
    and h: "handed (phase_of n i) \<Longrightarrow> handed ph"
    and c: "\<And>rid k. responseChannels p rid = Some k \<Longrightarrow> responseChannels (proc n) rid = Some k"
  shows "net_ok (goto_phase i ph (n\<lparr>proc := p\<rparr>))"
proof (rule net_okI, goal_cases)
  case (1 rid k) then show ?case using c[of rid k] net_okD(1)[OF n, of rid k] by simp
next
  case (2 k m) then show ?case using net_okD(2)[OF n, of k m] by simp
next
  case (3 k peer req m) then show ?case using net_okD(3)[OF n, of k peer req m] i ph(1)[of peer req m] by (auto simp: phase_of_goto split: if_splits)
next
  case (4 k) then show ?case using net_okD(4)[OF n, of k] i ph by (simp add: phase_of_goto)
next
  case (5 k) then show ?case using net_okD(5)[OF n, of k] by simp
next
  case (6 k) then show ?case using net_okD(6)[OF n, of k] i h by (auto simp: phase_of_goto)
qed

lemma net_ok_register:
  assumes n: "net_ok n"
  shows "net_ok (n\<lparr>proc := setResponseChannel rid (length (requests n)) (proc n),
    requests := requests n @ [\<lparr>request_ID = rid, request_phase = Preparing msg to\<rparr>]\<rparr>)" (is "net_ok ?n")
proof -
  have t: "taken ?n k = taken n k" for k by (simp add: taken_def)
  have ph: "phase_of ?n k = phase_of n k" "request_ID (requests ?n ! k) = request_ID (requests n ! k)" if "k < length (requests n)" for k
    using that by (simp_all add: phase_of_def nth_append)
  have new: "phase_of ?n (length (requests n)) = Preparing msg to" "request_ID (requests ?n ! length (requests n)) = rid"
    by (simp_all add: phase_of_def)
  have k: "k < length (requests n) \<or> k = length (requests n)" if "k < length (requests ?n)" for k using that by auto
  show ?thesis
  proof (rule net_okI, goal_cases)
    case (1 r k) then show ?case using net_okD(1)[OF n, of r k] ph(2)[of k] new(2) by (auto simp: setResponseChannel_def split: if_splits)
  next
    case (2 k m) then show ?case using net_okD(2)[OF n, of k m] ph(2)[of k] by simp
  next
    case (3 i peer req m) then show ?case using k[of i] net_okD(3)[OF n, of i peer req m] ph[of i] new by auto
  next
    case (4 i) then show ?case using k[of i] net_okD(4)[OF n, of i] ph[of i] new by auto
  next
    case (5 i) then show ?case using net_okD(5)[OF n, of i] t by simp
  next
    case (6 i) then show ?case using net_okD(6)[OF n, of i] t ph[of i] by simp
  qed
qed

lemma net_ok_arrive:
  assumes n: "net_ok n" and c: "responseChannels p = responseChannels (proc n)"
    and fs: "fs = [] \<or> (\<exists>i msg. fs = [Sending i msg] \<and> responseChannels p (msg_RequestID msg) = Some i)"
  shows "net_ok (n\<lparr>proc := p, forwarders := forwarders n @ fs\<rparr>)" (is "net_ok ?n")
proof -
  have t: "taken ?n k = taken n k" "phase_of ?n k = phase_of n k" for k using fs by (auto simp: taken_def phase_of_def)
  show ?thesis
  proof (rule net_okI, goal_cases)
    case (1 rid k) then show ?case using net_okD(1)[OF n, of rid k] c by simp
  next
    case (2 k m) then show ?case using net_okD(2)[OF n, of k m] net_okD(1)[OF n, of "msg_RequestID m" k] c fs by auto
  next
    case (3 k a b d) then show ?case using net_okD(3)[OF n, of k a b d] t by simp
  next
    case (4 k) then show ?case using net_okD(4)[OF n, of k] t by simp
  next
    case (5 k) then show ?case using net_okD(5)[OF n, of k] t by simp
  next
    case (6 k) then show ?case using net_okD(6)[OF n, of k] t by simp
  qed
qed

lemma net_ok_rendezvous:
  assumes n: "net_ok n" and j: "j < length (forwarders n)" and f: "forwarders n ! j = Sending i msg"
    and i: "i < length (requests n)" and ph: "phase_of n i = Waiting peer req"
  shows "net_ok (forwarder_to j (Closing i) (goto_phase i (Received peer req msg) n))" (is "net_ok ?n")
proof -
  let ?g = "goto_phase i (Received peer req msg) n"
  have z: "taken n i = 0" using net_okD(6)[OF n, of i] ph by (cases "taken n i") auto
  have t: "taken ?n k = taken n k + (if k = i then 1 else 0)" for k
    using taken_forwarder_to[of j ?g "Closing i" k] j f by auto
  have m: "msg_RequestID msg = request_ID (requests n ! i)" using net_okD(2)[OF n, of i msg] nth_mem[OF j] f by simp
  show ?thesis
  proof (rule net_okI, goal_cases)
    case (1 rid k) then show ?case using net_okD(1)[OF n, of rid k] by simp
  next
    case (2 k a) then show ?case using net_okD(2)[OF n, of k a] Sending_in_update[of k a "forwarders n" j "Closing i"] by simp
  next
    case (3 k a b d) then show ?case using net_okD(3)[OF n, of k a b d] i m by (simp add: phase_of_goto split: if_splits)
  next
    case (4 k) then show ?case using net_okD(4)[OF n, of k] i by (simp add: phase_of_goto)
  next
    case (5 k) then show ?case using net_okD(5)[OF n, of k] z t[of k] by (cases "k = i") auto
  next
    case (6 k) then show ?case using net_okD(6)[OF n, of k] i t[of k] by (cases "k = i") (auto simp: phase_of_goto)
  qed
qed

lemma net_ok_settle:
  assumes n: "net_ok n" and j: "j < length (forwarders n)" and f: "f = Ended \<or> f = Panicked"
    and cl: "\<And>k. taken (forwarder_to j f n) k + (if k \<in> C - closedChannels n then 1 else 0) \<le> taken n k" "closedChannels n \<subseteq> C"
  shows "net_ok ((forwarder_to j f n)\<lparr>closedChannels := C\<rparr>)" (is "net_ok ?n")
proof -
  have ph: "phase_of ?n k = phase_of n k" for k by (simp add: phase_of_def)
  have t: "taken ?n k \<le> taken n k" for k using cl(1)[of k] cl(2) by (auto simp: taken_def split: if_splits)
  show ?thesis
  proof (rule net_okI, goal_cases)
    case (1 rid k) then show ?case using net_okD(1)[OF n, of rid k] by simp
  next
    case (2 k m) then show ?case using net_okD(2)[OF n, of k m] Sending_in_update[of k m "forwarders n" j f] f by auto
  next
    case (3 k a b d) then show ?case using net_okD(3)[OF n, of k a b d] ph by simp
  next
    case (4 k) then show ?case using net_okD(4)[OF n, of k] ph by simp
  next
    case (5 k) then show ?case using net_okD(5)[OF n, of k] t[of k] by simp
  next
    case (6 k) then show ?case using net_okD(6)[OF n, of k] t[of k] ph by simp
  qed
qed

lemma settle_taken:
  assumes "j < length (forwarders n)" and "f = Ended \<or> f = Panicked"
  shows "taken (forwarder_to j f n) k = taken n k - (if forwarders n ! j = Closing k then 1 else 0)"
  using taken_forwarder_to[OF assms(1), of f k] assms(2) by auto

lemma forwarder_to_closed [simp]: "(forwarder_to j f n)\<lparr>closedChannels := closedChannels n\<rparr> = forwarder_to j f n"
  by (cases n) (simp add: forwarder_to_def)

lemma net_ok_step: "network_step env cfg n n' \<Longrightarrow> net_ok n \<Longrightarrow> net_ok n'"
proof (induction rule: network_step.induct)
  case (register n msg to)
  then show ?case by (rule net_ok_register)
next
  case (prepared i n msg to clk bots peer msg' p)
  then show ?case using channels_kept[OF keeps_request(1) prepared(3)]
    by (intro net_ok_goto) (auto simp: phase_of_def)
next
  case (not_prepared i n msg to clk bots r p e r' t)
  then show ?case using channels_kept[OF keeps_request(1) not_prepared(3)]
    by (intro net_ok_goto) (auto simp: deleteResponseChannel_def split: if_splits)
next
  case (arrive clk spare m n p)
  then show ?case using receive_cases[OF arrive(1)] net_ok_arrive[of n p "[]"] by simp
next
  case (arrive_response clk spare m n ch msg p)
  then show ?case using receive_cases[OF arrive_response(1)] by (intro net_ok_arrive) auto
next
  case (rendezvous j n i msg peer req)
  then show ?case by (intro net_ok_rendezvous) (auto simp: phase_of_def)
next
  case (send_on_closed j n i msg)
  then show ?case using net_ok_settle[of n j Panicked "closedChannels n"] by (simp add: settle_taken)
next
  case (close j n i)
  have "taken (forwarder_to j Ended n) k + (if k \<in> insert i (closedChannels n) - closedChannels n then 1 else 0) \<le> taken n k" for k
    using taken_forwarder_to[OF close(1), of Ended k] close(2,3) by auto
  then show ?case using net_ok_settle[OF close(4,1), of Ended "insert i (closedChannels n)"] by auto
next
  case (close_closed j n i)
  then show ?case using net_ok_settle[of n j Panicked "closedChannels n"] by (simp add: settle_taken)
next
  case (receive_closed i n peer req)
  then have "0 < taken n i" by (simp add: taken_def)
  then show ?case using net_okD(6)[OF receive_closed(4), of i] receive_closed(2) by (simp add: phase_of_def)
next
  case (returned i n peer req msg r p)
  then show ?case using channels_kept[OF keeps_request(2) returned(3)]
    by (intro net_ok_goto) (auto simp: deleteResponseChannel_def split: if_splits)
next
  case (timed_out i n peer req r p)
  then show ?case using channels_kept[OF keeps_request(3) timed_out(3)]
    by (intro net_ok_goto) (auto simp: deleteResponseChannel_def split: if_splits)
qed

definition initial_network :: "('c, 'pk) network \<Rightarrow> bool" where
  "initial_network n \<longleftrightarrow> responseChannels (proc n) = Map.empty \<and> requests n = [] \<and> forwarders n = [] \<and> closedChannels n = {}"

interpretation net: step_invariant "network_step env cfg" net_ok for env cfg
  by unfold_locales (rule net_ok_step)

lemma net_ok_run:
  assumes "(network_step env cfg)\<^sup>*\<^sup>* n n'" and "initial_network n"
  shows "net_ok n'"
  using assms(2) by (intro net.run_keeps[OF assms(1)]) (simp add: initial_network_def net_ok_def taken_def)

text \<open>A registered channel belongs to a request that has not returned.\<close>

definition channels_live :: "('c, 'pk) network \<Rightarrow> bool" where
  "channels_live n \<longleftrightarrow> (\<forall>rid i. responseChannels (proc n) rid = Some i \<longrightarrow>
     i < length (requests n) \<and> request_ID (requests n ! i) = rid \<and> (\<forall>r. phase_of n i \<noteq> Returned r))"

lemma live_frame: "channels_live n \<Longrightarrow> proc n' = proc n \<Longrightarrow> requests n' = requests n \<Longrightarrow> channels_live n'"
  by (simp add: channels_live_def phase_of_def)

lemma live_goto:
  assumes "channels_live n" and "\<And>rid k. responseChannels p rid = Some k \<Longrightarrow> responseChannels (proc n) rid = Some k"
    and "\<And>rid r. responseChannels p rid = Some i \<Longrightarrow> ph \<noteq> Returned r"
  shows "channels_live (goto_phase i ph (n\<lparr>proc := p\<rparr>))"
  unfolding channels_live_def
proof (intro allI impI)
  fix rid k assume "responseChannels (proc (goto_phase i ph (n\<lparr>proc := p\<rparr>))) rid = Some k"
  then have k: "responseChannels p rid = Some k" by simp
  then have live: "k < length (requests n)" "request_ID (requests n ! k) = rid" "\<forall>r. phase_of n k \<noteq> Returned r"
    using assms(1,2) unfolding channels_live_def by blast+
  then show "k < length (requests (goto_phase i ph (n\<lparr>proc := p\<rparr>))) \<and> request_ID (requests (goto_phase i ph (n\<lparr>proc := p\<rparr>)) ! k) = rid \<and>
      (\<forall>r. phase_of (goto_phase i ph (n\<lparr>proc := p\<rparr>)) k \<noteq> Returned r)"
    using assms(3)[of rid] k by (cases "k = i") (auto simp: phase_of_def goto_phase_def)
qed

text \<open>A request that returns deletes its channel, if it is still its own.\<close>

lemma live_return:
  assumes "channels_live n" and "responseChannels p = responseChannels (proc n)"
  shows "channels_live (goto_phase i (Returned r) (n\<lparr>proc := deleteResponseChannel (request_ID (requests n ! i)) p\<rparr>))"
  using assms by (intro live_goto) (auto simp: deleteResponseChannel_def channels_live_def split: if_splits)

lemma live_step: "network_step env cfg n n' \<Longrightarrow> channels_live n \<Longrightarrow> channels_live n'"
proof (induction rule: network_step.induct)
  case (register n msg to)
  then show ?case by (fastforce simp: channels_live_def setResponseChannel_def phase_of_def nth_append less_Suc_eq split: if_splits)
next
  case (prepared i n msg to clk bots peer msg' p)
  then show ?case using channels_kept[OF keeps_request(1) prepared(3)] by (intro live_goto) auto
next
  case (not_prepared i n msg to clk bots r p e r' t)
  then show ?case using channels_kept[OF keeps_request(1) not_prepared(3)] by (intro live_return)
next
  case (arrive clk spare m n p)
  then show ?case using receive_cases[OF arrive(1)] by (simp add: channels_live_def phase_of_def)
next
  case (arrive_response clk spare m n ch msg p)
  then show ?case using receive_cases[OF arrive_response(1)] by (simp add: channels_live_def phase_of_def)
next
  case (rendezvous j n i msg peer req)
  then have "channels_live (goto_phase i (Received peer req msg) (n\<lparr>proc := proc n\<rparr>))" by (intro live_goto) auto
  then show ?case by (rule live_frame) simp_all
next
  case (receive_closed i n peer req)
  then have "channels_live (goto_phase i ReceivedNil (n\<lparr>proc := proc n\<rparr>))" by (intro live_goto) auto
  then show ?case by simp
next
  case (returned i n peer req msg r p)
  then show ?case using channels_kept[OF keeps_request(2) returned(3)] by (intro live_return)
next
  case (timed_out i n peer req r p)
  then show ?case using channels_kept[OF keeps_request(3) timed_out(3)] by (intro live_return)
qed (simp_all add: channels_live_def phase_of_def)

interpretation live: step_invariant "network_step env cfg" channels_live for env cfg
  by unfold_locales (rule live_step)

text \<open>Property C6: however the goroutines interleave, a waiting request receives only a response with its
  own request ID, at most one response is handed over per request, no channel is closed twice,
  no request reads the nil message of a closed channel, and the channel of a request that has returned is
  no longer registered, so no later response is sent to it.\<close>

lemma responses_find_their_requests:
  assumes "(network_step env cfg)\<^sup>*\<^sup>* n n'" and "initial_network n" and "i < length (requests n')"
  shows "(\<forall>peer req msg. request_phase (requests n' ! i) = Received peer req msg \<longrightarrow> msg_RequestID msg = request_ID (requests n' ! i)) \<and>
    request_phase (requests n' ! i) \<noteq> ReceivedNil \<and>
    count_list (forwarders n') (Closing i) + (if i \<in> closedChannels n' then 1 else 0) \<le> 1 \<and>
    (Closing i \<in> set (forwarders n') \<longrightarrow> i \<notin> closedChannels n') \<and>
    (\<forall>r rid. request_phase (requests n' ! i) = Returned r \<longrightarrow> responseChannels (proc n') rid \<noteq> Some i)"
proof -
  have "channels_live n'" using assms(2) by (intro live.run_keeps[OF assms(1)]) (simp add: initial_network_def channels_live_def)
  then have live: "\<forall>r rid. request_phase (requests n' ! i) = Returned r \<longrightarrow> responseChannels (proc n') rid \<noteq> Some i"
    unfolding channels_live_def phase_of_def by blast
  note n' = net_ok_run[OF assms(1,2)]
  have "Closing i \<in> set (forwarders n') \<Longrightarrow> 0 < count_list (forwarders n') (Closing i)"
    by (metis count_list_0_iff gr0I)
  then have "Closing i \<in> set (forwarders n') \<longrightarrow> i \<notin> closedChannels n'" using net_okD(5)[OF n', of i] by (auto simp: taken_def)
  then show ?thesis
    using net_okD(3)[OF n' assms(3)] net_okD(4)[OF n' assms(3)] net_okD(5)[OF n', of i] live unfolding phase_of_def taken_def by blast
qed

section \<open>Late responses\<close>

text \<open>A response that meets a request which has given up is never delivered and its goroutine never
  ends: the send on the unbuffered channel has no receiver any more, and nobody closes the channel.\<close>

lemma late_response_blocks_forever:
  assumes "(network_step env cfg)\<^sup>*\<^sup>* n n'" and "j < length (forwarders n)" and "forwarders n ! j = Sending i msg"
    and "i < length (requests n)" and "request_phase (requests n ! i) = Returned r"
    and "i \<notin> closedChannels n" and "Closing i \<notin> set (forwarders n)"
  shows "j < length (forwarders n') \<and> forwarders n' ! j = Sending i msg"
proof -
  have "j < length (forwarders n') \<and> forwarders n' ! j = Sending i msg \<and> i < length (requests n') \<and>
      (\<exists>r. request_phase (requests n' ! i) = Returned r) \<and> i \<notin> closedChannels n' \<and> Closing i \<notin> set (forwarders n')"
    using assms(1)
  proof (induction rule: rtranclp_induct)
    case base
    then show ?case using assms by blast
  next
    case (step y z)
    from step(2,3) show ?case
      by (induction rule: network_step.induct)
        (auto simp: nth_append goto_phase_def forwarder_to_def nth_list_update dest!: set_update_subset_insert[THEN subsetD],
          metis nth_mem)
  qed
  then show ?thesis by blast
qed

section \<open>Who is listened to\<close>

text \<open>The message verifies as signed by its sender bot, names an account that is not the own one, and that
  account lets the bot speak for it, by the cache or the chain.\<close>

definition authorised ::
  "('c, 'pk) processor_env \<Rightarrow> processor_cfg \<Rightarrow> (nat \<Rightarrow> time) \<Rightarrow> bytes \<Rightarrow> encodedSignedMessageWithSender \<Rightarrow> ('c, 'pk) messageProcessor \<Rightarrow> bool" where
  "authorised env cfg clk spare m p \<longleftrightarrow> SenderBotAddress m \<noteq> botAddress cfg \<and>
     (\<exists>msg k acc. fst (DecodeAndVerifyMessage (eenv env) (evictKey env) (clk 0) spare (encoder p) (EncMessage m) (SenderBotAddress m)) = Ok (msg, k, acc) \<and>
        acc \<noteq> ttmAccountAddress cfg \<and>
        fst (IsBotAllowed (chain (benv (lenv (menv env)))) (clk 1) (clk 2) acc (SenderBotAddress m) (booking (listener (mints p)))) = Ok True)"

lemma IsBotAllowed_txs:
  assumes "IsBotAllowed env now now' acc b s = (r, s')"
  shows "filter isTransact (ops s') = filter isTransact (ops s)"
proof -
  have "filter isTransact (ops s1) = filter isTransact (ops s)" if "TTMAccount env acc s = (r1, s1)" for r1 s1
    using that by (auto simp: TTMAccount_def split: option.splits res.splits)
  then show ?thesis using assms
    by (auto simp: IsBotAllowed_def askIsBotAllowed_def aBind_def chainCall_def isTransact_def split: option.splits if_splits prod.splits res.splits)
qed

lemma onAccounts_IsBotAllowed:
  assumes "onAccounts (IsBotAllowed env now now' acc b) p = (r, p')"
  shows "r = fst (IsBotAllowed env now now' acc b (booking (listener (mints p)))) \<and> outbox p' = outbox p \<and> resolverDB p' = resolverDB p \<and>
    responseChannels p' = responseChannels p \<and> tables (listener (mints p')) = tables (listener (mints p)) \<and>
    plugin (listener (mints p')) = plugin (listener (mints p)) \<and> txs (mints p') = txs (mints p)"
  using assms IsBotAllowed_txs[of env now now' acc b "booking (listener (mints p))"]
  by (auto simp: onAccounts_def onListener_def onBooking_def txs_def split: prod.splits)


text \<open>Signatures recover to bot 7; the message claims to be sent by bot 8.\<close>

definition sample_penv :: "(nat, address) processor_env" where
  "sample_penv = \<lparr>menv = sample_menv,
     eenv = \<lparr>crypto_Sign = (\<lambda>_. Ok [7]), Keccak256 = (\<lambda>d. d), SigToPub = (\<lambda>_ _. Ok 7), PubkeyToAddress = (\<lambda>a. a), CompressPubkey = (\<lambda>_. [7]),
       DecompressPubkey = (\<lambda>_. Ok 7), ecies_Encrypt = (\<lambda>_ k. Ok (0 # k)), ecies_Decrypt = (\<lambda>c. Ok (tl c)), rand_Read = (\<lambda>n. Ok (replicate n 0)),
       gcm_Seal = (\<lambda>_ _ d. d), gcm_Open = (\<lambda>_ _ d. Ok d), zstd_EncodeAll = (\<lambda>d. d), zstd_DecodeAll = (\<lambda>d. Ok (d, [])),
       json_Marshal_public = (\<lambda>_. Ok [1]), json_Unmarshal_public = (\<lambda>_. Ok sample_pm), json_Marshal_private = (\<lambda>_. Ok [1]),
       json_Unmarshal_private = (\<lambda>_. Ok \<lparr>prv_Type = ''ttm.services.ping.v2.PingService.Request'', prv_Timestamps = None\<rparr>),
       proto_Marshal = (\<lambda>_. Ok []), proto_Unmarshal = (\<lambda>_ b. Ok (OtherContent b)), enc_Hex = (\<lambda>_. ''x''), enc_HexToAddress = (\<lambda>_. 1)\<rparr>,
     evictKey = (\<lambda>m. m), messenger_Send = (\<lambda>_ _ _ _. Ok ()), Validate = (\<lambda>_. Ok ()), client_Call = (\<lambda>_ _ _ _ c. (c, ''t'')),
     InvalidProtoErrResponseAndType = (\<lambda>_ _. (OtherContent [], ''t'')), pickBot = hd\<rparr>"

definition sample_cfg :: processor_cfg where
  "sample_cfg = \<lparr>botAddress = 3, ttmAccountAddress = 2, responseTimeout = 10 * second, registry = \<lparr>services = Map.empty\<rparr>,
     responseHandler = NewResponseHandler ''me'' False\<rparr>"

definition sample_proc :: "(nat, address) messageProcessor" where
  "sample_proc = \<lparr>mints = sample_mstate, encoder = sample_decoder, resolverDB = \<lparr>committed = [], faults = (\<lambda>_. None), db_calls = 0\<rparr>,
     outbox = [], responseChannels = Map.empty\<rparr>"

definition forged :: encodedSignedMessageWithSender where
  "forged = \<lparr>EncMessage = \<lparr>ChunkedEncodedMessage = [[0, 0, 0, 1]], EncSignature = [7]\<rparr>, EncSenderTTMAccountAddress = 1, SenderBotAddress = 8\<rparr>"


definition sample_net :: "(nat, address) network" where
  "sample_net = \<lparr>proc = sample_proc, requests = [], forwarders = [], closedChannels = {}\<rparr>"

definition sample_registered :: "(nat, address) network" where
  "sample_registered = sample_net\<lparr>proc := setResponseChannel ''1'' 0 sample_proc,
     requests := [\<lparr>request_ID = ''1'', request_phase = Preparing sample_ask 5\<rparr>]\<rparr>"

lemma sample_register: "network_step sample_penv sample_cfg sample_net sample_registered"
  using network_step.register[of sample_penv sample_cfg sample_net sample_ask 5]
  by (simp add: sample_registered_def sample_net_def sample_ask_def sample_msg_of_def)

lemma responses_find_their_requests_witness:
  "request_phase (requests sample_registered ! 0) \<noteq> ReceivedNil \<and> count_list (forwarders sample_registered) (Closing 0) \<le> 1"
proof -
  have "initial_network sample_net" by (simp add: initial_network_def sample_net_def sample_proc_def)
  moreover have "0 < length (requests sample_registered)" by (simp add: sample_registered_def)
  ultimately show ?thesis
    using responses_find_their_requests[OF r_into_rtranclp[where r = "network_step sample_penv sample_cfg", OF sample_register], of 0] by simp
qed

text \<open>The response arrived while the request timed out; later another request is registered.\<close>

definition sample_late :: "(nat, address) network" where
  "sample_late = \<lparr>proc = sample_proc, requests = [\<lparr>request_ID = ''0'', request_phase = Returned (Fail ErrExceededResponseTimeout)\<rparr>],
     forwarders = [Sending 0 sample_ask], closedChannels = {}\<rparr>"

lemma late_response_blocks_forever_witness:
  "forwarders (sample_late\<lparr>proc := setResponseChannel ''1'' 1 sample_proc,
     requests := requests sample_late @ [\<lparr>request_ID = ''1'', request_phase = Preparing sample_ask 5\<rparr>]\<rparr>) ! 0 = Sending 0 sample_ask"
proof -
  have "network_step sample_penv sample_cfg sample_late (sample_late\<lparr>proc := setResponseChannel ''1'' 1 sample_proc,
     requests := requests sample_late @ [\<lparr>request_ID = ''1'', request_phase = Preparing sample_ask 5\<rparr>]\<rparr>)"
    using network_step.register[of sample_penv sample_cfg sample_late sample_ask 5]
    by (simp add: sample_late_def sample_ask_def sample_msg_of_def)
  from late_response_blocks_forever[OF r_into_rtranclp[where r = "network_step sample_penv sample_cfg", OF this], of 0 0 sample_ask
      "Fail ErrExceededResponseTimeout"]
  show ?thesis by (simp add: sample_late_def)
qed

end
