(* ===== verification/Cancellation.thy ===== *)
theory Cancellation
  imports Mint_Trade
begin

text \<open>
  The cancellation services, \<^verbatim>\<open>internal/cancellation/v1\<close>, \<^verbatim>\<open>v2\<close> and \<^verbatim>\<open>v3\<close>: gRPC methods by which the
  own partner plugin proposes, counters, accepts, rejects, withdraws and finalizes the cancellation
  of a booking token through the TTM account. They share the services of \<open>Mint\<close>: the state is the
  same, and the contract environment and address parsing are taken from its environment. Protobuf
  validation (versions 2 and 3) is a parameter.
\<close>

section \<open>Requests and responses\<close>

text \<open>The six requests with the price type of a version, and the six responses told apart by their kind. A
  response of versions 2 and 3 is a one-of.\<close>

datatype 'p cancelRequest =
    InitiateRequest uint64 "'p option" int32
  | CounterRequest uint64 "'p option" int32
  | AcceptRequest uint64 "'p option"
  | RejectRequest uint64 int32
  | WithdrawRequest uint64 int32
  | FinalizeRequest uint64 "'p option"

datatype cancelKind = KInitiate | KCounter | KAccept | KReject | KWithdraw | KFinalize

record cancelResponseV1 =
  c1_Kind :: cancelKind
  c1_Header :: responseHeaderV1
  c1_TransactionId :: "string option"

datatype cancelResponseV2 = CancelSuccess cancelKind string | CancelError cancelKind "(errorCode \<times> msgtext) list"

record cancellationService =
  cancelKey :: private_key
  cancelAccount :: address

definition cancellationReasonVersion :: uint16 where "cancellationReasonVersion = 1"
definition withdrawReasonVersion :: uint16 where "withdrawReasonVersion = 1"
definition rejectReasonVersion :: uint16 where "rejectReasonVersion = 1"
definition counterReasonVersion :: uint16 where "counterReasonVersion = 1"

section \<open>The steps of a method\<close>

definition withValid :: "('p cancelRequest \<Rightarrow> unit res) \<Rightarrow> 'p cancelRequest \<Rightarrow> (msgtext \<Rightarrow> 'r) \<Rightarrow> ('c mint_state, 'r) act \<Rightarrow> ('c mint_state, 'r) act" where
  "withValid validate request fail k =
     aTry (aLift (validate request)) (\<lambda>_. k) (\<lambda>e. aRet (fail (PStr ''request validation failed: '' # Error e)))"

definition withRefund ::
  "('c erc20Service \<Rightarrow> 'p option \<Rightarrow> (int \<times> address \<times> int) res \<times> 'c erc20Service) \<Rightarrow> 'p option \<Rightarrow> string \<Rightarrow> (msgtext \<Rightarrow> 'r) \<Rightarrow>
     (int \<Rightarrow> ('c mint_state, 'r) act) \<Rightarrow> ('c mint_state, 'r) act" where
  "withRefund getPriceAndToken refund action fail k =
     aTry (onErc20 (\<lambda>s. getPriceAndToken s refund)) (\<lambda>(refundAmount, _, _). k refundAmount) (\<lambda>e. aRet (fail (PStr action # Error e)))"

definition withReason :: "int32 \<Rightarrow> (msgtext \<Rightarrow> 'r) \<Rightarrow> (uint16 \<Rightarrow> ('c mint_state, 'r) act) \<Rightarrow> ('c mint_state, 'r) act" where
  "withReason reason fail k =
     aTry (aLift (ProtoEnumNumberToUInt16 reason)) k (\<lambda>e. aRet (fail (PStr ''error converting reason to uint16: '' # Error e)))"

definition sendCancellation ::
  "'c mint_env \<Rightarrow> (accounts_service, receipt) act \<Rightarrow> string \<Rightarrow> (string \<Rightarrow> 'r) \<Rightarrow> (msgtext \<Rightarrow> 'r) \<Rightarrow> ('c mint_state, 'r) act" where
  "sendCancellation env tx action ok fail =
     aTry (onListener (onBooking tx)) (\<lambda>receipt. aRet (ok (Hash_Hex env (receipt_TxHash receipt)))) (\<lambda>e. aRet (fail (PStr action # Error e)))"

section \<open>Version 1 (cancellation_v1.go)\<close>

text \<open>The six functions that build an error response; the kind says of which response message.\<close>

definition cancellationErrorResponseV1 :: "cancelKind \<Rightarrow> msgtext \<Rightarrow> cancelResponseV1" where
  "cancellationErrorResponseV1 kind errorMessage =
     \<lparr>c1_Kind = kind, c1_Header = \<lparr>Status = STATUS_TYPE_FAILURE, Alerts = [(ALERT_TYPE_ERROR, errorMessage)]\<rparr>, c1_TransactionId = None\<rparr>"

definition cancellationSuccessV1 :: "cancelKind \<Rightarrow> string \<Rightarrow> cancelResponseV1" where
  "cancellationSuccessV1 kind tx = \<lparr>c1_Kind = kind, c1_Header = \<lparr>Status = STATUS_TYPE_SUCCESS, Alerts = []\<rparr>, c1_TransactionId = Some tx\<rparr>"

definition V1_InitiateCancellation ::
  "'c mint_env \<Rightarrow> cancellationService \<Rightarrow> uint64 \<Rightarrow> priceV3 option \<Rightarrow> int32 \<Rightarrow> ('c mint_state, cancelResponseV1) act" where
  "V1_InitiateCancellation env svc tokenId refund reason =
     withRefund (GetPriceAndTokenV3 (HexToAddress env) (tokens env)) refund ''error getting price and token: '' (cancellationErrorResponseV1 KInitiate) (\<lambda>refundAmount.
     withReason reason (cancellationErrorResponseV1 KInitiate) (\<lambda>reasonValue.
     sendCancellation env (InitiateCancellationProposal (chain (benv (lenv env))) (cancelKey svc) (cancelAccount svc) (uint tokenId) refundAmount reasonValue cancellationReasonVersion)
         ''error initiating cancellation proposal: '' (cancellationSuccessV1 KInitiate) (cancellationErrorResponseV1 KInitiate)))"

definition V1_CounterCancellation ::
  "'c mint_env \<Rightarrow> cancellationService \<Rightarrow> uint64 \<Rightarrow> priceV3 option \<Rightarrow> int32 \<Rightarrow> ('c mint_state, cancelResponseV1) act" where
  "V1_CounterCancellation env svc tokenId refund reason =
     withRefund (GetPriceAndTokenV3 (HexToAddress env) (tokens env)) refund ''error getting price and token: '' (cancellationErrorResponseV1 KCounter) (\<lambda>refundAmount.
     withReason reason (cancellationErrorResponseV1 KCounter) (\<lambda>reasonValue.
     sendCancellation env (CounterCancellation (chain (benv (lenv env))) (cancelKey svc) (cancelAccount svc) (uint tokenId) refundAmount reasonValue counterReasonVersion)
         ''error countering cancellation proposal: '' (cancellationSuccessV1 KCounter) (cancellationErrorResponseV1 KCounter)))"

definition V1_AcceptCancellation ::
  "'c mint_env \<Rightarrow> cancellationService \<Rightarrow> uint64 \<Rightarrow> priceV3 option \<Rightarrow> ('c mint_state, cancelResponseV1) act" where
  "V1_AcceptCancellation env svc tokenId refund =
     withRefund (GetPriceAndTokenV3 (HexToAddress env) (tokens env)) refund ''error getting price and payment token: '' (cancellationErrorResponseV1 KAccept) (\<lambda>refundAmount.
     sendCancellation env (AcceptCancellationProposal (chain (benv (lenv env))) (cancelKey svc) (cancelAccount svc) (uint tokenId) refundAmount)
         ''error accepting cancellation proposal: '' (cancellationSuccessV1 KAccept) (cancellationErrorResponseV1 KAccept))"

definition V1_RejectCancellation ::
  "'c mint_env \<Rightarrow> cancellationService \<Rightarrow> uint64 \<Rightarrow> int32 \<Rightarrow> ('c mint_state, cancelResponseV1) act" where
  "V1_RejectCancellation env svc tokenId reason =
     withReason reason (cancellationErrorResponseV1 KReject) (\<lambda>reasonValue.
     sendCancellation env (RejectCancellationProposal (chain (benv (lenv env))) (cancelKey svc) (cancelAccount svc) (uint tokenId) reasonValue rejectReasonVersion)
         ''error rejecting cancellation proposal: '' (cancellationSuccessV1 KReject) (cancellationErrorResponseV1 KReject))"

definition V1_WithdrawCancellation ::
  "'c mint_env \<Rightarrow> cancellationService \<Rightarrow> uint64 \<Rightarrow> int32 \<Rightarrow> ('c mint_state, cancelResponseV1) act" where
  "V1_WithdrawCancellation env svc tokenId reason =
     withReason reason (cancellationErrorResponseV1 KWithdraw) (\<lambda>reasonValue.
     sendCancellation env (WithdrawCancellation (chain (benv (lenv env))) (cancelKey svc) (cancelAccount svc) (uint tokenId) reasonValue withdrawReasonVersion)
         ''error withdrawing cancellation proposal: '' (cancellationSuccessV1 KWithdraw) (cancellationErrorResponseV1 KWithdraw))"

definition V1_FinalizeCancellation ::
  "'c mint_env \<Rightarrow> cancellationService \<Rightarrow> uint64 \<Rightarrow> priceV3 option \<Rightarrow> ('c mint_state, cancelResponseV1) act" where
  "V1_FinalizeCancellation env svc tokenId refund =
     withRefund (GetPriceAndTokenV3 (HexToAddress env) (tokens env)) refund ''error getting price and token: '' (cancellationErrorResponseV1 KFinalize) (\<lambda>refundAmount.
     sendCancellation env (FinalizeCancellation (chain (benv (lenv env))) (cancelKey svc) (cancelAccount svc) (uint tokenId) refundAmount)
         ''error finalizing cancellation proposal: '' (cancellationSuccessV1 KFinalize) (cancellationErrorResponseV1 KFinalize))"

fun serveV1 :: "'c mint_env \<Rightarrow> cancellationService \<Rightarrow> priceV3 cancelRequest \<Rightarrow> ('c mint_state, cancelResponseV1) act" where
  "serveV1 env svc (InitiateRequest t p r) = V1_InitiateCancellation env svc t p r"
| "serveV1 env svc (CounterRequest t p r) = V1_CounterCancellation env svc t p r"
| "serveV1 env svc (AcceptRequest t p) = V1_AcceptCancellation env svc t p"
| "serveV1 env svc (RejectRequest t r) = V1_RejectCancellation env svc t r"
| "serveV1 env svc (WithdrawRequest t r) = V1_WithdrawCancellation env svc t r"
| "serveV1 env svc (FinalizeRequest t p) = V1_FinalizeCancellation env svc t p"

section \<open>Version 2 (cancellation_v2.go)\<close>

definition cancellationErrResponseV2 :: "cancelKind \<Rightarrow> errorCode \<Rightarrow> msgtext \<Rightarrow> cancelResponseV2" where
  "cancellationErrResponseV2 kind code errorMessage = CancelError kind [(code, errorMessage)]"

definition V2_InitiateCancellation ::
  "'c mint_env \<Rightarrow> cancellationService \<Rightarrow> (priceV4 cancelRequest \<Rightarrow> unit res) \<Rightarrow> uint64 \<Rightarrow> priceV4 option \<Rightarrow> int32 \<Rightarrow> ('c mint_state, cancelResponseV2) act" where
  "V2_InitiateCancellation env svc validate tokenId refund reason =
     withValid validate (InitiateRequest tokenId refund reason) (cancellationErrResponseV2 KInitiate ERROR_CODE_INVALID_PROTO) (
     withRefund (GetPriceAndTokenV4 (HexToAddress env) (tokens env)) refund ''error getting price and token: '' (cancellationErrResponseV2 KInitiate ERROR_CODE_INTERNAL) (\<lambda>refundAmount.
     withReason reason (cancellationErrResponseV2 KInitiate ERROR_CODE_INTERNAL) (\<lambda>reasonValue.
     sendCancellation env (InitiateCancellationProposal (chain (benv (lenv env))) (cancelKey svc) (cancelAccount svc) (uint tokenId) refundAmount reasonValue cancellationReasonVersion)
         ''error initiating cancellation proposal: '' (CancelSuccess KInitiate) (cancellationErrResponseV2 KInitiate ERROR_CODE_BLOCKCHAIN_ERROR))))"

definition V2_CounterCancellation ::
  "'c mint_env \<Rightarrow> cancellationService \<Rightarrow> (priceV4 cancelRequest \<Rightarrow> unit res) \<Rightarrow> uint64 \<Rightarrow> priceV4 option \<Rightarrow> int32 \<Rightarrow> ('c mint_state, cancelResponseV2) act" where
  "V2_CounterCancellation env svc validate tokenId refund reason =
     withValid validate (CounterRequest tokenId refund reason) (cancellationErrResponseV2 KCounter ERROR_CODE_INVALID_PROTO) (
     withRefund (GetPriceAndTokenV4 (HexToAddress env) (tokens env)) refund ''error getting price and token: '' (cancellationErrResponseV2 KCounter ERROR_CODE_INTERNAL) (\<lambda>refundAmount.
     withReason reason (cancellationErrResponseV2 KCounter ERROR_CODE_INTERNAL) (\<lambda>reasonValue.
     sendCancellation env (CounterCancellation (chain (benv (lenv env))) (cancelKey svc) (cancelAccount svc) (uint tokenId) refundAmount reasonValue counterReasonVersion)
         ''error countering cancellation proposal: '' (CancelSuccess KCounter) (cancellationErrResponseV2 KCounter ERROR_CODE_BLOCKCHAIN_ERROR))))"

definition V2_AcceptCancellation ::
  "'c mint_env \<Rightarrow> cancellationService \<Rightarrow> (priceV4 cancelRequest \<Rightarrow> unit res) \<Rightarrow> uint64 \<Rightarrow> priceV4 option \<Rightarrow> ('c mint_state, cancelResponseV2) act" where
  "V2_AcceptCancellation env svc validate tokenId refund =
     withValid validate (AcceptRequest tokenId refund) (cancellationErrResponseV2 KAccept ERROR_CODE_INVALID_PROTO) (
     withRefund (GetPriceAndTokenV4 (HexToAddress env) (tokens env)) refund ''error getting price and token: '' (cancellationErrResponseV2 KAccept ERROR_CODE_INTERNAL) (\<lambda>refundAmount.
     sendCancellation env (AcceptCancellationProposal (chain (benv (lenv env))) (cancelKey svc) (cancelAccount svc) (uint tokenId) refundAmount)
         ''error accepting cancellation proposal: '' (CancelSuccess KAccept) (cancellationErrResponseV2 KAccept ERROR_CODE_BLOCKCHAIN_ERROR)))"

definition V2_RejectCancellation ::
  "'c mint_env \<Rightarrow> cancellationService \<Rightarrow> (priceV4 cancelRequest \<Rightarrow> unit res) \<Rightarrow> uint64 \<Rightarrow> int32 \<Rightarrow> ('c mint_state, cancelResponseV2) act" where
  "V2_RejectCancellation env svc validate tokenId reason =
     withValid validate (RejectRequest tokenId reason) (cancellationErrResponseV2 KReject ERROR_CODE_INVALID_PROTO) (
     withReason reason (cancellationErrResponseV2 KReject ERROR_CODE_INTERNAL) (\<lambda>reasonValue.
     sendCancellation env (RejectCancellationProposal (chain (benv (lenv env))) (cancelKey svc) (cancelAccount svc) (uint tokenId) reasonValue rejectReasonVersion)
         ''error rejecting cancellation proposal: '' (CancelSuccess KReject) (cancellationErrResponseV2 KReject ERROR_CODE_BLOCKCHAIN_ERROR)))"

definition V2_WithdrawCancellation ::
  "'c mint_env \<Rightarrow> cancellationService \<Rightarrow> (priceV4 cancelRequest \<Rightarrow> unit res) \<Rightarrow> uint64 \<Rightarrow> int32 \<Rightarrow> ('c mint_state, cancelResponseV2) act" where
  "V2_WithdrawCancellation env svc validate tokenId reason =
     withValid validate (WithdrawRequest tokenId reason) (cancellationErrResponseV2 KWithdraw ERROR_CODE_INVALID_PROTO) (
     withReason reason (cancellationErrResponseV2 KWithdraw ERROR_CODE_INTERNAL) (\<lambda>reasonValue.
     sendCancellation env (WithdrawCancellation (chain (benv (lenv env))) (cancelKey svc) (cancelAccount svc) (uint tokenId) reasonValue withdrawReasonVersion)
         ''error withdrawing cancellation proposal: '' (CancelSuccess KWithdraw) (cancellationErrResponseV2 KWithdraw ERROR_CODE_BLOCKCHAIN_ERROR)))"

definition V2_FinalizeCancellation ::
  "'c mint_env \<Rightarrow> cancellationService \<Rightarrow> (priceV4 cancelRequest \<Rightarrow> unit res) \<Rightarrow> uint64 \<Rightarrow> priceV4 option \<Rightarrow> ('c mint_state, cancelResponseV2) act" where
  "V2_FinalizeCancellation env svc validate tokenId refund =
     withValid validate (FinalizeRequest tokenId refund) (cancellationErrResponseV2 KFinalize ERROR_CODE_INVALID_PROTO) (
     withRefund (GetPriceAndTokenV4 (HexToAddress env) (tokens env)) refund ''error getting price and token: '' (cancellationErrResponseV2 KFinalize ERROR_CODE_INTERNAL) (\<lambda>refundAmount.
     sendCancellation env (FinalizeCancellation (chain (benv (lenv env))) (cancelKey svc) (cancelAccount svc) (uint tokenId) refundAmount)
         ''error finalizing cancellation proposal: '' (CancelSuccess KFinalize) (cancellationErrResponseV2 KFinalize ERROR_CODE_BLOCKCHAIN_ERROR)))"

fun serveV2 :: "'c mint_env \<Rightarrow> cancellationService \<Rightarrow> (priceV4 cancelRequest \<Rightarrow> unit res) \<Rightarrow> priceV4 cancelRequest \<Rightarrow> ('c mint_state, cancelResponseV2) act" where
  "serveV2 env svc validate (InitiateRequest t p r) = V2_InitiateCancellation env svc validate t p r"
| "serveV2 env svc validate (CounterRequest t p r) = V2_CounterCancellation env svc validate t p r"
| "serveV2 env svc validate (AcceptRequest t p) = V2_AcceptCancellation env svc validate t p"
| "serveV2 env svc validate (RejectRequest t r) = V2_RejectCancellation env svc validate t r"
| "serveV2 env svc validate (WithdrawRequest t r) = V2_WithdrawCancellation env svc validate t r"
| "serveV2 env svc validate (FinalizeRequest t p) = V2_FinalizeCancellation env svc validate t p"

section \<open>Version 3 (cancellation_v3.go)\<close>

definition cancellationErrResponseV3 :: "cancelKind \<Rightarrow> errorCode \<Rightarrow> msgtext \<Rightarrow> cancelResponseV2" where
  "cancellationErrResponseV3 kind code errorMessage = CancelError kind [(code, errorMessage)]"

definition V3_InitiateCancellation ::
  "'c mint_env \<Rightarrow> cancellationService \<Rightarrow> (priceV5 cancelRequest \<Rightarrow> unit res) \<Rightarrow> uint64 \<Rightarrow> priceV5 option \<Rightarrow> int32 \<Rightarrow> ('c mint_state, cancelResponseV2) act" where
  "V3_InitiateCancellation env svc validate tokenId refund reason =
     withValid validate (InitiateRequest tokenId refund reason) (cancellationErrResponseV3 KInitiate ERROR_CODE_INVALID_PROTO) (
     withRefund (GetPriceAndTokenV5 (HexToAddress env) (tokens env)) refund ''error getting price and token: '' (cancellationErrResponseV3 KInitiate ERROR_CODE_INTERNAL) (\<lambda>refundAmount.
     withReason reason (cancellationErrResponseV3 KInitiate ERROR_CODE_INTERNAL) (\<lambda>reasonValue.
     sendCancellation env (InitiateCancellationProposal (chain (benv (lenv env))) (cancelKey svc) (cancelAccount svc) (uint tokenId) refundAmount reasonValue cancellationReasonVersion)
         ''error initiating cancellation proposal: '' (CancelSuccess KInitiate) (cancellationErrResponseV3 KInitiate ERROR_CODE_BLOCKCHAIN_ERROR))))"

definition V3_CounterCancellation ::
  "'c mint_env \<Rightarrow> cancellationService \<Rightarrow> (priceV5 cancelRequest \<Rightarrow> unit res) \<Rightarrow> uint64 \<Rightarrow> priceV5 option \<Rightarrow> int32 \<Rightarrow> ('c mint_state, cancelResponseV2) act" where
  "V3_CounterCancellation env svc validate tokenId refund reason =
     withValid validate (CounterRequest tokenId refund reason) (cancellationErrResponseV3 KCounter ERROR_CODE_INVALID_PROTO) (
     withRefund (GetPriceAndTokenV5 (HexToAddress env) (tokens env)) refund ''error getting price and token: '' (cancellationErrResponseV3 KCounter ERROR_CODE_INTERNAL) (\<lambda>refundAmount.
     withReason reason (cancellationErrResponseV3 KCounter ERROR_CODE_INTERNAL) (\<lambda>reasonValue.
     sendCancellation env (CounterCancellation (chain (benv (lenv env))) (cancelKey svc) (cancelAccount svc) (uint tokenId) refundAmount reasonValue counterReasonVersion)
         ''error countering cancellation proposal: '' (CancelSuccess KCounter) (cancellationErrResponseV3 KCounter ERROR_CODE_BLOCKCHAIN_ERROR))))"

definition V3_AcceptCancellation ::
  "'c mint_env \<Rightarrow> cancellationService \<Rightarrow> (priceV5 cancelRequest \<Rightarrow> unit res) \<Rightarrow> uint64 \<Rightarrow> priceV5 option \<Rightarrow> ('c mint_state, cancelResponseV2) act" where
  "V3_AcceptCancellation env svc validate tokenId refund =
     withValid validate (AcceptRequest tokenId refund) (cancellationErrResponseV3 KAccept ERROR_CODE_INVALID_PROTO) (
     withRefund (GetPriceAndTokenV5 (HexToAddress env) (tokens env)) refund ''error getting price and token: '' (cancellationErrResponseV3 KAccept ERROR_CODE_INTERNAL) (\<lambda>refundAmount.
     sendCancellation env (AcceptCancellationProposal (chain (benv (lenv env))) (cancelKey svc) (cancelAccount svc) (uint tokenId) refundAmount)
         ''error accepting cancellation proposal: '' (CancelSuccess KAccept) (cancellationErrResponseV3 KAccept ERROR_CODE_BLOCKCHAIN_ERROR)))"

definition V3_RejectCancellation ::
  "'c mint_env \<Rightarrow> cancellationService \<Rightarrow> (priceV5 cancelRequest \<Rightarrow> unit res) \<Rightarrow> uint64 \<Rightarrow> int32 \<Rightarrow> ('c mint_state, cancelResponseV2) act" where
  "V3_RejectCancellation env svc validate tokenId reason =
     withValid validate (RejectRequest tokenId reason) (cancellationErrResponseV3 KReject ERROR_CODE_INVALID_PROTO) (
     withReason reason (cancellationErrResponseV3 KReject ERROR_CODE_INTERNAL) (\<lambda>reasonValue.
     sendCancellation env (RejectCancellationProposal (chain (benv (lenv env))) (cancelKey svc) (cancelAccount svc) (uint tokenId) reasonValue rejectReasonVersion)
         ''error rejecting cancellation proposal: '' (CancelSuccess KReject) (cancellationErrResponseV3 KReject ERROR_CODE_BLOCKCHAIN_ERROR)))"

definition V3_WithdrawCancellation ::
  "'c mint_env \<Rightarrow> cancellationService \<Rightarrow> (priceV5 cancelRequest \<Rightarrow> unit res) \<Rightarrow> uint64 \<Rightarrow> int32 \<Rightarrow> ('c mint_state, cancelResponseV2) act" where
  "V3_WithdrawCancellation env svc validate tokenId reason =
     withValid validate (WithdrawRequest tokenId reason) (cancellationErrResponseV3 KWithdraw ERROR_CODE_INVALID_PROTO) (
     withReason reason (cancellationErrResponseV3 KWithdraw ERROR_CODE_INTERNAL) (\<lambda>reasonValue.
     sendCancellation env (WithdrawCancellation (chain (benv (lenv env))) (cancelKey svc) (cancelAccount svc) (uint tokenId) reasonValue withdrawReasonVersion)
         ''error withdrawing cancellation proposal: '' (CancelSuccess KWithdraw) (cancellationErrResponseV3 KWithdraw ERROR_CODE_BLOCKCHAIN_ERROR)))"

definition V3_FinalizeCancellation ::
  "'c mint_env \<Rightarrow> cancellationService \<Rightarrow> (priceV5 cancelRequest \<Rightarrow> unit res) \<Rightarrow> uint64 \<Rightarrow> priceV5 option \<Rightarrow> ('c mint_state, cancelResponseV2) act" where
  "V3_FinalizeCancellation env svc validate tokenId refund =
     withValid validate (FinalizeRequest tokenId refund) (cancellationErrResponseV3 KFinalize ERROR_CODE_INVALID_PROTO) (
     withRefund (GetPriceAndTokenV5 (HexToAddress env) (tokens env)) refund ''error getting price and token: '' (cancellationErrResponseV3 KFinalize ERROR_CODE_INTERNAL) (\<lambda>refundAmount.
     sendCancellation env (FinalizeCancellation (chain (benv (lenv env))) (cancelKey svc) (cancelAccount svc) (uint tokenId) refundAmount)
         ''error finalizing cancellation proposal: '' (CancelSuccess KFinalize) (cancellationErrResponseV3 KFinalize ERROR_CODE_BLOCKCHAIN_ERROR)))"

fun serveV3 :: "'c mint_env \<Rightarrow> cancellationService \<Rightarrow> (priceV5 cancelRequest \<Rightarrow> unit res) \<Rightarrow> priceV5 cancelRequest \<Rightarrow> ('c mint_state, cancelResponseV2) act" where
  "serveV3 env svc validate (InitiateRequest t p r) = V3_InitiateCancellation env svc validate t p r"
| "serveV3 env svc validate (CounterRequest t p r) = V3_CounterCancellation env svc validate t p r"
| "serveV3 env svc validate (AcceptRequest t p) = V3_AcceptCancellation env svc validate t p"
| "serveV3 env svc validate (RejectRequest t r) = V3_RejectCancellation env svc validate t r"
| "serveV3 env svc validate (WithdrawRequest t r) = V3_WithdrawCancellation env svc validate t r"
| "serveV3 env svc validate (FinalizeRequest t p) = V3_FinalizeCancellation env svc validate t p"

end
