(* ===== verification/Cancellation_Runs.thy ===== *)
theory Cancellation_Runs
  imports Cancellation
begin

text \<open>
  What the cancellation services do on the chain: every request sends at most the one transaction it
  asks for, whatever the version, and is confirmed only by its receipt; a request that can be carried
  out is. The three versions are instances of one scheme, \<open>cancel_method\<close>, by which the proofs are done once.
\<close>

section \<open>What a request asks for\<close>

text \<open>The specification of the service: the transaction a request stands for, if its price and its reason can be
  converted and it is valid.\<close>

definition reason_code :: "int32 \<Rightarrow> uint16 option" where
  "reason_code r = (if 0 \<le> sint r \<and> sint r < 65536 then Some (word_of_int (sint r)) else None)"

definition amount_of :: "(int \<times> address \<times> int) res \<Rightarrow> int option" where
  "amount_of r = (case r of Ok (a, _, _) \<Rightarrow> Some a | _ \<Rightarrow> None)"

fun call_of :: "('p option \<Rightarrow> int option) \<Rightarrow> 'p cancelRequest \<Rightarrow> txcall option" where
  "call_of amount (InitiateRequest t p r) =
     Option.bind (amount p) (\<lambda>a. map_option (\<lambda>c. TxInitiateCancellation (uint t) a c 1) (reason_code r))"
| "call_of amount (CounterRequest t p r) =
     Option.bind (amount p) (\<lambda>a. map_option (\<lambda>c. TxCounterCancellation (uint t) a c 1) (reason_code r))"
| "call_of amount (AcceptRequest t p) = map_option (TxAcceptCancellation (uint t)) (amount p)"
| "call_of amount (RejectRequest t r) = map_option (\<lambda>c. TxRejectCancellation (uint t) c 1) (reason_code r)"
| "call_of amount (WithdrawRequest t r) = map_option (\<lambda>c. TxWithdrawCancellation (uint t) c 1) (reason_code r)"
| "call_of amount (FinalizeRequest t p) = map_option (TxFinalizeCancellation (uint t)) (amount p)"

fun kind_of :: "'p cancelRequest \<Rightarrow> cancelKind" where
  "kind_of (InitiateRequest _ _ _) = KInitiate"
| "kind_of (CounterRequest _ _ _) = KCounter"
| "kind_of (AcceptRequest _ _) = KAccept"
| "kind_of (RejectRequest _ _) = KReject"
| "kind_of (WithdrawRequest _ _) = KWithdraw"
| "kind_of (FinalizeRequest _ _) = KFinalize"

text \<open>How a run may end: refused or panicked, with the wanted transaction sent at most once, or confirmed with the
  hash of the receipt of that transaction, mined successfully. Nothing is sent if nothing is wanted.\<close>

definition ends :: "'r set \<Rightarrow> 'r res \<Rightarrow> bool" where
  "ends refusals r \<longleftrightarrow> (\<exists>x. r = Ok x \<and> x \<in> refusals) \<or> (\<exists>t. r = Panic t)"

definition served ::
  "'c mint_env \<Rightarrow> (txcall \<Rightarrow> chain_op) \<Rightarrow> 'r set \<Rightarrow> (string \<Rightarrow> 'r) \<Rightarrow> txcall option \<Rightarrow> ('c mint_state, 'r) act \<Rightarrow> 'c mint_state \<Rightarrow> bool" where
  "served env op refusals confirm want m s \<longleftrightarrow> (case m s of (r, s') \<Rightarrow>
     bindings_ok (booking (listener s')) \<and>
     (txs s' = txs s \<and> ends refusals r \<or>
      (\<exists>call. want = Some call \<and> txs s' = txs s @ [op call] \<and>
        (ends refusals r \<or>
         (\<exists>receipt::receipt. r = Ok (confirm (Hash_Hex env (receipt_TxHash receipt))) \<and> receipt_Status receipt = ReceiptStatusSuccessful)))))"

lemma ends_simps [simp]: "ends R (Ok x) \<longleftrightarrow> x \<in> R" "ends R (Panic t)" "\<not> ends R (Fail e)"
  by (auto simp: ends_def)

text \<open>One rule for each step of a method.\<close>

lemma served_sendCancellation:
  assumes e: "evicts_only (evictAccount (chain (benv (lenv env))))" and b: "bindings_ok (booking (listener s))"
    and t: "NewKeyedTransactorWithChainID (chain (benv (lenv env))) (cancelKey svc) (chainID (booking (listener s))) = Ok sender"
    and tx: "tx = cancellationTx (chain (benv (lenv env))) act (cancelKey svc) (cancelAccount svc) call"
    and fail: "\<And>m. fail m \<in> refusals"
  shows "served env (OpTransact sender (cancelAccount svc)) refusals confirm (Some call) (sendCancellation env tx action confirm fail) s"
proof -
  obtain r1 a1 where m: "tx (booking (listener s)) = (r1, a1)" by (cases "tx (booking (listener s))")
  let ?s' = "s\<lparr>listener := (listener s)\<lparr>booking := a1\<rparr>\<rparr>"
  have run: "sendCancellation env tx action confirm fail s = (case r1 of
      Ok receipt \<Rightarrow> Ok (confirm (Hash_Hex env (receipt_TxHash receipt))) | Fail e \<Rightarrow> Ok (fail (PStr action # Error e)) | Panic t \<Rightarrow> Panic t, ?s')"
    using m by (cases r1) (simp_all add: sendCancellation_def aTry_def onListener_def onBooking_def)
  have "sends (chain (benv (lenv env))) sender (cancelAccount svc) call tx (booking (listener s))"
    unfolding tx by (rule cancellationTx_sends[OF e b t])
  then have k: "bindings_ok a1" and "ops a1 = history s \<and> (\<forall>v. r1 \<noteq> Ok v) \<or>
      (\<exists>ys. ops a1 = history s @ [OpTransact sender (cancelAccount svc) call] @ ys \<and> filter isTransact ys = [] \<and>
        (\<forall>v. r1 = Ok v \<longrightarrow> receipt_Status v = ReceiptStatusSuccessful))"
    using m unfolding sends_def by (fastforce simp: isTransact_def)+
  then show ?thesis
  proof (elim disjE exE conjE)
    fix ys assume "ops a1 = history s @ [OpTransact sender (cancelAccount svc) call] @ ys" "filter isTransact ys = []"
      "\<forall>v. r1 = Ok v \<longrightarrow> receipt_Status v = ReceiptStatusSuccessful"
    then have "txs ?s' = txs s @ [OpTransact sender (cancelAccount svc) call]" by (simp add: txs_def isTransact_def)
    then show ?thesis
      unfolding served_def run using k fail \<open>\<forall>v. r1 = Ok v \<longrightarrow> _ v\<close> by (cases r1) auto
  qed (use k fail in \<open>cases r1; auto simp: served_def run txs_def\<close>)
qed

lemma served_withRefund:
  assumes b: "bindings_ok (booking (listener s))" and fail: "\<And>m. fail m \<in> refusals"
    and k: "\<And>a. amount_of (fst (get (erc20s s) p)) = Some a \<Longrightarrow>
      served env op refusals confirm want (k a) (s\<lparr>erc20s := snd (get (erc20s s) p)\<rparr>)"
  shows "served env op refusals confirm want (withRefund get p action fail k) s"
proof -
  obtain r g where g: "get (erc20s s) p = (r, g)" by (cases "get (erc20s s) p")
  show ?thesis
  proof (cases r)
    case (Ok v)
    obtain a tok cur where v: "v = (a, tok, cur)" by (cases v)
    have "withRefund get p action fail k s = k a (s\<lparr>erc20s := g\<rparr>)"
      using g Ok v by (simp add: withRefund_def aTry_def onErc20_def)
    moreover have "served env op refusals confirm want (k a) (s\<lparr>erc20s := g\<rparr>)" using k g Ok v by (simp add: amount_of_def)
    ultimately show ?thesis by (simp add: served_def txs_def)
  qed (use g b fail in \<open>auto simp: served_def withRefund_def aTry_def onErc20_def txs_def\<close>)
qed

lemma ProtoEnumNumberToUInt16_code:
  "(case reason_code r of Some c \<Rightarrow> ProtoEnumNumberToUInt16 r = Ok c | None \<Rightarrow> \<exists>e. ProtoEnumNumberToUInt16 r = Fail e)"
  by (simp add: reason_code_def ProtoEnumNumberToUInt16_def del: of_int_sint)

lemma served_withReason:
  assumes b: "bindings_ok (booking (listener s))" and fail: "\<And>m. fail m \<in> refusals"
    and k: "\<And>c. reason_code reason = Some c \<Longrightarrow> served env op refusals confirm want (k c) s"
  shows "served env op refusals confirm want (withReason reason fail k) s"
proof (cases "reason_code reason")
  case (Some c)
  then show ?thesis using k[OF Some] ProtoEnumNumberToUInt16_code[of reason] by (simp add: served_def withReason_def aTry_def)
next
  case None
  then obtain e where "ProtoEnumNumberToUInt16 reason = Fail e" using ProtoEnumNumberToUInt16_code[of reason] by auto
  then show ?thesis using b fail by (simp add: served_def withReason_def aTry_def)
qed

lemma served_withValid:
  assumes b: "bindings_ok (booking (listener s))" and fail: "\<And>m. fail m \<in> refusals"
    and k: "served env op refusals confirm want k s"
  shows "served env op refusals confirm want (withValid validate request fail k) s"
  using k b fail by (auto simp: served_def withValid_def aTry_def split: res.splits)


text \<open>The same steps when nothing goes wrong.\<close>

lemma cancellationTx_succeeds:
  assumes "TTMAccount env addr s = (Ok addr, s1)" and "NewKeyedTransactorWithChainID env key (chainID s1) = Ok sender"
    and "Transact env (ops s1) sender addr call = Ok tx" and "WaitMined env (ops s1 @ [OpTransact sender addr call]) tx = Ok receipt"
    and "receipt_Status receipt = ReceiptStatusSuccessful"
  shows "cancellationTx env action key addr call s = (Ok receipt, s1\<lparr>ops := ops s1 @ [OpTransact sender addr call, OpWaitMined tx]\<rparr>)"
  using assms by (simp add: cancellationTx_def transactAndWait_def aBind_def)

lemma sendCancellation_Ok:
  assumes "tx (booking (listener s)) = (Ok receipt, a)"
  shows "fst (sendCancellation env tx action confirm fail s) = Ok (confirm (Hash_Hex env (receipt_TxHash receipt)))"
  using assms by (simp add: sendCancellation_def aTry_def onListener_def onBooking_def)

lemma withRefund_Ok:
  assumes "amount_of (fst (get (erc20s s) p)) = Some a"
  shows "withRefund get p action fail k s = k a (s\<lparr>erc20s := snd (get (erc20s s) p)\<rparr>)"
  using assms by (cases "get (erc20s s) p") (auto simp: withRefund_def aTry_def onErc20_def amount_of_def split: res.splits)

lemma withReason_Ok: "reason_code reason = Some c \<Longrightarrow> withReason reason fail k s = k c s"
  using ProtoEnumNumberToUInt16_code[of reason] by (simp add: withReason_def aTry_def)

lemma withValid_Ok: "validate request = Ok () \<Longrightarrow> withValid validate request fail k s = k s"
  by (simp add: withValid_def aTry_def)

lemma sendCancellation_erc20:
  "sendCancellation env tx action ok bad (s\<lparr>erc20s := g\<rparr>) =
     (fst (sendCancellation env tx action ok bad s), (snd (sendCancellation env tx action ok bad s))\<lparr>erc20s := g\<rparr>)"
  by (auto simp: sendCancellation_def aTry_def onListener_def onBooking_def split: prod.splits res.splits)

lemma withReason_erc20:
  assumes "\<And>c s g. k c (s\<lparr>erc20s := g\<rparr>) = (fst (k c s), (snd (k c s))\<lparr>erc20s := g\<rparr>)"
  shows "withReason reason bad k (s\<lparr>erc20s := g\<rparr>) = (fst (withReason reason bad k s), (snd (withReason reason bad k s))\<lparr>erc20s := g\<rparr>)"
  using assms by (auto simp: withReason_def aTry_def split: res.splits)

fun setRefund :: "'p option \<Rightarrow> 'p cancelRequest \<Rightarrow> 'p cancelRequest" where
  "setRefund p (InitiateRequest t _ r) = InitiateRequest t p r"
| "setRefund p (CounterRequest t _ r) = CounterRequest t p r"
| "setRefund p (AcceptRequest t _) = AcceptRequest t p"
| "setRefund p (FinalizeRequest t _) = FinalizeRequest t p"
| "setRefund p q = q"

section \<open>The scheme of the versions\<close>

definition cancel_method ::
  "'c mint_env \<Rightarrow> cancellationService \<Rightarrow> ('p cancelRequest \<Rightarrow> unit res) \<Rightarrow>
   ('c erc20Service \<Rightarrow> 'p option \<Rightarrow> (int \<times> address \<times> int) res \<times> 'c erc20Service) \<Rightarrow> (cancelKind \<Rightarrow> string) \<Rightarrow>
   (cancelKind \<Rightarrow> errorCode \<Rightarrow> msgtext \<Rightarrow> 'r) \<Rightarrow> (cancelKind \<Rightarrow> string \<Rightarrow> 'r) \<Rightarrow> 'p cancelRequest \<Rightarrow> ('c mint_state, 'r) act" where
  "cancel_method env svc validate get priceText fail ok q =
     (let ch = chain (benv (lenv env)); key = cancelKey svc; acc = cancelAccount svc; k = kind_of q;
          refund = (\<lambda>p. withRefund get p (priceText k) (fail k ERROR_CODE_INTERNAL));
          reason = (\<lambda>r. withReason r (fail k ERROR_CODE_INTERNAL));
          send = (\<lambda>tx action. sendCancellation env tx action (ok k) (fail k ERROR_CODE_BLOCKCHAIN_ERROR))
      in withValid validate q (fail k ERROR_CODE_INVALID_PROTO) (case q of
         InitiateRequest t p r \<Rightarrow> refund p (\<lambda>a. reason r (\<lambda>c.
           send (InitiateCancellationProposal ch key acc (uint t) a c 1) ''error initiating cancellation proposal: ''))
       | CounterRequest t p r \<Rightarrow> refund p (\<lambda>a. reason r (\<lambda>c.
           send (CounterCancellation ch key acc (uint t) a c 1) ''error countering cancellation proposal: ''))
       | AcceptRequest t p \<Rightarrow> refund p (\<lambda>a.
           send (AcceptCancellationProposal ch key acc (uint t) a) ''error accepting cancellation proposal: '')
       | RejectRequest t r \<Rightarrow> reason r (\<lambda>c.
           send (RejectCancellationProposal ch key acc (uint t) c 1) ''error rejecting cancellation proposal: '')
       | WithdrawRequest t r \<Rightarrow> reason r (\<lambda>c.
           send (WithdrawCancellation ch key acc (uint t) c 1) ''error withdrawing cancellation proposal: '')
       | FinalizeRequest t p \<Rightarrow> refund p (\<lambda>a.
           send (FinalizeCancellation ch key acc (uint t) a) ''error finalizing cancellation proposal: '')))"

lemmas proposal_defs = InitiateCancellationProposal_def CounterCancellation_def AcceptCancellationProposal_def
  RejectCancellationProposal_def WithdrawCancellation_def FinalizeCancellation_def

definition replies :: "(cancelKind \<Rightarrow> errorCode \<Rightarrow> msgtext \<Rightarrow> 'r) \<Rightarrow> cancelKind \<Rightarrow> 'r set" where
  "replies fail k = {fail k c m | c m. True}"

lemma replies_intro [simp, intro]: "fail k c m \<in> replies fail k"
  by (auto simp: replies_def)

abbreviation wanted :: "('c erc20Service \<Rightarrow> 'p option \<Rightarrow> (int \<times> address \<times> int) res \<times> 'c erc20Service) \<Rightarrow> 'c mint_state \<Rightarrow>
    'p cancelRequest \<Rightarrow> txcall option" where
  "wanted get s \<equiv> call_of (\<lambda>p. amount_of (fst (get (erc20s s) p)))"

text \<open>The chain carries out a transaction of the service: the account can be bound, the key is accepted, the
  transaction is sent and mined successfully.\<close>

definition carries_out :: "'c mint_env \<Rightarrow> cancellationService \<Rightarrow> accounts_service \<Rightarrow> txcall \<Rightarrow> receipt \<Rightarrow> bool" where
  "carries_out env svc a call receipt \<longleftrightarrow> (\<exists>a1 sender tx.
     TTMAccount (chain (benv (lenv env))) (cancelAccount svc) a = (Ok (cancelAccount svc), a1) \<and>
     NewKeyedTransactorWithChainID (chain (benv (lenv env))) (cancelKey svc) (chainID a1) = Ok sender \<and>
     Transact (chain (benv (lenv env))) (ops a1) sender (cancelAccount svc) call = Ok tx \<and>
     WaitMined (chain (benv (lenv env))) (ops a1 @ [OpTransact sender (cancelAccount svc) call]) tx = Ok receipt \<and>
     receipt_Status receipt = ReceiptStatusSuccessful)"

lemma carried_out:
  assumes "carries_out env svc (booking (listener s)) call receipt"
  shows "fst (sendCancellation env (cancellationTx (chain (benv (lenv env))) action (cancelKey svc) (cancelAccount svc) call) txt ok bad s) =
    Ok (ok (Hash_Hex env (receipt_TxHash receipt)))"
proof -
  from assms obtain a where
    "cancellationTx (chain (benv (lenv env))) action (cancelKey svc) (cancelAccount svc) call (booking (listener s)) = (Ok receipt, a)"
    unfolding carries_out_def by (metis cancellationTx_succeeds)
  then show ?thesis by (rule sendCancellation_Ok)
qed

locale cancellation_version =
  fixes env :: "'c mint_env" and svc :: cancellationService and validate :: "'p cancelRequest \<Rightarrow> unit res"
    and get :: "'c erc20Service \<Rightarrow> 'p option \<Rightarrow> (int \<times> address \<times> int) res \<times> 'c erc20Service"
    and priceText :: "cancelKind \<Rightarrow> string" and fail :: "cancelKind \<Rightarrow> errorCode \<Rightarrow> msgtext \<Rightarrow> 'r"
    and ok :: "cancelKind \<Rightarrow> string \<Rightarrow> 'r" and serve :: "'p cancelRequest \<Rightarrow> ('c mint_state, 'r) act"
  assumes serve_eq: "serve q = cancel_method env svc validate get priceText fail ok q"
begin

lemma request_served:
  assumes e: "evicts_only (evictAccount (chain (benv (lenv env))))" and b: "bindings_ok (booking (listener s))"
    and t: "NewKeyedTransactorWithChainID (chain (benv (lenv env))) (cancelKey svc) (chainID (booking (listener s))) = Ok sender"
  shows "served env (OpTransact sender (cancelAccount svc)) (replies fail (kind_of q)) (ok (kind_of q)) (wanted get s q) (serve q) s"
proof -
  have send: "served env (OpTransact sender (cancelAccount svc)) (replies fail k) (ok k) (Some call)
      (sendCancellation env (cancellationTx (chain (benv (lenv env))) act (cancelKey svc) (cancelAccount svc) call) action (ok k)
        (fail k ERROR_CODE_BLOCKCHAIN_ERROR)) s1"
    if "booking (listener s1) = booking (listener s)" for k call act action s1
    using that e b t by (intro served_sendCancellation) auto
  show ?thesis
    unfolding serve_eq cancel_method_def Let_def using b send
    by (cases q) (auto simp: proposal_defs intro!: served_withValid served_withRefund served_withReason)
qed

lemma request_confirmed:
  assumes "validate q = Ok ()" and "wanted get s q = Some call" and "carries_out env svc (booking (listener s)) call receipt"
  shows "fst (serve q s) = Ok (ok (kind_of q) (Hash_Hex env (receipt_TxHash receipt)))"
  unfolding serve_eq cancel_method_def Let_def using assms
  by (cases q) (auto simp: proposal_defs withValid_Ok withRefund_Ok withReason_Ok bind_eq_Some_conv intro!: carried_out)

lemma request_amount_only:
  assumes "amount_of (fst (get (erc20s s) p)) = Some a" and "amount_of (fst (get (erc20s s) p')) = Some a"
    and "validate (setRefund p q) = Ok ()" and "validate (setRefund p' q) = Ok ()"
  shows "fst (serve (setRefund p q) s) = fst (serve (setRefund p' q) s) \<and>
    listener (snd (serve (setRefund p q) s)) = listener (snd (serve (setRefund p' q) s))"
  unfolding serve_eq cancel_method_def Let_def using assms
  by (cases q) (simp_all add: withValid_Ok withRefund_Ok withReason_erc20 sendCancellation_erc20)

end


abbreviation priceTextV1 :: "cancelKind \<Rightarrow> string" where
  "priceTextV1 k \<equiv> (if k = KAccept then ''error getting price and payment token: '' else ''error getting price and token: '')"

lemmas reason_versions = cancellationReasonVersion_def withdrawReasonVersion_def rejectReasonVersion_def counterReasonVersion_def

lemmas methodsV1 = V1_InitiateCancellation_def V1_CounterCancellation_def V1_AcceptCancellation_def V1_RejectCancellation_def
  V1_WithdrawCancellation_def V1_FinalizeCancellation_def
lemmas methodsV2 = V2_InitiateCancellation_def V2_CounterCancellation_def V2_AcceptCancellation_def V2_RejectCancellation_def
  V2_WithdrawCancellation_def V2_FinalizeCancellation_def
lemmas methodsV3 = V3_InitiateCancellation_def V3_CounterCancellation_def V3_AcceptCancellation_def V3_RejectCancellation_def
  V3_WithdrawCancellation_def V3_FinalizeCancellation_def

lemma withValid_trivial: "withValid (\<lambda>_. Ok ()) q f k = k"
  by (simp add: fun_eq_iff withValid_Ok)

interpretation cancelV1: cancellation_version env svc "\<lambda>_. Ok ()" "GetPriceAndTokenV3 (HexToAddress env) (tokens env)" priceTextV1
    "\<lambda>k _. cancellationErrorResponseV1 k" cancellationSuccessV1 "serveV1 env svc"
proof
  show "serveV1 env svc q = cancel_method env svc (\<lambda>_. Ok ()) (GetPriceAndTokenV3 (HexToAddress env) (tokens env)) priceTextV1
      (\<lambda>k _. cancellationErrorResponseV1 k) cancellationSuccessV1 q" for q
    by (cases q) (simp_all add: cancel_method_def Let_def methodsV1 reason_versions withValid_trivial)
qed

interpretation cancelV2: cancellation_version env svc validate "GetPriceAndTokenV4 (HexToAddress env) (tokens env)"
    "\<lambda>_. ''error getting price and token: ''" cancellationErrResponseV2 CancelSuccess "serveV2 env svc validate"
proof
  show "serveV2 env svc validate q = cancel_method env svc validate (GetPriceAndTokenV4 (HexToAddress env) (tokens env))
      (\<lambda>_. ''error getting price and token: '') cancellationErrResponseV2 CancelSuccess q" for q
    by (cases q) (simp_all add: cancel_method_def Let_def methodsV2 reason_versions)
qed

interpretation cancelV3: cancellation_version env svc validate "GetPriceAndTokenV5 (HexToAddress env) (tokens env)"
    "\<lambda>_. ''error getting price and token: ''" cancellationErrResponseV3 CancelSuccess "serveV3 env svc validate"
proof
  show "serveV3 env svc validate q = cancel_method env svc validate (GetPriceAndTokenV5 (HexToAddress env) (tokens env))
      (\<lambda>_. ''error getting price and token: '') cancellationErrResponseV3 CancelSuccess q" for q
    by (cases q) (simp_all add: cancel_method_def Let_def methodsV3 reason_versions)
qed

section \<open>Properties\<close>


definition sample_cancellation :: cancellationService where "sample_cancellation = \<lparr>cancelKey = 8, cancelAccount = 1\<rparr>"


text \<open>Property C21: a cancellation request that can be carried out is: if the request is valid, its refund and
  reason can be converted, and the chain accepts and mines the transaction, every version answers
  with the hash of that transaction.\<close>

lemma cancellation_confirmed:
  assumes "carries_out env svc (booking (listener s)) call receipt" and "validate q4 = Ok ()"
  shows "(wanted (GetPriceAndTokenV3 (HexToAddress env) (tokens env)) s q3 = Some call \<longrightarrow>
      fst (serveV1 env svc q3 s) = Ok (cancellationSuccessV1 (kind_of q3) (Hash_Hex env (receipt_TxHash receipt)))) \<and>
    (wanted (GetPriceAndTokenV4 (HexToAddress env) (tokens env)) s q4 = Some call \<longrightarrow>
      fst (serveV2 env svc validate q4 s) = Ok (CancelSuccess (kind_of q4) (Hash_Hex env (receipt_TxHash receipt)))) \<and>
    (wanted (GetPriceAndTokenV5 (HexToAddress env) (tokens env)) s q4 = Some call \<longrightarrow>
      fst (serveV3 env svc validate q4 s) = Ok (CancelSuccess (kind_of q4) (Hash_Hex env (receipt_TxHash receipt))))"
  using cancelV1.request_confirmed[OF refl _ assms(1)] cancelV2.request_confirmed[of validate q4, OF assms(2) _ assms(1)]
    cancelV3.request_confirmed[of validate q4, OF assms(2) _ assms(1)]
  by blast

lemma sample_carries_out:
  "carries_out sample_menv sample_cancellation (booking (listener sample_mstate)) call
     \<lparr>receipt_Status = 1, receipt_Logs = [\<lparr>log_topics = [], log_data = []\<rparr>], receipt_TxHash = 77\<rparr>"
proof -
  let ?A = "TTMAccount (chain (benv (lenv sample_menv))) (cancelAccount sample_cancellation) (booking (listener sample_mstate))"
  have "fst ?A = Ok (cancelAccount sample_cancellation)" by code_simp
  then have "?A = (Ok (cancelAccount sample_cancellation), snd ?A)" by (metis prod.collapse)
  then show ?thesis
    unfolding carries_out_def
    by (intro exI[of _ "snd ?A"] exI[of _ 5] exI[of _ 77]) (simp add: sample_menv_def sample_benv_def sample_env_def ReceiptStatusSuccessful_def)
qed

lemma cancellation_confirmed_witness:
  "fst (serveV3 sample_menv sample_cancellation (\<lambda>_. Ok ()) (FinalizeRequest 42 (Some sample_price)) sample_mstate) =
     Ok (CancelSuccess KFinalize ''0x1'')"
proof -
  let ?q = "FinalizeRequest 42 (Some sample_price)"
  have "wanted (GetPriceAndTokenV5 (HexToAddress sample_menv) (tokens sample_menv)) sample_mstate ?q = Some (TxFinalizeCancellation 42 1000)"
    by code_simp
  then show ?thesis
    using cancellation_confirmed[OF sample_carries_out, of "\<lambda>_. Ok ()" ?q "RejectRequest 0 0"] by (simp add: sample_menv_def)
qed

text \<open>Version 3 of the service is version 2: for every request, every answer and every effect is
  the same.\<close>

lemma cancellation_v3_as_v2:
  fixes env :: "'c mint_env"
  shows "serveV3 env svc validate q = serveV2 env svc validate q"
proof -
  have "cancellationErrResponseV3 = cancellationErrResponseV2"
    "GetPriceAndTokenV5 = (GetPriceAndTokenV4 :: (string \<Rightarrow> address) \<Rightarrow> 'c erc20_env \<Rightarrow> _)"
    by (simp_all add: fun_eq_iff cancellationErrResponseV3_def cancellationErrResponseV2_def GetPriceAndTokenV5_def GetPriceAndTokenV4_def)
  then show ?thesis unfolding cancelV3.serve_eq cancelV2.serve_eq by (simp only:)
qed

text \<open>The currency of a refund has no effect. Two requests that differ in their refund only are
  answered alike and change the chain and the subscriptions alike, as soon as the price handler finds
  the same number of smallest units for both, whatever the payment tokens and currencies it returns
  with them: the methods drop these.\<close>

lemma refund_currency_ignored:
  assumes "fst (GetPriceAndTokenV5 (HexToAddress env) (tokens env) (erc20s s) p) = Ok (amount, token, currency)"
    and "fst (GetPriceAndTokenV5 (HexToAddress env) (tokens env) (erc20s s) p') = Ok (amount, token', currency')"
    and "validate (setRefund p q) = Ok ()" and "validate (setRefund p' q) = Ok ()"
  shows "fst (serveV3 env svc validate (setRefund p q) s) = fst (serveV3 env svc validate (setRefund p' q) s) \<and>
    listener (snd (serveV3 env svc validate (setRefund p q) s)) = listener (snd (serveV3 env svc validate (setRefund p' q) s))"
  using cancelV3.request_amount_only[of env s p amount p' validate q svc] assms by (simp add: amount_of_def)

text \<open>A refund of 1000 smallest units in the native token and of 0.001 of a currency with six decimals.\<close>

lemma refund_currency_ignored_witness:
  "txs (snd (serveV3 sample_menv sample_cancellation (\<lambda>_. Ok ()) (AcceptRequest 42 (Some sample_price)) sample_mstate)) =
   txs (snd (serveV3 sample_menv sample_cancellation (\<lambda>_. Ok ())
     (AcceptRequest 42 (Some \<lparr>Value = ''1'', PriceDecimals = 3, Currency = Some (IsoCurrencyV4 840)\<rparr>)) sample_mstate))"
proof -
  let ?p = "Some sample_price" and ?p' = "Some \<lparr>Value = ''1'', PriceDecimals = 3, Currency = Some (IsoCurrencyV4 840)\<rparr>"
  let ?get = "GetPriceAndTokenV5 (HexToAddress sample_menv) (tokens sample_menv) (erc20s sample_mstate)"
  have "fst (?get ?p) = Ok (1000, 0, 0)" by code_simp
  moreover have "fst (?get ?p') = Ok (1000, 1, 840)" by code_simp
  ultimately show ?thesis
    using refund_currency_ignored[of sample_menv sample_mstate ?p 1000 0 0 ?p' 1 840 "\<lambda>_. Ok ()" "AcceptRequest 42 None" sample_cancellation]
    by (simp add: txs_def)
qed

end
