(* ===== verification/Scheduler.thy ===== *)
theory Scheduler
  imports Database
begin

text \<open>
  The job scheduler, \<^verbatim>\<open>pkg/scheduler/scheduler.go\<close>, and its table,
  \<^verbatim>\<open>pkg/scheduler/storage/sqlite/jobs.go\<close>. Every job that the table holds at \<open>Start\<close> gets two goroutines: one
  waits for the first execution, the other then ticks. They are the steps of a relation, in which a
  handler call is one step; the clock, which of several ready channels a \<open>select\<close> takes, and whether a
  handler panics are arbitrary. A row whose columns do not scan, which \<open>GetAllJobs\<close> skips, is not
  modelled: the columns have the types of the struct.
\<close>

section \<open>The jobs table (jobs.go, job.go)\<close>

record job_row =
  job_name :: string
  last_executed_at :: int64
  job_period :: int64

type_synonym jobs = "job_row list"

record Job =
  Name :: string
  LastExecutedAt :: time
  Period :: duration

definition ErrJobNotFound :: err where "ErrJobNotFound = Sentinel ''not found''"

text \<open>The product of 64-bit integers wraps.\<close>

definition modelFromJob :: "job_row \<Rightarrow> Job" where
  "modelFromJob r = \<lparr>Name = job_name r, LastExecutedAt = unixTime (sint (last_executed_at r)),
     Period = sint (job_period r * 1000000000)\<rparr>"

definition jobFromModel :: "Job \<Rightarrow> job_row" where
  "jobFromModel job = \<lparr>job_name = Name job, last_executed_at = word_of_int (Unix (LastExecutedAt job)),
     job_period = word_of_int (quot (Period job) second)\<rparr>"

definition GetJobByName :: "string \<Rightarrow> (jobs, Job) dbm" where
  "GetJobByName jobName =
     dbBind (dbQuery (\<lambda>d. Ok (filter (\<lambda>r. job_name r = jobName) d)))
       (wrap ''failed to execute get job by name statement: '') (\<lambda>rows.
       case rows of [] \<Rightarrow> dbFail ErrJobNotFound | r # _ \<Rightarrow> dbRet (modelFromJob r))"

definition upsertRow :: "job_row \<Rightarrow> jobs \<Rightarrow> jobs" where
  "upsertRow r d =
     (if \<exists>q \<in> set d. job_name q = job_name r then map (\<lambda>q. if job_name q = job_name r then r else q) d else d @ [r])"

definition UpsertJob :: "Job \<Rightarrow> (jobs, unit) dbm" where
  "UpsertJob job = dbExecOne ''failed to execute upsert job statement: '' (\<lambda>d. (1, upsertRow (jobFromModel job) d))"

definition GetAllJobs :: "(jobs, Job list) dbm" where
  "GetAllJobs =
     dbBind (dbQuery (\<lambda>d. Ok (map modelFromJob d))) (wrap ''failed to execute get all jobs statement: '') dbRet"

section \<open>Scheduling (scheduler.go)\<close>

definition aboutJob :: "string \<Rightarrow> string \<Rightarrow> string \<Rightarrow> err \<Rightarrow> err" where
  "aboutJob what jobName rest e = Err ([PStr what, PStr jobName, PStr rest] @ Error e) [e]"

text \<open>\<open>time.Time{}\<close>\<close>

definition zeroTime :: time where "zeroTime = unixTime (- 62135596800)"

definition lastExecution :: "string \<Rightarrow> (jobs, time) dbm" where
  "lastExecution jobName =
     dbTry (GetJobByName jobName) (\<lambda>job. dbRet (LastExecutedAt job)) (\<lambda>err.
       if \<not> errors_Is err ''not found'' then dbFail (aboutJob ''failed to get job '' jobName '' from db: '' err)
       else dbRet zeroTime)"

definition saveJob :: "Job \<Rightarrow> (jobs, unit) dbm" where
  "saveJob job = dbBind (UpsertJob job) (aboutJob ''failed to upsert job '' (Name job) '' in db: '') dbRet"

definition Schedule :: "duration \<Rightarrow> string \<Rightarrow> jobs db \<Rightarrow> unit res \<times> jobs db" where
  "Schedule period jobName =
     withSession (wrap ''failed to create db session: '')
       (dbBind (dbBind (lastExecution jobName) (\<lambda>e. e) (\<lambda>lastExecutedAt.
                  saveJob \<lparr>Name = jobName, LastExecutedAt = lastExecutedAt, Period = period\<rparr>)) (\<lambda>e. e) (\<lambda>_.
        dbBind DB_Commit (wrap ''failed to commit db session: '') (\<lambda>_. dbRet ())))"

definition updateJobExecutionTime :: "string \<Rightarrow> time \<Rightarrow> jobs db \<Rightarrow> unit res \<times> jobs db" where
  "updateJobExecutionTime jobName executionTime =
     withSession (wrap ''failed to create db session: '')
       (dbBind (dbBind (GetJobByName jobName) (aboutJob ''failed to get job '' jobName '' from db: '') (\<lambda>job.
                  saveJob (job\<lparr>LastExecutedAt := executionTime\<rparr>))) (\<lambda>e. e) (\<lambda>_.
        dbBind DB_Commit (wrap ''failed to commit db session: '') (\<lambda>_. dbRet ())))"

section \<open>Timers\<close>

datatype firstPhase = FirstWaits time | FirstDone
datatype periodicPhase = AwaitsFirst | Ticks time | Ended
datatype stopper = TimerStopper | Ticker

text \<open>The two goroutines of one job with the variables they share; \<open>executed\<close> records the handler calls and
  the times of their ticks.\<close>

record 'h job_run =
  run_name :: string
  run_period :: duration
  run_handler :: 'h
  first_exec :: firstPhase
  periodic :: periodicPhase

record 'h scheduler =
  jobs_db :: "jobs db"
  registry :: "string \<rightharpoonup> 'h"
  timers :: "string \<rightharpoonup> stopper"
  stopTimers :: "bool option"
  job_runs :: "'h job_run list"
  executed :: "(string \<times> time) list"

definition New :: "jobs db \<Rightarrow> 'h scheduler" where
  "New db = \<lparr>jobs_db = db, registry = Map.empty, timers = Map.empty, stopTimers = None, job_runs = [], executed = []\<rparr>"

definition RegisterJobHandler :: "string \<Rightarrow> 'h \<Rightarrow> 'h scheduler \<Rightarrow> 'h scheduler" where
  "RegisterJobHandler jobName h s = s\<lparr>registry := (registry s)(jobName \<mapsto> h)\<rparr>"

definition getJobHandler :: "string \<Rightarrow> 'h scheduler \<Rightarrow> 'h res" where
  "getJobHandler jobName s =
     (case registry s jobName of
        None \<Rightarrow> Fail (Err [PStr ''job '', PStr jobName, PStr '' not found in registry''] [])
      | Some h \<Rightarrow> Ok h)"

definition setJobTimer :: "string \<Rightarrow> stopper \<Rightarrow> 'h scheduler \<Rightarrow> 'h scheduler" where
  "setJobTimer jobName t s = s\<lparr>timers := (timers s)(jobName \<mapsto> t)\<rparr>"

definition getJobTimer :: "string \<Rightarrow> 'h scheduler \<Rightarrow> stopper option" where
  "getJobTimer jobName s = timers s jobName"

text \<open>The loop of \<open>Start\<close>; the times are those its iterations read from the clock.\<close>

fun startJobs :: "(nat \<Rightarrow> time) \<Rightarrow> Job list \<Rightarrow> 'h scheduler \<Rightarrow> unit res \<times> 'h scheduler" where
  "startJobs clk [] s = (Ok (), s)"
| "startJobs clk (job # rest) s =
     (case getJobHandler (Name job) s of
        Ok h \<Rightarrow>
          let now = clk 0;
              durationUntilFirstExecution = max (time_Sub (LastExecutedAt job + Period job) now) 0
          in startJobs (\<lambda>i. clk (Suc i)) rest ((setJobTimer (Name job) TimerStopper s)\<lparr>job_runs := job_runs s @
               [\<lparr>run_name = Name job, run_period = Period job, run_handler = h,
                 first_exec = FirstWaits (now + durationUntilFirstExecution), periodic = AwaitsFirst\<rparr>]\<rparr>)
      | Fail e \<Rightarrow> (Fail (aboutJob ''failed to get job handler for job '' (Name job) '': '' e), s)
      | Panic t \<Rightarrow> (Panic t, s))"

definition Start :: "(nat \<Rightarrow> time) \<Rightarrow> 'h scheduler \<Rightarrow> unit res \<times> 'h scheduler" where
  "Start clk s =
     (case withSession (wrap ''failed to create db session: '')
             (dbBind GetAllJobs (wrap ''failed to get all jobs from db: '') dbRet) (jobs_db s) of
        (Ok jobs, db) \<Rightarrow> startJobs clk jobs (s\<lparr>jobs_db := db, stopTimers := Some False\<rparr>)
      | (Fail e, db) \<Rightarrow> (Fail e, s\<lparr>jobs_db := db\<rparr>)
      | (Panic t, db) \<Rightarrow> (Panic t, s\<lparr>jobs_db := db\<rparr>))"

text \<open>The closure \<open>handler\<close> of a job; the first component says whether it panicked.\<close>

definition runHandler :: "bool \<Rightarrow> time \<Rightarrow> 'h job_run \<Rightarrow> 'h scheduler \<Rightarrow> bool \<times> 'h scheduler" where
  "runHandler panics tickTime r s =
     (case updateJobExecutionTime (run_name r) tickTime (jobs_db s) of
        (Ok _, db) \<Rightarrow> (panics, s\<lparr>jobs_db := db, executed := executed s @ [(run_name r, tickTime)]\<rparr>)
      | (Fail _, db) \<Rightarrow> (False, s\<lparr>jobs_db := db\<rparr>)
      | (Panic _, db) \<Rightarrow> (True, s\<lparr>jobs_db := db\<rparr>))"

definition stopRequest :: "'h scheduler \<Rightarrow> 'h scheduler" where
  "stopRequest s = s\<lparr>stopTimers := map_option (\<lambda>_. True) (stopTimers s)\<rparr>"

definition ended :: "'h job_run \<Rightarrow> bool" where
  "ended r \<longleftrightarrow> first_exec r = FirstDone \<and> periodic r = Ended"

definition stopReturn :: "'h scheduler \<Rightarrow> 'h scheduler" where
  "stopReturn s = s\<lparr>timers := Map.empty\<rparr>"

text \<open>
  The state with the current time. A timer or ticker delivers a tick no earlier than it is due; a
  ticker with a period that is not positive panics (\<open>time.NewTicker\<close>), which the goroutine recovers from
  by ending, and so does a panic of the handler.
\<close>

inductive sched_step :: "'h scheduler \<times> time \<Rightarrow> 'h scheduler \<times> time \<Rightarrow> bool" where
  time_passes: "now \<le> now' \<Longrightarrow> sched_step (s, now) (s, now')"
| schedules: "Schedule p n (jobs_db s) = (r, db) \<Longrightarrow> sched_step (s, now) (s\<lparr>jobs_db := db\<rparr>, now)"
| registers: "sched_step (s, now) (RegisterJobHandler n h s, now)"
| first_fires: "i < length (job_runs s) \<Longrightarrow> first_exec (job_runs s ! i) = FirstWaits due \<Longrightarrow> due \<le> tick \<Longrightarrow> tick \<le> now \<Longrightarrow>
    runHandler panics tick (job_runs s ! i) s = (p, s') \<Longrightarrow>
    sched_step (s, now) (s'\<lparr>job_runs := (job_runs s)[i := (job_runs s ! i)\<lparr>first_exec := FirstDone\<rparr>]\<rparr>, now)"
| first_cancelled: "i < length (job_runs s) \<Longrightarrow> first_exec (job_runs s ! i) = FirstWaits due \<Longrightarrow> stopTimers s = Some True \<Longrightarrow>
    sched_step (s, now) (s\<lparr>job_runs := (job_runs s)[i := (job_runs s ! i)\<lparr>first_exec := FirstDone\<rparr>]\<rparr>, now)"
| ticker_starts: "i < length (job_runs s) \<Longrightarrow> first_exec (job_runs s ! i) = FirstDone \<Longrightarrow> periodic (job_runs s ! i) = AwaitsFirst \<Longrightarrow>
    0 < run_period (job_runs s ! i) \<Longrightarrow>
    sched_step (s, now) ((setJobTimer (run_name (job_runs s ! i)) Ticker s)\<lparr>job_runs :=
      (job_runs s)[i := (job_runs s ! i)\<lparr>periodic := Ticks (now + run_period (job_runs s ! i))\<rparr>]\<rparr>, now)"
| ticker_panics: "i < length (job_runs s) \<Longrightarrow> first_exec (job_runs s ! i) = FirstDone \<Longrightarrow> periodic (job_runs s ! i) = AwaitsFirst \<Longrightarrow>
    run_period (job_runs s ! i) \<le> 0 \<Longrightarrow>
    sched_step (s, now) (s\<lparr>job_runs := (job_runs s)[i := (job_runs s ! i)\<lparr>periodic := Ended\<rparr>]\<rparr>, now)"
| ticks: "i < length (job_runs s) \<Longrightarrow> periodic (job_runs s ! i) = Ticks due \<Longrightarrow> due \<le> tick \<Longrightarrow> tick \<le> now \<Longrightarrow>
    runHandler panics tick (job_runs s ! i) s = (p, s') \<Longrightarrow>
    sched_step (s, now) (s'\<lparr>job_runs := (job_runs s)[i := (job_runs s ! i)\<lparr>periodic :=
      if p then Ended else Ticks (due + run_period (job_runs s ! i))\<rparr>]\<rparr>, now)"
| ticking_cancelled: "i < length (job_runs s) \<Longrightarrow> periodic (job_runs s ! i) = Ticks due \<Longrightarrow> stopTimers s = Some True \<Longrightarrow>
    sched_step (s, now) (s\<lparr>job_runs := (job_runs s)[i := (job_runs s ! i)\<lparr>periodic := Ended\<rparr>]\<rparr>, now)"
| stop_requested: "sched_step (s, now) (stopRequest s, now)"
| stop_returns: "\<forall>r \<in> set (job_runs s). ended r \<Longrightarrow> sched_step (s, now) (stopReturn s, now)"


section \<open>Lemmas on the table\<close>

definition find_job :: "string \<Rightarrow> jobs \<Rightarrow> job_row option" where
  "find_job n d = (case filter (\<lambda>r. job_name r = n) d of [] \<Rightarrow> None | r # _ \<Rightarrow> Some r)"

lemma find_job_Nil [simp]: "find_job n [] = None"
  by (simp add: find_job_def)

lemma find_job_Cons [simp]: "find_job n (r # d) = (if job_name r = n then Some r else find_job n d)"
  by (simp add: find_job_def)

lemma find_job_name: "find_job n d = Some r \<Longrightarrow> job_name r = n \<and> r \<in> set d"
  by (induction d) (auto split: if_splits)

lemma find_job_None: "find_job n d = None \<longleftrightarrow> n \<notin> job_name ` set d"
  by (induction d) auto

text \<open>The upsert is an update of the map from names to rows and keeps the key unique.\<close>

lemma find_upsertRow: "find_job n (upsertRow r d) = (if n = job_name r then Some r else find_job n d)"
proof -
  have m: "find_job n (map (\<lambda>q. if job_name q = job_name r then r else q) d) =
      (if n = job_name r then map_option (\<lambda>_. r) (find_job n d) else find_job n d)"
    by (induction d) auto
  have a: "find_job n (d @ [r]) = (case find_job n d of Some q \<Rightarrow> Some q | None \<Rightarrow> if n = job_name r then Some r else None)"
    by (induction d) auto
  have e: "(\<exists>q \<in> set d. job_name q = job_name r) \<longleftrightarrow> find_job (job_name r) d \<noteq> None"
    unfolding find_job_None image_iff by metis
  show ?thesis unfolding upsertRow_def e using m a by (auto split: option.splits)
qed

definition keys_ok :: "jobs \<Rightarrow> bool" where "keys_ok d \<longleftrightarrow> distinct (map job_name d)"

lemma keys_upsertRow:
  assumes "keys_ok d"
  shows "keys_ok (upsertRow r d)"
proof -
  have "map job_name (map (\<lambda>q. if job_name q = job_name r then r else q) d) = map job_name d" by simp
  then show ?thesis using assms unfolding keys_ok_def upsertRow_def
    by (cases "\<exists>q \<in> set d. job_name q = job_name r") (simp only: if_True, force)
qed

lemma keys_ok_find: "keys_ok d \<Longrightarrow> r \<in> set d \<Longrightarrow> find_job (job_name r) d = Some r"
  by (induction d) (auto simp: keys_ok_def)

section \<open>What the table operations do\<close>

text \<open>The driver reports no error that is \<open>scheduler.ErrNotFound\<close>.\<close>

definition faults_distinct :: "'d db \<Rightarrow> bool" where
  "faults_distinct db \<longleftrightarrow> (\<forall>i e. faults db i = Some e \<longrightarrow> \<not> errors_Is e ''not found'')"

text \<open>What a read of the last execution yields: that of the row, or the zero time if there is none.\<close>

definition last_of :: "string \<Rightarrow> jobs \<Rightarrow> time" where
  "last_of n d = (case find_job n d of Some r \<Rightarrow> unixTime (sint (last_executed_at r)) | None \<Rightarrow> zeroTime)"

lemma GetJobByName_result:
  assumes "GetJobByName n db s = (r, s', db')"
  shows "s' = s \<and> committed db' = committed db \<and> faults db' = faults db \<and>
    (case find_job n (working s) of
       Some q \<Rightarrow> r = Ok (modelFromJob q) \<or> (\<exists>i e. faults db i = Some e \<and> r = Fail (wrap ''failed to execute get job by name statement: '' e))
     | None \<Rightarrow> r = Fail ErrJobNotFound \<or> (\<exists>i e. faults db i = Some e \<and> r = Fail (wrap ''failed to execute get job by name statement: '' e)))"
  using assms by (auto simp: GetJobByName_def dbBind_def dbQuery_def driver_call_def dbFail_def dbRet_def find_job_def
      split: option.splits list.splits)

lemma lastExecution_result:
  assumes "lastExecution n db s = (r, s', db')" and "faults_distinct db"
  shows "s' = s \<and> committed db' = committed db \<and> faults db' = faults db \<and> (r = Ok (last_of n (working s)) \<or> (\<exists>e. r = Fail e))"
proof -
  obtain r1 s1 db1 where g: "GetJobByName n db s = (r1, s1, db1)" by (metis prod.exhaust)
  show ?thesis
    using GetJobByName_result[OF g] assms g
    by (auto simp: lastExecution_def dbTry_def dbRet_def dbFail_def faults_distinct_def last_of_def modelFromJob_def ErrJobNotFound_def wrap_def
        split: option.splits if_splits)
qed

lemma saveJob_result:
  assumes "saveJob job db s = (r, s', db')"
  shows "committed db' = committed db \<and> faults db' = faults db \<and> tx_done s' = tx_done s \<and> sess_committed s' = sess_committed s \<and>
    (r = Ok () \<and> working s' = upsertRow (jobFromModel job) (working s) \<or> (\<exists>e. r = Fail e))"
  using assms by (auto simp: saveJob_def UpsertJob_def dbExecOne_def dbBind_def dbExec_def driver_call_def dbFail_def dbRet_def
      split: option.splits)


text \<open>A transaction whose body leaves the tables in relation \<open>R\<close> to those it started from.\<close>

definition saves :: "(jobs, unit) dbm \<Rightarrow> jobs db \<Rightarrow> (jobs \<Rightarrow> jobs \<Rightarrow> bool) \<Rightarrow> bool" where
  "saves body db0 R \<longleftrightarrow> (\<forall>db s r s' db'. faults db = faults db0 \<longrightarrow> body db s = (r, s', db') \<longrightarrow>
     committed db' = committed db \<and> faults db' = faults db \<and> tx_done s' = tx_done s \<and> sess_committed s' = sess_committed s \<and>
     (r = Ok () \<and> R (working s) (working s') \<or> (\<exists>e. r = Fail e)))"

lemma withSession_saves:
  assumes b: "saves body db R" and m: "withSession w (dbBind body w1 (\<lambda>_. dbBind DB_Commit w2 (\<lambda>_. dbRet ()))) db = (r, db')"
  shows "faults db' = faults db \<and> (r = Ok () \<and> R (committed db) (committed db') \<or> (\<exists>e. r = Fail e) \<and> committed db' = committed db)"
proof (cases "faults db (db_calls db)")
  case None
  let ?db1 = "db\<lparr>db_calls := Suc (db_calls db)\<rparr>" and ?s = "\<lparr>working = committed db, tx_done = False, sess_committed = False\<rparr>"
  obtain r1 s1 db1 where b1: "body ?db1 ?s = (r1, s1, db1)" by (metis prod.exhaust)
  have res: "committed db1 = committed db" "faults db1 = faults db" "\<not> tx_done s1" "\<not> sess_committed s1"
    "r1 = Ok () \<and> R (committed db) (working s1) \<or> (\<exists>e. r1 = Fail e)"
    using b b1 unfolding saves_def by (metis db.select_convs(1,2) db.surjective db.update_convs(3) sqlxTxSession.select_convs)+
  then show ?thesis
    using m None b1
    by (auto simp: withSession_def NewSession_def driver_call_def dbBind_def dbRet_def DB_Commit_eq DB_Abort_def Session_Abort_def
        Tx_Rollback_def split: option.splits)
qed (use m in \<open>auto simp: withSession_def NewSession_def driver_call_def\<close>)

lemma saves_Schedule:
  assumes "faults_distinct db"
  shows "saves (dbBind (lastExecution n) (\<lambda>e. e) (\<lambda>t. saveJob \<lparr>Name = n, LastExecutedAt = t, Period = p\<rparr>)) db
    (\<lambda>d d'. d' = upsertRow (jobFromModel \<lparr>Name = n, LastExecutedAt = last_of n d, Period = p\<rparr>) d)"
  unfolding saves_def
proof (intro allI impI)
  fix db1 s r s' db' assume f: "faults db1 = faults db"
    and m: "dbBind (lastExecution n) (\<lambda>e. e) (\<lambda>t. saveJob \<lparr>Name = n, LastExecutedAt = t, Period = p\<rparr>) db1 s = (r, s', db')"
  obtain r1 s1 db2 where l: "lastExecution n db1 s = (r1, s1, db2)" by (metis prod.exhaust)
  have "faults_distinct db1" using assms f by (simp add: faults_distinct_def)
  note res = lastExecution_result[OF l this]
  show "committed db' = committed db1 \<and> faults db' = faults db1 \<and> tx_done s' = tx_done s \<and> sess_committed s' = sess_committed s \<and>
     (r = Ok () \<and> working s' = upsertRow (jobFromModel \<lparr>Name = n, LastExecutedAt = last_of n (working s), Period = p\<rparr>) (working s) \<or> (\<exists>e. r = Fail e))"
  proof (cases r1)
    case (Ok t)
    then have "saveJob \<lparr>Name = n, LastExecutedAt = t, Period = p\<rparr> db2 s1 = (r, s', db')" using m l by (simp add: dbBind_def)
    from saveJob_result[OF this] show ?thesis using res Ok by auto
  qed (use m l res in \<open>auto simp: dbBind_def\<close>)
qed

definition touched :: "string \<Rightarrow> time \<Rightarrow> jobs \<Rightarrow> jobs \<Rightarrow> bool" where
  "touched n t d d' \<longleftrightarrow> (\<exists>q. find_job n d = Some q \<and> d' = upsertRow (jobFromModel ((modelFromJob q)\<lparr>LastExecutedAt := t\<rparr>)) d)"

lemma saves_update:
  "saves (dbBind (GetJobByName n) w (\<lambda>job. saveJob (job\<lparr>LastExecutedAt := t\<rparr>))) db (touched n t)"
  unfolding saves_def
proof (intro allI impI)
  fix db1 s r s' db' assume f: "faults db1 = faults db"
    and m: "dbBind (GetJobByName n) w (\<lambda>job. saveJob (job\<lparr>LastExecutedAt := t\<rparr>)) db1 s = (r, s', db')"
  obtain r1 s1 db2 where l: "GetJobByName n db1 s = (r1, s1, db2)" by (metis prod.exhaust)
  note res = GetJobByName_result[OF l]
  show "committed db' = committed db1 \<and> faults db' = faults db1 \<and> tx_done s' = tx_done s \<and> sess_committed s' = sess_committed s \<and>
     (r = Ok () \<and> touched n t (working s) (working s') \<or> (\<exists>e. r = Fail e))"
  proof (cases r1)
    case (Ok job)
    then have "saveJob (job\<lparr>LastExecutedAt := t\<rparr>) db2 s1 = (r, s', db')" using m l by (simp add: dbBind_def)
    from saveJob_result[OF this] show ?thesis using res Ok by (auto simp: touched_def split: option.splits)
  qed (use m l res in \<open>auto simp: dbBind_def split: option.splits\<close>)
qed

lemma Schedule_result:
  assumes "Schedule p n db = (r, db')" and "faults_distinct db"
  shows "faults db' = faults db \<and>
    (r = Ok () \<and> committed db' = upsertRow (jobFromModel \<lparr>Name = n, LastExecutedAt = last_of n (committed db), Period = p\<rparr>) (committed db) \<or>
     (\<exists>e. r = Fail e) \<and> committed db' = committed db)"
  using withSession_saves[OF saves_Schedule[OF assms(2)]] assms(1) unfolding Schedule_def by blast

lemma updateJobExecutionTime_result:
  assumes "updateJobExecutionTime n t db = (r, db')"
  shows "faults db' = faults db \<and> (r = Ok () \<and> touched n t (committed db) (committed db') \<or> (\<exists>e. r = Fail e) \<and> committed db' = committed db)"
  using withSession_saves[OF saves_update] assms unfolding updateJobExecutionTime_def by blast


section \<open>Invariants of all runs\<close>

definition last_tick :: "string \<Rightarrow> (string \<times> time) list \<Rightarrow> time option" where
  "last_tick n xs = map_of (rev xs) n"

lemma last_tick_snoc [simp]: "last_tick n (xs @ [(m, t)]) = (if m = n then Some t else last_tick n xs)"
  by (simp add: last_tick_def)

text \<open>The table knows the last execution of every job, to the second.\<close>

definition recorded :: "'h scheduler \<Rightarrow> bool" where
  "recorded s \<longleftrightarrow> faults_distinct (jobs_db s) \<and>
     (\<forall>n t. last_tick n (executed s) = Some t \<longrightarrow>
        (\<exists>q. find_job n (committed (jobs_db s)) = Some q \<and> last_executed_at q = word_of_int (Unix t)))"

lemma runHandler_cases:
  assumes "runHandler panics tick r s = (p, s')"
  obtains (failed) db where "s' = s\<lparr>jobs_db := db\<rparr>" "committed db = committed (jobs_db s)" "faults db = faults (jobs_db s)"
  | (ran) db where "s' = s\<lparr>jobs_db := db, executed := executed s @ [(run_name r, tick)]\<rparr>"
      "touched (run_name r) tick (committed (jobs_db s)) (committed db)" "faults db = faults (jobs_db s)" "p = panics"
proof -
  obtain v db where u: "updateJobExecutionTime (run_name r) tick (jobs_db s) = (v, db)" by (metis prod.exhaust)
  from updateJobExecutionTime_result[OF u] show thesis
    using assms u that by (auto simp: runHandler_def)
qed

lemma jobFromModel_sel [simp]:
  "job_name (jobFromModel job) = Name job" "last_executed_at (jobFromModel job) = word_of_int (Unix (LastExecutedAt job))"
  by (simp_all only: jobFromModel_def job_row.select_convs)

lemma modelFromJob_sel [simp]:
  "Name (modelFromJob q) = job_name q" "LastExecutedAt (modelFromJob q) = unixTime (sint (last_executed_at q))"
  by (simp_all only: modelFromJob_def Job.select_convs)

lemma touched_find:
  assumes "touched n t d d'"
  shows "\<exists>q. find_job n d' = Some q \<and> last_executed_at q = word_of_int (Unix t)" "m \<noteq> n \<Longrightarrow> find_job m d' = find_job m d"
proof -
  from assms obtain q where q: "find_job n d = Some q" "d' = upsertRow (jobFromModel ((modelFromJob q)\<lparr>LastExecutedAt := t\<rparr>)) d"
    unfolding touched_def by blast
  moreover have "job_name q = n" using q(1) by (simp add: find_job_name)
  ultimately show "\<exists>q. find_job n d' = Some q \<and> last_executed_at q = word_of_int (Unix t)" "m \<noteq> n \<Longrightarrow> find_job m d' = find_job m d"
    by (simp_all add: find_upsertRow)
qed

lemma recorded_runHandler:
  assumes "runHandler panics tick r s = (p, s')" and "recorded s"
  shows "recorded (s'\<lparr>job_runs := x\<rparr>)"
  using assms(1)
proof (cases rule: runHandler_cases)
  case (failed db)
  then show ?thesis using assms(2) by (simp add: recorded_def faults_distinct_def)
next
  case (ran db)
  have "recorded (s\<lparr>jobs_db := db, executed := executed s @ [(run_name r, tick)], job_runs := x\<rparr>)"
    unfolding recorded_def using assms(2) touched_find[OF ran(2)] ran(3)
    by (simp add: recorded_def faults_distinct_def)
  then show ?thesis using ran(1) by simp
qed

lemma last_of_Some: "find_job n d = Some q \<Longrightarrow> word_of_int (Unix (last_of n d)) = last_executed_at q"
  by (simp add: last_of_def)

lemma recorded_Schedule:
  assumes "Schedule p n (jobs_db s) = (r, db)" and "recorded s"
  shows "recorded (s\<lparr>jobs_db := db\<rparr>)"
proof -
  have "faults_distinct (jobs_db s)" using assms(2) by (simp add: recorded_def)
  from Schedule_result[OF assms(1) this] show ?thesis
    using assms(2) last_of_Some[of n "committed (jobs_db s)"] by (fastforce simp: recorded_def faults_distinct_def find_upsertRow)
qed

lemma recorded_step: "sched_step x y \<Longrightarrow> recorded (fst x) \<Longrightarrow> recorded (fst y)"
proof (induction rule: sched_step.induct)
  case (schedules p n s r db now)
  then show ?case using recorded_Schedule by auto
next
  case (first_fires i s due tick now panics p s')
  then show ?case using recorded_runHandler by auto
next
  case (ticks i s due tick now panics p s')
  then show ?case using recorded_runHandler by auto
qed (auto simp: recorded_def RegisterJobHandler_def setJobTimer_def stopRequest_def stopReturn_def)

interpretation record_kept: step_invariant sched_step "\<lambda>x. recorded (fst x)"
  by unfold_locales (rule recorded_step)

text \<open>How often a job may have run: at most once before its ticker exists, then at most once a period.\<close>

definition runs_of :: "string \<Rightarrow> (string \<times> time) list \<Rightarrow> nat" where
  "runs_of n xs = length (filter (\<lambda>x. fst x = n) xs)"

lemma runs_of_snoc [simp]: "runs_of n (xs @ [(m, t)]) = runs_of n xs + (if m = n then 1 else 0)"
  by (simp add: runs_of_def)

definition paced :: "time \<Rightarrow> time \<Rightarrow> 'h job_run \<Rightarrow> nat \<Rightarrow> bool" where
  "paced start now r c \<longleftrightarrow>
     (\<forall>due. first_exec r = FirstWaits due \<longrightarrow> c = 0 \<and> periodic r = AwaitsFirst) \<and>
     (periodic r = AwaitsFirst \<longrightarrow> c \<le> 1) \<and>
     (\<forall>due. periodic r = Ticks due \<longrightarrow> 0 < run_period r \<and> start + run_period r * int c \<le> due) \<and>
     (1 < c \<longrightarrow> 0 < run_period r \<and> start + run_period r * (int c - 1) \<le> now)"

definition pacing :: "time \<Rightarrow> 'h scheduler \<times> time \<Rightarrow> bool" where
  "pacing start x \<longleftrightarrow> start \<le> snd x \<and> distinct (map run_name (job_runs (fst x))) \<and>
     (\<forall>r \<in> set (job_runs (fst x)). paced start (snd x) r (runs_of (run_name r) (executed (fst x))))"


text \<open>Only run \<open>i\<close> changes, and of the executions only those of its name.\<close>

lemma pacing_update:
  assumes "pacing start (s, now)" and "i < length (job_runs s)" and "run_name r = run_name (job_runs s ! i)"
    and "job_runs s' = (job_runs s)[i := r]"
    and "\<And>n. n \<noteq> run_name r \<Longrightarrow> runs_of n (executed s') = runs_of n (executed s)"
    and "paced start now (job_runs s ! i) (runs_of (run_name r) (executed s)) \<Longrightarrow> paced start now r (runs_of (run_name r) (executed s'))"
  shows "pacing start (s', now)"
proof -
  have names: "map run_name (job_runs s') = map run_name (job_runs s)"
    using assms(2-4) by (simp add: map_update list_update_same_conv)
  have "paced start now q (runs_of (run_name q) (executed s'))" if q: "q \<in> set (job_runs s')" for q
  proof -
    from q obtain j where j: "j < length (job_runs s)" "q = (job_runs s)[i := r] ! j" using assms(4) by (auto simp: in_set_conv_nth)
    show ?thesis
    proof (cases "j = i")
      case True
      then show ?thesis using assms(1-3,6) j by (simp add: pacing_def)
    next
      case False
      then have "run_name q \<noteq> run_name r"
        using assms(1-3) j nth_eq_iff_index_eq[of "map run_name (job_runs s)" i j] by (simp add: pacing_def)
      then show ?thesis using assms(1,5) j False by (simp add: pacing_def)
    qed
  qed
  then show ?thesis using assms(1) names by (simp add: pacing_def)
qed

lemma pacing_handler:
  assumes "pacing start (s, now)" and "i < length (job_runs s)" and "run_name r = run_name (job_runs s ! i)"
    and "runHandler panics tick (job_runs s ! i) s = (p, s')"
    and "\<And>c. paced start now (job_runs s ! i) c \<Longrightarrow> paced start now r c \<and> paced start now r (Suc c)"
  shows "pacing start (s'\<lparr>job_runs := (job_runs s)[i := r]\<rparr>, now)"
  using assms(4)
proof (cases rule: runHandler_cases)
  case (failed db)
  then show ?thesis using assms(5) by (intro pacing_update[OF assms(1-3)]) auto
next
  case (ran db)
  then show ?thesis using assms(3,5) by (intro pacing_update[OF assms(1-3)]) auto
qed

lemma pacing_step: "sched_step x y \<Longrightarrow> pacing start x \<Longrightarrow> pacing start y"
proof (induction rule: sched_step.induct)
  case (time_passes now now' s)
  then show ?case by (fastforce simp: pacing_def paced_def)
next
  case (first_fires i s due tick now panics p s')
  show ?case
    by (rule pacing_handler[OF first_fires(6,1) _ first_fires(5)]) (use first_fires(2) in \<open>auto simp: paced_def\<close>)
next
  case (first_cancelled i s due now)
  then show ?case by (intro pacing_update[OF first_cancelled(4,1), of "(job_runs s ! i)\<lparr>first_exec := FirstDone\<rparr>"]) (auto simp: paced_def)
next
  case (ticker_starts i s now)
  let ?r = "(job_runs s ! i)\<lparr>periodic := Ticks (now + run_period (job_runs s ! i))\<rparr>"
  have "start \<le> now" using ticker_starts(5) by (simp add: pacing_def)
  then have "start + run_period (job_runs s ! i) * int c \<le> now + run_period (job_runs s ! i)" if "c \<le> 1" for c :: nat
    using that ticker_starts(4) by (cases c) auto
  then show ?case
    using ticker_starts by (intro pacing_update[OF ticker_starts(5,1), of ?r]) (auto simp: paced_def setJobTimer_def)
next
  case (ticker_panics i s now)
  then show ?case by (intro pacing_update[OF ticker_panics(5,1), of "(job_runs s ! i)\<lparr>periodic := Ended\<rparr>"]) (auto simp: paced_def)
next
  case (ticks i s due tick now panics p s')
  show ?case
    by (rule pacing_handler[OF ticks(6,1) _ ticks(5)]) (use ticks(2-4) in \<open>auto simp: paced_def algebra_simps\<close>)
next
  case (ticking_cancelled i s due now)
  then show ?case by (intro pacing_update[OF ticking_cancelled(4,1), of "(job_runs s ! i)\<lparr>periodic := Ended\<rparr>"]) (auto simp: paced_def)
qed (auto simp: pacing_def RegisterJobHandler_def stopRequest_def stopReturn_def)

interpretation pace: step_invariant sched_step "pacing start" for start
  by unfold_locales (rule pacing_step)


section \<open>Starting\<close>

definition run_of :: "time \<Rightarrow> Job \<Rightarrow> 'h job_run \<Rightarrow> bool" where
  "run_of now job r \<longleftrightarrow> run_name r = Name job \<and> run_period r = Period job \<and> periodic r = AwaitsFirst \<and>
     first_exec r = FirstWaits (now + max (time_Sub (LastExecutedAt job + Period job) now) 0)"

lemma startJobs_runs:
  assumes "startJobs clk js s = (r, s')"
  shows "\<exists>new k. job_runs s' = job_runs s @ new \<and> map run_name new = map Name (take k js) \<and>
    (\<forall>q \<in> set new. \<exists>job \<in> set js. \<exists>i. run_of (clk i) job q) \<and>
    jobs_db s' = jobs_db s \<and> executed s' = executed s \<and> stopTimers s' = stopTimers s \<and> (r = Ok () \<longrightarrow> length js \<le> k)"
  using assms
proof (induction clk js s rule: startJobs.induct)
  case (2 clk job rest s)
  show ?case
  proof (cases "getJobHandler (Name job) s")
    case (Ok h)
    let ?now = "clk 0"
    let ?q = "\<lparr>run_name = Name job, run_period = Period job, run_handler = h,
        first_exec = FirstWaits (?now + max (time_Sub (LastExecutedAt job + Period job) ?now) 0), periodic = AwaitsFirst\<rparr>"
    let ?s = "(setJobTimer (Name job) TimerStopper s)\<lparr>job_runs := job_runs s @ [?q]\<rparr>"
    have "startJobs (\<lambda>i. clk (Suc i)) rest ?s = (r, s')" using 2(2) Ok by (simp add: Let_def)
    from 2(1)[OF Ok refl refl this] obtain new k where *: "job_runs s' = job_runs s @ ?q # new" "map run_name new = map Name (take k rest)"
      "\<forall>q \<in> set new. \<exists>job \<in> set rest. \<exists>i. run_of (clk (Suc i)) job q" "jobs_db s' = jobs_db s" "executed s' = executed s"
      "stopTimers s' = stopTimers s" "r = Ok () \<longrightarrow> length rest \<le> k"
      by (auto simp: setJobTimer_def)
    have "run_of ?now job ?q" by (simp add: run_of_def)
    then show ?thesis using * by (intro exI[of _ "?q # new"] exI[of _ "Suc k"]) auto
  next
    case (Fail e)
    then show ?thesis using 2(2) by (auto intro!: exI[of _ "[]"] exI[of _ 0])
  next
    case (Panic t)
    then show ?thesis using 2(2) by (auto intro!: exI[of _ "[]"] exI[of _ 0])
  qed
qed (auto intro!: exI[of _ "[]"])

lemma readJobs_result:
  assumes "withSession w (dbBind GetAllJobs w1 dbRet) db = (r, db')"
  shows "committed db' = committed db \<and> faults db' = faults db \<and> (r = Ok (map modelFromJob (committed db)) \<or> (\<exists>e. r = Fail e))"
  using assms by (auto simp: withSession_def NewSession_def driver_call_def dbBind_def dbRet_def GetAllJobs_def dbQuery_def DB_Abort_def
      Session_Abort_def Tx_Rollback_def split: option.splits)

lemma Start_runs:
  assumes "Start clk s = (r, s')" and "job_runs s = []"
  shows "(\<exists>k. map run_name (job_runs s') = map job_name (take k (committed (jobs_db s))) \<and> (r = Ok () \<longrightarrow> length (committed (jobs_db s)) \<le> k)) \<and>
    (\<forall>q \<in> set (job_runs s'). \<exists>row \<in> set (committed (jobs_db s)). \<exists>i. run_of (clk i) (modelFromJob row) q) \<and>
    committed (jobs_db s') = committed (jobs_db s) \<and> faults (jobs_db s') = faults (jobs_db s) \<and> executed s' = executed s"
proof -
  obtain r1 db where w: "withSession (wrap ''failed to create db session: '')
      (dbBind GetAllJobs (wrap ''failed to get all jobs from db: '') dbRet) (jobs_db s) = (r1, db)" by (metis prod.exhaust)
  note res = readJobs_result[OF w]
  show ?thesis
  proof (cases r1)
    case (Ok js)
    let ?d = "committed (jobs_db s)"
    have js: "js = map modelFromJob ?d" using res Ok by simp
    have "startJobs clk js (s\<lparr>jobs_db := db, stopTimers := Some False\<rparr>) = (r, s')"
      using assms(1) w Ok by (simp add: Start_def)
    from startJobs_runs[OF this] obtain new k where *: "job_runs s' = new" "map run_name new = map Name (take k js)"
      "\<forall>q \<in> set new. \<exists>job \<in> set js. \<exists>i. run_of (clk i) job q" "jobs_db s' = db" "executed s' = executed s" "r = Ok () \<longrightarrow> length js \<le> k"
      using assms(2) by auto
    have "map Name (take k js) = map job_name (take k ?d)" unfolding js take_map by simp
    then show ?thesis using * js res by auto
  qed (use assms w res in \<open>auto simp: Start_def intro!: exI[of _ 0]\<close>)
qed

lemma Start_pacing:
  assumes "Start clk s = (r, s')" and "job_runs s = []" and "executed s = []" and "keys_ok (committed (jobs_db s))" and "start \<le> now"
  shows "pacing start (s', now)"
proof -
  from Start_runs[OF assms(1,2)] obtain k where k: "map run_name (job_runs s') = map job_name (take k (committed (jobs_db s)))"
    and runs: "\<forall>q \<in> set (job_runs s'). \<exists>row \<in> set (committed (jobs_db s)). \<exists>i. run_of (clk i) (modelFromJob row) q"
    and ex: "executed s' = []" using assms(3) by auto
  have "distinct (map run_name (job_runs s'))"
    unfolding k using assms(4) by (simp add: keys_ok_def take_map[symmetric] distinct_take)
  moreover have "paced start now q (runs_of (run_name q) (executed s'))" if "q \<in> set (job_runs s')" for q
    using runs that ex by (fastforce simp: paced_def run_of_def runs_of_def)
  ultimately show ?thesis using assms(5) by (simp add: pacing_def)
qed

section \<open>Properties\<close>


text \<open>A table with two jobs, one every ten seconds and one scheduled with a period of half a second, and a
  scheduler with handlers for them.\<close>

definition sample_jobs :: "jobs db" where
  "sample_jobs = \<lparr>committed = [\<lparr>job_name = ''a'', last_executed_at = 15, job_period = 10\<rparr>], faults = (\<lambda>_. None), db_calls = 0\<rparr>"

definition sample_started :: "nat scheduler" where
  "sample_started = snd (Start (\<lambda>_. 20 * second) (RegisterJobHandler ''a'' 3 (RegisterJobHandler ''b'' 2 (New (snd (Schedule 500000000 ''b'' sample_jobs))))))"

definition sample_first :: "nat \<Rightarrow> time \<Rightarrow> nat scheduler \<Rightarrow> nat scheduler" where
  "sample_first i t s = (snd (runHandler False t (job_runs s ! i) s))\<lparr>job_runs := (job_runs s)[i := (job_runs s ! i)\<lparr>first_exec := FirstDone\<rparr>]\<rparr>"

lemma sample_first_step:
  assumes "i < length (job_runs s)" and "first_exec (job_runs s ! i) = FirstWaits due" and "due \<le> t"
  shows "sched_step\<^sup>*\<^sup>* (s, t) (sample_first i t s, t)"
proof -
  have "runHandler False t (job_runs s ! i) s = (fst (runHandler False t (job_runs s ! i) s), snd (runHandler False t (job_runs s ! i) s))" by simp
  from sched_step.first_fires[OF assms order.refl this] show ?thesis unfolding sample_first_def by blast
qed

lemma sample_start:
  "Start (\<lambda>_. 20 * second) (RegisterJobHandler ''a'' 3 (RegisterJobHandler ''b'' 2 (New (snd (Schedule 500000000 ''b'' sample_jobs))))) = (Ok (), sample_started)"
proof -
  have "fst (Start (\<lambda>_. 20 * second) (RegisterJobHandler ''a'' (3::nat) (RegisterJobHandler ''b'' 2 (New (snd (Schedule 500000000 ''b'' sample_jobs)))))) = Ok ()"
    by code_simp
  then show ?thesis unfolding sample_started_def by (metis prod.collapse)
qed

lemma sample_start_init:
  "job_runs (RegisterJobHandler ''a'' (3::nat) (RegisterJobHandler ''b'' 2 (New d))) = []"
  "executed (RegisterJobHandler ''a'' (3::nat) (RegisterJobHandler ''b'' 2 (New d))) = []"
  "jobs_db (RegisterJobHandler ''a'' (3::nat) (RegisterJobHandler ''b'' 2 (New d))) = d"
  by (simp_all add: RegisterJobHandler_def New_def)

lemma sample_schedule: "faults (snd (Schedule 500000000 ''b'' sample_jobs)) = (\<lambda>_. None)"
proof -
  have "faults_distinct sample_jobs" by (simp add: faults_distinct_def sample_jobs_def)
  from Schedule_result[OF _ this, of 500000000 "''b''"] show ?thesis by (metis db.select_convs(2) prod.collapse sample_jobs_def)
qed


text \<open>Property C39: no job runs more often than once a period. Between its first execution and any later
  moment the handler of a job is called at most once more for each full period since the start; a job
  whose period is not positive runs at most once.\<close>

lemma executions_bounded:
  assumes "Start clk s0 = (r, s)" and "job_runs s0 = []" and "executed s0 = []" and "keys_ok (committed (jobs_db s0))"
    and "sched_step\<^sup>*\<^sup>* (s, now) (s', now')" and "q \<in> set (job_runs s')"
  shows "int (runs_of (run_name q) (executed s')) \<le> 1 + (if 0 < run_period q then (now' - now) div run_period q else 0)"
proof -
  let ?c = "runs_of (run_name q) (executed s')"
  have "pacing now (s', now')" using pace.run_keeps[OF assms(5) Start_pacing[OF assms(1-4) order.refl]] .
  then have p: "paced now now' q ?c" and le: "now \<le> now'" using assms(6) by (auto simp: pacing_def)
  show ?thesis
  proof (cases "1 < ?c")
    case True
    then have "0 < run_period q" "(int ?c - 1) * run_period q \<le> now' - now" using p by (auto simp: paced_def algebra_simps)
    then have "int ?c - 1 \<le> (now' - now) div run_period q" by (metis zdiv_mono1 nonzero_mult_div_cancel_right less_irrefl)
    then show ?thesis using \<open>0 < run_period q\<close> by simp
  next
    case False
    have "0 \<le> (now' - now) div run_period q" if "0 < run_period q" using le that by (simp add: pos_imp_zdiv_nonneg_iff)
    then show ?thesis using False by auto
  qed
qed

lemma executions_bounded_witness:
  "runs_of ''a'' (executed (sample_first 0 (25 * second) sample_started)) \<le> 1"
proof -
  let ?s = "sample_first 0 (25 * second) sample_started"
  have i: "0 < length (job_runs sample_started)" by code_simp
  have due: "first_exec (job_runs sample_started ! 0) = FirstWaits (25 * second)" by code_simp
  have "0 < length (job_runs ?s)" by code_simp
  then have q: "job_runs ?s ! 0 \<in> set (job_runs ?s)" by (rule nth_mem)
  have n: "run_name (job_runs ?s ! 0) = ''a''" by code_simp
  have "keys_ok (committed (snd (Schedule 500000000 ''b'' sample_jobs)))" by code_simp
  then show ?thesis
    using executions_bounded[OF sample_start sample_start_init(1,2) _ sample_first_step[OF i due order.refl] q] n
    by (simp add: sample_start_init split: if_splits)
qed

text \<open>Names and periods of the runs never change.\<close>

lemma run_periods_step:
  "sched_step x y \<Longrightarrow> map (\<lambda>r. (run_name r, run_period r)) (job_runs (fst y)) = map (\<lambda>r. (run_name r, run_period r)) (job_runs (fst x))"
  by (induction rule: sched_step.induct)
    (auto simp: map_update list_update_same_conv RegisterJobHandler_def setJobTimer_def stopRequest_def stopReturn_def)

lemma run_periods_run:
  "sched_step\<^sup>*\<^sup>* x y \<Longrightarrow> map (\<lambda>r. (run_name r, run_period r)) (job_runs (fst y)) = map (\<lambda>r. (run_name r, run_period r)) (job_runs (fst x))"
  by (induction rule: rtranclp_induct) (simp_all add: run_periods_step)

text \<open>A job scheduled with a period below one second runs once and never again. The table keeps
  whole seconds, so the period of the next start is 0; the ticker of that period panics, the panic is
  recovered, and the goroutine is gone.\<close>

lemma subsecond_period_runs_once:
  assumes "Schedule p n db = (Ok (), db')" and "0 \<le> p" and "p < second" and "faults_distinct db" and "keys_ok (committed db)"
    and "jobs_db s0 = db'" and "job_runs s0 = []" and "executed s0 = []" and "Start clk s0 = (r, s)"
    and "sched_step\<^sup>*\<^sup>* (s, now) (s', now')" and "q \<in> set (job_runs s')" and "run_name q = n"
  shows "run_period q = 0 \<and> runs_of n (executed s') \<le> 1"
proof -
  let ?row = "jobFromModel \<lparr>Name = n, LastExecutedAt = last_of n (committed db), Period = p\<rparr>"
  have d: "committed db' = upsertRow ?row (committed db)" using Schedule_result[OF assms(1,4)] by simp
  then have keys: "keys_ok (committed (jobs_db s0))" using assms(5,6) keys_upsertRow by simp
  have "(run_name q, run_period q) \<in> set (map (\<lambda>r. (run_name r, run_period r)) (job_runs s'))" using assms(11) by force
  then have "(run_name q, run_period q) \<in> set (map (\<lambda>r. (run_name r, run_period r)) (job_runs s))"
    using run_periods_run[OF assms(10)] by (simp only: fst_conv)
  then obtain q0 where q0: "q0 \<in> set (job_runs s)" "run_name q0 = n" "run_period q0 = run_period q"
    using assms(12) by auto
  then obtain row i where row: "row \<in> set (committed (jobs_db s0))" "run_of (clk i) (modelFromJob row) q0"
    using Start_runs[OF assms(9,7)] by blast
  then have "job_name row = n" using q0(2) by (simp add: run_of_def)
  then have "find_job n (committed db') = Some row" using keys_ok_find[OF keys row(1)] assms(6) by simp
  then have "row = ?row" using d by (simp add: find_upsertRow)
  then have "job_period row = 0" using assms(2,3) by (simp add: jobFromModel_def quot_def div_pos_pos_trivial)
  then have "run_period q = 0" using row(2) q0(3) by (simp add: run_of_def modelFromJob_def)
  moreover have "pacing now (s', now')" using pace.run_keeps[OF assms(10) Start_pacing[OF assms(9,7,8) keys order.refl]] .
  ultimately show ?thesis using assms(11,12) by (auto simp: pacing_def paced_def)
qed

lemma subsecond_period_runs_once_witness:
  "runs_of ''b'' (executed (sample_first 1 (20 * second) sample_started)) \<le> 1"
proof -
  let ?s = "sample_first 1 (20 * second) sample_started"
  have i: "1 < length (job_runs sample_started)" by code_simp
  have due: "first_exec (job_runs sample_started ! 1) = FirstWaits (20 * second)" by code_simp
  have "1 < length (job_runs ?s)" by code_simp
  then have q: "job_runs ?s ! 1 \<in> set (job_runs ?s)" by (rule nth_mem)
  have n: "run_name (job_runs ?s ! 1) = ''b''" by code_simp
  have "fst (Schedule 500000000 ''b'' sample_jobs) = Ok ()" by code_simp
  then have sch: "Schedule 500000000 ''b'' sample_jobs = (Ok (), snd (Schedule 500000000 ''b'' sample_jobs))" by (metis prod.collapse)
  have "faults_distinct sample_jobs" "keys_ok (committed sample_jobs)" by (simp_all add: faults_distinct_def keys_ok_def sample_jobs_def)
  then show ?thesis
    using subsecond_period_runs_once[OF sch _ _ _ _ sample_start_init(3,1,2) sample_start sample_first_step[OF i due order.refl] q n] by simp
qed

end
