(* ===== verification/Rpc_Server.thy ===== *)
theory Rpc_Server
  imports Processor Cancellation_Runs
begin

text \<open>
  The gRPC server of the bot, \<^verbatim>\<open>internal/rpc/server/server.go\<close>: requests of the own partner plugin are sent to
  another account through the message processor, cancellation requests are served here. A call has the
  state of the services it works on and the headers sent on it. The message processor is the parameter
  \<open>sendRequestMessage\<close> (an interface in the code, whose implementation \<open>Processor\<close> splits into the steps of
  its goroutines); \<open>grpc.SendHeader\<close>, JSON and go-ethereum's address parsing are parameters as well.
  The results of listening and serving are arguments of \<open>Start\<close>; TLS and reflection are not modelled
  (\<open>NewServer\<close> is in \<open>App\<close>).
\<close>

section \<open>Calls\<close>

type_synonym header = "(string \<times> string) list"

record 's grpc_call =
  served_by :: 's
  sentHeaders :: "header list"

record server_env =
  srv_IsHexAddress :: "string \<Rightarrow> bool"
  srv_HexToAddress :: "string \<Rightarrow> address"
  json_Marshal_timestamps :: "timestamps \<Rightarrow> string res"
  grpc_SendHeader :: "header list \<Rightarrow> header \<Rightarrow> unit res"

definition onService :: "('s, 'a) act \<Rightarrow> ('s grpc_call, 'a) act" where
  "onService m = (\<lambda>c. case m (served_by c) of (r, s) \<Rightarrow> (r, c\<lparr>served_by := s\<rparr>))"

definition SendHeader :: "server_env \<Rightarrow> header \<Rightarrow> ('s grpc_call, unit) act" where
  "SendHeader env h = (\<lambda>c. (grpc_SendHeader env (sentHeaders c) h, c\<lparr>sentHeaders := sentHeaders c @ [h]\<rparr>))"

section \<open>Requests to other accounts\<close>

text \<open>\<open>mdPairs\<close> is the incoming metadata of the context, if there is any; a missing key has no values.\<close>

definition getRecipientAddress :: "server_env \<Rightarrow> (string \<rightharpoonup> string list) option \<Rightarrow> address res" where
  "getRecipientAddress env mdPairs =
     (case mdPairs of
        None \<Rightarrow> Fail (Err [PStr ''metadata not found in incoming context''] [])
      | Some pairs \<Rightarrow>
          (let recipient = (case pairs ''recipient_ttm_account'' of None \<Rightarrow> [] | Some vs \<Rightarrow> vs)
           in if length recipient \<noteq> 1 \<or> \<not> srv_IsHexAddress env (recipient ! 0)
              then Fail (Err (PStr ''invalid recipient address: '' # map PStr recipient) [])
              else Ok (srv_HexToAddress env (recipient ! 0))))"

definition HandleMessageRequest ::
  "server_env \<Rightarrow> ('m message \<Rightarrow> address \<Rightarrow> ('s, 'm message) act) \<Rightarrow> (nat \<Rightarrow> time) \<Rightarrow> string \<Rightarrow>
     (string \<rightharpoonup> string list) option \<Rightarrow> mtype \<Rightarrow> 'm \<Rightarrow> ('s grpc_call, 'm) act" where
  "HandleMessageRequest env sendRequestMessage clk uuid mdPairs requestType request =
     aBind (aLift (getRecipientAddress env mdPairs))
       (wrap ''failed to get recipient ttm account address from request context: '') (\<lambda>recipientTTMAccountAddress.
     let requestMsg = \<lparr>msg_Type = requestType, msg_Content = request, msg_RequestID = uuid, msg_Timestamps = Some []\<rparr> in
     aBind (aLift (stampMsg (clk 0) ''grpc_request_received'' requestMsg)) (\<lambda>e. e) (\<lambda>requestMsg.
     aBind (onService (sendRequestMessage requestMsg recipientTTMAccountAddress)) (wrap ''error sending request message: '') (\<lambda>responseMsg.
     aBind (aLift (stampMsg (clk 1) ''grpc_response_sent'' responseMsg)) (\<lambda>e. e) (\<lambda>responseMsg.
     aBind (aLift (MarshalToString (json_Marshal_timestamps env) (msg_Timestamps responseMsg)))
       (wrap ''error marshalling timestamps: '') (\<lambda>timestampsStr.
     aBind (SendHeader env [(''request_id'', msg_RequestID responseMsg), (''timestamps'', timestampsStr)]) (\<lambda>e. e) (\<lambda>_.
       aRet (msg_Content responseMsg)))))))"

section \<open>Interceptors\<close>

definition unaryRecoverInterceptor ::
  "server_env \<Rightarrow> (string \<rightharpoonup> string list) option \<Rightarrow> string \<Rightarrow> ('s grpc_call, 'a) act \<Rightarrow> ('s grpc_call, 'a) act" where
  "unaryRecoverInterceptor env mdPairs fullMethod handler = (\<lambda>c.
     case handler c of
       (Panic r, c) \<Rightarrow>
         (let recipient = (case getRecipientAddress env mdPairs of Ok a \<Rightarrow> a | _ \<Rightarrow> 0)
          in (Fail (Err ([PStr ''gRPC '', PStr fullMethod, PStr '' (recipient '', PAddr recipient, PStr '') handler panicked: ''] @ r) []), c))
     | (r, c) \<Rightarrow> (r, c))"

text \<open>What the deferred function of \<open>tracingInterceptor\<close> does; its errors are only logged, and the text of
  timestamps that could not be marshalled is empty.\<close>

definition sendTimestamps :: "server_env \<Rightarrow> time \<Rightarrow> timestamps \<Rightarrow> ('s grpc_call, unit) act" where
  "sendTimestamps env now ts =
     aBind (aLift (Stamp now ts ''grpc_response_sent'')) (\<lambda>e. e) (\<lambda>ts.
     aBind (aTry (aLift (MarshalToString (json_Marshal_timestamps env) ts)) aRet (\<lambda>_. aRet [])) (\<lambda>e. e) (\<lambda>timestampsStr.
     aTry (SendHeader env [(''timestamps'', timestampsStr)]) aRet (\<lambda>_. aRet ())))"

definition tracingInterceptor :: "server_env \<Rightarrow> (nat \<Rightarrow> time) \<Rightarrow> ('s grpc_call, 'a) act \<Rightarrow> ('s grpc_call, 'a) act" where
  "tracingInterceptor env clk handler =
     aBind (aLift (Stamp (clk 0) (Some []) ''grpc_request_received'')) (\<lambda>e. e) (\<lambda>ts c.
       case handler c of (r, c) \<Rightarrow>
         (case sendTimestamps env (clk 1) ts c of
            (Panic t, c) \<Rightarrow> (Panic t, c)
          | (_, c) \<Rightarrow> (r, c)))"

text \<open>The chain \<open>NewServer\<close> installs: tracing for the cancellation services only.\<close>

definition cancellationServices :: "string list" where
  "cancellationServices = [''ttm.services.cancellation.v1.CancellationService'', ''ttm.services.cancellation.v2.CancellationService'',
     ''ttm.services.cancellation.v3.CancellationService'']"

definition interceptors ::
  "server_env \<Rightarrow> (string \<rightharpoonup> string list) option \<Rightarrow> (nat \<Rightarrow> time) \<Rightarrow> string \<Rightarrow> string \<Rightarrow> ('s grpc_call, 'a) act \<Rightarrow> ('s grpc_call, 'a) act" where
  "interceptors env mdPairs clk service fullMethod handler =
     unaryRecoverInterceptor env mdPairs fullMethod
       (if service \<in> set cancellationServices then tracingInterceptor env clk handler else handler)"

section \<open>Serving\<close>

text \<open>What the goroutine of \<open>Start\<close> sends on the error channel before it closes it, given how \<open>Serve\<close> ends.\<close>

definition serveErrors :: "unit res \<Rightarrow> err list" where
  "serveErrors serve =
     (case serve of
        Ok _ \<Rightarrow> []
      | Fail e \<Rightarrow> if errors_Is e ''context canceled'' \<or> errors_Is e ''grpc: the server has been stopped'' then [] else [e]
      | Panic t \<Rightarrow> [Err (PStr ''gRPC server panicked: '' # t) []])"

definition server_Start :: "unit res \<Rightarrow> unit res \<Rightarrow> err list res" where
  "server_Start listen serve = onErr listen (wrap ''failed to listen: '') (\<lambda>_. Ok (serveErrors serve))"

definition Readiness :: string where "Readiness = ''ready''"

section \<open>Lemmas\<close>

text \<open>At most one error is sent, so the reader of the channel, which takes one value, leaves nobody waiting.\<close>

lemma serveErrors_at_most_one: "length (serveErrors serve) \<le> 1"
  by (simp add: serveErrors_def split: res.split)

lemma recover_result:
  "unaryRecoverInterceptor env md m h c = (r, c') \<Longrightarrow> \<exists>r0. h c = (r0, c') \<and> (r = r0 \<or> (\<exists>t e. r0 = Panic t \<and> r = Fail e)) \<and> (\<forall>t. r \<noteq> Panic t)"
  by (auto simp: unaryRecoverInterceptor_def Let_def split: prod.splits res.splits)

text \<open>JSON of a map of strings to integers does not panic, nor does \<open>SendHeader\<close>.\<close>

definition grpc_ok :: "server_env \<Rightarrow> bool" where
  "grpc_ok env \<longleftrightarrow> (\<forall>ts t. json_Marshal_timestamps env ts \<noteq> Panic t) \<and> (\<forall>hs h t. grpc_SendHeader env hs h \<noteq> Panic t)"

lemma sendTimestamps_result:
  assumes "grpc_ok env" and "sendTimestamps env now (Some ts) c = (r, c')"
  shows "r = Ok () \<and> (\<exists>x. c' = c\<lparr>sentHeaders := sentHeaders c @ [[(''timestamps'', x)]]\<rparr>)"
  using assms
  by (auto simp: sendTimestamps_def grpc_ok_def aBind_def aTry_def Stamp_def MarshalToString_def SendHeader_def onErr_def split: res.splits)

lemma tracing_result:
  assumes "grpc_ok env" and "tracingInterceptor env clk h c = (r, c')"
  shows "\<exists>c1 x. h c = (r, c1) \<and> c' = c1\<lparr>sentHeaders := sentHeaders c1 @ [[(''timestamps'', x)]]\<rparr>"
proof -
  obtain ts where ts: "Stamp (clk 0) (Some []) ''grpc_request_received'' = Ok (Some ts)" by (simp add: Stamp_def)
  obtain r1 c1 where h: "h c = (r1, c1)" by (metis prod.exhaust)
  obtain r2 c2 where s: "sendTimestamps env (clk 1) (Some ts) c1 = (r2, c2)" by (metis prod.exhaust)
  have "(r, c') = (r1, c2)"
    using assms(2) ts h s sendTimestamps_result[OF assms(1) s] by (simp add: tracingInterceptor_def aBind_def)
  then show ?thesis using h sendTimestamps_result[OF assms(1) s] by auto
qed


section \<open>Properties\<close>

lemma getRecipientAddress_Fail:
  assumes "\<nexists>pairs v. md = Some pairs \<and> pairs ''recipient_ttm_account'' = Some [v] \<and> srv_IsHexAddress env v"
  shows "\<exists>e. getRecipientAddress env md = Fail e"
proof (cases md)
  case (Some pairs)
  show ?thesis
  proof (cases "pairs ''recipient_ttm_account''")
    fix vs assume vs: "pairs ''recipient_ttm_account'' = Some vs"
    consider "length vs \<noteq> 1" | v where "vs = [v]" by (metis One_nat_def length_Suc_conv length_0_conv)
    then show ?thesis using assms Some vs by cases (auto simp: getRecipientAddress_def)
  qed (simp add: Some getRecipientAddress_def)
qed (simp add: getRecipientAddress_def)

text \<open>The request the server builds: the caller's type and content, the new ID, and one time stamp.\<close>

definition fresh_request :: "time \<Rightarrow> string \<Rightarrow> mtype \<Rightarrow> 'm \<Rightarrow> 'm message" where
  "fresh_request now uuid ty c = \<lparr>msg_Type = ty, msg_Content = c, msg_RequestID = uuid,
     msg_Timestamps = Some [(''0-grpc_request_received'', now div millisecond)]\<rparr>"

lemma stampMsg_first:
  "stampMsg now ''grpc_request_received'' \<lparr>msg_Type = ty, msg_Content = c, msg_RequestID = uuid, msg_Timestamps = Some []\<rparr> =
     Ok (fresh_request now uuid ty c)"
proof -
  have "show_nat 0 = ''0''" by code_simp
  then show ?thesis by (simp add: stampMsg_def Stamp_def fresh_request_def stampKey_def)
qed

text \<open>The work on a response, after the message processor returned it.\<close>

definition answerWith :: "server_env \<Rightarrow> time \<Rightarrow> 'm message \<Rightarrow> ('s grpc_call, 'm) act" where
  "answerWith env now m =
     aBind (aLift (stampMsg now ''grpc_response_sent'' m)) (\<lambda>e. e) (\<lambda>m.
     aBind (aLift (MarshalToString (json_Marshal_timestamps env) (msg_Timestamps m))) (wrap ''error marshalling timestamps: '') (\<lambda>ts.
     aBind (SendHeader env [(''request_id'', msg_RequestID m), (''timestamps'', ts)]) (\<lambda>e. e) (\<lambda>_. aRet (msg_Content m))))"

lemma HandleMessageRequest_eq:
  "HandleMessageRequest env send clk uuid md ty req c =
     (case getRecipientAddress env md of
        Fail e \<Rightarrow> (Fail (wrap ''failed to get recipient ttm account address from request context: '' e), c)
      | Panic t \<Rightarrow> (Panic t, c)
      | Ok a \<Rightarrow> (case send (fresh_request (clk 0) uuid ty req) a (served_by c) of
            (Ok m, s) \<Rightarrow> answerWith env (clk 1) m (c\<lparr>served_by := s\<rparr>)
          | (Fail e, s) \<Rightarrow> (Fail (wrap ''error sending request message: '' e), c\<lparr>served_by := s\<rparr>)
          | (Panic t, s) \<Rightarrow> (Panic t, c\<lparr>served_by := s\<rparr>)))"
  by (auto simp: HandleMessageRequest_def answerWith_def aBind_def stampMsg_first onService_def split: res.splits prod.splits)

lemma answerWith_Ok:
  assumes "answerWith env now m c = (Ok x, c')"
  shows "x = msg_Content m \<and> served_by c' = served_by c \<and> (\<exists>ts. sentHeaders c' = sentHeaders c @ [[(''request_id'', msg_RequestID m), (''timestamps'', ts)]])"
  using assms by (auto simp: answerWith_def aBind_def stampMsg_def Stamp_def SendHeader_def MarshalToString_def onErr_def
      split: res.splits option.splits)

lemma answerWith_served: "served_by (snd (answerWith env now m c)) = served_by c"
  by (auto simp: answerWith_def aBind_def stampMsg_def Stamp_def SendHeader_def MarshalToString_def onErr_def
      split: res.splits option.splits)

text \<open>The account a call is for: its metadata must hold exactly one recipient that is a hex address.\<close>

definition recipient_of :: "server_env \<Rightarrow> (string \<rightharpoonup> string list) option \<Rightarrow> address option" where
  "recipient_of env mdPairs =
     (case mdPairs of
        None \<Rightarrow> None
      | Some pairs \<Rightarrow>
          (case pairs ''recipient_ttm_account'' of
             Some [v] \<Rightarrow> if srv_IsHexAddress env v then Some (srv_HexToAddress env v) else None
           | _ \<Rightarrow> None))"

lemma getRecipientAddress_Ok: "recipient_of env md = Some a \<Longrightarrow> getRecipientAddress env md = Ok a"
  by (auto simp: recipient_of_def getRecipientAddress_def split: option.splits list.splits if_splits)

lemma recipient_of_None:
  "recipient_of env md = None \<Longrightarrow> \<not> (\<exists>pairs v. md = Some pairs \<and> pairs ''recipient_ttm_account'' = Some [v] \<and> srv_IsHexAddress env v)"
  by (auto simp: recipient_of_def)

text \<open>Without a recipient the message processor is not used. With one it is used exactly once, with a
  message of the requested type and content, the new ID and a single time stamp, for that recipient,
  and the call succeeds only with the content of the response the processor returned, after one header
  with the ID of that response was sent.\<close>

lemma handle_result:
  assumes "HandleMessageRequest env send clk uuid md ty req c = (r, c')"
  shows "case recipient_of env md of
      None \<Rightarrow> c' = c \<and> (\<exists>e. r = Fail e)
    | Some a \<Rightarrow> served_by c' = snd (send (fresh_request (clk 0) uuid ty req) a (served_by c)) \<and>
        (\<forall>y. r = Ok y \<longrightarrow> (\<exists>m ts. fst (send (fresh_request (clk 0) uuid ty req) a (served_by c)) = Ok m \<and> y = msg_Content m \<and>
           sentHeaders c' = sentHeaders c @ [[(''request_id'', msg_RequestID m), (''timestamps'', ts)]]))"
proof (cases "recipient_of env md")
  case None
  then obtain e where "getRecipientAddress env md = Fail e" using getRecipientAddress_Fail[OF recipient_of_None] by blast
  then show ?thesis using assms None by (auto simp: HandleMessageRequest_eq)
next
  case (Some a)
  note a = getRecipientAddress_Ok[OF Some]
  obtain r1 s1 where x: "send (fresh_request (clk 0) uuid ty req) a (served_by c) = (r1, s1)" by (metis prod.exhaust)
  show ?thesis
  proof (cases r1)
    case (Ok m)
    then have w: "answerWith env (clk 1) m (c\<lparr>served_by := s1\<rparr>) = (r, c')" using assms a x by (simp add: HandleMessageRequest_eq)
    then have "served_by c' = s1" using answerWith_served[of env "clk 1" m "c\<lparr>served_by := s1\<rparr>"] by simp
    then show ?thesis using Ok Some x answerWith_Ok[of env "clk 1" m "c\<lparr>served_by := s1\<rparr>" _ c'] w by auto
  qed (use assms a x Some in \<open>auto simp: HandleMessageRequest_eq\<close>)
qed

definition sample_srv :: server_env where
  "sample_srv = \<lparr>srv_IsHexAddress = (\<lambda>_. True), srv_HexToAddress = (\<lambda>_. 7), json_Marshal_timestamps = (\<lambda>_. Ok ''{}''),
     grpc_SendHeader = (\<lambda>_ _. Ok ())\<rparr>"

text \<open>A cancellation request of version 3 over gRPC. Whatever happens in the service, the call does not
  panic, exactly one header with time stamps is sent on it, and on the chain at most the transaction
  the request asks for.\<close>

lemma cancellation_call:
  assumes "evicts_only (evictAccount (chain (benv (lenv cenv))))" and "bindings_ok (booking (listener (served_by c)))"
    and "NewKeyedTransactorWithChainID (chain (benv (lenv cenv))) (cancelKey svc) (chainID (booking (listener (served_by c)))) = Ok sender"
    and "grpc_ok env" and "service \<in> set cancellationServices"
    and "interceptors env md clk service full (onService (serveV3 cenv svc validate q)) c = (r, c')"
  shows "(\<forall>t. r \<noteq> Panic t) \<and> (\<exists>x. sentHeaders c' = sentHeaders c @ [[(''timestamps'', x)]]) \<and>
    (txs (served_by c') = txs (served_by c) \<or>
     (\<exists>call. wanted (GetPriceAndTokenV5 (HexToAddress cenv) (tokens cenv)) (served_by c) q = Some call \<and>
        txs (served_by c') = txs (served_by c) @ [OpTransact sender (cancelAccount svc) call])) \<and>
    (\<forall>k h. r = Ok (CancelSuccess k h) \<longrightarrow> k = kind_of q \<and> txs (served_by c') \<noteq> txs (served_by c))"
proof -
  let ?h = "onService (serveV3 cenv svc validate q)"
  obtain r1 s1 where m: "serveV3 cenv svc validate q (served_by c) = (r1, s1)" by (metis prod.exhaust)
  from assms(5,6) obtain r0 where t: "tracingInterceptor env clk ?h c = (r0, c')" and r: "r = r0 \<or> (\<exists>t e. r0 = Panic t \<and> r = Fail e)"
    and np: "\<forall>t. r \<noteq> Panic t"
    using recover_result[of env md full "tracingInterceptor env clk ?h" c r c'] by (auto simp: interceptors_def)
  from tracing_result[OF assms(4) t] m obtain x where r0: "r0 = r1"
    and c': "served_by c' = s1" "sentHeaders c' = sentHeaders c @ [[(''timestamps'', x)]]"
    by (auto simp: onService_def)
  have s: "served cenv (OpTransact sender (cancelAccount svc)) (replies cancellationErrResponseV3 (kind_of q)) (CancelSuccess (kind_of q))
      (wanted (GetPriceAndTokenV5 (HexToAddress cenv) (tokens cenv)) (served_by c) q) (serveV3 cenv svc validate q) (served_by c)"
    by (rule cancelV3.request_served[OF assms(1-3)])
  have err: "CancelSuccess k h \<notin> replies cancellationErrResponseV3 j" for k h j
    by (auto simp: replies_def cancellationErrResponseV3_def)
  have "\<forall>k h. r0 = Ok (CancelSuccess k h) \<longrightarrow> k = kind_of q \<and> txs s1 \<noteq> txs (served_by c)"
    using s m err r0 by (auto simp: served_def)
  then have "\<forall>k h. r = Ok (CancelSuccess k h) \<longrightarrow> k = kind_of q \<and> txs (served_by c') \<noteq> txs (served_by c)" using r c' by auto
  moreover have "txs s1 = txs (served_by c) \<or> (\<exists>call. wanted (GetPriceAndTokenV5 (HexToAddress cenv) (tokens cenv)) (served_by c) q = Some call \<and>
        txs s1 = txs (served_by c) @ [OpTransact sender (cancelAccount svc) call])"
    using s m by (auto simp: served_def)
  ultimately show ?thesis using np c' by blast
qed


lemma cancellation_call_witness:
  "txs (served_by (snd (interceptors sample_srv None (\<lambda>_. 0) ''ttm.services.cancellation.v3.CancellationService'' ''/m''
       (onService (serveV3 sample_menv sample_cancellation (\<lambda>_. Ok ()) (AcceptRequest 42 (Some sample_price))))
       \<lparr>served_by = sample_mstate, sentHeaders = []\<rparr>))) = [OpTransact 5 1 (TxAcceptCancellation 42 1000)]"
proof -
  let ?q = "AcceptRequest 42 (Some sample_price)"
  let ?c = "\<lparr>served_by = sample_mstate, sentHeaders = []\<rparr>"
  let ?v = "''ttm.services.cancellation.v3.CancellationService''"
  let ?I = "interceptors sample_srv None (\<lambda>_. 0) ?v ''/m'' (onService (serveV3 sample_menv sample_cancellation (\<lambda>_. Ok ()) ?q)) ?c"
  have key: "NewKeyedTransactorWithChainID (chain (benv (lenv sample_menv))) (cancelKey sample_cancellation)
      (chainID (booking (listener (served_by ?c)))) = Ok 5" by code_simp
  have b: "bindings_ok (booking (listener (served_by ?c)))" using sample_chain_ok(2) by simp
  have ok: "grpc_ok sample_srv" by (simp add: grpc_ok_def sample_srv_def)
  have v: "?v \<in> set cancellationServices" by (simp add: cancellationServices_def)
  have "wanted (GetPriceAndTokenV5 (HexToAddress sample_menv) (tokens sample_menv)) sample_mstate ?q = Some (TxAcceptCancellation 42 1000)"
    by code_simp
  moreover have "txs (served_by (snd ?I)) \<noteq> []" by code_simp
  ultimately show ?thesis
    using cancellation_call[OF sample_chain_ok(1) b key ok v prod.collapse[symmetric], of None "\<lambda>_. 0" "''/m''" "\<lambda>_. Ok ()" ?q]
    by (simp add: sample_chain_ok(3) sample_cancellation_def)
qed

end
