(* ===== verification/Service_Methods.thy ===== *)
theory Service_Methods
  imports Rpc_Server
begin

text \<open>
  The generated clients and servers of the 48 services, \<^verbatim>\<open>internal/rpc/generated\<close>. Every service has one method,
  and its code is an instance of one of two templates: 18 services have messages with a header and a
  status (\<^verbatim>\<open>templates/v1\<close>), 30 have validated messages whose response is a one-of (\<^verbatim>\<open>templates/v2\<close>). The server
  turns the typed call of the own partner plugin into a request to another account; the client turns a
  request of another account into a typed call of the plugin. Here a message has its type, the version
  in its base header if it has one, and a body; the service is an argument. \<open>goType\<close> is what \<open>%T\<close> prints
  for a message type; protovalidate and the gRPC stub of the plugin are parameters.
\<close>

section \<open>Messages\<close>

datatype 'b proto_body = Body 'b | FailureV1 msgtext | ErrorsV2 "(errorCode \<times> msgtext) list"

record ('v, 'b) proto =
  proto_type :: mtype
  base_header :: "'v option"
  proto_body :: "'b proto_body"

definition requestType :: "string \<Rightarrow> mtype" where "requestType service = service @ ''.Request''"
definition responseType :: "string \<Rightarrow> mtype" where "responseType service = service @ ''.Response''"

definition ErrNilResponseHeader :: err where "ErrNilResponseHeader = Sentinel ''response header is nil''"

text \<open>The services of the first template; all others of \<open>serviceNames\<close> have the second.\<close>

definition headerServices :: "string list" where
  "headerServices = [
     ''ttm.services.accommodation.v3.AccommodationProductInfoService'',
     ''ttm.services.accommodation.v3.AccommodationProductListService'',
     ''ttm.services.accommodation.v3.AccommodationSearchService'',
     ''ttm.services.activity.v3.ActivityProductInfoService'',
     ''ttm.services.activity.v3.ActivityProductListService'',
     ''ttm.services.activity.v3.ActivitySearchService'',
     ''ttm.services.book.v3.MintService'',
     ''ttm.services.book.v3.ValidationService'',
     ''ttm.services.cancellation.v1.CheckCancellationService'',
     ''ttm.services.info.v1.CountryEntryRequirementsService'',
     ''ttm.services.info.v2.CountryEntryRequirementsService'',
     ''ttm.services.ping.v1.PingService'',
     ''ttm.services.seat_map.v2.SeatMapAvailabilityService'',
     ''ttm.services.seat_map.v2.SeatMapService'',
     ''ttm.services.seat_map.v3.SeatMapAvailabilityService'',
     ''ttm.services.seat_map.v3.SeatMapService'',
     ''ttm.services.transport.v3.TransportProductListService'',
     ''ttm.services.transport.v3.TransportSearchService'']"

section \<open>Error responses\<close>

definition errorResponseV1 :: "'v \<Rightarrow> string \<Rightarrow> msgtext \<Rightarrow> ('v, 'b) proto" where
  "errorResponseV1 v service errorMessage =
     \<lparr>proto_type = responseType service, base_header = Some v, proto_body = FailureV1 errorMessage\<rparr>"

definition errorResponseV2 :: "'v \<Rightarrow> string \<Rightarrow> errorCode \<Rightarrow> msgtext \<Rightarrow> ('v, 'b) proto" where
  "errorResponseV2 v service code errorMessage =
     \<lparr>proto_type = responseType service, base_header = Some v, proto_body = ErrorsV2 [(code, errorMessage)]\<rparr>"

text \<open>The switch over the classes of errors.\<close>

definition codeOf :: "err \<Rightarrow> errorCode" where
  "codeOf e =
     (if errors_Is e ''invalid proto message'' then ERROR_CODE_INVALID_PROTO
      else if errors_Is e ''blockchain error'' then ERROR_CODE_BLOCKCHAIN_ERROR
      else if errors_Is e ''business process error'' then ERROR_CODE_BUSINESS_PROCESS_ERROR
      else ERROR_CODE_INTERNAL)"

definition wrongType :: "string \<Rightarrow> mtype \<Rightarrow> string \<Rightarrow> msgtext" where
  "wrongType what expected got = [PStr ''invalid '', PStr what, PStr '' type: expected '', PStr expected, PStr '', got '', PStr got]"

section \<open>Servers\<close>

text \<open>\<open>handle\<close> is \<open>HandleMessageRequest\<close> with its context. In the first template the text of a wrong response
  type names the type that was expected twice.\<close>

definition serverMethodV1 ::
  "'v \<Rightarrow> (mtype \<Rightarrow> string) \<Rightarrow> string \<Rightarrow> (mtype \<Rightarrow> ('v, 'b) proto \<Rightarrow> ('s, ('v, 'b) proto) act) \<Rightarrow> ('v, 'b) proto \<Rightarrow> ('s, ('v, 'b) proto) act" where
  "serverMethodV1 v goType service handle request =
     (case base_header request of
        None \<Rightarrow> aRet (errorResponseV1 v service (Error ErrNilResponseHeader))
      | Some _ \<Rightarrow>
          aTry (handle (requestType service) (request\<lparr>base_header := Some v\<rparr>))
            (\<lambda>response. if proto_type response \<noteq> responseType service
               then aRet (errorResponseV1 v service (wrongType ''response'' (responseType service) (goType (responseType service))))
               else aRet response)
            (\<lambda>err. aRet (errorResponseV1 v service (Error err))))"

definition serverMethodV2 ::
  "'v \<Rightarrow> (mtype \<Rightarrow> string) \<Rightarrow> (('v, 'b) proto \<Rightarrow> unit res) \<Rightarrow> string \<Rightarrow> (mtype \<Rightarrow> ('v, 'b) proto \<Rightarrow> ('s, ('v, 'b) proto) act) \<Rightarrow>
     ('v, 'b) proto \<Rightarrow> ('s, ('v, 'b) proto) act" where
  "serverMethodV2 v goType validate service handle request =
     aTry (aLift (validate request))
       (\<lambda>_. aBind (aLift (deref (base_header request))) (\<lambda>e. e) (\<lambda>_.
          aTry (handle (requestType service) (request\<lparr>base_header := Some v\<rparr>))
            (\<lambda>response. if proto_type response \<noteq> responseType service
               then aRet (errorResponseV2 v service ERROR_CODE_INTERNAL (wrongType ''response'' (responseType service) (goType (proto_type response))))
               else aRet response)
            (\<lambda>err. aRet (errorResponseV2 v service (codeOf err) (Error err)))))
       (\<lambda>err. aRet (errorResponseV2 v service ERROR_CODE_INVALID_PROTO (PStr ''request validation failed: '' # Error err)))"

text \<open>The method \<open>RegisterServerServices\<close> registers for a service.\<close>

definition serverMethod ::
  "'v \<Rightarrow> (mtype \<Rightarrow> string) \<Rightarrow> (('v, 'b) proto \<Rightarrow> unit res) \<Rightarrow> string \<Rightarrow> (mtype \<Rightarrow> ('v, 'b) proto \<Rightarrow> ('s, ('v, 'b) proto) act) \<Rightarrow>
     ('v, 'b) proto \<Rightarrow> ('s, ('v, 'b) proto) act" where
  "serverMethod v goType validate service =
     (if service \<in> set headerServices then serverMethodV1 v goType service else serverMethodV2 v goType validate service)"

section \<open>Clients\<close>

definition clientCallV1 ::
  "'v \<Rightarrow> (mtype \<Rightarrow> string) \<Rightarrow> string \<Rightarrow> (('v, 'b) proto \<Rightarrow> ('v, 'b) proto res) \<Rightarrow> ('v, 'b) proto \<Rightarrow> (('v, 'b) proto \<times> mtype) res" where
  "clientCallV1 v goType service stub request =
     (if proto_type request \<noteq> requestType service
      then Ok (errorResponseV1 v service (wrongType ''request'' (requestType service) (goType (proto_type request))), responseType service)
      else case stub request of
        Fail err \<Rightarrow> Ok (errorResponseV1 v service (Error err), responseType service)
      | Panic t \<Rightarrow> Panic t
      | Ok response \<Rightarrow>
          (case base_header response of
             None \<Rightarrow> Ok (errorResponseV1 v service (Error ErrNilResponseHeader), responseType service)
           | Some _ \<Rightarrow> Ok (response\<lparr>base_header := Some v\<rparr>, responseType service)))"

text \<open>In the second template the base header is that of the error or of the success response.\<close>

definition clientCallV2 ::
  "'v \<Rightarrow> (mtype \<Rightarrow> string) \<Rightarrow> (('v, 'b) proto \<Rightarrow> unit res) \<Rightarrow> string \<Rightarrow> (('v, 'b) proto \<Rightarrow> ('v, 'b) proto res) \<Rightarrow> ('v, 'b) proto \<Rightarrow>
     (('v, 'b) proto \<times> mtype) res" where
  "clientCallV2 v goType validate service stub request =
     (if proto_type request \<noteq> requestType service
      then Ok (errorResponseV2 v service ERROR_CODE_INTERNAL (wrongType ''request'' (requestType service) (goType (proto_type request))), responseType service)
      else case stub request of
        Fail err \<Rightarrow> Ok (errorResponseV2 v service (codeOf err) (Error err), responseType service)
      | Panic t \<Rightarrow> Panic t
      | Ok response \<Rightarrow>
          (case validate response of
             Fail err \<Rightarrow> Ok (errorResponseV2 v service ERROR_CODE_INVALID_PROTO (PStr ''response validation failed: '' # Error err), responseType service)
           | Panic t \<Rightarrow> Panic t
           | Ok _ \<Rightarrow>
               (case base_header response of
                  None \<Rightarrow> Panic nilDereference
                | Some _ \<Rightarrow> Ok (response\<lparr>base_header := Some v\<rparr>, responseType service))))"

definition clientCall ::
  "'v \<Rightarrow> (mtype \<Rightarrow> string) \<Rightarrow> (('v, 'b) proto \<Rightarrow> unit res) \<Rightarrow> string \<Rightarrow> (('v, 'b) proto \<Rightarrow> ('v, 'b) proto res) \<Rightarrow> ('v, 'b) proto \<Rightarrow>
     (('v, 'b) proto \<times> mtype) res" where
  "clientCall v goType validate service =
     (if service \<in> set headerServices then clientCallV1 v goType service else clientCallV2 v goType validate service)"

definition InvalidProtoErrResponseAndTypeV1 :: "'v \<Rightarrow> string \<Rightarrow> msgtext \<Rightarrow> ('v, 'b) proto \<times> mtype" where
  "InvalidProtoErrResponseAndTypeV1 v service errorMessage = (errorResponseV1 v service errorMessage, responseType service)"

definition InvalidProtoErrResponseAndTypeV2 :: "'v \<Rightarrow> string \<Rightarrow> msgtext \<Rightarrow> ('v, 'b) proto \<times> mtype" where
  "InvalidProtoErrResponseAndTypeV2 v service errorMessage =
     (errorResponseV2 v service ERROR_CODE_INVALID_PROTO errorMessage, responseType service)"

section \<open>Lemmas\<close>

definition is_error :: "'v \<Rightarrow> string \<Rightarrow> ('v, 'b) proto \<Rightarrow> bool" where
  "is_error v service y \<longleftrightarrow> proto_type y = responseType service \<and> base_header y = Some v \<and>
     (\<forall>b. proto_body y \<noteq> Body b) \<and> proto_body y \<noteq> ErrorsV2 []"

lemma is_error_responses [simp]: "is_error v service (errorResponseV1 v service t)" "is_error v service (errorResponseV2 v service code t)"
  by (simp_all add: is_error_def errorResponseV1_def errorResponseV2_def)

lemma peer_services_not_cancellation: "service \<in> set serviceNames \<Longrightarrow> service \<notin> set cancellationServices"
  by (auto simp: serviceNames_def cancellationServices_def)

text \<open>A server method answers by itself, or with what the handler returned if that has the type of the service.\<close>

definition answered :: "'v \<Rightarrow> string \<Rightarrow> ('v, 'b) proto res \<Rightarrow> ('v, 'b) proto res \<Rightarrow> bool" where
  "answered v service r0 r \<longleftrightarrow> (\<exists>t. r = Panic t) \<or> (\<exists>y. r = Ok y \<and> (is_error v service y \<or> r0 = Ok y \<and> proto_type y = responseType service))"

lemma serverMethodV1_handled:
  assumes "base_header request = Some w" and "handle (requestType service) (request\<lparr>base_header := Some v\<rparr>) c = (r0, c')"
  shows "\<exists>r. serverMethodV1 v goType service handle request c = (r, c') \<and> answered v service r0 r"
  using assms by (cases r0) (simp_all add: serverMethodV1_def aTry_def answered_def)

lemma serverMethodV2_handled:
  assumes "validate request = Ok ()" and "base_header request = Some w" and "handle (requestType service) (request\<lparr>base_header := Some v\<rparr>) c = (r0, c')"
  shows "\<exists>r. serverMethodV2 v goType validate service handle request c = (r, c') \<and> answered v service r0 r"
  using assms by (cases r0) (simp_all add: serverMethodV2_def aTry_def aBind_def deref_def answered_def)

lemma serverMethod_cases:
  assumes "serverMethod v goType validate service handle request c = (r, c')"
  shows "(c' = c \<and> ((\<exists>y. r = Ok y \<and> is_error v service y) \<or> (\<exists>t. r = Panic t))) \<or>
    (\<exists>r0. handle (requestType service) (request\<lparr>base_header := Some v\<rparr>) c = (r0, c') \<and> answered v service r0 r)"
proof -
  obtain r0 c0 where h: "handle (requestType service) (request\<lparr>base_header := Some v\<rparr>) c = (r0, c0)" by (metis prod.exhaust)
  show ?thesis
  proof (cases "service \<in> set headerServices")
    case True
    then have m: "serverMethodV1 v goType service handle request c = (r, c')" using assms by (simp add: serverMethod_def)
    show ?thesis
    proof (cases "base_header request")
      case None
      then have "r = Ok (errorResponseV1 v service (Error ErrNilResponseHeader))" "c' = c" using m by (simp_all add: serverMethodV1_def)
      then show ?thesis by simp
    next
      case (Some w)
      from serverMethodV1_handled[where handle = handle and goType = goType, OF this h] have "c' = c0" "answered v service r0 r" unfolding m by auto
      then show ?thesis using h by blast
    qed
  next
    case False
    then have m: "serverMethodV2 v goType validate service handle request c = (r, c')" using assms by (simp add: serverMethod_def)
    show ?thesis
    proof (cases "validate request = Ok () \<and> base_header request \<noteq> None")
      case True
      then obtain w where "validate request = Ok ()" "base_header request = Some w" by blast
      from serverMethodV2_handled[where handle = handle and goType = goType and validate = validate, OF this h] have "c' = c0" "answered v service r0 r" unfolding m by auto
      then show ?thesis using h by blast
    next
      case False
      then have "c' = c \<and> ((\<exists>y. r = Ok y \<and> is_error v service y) \<or> (\<exists>t. r = Panic t))"
        using m by (cases "validate request") (auto simp: serverMethodV2_def aTry_def aBind_def deref_def)
      then show ?thesis by blast
    qed
  qed
qed

section \<open>Properties\<close>

text \<open>Property C30: a call of the partner plugin to another account, for each of the 48 services. It never
  panics, and it fails as a gRPC call only if the handler panicked: all errors are answered in a
  response of the type of the service, with the bot's version. The message processor is used at most
  once, with the plugin's request under the bot's version, for the one recipient that the metadata of
  the call names, and not at all if there is no such recipient. A response that is not an error of the
  bot is the content of the response the processor returned, has the type of the service, and was
  preceded by one header with the ID of that response.\<close>

lemma service_call:
  assumes "service \<in> set serviceNames"
    and "interceptors env md clk service full (serverMethod v goType validate service (HandleMessageRequest env send clk uuid md) request) c = (r, c')"
  shows "(\<forall>t. r \<noteq> Panic t) \<and>
    (\<forall>e. r = Fail e \<longrightarrow> (\<exists>t. fst (serverMethod v goType validate service (HandleMessageRequest env send clk uuid md) request c) = Panic t)) \<and>
    (let x = (\<lambda>a. send (fresh_request (clk 0) uuid (requestType service) (request\<lparr>base_header := Some v\<rparr>)) a (served_by c)) in
      (served_by c' = served_by c \<or> (\<exists>a. recipient_of env md = Some a \<and> served_by c' = snd (x a))) \<and>
      (\<forall>y. r = Ok y \<longrightarrow> proto_type y = responseType service \<and>
         (is_error v service y \<or> (\<exists>a m ts. recipient_of env md = Some a \<and> fst (x a) = Ok m \<and> y = msg_Content m \<and>
            sentHeaders c' = sentHeaders c @ [[(''request_id'', msg_RequestID m), (''timestamps'', ts)]]))))"
proof -
  let ?S = "serverMethod v goType validate service (HandleMessageRequest env send clk uuid md) request"
  let ?H = "HandleMessageRequest env send clk uuid md (requestType service) (request\<lparr>base_header := Some v\<rparr>)"
  let ?x = "\<lambda>a. send (fresh_request (clk 0) uuid (requestType service) (request\<lparr>base_header := Some v\<rparr>)) a (served_by c)"
  have "unaryRecoverInterceptor env md full ?S c = (r, c')"
    using assms(2) unfolding interceptors_def if_not_P[OF peer_services_not_cancellation[OF assms(1)]] .
  from recover_result[OF this] obtain r1 where s: "?S c = (r1, c')" and r: "r = r1 \<or> (\<exists>t e. r1 = Panic t \<and> r = Fail e)" and np: "\<forall>t. r \<noteq> Panic t"
    by blast
  from serverMethod_cases[OF s] have cases: "(c' = c \<and> ((\<exists>y. r1 = Ok y \<and> is_error v service y) \<or> (\<exists>t. r1 = Panic t))) \<or>
    (\<exists>r0. ?H c = (r0, c') \<and> answered v service r0 r1)" .
  have handled: "(served_by c' = served_by c \<or> (\<exists>a. recipient_of env md = Some a \<and> served_by c' = snd (?x a))) \<and>
      (\<forall>y. r0 = Ok y \<longrightarrow> (\<exists>a m ts. recipient_of env md = Some a \<and> fst (?x a) = Ok m \<and> y = msg_Content m \<and>
            sentHeaders c' = sentHeaders c @ [[(''request_id'', msg_RequestID m), (''timestamps'', ts)]]))"
    if h: "?H c = (r0, c')" for r0
  proof (cases "recipient_of env md")
    case None
    then show ?thesis using handle_result[OF h] by auto
  next
    case (Some a)
    then show ?thesis using handle_result[OF h] by simp
  qed
  have no_fail: "\<forall>e. r1 \<noteq> Fail e"
    using cases
  proof
    assume "\<exists>r0. ?H c = (r0, c') \<and> answered v service r0 r1"
    then obtain r0 where "answered v service r0 r1" by blast
    then show ?thesis unfolding answered_def by auto
  qed auto
  have "\<exists>t. fst (?S c) = Panic t" if "r = Fail e" for e
    using r no_fail s that by auto
  moreover have "served_by c' = served_by c \<or> (\<exists>a. recipient_of env md = Some a \<and> served_by c' = snd (?x a))"
    using cases
  proof
    assume "\<exists>r0. ?H c = (r0, c') \<and> answered v service r0 r1"
    then obtain r0 where "?H c = (r0, c')" by blast
    from handled[OF this] show ?thesis by (rule conjunct1)
  qed simp
  moreover have "proto_type y = responseType service \<and> (is_error v service y \<or> (\<exists>a m ts. recipient_of env md = Some a \<and> fst (?x a) = Ok m \<and>
      y = msg_Content m \<and> sentHeaders c' = sentHeaders c @ [[(''request_id'', msg_RequestID m), (''timestamps'', ts)]]))" if y: "r = Ok y" for y
  proof -
    have r1: "r1 = Ok y" using r y by auto
    from cases have "is_error v service y \<or> (\<exists>r0. ?H c = (r0, c') \<and> r0 = Ok y \<and> proto_type y = responseType service)"
    proof
      assume "\<exists>r0. ?H c = (r0, c') \<and> answered v service r0 r1"
      then obtain r0 where "?H c = (r0, c')" "answered v service r0 r1" by blast
      then show ?thesis unfolding answered_def r1 by auto
    qed (simp add: r1)
    then show ?thesis
    proof
      assume "\<exists>r0. ?H c = (r0, c') \<and> r0 = Ok y \<and> proto_type y = responseType service"
      then obtain r0 where h: "?H c = (r0, c')" "r0 = Ok y" and t: "proto_type y = responseType service" by blast
      from conjunct2[OF handled[OF h(1)]] h(2) have "\<exists>a m ts. recipient_of env md = Some a \<and> fst (?x a) = Ok m \<and>
        y = msg_Content m \<and> sentHeaders c' = sentHeaders c @ [[(''request_id'', msg_RequestID m), (''timestamps'', ts)]]" by blast
      with t show ?thesis by (intro conjI disjI2)
    qed (simp add: is_error_def)
  qed
  ultimately show ?thesis unfolding Let_def using np by (intro conjI allI impI) simp_all
qed

text \<open>A ping whose metadata names two recipients is answered with an error and sent to nobody.\<close>

definition sample_ping :: string where "sample_ping = ''ttm.services.ping.v2.PingService''"

definition sample_request :: "(nat, nat) proto" where
  "sample_request = \<lparr>proto_type = requestType sample_ping, base_header = Some 0, proto_body = Body 1\<rparr>"

definition sample_response :: "(nat, nat) proto" where
  "sample_response = \<lparr>proto_type = responseType sample_ping, base_header = Some 4, proto_body = Body 2\<rparr>"

definition sample_peer :: "(nat, nat) proto message \<Rightarrow> address \<Rightarrow> (address list, (nat, nat) proto message) act" where
  "sample_peer m a = (\<lambda>s. (Ok (m\<lparr>msg_Content := sample_response\<rparr>), s @ [a]))"

definition sample_validate :: "(nat, nat) proto \<Rightarrow> unit res" where
  "sample_validate q = (if base_header q = None then Fail (Sentinel ''required'') else Ok ())"

definition sample_call :: "string list \<Rightarrow> (nat, nat) proto res \<times> address list grpc_call" where
  "sample_call rs = interceptors sample_srv (Some [''recipient_ttm_account'' \<mapsto> rs]) (\<lambda>_. 0) sample_ping ''/ping''
     (serverMethod 13 (\<lambda>t. t) sample_validate sample_ping
       (HandleMessageRequest sample_srv sample_peer (\<lambda>_. 0) ''1'' (Some [''recipient_ttm_account'' \<mapsto> rs])) sample_request)
     \<lparr>served_by = [], sentHeaders = []\<rparr>"

lemma service_call_witness:
  "\<exists>y. fst (sample_call [''a'', ''b'']) = Ok y \<and> is_error 13 sample_ping y \<and> served_by (snd (sample_call [''a'', ''b''])) = [] \<and>
     fst (sample_call [''a'']) = Ok sample_response \<and> served_by (snd (sample_call [''a''])) = [7]"
proof -
  have ping: "sample_ping \<in> set serviceNames" by code_simp
  note call = service_call[OF ping prod.collapse[symmetric], where v = 13 and goType = "\<lambda>t. t" and validate = sample_validate and env = sample_srv
      and clk = "\<lambda>_. 0" and uuid = "''1''" and full = "''/ping''" and request = sample_request and send = sample_peer
      and c = "\<lparr>served_by = [], sentHeaders = []\<rparr>"]
  have two: "fst (sample_call [''a'', ''b'']) = Ok (res_val (fst (sample_call [''a'', ''b''])))" by code_simp
  have one: "fst (sample_call [''a'']) = Ok sample_response" "served_by (snd (sample_call [''a''])) = [7]" by code_simp+
  have "recipient_of sample_srv (Some [''recipient_ttm_account'' \<mapsto> [''a'', ''b'']]) = None" by (simp add: recipient_of_def)
  with call[of "Some [''recipient_ttm_account'' \<mapsto> [''a'', ''b'']]"] two
  have "is_error 13 sample_ping (res_val (fst (sample_call [''a'', ''b''])))" "served_by (snd (sample_call [''a'', ''b''])) = []"
    unfolding sample_call_def Let_def by auto
  then show ?thesis using two one by blast
qed

definition plugin_answer ::
  "'v \<Rightarrow> (('v, 'b) proto \<Rightarrow> unit res) \<Rightarrow> string \<Rightarrow> (('v, 'b) proto \<Rightarrow> ('v, 'b) proto res) \<Rightarrow> ('v, 'b) proto \<Rightarrow> ('v, 'b) proto \<Rightarrow> bool" where
  "plugin_answer v validate service stub request y \<longleftrightarrow> proto_type y = responseType service \<and> base_header y = Some v \<and>
    (is_error v service y \<or> (\<exists>y0. proto_type request = requestType service \<and> stub request = Ok y0 \<and> y = y0\<lparr>base_header := Some v\<rparr> \<and>
       (service \<notin> set headerServices \<longrightarrow> validate y0 = Ok ())))"

lemma plugin_answer_error: "is_error v service y \<Longrightarrow> plugin_answer v validate service stub request y"
  by (simp add: plugin_answer_def is_error_def)

lemma clientCallV1_answers:
  assumes "service \<in> set headerServices" and "\<And>y. stub request = Ok y \<Longrightarrow> proto_type y = responseType service" and "\<And>t. stub request \<noteq> Panic t"
  shows "\<exists>y. clientCallV1 v goType service stub request = Ok (y, responseType service) \<and> plugin_answer v validate service stub request y"
proof (cases "proto_type request = requestType service")
  case True
  show ?thesis
  proof (cases "stub request")
    case (Ok y0)
    then have "base_header y0 = Some w \<Longrightarrow> plugin_answer v validate service stub request (y0\<lparr>base_header := Some v\<rparr>)" for w
      using True assms(1,2) by (auto simp: plugin_answer_def)
    then show ?thesis using True Ok by (cases "base_header y0") (simp_all add: clientCallV1_def plugin_answer_error)
  qed (use True assms(3) in \<open>simp_all add: clientCallV1_def plugin_answer_error\<close>)
qed (simp add: clientCallV1_def plugin_answer_error)

lemma clientCallV2_answers:
  assumes "\<And>y. stub request = Ok y \<Longrightarrow> proto_type y = responseType service" and "\<And>q. validate q = Ok () \<Longrightarrow> base_header q \<noteq> None"
    and "\<And>t. stub request \<noteq> Panic t" and "\<And>q t. validate q \<noteq> Panic t"
  shows "\<exists>y. clientCallV2 v goType validate service stub request = Ok (y, responseType service) \<and> plugin_answer v validate service stub request y"
proof (cases "proto_type request = requestType service")
  case True
  show ?thesis
  proof (cases "stub request")
    case (Ok y0)
    show ?thesis
    proof (cases "validate y0")
      case (Ok u)
      then obtain w where "base_header y0 = Some w" using assms(2)[of y0] by auto
      moreover have "plugin_answer v validate service stub request (y0\<lparr>base_header := Some v\<rparr>)"
        using True Ok \<open>stub request = Ok y0\<close> assms(1) by (auto simp: plugin_answer_def)
      ultimately show ?thesis using True Ok \<open>stub request = Ok y0\<close> by (simp add: clientCallV2_def)
    qed (use True Ok assms(4) in \<open>simp_all add: clientCallV2_def plugin_answer_error\<close>)
  qed (use True assms(3) in \<open>simp_all add: clientCallV2_def plugin_answer_error\<close>)
qed (simp add: clientCallV2_def plugin_answer_error)

lemma typed_response_returned:
  assumes "base_header q \<noteq> None" and "validate q = Ok ()" and "handle (requestType service) (q\<lparr>base_header := Some v\<rparr>) c = (Ok y, c')"
    and "proto_type y = responseType service"
  shows "serverMethod v goType validate service handle q c = (Ok y, c')"
  using assms by (auto simp: serverMethod_def serverMethodV1_def serverMethodV2_def aTry_def aBind_def deref_def)

text \<open>Property C31: the plugin's answer to a request of another account. If the plugin's stub returns typed
  responses, validated messages have a header, and neither stub nor validation panics, then a client
  call always returns a message and the message type of the service's response, with the bot's version
  in its header: an error, or the plugin's response to a request of the right type, valid where the
  service validates. And when this answer comes back to the bot that asked, its server method for the
  same service returns it unchanged.\<close>

lemma plugin_answer_reaches_caller:
  fixes v :: 'v and stub :: "('v, 'b) proto \<Rightarrow> ('v, 'b) proto res"
  assumes "\<forall>q y. stub q = Ok y \<longrightarrow> proto_type y = responseType service" and "\<forall>q. validate q = Ok () \<longrightarrow> base_header q \<noteq> None"
    and "\<forall>q t. stub q \<noteq> Panic t" and "\<forall>q t. validate q \<noteq> Panic t"
  shows "\<exists>y. clientCall v goType validate service stub request = Ok (y, responseType service) \<and>
    proto_type y = responseType service \<and> base_header y = Some v \<and>
    (is_error v service y \<or> (\<exists>y0. proto_type request = requestType service \<and> stub request = Ok y0 \<and> y = y0\<lparr>base_header := Some v\<rparr> \<and>
       (service \<notin> set headerServices \<longrightarrow> validate y0 = Ok ()))) \<and>
    (\<forall>v' (handle :: mtype \<Rightarrow> ('v, 'b) proto \<Rightarrow> ('s, ('v, 'b) proto) act) q c c'. base_header q \<noteq> None \<and> validate q = Ok () \<and> handle (requestType service) (q\<lparr>base_header := Some v'\<rparr>) c = (Ok y, c') \<longrightarrow>
       serverMethod v' goType validate service handle q c = (Ok y, c'))"
proof -
  have "\<exists>y. clientCall v goType validate service stub request = Ok (y, responseType service) \<and> plugin_answer v validate service stub request y"
    using clientCallV1_answers[of service stub request v goType validate] clientCallV2_answers[of stub request service validate v goType] assms
    unfolding clientCall_def by (cases "service \<in> set headerServices") simp_all
  then obtain y where y: "clientCall v goType validate service stub request = Ok (y, responseType service)" "plugin_answer v validate service stub request y"
    by blast
  then have t: "proto_type y = responseType service" by (simp add: plugin_answer_def)
  show ?thesis
  proof (intro exI[of _ y] conjI allI impI)
    fix v' and handle :: "mtype \<Rightarrow> ('v, 'b) proto \<Rightarrow> ('s, ('v, 'b) proto) act" and q c c'
    assume "base_header q \<noteq> None \<and> validate q = Ok () \<and> handle (requestType service) (q\<lparr>base_header := Some v'\<rparr>) c = (Ok y, c')"
    then show "serverMethod v' goType validate service handle q c = (Ok y, c')" using t by (intro typed_response_returned) simp_all
  qed (use y in \<open>simp_all add: plugin_answer_def\<close>)
qed

lemma plugin_answer_reaches_caller_witness:
  "\<exists>y. clientCall 13 (\<lambda>t. t) sample_validate sample_ping (\<lambda>_. Ok sample_response) sample_request = Ok (y, responseType sample_ping) \<and>
     base_header y = Some 13 \<and>
     serverMethod 9 (\<lambda>t. t) sample_validate sample_ping (\<lambda>_ _ s. (Ok y, s + 1)) sample_request (5 :: nat) = (Ok y, 6)"
proof -
  have typed: "\<forall>(q :: (nat, nat) proto) y. Ok sample_response = Ok y \<longrightarrow> proto_type y = responseType sample_ping"
    by (auto simp: sample_response_def)
  have header: "\<forall>q. sample_validate q = Ok () \<longrightarrow> base_header q \<noteq> None" by (auto simp: sample_validate_def split: if_splits)
  have calm: "\<forall>(q :: (nat, nat) proto) t. Ok sample_response \<noteq> Panic t" "\<forall>q t. sample_validate q \<noteq> Panic t"
    by (simp_all add: sample_validate_def)
  obtain y where y: "clientCall 13 (\<lambda>t. t) sample_validate sample_ping (\<lambda>_. Ok sample_response) sample_request = Ok (y, responseType sample_ping)"
      "base_header y = Some 13"
    and returned: "\<forall>v' (handle :: mtype \<Rightarrow> (nat, nat) proto \<Rightarrow> (nat, (nat, nat) proto) act) q c c'. base_header q \<noteq> None \<and> sample_validate q = Ok () \<and>
        handle (requestType sample_ping) (q\<lparr>base_header := Some v'\<rparr>) c = (Ok y, c') \<longrightarrow>
       serverMethod v' (\<lambda>t. t) sample_validate sample_ping handle q c = (Ok y, c')"
    using plugin_answer_reaches_caller[where stub = "\<lambda>_. Ok sample_response" and service = sample_ping and validate = sample_validate and v = 13
        and goType = "\<lambda>t. t" and request = sample_request, OF typed header calm] by (elim exE conjE)
  have "serverMethod 9 (\<lambda>t. t) sample_validate sample_ping (\<lambda>_ _ s. (Ok y, s + 1)) sample_request (5 :: nat) = (Ok y, 6)"
    using returned[THEN spec, of 9, THEN spec, of "\<lambda>_ _ s. (Ok y, s + 1)", THEN spec, of sample_request, THEN spec, of 5, THEN spec, of 6]
    by (simp add: sample_request_def sample_validate_def)
  then show ?thesis using y by (intro exI[of _ y] conjI)
qed

end
