(* ===== verification/Subscriber.thy ===== *)
theory Subscriber
  imports Event_Handlers
begin

text \<open>
  The subscriber of contract events, \<^verbatim>\<open>internal/eventlistener/subscriber/subscriber.go\<close>, with the part of
  \<^verbatim>\<open>event_listener.go\<close> that reads its errors. Each subscription has a goroutine that hands events to a
  handler and, if the handler panics, offers the error on a channel that all share. The watching of the
  contract and the resubscription after a failure (go-ethereum) are steps that may happen at any time; a
  watch starts from the block number that all subscriptions share.
\<close>

section \<open>Events and handlers\<close>

datatype eventKind = ServiceAdded | TokenBought | CancellationPending | CancellationFinalized | CancellationWithdrawn | CancellationRejected

datatype contractEvent =
    TokenBoughtEvent tokenBoughtEvent
  | CancellationPendingEvent cancellationPendingEvent
  | CancellationFinalizedEvent cancellationFinalizedEvent
  | CancellationWithdrawnEvent cancellationReasonEvent
  | CancellationRejectedEvent cancellationReasonEvent

fun event_kind :: "contractEvent \<Rightarrow> eventKind" where
  "event_kind (TokenBoughtEvent _) = TokenBought"
| "event_kind (CancellationPendingEvent _) = CancellationPending"
| "event_kind (CancellationFinalizedEvent _) = CancellationFinalized"
| "event_kind (CancellationWithdrawnEvent _) = CancellationWithdrawn"
| "event_kind (CancellationRejectedEvent _) = CancellationRejected"

text \<open>The handlers the event listener subscribes with.\<close>

fun handleEvent :: "listener_env \<Rightarrow> time \<Rightarrow> contractEvent \<Rightarrow> (eventListener, uint64) act" where
  "handleEvent env now (TokenBoughtEvent e) = tokenBoughtEventHandler env now e"
| "handleEvent env now (CancellationPendingEvent e) = cancellationPendingEventHandler env e"
| "handleEvent env now (CancellationFinalizedEvent e) = cancellationFinalizedEventHandler env e"
| "handleEvent env now (CancellationWithdrawnEvent e) = cancellationWithdrawnEventHandler env e"
| "handleEvent env now (CancellationRejectedEvent e) = cancellationRejectedEventHandler env e"

section \<open>State\<close>

datatype goroutine = Handling | Reporting msgtext | Gone

record subscription =
  sub_kind :: eventKind
  sub_goroutine :: goroutine
  sub_open :: bool
  sub_watch :: "uint64 option"

text \<open>The reader is the goroutine of \<open>eventListener.Start\<close>: it takes one value from the error channel, passes
  it on and stops the subscriber. \<open>panics\<close> records the panics of handlers, \<open>crashed\<close> a panic that
  nothing recovers.\<close>

datatype reader = NotStarted | Receiving | Received "msgtext option"

record subscriber =
  blockNumber :: uint64
  subscriptions :: "subscription list"
  closerStarted :: bool
  errChanClosed :: bool
  stopChanClosed :: bool
  errReader :: reader
  panics :: "msgtext list"
  crashed :: bool

definition New :: "unit res \<Rightarrow> uint64 \<Rightarrow> subscriber res" where
  "New bookingToken n =
     onErr bookingToken (wrap ''failed to create booking token contract binding: '') (\<lambda>_.
       Ok \<lparr>blockNumber = n, subscriptions = [], closerStarted = False, errChanClosed = False, stopChanClosed = False,
           errReader = NotStarted, panics = [], crashed = False\<rparr>)"

text \<open>\<open>startResubscriber\<close>, which all \<open>Subscribe\<close> methods call with their kind.\<close>

definition startResubscriber :: "eventKind \<Rightarrow> subscriber \<Rightarrow> subscriber" where
  "startResubscriber k s = s\<lparr>subscriptions := subscriptions s @ [\<lparr>sub_kind = k, sub_goroutine = Handling, sub_open = True, sub_watch = None\<rparr>],
     closerStarted := True\<rparr>"

definition SubscribeTokenBought :: "subscriber \<Rightarrow> subscriber" where "SubscribeTokenBought = startResubscriber TokenBought"
definition SubscribeCancellationPending :: "subscriber \<Rightarrow> subscriber" where "SubscribeCancellationPending = startResubscriber CancellationPending"
definition SubscribeCancellationFinalized :: "subscriber \<Rightarrow> subscriber" where "SubscribeCancellationFinalized = startResubscriber CancellationFinalized"
definition SubscribeCancellationWithdrawn :: "subscriber \<Rightarrow> subscriber" where "SubscribeCancellationWithdrawn = startResubscriber CancellationWithdrawn"
definition SubscribeCancellationRejected :: "subscriber \<Rightarrow> subscriber" where "SubscribeCancellationRejected = startResubscriber CancellationRejected"

definition SubscribeServiceAdded :: "address res \<Rightarrow> subscriber \<Rightarrow> unit res \<times> subscriber" where
  "SubscribeServiceAdded ttmAccount s =
     (case ttmAccount of Ok _ \<Rightarrow> (Ok (), startResubscriber ServiceAdded s) | Fail e \<Rightarrow> (Fail e, s) | Panic t \<Rightarrow> (Panic t, s))"

definition Stop :: "subscriber \<Rightarrow> subscriber" where "Stop s = s\<lparr>stopChanClosed := True\<rparr>"

abbreviation sub_at :: "subscriber \<Rightarrow> nat \<Rightarrow> subscription" where "sub_at s i \<equiv> subscriptions s ! i"

definition set_sub :: "nat \<Rightarrow> (subscription \<Rightarrow> subscription) \<Rightarrow> subscriber \<Rightarrow> subscriber" where
  "set_sub i f s = s\<lparr>subscriptions := (subscriptions s)[i := f (sub_at s i)]\<rparr>"

text \<open>One round of the loop over the events.\<close>

definition handleNext :: "nat \<Rightarrow> uint64 res \<Rightarrow> subscriber \<Rightarrow> subscriber" where
  "handleNext i r s =
     (case r of
        Ok n \<Rightarrow> s\<lparr>blockNumber := storeBlock (blockNumber s) n\<rparr>
      | Panic t \<Rightarrow> (set_sub i (sub_goroutine_update (\<lambda>_. Reporting t)) s)\<lparr>panics := panics s @ [t]\<rparr>
      | Fail _ \<Rightarrow> s)"

definition gone :: "nat \<Rightarrow> subscriber \<Rightarrow> subscriber" where
  "gone i = set_sub i (sub_goroutine_update (\<lambda>_. Gone))"

section \<open>Steps\<close>

text \<open>The flag says whether subscriptions may be ended while the listener still starts. \<open>Start\<close> subscribes,
  then starts the reader.\<close>

inductive sub_step :: "bool \<Rightarrow> ('e \<Rightarrow> eventKind) \<Rightarrow> (time \<Rightarrow> 'e \<Rightarrow> ('l, uint64) act) \<Rightarrow> subscriber \<times> 'l \<Rightarrow> subscriber \<times> 'l \<Rightarrow> bool"
  for early kindOf handle where
  subscribes: "errReader s = NotStarted \<Longrightarrow> sub_step early kindOf handle (s, l) (startResubscriber k s, l)"
| reader_starts: "errReader s = NotStarted \<Longrightarrow> sub_step early kindOf handle (s, l) (s\<lparr>errReader := Receiving\<rparr>, l)"
| watches: "i < length (subscriptions s) \<Longrightarrow>
    sub_step early kindOf handle (s, l) (set_sub i (sub_watch_update (\<lambda>_. Some (blockNumber s))) s, l)"
| watch_fails: "i < length (subscriptions s) \<Longrightarrow> sub_step early kindOf handle (s, l) (set_sub i (sub_watch_update (\<lambda>_. None)) s, l)"
| event: "i < length (subscriptions s) \<Longrightarrow> sub_goroutine (sub_at s i) = Handling \<Longrightarrow> sub_open (sub_at s i) \<Longrightarrow>
    sub_watch (sub_at s i) \<noteq> None \<Longrightarrow> kindOf e = sub_kind (sub_at s i) \<Longrightarrow> handle now e l = (r, l') \<Longrightarrow>
    sub_step early kindOf handle (s, l) (handleNext i r s, l')"
| unsubscribes: "i < length (subscriptions s) \<Longrightarrow> sub_open (sub_at s i) \<Longrightarrow> early \<or> errReader s \<noteq> NotStarted \<Longrightarrow>
    sub_step early kindOf handle (s, l) (set_sub i (\<lambda>f. f\<lparr>sub_open := False, sub_watch := None\<rparr>) s, l)"
| loop_ends: "i < length (subscriptions s) \<Longrightarrow> sub_goroutine (sub_at s i) = Handling \<Longrightarrow> \<not> sub_open (sub_at s i) \<Longrightarrow>
    sub_step early kindOf handle (s, l) (gone i s, l)"
| reports: "i < length (subscriptions s) \<Longrightarrow> sub_goroutine (sub_at s i) = Reporting t \<Longrightarrow> errReader s = Receiving \<Longrightarrow> \<not> errChanClosed s \<Longrightarrow>
    sub_step early kindOf handle (s, l) ((gone i s)\<lparr>errReader := Received (Some t)\<rparr>, l)"
| reports_closed: "i < length (subscriptions s) \<Longrightarrow> sub_goroutine (sub_at s i) = Reporting t \<Longrightarrow> errChanClosed s \<Longrightarrow>
    sub_step early kindOf handle (s, l) (s\<lparr>crashed := True\<rparr>, l)"
| drops: "i < length (subscriptions s) \<Longrightarrow> sub_goroutine (sub_at s i) = Reporting t \<Longrightarrow> stopChanClosed s \<Longrightarrow>
    sub_step early kindOf handle (s, l) (gone i s, l)"
| closes: "closerStarted s \<Longrightarrow> \<forall>f \<in> set (subscriptions s). sub_goroutine f = Gone \<Longrightarrow> \<not> errChanClosed s \<Longrightarrow>
    sub_step early kindOf handle (s, l) (s\<lparr>errChanClosed := True\<rparr>, l)"
| reads_closed: "errReader s = Receiving \<Longrightarrow> errChanClosed s \<Longrightarrow>
    sub_step early kindOf handle (s, l) (s\<lparr>errReader := Received None\<rparr>, l)"
| stops: "errReader s = Received v \<Longrightarrow> sub_step early kindOf handle (s, l) (Stop s, l)"

section \<open>Invariant of a listener that is not stopped while it starts\<close>

lemma set_sub_sel [simp]:
  "blockNumber (set_sub i f s) = blockNumber s" "closerStarted (set_sub i f s) = closerStarted s" "errChanClosed (set_sub i f s) = errChanClosed s"
  "stopChanClosed (set_sub i f s) = stopChanClosed s" "errReader (set_sub i f s) = errReader s" "panics (set_sub i f s) = panics s"
  "crashed (set_sub i f s) = crashed s" "subscriptions (set_sub i f s) = (subscriptions s)[i := f (sub_at s i)]"
  by (simp_all add: set_sub_def)

definition feed_inv :: "goroutine list \<Rightarrow> reader \<Rightarrow> bool \<Rightarrow> bool \<Rightarrow> bool \<Rightarrow> msgtext list \<Rightarrow> bool" where
  "feed_inv gs rd errClosed closer stopped ps \<longleftrightarrow>
     (rd = NotStarted \<longrightarrow> \<not> errClosed \<and> Gone \<notin> set gs) \<and>
     (closer \<longrightarrow> gs \<noteq> []) \<and>
     (errClosed \<or> rd = Received None \<longrightarrow> Handling \<notin> set gs \<and> (\<forall>t. Reporting t \<notin> set gs)) \<and>
     (stopped \<longrightarrow> (\<exists>v. rd = Received v)) \<and>
     (rd = Received None \<longrightarrow> ps = []) \<and>
     (\<forall>t. rd = Received (Some t) \<or> Reporting t \<in> set gs \<longrightarrow> t \<in> set ps) \<and>
     (rd = NotStarted \<or> rd = Receiving \<longrightarrow> ps \<noteq> [] \<longrightarrow> (\<exists>t. Reporting t \<in> set gs))"

definition sub_inv :: "subscriber \<Rightarrow> bool" where
  "sub_inv s \<longleftrightarrow> \<not> crashed s \<and> (errReader s = NotStarted \<longrightarrow> (\<forall>f \<in> set (subscriptions s). sub_open f)) \<and>
     feed_inv (map sub_goroutine (subscriptions s)) (errReader s) (errChanClosed s) (closerStarted s) (stopChanClosed s) (panics s)"

lemma in_update: "i < length xs \<Longrightarrow> xs ! i \<noteq> y \<Longrightarrow> y \<noteq> x \<Longrightarrow> y \<in> set (xs[i := x]) \<longleftrightarrow> y \<in> set xs"
  by (metis in_set_conv_nth length_list_update nth_list_update_neq nth_list_update_eq)

lemma new_in_update: "i < length xs \<Longrightarrow> x \<in> set (xs[i := x])"
  by (rule set_update_memI)

lemma update_in: "y \<in> set (xs[i := x]) \<Longrightarrow> y = x \<or> y \<in> set xs"
  using set_update_subset_insert by fastforce

text \<open>A goroutine ends its loop, reports, drops its report, or starts to report a panic.\<close>

lemma inv_ends:
  assumes "feed_inv gs rd ec cl st ps" and i: "i < length gs" and "gs ! i = Handling" and "rd \<noteq> NotStarted"
  shows "feed_inv (gs[i := Gone]) rd ec cl st ps"
proof -
  have "Handling \<in> set gs" using assms(2,3) by (metis nth_mem)
  moreover have "Reporting t \<in> set (gs[i := Gone]) \<longleftrightarrow> Reporting t \<in> set gs" for t using assms(2,3) by (simp add: in_update)
  ultimately show ?thesis using assms(1,4) unfolding feed_inv_def by auto
qed

lemma inv_reports:
  assumes "feed_inv gs Receiving ec cl st ps" and "i < length gs" and "gs ! i = Reporting t"
  shows "feed_inv (gs[i := Gone]) (Received (Some t)) ec cl st ps"
proof -
  have "Reporting t \<in> set gs" using assms(2,3) by (metis nth_mem)
  then show ?thesis using assms(1) update_in[of _ gs i Gone] unfolding feed_inv_def by auto
qed

lemma inv_drops:
  assumes "feed_inv gs (Received v) ec cl st ps" and "i < length gs" and "gs ! i = Reporting t"
  shows "feed_inv (gs[i := Gone]) (Received v) ec cl st ps"
proof -
  have "Reporting t \<in> set gs" using assms(2,3) by (metis nth_mem)
  then show ?thesis using assms(1) update_in[of _ gs i Gone] unfolding feed_inv_def by auto
qed

lemma inv_panics:
  assumes "feed_inv gs rd ec cl st ps" and "i < length gs" and "gs ! i = Handling"
  shows "feed_inv (gs[i := Reporting t]) rd ec cl st (ps @ [t])"
proof -
  have "Handling \<in> set gs" using assms(2,3) by (metis nth_mem)
  then show ?thesis using assms(1) update_in[of _ gs i "Reporting t"] new_in_update[OF assms(2), of "Reporting t"] unfolding feed_inv_def by auto
qed

lemma goroutines_same:
  "i < length (subscriptions s) \<Longrightarrow> sub_goroutine (f (sub_at s i)) = sub_goroutine (sub_at s i) \<Longrightarrow>
     map sub_goroutine ((subscriptions s)[i := f (sub_at s i)]) = map sub_goroutine (subscriptions s)"
  by (simp add: map_update list_update_same_conv)

lemma goroutine_mem: "i < length (subscriptions s) \<Longrightarrow> sub_goroutine (sub_at s i) = g \<Longrightarrow> g \<in> set (map sub_goroutine (subscriptions s))"
  by auto

lemma inv_closes:
  assumes "feed_inv gs rd ec cl st ps" and cl and "set gs \<subseteq> {Gone}"
  shows "feed_inv gs rd True cl st ps"
proof -
  have "gs \<noteq> []" using assms(1,2) unfolding feed_inv_def by blast
  then have "set gs = {Gone}" using assms(3) by (cases gs) auto
  then show ?thesis using assms(1) unfolding feed_inv_def by auto
qed

lemma closed_no_report: "feed_inv gs rd True cl st ps \<Longrightarrow> Reporting t \<in> set gs \<Longrightarrow> P"
  unfolding feed_inv_def by blast

lemma inv_subscribes: "feed_inv gs NotStarted ec cl st ps \<Longrightarrow> feed_inv (gs @ [Handling]) NotStarted ec True st ps"
  unfolding feed_inv_def by simp

lemma inv_reader_starts: "feed_inv gs NotStarted ec cl st ps \<Longrightarrow> feed_inv gs Receiving ec cl st ps"
  unfolding feed_inv_def by simp

lemma inv_reads_closed: "feed_inv gs Receiving True cl st ps \<Longrightarrow> feed_inv gs (Received None) True cl st ps"
  unfolding feed_inv_def by auto

lemma inv_stops: "feed_inv gs (Received v) ec cl st ps \<Longrightarrow> feed_inv gs (Received v) ec cl True ps"
  unfolding feed_inv_def by simp

lemma sub_inv_step:
  assumes "sub_step False kindOf handle (s, l) (s', l')" and "sub_inv s"
  shows "sub_inv s'"
proof -
  let ?gs = "map sub_goroutine (subscriptions s)"
  have c: "\<not> crashed s" and o: "errReader s = NotStarted \<Longrightarrow> f \<in> set (subscriptions s) \<Longrightarrow> sub_open f"
    and i: "feed_inv ?gs (errReader s) (errChanClosed s) (closerStarted s) (stopChanClosed s) (panics s)" for f
    using assms(2) unfolding sub_inv_def by blast+
  have open_kept: "sub_open g" if "errReader s = NotStarted" "g \<in> set ((subscriptions s)[j := f])" "sub_open f" for j f g
    using o[OF that(1)] update_in[OF that(2)] that(3) by blast
  from assms(1) show ?thesis
  proof (cases rule: sub_step.cases)
    case (subscribes k)
    then show ?thesis using c o inv_subscribes i by (simp add: sub_inv_def startResubscriber_def)
  next
    case reader_starts
    then show ?thesis using c inv_reader_starts i by (simp add: sub_inv_def)
  next
    case (watches j)
    then show ?thesis using c i o by (auto simp: sub_inv_def goroutines_same dest!: update_in)
  next
    case (watch_fails j)
    then show ?thesis using c i o by (auto simp: sub_inv_def goroutines_same dest!: update_in)
  next
    case (event j e now r)
    show ?thesis
    proof (cases r)
      case (Panic t)
      have "feed_inv (?gs[j := Reporting t]) (errReader s) (errChanClosed s) (closerStarted s) (stopChanClosed s) (panics s @ [t])"
        using event(2,3) by (intro inv_panics[OF i]) simp_all
      then show ?thesis using Panic event(1,4) c open_kept by (simp add: sub_inv_def handleNext_def map_update)
    qed (use event(1) c i o in \<open>simp_all add: sub_inv_def handleNext_def\<close>)
  next
    case (unsubscribes j)
    then show ?thesis using c i goroutines_same[of j s "\<lambda>f. f\<lparr>sub_open := False, sub_watch := None\<rparr>"] by (simp add: sub_inv_def)
  next
    case (loop_ends j)
    then have n: "errReader s \<noteq> NotStarted" using o by auto
    have "feed_inv (?gs[j := Gone]) (errReader s) (errChanClosed s) (closerStarted s) (stopChanClosed s) (panics s)"
      using loop_ends(3,4) n by (intro inv_ends[OF i]) simp_all
    then show ?thesis using loop_ends(1) c n by (simp add: sub_inv_def gone_def map_update)
  next
    case (reports j t)
    have "feed_inv (?gs[j := Gone]) (Received (Some t)) (errChanClosed s) (closerStarted s) (stopChanClosed s) (panics s)"
      using reports(3-5) i by (intro inv_reports) simp_all
    then show ?thesis using reports(1) c by (simp add: sub_inv_def gone_def map_update)
  next
    case (reports_closed j t)
    then have "Reporting t \<in> set ?gs" by (intro goroutine_mem[of j])
    then show ?thesis using closed_no_report i reports_closed(5) by metis
  next
    case (drops j t)
    then obtain v where v: "errReader s = Received v" using i unfolding feed_inv_def by blast
    have "feed_inv (?gs[j := Gone]) (Received v) (errChanClosed s) (closerStarted s) (stopChanClosed s) (panics s)"
      using drops(3,4) i v by (intro inv_drops) simp_all
    then show ?thesis using drops(1) c v by (simp add: sub_inv_def gone_def map_update)
  next
    case closes
    then have "set ?gs \<subseteq> {Gone}" by auto
    then have "feed_inv ?gs (errReader s) True (closerStarted s) (stopChanClosed s) (panics s)" using closes(3) by (intro inv_closes[OF i])
    then show ?thesis using closes(1) c o by (simp add: sub_inv_def)
  next
    case reads_closed
    then show ?thesis using c inv_reads_closed i by (simp add: sub_inv_def)
  next
    case (stops v)
    then show ?thesis using c inv_stops i by (simp add: sub_inv_def Stop_def)
  qed
qed

interpretation feeds: step_invariant "sub_step False kindOf handle" "\<lambda>x. sub_inv (fst x)" for kindOf handle
  by unfold_locales (metis sub_inv_step prod.collapse)

lemma sub_inv_New: "New b n = Ok s \<Longrightarrow> sub_inv s"
  by (cases b) (auto simp: New_def sub_inv_def feed_inv_def)

section \<open>Properties\<close>




end
