(* ===== verification/Config.thy ===== *)
theory Config
  imports Go_Prelude
begin

text \<open>
  The configuration, \<^verbatim>\<open>config/config.go\<close> and \<^verbatim>\<open>config/config_reader.go\<close>: reading it through viper, parsing
  the raw values and writing a parsed configuration back. Viper, the key parser and the address
  functions of go-ethereum are parameters; durations are 64-bit products and wrap.
\<close>

section \<open>Types (config.go)\<close>

record PartnerPluginConfig =
  pp_Enabled :: bool
  pp_Host :: string
  pp_Unencrypted :: bool
  pp_CACertFile :: string

record RPCServerConfig =
  rpc_Enabled :: bool
  rpc_Port :: uint64
  rpc_Unencrypted :: bool
  rpc_ServerCertFile :: string
  rpc_ServerKeyFile :: string

record MatrixConfig =
  mx_Host :: string
  mx_Store :: string

record SQLiteDBConfig =
  db_Common :: string
  db_EventListener :: string
  db_MessagesEncoderDecoder :: string
  db_Resolver :: string

record 'k Config =
  DeveloperMode :: bool
  E2ETestMode :: bool
  BotKey :: 'k
  TTMAccountAddress :: address
  ChainRPCURL :: string
  BookingTokenAddress :: address
  BotAuthCacheTimeout :: duration
  ResponseTimeout :: duration
  RecordExpiration :: bool
  TokenVisibleMaxAttempts :: int
  TokenVisibleRetryDelay :: duration
  RPCServer :: RPCServerConfig
  PartnerPlugin :: PartnerPluginConfig
  DB :: SQLiteDBConfig
  Matrix :: MatrixConfig

record UnparsedConfig =
  u_DeveloperMode :: bool
  u_E2ETestMode :: bool
  u_BotKey :: string
  u_TTMAccountAddress :: string
  u_ChainRPCURL :: string
  u_BookingTokenAddress :: string
  u_BotAuthCacheTimeout :: int64
  u_ResponseTimeout :: int64
  u_RecordExpiration :: bool
  u_TokenVisibleMaxAttempts :: int64
  u_TokenVisibleRetryDelay :: int64
  u_PartnerPlugin :: PartnerPluginConfig
  u_RPCServer :: RPCServerConfig
  u_MatrixHost :: string
  u_DBPath :: string

text \<open>\<open>HexToECDSA\<close> and \<open>hex(FromECDSA)\<close>, \<open>IsHexAddress\<close>, \<open>HexToAddress\<close> and \<open>Hex\<close>.\<close>

record 'k config_env =
  HexToECDSA :: "string \<Rightarrow> 'k res"
  FromECDSA_hex :: "'k \<Rightarrow> string"
  cfg_IsHexAddress :: "string \<Rightarrow> bool"
  cfg_HexToAddress :: "string \<Rightarrow> address"
  Address_Hex :: "address \<Rightarrow> string"

definition unparse :: "'k config_env \<Rightarrow> 'k Config \<Rightarrow> UnparsedConfig" where
  "unparse env cfg = \<lparr>
     u_DeveloperMode = DeveloperMode cfg,
     u_E2ETestMode = E2ETestMode cfg,
     u_BotKey = FromECDSA_hex env (BotKey cfg),
     u_TTMAccountAddress = Address_Hex env (TTMAccountAddress cfg),
     u_ChainRPCURL = ChainRPCURL cfg,
     u_BookingTokenAddress = Address_Hex env (BookingTokenAddress cfg),
     u_BotAuthCacheTimeout = word_of_int (quot (BotAuthCacheTimeout cfg) second),
     u_ResponseTimeout = word_of_int (quot (ResponseTimeout cfg) millisecond),
     u_RecordExpiration = RecordExpiration cfg,
     u_TokenVisibleMaxAttempts = word_of_int (TokenVisibleMaxAttempts cfg),
     u_TokenVisibleRetryDelay = word_of_int (quot (TokenVisibleRetryDelay cfg) millisecond),
     u_PartnerPlugin = PartnerPlugin cfg,
     u_RPCServer = RPCServer cfg,
     u_MatrixHost = mx_Host (Matrix cfg),
     u_DBPath = db_Common (DB cfg)\<rparr>"

section \<open>Parsing (config_reader.go)\<close>

definition errInvalidRawConfig :: err where "errInvalidRawConfig = Sentinel ''invalid raw config''"
definition errEmptyConfigPath :: err where "errEmptyConfigPath = Sentinel ''config path is empty''"
definition errInvalidTTMAccountAddress :: err where "errInvalidTTMAccountAddress = Sentinel ''invalid TTM account address''"
definition errInvalidBookingTokenAddress :: err where "errInvalidBookingTokenAddress = Sentinel ''invalid booking token address''"
definition errNonPositiveTokenVisibleAttempts :: err where
  "errNonPositiveTokenVisibleAttempts = Sentinel ''token_visible_max_attempts must be >= 1''"
definition errNegativeTokenVisibleRetryDelay :: err where
  "errNegativeTokenVisibleRetryDelay = Sentinel ''token_visible_retry_delay must be >= 0''"

definition parseConfig :: "'k config_env \<Rightarrow> UnparsedConfig \<Rightarrow> 'k Config res" where
  "parseConfig env cfg =
     onErr (HexToECDSA env (u_BotKey cfg)) (wrap ''failed to parse bot key: '') (\<lambda>botKey.
     if \<not> cfg_IsHexAddress env (u_TTMAccountAddress cfg) then Fail errInvalidTTMAccountAddress
     else if \<not> cfg_IsHexAddress env (u_BookingTokenAddress cfg) then Fail errInvalidBookingTokenAddress
     else if sint (u_TokenVisibleMaxAttempts cfg) < 1 then Fail errNonPositiveTokenVisibleAttempts
     else if sint (u_TokenVisibleRetryDelay cfg) < 0 then Fail errNegativeTokenVisibleRetryDelay
     else Ok \<lparr>
       DeveloperMode = u_DeveloperMode cfg,
       E2ETestMode = u_E2ETestMode cfg,
       BotKey = botKey,
       TTMAccountAddress = cfg_HexToAddress env (u_TTMAccountAddress cfg),
       ChainRPCURL = u_ChainRPCURL cfg,
       BookingTokenAddress = cfg_HexToAddress env (u_BookingTokenAddress cfg),
       BotAuthCacheTimeout = sint (u_BotAuthCacheTimeout cfg * 1000000000),
       ResponseTimeout = sint (u_ResponseTimeout cfg * 1000000),
       RecordExpiration = u_RecordExpiration cfg,
       TokenVisibleMaxAttempts = sint (u_TokenVisibleMaxAttempts cfg),
       TokenVisibleRetryDelay = sint (u_TokenVisibleRetryDelay cfg * 1000000),
       RPCServer = u_RPCServer cfg,
       PartnerPlugin = u_PartnerPlugin cfg,
       DB = \<lparr>db_Common = u_DBPath cfg, db_EventListener = u_DBPath cfg @ ''/event_listener'',
         db_MessagesEncoderDecoder = u_DBPath cfg @ ''/messages_encoder_decoder'', db_Resolver = u_DBPath cfg @ ''/resolver''\<rparr>,
       Matrix = \<lparr>mx_Host = u_MatrixHost cfg, mx_Store = u_DBPath cfg @ ''/matrix''\<rparr>\<rparr>)"

text \<open>Viper: binding the flags, the path it has for the file, reading the file, and the values it ends with,
  which depend on whether the file was read.\<close>

record viper =
  BindPFlags :: "unit res"
  configPath :: string
  ReadInConfig :: "unit res"
  viper_Unmarshal :: "bool \<Rightarrow> UnparsedConfig res"

definition ReadConfig :: "'k config_env \<Rightarrow> viper \<Rightarrow> 'k Config res" where
  "ReadConfig env v =
     onErr (BindPFlags v) (wrap ''failed to bind flags: '') (\<lambda>_.
     if configPath v = [] then Fail errEmptyConfigPath
     else
     onErr (case ReadInConfig v of
              Fail e \<Rightarrow> if errors_Is e ''file does not exist'' then Ok False else Fail e
            | Ok _ \<Rightarrow> Ok True
            | Panic t \<Rightarrow> Panic t) (\<lambda>e. e) (\<lambda>found.
     onErr (viper_Unmarshal v found) (wrap ''failed to unmarshal config: '') (\<lambda>cfg.
     onErr (parseConfig env cfg) (\<lambda>e. Err (Error errInvalidRawConfig @ [PStr '': ''] @ Error e) [errInvalidRawConfig, e]) Ok)))"

section \<open>Lemmas\<close>

text \<open>A product that fits is exact, and the quotient takes it back.\<close>

lemma sint_mult_fits:
  fixes x :: int64
  assumes "- (2 ^ 63) \<le> sint x * sint y" and "sint x * sint y < 2 ^ 63"
  shows "sint (x * y) = sint x * sint y"
  using assms by (simp add: sint_word_ariths(3) signed_take_bit_int_eq_self)

text \<open>Documented behaviour of go-ethereum: printing is the inverse of parsing.\<close>

definition env_ok :: "'k config_env \<Rightarrow> bool" where
  "env_ok env \<longleftrightarrow> (\<forall>k. HexToECDSA env (FromECDSA_hex env k) = Ok k) \<and>
     (\<forall>a. cfg_IsHexAddress env (Address_Hex env a) \<and> cfg_HexToAddress env (Address_Hex env a) = a)"

definition fits :: "int64 \<Rightarrow> int \<Rightarrow> bool" where
  "fits x u \<longleftrightarrow> - (2 ^ 63) \<le> sint x * u \<and> sint x * u < 2 ^ 63"

text \<open>No duration of the raw configuration overflows.\<close>

definition durations_fit :: "UnparsedConfig \<Rightarrow> bool" where
  "durations_fit cfg \<longleftrightarrow> fits (u_BotAuthCacheTimeout cfg) second \<and> fits (u_ResponseTimeout cfg) millisecond \<and>
     fits (u_TokenVisibleRetryDelay cfg) millisecond"

lemma fits_scaled:
  "fits x second \<Longrightarrow> sint (x * 1000000000) = sint x * second" "fits x millisecond \<Longrightarrow> sint (x * 1000000) = sint x * millisecond"
  using sint_mult_fits[of x "1000000000"] sint_mult_fits[of x "1000000"] by (simp_all add: fits_def)

lemma fits_quot:
  "fits x second \<Longrightarrow> word_of_int (quot (sint (x * 1000000000)) second) = x"
  "fits x millisecond \<Longrightarrow> word_of_int (quot (sint (x * 1000000)) millisecond) = x"
  by (simp_all add: fits_scaled quot_mult)


section \<open>Properties\<close>

lemma parseConfig_Ok:
  assumes "parseConfig env cfg = Ok c"
  shows "1 \<le> TokenVisibleMaxAttempts c" "sint (u_TokenVisibleRetryDelay cfg) \<ge> 0"
    "TokenVisibleMaxAttempts c = sint (u_TokenVisibleMaxAttempts cfg)"
    "TokenVisibleRetryDelay c = sint (u_TokenVisibleRetryDelay cfg * 1000000)"
  using assms by (auto simp: parseConfig_def onErr_def split: res.splits if_splits)

text \<open>Property C40: reading a configuration that was written back gives the same configuration. For every
  raw configuration that is accepted and whose durations fit 64 bits, parsing what \<open>unparse\<close> writes
  yields the parsed configuration again, and its durations are exactly the raw seconds and
  milliseconds.\<close>

lemma config_roundtrip:
  assumes "env_ok env" and "durations_fit raw" and "parseConfig env raw = Ok cfg"
  shows "parseConfig env (unparse env cfg) = Ok cfg \<and>
    BotAuthCacheTimeout cfg = sint (u_BotAuthCacheTimeout raw) * second \<and>
    ResponseTimeout cfg = sint (u_ResponseTimeout raw) * millisecond \<and>
    TokenVisibleRetryDelay cfg = sint (u_TokenVisibleRetryDelay raw) * millisecond \<and> 0 \<le> TokenVisibleRetryDelay cfg"
proof -
  from assms(3) obtain key where key: "HexToECDSA env (u_BotKey raw) = Ok key"
    and ok: "\<not> sint (u_TokenVisibleMaxAttempts raw) < 1" "\<not> sint (u_TokenVisibleRetryDelay raw) < 0"
      "cfg_IsHexAddress env (u_TTMAccountAddress raw)" "cfg_IsHexAddress env (u_BookingTokenAddress raw)"
    by (auto simp: parseConfig_def onErr_def split: res.splits if_splits)
  have cfg: "cfg = res_val (parseConfig env raw)" using assms(3) by simp
  note fit = assms(2)[unfolded durations_fit_def]
  have "BotAuthCacheTimeout cfg = sint (u_BotAuthCacheTimeout raw) * second" "ResponseTimeout cfg = sint (u_ResponseTimeout raw) * millisecond"
    "TokenVisibleRetryDelay cfg = sint (u_TokenVisibleRetryDelay raw) * millisecond"
    using fit by (simp_all add: cfg parseConfig_def key ok fits_scaled)
  moreover have "parseConfig env (unparse env cfg) = Ok cfg"
    using fit assms(1) ok by (simp add: cfg parseConfig_def key ok unparse_def fits_quot env_ok_def)
  ultimately show ?thesis using ok(2) by auto
qed

definition sample_config_env :: "nat config_env" where
  "sample_config_env = \<lparr>HexToECDSA = (\<lambda>s. if s = [] then Fail (Sentinel ''invalid length'') else Ok (length s - 1)),
     FromECDSA_hex = (\<lambda>k. replicate (Suc k) CHR ''0''), cfg_IsHexAddress = (\<lambda>_. True), cfg_HexToAddress = (\<lambda>s. word_of_nat (length s)),
     Address_Hex = (\<lambda>a. replicate (unat a) CHR ''0'')\<rparr>"

definition sample_raw :: UnparsedConfig where
  "sample_raw = \<lparr>u_DeveloperMode = False, u_E2ETestMode = False, u_BotKey = ''00'', u_TTMAccountAddress = ''0x1'', u_ChainRPCURL = ''c'',
     u_BookingTokenAddress = ''0x22'', u_BotAuthCacheTimeout = 60, u_ResponseTimeout = 30000, u_RecordExpiration = True,
     u_TokenVisibleMaxAttempts = 5, u_TokenVisibleRetryDelay = 500,
     u_PartnerPlugin = \<lparr>pp_Enabled = True, pp_Host = ''h'', pp_Unencrypted = True, pp_CACertFile = []\<rparr>,
     u_RPCServer = \<lparr>rpc_Enabled = True, rpc_Port = 9090, rpc_Unencrypted = True, rpc_ServerCertFile = [], rpc_ServerKeyFile = []\<rparr>,
     u_MatrixHost = ''m'', u_DBPath = ''d''\<rparr>"

lemma config_roundtrip_witness:
  "\<exists>cfg. parseConfig sample_config_env sample_raw = Ok cfg \<and> parseConfig sample_config_env (unparse sample_config_env cfg) = Ok cfg \<and>
     ResponseTimeout cfg = 30 * second"
proof -
  have "env_ok sample_config_env" by (simp add: env_ok_def sample_config_env_def)
  moreover have "durations_fit sample_raw" by (simp add: durations_fit_def fits_def sample_raw_def)
  moreover have "\<exists>cfg. parseConfig sample_config_env sample_raw = Ok cfg" by (simp add: parseConfig_def sample_config_env_def sample_raw_def)
  ultimately show ?thesis using config_roundtrip[of sample_config_env sample_raw] by (force simp: sample_raw_def)
qed

text \<open>What the booking service relies on: at least one attempt to read a reservation.\<close>

lemma accepted_attempts_positive:
  assumes "ReadConfig env v = Ok cfg"
  shows "1 \<le> TokenVisibleMaxAttempts cfg \<and> configPath v \<noteq> []"
  using assms parseConfig_Ok(1)[of env]
  by (auto simp: ReadConfig_def onErr_def split: res.splits if_splits)

text \<open>The check of the retry delay is made on the milliseconds: a delay that is too long for a duration is
  accepted and wraps to a negative one.\<close>

lemma retry_delay_wraps:
  "\<exists>cfg. parseConfig sample_config_env (sample_raw\<lparr>u_TokenVisibleRetryDelay := 9223372036855\<rparr>) = Ok cfg \<and> TokenVisibleRetryDelay cfg < 0"
  by (simp add: parseConfig_def sample_config_env_def sample_raw_def)

end
