(* ===== verification/App.thy ===== *)
theory App
  imports Config Effects
begin

text \<open>
  The life of the bot, \<^verbatim>\<open>internal/app/app.go\<close>: \<open>Run\<close> starts the components in goroutines of an error group,
  waits, and stops them. Every goroutine is a task; the steps of all tasks interleave. What a
  component's \<open>Start\<close> returns or its error channel delivers, and when the caller cancels, is arbitrary.
  The order of the calls to the components is recorded. The construction of the components in
  \<open>NewApp\<close> is a sequence of calls of which the first that fails ends it.
\<close>

section \<open>Construction (NewApp)\<close>

text \<open>The results of the constructors, in the order in which they are called; which of them are called
  depends on nothing but the earlier ones.\<close>

record 'a app_parts =
  ethclient_Dial :: "unit res"
  evmClient_ChainID :: "int res"
  tls_LoadCATLSCredentials :: "string \<Rightarrow> unit res"
  grpc_NewClient :: "string \<Rightarrow> 'a res"
  messaging_NewServiceRegistry :: "unit res"
  ttmaccounts_NewService :: "unit res"
  ttmAccounts_IsUpToDate :: "bool res"
  erc20_NewERC20Service :: "unit res"
  booking_NewService :: "unit res"
  eventlistener_storage_New :: "string \<Rightarrow> unit res"
  eventlistener_New :: "bool \<Rightarrow> unit res"
  messaging_NewResponseHandler :: "unit res"
  url_Parse :: "string \<Rightarrow> string res"
  UserIDFromAddress :: "string \<Rightarrow> string"
  matrix_client_New :: "string \<Rightarrow> string \<Rightarrow> string \<Rightarrow> unit res"
  encoder_storage_New :: "string \<Rightarrow> unit res"
  encoding_NewEncoderDecoder :: "unit res"
  resolver_storage_New :: "string \<Rightarrow> unit res"
  messenger_NewMessenger :: "unit res"
  tls_LoadTLSCredentials :: "string \<Rightarrow> string \<Rightarrow> unit res"
  grpc_NewServer :: 'a

record 'a app =
  rpcClient :: "'a option"
  rpcServer :: "'a option"
  botUserID :: string
  pluginSet :: bool

text \<open>\<open>client.NewClient\<close> and \<open>server.NewServer\<close>: nothing if disabled, and credentials unless unencrypted.\<close>

definition NewClient :: "'a app_parts \<Rightarrow> PartnerPluginConfig \<Rightarrow> 'a option res" where
  "NewClient p cfg =
     (if \<not> pp_Enabled cfg then Ok None
      else onErr (if pp_Unencrypted cfg then Ok () else tls_LoadCATLSCredentials p (pp_CACertFile cfg)) (wrap ''could not load TLS keys: '') (\<lambda>_.
           onErr (grpc_NewClient p (pp_Host cfg)) (\<lambda>e. e) (\<lambda>c. Ok (Some c))))"

definition NewServer :: "'a app_parts \<Rightarrow> RPCServerConfig \<Rightarrow> 'a option res" where
  "NewServer p cfg =
     (if \<not> rpc_Enabled cfg then Ok None
      else onErr (if rpc_Unencrypted cfg then Ok () else tls_LoadTLSCredentials p (rpc_ServerCertFile cfg) (rpc_ServerKeyFile cfg))
             (wrap ''could not load TLS keys: '') (\<lambda>_. Ok (Some (grpc_NewServer p))))"

fun contains :: "string \<Rightarrow> string \<Rightarrow> bool" where
  "contains p [] \<longleftrightarrow> p = []"
| "contains p (c # cs) \<longleftrightarrow> take (length p) (c # cs) = p \<or> contains p cs"

definition matrixHostname :: "(string \<Rightarrow> string res) \<Rightarrow> string \<Rightarrow> string res" where
  "matrixHostname parse host =
     onErr (parse (if contains ''://'' host then host else ''dummy://'' @ host)) (wrap ''failed to parse matrix host: '') Ok"

text \<open>\<open>pluginSet\<close> says whether the plugin handed to the event listener and the message processor is set or
  the nil interface.\<close>

definition NewApp :: "'a app_parts \<Rightarrow> 'k Config \<Rightarrow> 'a app res" where
  "NewApp p cfg =
     onErr (ethclient_Dial p) (wrap ''failed to connect to Ethereum client: '') (\<lambda>_.
     onErr (evmClient_ChainID p) (wrap ''failed to fetch chain id: '') (\<lambda>_.
     onErr (NewClient p (PartnerPlugin cfg)) (wrap ''failed to create rpc client: '') (\<lambda>rpcClient.
     onErr (messaging_NewServiceRegistry p) (wrap ''failed to create service registry: '') (\<lambda>_.
     let partnerPlugin = pp_Enabled (PartnerPlugin cfg) in
     onErr (ttmaccounts_NewService p) (wrap ''failed to create ttm accounts service: '') (\<lambda>_.
     onErr (ttmAccounts_IsUpToDate p) (wrap ''failed to compare TTMAccount implementations: '') (\<lambda>_.
     onErr (erc20_NewERC20Service p) (wrap ''failed to create erc20 service: '') (\<lambda>_.
     onErr (booking_NewService p) (wrap ''failed to create booking service: '') (\<lambda>_.
     onErr (eventlistener_storage_New p (db_EventListener (DB cfg))) (wrap ''failed to create event listener storage: '') (\<lambda>_.
     onErr (eventlistener_New p partnerPlugin) (wrap ''failed to create event listener: '') (\<lambda>_.
     onErr (messaging_NewResponseHandler p) (wrap ''failed to create response handler: '') (\<lambda>_.
     onErr (matrixHostname (url_Parse p) (mx_Host (Matrix cfg))) (\<lambda>e. e) (\<lambda>hostname.
     let botUserID = UserIDFromAddress p hostname in
     onErr (matrix_client_New p (mx_Host (Matrix cfg)) (mx_Store (Matrix cfg)) botUserID) (wrap ''failed to create matrix client: '') (\<lambda>_.
     onErr (encoder_storage_New p (db_MessagesEncoderDecoder (DB cfg))) (wrap ''failed to create messages encoder/decoder storage: '') (\<lambda>_.
     onErr (encoding_NewEncoderDecoder p) (wrap ''failed to create messages encoder/decoder: '') (\<lambda>_.
     onErr (resolver_storage_New p (db_Resolver (DB cfg))) (\<lambda>e. e) (\<lambda>_.
     onErr (messenger_NewMessenger p) (wrap ''failed to create matrix messenger: '') (\<lambda>_.
     onErr (NewServer p (RPCServer cfg)) (wrap ''failed to create rpc server: '') (\<lambda>rpcServer.
       Ok \<lparr>rpcClient = rpcClient, rpcServer = rpcServer, botUserID = botUserID, pluginSet = partnerPlugin\<rparr>))))))))))))))))))"

text \<open>An application that was created has the plugin client and the server exactly if they are enabled.\<close>

lemma NewApp_enabled:
  assumes "NewApp p cfg = Ok a"
  shows "rpcClient a \<noteq> None \<longleftrightarrow> pp_Enabled (PartnerPlugin cfg)" "rpcServer a \<noteq> None \<longleftrightarrow> rpc_Enabled (RPCServer cfg)"
    "pluginSet a \<longleftrightarrow> pp_Enabled (PartnerPlugin cfg)"
  using assms by (auto simp: NewApp_def NewClient_def NewServer_def Let_def onErr_def split: res.splits if_splits)

section \<open>Running\<close>

text \<open>The goroutines of \<open>Run\<close>.\<close>

datatype task = RunListener | RunProcessor | RunMessenger | RunServer | StopClient | StopServer | StopMessenger | StopListener

text \<open>A task waits for its channels or for the context, is inside the call that starts or stops its
  component, waits for the error channel of its component, or has returned.\<close>

datatype phase = Awaiting | Calling | Watching | Returned "err option"

text \<open>The context, the error group, the tasks that exist, the closed channels, and the calls of components so far.\<close>

record running =
  cancelled :: bool
  firstError :: "err option"
  tasks :: "task \<Rightarrow> phase option"
  startedChans :: "task set"
  calls :: "task list"

text \<open>The channels a task awaits before it starts its component; the tasks that stop a component await
  the context only.\<close>

fun awaits :: "task \<Rightarrow> task list" where
  "awaits RunMessenger = [RunProcessor, RunListener]"
| "awaits RunServer = [RunMessenger]"
| "awaits _ = []"

fun stops :: "task \<Rightarrow> bool" where
  "stops StopClient = True"
| "stops StopServer = True"
| "stops StopMessenger = True"
| "stops StopListener = True"
| "stops _ = False"

text \<open>\<open>Run\<close> creates the tasks of the server and of the plugin client only if these exist.\<close>

definition Run :: "'a app \<Rightarrow> running" where
  "Run a = \<lparr>cancelled = False, firstError = None,
     tasks = (\<lambda>t. if t \<in> {RunServer, StopServer} \<and> rpcServer a = None then None
                  else if t = StopClient \<and> rpcClient a = None then None else Some Awaiting),
     startedChans = {}, calls = []\<rparr>"

text \<open>A task of the error group returns: the first error is kept and cancels the context.\<close>

definition taskReturns :: "task \<Rightarrow> err option \<Rightarrow> running \<Rightarrow> running" where
  "taskReturns t e s =
     (let s = s\<lparr>tasks := (tasks s)(t \<mapsto> Returned e)\<rparr>
      in case e of
           Some err \<Rightarrow> if firstError s = None then s\<lparr>firstError := Some err, cancelled := True\<rparr> else s
         | None \<Rightarrow> s)"

text \<open>The error of a start, of a stop, of an error channel, and of a panic, as the task returns them.\<close>

fun startError :: "task \<Rightarrow> err \<Rightarrow> err" where
  "startError RunListener e = wrap ''failed to start event listener: '' e"
| "startError RunMessenger e = wrap ''failed to start matrix messenger: '' e"
| "startError RunServer e = wrap ''failed to start gRPC server: '' e"
| "startError StopClient e = wrap ''failed to stop gRPC client: '' e"
| "startError StopMessenger e = wrap ''failed to stop matrix messenger: '' e"
| "startError _ e = e"

fun watchError :: "task \<Rightarrow> err \<Rightarrow> err" where
  "watchError RunListener e = wrap ''event listener failed with error: '' e"
| "watchError RunMessenger e = wrap ''matrix messenger failed with error: '' e"
| "watchError RunServer e = wrap ''gRPC server failed with error: '' e"
| "watchError _ e = e"

text \<open>Which tasks can fail in their call, which watch an error channel afterwards, and which errors are ignored.\<close>

definition canFail :: "task \<Rightarrow> bool" where
  "canFail t \<longleftrightarrow> t \<in> {RunListener, RunMessenger, RunServer, StopClient, StopMessenger}"

definition watches :: "task \<Rightarrow> bool" where
  "watches t \<longleftrightarrow> t \<in> {RunListener, RunMessenger, RunServer}"

definition ignored :: "task \<Rightarrow> err \<Rightarrow> bool" where
  "ignored t e \<longleftrightarrow> errors_Is e ''context canceled'' \<or> t = RunServer \<and> errors_Is e ''grpc: the server has been stopped''"

text \<open>\<open>awaitChans\<close> looks at the channels in order; with the context cancelled as well, either may be taken.\<close>

inductive app_step :: "running \<Rightarrow> running \<Rightarrow> bool" where
  caller_cancels: "app_step s (s\<lparr>cancelled := True\<rparr>)"
| calls_component: "tasks s t = Some Awaiting \<Longrightarrow> set (awaits t) \<subseteq> startedChans s \<Longrightarrow> stops t \<longrightarrow> cancelled s \<Longrightarrow>
    app_step s (s\<lparr>tasks := (tasks s)(t \<mapsto> Calling), calls := calls s @ [t]\<rparr>)"
| gives_up: "tasks s t = Some Awaiting \<Longrightarrow> awaits t \<noteq> [] \<Longrightarrow> cancelled s \<Longrightarrow> app_step s (taskReturns t None s)"
| call_panics: "tasks s t = Some Calling \<Longrightarrow> app_step s (taskReturns t (Some (Err (PStr ''panic: '' # m) [])) s)"
| call_fails: "tasks s t = Some Calling \<Longrightarrow> canFail t \<Longrightarrow> \<not> (stops t \<and> errors_Is e ''context canceled'') \<Longrightarrow>
    app_step s (taskReturns t (Some (startError t e)) s)"
| call_ends: "tasks s t = Some Calling \<Longrightarrow> \<not> watches t \<Longrightarrow>
    app_step s ((taskReturns t None s)\<lparr>startedChans := (if t = RunProcessor then insert t (startedChans s) else startedChans s)\<rparr>)"
| component_runs: "tasks s t = Some Calling \<Longrightarrow> watches t \<Longrightarrow>
    app_step s (s\<lparr>tasks := (tasks s)(t \<mapsto> Watching), startedChans := (if t = RunServer then startedChans s else insert t (startedChans s))\<rparr>)"
| component_fails: "tasks s t = Some Watching \<Longrightarrow> \<not> ignored t e \<Longrightarrow> app_step s (taskReturns t (Some (watchError t e)) s)"
| component_ends: "tasks s t = Some Watching \<Longrightarrow> app_step s (taskReturns t None s)"

definition finished :: "running \<Rightarrow> bool" where
  "finished s \<longleftrightarrow> (\<forall>t. case tasks s t of None \<Rightarrow> True | Some p \<Rightarrow> \<exists>e. p = Returned e)"

text \<open>\<open>g.Wait\<close> and the result of \<open>Run\<close>.\<close>

definition waitResult :: "running \<Rightarrow> unit res" where
  "waitResult s = (case firstError s of None \<Rightarrow> Ok () | Some e \<Rightarrow> Fail e)"


section \<open>Invariants\<close>

definition precedes :: "'x \<Rightarrow> 'x \<Rightarrow> 'x list \<Rightarrow> bool" where
  "precedes x y l \<longleftrightarrow> (\<forall>us vs. l = us @ y # vs \<longrightarrow> x \<in> set us)"

lemma precedes_snoc: "precedes x y (l @ [z]) \<longleftrightarrow> precedes x y l \<and> (z = y \<longrightarrow> x \<in> set l)"
proof -
  have "precedes x y (l @ [z]) \<Longrightarrow> precedes x y l" unfolding precedes_def by (metis append.assoc append_Cons)
  moreover have "precedes x y (l @ [y]) \<Longrightarrow> x \<in> set l" unfolding precedes_def by blast
  moreover have "precedes x y (l @ [z])" if p: "precedes x y l" "z = y \<longrightarrow> x \<in> set l"
    unfolding precedes_def
  proof (intro allI impI)
    fix us vs assume eq: "l @ [z] = us @ y # vs"
    show "x \<in> set us"
    proof (cases vs rule: rev_cases)
      case Nil
      then show ?thesis using eq p by auto
    next
      case (snoc ws w)
      then have "l = us @ y # ws" using eq by auto
      then show ?thesis using p unfolding precedes_def by blast
    qed
  qed
  ultimately show ?thesis by blast
qed

text \<open>What holds at any moment of a run, of the calls and of the errors.\<close>

definition calls_inv :: "running \<Rightarrow> bool" where
  "calls_inv s \<longleftrightarrow>
     distinct (calls s) \<and> startedChans s \<subseteq> set (calls s) \<and>
     (\<forall>t. tasks s t = Some Awaiting \<longrightarrow> t \<notin> set (calls s)) \<and>
     (\<forall>t p. tasks s t = Some p \<longrightarrow> p \<noteq> Awaiting \<longrightarrow> awaits t = [] \<or> (\<forall>e. p \<noteq> Returned e) \<longrightarrow> t \<in> set (calls s)) \<and>
     (\<forall>t \<in> set (calls s). tasks s t \<noteq> None \<and> (stops t \<longrightarrow> cancelled s)) \<and>
     (\<forall>t u. u \<in> set (awaits t) \<longrightarrow> precedes u t (calls s))"

definition errors_inv :: "running \<Rightarrow> bool" where
  "errors_inv s \<longleftrightarrow>
     (\<forall>e. firstError s = Some e \<longrightarrow> cancelled s \<and> (\<exists>t. tasks s t = Some (Returned (Some e)))) \<and>
     (firstError s = None \<longrightarrow> (\<forall>t e. tasks s t \<noteq> Some (Returned (Some e))))"

lemma inv_Run: "calls_inv (Run a)" "errors_inv (Run a)"
  by (auto simp: calls_inv_def errors_inv_def Run_def precedes_def split: if_splits)

lemma taskReturns_sel [simp]:
  "tasks (taskReturns t e s) = (tasks s)(t \<mapsto> Returned e)" "calls (taskReturns t e s) = calls s"
  "startedChans (taskReturns t e s) = startedChans s"
  "firstError (taskReturns t e s) = (if firstError s = None then e else firstError s)"
  "cancelled (taskReturns t e s) \<longleftrightarrow> cancelled s \<or> firstError s = None \<and> e \<noteq> None"
  by (auto simp: taskReturns_def Let_def split: option.splits)

text \<open>A task that has made its call, or gives up waiting for a channel, returns.\<close>

lemma calls_inv_returns:
  assumes "calls_inv s" and "tasks s t = Some p" and "\<forall>x. p \<noteq> Returned x" and "p = Awaiting \<longrightarrow> awaits t \<noteq> []"
  shows "calls_inv (taskReturns t e s)"
proof -
  have "awaits t = [] \<Longrightarrow> t \<in> set (calls s)" using assms unfolding calls_inv_def by blast
  then show ?thesis using assms(1,2) unfolding calls_inv_def by auto
qed

lemma errors_inv_returns:
  assumes "errors_inv s" and "tasks s t = Some p" and "\<forall>x. p \<noteq> Returned x"
  shows "errors_inv (taskReturns t e s)"
proof (cases "firstError s")
  case None
  then show ?thesis using assms(1) unfolding errors_inv_def by (cases e) auto
next
  case (Some e0)
  then obtain u where "tasks s u = Some (Returned (Some e0))" "cancelled s" using assms(1) unfolding errors_inv_def by blast
  moreover have "u \<noteq> t" using calculation assms(2,3) by auto
  ultimately show ?thesis using Some unfolding errors_inv_def by auto
qed

lemma errors_inv_moves:
  assumes "errors_inv s" and "tasks s t = Some p" and "\<forall>x. p \<noteq> Returned x" and "\<forall>x. q \<noteq> Returned x"
    and "tasks s' = (tasks s)(t \<mapsto> q)" and "firstError s' = firstError s" and "cancelled s' = cancelled s"
  shows "errors_inv s'"
proof -
  have "tasks s' u = Some (Returned x) \<longleftrightarrow> tasks s u = Some (Returned x)" for u x using assms by auto
  then show ?thesis using assms(1,6,7) unfolding errors_inv_def by simp
qed

lemma calls_inv_frame:
  assumes "calls_inv s" and "tasks s' = tasks s" "calls s' = calls s" "startedChans s' \<subseteq> set (calls s)" "cancelled s \<longrightarrow> cancelled s'"
  shows "calls_inv s'"
  using assms unfolding calls_inv_def by auto

lemma calls_inv_call:
  assumes "calls_inv s" and "tasks s t = Some Awaiting" and "set (awaits t) \<subseteq> startedChans s" and "stops t \<longrightarrow> cancelled s"
  shows "calls_inv (s\<lparr>tasks := (tasks s)(t \<mapsto> Calling), calls := calls s @ [t]\<rparr>)"
  using assms unfolding calls_inv_def by (auto simp: precedes_snoc)

lemma inv_step: "app_step s s' \<Longrightarrow> calls_inv s \<and> errors_inv s \<Longrightarrow> calls_inv s' \<and> errors_inv s'"
proof (induction rule: app_step.induct)
  case (caller_cancels s)
  then show ?case unfolding calls_inv_def errors_inv_def by auto
next
  case (calls_component s t)
  then show ?case using calls_inv_call[of s t] by (auto intro: errors_inv_moves[of s t Awaiting Calling])
next
  case (gives_up s t)
  then show ?case by (auto intro: calls_inv_returns errors_inv_returns)
next
  case (call_panics s t m)
  then show ?case by (auto intro: calls_inv_returns errors_inv_returns)
next
  case (call_fails s t e)
  then show ?case by (auto intro: calls_inv_returns errors_inv_returns)
next
  case (call_ends s t)
  then have "t \<in> set (calls s)" unfolding calls_inv_def by blast
  moreover have "startedChans s \<subseteq> set (calls s)" using call_ends unfolding calls_inv_def by blast
  moreover have "errors_inv ((taskReturns t None s)\<lparr>startedChans := x\<rparr>) = errors_inv (taskReturns t None s)" for x by (simp add: errors_inv_def)
  moreover have "calls_inv (taskReturns t None s)" using call_ends by (intro calls_inv_returns[of s t Calling]) auto
  then have "calls_inv ((taskReturns t None s)\<lparr>startedChans := x\<rparr>)" if "x \<subseteq> set (calls s)" for x
    by (rule calls_inv_frame) (use that in simp_all)
  ultimately show ?case using call_ends by (auto intro: errors_inv_returns)
next
  case (component_runs s t)
  then have "calls_inv (s\<lparr>tasks := (tasks s)(t \<mapsto> Watching), startedChans := (if t = RunServer then startedChans s else insert t (startedChans s))\<rparr>)"
    unfolding calls_inv_def by auto
  then show ?case using component_runs by (auto intro: errors_inv_moves[of s t Calling Watching])
next
  case (component_fails s t e)
  then show ?case by (auto intro: calls_inv_returns errors_inv_returns)
next
  case (component_ends s t)
  then show ?case by (auto intro: calls_inv_returns errors_inv_returns)
qed

lemma tasks_kept: "app_step s s' \<Longrightarrow> tasks s' t = None \<longleftrightarrow> tasks s t = None"
  by (induction rule: app_step.induct) (simp_all add: fun_upd_def)

lemma stays_cancelled_step: "app_step s s' \<Longrightarrow> cancelled s \<Longrightarrow> cancelled s'"
  by (induction rule: app_step.induct) auto

interpretation cancellation_final: step_invariant app_step cancelled
  by unfold_locales (rule stays_cancelled_step)

interpretation tasks: step_invariant app_step "\<lambda>s. calls_inv s \<and> errors_inv s"
  by unfold_locales (rule inv_step)

lemma inv_run: "app_step\<^sup>*\<^sup>* (Run a) s \<Longrightarrow> calls_inv s \<and> errors_inv s"
  by (erule tasks.run_keeps) (simp add: inv_Run)


section \<open>Ending\<close>

lemma finished_iff: "finished s \<longleftrightarrow> (\<forall>t p. tasks s t = Some p \<longrightarrow> (\<exists>e. p = Returned e))"
  by (auto simp: finished_def split: option.splits)

text \<open>Once the context is cancelled every task can return, whatever the others do.\<close>

lemma task_can_return:
  assumes "cancelled s"
  shows "\<exists>s'. app_step\<^sup>*\<^sup>* s s' \<and> cancelled s' \<and> firstError s' = firstError s \<and> (\<forall>u. u \<noteq> t \<longrightarrow> tasks s' u = tasks s u) \<and>
    (tasks s t \<noteq> None \<longrightarrow> (\<exists>e. tasks s' t = Some (Returned e)))"
proof -
  let ?P = "\<lambda>s s'. app_step\<^sup>*\<^sup>* s s' \<and> cancelled s' \<and> firstError s' = firstError s \<and> (\<forall>u. u \<noteq> t \<longrightarrow> tasks s' u = tasks s u) \<and>
    (\<exists>e. tasks s' t = Some (Returned e))"
  have watching: "?P s (taskReturns t None s)" if "tasks s t = Some Watching" "cancelled s" for s
    using app_step.component_ends[OF that(1)] that by auto
  have calling: "\<exists>s'. ?P s s'" if c: "tasks s t = Some Calling" "cancelled s" for s
  proof (cases "watches t")
    case True
    let ?s = "s\<lparr>tasks := (tasks s)(t \<mapsto> Watching), startedChans := (if t = RunServer then startedChans s else insert t (startedChans s))\<rparr>"
    have "?P ?s (taskReturns t None ?s)" using c(2) by (intro watching) simp_all
    then show ?thesis using app_step.component_runs[OF c(1) True]
      by (intro exI[of _ "taskReturns t None ?s"]) (auto intro: converse_rtranclp_into_rtranclp)
  next
    case False
    let ?s = "(taskReturns t None s)\<lparr>startedChans := (if t = RunProcessor then insert t (startedChans s) else startedChans s)\<rparr>"
    show ?thesis using app_step.call_ends[OF c(1) False] c(2) by (intro exI[of _ ?s]) auto
  qed
  show ?thesis
  proof (cases "tasks s t")
    case (Some p)
    show ?thesis
    proof (cases p)
      case Awaiting
      show ?thesis
      proof (cases "awaits t = []")
        case True
        let ?s = "s\<lparr>tasks := (tasks s)(t \<mapsto> Calling), calls := calls s @ [t]\<rparr>"
        have step: "app_step s ?s" using Some Awaiting True assms by (intro app_step.calls_component) auto
        obtain s' where "?P ?s s'" using calling[of ?s] assms by auto
        then show ?thesis using step by (intro exI[of _ s']) (auto intro: converse_rtranclp_into_rtranclp)
      next
        case False
        then show ?thesis using app_step.gives_up[of s t] Some Awaiting assms by (intro exI[of _ "taskReturns t None s"]) auto
      qed
    next
      case Calling
      then show ?thesis using calling[of s] Some assms by blast
    next
      case Watching
      then show ?thesis using watching[of s] Some assms by blast
    next
      case (Returned e)
      then show ?thesis using Some assms by (intro exI[of _ s]) auto
    qed
  qed (use assms in blast)
qed

lemma tasks_can_return:
  assumes "cancelled s"
  shows "\<exists>s'. app_step\<^sup>*\<^sup>* s s' \<and> cancelled s' \<and> firstError s' = firstError s \<and>
    (\<forall>t \<in> set ts. tasks s t \<noteq> None \<longrightarrow> (\<exists>e. tasks s' t = Some (Returned e))) \<and>
    (\<forall>t. t \<notin> set ts \<longrightarrow> tasks s' t = tasks s t) \<and> (\<forall>t. tasks s' t = None \<longleftrightarrow> tasks s t = None)"
proof (induction ts)
  case (Cons u ts)
  then obtain s1 where s1: "app_step\<^sup>*\<^sup>* s s1" "cancelled s1" "firstError s1 = firstError s"
    "\<forall>t \<in> set ts. tasks s t \<noteq> None \<longrightarrow> (\<exists>e. tasks s1 t = Some (Returned e))"
    "\<forall>t. t \<notin> set ts \<longrightarrow> tasks s1 t = tasks s t" "\<forall>t. tasks s1 t = None \<longleftrightarrow> tasks s t = None" by blast
  show ?case
  proof (cases "tasks s1 u")
    case None
    then show ?thesis using s1 by (intro exI[of _ s1]) auto
  next
    case (Some p)
    obtain s2 where s2: "app_step\<^sup>*\<^sup>* s1 s2" "cancelled s2" "firstError s2 = firstError s1" "\<forall>t. t \<noteq> u \<longrightarrow> tasks s2 t = tasks s1 t"
      "\<exists>e. tasks s2 u = Some (Returned e)"
      using task_can_return[OF s1(2), of u] Some by auto
    then have "app_step\<^sup>*\<^sup>* s s2" "firstError s2 = firstError s" using s1(1,3) by auto
    moreover have "\<forall>t. tasks s2 t = None \<longleftrightarrow> tasks s t = None" using s2(4,5) s1(6) Some by (metis option.distinct(1))
    ultimately show ?thesis using s1 s2 by (intro exI[of _ s2]) (metis set_ConsD list.set_intros)
  qed
qed (use assms in auto)

lemma all_tasks: "set [RunListener, RunProcessor, RunMessenger, RunServer, StopClient, StopServer, StopMessenger, StopListener] = UNIV"
  using task.exhaust by auto

lemma can_finish:
  assumes "cancelled s"
  shows "\<exists>s'. app_step\<^sup>*\<^sup>* s s' \<and> finished s' \<and> firstError s' = firstError s"
proof -
  from tasks_can_return[OF assms, of "[RunListener, RunProcessor, RunMessenger, RunServer, StopClient, StopServer, StopMessenger, StopListener]"]
  obtain s' where "app_step\<^sup>*\<^sup>* s s'" "firstError s' = firstError s" "\<forall>t. tasks s t \<noteq> None \<longrightarrow> (\<exists>e. tasks s' t = Some (Returned e))" "\<forall>t. tasks s' t = None \<longleftrightarrow> tasks s t = None"
    unfolding all_tasks by auto
  then have "finished s'" unfolding finished_iff by (metis option.discI option.inject)
  then show ?thesis using \<open>app_step\<^sup>*\<^sup>* s s'\<close> \<open>firstError s' = firstError s\<close> by blast
qed

section \<open>Properties\<close>

text \<open>Property C34: the order of the start. In every run each component is started and stopped at most once;
  the messenger, through which messages arrive, is started only after the event listener and the
  message processor have been, the gRPC server only after the messenger; and nothing is stopped before
  the context is cancelled.\<close>

lemma start_order:
  assumes "app_step\<^sup>*\<^sup>* (Run a) s"
  shows "distinct (calls s) \<and> precedes RunListener RunMessenger (calls s) \<and> precedes RunProcessor RunMessenger (calls s) \<and>
    precedes RunMessenger RunServer (calls s) \<and> (\<forall>t. t \<in> set (calls s) \<and> stops t \<longrightarrow> cancelled s)"
  using inv_run[OF assms] unfolding calls_inv_def by force

lemma start_order_witness:
  "\<exists>s. app_step\<^sup>*\<^sup>* (Run \<lparr>rpcClient = None :: unit option, rpcServer = None, botUserID = [], pluginSet = False\<rparr>) s \<and> calls s = [RunListener] \<and>
     precedes RunListener RunMessenger (calls s)"
proof -
  let ?s = "Run \<lparr>rpcClient = None :: unit option, rpcServer = None, botUserID = [], pluginSet = False\<rparr>"
  let ?s' = "?s\<lparr>tasks := (tasks ?s)(RunListener \<mapsto> Calling), calls := calls ?s @ [RunListener]\<rparr>"
  have "app_step ?s ?s'" by (rule app_step.calls_component) (simp_all add: Run_def)
  then have r: "app_step\<^sup>*\<^sup>* ?s ?s'" by blast
  show ?thesis using r start_order[OF r] by (intro exI[of _ ?s']) (simp add: Run_def)
qed

text \<open>Property C33: the end of a run. \<open>Run\<close> returns only after the context was cancelled and every component that
  was started has been told to stop; it returns no error if and only if no task did, and otherwise
  the error of a task.\<close>

lemma run_result:
  assumes "app_step\<^sup>*\<^sup>* (Run a) s" and "finished s"
  shows "cancelled s \<and> StopListener \<in> set (calls s) \<and> StopMessenger \<in> set (calls s) \<and>
    (RunServer \<in> set (calls s) \<longrightarrow> StopServer \<in> set (calls s)) \<and> (rpcClient a \<noteq> None \<longrightarrow> StopClient \<in> set (calls s)) \<and>
    (waitResult s = Ok () \<longleftrightarrow> (\<forall>t e. tasks s t \<noteq> Some (Returned (Some e)))) \<and>
    (\<forall>e. waitResult s = Fail e \<longrightarrow> (\<exists>t. tasks s t = Some (Returned (Some e))))"
proof -
  note inv = inv_run[OF assms(1)]
  have exists: "tasks s t = None \<longleftrightarrow> tasks (Run a) t = None" for t
    using assms(1) by (induction rule: rtranclp_induct) (simp_all add: tasks_kept)
  have called: "t \<in> set (calls s)" if ex: "tasks (Run a) t \<noteq> None" and none: "awaits t = []" for t
  proof -
    obtain p where p: "tasks s t = Some p" using exists[of t] ex by auto
    then obtain e where "tasks s t = Some (Returned e)" using assms(2) unfolding finished_iff by blast
    then show ?thesis using inv none unfolding calls_inv_def by blast
  qed
  have "StopListener \<in> set (calls s)" "StopMessenger \<in> set (calls s)" "rpcClient a \<noteq> None \<longrightarrow> StopClient \<in> set (calls s)"
    by (auto intro!: called simp: Run_def)
  moreover have "StopServer \<in> set (calls s)" if "RunServer \<in> set (calls s)"
  proof -
    have "tasks (Run a) RunServer \<noteq> None" using that inv exists[of RunServer] unfolding calls_inv_def by blast
    then show ?thesis by (intro called) (auto simp: Run_def split: if_splits)
  qed
  moreover have "cancelled s" using inv \<open>StopListener \<in> set (calls s)\<close> unfolding calls_inv_def by force
  moreover have "(waitResult s = Ok () \<longleftrightarrow> (\<forall>t e. tasks s t \<noteq> Some (Returned (Some e)))) \<and>
    (\<forall>e. waitResult s = Fail e \<longrightarrow> (\<exists>t. tasks s t = Some (Returned (Some e))))"
    using inv unfolding errors_inv_def waitResult_def by (cases "firstError s") auto
  ultimately show ?thesis by blast
qed

definition sample_app :: "unit app" where
  "sample_app = \<lparr>rpcClient = Some (), rpcServer = Some (), botUserID = [], pluginSet = True\<rparr>"

lemma sample_cancelled: "app_step\<^sup>*\<^sup>* (Run sample_app) ((Run sample_app)\<lparr>cancelled := True\<rparr>)"
  using app_step.caller_cancels by blast

lemma run_result_witness:
  "\<exists>s. app_step\<^sup>*\<^sup>* (Run sample_app) s \<and> finished s \<and> StopClient \<in> set (calls s) \<and> StopListener \<in> set (calls s)"
proof -
  obtain s where "app_step\<^sup>*\<^sup>* ((Run sample_app)\<lparr>cancelled := True\<rparr>) s" and f: "finished s" using can_finish[of "(Run sample_app)\<lparr>cancelled := True\<rparr>"] by auto
  then have r: "app_step\<^sup>*\<^sup>* (Run sample_app) s" using sample_cancelled by auto
  show ?thesis using r f run_result[OF r f] by (auto simp: sample_app_def)
qed

text \<open>A run can always be ended, and cleanly: from every state of a run in which the context is
  cancelled, by the caller or by the first error, some steps lead to the end, and there \<open>Run\<close> returns the
  error that was first before, or none if there was none. (Whether a component lets its calls return
  is up to the component.)\<close>

lemma run_can_end:
  assumes "app_step\<^sup>*\<^sup>* (Run a) s" and "cancelled s \<or> firstError s \<noteq> None"
  shows "\<exists>s'. app_step\<^sup>*\<^sup>* (Run a) s' \<and> app_step\<^sup>*\<^sup>* s s' \<and> finished s' \<and> cancelled s' \<and>
    waitResult s' = (case firstError s of None \<Rightarrow> Ok () | Some e \<Rightarrow> Fail e)"
proof -
  have "cancelled s" using assms(2) inv_run[OF assms(1)] unfolding errors_inv_def by auto
  then obtain s' where s': "app_step\<^sup>*\<^sup>* s s'" "finished s'" "firstError s' = firstError s" using can_finish by blast
  then show ?thesis using cancellation_final.run_keeps[OF s'(1) \<open>cancelled s\<close>] assms(1) unfolding waitResult_def by (metis rtranclp_trans)
qed

lemma run_can_end_witness: "\<exists>s'. app_step\<^sup>*\<^sup>* ((Run sample_app)\<lparr>cancelled := True\<rparr>) s' \<and> finished s' \<and> waitResult s' = Ok ()"
  using run_can_end[OF sample_cancelled] by (auto simp: Run_def)

end
