(* ===== verification/Version.thy ===== *)
theory Version
  imports Price Metadata
begin

text \<open>
  The version of the bot, \<^verbatim>\<open>internal/version/version.go\<close>: the string set at build time is parsed into the
  versions of the message headers. \<open>allowInvalid\<close> replaces a string without three parts by 0.0.0. The
  text assembled by \<open>init\<close> for display is not modelled.
\<close>

section \<open>Strings\<close>

text \<open>\<open>strings.Split\<close> at a one-character separator and \<open>strings.TrimPrefix\<close>.\<close>

fun splitAt :: "char \<Rightarrow> string \<Rightarrow> string list" where
  "splitAt sep [] = [[]]"
| "splitAt sep (c # cs) =
     (if c = sep then [] # splitAt sep cs
      else case splitAt sep cs of [] \<Rightarrow> [[c]] | p # ps \<Rightarrow> (c # p) # ps)"

definition TrimPrefix :: "string \<Rightarrow> string \<Rightarrow> string" where
  "TrimPrefix s p = (if take (length p) s = p then drop (length p) s else s)"

text \<open>\<open>strconv.Atoi\<close>: an optional sign, at least one decimal digit and nothing else, within 64 bits.\<close>

definition Atoi :: "string \<Rightarrow> int res" where
  "Atoi s =
     (case SetString10 s of
        None \<Rightarrow> Fail (Sentinel ''invalid syntax'')
      | Some n \<Rightarrow> if - (2 ^ 63) \<le> n \<and> n < 2 ^ 63 then Ok n else Fail (Sentinel ''value out of range''))"

section \<open>The version (version.go)\<close>

record 'n protoVersion =
  Major :: 'n
  Minor :: 'n
  Patch :: 'n

definition errVersion :: "string \<Rightarrow> string \<Rightarrow> err \<Rightarrow> err" where
  "errVersion appVersion what e = Err [PStr ''invalid version format: '', PStr appVersion, PStr what] []"

definition errLimit :: "string \<Rightarrow> string \<Rightarrow> int \<Rightarrow> err \<Rightarrow> err" where
  "errLimit appVersion what n e =
     Err [PStr ''invalid version format: '', PStr appVersion, PStr what, PInt n, PStr '' exceeds int32 limit''] []"

definition InitProtoVersion :: "string \<Rightarrow> bool \<Rightarrow> (int32 protoVersion \<times> uint32 protoVersion) res" where
  "InitProtoVersion appVersion allowInvalid =
     (let splitted = splitAt CHR ''.'' (TrimPrefix (splitAt CHR ''-'' appVersion ! 0) ''v'')
      in if length splitted \<noteq> 3 \<and> \<not> allowInvalid
         then Fail (Err [PStr ''invalid version format: '', PStr appVersion, PStr '', expected format is vMAJOR.MINOR.PATCH''] [])
         else
     let splitted = (if length splitted \<noteq> 3 then [''0'', ''0'', ''0''] else splitted) in
     onErr (Atoi (splitted ! 0)) (errVersion appVersion '', major version must be an integer'') (\<lambda>major.
     onErr (Atoi (splitted ! 1)) (errVersion appVersion '', minor version must be an integer'') (\<lambda>minor.
     onErr (Atoi (splitted ! 2)) (errVersion appVersion '', patch version must be an integer'') (\<lambda>patch.
     onErr (IntToInt32 major) (errLimit appVersion '', major version '' major) (\<lambda>majorInt32.
     onErr (IntToInt32 minor) (errLimit appVersion '', minor version '' minor) (\<lambda>minorInt32.
     onErr (IntToInt32 patch) (errLimit appVersion '', patch version '' patch) (\<lambda>patchInt32.
     onErr (IntToUInt32 major) (errLimit appVersion '', major version '' major) (\<lambda>majorUInt32.
     onErr (IntToUInt32 minor) (errLimit appVersion '', minor version '' minor) (\<lambda>minorUInt32.
     onErr (IntToUInt32 patch) (errLimit appVersion '', patch version '' patch) (\<lambda>patchUInt32.
       Ok (\<lparr>Major = majorInt32, Minor = minorInt32, Patch = patchInt32\<rparr>,
           \<lparr>Major = majorUInt32, Minor = minorUInt32, Patch = patchUInt32\<rparr>)))))))))))"

section \<open>Lemmas\<close>

lemma splitAt_ne [simp]: "splitAt sep s \<noteq> []"
  by (induction s) (auto split: list.splits)

lemma splitAt_prefix:
  assumes "sep \<notin> set p"
  shows "splitAt sep p = [p]" "splitAt sep (p @ sep # s) = p # splitAt sep s"
  using assms by (induction p) auto

lemma digit_val_char: "k < 10 \<Longrightarrow> digit_val (char_of (48 + k :: nat)) = Some (int k)"
proof -
  assume k: "k < 10"
  have "(of_char (char_of (48 + k) :: char) :: int) = int (of_char (char_of (48 + k) :: char))" by (simp only: of_nat_of_char)
  also have "of_char (char_of (48 + k) :: char) = 48 + k" using k by (simp add: of_char_of take_bit_nat_eq_self)
  finally show ?thesis using k by (simp add: digit_val_def)
qed

lemma parse_digits_append: "parse_digits acc (xs @ [c]) = Option.bind (parse_digits acc xs) (\<lambda>n. map_option (\<lambda>d. 10 * n + d) (digit_val c))"
  by (induction xs arbitrary: acc) (auto split: option.splits)

lemma parse_show: "parse_digits 0 (show_nat n) = Some (int n)"
proof (induction n rule: less_induct)
  case (less n)
  show ?case
  proof (cases "n < 10")
    case True
    then show ?thesis using digit_val_char[of n] by (simp add: show_nat_small)
  next
    case False
    then have "parse_digits 0 (show_nat (n div 10)) = Some (int (n div 10))" by (intro less) simp
    moreover have "digit_val (char_of (48 + n mod 10)) = Some (int (n mod 10))" by (rule digit_val_char) simp
    ultimately show ?thesis using False by (simp add: show_nat_big parse_digits_append zdiv_int zmod_int)
  qed
qed


lemma show_nat_digits: "c \<in> set (show_nat n) \<Longrightarrow> digit_val c \<noteq> None"
proof (induction n rule: less_induct)
  case (less n)
  show ?case
  proof (cases "n < 10")
    case True
    then show ?thesis using less digit_val_char[of n] by (simp add: show_nat_small)
  next
    case False
    have "digit_val (char_of (48 + n mod 10)) = Some (int (n mod 10))" by (rule digit_val_char) simp
    then show ?thesis using False less(1)[of "n div 10"] less(2) by (auto simp: show_nat_big)
  qed
qed

lemma not_digits: "digit_val CHR ''-'' = None" "digit_val CHR ''+'' = None" "digit_val CHR ''.'' = None" "digit_val CHR ''v'' = None"
  by (simp_all add: digit_val_def)

lemma Atoi_show:
  assumes "int n < 2 ^ 63"
  shows "Atoi (show_nat n) = Ok (int n)"
proof -
  obtain c cs where s: "show_nat n = c # cs" by (metis show_nat_ne(1) list.exhaust)
  then have "digit_val c \<noteq> None" using show_nat_digits[of c n] by simp
  then have "c \<noteq> CHR ''-''" "c \<noteq> CHR ''+''" using not_digits by auto
  then have "SetString10 (show_nat n) = Some (int n)" using s parse_show[of n] by (simp add: SetString10_def parse_nat10_def)
  then show ?thesis using assms by (simp add: Atoi_def)
qed

lemma TrimPrefix_v: "TrimPrefix (CHR ''v'' # s) ''v'' = s"
  by (simp add: TrimPrefix_def)

lemma version_split:
  assumes "suffix = [] \<or> hd suffix = CHR ''-''"
  shows "splitAt CHR ''.'' (TrimPrefix (splitAt CHR ''-'' (CHR ''v'' # show_nat a @ CHR ''.'' # show_nat b @ CHR ''.'' # show_nat c @ suffix) ! 0) ''v'') =
    [show_nat a, show_nat b, show_nat c]"
proof -
  have nd: "CHR ''-'' \<notin> set (show_nat n)" "CHR ''.'' \<notin> set (show_nat n)" for n using show_nat_digits not_digits by blast+
  let ?v = "CHR ''v'' # show_nat a @ CHR ''.'' # show_nat b @ CHR ''.'' # show_nat c"
  have "CHR ''-'' \<notin> set ?v" using nd by simp
  then have "splitAt CHR ''-'' (?v @ suffix) ! 0 = ?v"
    using assms splitAt_prefix[of "CHR ''-''" ?v] by (cases suffix) auto
  then show ?thesis using splitAt_prefix[OF nd(2)] by (simp add: TrimPrefix_v)
qed

section \<open>Properties\<close>

text \<open>The version printed as \<open>vMAJOR.MINOR.PATCH\<close>, with or without a suffix after a dash, is read
  back exactly into both header versions, if its numbers fit a signed 32-bit integer; and whatever
  string is accepted, the two header versions carry the same numbers.\<close>

lemma version_roundtrip:
  assumes "suffix = [] \<or> hd suffix = CHR ''-''" and "a < 2 ^ 31" and "b < 2 ^ 31" and "c < 2 ^ 31"
  shows "InitProtoVersion (CHR ''v'' # show_nat a @ CHR ''.'' # show_nat b @ CHR ''.'' # show_nat c @ suffix) lax =
      Ok (\<lparr>Major = word_of_nat a, Minor = word_of_nat b, Patch = word_of_nat c\<rparr>,
          \<lparr>Major = word_of_nat a, Minor = word_of_nat b, Patch = word_of_nat c\<rparr>) \<and>
    (\<forall>s v1 v4. InitProtoVersion s lax = Ok (v1, v4) \<longrightarrow>
       sint (Major v1) = uint (Major v4) \<and> sint (Minor v1) = uint (Minor v4) \<and> sint (Patch v1) = uint (Patch v4))"
proof
  have n: "Atoi (show_nat n) = Ok (int n)" "IntToInt32 (int n) = Ok (word_of_nat n)" "IntToUInt32 (int n) = Ok (word_of_nat n)"
    if "n < 2 ^ 31" for n
    using that Atoi_show[of n] by (auto simp: IntToInt32_def IntToUInt32_def)
  show "InitProtoVersion (CHR ''v'' # show_nat a @ CHR ''.'' # show_nat b @ CHR ''.'' # show_nat c @ suffix) lax =
      Ok (\<lparr>Major = word_of_nat a, Minor = word_of_nat b, Patch = word_of_nat c\<rparr>,
          \<lparr>Major = word_of_nat a, Minor = word_of_nat b, Patch = word_of_nat c\<rparr>)"
    unfolding InitProtoVersion_def version_split[OF assms(1)] using n assms(2-4) by (simp add: Let_def)
next
  have eq: "IntToInt32 n = Ok v \<Longrightarrow> IntToUInt32 n = Ok w \<Longrightarrow> sint v = uint w" for n v w
    by (auto simp: IntToInt32_def IntToUInt32_def signed_of_int signed_take_bit_int_eq_self unsigned_of_int take_bit_int_eq_self split: if_splits)
  show "\<forall>s v1 v4. InitProtoVersion s lax = Ok (v1, v4) \<longrightarrow>
       sint (Major v1) = uint (Major v4) \<and> sint (Minor v1) = uint (Minor v4) \<and> sint (Patch v1) = uint (Patch v4)"
    by (auto simp: InitProtoVersion_def Let_def onErr_def eq split: res.splits if_splits)
qed

lemma version_roundtrip_witness:
  "InitProtoVersion ''v13.0.7-rc1'' False = Ok (\<lparr>Major = 13, Minor = 0, Patch = 7\<rparr>, \<lparr>Major = 13, Minor = 0, Patch = 7\<rparr>)"
proof -
  have "show_nat 13 = ''13''" "show_nat 0 = ''0''" "show_nat 7 = ''7''" by code_simp+
  then show ?thesis using version_roundtrip[of "''-rc1''" 13 0 7 False] by simp
qed

end
