(* ===== verification/Bot.thy ===== *)
theory Bot
  imports App Version
begin

text \<open>
  The command of the bot, \<^verbatim>\<open>cmd/travel_token_messenger_bot.go\<close>: reading the configuration, setting the
  version, creating the application and running it. The loggers (zap), the flags and viper are
  parameters; the result of \<open>App.Run\<close> is one that a run of \<open>App\<close> can end with.
\<close>

record 'a command_env =
  zap_NewProduction :: "unit res"
  zap_Build :: "bool \<Rightarrow> unit res"
  IsDevelopmentMode :: bool
  App_Run :: "'a app \<Rightarrow> unit res"

definition rootFunc :: "'a command_env \<Rightarrow> 'k config_env \<Rightarrow> viper \<Rightarrow> string \<Rightarrow> 'a app_parts \<Rightarrow> unit res" where
  "rootFunc env cenv v appVersion parts =
     onErr (zap_NewProduction env) (wrap ''failed to create config-reader logger: '') (\<lambda>_.
     onErr (ReadConfig cenv v) (wrap ''failed to read config: '') (\<lambda>cfg.
     onErr (zap_Build env (IsDevelopmentMode env)) (wrap ''failed to create logger: '') (\<lambda>_.
     onErr (InitProtoVersion appVersion (IsDevelopmentMode env)) (wrap ''failed to initialize bot version: '') (\<lambda>_.
       case NewApp parts cfg of
         Ok app \<Rightarrow> App_Run env app
       | Fail e \<Rightarrow> if errors_Is e ''context canceled'' then Ok () else Fail (wrap ''failed to create app: '' e)
       | Panic t \<Rightarrow> Panic t))))"

text \<open>What \<open>App.Run\<close> returns is the result of some run to its end.\<close>

definition runs_to_end :: "'a command_env \<Rightarrow> bool" where
  "runs_to_end env \<longleftrightarrow> (\<forall>a. \<exists>s. app_step\<^sup>*\<^sup>* (Run a) s \<and> finished s \<and> waitResult s = App_Run env a)"

lemma waitResult_Ok:
  assumes "app_step\<^sup>*\<^sup>* (Run a) s" and "waitResult s = Ok ()"
  shows "tasks s t \<noteq> Some (Returned (Some e))"
  using inv_run[OF assms(1)] assms(2) unfolding errors_inv_def waitResult_def by (auto split: option.splits)

text \<open>Property C35: the bot exits without an error only if its configuration was accepted, with at least one
  attempt to see a reservation, and its version is one for the message headers, and then either the
  creation of the application was interrupted or an application with exactly the enabled parts was
  created and run to the end and none of its goroutines returned an error.\<close>

lemma bot_exits_cleanly:
  assumes "rootFunc env cenv v appVersion parts = Ok ()" and "runs_to_end env"
  shows "\<exists>cfg. ReadConfig cenv v = Ok cfg \<and> 1 \<le> TokenVisibleMaxAttempts cfg \<and>
    (\<exists>vs. InitProtoVersion appVersion (IsDevelopmentMode env) = Ok vs) \<and>
    ((\<exists>e. NewApp parts cfg = Fail e \<and> errors_Is e ''context canceled'') \<or>
     (\<exists>a s. NewApp parts cfg = Ok a \<and> (rpcClient a \<noteq> None \<longleftrightarrow> pp_Enabled (PartnerPlugin cfg)) \<and>
        (rpcServer a \<noteq> None \<longleftrightarrow> rpc_Enabled (RPCServer cfg)) \<and>
        app_step\<^sup>*\<^sup>* (Run a) s \<and> finished s \<and> (\<forall>t e. tasks s t \<noteq> Some (Returned (Some e)))))"
proof -
  from assms(1) obtain cfg vs where cfg: "ReadConfig cenv v = Ok cfg" and vs: "InitProtoVersion appVersion (IsDevelopmentMode env) = Ok vs"
    and app: "(case NewApp parts cfg of Ok app \<Rightarrow> App_Run env app
       | Fail e \<Rightarrow> if errors_Is e ''context canceled'' then Ok () else Fail (wrap ''failed to create app: '' e)
       | Panic t \<Rightarrow> Panic t) = Ok ()"
    unfolding rootFunc_def onErr_eq_Ok_iff by blast
  have att: "1 \<le> TokenVisibleMaxAttempts cfg" using accepted_attempts_positive[OF cfg] by simp
  show ?thesis
  proof (cases "NewApp parts cfg")
    case (Ok a)
    obtain s where s: "app_step\<^sup>*\<^sup>* (Run a) s" "finished s" "waitResult s = App_Run env a" using assms(2) unfolding runs_to_end_def by blast
    then have "waitResult s = Ok ()" using app Ok by simp
    then show ?thesis using cfg att vs Ok s(1,2) waitResult_Ok[OF s(1)] NewApp_enabled[OF Ok] by blast
  qed (use app cfg att vs in \<open>auto split: if_splits\<close>)
qed

text \<open>A bot that starts and whose run ends without an error.\<close>

definition sample_viper :: viper where
  "sample_viper = \<lparr>BindPFlags = Ok (), configPath = ''c.yaml'', ReadInConfig = Ok (), viper_Unmarshal = (\<lambda>_. Ok sample_raw)\<rparr>"

definition sample_parts :: "unit app_parts" where
  "sample_parts = \<lparr>ethclient_Dial = Ok (), evmClient_ChainID = Ok 8453,
     tls_LoadCATLSCredentials = (\<lambda>_. Ok ()), grpc_NewClient = (\<lambda>_. Ok ()), messaging_NewServiceRegistry = Ok (),
     ttmaccounts_NewService = Ok (), ttmAccounts_IsUpToDate = Ok True, erc20_NewERC20Service = Ok (), booking_NewService = Ok (),
     eventlistener_storage_New = (\<lambda>_. Ok ()), eventlistener_New = (\<lambda>_. Ok ()), messaging_NewResponseHandler = Ok (),
     url_Parse = Ok, UserIDFromAddress = (\<lambda>s. s), matrix_client_New = (\<lambda>_ _ _. Ok ()), encoder_storage_New = (\<lambda>_. Ok ()),
     encoding_NewEncoderDecoder = Ok (), resolver_storage_New = (\<lambda>_. Ok ()), messenger_NewMessenger = Ok (),
     tls_LoadTLSCredentials = (\<lambda>_ _. Ok ()), grpc_NewServer = ()\<rparr>"

definition sample_command :: "unit command_env" where
  "sample_command = \<lparr>zap_NewProduction = Ok (), zap_Build = (\<lambda>_. Ok ()), IsDevelopmentMode = False, App_Run = (\<lambda>_. Ok ())\<rparr>"

lemma sample_runs_to_end: "runs_to_end sample_command"
  unfolding runs_to_end_def
proof
  fix a :: "unit app"
  have "app_step (Run a) ((Run a)\<lparr>cancelled := True\<rparr>)" by (rule app_step.caller_cancels)
  moreover obtain s where "app_step\<^sup>*\<^sup>* ((Run a)\<lparr>cancelled := True\<rparr>) s" "finished s" "firstError s = None"
    using can_finish[of "(Run a)\<lparr>cancelled := True\<rparr>"] by (auto simp: Run_def)
  ultimately show "\<exists>s. app_step\<^sup>*\<^sup>* (Run a) s \<and> finished s \<and> waitResult s = App_Run sample_command a"
    by (intro exI[of _ s]) (simp add: waitResult_def sample_command_def converse_rtranclp_into_rtranclp)
qed

lemma bot_exits_cleanly_witness:
  "\<exists>a s. NewApp sample_parts (res_val (ReadConfig sample_config_env sample_viper)) = Ok a \<and> rpcServer a \<noteq> None \<and>
     app_step\<^sup>*\<^sup>* (Run a) s \<and> finished s \<and> (\<forall>t e. tasks s t \<noteq> Some (Returned (Some e)))"
proof -
  have "rootFunc sample_command sample_config_env sample_viper ''v13.0.7'' sample_parts = Ok ()" by code_simp
  from bot_exits_cleanly[OF this sample_runs_to_end] obtain cfg where cfg: "ReadConfig sample_config_env sample_viper = Ok cfg"
    and cases: "(\<exists>e. NewApp sample_parts cfg = Fail e \<and> errors_Is e ''context canceled'') \<or>
     (\<exists>a s. NewApp sample_parts cfg = Ok a \<and> (rpcClient a \<noteq> None \<longleftrightarrow> pp_Enabled (PartnerPlugin cfg)) \<and>
        (rpcServer a \<noteq> None \<longleftrightarrow> rpc_Enabled (RPCServer cfg)) \<and>
        app_step\<^sup>*\<^sup>* (Run a) s \<and> finished s \<and> (\<forall>t e. tasks s t \<noteq> Some (Returned (Some e))))" by blast
  have "rpc_Enabled (RPCServer (res_val (ReadConfig sample_config_env sample_viper)))" by code_simp
  moreover have "\<exists>a. NewApp sample_parts (res_val (ReadConfig sample_config_env sample_viper)) = Ok a"
    by (simp add: NewApp_def NewClient_def NewServer_def matrixHostname_def onErr_def sample_parts_def Let_def)
  ultimately show ?thesis using cfg cases by auto
qed

end
