(* ===== verification/Mock_State.thy ===== *)
theory Mock_State
  imports Version
begin

text \<open>
  The state of the mock partner plugin, \<^verbatim>\<open>pp-mock\<close>: its pricing settings (\<^verbatim>\<open>pp-mock/config\<close>), the price
  representation shared by all message versions (\<^verbatim>\<open>pp-mock/handlers/state/conversion_v3.go\<close> to
  \<^verbatim>\<open>conversion_v5.go\<close>, \<^verbatim>\<open>realistic_price.go\<close>) and the store of searches, validations and mints with its
  periodic cleanup (\<^verbatim>\<open>state.go\<close>). The process-wide settings and the singleton store are arguments of the
  operations that use them. The texts kept for debugging only are left out.
\<close>

section \<open>Settings (config)\<close>

definition BuyableUntil_E2E :: duration where "BuyableUntil_E2E = 3 * second"
definition BuyableUntil_Default :: duration where "BuyableUntil_Default = 5 * minute"

record pricing =
  RealisticPriceEnabled :: bool
  RealisticNativeBaseUnits :: string
  RealisticTokenDecimals :: "string \<rightharpoonup> uint32"

definition RealisticTokenDecimalsDefault :: uint32 where "RealisticTokenDecimalsDefault = 18"

definition defaultPricing :: pricing where
  "defaultPricing = \<lparr>RealisticPriceEnabled = False, RealisticNativeBaseUnits = ''10533'', RealisticTokenDecimals = Map.empty\<rparr>"

definition SetRealisticPrice :: "bool \<Rightarrow> string \<Rightarrow> (string \<rightharpoonup> uint32) option \<Rightarrow> pricing \<Rightarrow> pricing" where
  "SetRealisticPrice enabled baseUnits tokenDecimals cfg =
     (let cfg = cfg\<lparr>RealisticPriceEnabled := enabled\<rparr>;
          cfg = (if baseUnits \<noteq> [] then cfg\<lparr>RealisticNativeBaseUnits := baseUnits\<rparr> else cfg)
      in cfg\<lparr>RealisticTokenDecimals := (case tokenDecimals of None \<Rightarrow> Map.empty | Some m \<Rightarrow> m)\<rparr>)"

text \<open>\<open>strings.Cut\<close> at a one-character separator and \<open>strconv.ParseUint(s, 10, 32)\<close>.\<close>

fun Cut :: "char \<Rightarrow> string \<Rightarrow> (string \<times> string) option" where
  "Cut sep [] = None"
| "Cut sep (c # cs) = (if c = sep then Some ([], cs) else map_option (\<lambda>(a, b). (c # a, b)) (Cut sep cs))"

definition ParseUint32 :: "string \<Rightarrow> uint32 res" where
  "ParseUint32 s =
     (case parse_nat10 s of
        None \<Rightarrow> Fail (Sentinel ''invalid syntax'')
      | Some n \<Rightarrow> if n < 2 ^ 32 then Ok (word_of_int n) else Fail (Sentinel ''value out of range''))"

fun parsePairs :: "(string \<rightharpoonup> uint32) \<Rightarrow> string list \<Rightarrow> (string \<rightharpoonup> uint32) res" where
  "parsePairs out [] = Ok out"
| "parsePairs out (raw # rest) =
     (let pair = TrimSpace raw in
      if pair = [] then parsePairs out rest
      else case Cut CHR '':'' pair of
        None \<Rightarrow> Fail (Err [PStr ''invalid token decimals entry '', PStr pair, PStr '': expected <address>:<decimals>''] [])
      | Some (addr, decStr) \<Rightarrow>
          onErr (ParseUint32 (TrimSpace decStr)) (\<lambda>e. Err ([PStr ''invalid decimals in entry '', PStr pair, PStr '': ''] @ Error e) [e])
            (\<lambda>dec. parsePairs (out(ToLower (TrimSpace addr) \<mapsto> dec)) rest))"

definition ParseTokenDecimals :: "string \<Rightarrow> (string \<rightharpoonup> uint32) res" where
  "ParseTokenDecimals raw =
     (let raw = TrimSpace raw in if raw = [] then Ok Map.empty else parsePairs Map.empty (splitAt CHR '','' raw))"

definition TokenDecimalsFor :: "pricing \<Rightarrow> string \<Rightarrow> uint32" where
  "TokenDecimalsFor cfg address =
     (case RealisticTokenDecimals cfg (ToLower (TrimSpace address)) of Some dec \<Rightarrow> dec | None \<Rightarrow> RealisticTokenDecimalsDefault)"

section \<open>Prices of all versions (handlers/state)\<close>

record UnifiedPrice =
  up_Price :: string
  up_Decimals :: uint32
  up_IsNative :: bool
  up_IsoCurrencyEnum :: int32
  up_TokenContractAddress :: string

definition NormalizeRealistic :: "pricing \<Rightarrow> UnifiedPrice \<Rightarrow> UnifiedPrice" where
  "NormalizeRealistic cfg p =
     (if up_IsNative p then p\<lparr>up_Price := RealisticNativeBaseUnits cfg, up_Decimals := 18\<rparr>
      else if up_TokenContractAddress p \<noteq> []
      then p\<lparr>up_Price := RealisticNativeBaseUnits cfg, up_Decimals := TokenDecimalsFor cfg (up_TokenContractAddress p)\<rparr>
      else p)"

text \<open>The price a search result shows and the price remembered for its validation.\<close>

definition shownPrice :: "pricing \<Rightarrow> ('p \<Rightarrow> UnifiedPrice res) \<Rightarrow> (UnifiedPrice \<Rightarrow> 'p res) \<Rightarrow> 'p \<Rightarrow> ('p \<times> UnifiedPrice) res" where
  "shownPrice cfg toUnified ofUnified searchPrice =
     onErr (toUnified searchPrice) (\<lambda>e. e) (\<lambda>validationPrice.
     if RealisticPriceEnabled cfg
     then let validationPrice = NormalizeRealistic cfg validationPrice in
          onErr (ofUnified validationPrice) (\<lambda>e. e) (\<lambda>shown. Ok (shown, validationPrice))
     else Ok (searchPrice, validationPrice))"

text \<open>
  A price message as the plugin builds it. The currency is a message of its own: \<open>None\<close> when it is nil,
  \<open>Some None\<close> when it is there and sets none of its alternatives. \<open>sentV3\<close> and \<open>sentV4\<close> are what the bot
  reads of it, which does not tell the two apart.
\<close>

record mockPriceV3 =
  mp3_Value :: string
  mp3_Decimals :: int32
  mp3_Currency :: "currencyV3 option option"

record mockPriceV4 =
  mp_Value :: string
  mp_Decimals :: uint32
  mp_Currency :: "currencyV4 option option"

type_synonym mockPriceV5 = mockPriceV4

definition sentV3 :: "mockPriceV3 \<Rightarrow> priceV3" where
  "sentV3 p = \<lparr>ValueV3 = mp3_Value p, DecimalsV3 = mp3_Decimals p, CurrencyV3 = Option.bind (mp3_Currency p) (\<lambda>c. c)\<rparr>"

definition sentV4 :: "mockPriceV4 \<Rightarrow> priceV4" where
  "sentV4 p = \<lparr>Value = mp_Value p, PriceDecimals = mp_Decimals p, Currency = Option.bind (mp_Currency p) (\<lambda>c. c)\<rparr>"

definition ExtractCurrencyV3 :: "UnifiedPrice \<Rightarrow> currencyV3 option option" where
  "ExtractCurrencyV3 p =
     (if up_IsNative p then Some (Some NativeTokenV3)
      else if up_IsoCurrencyEnum p \<noteq> 0 then Some (Some (IsoCurrencyV3 (up_IsoCurrencyEnum p)))
      else if up_TokenContractAddress p \<noteq> [] then Some (Some (TokenCurrencyV3 (Some (up_TokenContractAddress p))))
      else None)"

definition ToPriceV3 :: "UnifiedPrice \<Rightarrow> mockPriceV3 res" where
  "ToPriceV3 p =
     (let currency = ExtractCurrencyV3 p in
      onErr (MustUInt32ToInt32 (up_Decimals p)) (\<lambda>e. e) (\<lambda>decimals.
        Ok \<lparr>mp3_Value = up_Price p, mp3_Decimals = decimals, mp3_Currency = currency\<rparr>))"

text \<open>Which alternative a currency sets, with the accesses the code makes to it.\<close>

definition withCurrencyV3 :: "UnifiedPrice \<Rightarrow> currencyV3 option \<Rightarrow> UnifiedPrice res" where
  "withCurrencyV3 out currency =
     (case currency of
        Some NativeTokenV3 \<Rightarrow> Ok (out\<lparr>up_IsNative := True\<rparr>)
      | Some (IsoCurrencyV3 isoCode) \<Rightarrow> Ok (out\<lparr>up_IsoCurrencyEnum := isoCode\<rparr>)
      | Some (TokenCurrencyV3 (Some addr)) \<Rightarrow> Ok (out\<lparr>up_TokenContractAddress := addr\<rparr>)
      | Some (TokenCurrencyV3 None) \<Rightarrow> Panic nilDereference
      | None \<Rightarrow> Ok out)"

definition withCurrencyV4 :: "UnifiedPrice \<Rightarrow> currencyV4 option \<Rightarrow> UnifiedPrice res" where
  "withCurrencyV4 out currency =
     (case currency of
        Some NativeTokenV4 \<Rightarrow> Ok (out\<lparr>up_IsNative := True\<rparr>)
      | Some (IsoCurrencyV4 isoCode) \<Rightarrow> Ok (out\<lparr>up_IsoCurrencyEnum := isoCode\<rparr>)
      | Some (TokenCurrencyV4 (Some addr)) \<Rightarrow> Ok (out\<lparr>up_TokenContractAddress := addr\<rparr>)
      | Some (TokenCurrencyV4 None) \<Rightarrow> Panic nilDereference
      | None \<Rightarrow> Ok out)"

definition newUnified :: "string \<Rightarrow> uint32 \<Rightarrow> UnifiedPrice" where
  "newUnified value decimals =
     \<lparr>up_Price = value, up_Decimals = decimals, up_IsNative = False, up_IsoCurrencyEnum = 0, up_TokenContractAddress = []\<rparr>"

definition nilCurrency :: "'c option \<Rightarrow> ('c \<Rightarrow> 'a res) \<Rightarrow> 'a res" where
  "nilCurrency currency k = (case currency of None \<Rightarrow> Panic nilDereference | Some c \<Rightarrow> k c)"

definition PriceV3ToUnifiedPrice :: "mockPriceV3 \<Rightarrow> UnifiedPrice res" where
  "PriceV3ToUnifiedPrice price =
     onErr (MustInt32ToUInt32 (mp3_Decimals price)) (\<lambda>e. e) (\<lambda>decimals.
       nilCurrency (mp3_Currency price) (withCurrencyV3 (newUnified (mp3_Value price) decimals)))"

definition ExtractCurrencyV4 :: "UnifiedPrice \<Rightarrow> currencyV4 option option" where
  "ExtractCurrencyV4 p =
     (if up_IsNative p then Some (Some NativeTokenV4)
      else if up_IsoCurrencyEnum p \<noteq> 0 then Some (Some (IsoCurrencyV4 (up_IsoCurrencyEnum p)))
      else if up_TokenContractAddress p \<noteq> [] then Some (Some (TokenCurrencyV4 (Some (up_TokenContractAddress p))))
      else None)"

definition ToPriceV4 :: "UnifiedPrice \<Rightarrow> mockPriceV4" where
  "ToPriceV4 p = \<lparr>mp_Value = up_Price p, mp_Decimals = up_Decimals p, mp_Currency = ExtractCurrencyV4 p\<rparr>"

definition PriceV4ToUnifiedPrice :: "mockPriceV4 \<Rightarrow> UnifiedPrice res" where
  "PriceV4ToUnifiedPrice price =
     nilCurrency (mp_Currency price) (withCurrencyV4 (newUnified (mp_Value price) (mp_Decimals price)))"

definition ExtractCurrencyV5 :: "UnifiedPrice \<Rightarrow> currencyV4 option option" where
  "ExtractCurrencyV5 p =
     (if up_IsNative p then Some (Some NativeTokenV4)
      else if up_IsoCurrencyEnum p \<noteq> 0 then Some (Some (IsoCurrencyV4 (up_IsoCurrencyEnum p)))
      else if up_TokenContractAddress p \<noteq> [] then Some (Some (TokenCurrencyV4 (Some (up_TokenContractAddress p))))
      else None)"

definition ToPriceV5 :: "UnifiedPrice \<Rightarrow> mockPriceV5" where
  "ToPriceV5 p = \<lparr>mp_Value = up_Price p, mp_Decimals = up_Decimals p, mp_Currency = ExtractCurrencyV5 p\<rparr>"

definition PriceV5ToUnifiedPrice :: "mockPriceV5 \<Rightarrow> UnifiedPrice res" where
  "PriceV5ToUnifiedPrice price =
     nilCurrency (mp_Currency price) (withCurrencyV4 (newUnified (mp_Value price) (mp_Decimals price)))"

section \<open>The store (handlers/state)\<close>

definition EntryTimeout :: duration where "EntryTimeout = 10 * minute"

record SearchData =
  sd_NumResults :: int
  sd_NumTravelers :: int
  sd_SeatMapID :: string
  sd_Prices :: "UnifiedPrice list"

record ValidationData =
  vd_InitialSearchData :: SearchData
  vd_VerifiedPrice :: UnifiedPrice

record SearchResult =
  sr_Data :: SearchData
  sr_CreatedAt :: time

record ValidationResult =
  vr_Data :: ValidationData
  vr_CreatedAt :: time

record MintResult =
  mr_MintID :: string
  mr_SeatMapID :: string
  mr_CreatedAt :: time
  mr_Bought :: bool

record Store =
  searchResults :: "string \<rightharpoonup> SearchResult"
  validationResults :: "string \<rightharpoonup> ValidationResult"
  mintResults :: "string \<rightharpoonup> MintResult"

definition GetStore :: Store where
  "GetStore = \<lparr>searchResults = Map.empty, validationResults = Map.empty, mintResults = Map.empty\<rparr>"

definition AddSearchResult :: "time \<Rightarrow> string \<Rightarrow> SearchData \<Rightarrow> Store \<Rightarrow> Store" where
  "AddSearchResult now searchID data s =
     s\<lparr>searchResults := (searchResults s)(searchID \<mapsto> \<lparr>sr_Data = data, sr_CreatedAt = now\<rparr>)\<rparr>"

definition GetSearchResult :: "Store \<Rightarrow> string \<Rightarrow> SearchResult option" where
  "GetSearchResult s searchID = searchResults s searchID"

definition AddValidationResult :: "time \<Rightarrow> string \<Rightarrow> ValidationData \<Rightarrow> Store \<Rightarrow> Store" where
  "AddValidationResult now validationID data s =
     s\<lparr>validationResults := (validationResults s)(validationID \<mapsto> \<lparr>vr_Data = data, vr_CreatedAt = now\<rparr>)\<rparr>"

definition GetValidationResult :: "Store \<Rightarrow> string \<Rightarrow> ValidationResult option" where
  "GetValidationResult s validationID = validationResults s validationID"

definition AddMintResult :: "time \<Rightarrow> string \<Rightarrow> string \<Rightarrow> Store \<Rightarrow> Store" where
  "AddMintResult now mintID seatMapID s =
     s\<lparr>mintResults := (mintResults s)(mintID \<mapsto> \<lparr>mr_MintID = mintID, mr_SeatMapID = seatMapID, mr_CreatedAt = now, mr_Bought = False\<rparr>)\<rparr>"

definition SetMintBought :: "string \<Rightarrow> bool \<Rightarrow> Store \<Rightarrow> Store" where
  "SetMintBought mintID bought s =
     (case mintResults s mintID of
        None \<Rightarrow> s
      | Some result \<Rightarrow> s\<lparr>mintResults := (mintResults s)(mintID \<mapsto> result\<lparr>mr_Bought := bought\<rparr>)\<rparr>)"

definition RemoveMintResult :: "string \<Rightarrow> Store \<Rightarrow> Store" where
  "RemoveMintResult mintID s =
     (case mintResults s mintID of
        None \<Rightarrow> s
      | Some _ \<Rightarrow> s\<lparr>mintResults := (mintResults s)(mintID := None)\<rparr>)"

definition GetMintResult :: "Store \<Rightarrow> string \<Rightarrow> MintResult option" where
  "GetMintResult s mintID = mintResults s mintID"

text \<open>One pass of \<open>cleanupExpiredEntries\<close>, under the lock: the entries of a table that are not older than
  \<open>EntryTimeout\<close> stay.\<close>

definition keepFresh :: "time \<Rightarrow> ('e \<Rightarrow> time) \<Rightarrow> (string \<rightharpoonup> 'e) \<Rightarrow> (string \<rightharpoonup> 'e)" where
  "keepFresh now createdAt m =
     (\<lambda>id. case m id of None \<Rightarrow> None
        | Some result \<Rightarrow> if time_Sub now (createdAt result) > EntryTimeout then None else Some result)"

definition cleanupExpiredEntries :: "time \<Rightarrow> Store \<Rightarrow> Store" where
  "cleanupExpiredEntries now s =
     s\<lparr>searchResults := keepFresh now sr_CreatedAt (searchResults s),
       validationResults := keepFresh now vr_CreatedAt (validationResults s),
       mintResults := keepFresh now mr_CreatedAt (mintResults s)\<rparr>"

section \<open>The shared representation is faithful\<close>

text \<open>
  A price whose currency is set, and neither an unspecified ISO currency nor an empty token address, is
  unchanged by the way through the shared representation.
\<close>

definition plainCurrencyV3 :: "currencyV3 option option \<Rightarrow> bool" where
  "plainCurrencyV3 c =
     (case c of Some (Some NativeTokenV3) \<Rightarrow> True | Some (Some (IsoCurrencyV3 isoCode)) \<Rightarrow> isoCode \<noteq> 0
      | Some (Some (TokenCurrencyV3 (Some addr))) \<Rightarrow> addr \<noteq> [] | _ \<Rightarrow> False)"

definition plainCurrencyV4 :: "currencyV4 option option \<Rightarrow> bool" where
  "plainCurrencyV4 c =
     (case c of Some (Some NativeTokenV4) \<Rightarrow> True | Some (Some (IsoCurrencyV4 isoCode)) \<Rightarrow> isoCode \<noteq> 0
      | Some (Some (TokenCurrencyV4 (Some addr))) \<Rightarrow> addr \<noteq> [] | _ \<Rightarrow> False)"

definition plainV3 :: "mockPriceV3 \<Rightarrow> bool" where
  "plainV3 p \<longleftrightarrow> 0 \<le> sint (mp3_Decimals p) \<and> plainCurrencyV3 (mp3_Currency p)"

definition plainV4 :: "mockPriceV4 \<Rightarrow> bool" where
  "plainV4 p \<longleftrightarrow> plainCurrencyV4 (mp_Currency p)"

locale price_version =
  fixes toUnified :: "'p \<Rightarrow> UnifiedPrice res"
    and ofUnified :: "UnifiedPrice \<Rightarrow> 'p res"
    and plain :: "'p \<Rightarrow> bool"
  assumes roundtrip: "plain p \<Longrightarrow> onErr (toUnified p) (\<lambda>e. e) ofUnified = Ok p"
begin

text \<open>What the search handlers do with the price of a result: remember it for the validation, and in
  realistic mode replace the price shown by the normalized one.\<close>

lemma shown_price:
  assumes "plain p" and "toUnified p = Ok u"
  shows "ofUnified u = Ok p"
  using roundtrip[OF assms(1)] assms(2) by simp

lemma shownPrice_stored:
  assumes "shownPrice cfg toUnified ofUnified p = Ok (q, u)" and "RealisticPriceEnabled cfg \<or> plain p"
  shows "ofUnified u = Ok q"
  using assms shown_price by (auto simp: shownPrice_def Let_def onErr_eq_Ok_iff split: if_splits)

lemma has_unified: "plain p \<Longrightarrow> \<exists>u. toUnified p = Ok u \<and> ofUnified u = Ok p"
  using roundtrip by (auto simp: onErr_eq_Ok_iff)

lemma unified_inj:
  assumes "plain p" and "plain q" and "toUnified p = toUnified q"
  shows "p = q"
  using has_unified[OF assms(1)] has_unified[OF assms(2)] assms(3) by auto

end

lemmas unified_defs = newUnified_def nilCurrency_def withCurrencyV3_def withCurrencyV4_def

lemma uint32_of_nonneg:
  fixes d :: "32 word"
  assumes "0 \<le> sint d"
  shows "\<not> 2147483647 < d"
  using assms sint_lt[of d] uint_eq_sint[OF assms] by (simp add: word_less_def)

interpretation pv3: price_version PriceV3ToUnifiedPrice ToPriceV3 plainV3
  by unfold_locales
    (auto intro!: mockPriceV3.equality simp: plainV3_def plainCurrencyV3_def PriceV3ToUnifiedPrice_def ToPriceV3_def ExtractCurrencyV3_def unified_defs
      MustInt32ToUInt32_def MustUInt32ToInt32_def uint32_of_nonneg split: option.splits currencyV3.splits)

interpretation pv4: price_version PriceV4ToUnifiedPrice "\<lambda>u. Ok (ToPriceV4 u)" plainV4
  by unfold_locales
    (auto intro!: mockPriceV4.equality simp: plainV4_def plainCurrencyV4_def PriceV4ToUnifiedPrice_def ToPriceV4_def ExtractCurrencyV4_def unified_defs
      split: option.splits currencyV4.splits)

interpretation pv5: price_version PriceV5ToUnifiedPrice "\<lambda>u. Ok (ToPriceV5 u)" plainV4
  by unfold_locales
    (auto intro!: mockPriceV4.equality simp: plainV4_def plainCurrencyV4_def PriceV5ToUnifiedPrice_def ToPriceV5_def ExtractCurrencyV5_def unified_defs
      split: option.splits currencyV4.splits)

text \<open>The currency a price is given in is the one a price made of it asks for, and normalizing keeps it.\<close>

lemma Normalize_kind [simp]:
  "up_IsNative (NormalizeRealistic cfg u) = up_IsNative u"
  "up_IsoCurrencyEnum (NormalizeRealistic cfg u) = up_IsoCurrencyEnum u"
  "up_TokenContractAddress (NormalizeRealistic cfg u) = up_TokenContractAddress u"
  by (simp_all add: NormalizeRealistic_def)

section \<open>What the bot makes of a normalized price\<close>

lemma ToBigInt_verbatim: "ToBigInt v d d =
   (case SetString10 v of None \<Rightarrow> Fail (Err [PStr ''failed to convert value to big.Int: '', PStr v] []) | Some n \<Rightarrow> Ok n)"
  by (simp add: ToBigInt_def big_Exp_def split: option.splits)

lemma ToBigInt_same_iff:
  assumes v: "SetString10 v = Some n" and n: "n \<noteq> 0" and t: "0 \<le> sint t"
  shows "ToBigInt v t d = Ok n \<longleftrightarrow> t = d"
proof (cases "sint t < sint d")
  case True
  then have e: "sint (d - t) = sint d - sint t" using t by (intro sint_minus32) auto
  have "(1 :: int) < 10 ^ nat (sint d - sint t)" using True by (intro one_less_power) auto
  then have "(10 :: int) ^ nat (sint d - sint t) \<noteq> 1" by linarith
  moreover have "big_Exp 10 (sint (d - t)) = 10 ^ nat (sint d - sint t)"
    unfolding e using True by (intro big_Exp_10) simp
  ultimately have "big_Exp 10 (sint (d - t)) \<noteq> 1" by (simp only: not_False_eq_True)
  then show ?thesis using True v n by (auto simp: ToBigInt_def Let_def)
next
  case False
  have "t = d" if "\<not> sint d < sint t"
  proof -
    have "sint t = sint d" using that False by linarith
    then show ?thesis by (simp only: signed_word_eqI)
  qed
  then show ?thesis using v by (cases "t = d") (auto simp: ToBigInt_verbatim ToBigInt_def)
qed

text \<open>A normalized price in the native token is charged in its smallest unit, as it is written.\<close>

lemma normalized_native_verbatim:
  assumes "up_IsNative u" and "SetString10 (RealisticNativeBaseUnits cfg) = Some n"
  shows "fst (GetPriceAndTokenV4 hex env s (Some (sentV4 (ToPriceV4 (NormalizeRealistic cfg u))))) = Ok (n, NativePaymentToken, 0)"
    and "fst (GetPriceAndTokenV5 hex env s (Some (sentV4 (ToPriceV5 (NormalizeRealistic cfg u))))) = Ok (n, NativePaymentToken, 0)"
    and "\<exists>p. ToPriceV3 (NormalizeRealistic cfg u) = Ok p \<and>
           fst (GetPriceAndTokenV3 hex env s (Some (sentV3 p))) = Ok (n, NativePaymentToken, 0)"
  using assms
  by (simp_all add: GetPriceAndTokenV3_def GetPriceAndTokenV4_def GetPriceAndTokenV5_def sentV3_def sentV4_def ToPriceV3_def ToPriceV4_def
      ToPriceV5_def ExtractCurrencyV3_def ExtractCurrencyV4_def ExtractCurrencyV5_def NormalizeRealistic_def MustUInt32ToInt32_def ToBigInt_verbatim)

text \<open>A price in a token is charged as it is written exactly when the configured decimals of the token are
  those of its contract. With fewer decimals in the contract the bot refuses the price; this is what the
  default of 18 gives for a token of 6 decimals that is not configured.\<close>

lemma normalized_token:
  assumes "\<not> up_IsNative u" "up_IsoCurrencyEnum u = 0" "up_TokenContractAddress u \<noteq> []"
    and "SetString10 (RealisticNativeBaseUnits cfg) = Some n" and "n \<noteq> 0"
    and "fst (Decimals env s (hex (up_TokenContractAddress u))) = Ok d" and "0 \<le> sint d"
    and "uint (TokenDecimalsFor cfg (up_TokenContractAddress u)) \<le> 2147483647"
  shows "fst (GetPriceAndTokenV5 hex env s (Some (sentV4 (ToPriceV5 (NormalizeRealistic cfg u))))) =
           Ok (n, hex (up_TokenContractAddress u), 0) \<longleftrightarrow> TokenDecimalsFor cfg (up_TokenContractAddress u) = d"
proof -
  let ?t = "TokenDecimalsFor cfg (up_TokenContractAddress u)"
  have t: "\<not> 2147483647 < ?t" and st: "sint ?t = uint ?t"
    using assms(8) by (simp_all add: word_less_def sint_eq_uint32)
  have "fst (GetPriceAndTokenV5 hex env s (Some (sentV4 (ToPriceV5 (NormalizeRealistic cfg u))))) =
      onErr (ToBigInt (RealisticNativeBaseUnits cfg) ?t d) (wrap ''failed to convert price to big.Int: '')
        (\<lambda>a. Ok (a, hex (up_TokenContractAddress u), 0))"
    using assms t by (simp add: GetPriceAndTokenV5_def sentV4_def ToPriceV5_def ExtractCurrencyV5_def NormalizeRealistic_def MustUInt32ToInt32_def
        case_prod_beta Let_def)
  moreover have "ToBigInt (RealisticNativeBaseUnits cfg) ?t d = Ok n \<longleftrightarrow> ?t = d"
    using assms(4,5) st by (intro ToBigInt_same_iff) auto
  ultimately show ?thesis by (cases "ToBigInt (RealisticNativeBaseUnits cfg) ?t d") auto
qed

section \<open>How long entries live\<close>

text \<open>The operations of the handlers and of the cleanup goroutine, each under the lock of the store and with the
  time it reads.\<close>

datatype store_op =
    OpSearch string SearchData
  | OpValidation string ValidationData
  | OpMint string string
  | OpBought string bool
  | OpRemove string
  | OpCleanup

fun store_apply :: "time \<Rightarrow> store_op \<Rightarrow> Store \<Rightarrow> Store" where
  "store_apply now (OpSearch searchID d) s = AddSearchResult now searchID d s"
| "store_apply now (OpValidation validationID d) s = AddValidationResult now validationID d s"
| "store_apply now (OpMint mintID seatMapID) s = AddMintResult now mintID seatMapID s"
| "store_apply now (OpBought mintID bought) s = SetMintBought mintID bought s"
| "store_apply now (OpRemove mintID) s = RemoveMintResult mintID s"
| "store_apply now OpCleanup s = cleanupExpiredEntries now s"

definition store_run :: "(time \<times> store_op) list \<Rightarrow> Store \<Rightarrow> Store" where
  "store_run ops s = fold (\<lambda>(now, op). store_apply now op) ops s"

lemma store_run_simps [simp]:
  "store_run [] s = s"
  "store_run ((now, op) # ops) s = store_run ops (store_apply now op s)"
  "store_run (ops @ ops') s = store_run ops' (store_run ops s)"
  by (simp_all add: store_run_def)

text \<open>
  The contract of one of the three tables: only the operations in \<open>touches\<close> change an entry, and the cleanup
  drops exactly the entries that are too old.
\<close>

locale entry_table =
  fixes get :: "Store \<Rightarrow> string \<Rightarrow> 'e option"
    and createdAt :: "'e \<Rightarrow> time"
    and touches :: "store_op \<Rightarrow> string \<Rightarrow> bool"
  assumes untouched: "\<not> touches op k \<Longrightarrow> op \<noteq> OpCleanup \<Longrightarrow> get (store_apply now op s) k = get s k"
    and cleanup: "get (cleanupExpiredEntries now s) k =
      (case get s k of None \<Rightarrow> None | Some e \<Rightarrow> if time_Sub now (createdAt e) > EntryTimeout then None else Some e)"
begin

lemma fresh_kept:
  assumes "get s k = Some e"
    and "\<forall>(now, op) \<in> set ops. \<not> touches op k \<and> now \<le> createdAt e + EntryTimeout"
  shows "get (store_run ops s) k = Some e"
  using assms
proof (induction ops arbitrary: s)
  case (Cons x ops)
  obtain now op where x: "x = (now, op)" by fastforce
  have "time_Sub now (createdAt e) \<le> EntryTimeout"
    using Cons.prems(2) x by (subst time_Sub_le_iff) (auto simp: EntryTimeout_def)
  then have "get (store_apply now op s) k = Some e"
    using Cons.prems x untouched[of op k now s] cleanup[of now s k] by (cases "op = OpCleanup") auto
  then show ?case using Cons x by auto
qed simp

lemma gone_stays:
  assumes "get s k = None" and "\<forall>(now, op) \<in> set ops. \<not> touches op k"
  shows "get (store_run ops s) k = None"
  using assms
proof (induction ops arbitrary: s)
  case (Cons x ops)
  obtain now op where x: "x = (now, op)" by fastforce
  have "get (store_apply now op s) k = None"
    using Cons.prems x untouched[of op k now s] cleanup[of now s k] by (cases "op = OpCleanup") auto
  then show ?case using Cons x by auto
qed simp

lemma stale_dropped:
  assumes "get s k = Some e" and "\<forall>(now, op) \<in> set (ops @ ops'). \<not> touches op k"
    and "createdAt e + EntryTimeout < now"
  shows "get (store_run (ops @ (now, OpCleanup) # ops') s) k = None"
proof -
  have "get (store_run ops s) k \<in> {None, Some e}" using assms(1,2)
  proof (induction ops arbitrary: s)
    case (Cons x ops)
    obtain t op where x: "x = (t, op)" by fastforce
    have "get (store_apply t op s) k \<in> {None, Some e}"
      using Cons.prems x untouched[of op k t s] cleanup[of t s k] by (cases "op = OpCleanup") auto
    moreover have "\<forall>(now, op) \<in> set ops. \<not> touches op k" using Cons.prems(2) by auto
    ultimately show ?case using Cons x gone_stays[of "store_apply t op s" k ops] by auto
  qed simp
  moreover have "\<not> time_Sub now (createdAt e) \<le> EntryTimeout"
    using assms(3) by (subst time_Sub_le_iff) (auto simp: EntryTimeout_def)
  ultimately have "get (store_apply now OpCleanup (store_run ops s)) k = None"
    using cleanup[of now "store_run ops s" k] by auto
  then show ?thesis using gone_stays[of _ k ops'] assms(2) by auto
qed

end

fun touchesSearch :: "store_op \<Rightarrow> string \<Rightarrow> bool" where
  "touchesSearch (OpSearch searchID d) k \<longleftrightarrow> searchID = k"
| "touchesSearch _ k \<longleftrightarrow> False"

fun touchesValidation :: "store_op \<Rightarrow> string \<Rightarrow> bool" where
  "touchesValidation (OpValidation validationID d) k \<longleftrightarrow> validationID = k"
| "touchesValidation _ k \<longleftrightarrow> False"

fun touchesMint :: "store_op \<Rightarrow> string \<Rightarrow> bool" where
  "touchesMint (OpMint mintID seatMapID) k \<longleftrightarrow> mintID = k"
| "touchesMint (OpBought mintID bought) k \<longleftrightarrow> mintID = k"
| "touchesMint (OpRemove mintID) k \<longleftrightarrow> mintID = k"
| "touchesMint _ k \<longleftrightarrow> False"

lemmas store_defs = AddSearchResult_def AddValidationResult_def AddMintResult_def SetMintBought_def RemoveMintResult_def
  GetSearchResult_def GetValidationResult_def GetMintResult_def cleanupExpiredEntries_def keepFresh_def

interpretation searches: entry_table GetSearchResult sr_CreatedAt touchesSearch
proof
  fix op k now s assume "\<not> touchesSearch op k" "op \<noteq> OpCleanup"
  then show "GetSearchResult (store_apply now op s) k = GetSearchResult s k"
    by (cases op) (auto simp: store_defs split: option.splits)
qed (simp add: store_defs)

interpretation validations: entry_table GetValidationResult vr_CreatedAt touchesValidation
proof
  fix op k now s assume "\<not> touchesValidation op k" "op \<noteq> OpCleanup"
  then show "GetValidationResult (store_apply now op s) k = GetValidationResult s k"
    by (cases op) (auto simp: store_defs split: option.splits)
qed (simp add: store_defs)

interpretation mints: entry_table GetMintResult mr_CreatedAt touchesMint
proof
  fix op k now s assume "\<not> touchesMint op k" "op \<noteq> OpCleanup"
  then show "GetMintResult (store_apply now op s) k = GetMintResult s k"
    by (cases op) (auto simp: store_defs split: option.splits)
qed (simp add: store_defs)

lemma Get_Add [simp]:
  "GetSearchResult (AddSearchResult now k d s) k = Some \<lparr>sr_Data = d, sr_CreatedAt = now\<rparr>"
  "GetValidationResult (AddValidationResult now k v s) k = Some \<lparr>vr_Data = v, vr_CreatedAt = now\<rparr>"
  "GetMintResult (AddMintResult now k m s) k = Some \<lparr>mr_MintID = k, mr_SeatMapID = m, mr_CreatedAt = now, mr_Bought = False\<rparr>"
  by (simp_all add: store_defs)

end
