(* ===== verification/Mock_Common.thy ===== *)
theory Mock_Common
  imports Mock_State
begin

text \<open>
  What the handlers of the mock partner plugin share (\<^verbatim>\<open>pp-mock/common/common.go\<close>, \<^verbatim>\<open>pp-mock/localization\<close>): dates
  and travel periods, response headers, fixed prices, expiring identifiers. The calendar of the \<open>time\<close> package
  is part of the model. A message the code only copies or compares with \<open>proto.Equal\<close> is a value, so that a
  clone is the value itself.
\<close>

section \<open>The calendar\<close>

text \<open>\<open>time.Date(y, m, d, 0, 0, 0, 0, time.UTC)\<close> with months and days outside of their range carried over, and the
  year, month and day of a time. Days are counted from the Unix epoch; 719162 days before it the year 1 began.\<close>

abbreviation (input) day :: duration where "day \<equiv> 86400000000000"

definition isLeap :: "int \<Rightarrow> bool" where
  "isLeap y \<longleftrightarrow> y mod 4 = 0 \<and> (y mod 100 \<noteq> 0 \<or> y mod 400 = 0)"

definition yearStart :: "int \<Rightarrow> int" where
  "yearStart y = 365 * (y - 1) + (y - 1) div 4 - (y - 1) div 100 + (y - 1) div 400 - 719162"

definition monthStarts :: "bool \<Rightarrow> int list" where
  "monthStarts leap =
     (if leap then [0, 31, 60, 91, 121, 152, 182, 213, 244, 274, 305, 335]
      else [0, 31, 59, 90, 120, 151, 181, 212, 243, 273, 304, 334])"

definition time_Date :: "int \<Rightarrow> int \<Rightarrow> int \<Rightarrow> time" where
  "time_Date y m d =
     (let y' = y + (m - 1) div 12; m' = nat ((m - 1) mod 12)
      in (yearStart y' + monthStarts (isLeap y') ! m' + (d - 1)) * day)"

definition yearAndDay :: "time \<Rightarrow> int \<times> int" where
  "yearAndDay t =
     (let n = t div day + 719162;
          n400 = n div 146097; n = n mod 146097;
          n100 = min 3 (n div 36524); n = n - 36524 * n100;
          n4 = n div 1461; n = n mod 1461;
          n1 = min 3 (n div 365); n = n - 365 * n1
      in (400 * n400 + 100 * n100 + 4 * n4 + n1 + 1, n))"

definition time_Year :: "time \<Rightarrow> int" where "time_Year t = fst (yearAndDay t)"

definition time_Month :: "time \<Rightarrow> int" where
  "time_Month t = (case yearAndDay t of (y, yday) \<Rightarrow> int (length (takeWhile (\<lambda>s. s \<le> yday) (monthStarts (isLeap y)))))"

definition time_Day :: "time \<Rightarrow> int" where
  "time_Day t = (case yearAndDay t of (y, yday) \<Rightarrow> yday - monthStarts (isLeap y) ! nat (time_Month t - 1) + 1)"

text \<open>\<open>t.Truncate(24 * time.Hour)\<close>; the zero time is a whole number of days away from the epoch.\<close>

definition Truncate_day :: "time \<Rightarrow> time" where "Truncate_day t = t - t mod day"

section \<open>Dates (common.go)\<close>

record 'n date =
  date_Year :: 'n
  date_Month :: 'n
  date_Day :: 'n

type_synonym dateV1 = "int32 date"
type_synonym dateV4 = "uint32 date"

record 'n travelPeriod =
  tp_StartDate :: "'n date option"
  tp_EndDate :: "'n date option"

text \<open>The getters of a nil date give 0.\<close>

definition DateV1ToTime :: "dateV1 option \<Rightarrow> time" where
  "DateV1ToTime date =
     (case date of None \<Rightarrow> time_Date 0 0 0 | Some d \<Rightarrow> time_Date (sint (date_Year d)) (sint (date_Month d)) (sint (date_Day d)))"

definition DateV4ToTime :: "dateV4 option \<Rightarrow> time" where
  "DateV4ToTime date =
     (case date of None \<Rightarrow> time_Date 0 0 0 | Some d \<Rightarrow> time_Date (uint (date_Year d)) (uint (date_Month d)) (uint (date_Day d)))"

definition DaysBetweenDatesV1 :: "dateV1 option \<Rightarrow> dateV1 option \<Rightarrow> int" where
  "DaysBetweenDatesV1 endDate startDate = quot (time_Sub (DateV1ToTime endDate) (DateV1ToTime startDate)) day"

definition DaysBetweenDatesV4 :: "dateV4 option \<Rightarrow> dateV4 option \<Rightarrow> int" where
  "DaysBetweenDatesV4 endDate startDate = quot (time_Sub (DateV4ToTime endDate) (DateV4ToTime startDate)) day"

definition TimeToDateV1 :: "time \<Rightarrow> dateV1" where
  "TimeToDateV1 t = \<lparr>date_Year = word_of_int (time_Year t), date_Month = word_of_int (time_Month t), date_Day = word_of_int (time_Day t)\<rparr>"

definition TimeToDateV4 :: "time \<Rightarrow> dateV4" where
  "TimeToDateV4 t = \<lparr>date_Year = word_of_int (time_Year t), date_Month = word_of_int (time_Month t), date_Day = word_of_int (time_Day t)\<rparr>"

definition TravelPeriodMinStartOffset :: duration where "TravelPeriodMinStartOffset = day"
definition TravelPeriodMaxDuration :: duration where "TravelPeriodMaxDuration = 60 * day"
definition FreeCancellationDuration :: duration where "FreeCancellationDuration = 7 * day"

definition TravelPeriodErrorStr :: msgtext where
  "TravelPeriodErrorStr =
     [PStr ''Travel period is outside of the allowed constraints. The range is [now+'', PInt (TravelPeriodMinStartOffset div day),
      PStr '', now+'', PInt ((TravelPeriodMinStartOffset + TravelPeriodMaxDuration) div day),
      PStr ''] days. Additionally the start date must be before the end date.'']"

definition IsTravelPeriodAllowedV1 :: "time \<Rightarrow> int32 travelPeriod \<Rightarrow> bool" where
  "IsTravelPeriodAllowedV1 now travelPeriod =
     (let startDate = Truncate_day now + TravelPeriodMinStartOffset;
          endDate = startDate + TravelPeriodMaxDuration
      in \<not> DateV1ToTime (tp_StartDate travelPeriod) < startDate \<and> \<not> DateV1ToTime (tp_EndDate travelPeriod) > endDate \<and>
         DateV1ToTime (tp_StartDate travelPeriod) < DateV1ToTime (tp_EndDate travelPeriod))"

definition IsTravelPeriodAllowedV4WithTime :: "time \<Rightarrow> uint32 travelPeriod \<Rightarrow> bool" where
  "IsTravelPeriodAllowedV4WithTime now travelPeriod =
     (let startDate = Truncate_day now + TravelPeriodMinStartOffset;
          endDate = startDate + TravelPeriodMaxDuration
      in \<not> DateV4ToTime (tp_StartDate travelPeriod) < startDate \<and> \<not> DateV4ToTime (tp_EndDate travelPeriod) > endDate \<and>
         DateV4ToTime (tp_StartDate travelPeriod) < DateV4ToTime (tp_EndDate travelPeriod))"

definition AreTravelDatesValidV1 :: "dateV1 option \<Rightarrow> dateV1 option \<Rightarrow> bool" where
  "AreTravelDatesValidV1 departureDate arrivalDate =
     (if departureDate = None \<or> arrivalDate = None then False
      else \<not> DateV1ToTime departureDate > DateV1ToTime arrivalDate)"

definition AreTravelDatesValidV4 :: "dateV4 option \<Rightarrow> dateV4 option \<Rightarrow> bool" where
  "AreTravelDatesValidV4 departureDate arrivalDate \<longleftrightarrow> \<not> DateV4ToTime departureDate > DateV4ToTime arrivalDate"

section \<open>Travellers, slices, descriptions\<close>

record 'n traveller =
  TravellerId :: 'n
  traveller_Rest :: bytes

definition GetTravellerIDsV3 :: "int32 traveller list \<Rightarrow> int32 list" where
  "GetTravellerIDsV3 travellers = map TravellerId travellers"

definition GetTravellerIDsV4 :: "uint32 traveller list \<Rightarrow> uint32 list" where
  "GetTravellerIDsV4 travellers = map TravellerId travellers"

definition ProtoSlicesEqual :: "'a list \<Rightarrow> 'a list \<Rightarrow> bool" where
  "ProtoSlicesEqual a b =
     (if length a \<noteq> length b then False else list_all (\<lambda>i. a ! i = b ! i) [0..<length a])"

record descriptionSet =
  ds_Language :: int32
  ds_Texts :: bytes

definition FilterDescriptionsV4 :: "descriptionSet list \<Rightarrow> int32 list \<Rightarrow> descriptionSet list" where
  "FilterDescriptionsV4 descriptions languages = filter (\<lambda>descSet. list_ex (\<lambda>reqLang. ds_Language descSet = reqLang) languages) descriptions"

section \<open>Headers\<close>

datatype mockAlertV1 = InfoAlert msgtext | ErrorAlert msgtext

record mockHeaderV1 =
  mh_Success :: bool
  mh_Alerts :: "mockAlertV1 list"

definition SuccessHeaderV1 :: mockHeaderV1 where "SuccessHeaderV1 = \<lparr>mh_Success = True, mh_Alerts = []\<rparr>"

definition SuccessHeaderWithInfoV1 :: "msgtext \<Rightarrow> mockHeaderV1" where
  "SuccessHeaderWithInfoV1 message = \<lparr>mh_Success = True, mh_Alerts = [InfoAlert message]\<rparr>"

definition ErrorHeaderV1 :: "msgtext \<Rightarrow> mockHeaderV1" where
  "ErrorHeaderV1 message = \<lparr>mh_Success = False, mh_Alerts = [ErrorAlert message]\<rparr>"

definition AddHeaderInfoV1 :: "mockHeaderV1 \<Rightarrow> msgtext \<Rightarrow> mockHeaderV1" where
  "AddHeaderInfoV1 header message = header\<lparr>mh_Alerts := mh_Alerts header @ [InfoAlert message]\<rparr>"

datatype mockErrorCode = INVALID_IDENTIFIERS | BUSINESS_PROCESS_ERROR | UNIMPLEMENTED | INVALID_CURRENCY | INTERNAL

datatype mockAlertV4 = NO_CONTENT msgtext | INFORMATIONAL msgtext

type_synonym mockHeaderV4 = "mockAlertV4 list"
type_synonym mockErrorV4 = "(mockErrorCode \<times> msgtext) list"

definition SuccessHeaderV4 :: mockHeaderV4 where "SuccessHeaderV4 = []"

definition ErrorHeaderV4 :: "mockErrorCode \<Rightarrow> msgtext \<Rightarrow> mockErrorV4" where
  "ErrorHeaderV4 code message = [(code, message)]"

definition AddHeaderAlertV4 :: "mockHeaderV4 \<Rightarrow> (msgtext \<Rightarrow> mockAlertV4) \<Rightarrow> msgtext \<Rightarrow> mockHeaderV4" where
  "AddHeaderAlertV4 header code message = header @ [code message]"

text \<open>A response of the versions that answer with a one-of.\<close>

datatype 'a mockResponse = MockSuccess 'a | MockError mockErrorV4

section \<open>Fixed prices and identifiers\<close>

definition DefaultPricePerNight :: int where "DefaultPricePerNight = 10533"
definition DefaultPricePerNightStr :: string where "DefaultPricePerNightStr = ''10533''"
definition DefaultPricePerNightDecimals :: int32 where "DefaultPricePerNightDecimals = 2"
definition BookingTokenPriceValue :: string where "BookingTokenPriceValue = ''1''"

definition DefaultPricePerNightNativeTokenBig :: "int res" where
  "DefaultPricePerNightNativeTokenBig = ToBigInt DefaultPricePerNightStr DefaultPricePerNightDecimals NativeTokenDecimals"

definition BookingTokenPriceV3 :: mockPriceV3 where
  "BookingTokenPriceV3 = \<lparr>mp3_Value = BookingTokenPriceValue, mp3_Decimals = 0, mp3_Currency = Some (Some NativeTokenV3)\<rparr>"

definition BookingTokenPriceV4 :: mockPriceV4 where
  "BookingTokenPriceV4 = \<lparr>mp_Value = BookingTokenPriceValue, mp_Decimals = 0, mp_Currency = Some (Some NativeTokenV4)\<rparr>"

definition BookingTokenPriceV5 :: mockPriceV5 where
  "BookingTokenPriceV5 = \<lparr>mp_Value = BookingTokenPriceValue, mp_Decimals = 0, mp_Currency = Some (Some NativeTokenV4)\<rparr>"

text \<open>An identifier, made by the \<open>uuid\<close> package, and when it expires.\<close>

record expiringUUID =
  eu_Id :: string
  eu_Expiration :: time

definition NewExpiringUUIDWithTime :: "string \<Rightarrow> time \<Rightarrow> expiringUUID" where
  "NewExpiringUUIDWithTime uuid now = \<lparr>eu_Id = uuid, eu_Expiration = now + EntryTimeout\<rparr>"

text \<open>\<open>AsTime\<close> of a nil timestamp is the epoch.\<close>

definition AsTime :: "time option \<Rightarrow> time" where "AsTime t = (case t of None \<Rightarrow> 0 | Some t \<Rightarrow> t)"

definition indexOutOfRange :: msgtext where "indexOutOfRange = [PStr ''runtime error: index out of range'']"

text \<open>A field of a message that may be nil.\<close>

definition onPtr :: "'a option \<Rightarrow> ('a \<Rightarrow> 'b res) \<Rightarrow> 'b res" where
  "onPtr p k = (case p of None \<Rightarrow> Panic nilDereference | Some x \<Rightarrow> k x)"

lemma onPtr_simps [simp]: "onPtr None k = Panic nilDereference" "onPtr (Some x) k = k x"
  by (simp_all add: onPtr_def)

lemma onPtr_Ok_iff: "onPtr p k = Ok r \<longleftrightarrow> (\<exists>x. p = Some x \<and> k x = Ok r)"
  by (simp add: onPtr_def split: option.splits)

text \<open>An answer with the alert that nothing was found.\<close>

definition listAnswerV1 :: "string \<Rightarrow> 'a list \<Rightarrow> mockHeaderV1 \<times> 'a list" where
  "listAnswerV1 message items =
     (if length items = 0 then SuccessHeaderV1\<lparr>mh_Alerts := [InfoAlert [PStr message]]\<rparr> else SuccessHeaderV1, items)"

definition listAnswerV4 :: "string \<Rightarrow> 'a list \<Rightarrow> (mockHeaderV4 \<times> 'a list) mockResponse" where
  "listAnswerV4 message items = MockSuccess
     (if length items = 0 then AddHeaderAlertV4 SuccessHeaderV4 NO_CONTENT [PStr message] else SuccessHeaderV4, items)"

text \<open>Whether all queries name the same travellers (the version 3 searches).\<close>

definition sameTravellersV3 :: "'a list list \<Rightarrow> bool" where
  "sameTravellersV3 travellers =
     list_all (\<lambda>i. list_all (\<lambda>j. i = j \<or> length (travellers ! i) = length (travellers ! j) \<and>
       list_all (\<lambda>k. travellers ! i ! k = travellers ! j ! k) [0..<length (travellers ! i)]) [0..<length travellers]) [0..<length travellers]"

text \<open>Loops that keep the elements passing a test, where the test may panic.\<close>

fun filterRes :: "('a \<Rightarrow> bool res) \<Rightarrow> 'a list \<Rightarrow> 'a list res" where
  "filterRes P [] = Ok []"
| "filterRes P (x # xs) =
     onErr (P x) (\<lambda>e. e) (\<lambda>b. onErr (filterRes P xs) (\<lambda>e. e) (\<lambda>ys. Ok (if b then x # ys else ys)))"

lemma filterRes_OkD: "filterRes P xs = Ok ys \<Longrightarrow> ys = filter (\<lambda>x. P x = Ok True) xs"
  by (induction xs arbitrary: ys) (auto simp: onErr_eq_Ok_iff)

lemma filterRes_total: "(\<And>x. x \<in> set xs \<Longrightarrow> P x = Ok (Q x)) \<Longrightarrow> filterRes P xs = Ok (filter Q xs)"
  by (induction xs) auto

lemma filterRes_set: "filterRes P xs = Ok ys \<Longrightarrow> y \<in> set ys \<longleftrightarrow> y \<in> set xs \<and> P y = Ok True"
  by (auto dest: filterRes_OkD)

fun mapRes :: "('a \<Rightarrow> 'b res) \<Rightarrow> 'a list \<Rightarrow> 'b list res" where
  "mapRes f [] = Ok []"
| "mapRes f (x # xs) = onErr (f x) (\<lambda>e. e) (\<lambda>y. onErr (mapRes f xs) (\<lambda>e. e) (\<lambda>ys. Ok (y # ys)))"

text \<open>Loops that number their results, and what is printed of a number.\<close>

fun numberRes :: "('a \<Rightarrow> 'n::len word \<Rightarrow> 'b res) \<Rightarrow> 'n word \<Rightarrow> 'a list \<Rightarrow> 'b list res" where
  "numberRes f n [] = Ok []"
| "numberRes f n (x # xs) = onErr (f x n) (\<lambda>e. e) (\<lambda>r. onErr (numberRes f (n + 1) xs) (\<lambda>e. e) (\<lambda>rs. Ok (r # rs)))"

lemma numberRes_length: "numberRes f n xs = Ok rs \<Longrightarrow> length rs = length xs"
  by (induction xs arbitrary: n rs) (auto simp: onErr_eq_Ok_iff)

lemma numberRes_total: "(\<And>x k. x \<in> set xs \<Longrightarrow> \<exists>r. f x k = Ok r) \<Longrightarrow> \<exists>rs. numberRes f n xs = Ok rs"
proof (induction xs arbitrary: n)
  case (Cons x xs)
  obtain r where "f x n = Ok r" using Cons.prems by auto
  moreover obtain rs where "numberRes f (n + 1) xs = Ok rs" using Cons.IH[of "n + 1"] Cons.prems by auto
  ultimately show ?case by simp
qed simp

lemma numberRes_nth:
  "numberRes f n xs = Ok rs \<Longrightarrow> i < length xs \<Longrightarrow> f (xs ! i) (n + word_of_nat i) = Ok (rs ! i)"
proof (induction xs arbitrary: n rs i)
  case (Cons x xs)
  obtain r rs' where r: "f x n = Ok r" "numberRes f (n + 1) xs = Ok rs'" "rs = r # rs'"
    using Cons.prems(1) by (auto simp: onErr_eq_Ok_iff)
  show ?case
  proof (cases i)
    case (Suc j)
    then have "f (xs ! j) (n + 1 + word_of_nat j) = Ok (rs' ! j)" using Cons.IH[OF r(2)] Cons.prems(2) by simp
    then show ?thesis using Suc r(3) by (simp add: add.assoc)
  qed (use r in simp)
qed simp

lemma numberRes_cong: "(\<And>x k. x \<in> set xs \<Longrightarrow> f x k = g x k) \<Longrightarrow> numberRes f n xs = numberRes g n xs"
  by (induction xs arbitrary: n) auto

lemma filterRes_cong: "(\<And>x. x \<in> set xs \<Longrightarrow> P x = Q x) \<Longrightarrow> filterRes P xs = filterRes Q xs"
  by (induction xs) auto

lemma priceV4_V5: "PriceV4ToUnifiedPrice = PriceV5ToUnifiedPrice" "ToPriceV4 = ToPriceV5"
  by (auto simp: PriceV4ToUnifiedPrice_def PriceV5ToUnifiedPrice_def ToPriceV4_def ToPriceV5_def ExtractCurrencyV4_def ExtractCurrencyV5_def)

lemma filterRes_subset: "filterRes P xs = Ok ys \<Longrightarrow> set ys \<subseteq> set xs"
  by (auto simp: filterRes_set)

definition show_int :: "int \<Rightarrow> string" where
  "show_int n = (if n < 0 then CHR ''-'' # show_nat (nat (- n)) else show_nat (nat n))"

text \<open>A printed amount is read as the number it was printed from.\<close>

lemma SetString10_show_int: "0 \<le> n \<Longrightarrow> SetString10 (show_int n) = Some n"
proof -
  assume n: "0 \<le> n"
  have p: "parse_digits 0 (show_nat (nat n)) = Some n" using parse_show[of "nat n"] n by simp
  obtain c cs where c: "show_nat (nat n) = c # cs" using show_nat_ne(1)[of "nat n"] by (meson neq_Nil_conv)
  moreover have "digit_val c \<noteq> None" using p c by (auto split: option.splits)
  then have "c \<noteq> CHR ''-''" "c \<noteq> CHR ''+''" by (auto simp: digit_val_def)
  ultimately show ?thesis using p n by (simp add: SetString10_def show_int_def parse_nat10_def)
qed

lemma ProtoSlicesEqual_iff [simp]: "ProtoSlicesEqual a b \<longleftrightarrow> a = b"
  by (auto simp: ProtoSlicesEqual_def list_all_iff intro: nth_equalityI)

lemma default_price_per_night: "DefaultPricePerNightNativeTokenBig = Ok 105330000000000000000"
  by code_simp

section \<open>The calendar is read back\<close>

definition daysIn :: "bool \<Rightarrow> int \<Rightarrow> int" where
  "daysIn leap m = (if m = 2 then (if leap then 29 else 28) else if m \<in> {4, 6, 9, 11} then 30 else 31)"

definition calendarDate :: "int \<Rightarrow> int \<Rightarrow> int \<Rightarrow> bool" where
  "calendarDate y m d \<longleftrightarrow> 1 \<le> m \<and> m \<le> 12 \<and> 1 \<le> d \<and> d \<le> daysIn (isLeap y) m"

text \<open>A year by its place in the cycles of 400, 100, 4 and 1 years.\<close>

definition yearCycle :: "int \<Rightarrow> int \<Rightarrow> int \<Rightarrow> int \<Rightarrow> int \<Rightarrow> bool" where
  "yearCycle y a b c e \<longleftrightarrow> y = 400 * a + 100 * b + 4 * c + e + 1 \<and>
     0 \<le> b \<and> b \<le> 3 \<and> 0 \<le> c \<and> c \<le> 24 \<and> 0 \<le> e \<and> e \<le> 3"

lemma year_cycle: "\<exists>a b c e. yearCycle y a b c e"
proof -
  define x where "x = y - 1"
  define r where "r = x mod 400"
  define s where "s = r mod 100"
  have r: "0 \<le> r" "r < 400" and s: "0 \<le> s" "s < 100" by (simp_all add: r_def s_def)
  have "x = 400 * (x div 400) + r" "r = 100 * (r div 100) + s" "s = 4 * (s div 4) + s mod 4"
    by (simp_all add: r_def s_def)
  moreover have "0 \<le> r div 100" "r div 100 \<le> 3" "0 \<le> s div 4" "s div 4 \<le> 24" "0 \<le> s mod 4" "s mod 4 \<le> 3"
    using r s by presburger+
  ultimately have "yearCycle y (x div 400) (r div 100) (s div 4) (s mod 4)"
    unfolding yearCycle_def x_def by linarith
  then show ?thesis by blast
qed

lemma div_unique_int: "x = b * q + r \<Longrightarrow> 0 \<le> r \<Longrightarrow> r < b \<Longrightarrow> x div b = q \<and> x mod b = (r :: int)"
  by (simp add: int_div_pos_eq int_mod_pos_eq)

lemma yearCycle_start:
  assumes "yearCycle y a b c e"
  shows "yearStart y = 146097 * a + 36524 * b + 1461 * c + 365 * e - 719162"
proof -
  note lims = assms[unfolded yearCycle_def]
  have "(y - 1) div 4 = 100 * a + 25 * b + c \<and> (y - 1) mod 4 = e" using lims by (intro div_unique_int) auto
  moreover have "(y - 1) div 100 = 4 * a + b \<and> (y - 1) mod 100 = 4 * c + e" using lims by (intro div_unique_int) auto
  moreover have "(y - 1) div 400 = a \<and> (y - 1) mod 400 = 100 * b + 4 * c + e" using lims by (intro div_unique_int) auto
  ultimately have "yearStart y = 365 * (y - 1) + (100 * a + 25 * b + c) - (4 * a + b) + a - 719162"
    by (simp only: yearStart_def)
  then show ?thesis using lims by simp
qed

lemma yearCycle_leap:
  assumes "yearCycle y a b c e"
  shows "isLeap y \<longleftrightarrow> e = 3 \<and> (c = 24 \<longrightarrow> b = 3)"
proof -
  have m4: "y mod 4 = (if e = 3 then 0 else e + 1)"
    using assms div_unique_int[of y 4 "100 * a + 25 * b + c" "e + 1"] div_unique_int[of y 4 "100 * a + 25 * b + c + 1" 0]
    unfolding yearCycle_def by auto
  have m100: "y mod 100 = (if c = 24 \<and> e = 3 then 0 else 4 * c + e + 1)"
    using assms div_unique_int[of y 100 "4 * a + b" "4 * c + e + 1"] div_unique_int[of y 100 "4 * a + b + 1" 0]
    unfolding yearCycle_def by auto
  have m400: "y mod 400 = (if b = 3 \<and> c = 24 \<and> e = 3 then 0 else 100 * b + 4 * c + e + 1)"
    using assms div_unique_int[of y 400 a "100 * b + 4 * c + e + 1"] div_unique_int[of y 400 "a + 1" 0]
    unfolding yearCycle_def by auto
  show ?thesis using assms unfolding isLeap_def m4 m100 m400 yearCycle_def by auto
qed

lemma yearAndDay_start:
  assumes "0 \<le> k" "k < (if isLeap y then 366 else 365)"
  shows "yearAndDay ((yearStart y + k) * day) = (y, k)"
proof -
  obtain a b c e where y: "yearCycle y a b c e" using year_cycle by blast
  note lims = y[unfolded yearCycle_def]
  have k: "k = 365 \<Longrightarrow> e = 3 \<and> (c = 24 \<longrightarrow> b = 3)" "k \<le> 365"
    using assms(2) yearCycle_leap[OF y] by (auto split: if_splits)
  let ?r = "36524 * b + 1461 * c + 365 * e + k" let ?s = "1461 * c + 365 * e + k" let ?t = "365 * e + k"
  have r: "?r < 146097" using lims k by (cases "k = 365") linarith+
  have s: "?s < 36524 \<or> b = 3 \<and> ?s = 36524" using lims k by (cases "k = 365"; cases "c = 24") linarith+
  have t: "?t < 1461" using lims k by (cases "k = 365") linarith+
  have n: "(yearStart y + k) * day div day + 719162 = 146097 * a + ?r"
    using yearCycle_start[OF y] by simp
  have A: "(146097 * a + ?r) div 146097 = a \<and> (146097 * a + ?r) mod 146097 = ?r"
    using lims assms(1) r by (intro div_unique_int) auto
  have B: "min 3 (?r div 36524) = b"
    using s lims assms(1) div_unique_int[of ?r 36524 b ?s] div_unique_int[of ?r 36524 "b + 1" 0] by auto
  have C: "?s div 1461 = c \<and> ?s mod 1461 = ?t"
    using lims assms(1) t by (intro div_unique_int) auto
  have D: "min 3 (?t div 365) = e"
    using lims assms(1) k div_unique_int[of ?t 365 e k] div_unique_int[of ?t 365 "e + 1" 0] by (cases "k = 365") auto
  have "?r - 36524 * b = ?s" "?t - 365 * e = k" by simp_all
  then show ?thesis
    unfolding yearAndDay_def n Let_def conjunct1[OF A] conjunct2[OF A] B using lims by (simp only: C D) 
qed

lemma monthStarts_read:
  assumes "1 \<le> m" "m \<le> 12" "1 \<le> d" "d \<le> daysIn leap m"
  defines "k \<equiv> monthStarts leap ! nat (m - 1) + (d - 1)"
  shows "int (length (takeWhile (\<lambda>s. s \<le> k) (monthStarts leap))) = m" and "0 \<le> k" and "k < (if leap then 366 else 365)"
proof -
  have "m \<in> {1, 2, 3, 4, 5, 6, 7, 8, 9, 10, 11, 12}" using assms(1,2) unfolding insert_iff empty_iff by presburger
  then have "int (length (takeWhile (\<lambda>s. s \<le> k) (monthStarts leap))) = m \<and> 0 \<le> k \<and> k < (if leap then 366 else 365)"
    using assms(3,4) unfolding k_def
    by (cases leap; elim insertE emptyE; simp add: monthStarts_def daysIn_def)
  then show "int (length (takeWhile (\<lambda>s. s \<le> k) (monthStarts leap))) = m" and "0 \<le> k" and "k < (if leap then 366 else 365)" by blast+
qed

lemma calendar_read_back:
  assumes "calendarDate y m d"
  shows "time_Year (time_Date y m d) = y" "time_Month (time_Date y m d) = m" "time_Day (time_Date y m d) = d"
proof -
  have r: "1 \<le> m" "m \<le> 12" "1 \<le> d" "d \<le> daysIn (isLeap y) m" using assms by (auto simp: calendarDate_def)
  then have "(m - 1) div 12 = 0" "(m - 1) mod 12 = m - 1" by simp_all
  then have "time_Date y m d = (yearStart y + (monthStarts (isLeap y) ! nat (m - 1) + (d - 1))) * day"
    by (simp only: time_Date_def Let_def add.assoc add_0_right)
  then have yd: "yearAndDay (time_Date y m d) = (y, monthStarts (isLeap y) ! nat (m - 1) + (d - 1))"
    using yearAndDay_start[OF monthStarts_read(2,3)[OF r]] by (simp only:)
  show "time_Year (time_Date y m d) = y" by (simp add: time_Year_def yd)
  show mo: "time_Month (time_Date y m d) = m" using monthStarts_read(1)[OF r] by (simp add: time_Month_def yd)
  show "time_Day (time_Date y m d) = d" by (simp add: time_Day_def yd mo)
qed

text \<open>Every day is a date of the calendar.\<close>

lemma day_has_year: "\<exists>y k. 0 \<le> k \<and> k < (if isLeap y then 366 else 365) \<and> n = yearStart y + k"
proof -
  define N where "N = n + 719162"
  define a where "a = N div 146097"
  define r where "r = N mod 146097"
  define b where "b = min 3 (r div 36524)"
  define s where "s = r - 36524 * b"
  define c where "c = s div 1461"
  define t where "t = s mod 1461"
  define e where "e = min 3 (t div 365)"
  define k where "k = t - 365 * e"
  have r: "0 \<le> r" "r < 146097" "N = 146097 * a + r" by (simp_all add: r_def a_def)
  have div: "x = m * (x div m) + x mod m \<and> 0 \<le> x mod m \<and> x mod m < m" if "0 < m" for x m :: int
    using that by simp
  have b: "0 \<le> b" "b \<le> 3" "0 \<le> s" "s \<le> 36524" "s = 36524 \<Longrightarrow> b = 3"
    using r div[of 36524 r] unfolding b_def s_def min_def by (auto split: if_splits)
  have c: "0 \<le> c" "c \<le> 24" "0 \<le> t" "t < 1461" "s = 1461 * c + t"
    using b(3,4) div[of 1461 s] unfolding c_def[symmetric] t_def[symmetric] by linarith+
  have e: "0 \<le> e" "e \<le> 3" "0 \<le> k" "k \<le> 365" "k = 365 \<Longrightarrow> e = 3" "t = 365 * e + k"
    using c(3,4) div[of 365 t] unfolding e_def k_def min_def by (auto split: if_splits)
  have y: "yearCycle (400 * a + 100 * b + 4 * c + e + 1) a b c e" using b c e by (simp add: yearCycle_def)
  have "k = 365 \<Longrightarrow> c = 24 \<Longrightarrow> b = 3" using b c e by auto
  then have "k < (if isLeap (400 * a + 100 * b + 4 * c + e + 1) then 366 else 365)"
    using yearCycle_leap[OF y] e by auto
  moreover have "n = yearStart (400 * a + 100 * b + 4 * c + e + 1) + k"
    using yearCycle_start[OF y] r b c e unfolding N_def s_def by simp
  ultimately show ?thesis using e(3) by blast
qed

lemma day_has_month:
  assumes "0 \<le> k" "k < (if leap then 366 else 365)"
  shows "\<exists>m d. 1 \<le> m \<and> m \<le> 12 \<and> 1 \<le> d \<and> d \<le> daysIn leap m \<and> k = monthStarts leap ! nat (m - 1) + (d - 1)"
proof -
  define m where "m = int (length (takeWhile (\<lambda>s. s \<le> k) (monthStarts leap)))"
  have "1 \<le> m \<and> m \<le> 12 \<and> 1 \<le> k - monthStarts leap ! nat (m - 1) + 1 \<and>
      k - monthStarts leap ! nat (m - 1) + 1 \<le> daysIn leap m"
    using assms unfolding m_def by (cases leap; simp add: monthStarts_def daysIn_def)
  then show ?thesis by (intro exI[of _ m] exI[of _ "k - monthStarts leap ! nat (m - 1) + 1"]) simp
qed


lemma day_has_date: "\<exists>y m d. calendarDate y m d \<and> Truncate_day t = time_Date y m d"
proof -
  obtain y k where k: "0 \<le> k" "k < (if isLeap y then 366 else 365)" "t div day = yearStart y + k"
    using day_has_year by blast
  obtain m d where m: "1 \<le> m" "m \<le> 12" "1 \<le> d" "d \<le> daysIn (isLeap y) m" "k = monthStarts (isLeap y) ! nat (m - 1) + (d - 1)"
    using day_has_month[OF k(1,2)] by blast
  have "(m - 1) div 12 = 0" "(m - 1) mod 12 = m - 1" using m by simp_all
  then have "time_Date y m d = (t div day) * day"
    unfolding k(3) m(5) by (simp only: time_Date_def Let_def add.assoc add_0_right)
  also have "\<dots> = Truncate_day t" by (simp add: Truncate_day_def minus_mod_eq_div_mult)
  finally show ?thesis using m by (intro exI[of _ y] exI[of _ m] exI[of _ d]) (simp add: calendarDate_def)
qed

lemma time_of_day [simp]:
  "time_Year (Truncate_day t) = time_Year t" "time_Month (Truncate_day t) = time_Month t" "time_Day (Truncate_day t) = time_Day t"
proof -
  have e: "Truncate_day t div day = t div day" unfolding Truncate_day_def minus_mod_eq_div_mult by simp
  have "yearAndDay (Truncate_day t) = yearAndDay t" by (simp only: yearAndDay_def e)
  then show "time_Year (Truncate_day t) = time_Year t" "time_Month (Truncate_day t) = time_Month t" "time_Day (Truncate_day t) = time_Day t"
    by (simp_all add: time_Year_def time_Month_def time_Day_def)
qed

text \<open>Two ways to compare the day of a time with a date: by the fields of the date, as the versions 4 and 5 do,
  and by the beginning of the day, as version 3 does. They agree on the dates of the calendar.\<close>

lemma day_matches_iff:
  assumes "calendarDate y m d"
  shows "Truncate_day t = time_Date y m d \<longleftrightarrow> time_Year t = y \<and> time_Month t = m \<and> time_Day t = d"
proof
  assume "Truncate_day t = time_Date y m d"
  then show "time_Year t = y \<and> time_Month t = m \<and> time_Day t = d"
    using calendar_read_back[OF assms] time_of_day[of t] by simp
next
  assume e: "time_Year t = y \<and> time_Month t = m \<and> time_Day t = d"
  obtain y' m' d' where c: "calendarDate y' m' d'" "Truncate_day t = time_Date y' m' d'" using day_has_date by blast
  then show "Truncate_day t = time_Date y m d"
    using e calendar_read_back[OF c(1)] time_of_day[of t] by simp
qed

definition calendarDateV4 :: "dateV4 \<Rightarrow> bool" where
  "calendarDateV4 d \<longleftrightarrow> calendarDate (uint (date_Year d)) (uint (date_Month d)) (uint (date_Day d))"

lemma time_fields_range: "1 \<le> time_Month t \<and> time_Month t \<le> 12 \<and> 1 \<le> time_Day t \<and> time_Day t \<le> 31"
proof -
  obtain y m d where c: "calendarDate y m d" "Truncate_day t = time_Date y m d" using day_has_date by blast
  then have "time_Month t = m" "time_Day t = d" using calendar_read_back[OF c(1)] time_of_day[of t] by simp_all
  then show ?thesis using c(1) by (auto simp: calendarDate_def daysIn_def split: if_splits)
qed

lemma TimeToDateV4_iff:
  assumes "calendarDateV4 d" and "0 \<le> time_Year t" "time_Year t < 2 ^ 32"
  shows "TimeToDateV4 t = d \<longleftrightarrow> Truncate_day t = DateV4ToTime (Some d)"
proof -
  have w: "word_of_int i = (w :: 32 word) \<longleftrightarrow> i = uint w" if "0 \<le> i" "i < 2 ^ 32" for i w
    using that by (auto simp: uint_word_of_int_eq unsigned_of_int take_bit_int_eq_self)
  have "TimeToDateV4 t = d \<longleftrightarrow> time_Year t = uint (date_Year d) \<and> time_Month t = uint (date_Month d) \<and> time_Day t = uint (date_Day d)"
    using assms(2,3) time_fields_range[of t] w[of "time_Year t"] w[of "time_Month t"] w[of "time_Day t"]
    by (cases d) (simp add: TimeToDateV4_def)
  then show ?thesis
    using day_matches_iff[OF assms(1)[unfolded calendarDateV4_def], of t] by (simp add: DateV4ToTime_def)
qed

lemma date_read_back: "calendarDateV4 d \<Longrightarrow> TimeToDateV4 (DateV4ToTime (Some d)) = d"
  using calendar_read_back by (simp add: calendarDateV4_def TimeToDateV4_def DateV4ToTime_def)

section \<open>Travel periods\<close>

lemma time_Date_days: "\<exists>n. time_Date y m d = n * day"
  by (auto simp only: time_Date_def Let_def)

lemma DateToTime_days: "\<exists>n. DateV1ToTime d1 = n * day" "\<exists>n. DateV4ToTime d4 = n * day"
  unfolding DateV1ToTime_def DateV4ToTime_def by (cases d1; cases d4; simp add: time_Date_days del: eq_divide_eq_numeral1)+

lemma days_between:
  assumes "e = m * day" "s = n * day" "lo \<le> s" "s < e" "e \<le> lo + TravelPeriodMaxDuration"
  shows "quot (time_Sub e s) day = m - n" "1 \<le> m - n" "m - n \<le> 60"
proof -
  show mn: "1 \<le> m - n" "m - n \<le> 60" using assms by (simp_all add: TravelPeriodMaxDuration_def)
  have "time_Sub e s = (m - n) * day" using mn assms(1,2) by (simp add: time_Sub_def algebra_simps)
  then show "quot (time_Sub e s) day = m - n" using quot_mult[of day "m - n"] by simp
qed

text \<open>An allowed period has at least one night and at most 60.\<close>

lemma allowed_nightsV1:
  assumes "IsTravelPeriodAllowedV1 now p"
  shows "1 \<le> DaysBetweenDatesV1 (tp_EndDate p) (tp_StartDate p) \<and> DaysBetweenDatesV1 (tp_EndDate p) (tp_StartDate p) \<le> 60"
proof -
  obtain m n where "DateV1ToTime (tp_EndDate p) = m * day" "DateV1ToTime (tp_StartDate p) = n * day"
    using DateToTime_days(1) by metis
  then show ?thesis
    using days_between[of "DateV1ToTime (tp_EndDate p)" m "DateV1ToTime (tp_StartDate p)" n "Truncate_day now + TravelPeriodMinStartOffset"] assms
    by (simp add: IsTravelPeriodAllowedV1_def DaysBetweenDatesV1_def Let_def)
qed

lemma allowed_nightsV4:
  assumes "IsTravelPeriodAllowedV4WithTime now p"
  shows "1 \<le> DaysBetweenDatesV4 (tp_EndDate p) (tp_StartDate p) \<and> DaysBetweenDatesV4 (tp_EndDate p) (tp_StartDate p) \<le> 60"
    and "DateV4ToTime (tp_EndDate p) = DateV4ToTime (tp_StartDate p) + DaysBetweenDatesV4 (tp_EndDate p) (tp_StartDate p) * day"
    and "now < DateV4ToTime (tp_StartDate p)"
proof -
  obtain m n where mn: "DateV4ToTime (tp_EndDate p) = m * day" "DateV4ToTime (tp_StartDate p) = n * day"
    using DateToTime_days(2) by metis
  note d = days_between[of "DateV4ToTime (tp_EndDate p)" m "DateV4ToTime (tp_StartDate p)" n "Truncate_day now + TravelPeriodMinStartOffset"]
  have a: "Truncate_day now + TravelPeriodMinStartOffset \<le> DateV4ToTime (tp_StartDate p)"
      "DateV4ToTime (tp_StartDate p) < DateV4ToTime (tp_EndDate p)"
      "DateV4ToTime (tp_EndDate p) \<le> Truncate_day now + TravelPeriodMinStartOffset + TravelPeriodMaxDuration"
    using assms by (simp_all add: IsTravelPeriodAllowedV4WithTime_def Let_def)
  show "1 \<le> DaysBetweenDatesV4 (tp_EndDate p) (tp_StartDate p) \<and> DaysBetweenDatesV4 (tp_EndDate p) (tp_StartDate p) \<le> 60"
    and "DateV4ToTime (tp_EndDate p) = DateV4ToTime (tp_StartDate p) + DaysBetweenDatesV4 (tp_EndDate p) (tp_StartDate p) * day"
    using d[OF mn a] mn by (simp_all add: DaysBetweenDatesV4_def algebra_simps)
  have "now < Truncate_day now + day" by (simp add: Truncate_day_def)
  then show "now < DateV4ToTime (tp_StartDate p)" using a(1) by (simp add: TravelPeriodMinStartOffset_def)
qed

end
