(* ===== verification/Mock_Book.thy ===== *)
theory Mock_Book
  imports Mock_Common Effects
begin

text \<open>
  Validating and minting in the mock partner plugin (\<^verbatim>\<open>pp-mock/handlers/book/v3\<close> to \<^verbatim>\<open>v5\<close>), what the bot notifies
  it of (\<^verbatim>\<open>notification/v1\<close> to \<^verbatim>\<open>v3\<close>), the check of a cancellation (\<^verbatim>\<open>cancellation/v1\<close> to \<^verbatim>\<open>v3\<close>) and the ping
  (\<^verbatim>\<open>ping/v1\<close>, \<^verbatim>\<open>v2\<close>). A handler acts on the store; its answer is a value, or a panic where it follows a nil
  pointer. The identifiers of the \<open>uuid\<close> package and the times read are arguments.
\<close>

section \<open>Validation (validation.go)\<close>

record searchIdentifierV3 =
  si3_ResultId :: int32
  si3_SearchId :: "string option"

record validationObjectV3 =
  vo3_SearchIdentifier :: "searchIdentifierV3 option"
  vo3_Rest :: bytes

record searchResultIdentifier =
  sri_ResultId :: uint32
  sri_SearchId :: "string option"

record validationObjectV4 =
  vo_SearchResultIdentifier :: "searchResultIdentifier option"
  vo_Rest :: bytes

record validationResponseV3 =
  vres3_Header :: mockHeaderV1
  vres3_ValidationId :: "string option"
  vres3_ValidationObject :: "validationObjectV3 option"
  vres3_Price :: "mockPriceV3 option"

definition errValidationV3 :: "string \<Rightarrow> validationResponseV3" where
  "errValidationV3 message =
     \<lparr>vres3_Header = ErrorHeaderV1 [PStr message], vres3_ValidationId = None, vres3_ValidationObject = None, vres3_Price = None\<rparr>"

definition ValidationV3 :: "string \<Rightarrow> time \<Rightarrow> validationObjectV3 option \<Rightarrow> (Store, validationResponseV3) act" where
  "ValidationV3 uuid now request = (\<lambda>s.
     case Option.bind request vo3_SearchIdentifier of
       None \<Rightarrow> (Ok (errValidationV3 ''Invalid validation request: missing validation object or search identifier''), s)
     | Some ident \<Rightarrow>
       if si3_ResultId ident = 0 \<or> si3_SearchId ident = None
       then (Ok (errValidationV3 ''Invalid validation request: missing validation object or search identifier''), s)
       else case GetSearchResult s (the (si3_SearchId ident)) of
         None \<Rightarrow> (Ok (errValidationV3 ''Invalid validation request: searchId not found in state''), s)
       | Some storedSearchData \<Rightarrow>
         let resultIndex = sint (si3_ResultId ident - 1); prices = sd_Prices (sr_Data storedSearchData) in
         if resultIndex < 0 \<or> resultIndex \<ge> int (length prices)
         then (Ok (errValidationV3 ''Invalid validation request: resultId out of range''), s)
         else let unifiedValidationPrice = prices ! nat resultIndex in
           case ToPriceV3 unifiedValidationPrice of
             Ok validationPrice \<Rightarrow>
               (Ok \<lparr>vres3_Header = SuccessHeaderV1, vres3_ValidationId = Some uuid, vres3_ValidationObject = request,
                    vres3_Price = Some validationPrice\<rparr>,
                AddValidationResult now uuid
                  \<lparr>vd_InitialSearchData = sr_Data storedSearchData, vd_VerifiedPrice = unifiedValidationPrice\<rparr> s)
           | Fail e \<Rightarrow> (Fail e, s)
           | Panic t \<Rightarrow> (Panic t, s))"

record validationSuccess =
  vs_Header :: mockHeaderV4
  vs_ValidationId :: expiringUUID
  vs_ValidationObject :: "validationObjectV4 option"
  vs_TotalPrice :: mockPriceV4

type_synonym validationResponseV4 = "validationSuccess mockResponse"

definition errValidationRespV4 :: "mockErrorCode \<Rightarrow> string \<Rightarrow> validationResponseV4" where
  "errValidationRespV4 code message = MockError (ErrorHeaderV4 code [PStr message])"

definition ValidationV4 :: "string \<Rightarrow> time \<Rightarrow> time \<Rightarrow> validationObjectV4 option \<Rightarrow> (Store, validationResponseV4) act" where
  "ValidationV4 uuid now later request = (\<lambda>s.
     case Option.bind request vo_SearchResultIdentifier of
       None \<Rightarrow> (Ok (errValidationRespV4 INVALID_IDENTIFIERS ''Invalid validation request: missing required validation identifier fields''), s)
     | Some ident \<Rightarrow>
       if sri_SearchId ident = None \<or> sri_SearchId ident = Some []
       then (Ok (errValidationRespV4 INVALID_IDENTIFIERS ''Invalid validation request: missing required validation identifier fields''), s)
       else case GetSearchResult s (the (sri_SearchId ident)) of
         None \<Rightarrow> (Ok (errValidationRespV4 INVALID_IDENTIFIERS ''Invalid validation request: searchId not found in state''), s)
       | Some storedSearchData \<Rightarrow>
         let resultID = sri_ResultId ident; prices = sd_Prices (sr_Data storedSearchData) in
         case MustIntToUInt32 (int (length prices)) of
           Ok n \<Rightarrow>
             if resultID \<ge> n
             then (Ok (errValidationRespV4 INVALID_IDENTIFIERS ''Invalid validation request: resultId out of range''), s)
             else let unifiedValidationPrice = prices ! unat resultID in
               (Ok (MockSuccess \<lparr>vs_Header = SuccessHeaderV4, vs_ValidationId = NewExpiringUUIDWithTime uuid now,
                      vs_ValidationObject = request, vs_TotalPrice = ToPriceV4 unifiedValidationPrice\<rparr>),
                AddValidationResult later uuid
                  \<lparr>vd_InitialSearchData = sr_Data storedSearchData, vd_VerifiedPrice = unifiedValidationPrice\<rparr> s)
         | Fail e \<Rightarrow> (Fail e, s)
         | Panic t \<Rightarrow> (Panic t, s))"

definition errValidationRespV5 :: "mockErrorCode \<Rightarrow> string \<Rightarrow> validationResponseV4" where
  "errValidationRespV5 code message = MockError (ErrorHeaderV4 code [PStr message])"

definition ValidationV5 :: "string \<Rightarrow> time \<Rightarrow> time \<Rightarrow> validationObjectV4 option \<Rightarrow> (Store, validationResponseV4) act" where
  "ValidationV5 uuid now later request = (\<lambda>s.
     case Option.bind request vo_SearchResultIdentifier of
       None \<Rightarrow> (Ok (errValidationRespV5 INVALID_IDENTIFIERS ''Invalid validation request: missing required validation identifier fields''), s)
     | Some ident \<Rightarrow>
       if sri_SearchId ident = None \<or> sri_SearchId ident = Some []
       then (Ok (errValidationRespV5 INVALID_IDENTIFIERS ''Invalid validation request: missing required validation identifier fields''), s)
       else case GetSearchResult s (the (sri_SearchId ident)) of
         None \<Rightarrow> (Ok (errValidationRespV5 INVALID_IDENTIFIERS ''Invalid validation request: searchId not found in state''), s)
       | Some storedSearchData \<Rightarrow>
         let resultID = sri_ResultId ident; prices = sd_Prices (sr_Data storedSearchData) in
         case MustIntToUInt32 (int (length prices)) of
           Ok n \<Rightarrow>
             if resultID \<ge> n
             then (Ok (errValidationRespV5 INVALID_IDENTIFIERS ''Invalid validation request: resultId out of range''), s)
             else let unifiedValidationPrice = prices ! unat resultID in
               (Ok (MockSuccess \<lparr>vs_Header = SuccessHeaderV4, vs_ValidationId = NewExpiringUUIDWithTime uuid now,
                      vs_ValidationObject = request, vs_TotalPrice = ToPriceV5 unifiedValidationPrice\<rparr>),
                AddValidationResult later uuid
                  \<lparr>vd_InitialSearchData = sr_Data storedSearchData, vd_VerifiedPrice = unifiedValidationPrice\<rparr> s)
         | Fail e \<Rightarrow> (Fail e, s)
         | Panic t \<Rightarrow> (Panic t, s))"

section \<open>Minting (mint.go)\<close>

definition mintInfo :: "UnifiedPrice \<Rightarrow> msgtext" where
  "mintInfo verified =
     [PStr (''Please note that the price given in this mint response does not reflect the verified total price of the product of '' @ [CHR 0x27]),
      PStr (up_Price verified), PStr (CHR 0x27 # ''. The price is just a minimum value to be able to mint the product.'')]"

record mockMintV3 =
  mm3_Header :: mockHeaderV1
  mm3_MintId :: "string option"
  mm3_BuyableUntil :: "time option"
  mm3_ValidationId :: "string option"
  mm3_Price :: "mockPriceV3 option"
  mm3_Cancellable :: bool

text \<open>The time until which the token can be bought is cut to seconds in versions 3 and 4.\<close>

definition MintV3 :: "pricing \<Rightarrow> duration \<Rightarrow> string \<Rightarrow> time \<Rightarrow> time \<Rightarrow> string option \<Rightarrow> (Store, mockMintV3) act" where
  "MintV3 cfg buyableUntilDefault uuid now later validationId = (\<lambda>s.
     case validationId of
       None \<Rightarrow> (Panic nilDereference, s)
     | Some vid \<Rightarrow>
       (case GetValidationResult s vid of
          None \<Rightarrow>
            (Ok \<lparr>mm3_Header = ErrorHeaderV1 [PStr ''Validation not found in state''], mm3_MintId = None, mm3_BuyableUntil = None,
                 mm3_ValidationId = None, mm3_Price = None, mm3_Cancellable = False\<rparr>, s)
        | Some storedValidateData \<Rightarrow>
            let verified = vd_VerifiedPrice (vr_Data storedValidateData) in
            case (if RealisticPriceEnabled cfg then ToPriceV3 verified else Ok BookingTokenPriceV3) of
              Ok mintPrice \<Rightarrow>
                (Ok \<lparr>mm3_Header = (if RealisticPriceEnabled cfg then SuccessHeaderV1 else SuccessHeaderWithInfoV1 (mintInfo verified)),
                     mm3_MintId = Some uuid, mm3_BuyableUntil = Some (unixTime (Unix (now + buyableUntilDefault))),
                     mm3_ValidationId = validationId, mm3_Price = Some mintPrice, mm3_Cancellable = True\<rparr>,
                 AddMintResult later uuid (sd_SeatMapID (vd_InitialSearchData (vr_Data storedValidateData))) s)
            | Fail e \<Rightarrow> (Fail e, s)
            | Panic t \<Rightarrow> (Panic t, s)))"

record mockMint =
  mm_Header :: mockHeaderV4
  mm_MintId :: string
  mm_BuyableUntil :: time
  mm_ValidationId :: "string option"
  mm_Price :: mockPriceV4
  mm_Cancellable :: bool
  mm_BookingTokenUri :: string

type_synonym mockMintV4 = "mockMint mockResponse"

definition MintV4 :: "pricing \<Rightarrow> duration \<Rightarrow> string \<Rightarrow> time \<Rightarrow> time \<Rightarrow> string option \<Rightarrow> (Store, mockMintV4) act" where
  "MintV4 cfg buyableUntilDefault uuid now later validationId = (\<lambda>s.
     case validationId of
       None \<Rightarrow> (Panic nilDereference, s)
     | Some vid \<Rightarrow>
       (case GetValidationResult s vid of
          None \<Rightarrow> (Ok (MockError (ErrorHeaderV4 INVALID_IDENTIFIERS [PStr ''Validation not found in state''])), s)
        | Some storedValidateData \<Rightarrow>
            let verified = vd_VerifiedPrice (vr_Data storedValidateData);
                mintPrice = (if RealisticPriceEnabled cfg then ToPriceV4 verified else BookingTokenPriceV4);
                header = (if RealisticPriceEnabled cfg then SuccessHeaderV4
                          else AddHeaderAlertV4 SuccessHeaderV4 INFORMATIONAL (mintInfo verified))
            in (Ok (MockSuccess \<lparr>mm_Header = header, mm_MintId = uuid, mm_BuyableUntil = unixTime (Unix (now + buyableUntilDefault)),
                      mm_ValidationId = validationId, mm_Price = mintPrice, mm_Cancellable = True, mm_BookingTokenUri = ''https://example.com/''\<rparr>),
                AddMintResult later uuid (sd_SeatMapID (vd_InitialSearchData (vr_Data storedValidateData))) s)))"

definition MintV5 :: "pricing \<Rightarrow> duration \<Rightarrow> string \<Rightarrow> time \<Rightarrow> time \<Rightarrow> string option \<Rightarrow> (Store, mockMintV4) act" where
  "MintV5 cfg buyableUntilDefault uuid now later validationId = (\<lambda>s.
     if validationId = None \<or> validationId = Some []
     then (Ok (MockError (ErrorHeaderV4 INVALID_IDENTIFIERS [PStr ''Validation ID is missing or invalid''])), s)
     else case GetValidationResult s (the validationId) of
       None \<Rightarrow> (Ok (MockError (ErrorHeaderV4 INVALID_IDENTIFIERS [PStr ''Validation not found in state''])), s)
     | Some storedValidateData \<Rightarrow>
         let verified = vd_VerifiedPrice (vr_Data storedValidateData);
             mintPrice = (if RealisticPriceEnabled cfg then ToPriceV5 verified else BookingTokenPriceV5);
             header = (if RealisticPriceEnabled cfg then SuccessHeaderV4
                       else AddHeaderAlertV4 SuccessHeaderV4 INFORMATIONAL (mintInfo verified))
         in (Ok (MockSuccess \<lparr>mm_Header = header, mm_MintId = uuid, mm_BuyableUntil = now + buyableUntilDefault,
                   mm_ValidationId = validationId, mm_Price = mintPrice, mm_Cancellable = True, mm_BookingTokenUri = ''https://example.com/''\<rparr>),
             AddMintResult later uuid (sd_SeatMapID (vd_InitialSearchData (vr_Data storedValidateData))) s))"

section \<open>Notifications (notification.go)\<close>

text \<open>The mint a notification names; the four notifications of cancellations have no effect.\<close>

definition onMintId :: "string option \<Rightarrow> (string \<Rightarrow> Store \<Rightarrow> Store) \<Rightarrow> (Store, unit) act" where
  "onMintId mintId change = (\<lambda>s. case mintId of None \<Rightarrow> (Panic nilDereference, s) | Some mid \<Rightarrow> (Ok (), change mid s))"

definition TokenBoughtNotificationV1 :: "string option \<Rightarrow> (Store, unit) act" where
  "TokenBoughtNotificationV1 mintId = onMintId mintId (\<lambda>mid. SetMintBought mid True)"

definition TokenExpiredNotificationV1 :: "string option \<Rightarrow> (Store, unit) act" where
  "TokenExpiredNotificationV1 mintId = onMintId mintId RemoveMintResult"

definition TokenBoughtNotificationV2 :: "string option \<Rightarrow> (Store, unit) act" where
  "TokenBoughtNotificationV2 mintId = onMintId mintId (\<lambda>mid. SetMintBought mid True)"

definition TokenExpiredNotificationV2 :: "string option \<Rightarrow> (Store, unit) act" where
  "TokenExpiredNotificationV2 mintId = onMintId mintId RemoveMintResult"

definition TokenBoughtNotificationV3 :: "string option \<Rightarrow> (Store, unit) act" where
  "TokenBoughtNotificationV3 mintId = onMintId mintId (\<lambda>mid. SetMintBought mid True)"

definition TokenReservationExpiredNotificationV3 :: "string option \<Rightarrow> (Store, unit) act" where
  "TokenReservationExpiredNotificationV3 mintId = onMintId mintId RemoveMintResult"

definition CancellationNotificationV2 :: "(Store, unit) act" where "CancellationNotificationV2 = aRet ()"
definition CancellationNotificationV3 :: "(Store, unit) act" where "CancellationNotificationV3 = aRet ()"

section \<open>Checking a cancellation (check_cancellation.go), ping\<close>

record 'p checkCancellation =
  cc_TokenId :: uint64
  cc_RefundAmount :: 'p
  cc_PolicyIdApplied :: string
  cc_Confirmed :: bool
  cc_Timestamp :: time

definition CheckCancellationV1 :: "time \<Rightarrow> uint64 \<Rightarrow> mockHeaderV1 \<times> mockPriceV3 checkCancellation" where
  "CheckCancellationV1 now tokenId =
     (SuccessHeaderV1,
      \<lparr>cc_TokenId = tokenId,
       cc_RefundAmount = \<lparr>mp3_Value = BookingTokenPriceValue, mp3_Decimals = NativeTokenDecimals, mp3_Currency = Some (Some NativeTokenV3)\<rparr>,
       cc_PolicyIdApplied = ''pp-mock-full-refund'', cc_Confirmed = True, cc_Timestamp = now\<rparr>)"

definition CheckCancellationV2 :: "time \<Rightarrow> uint64 \<Rightarrow> (mockHeaderV4 \<times> mockPriceV4 checkCancellation) mockResponse" where
  "CheckCancellationV2 now tokenId = MockSuccess
     (SuccessHeaderV4,
      \<lparr>cc_TokenId = tokenId,
       cc_RefundAmount = \<lparr>mp_Value = BookingTokenPriceValue, mp_Decimals = NativeTokenDecimals, mp_Currency = Some (Some NativeTokenV4)\<rparr>,
       cc_PolicyIdApplied = ''pp-mock-full-refund'', cc_Confirmed = True, cc_Timestamp = now\<rparr>)"

definition CheckCancellationV3 :: "time \<Rightarrow> uint64 \<Rightarrow> (mockHeaderV4 \<times> mockPriceV5 checkCancellation) mockResponse" where
  "CheckCancellationV3 now tokenId = MockSuccess
     (SuccessHeaderV4,
      \<lparr>cc_TokenId = tokenId,
       cc_RefundAmount = \<lparr>mp_Value = BookingTokenPriceValue, mp_Decimals = NativeTokenDecimals, mp_Currency = Some (Some NativeTokenV4)\<rparr>,
       cc_PolicyIdApplied = ''pp-mock-full-refund'', cc_Confirmed = True, cc_Timestamp = now\<rparr>)"

text \<open>The metadata the interceptor of the server put into the context (\<^verbatim>\<open>pp-mock/metadata\<close>), empty when there is none.\<close>

definition emptyMetadata :: grpc_metadata where
  "emptyMetadata = \<lparr>md_RequestID = [], md_RecipientTTMAccount = 0, md_SenderTTMAccount = 0, md_Timestamps = None\<rparr>"

definition mock_FromContext :: "grpc_metadata option \<Rightarrow> grpc_metadata" where
  "mock_FromContext ctx = (case ctx of Some md \<Rightarrow> md | None \<Rightarrow> emptyMetadata)"

definition PingV1 :: "grpc_metadata option \<Rightarrow> string \<Rightarrow> mockHeaderV1 \<times> msgtext" where
  "PingV1 ctx pingMessage =
     (SuccessHeaderV1, [PStr ''Ping response to ['', PStr pingMessage, PStr ''] with request ID: '', PStr (md_RequestID (mock_FromContext ctx))])"

definition PingV2 :: "time \<Rightarrow> grpc_metadata option \<Rightarrow> string \<Rightarrow> (mockHeaderV4 \<times> time \<times> msgtext) mockResponse" where
  "PingV2 now ctx message = MockSuccess
     (SuccessHeaderV4, now, [PStr ''Ping response to ['', PStr message, PStr ''] with request ID: '', PStr (md_RequestID (mock_FromContext ctx))])"

text \<open>The refund confirmed as a full one is a single base unit of the native token, while the token was sold for a whole one.\<close>

lemma full_refund_is_one_unit:
  shows "fst (GetPriceAndTokenV5 hex env s (Some (sentV4 BookingTokenPriceV5))) = Ok (1000000000000000000, NativePaymentToken, 0)"
    and "\<exists>h c. CheckCancellationV3 now tokenId = MockSuccess (h, c) \<and> cc_PolicyIdApplied c = ''pp-mock-full-refund'' \<and>
           fst (GetPriceAndTokenV5 hex env s (Some (sentV4 (cc_RefundAmount c)))) = Ok (1, NativePaymentToken, 0)"
proof -
  have "ToBigInt ''1'' 0 NativeTokenDecimals = Ok 1000000000000000000" "ToBigInt ''1'' NativeTokenDecimals NativeTokenDecimals = Ok 1" by code_simp+
  then show "fst (GetPriceAndTokenV5 hex env s (Some (sentV4 BookingTokenPriceV5))) = Ok (1000000000000000000, NativePaymentToken, 0)"
    "\<exists>h c. CheckCancellationV3 now tokenId = MockSuccess (h, c) \<and> cc_PolicyIdApplied c = ''pp-mock-full-refund'' \<and>
       fst (GetPriceAndTokenV5 hex env s (Some (sentV4 (cc_RefundAmount c)))) = Ok (1, NativePaymentToken, 0)"
    by (simp_all add: GetPriceAndTokenV5_def sentV4_def BookingTokenPriceV5_def BookingTokenPriceValue_def CheckCancellationV3_def MustUInt32ToInt32_def)
qed

section \<open>From a search to the mint\<close>

text \<open>
  What a client does with a result of a search: it asks for the validation of the result by its number, and for the
  mint of the validation. \<open>first\<close> is the number of the first result, \<open>request\<close> the request that names a result.
\<close>

locale booking_version =
  fixes first :: "32 word"
    and request :: "string \<Rightarrow> 32 word \<Rightarrow> 'q"
    and validate :: "string \<Rightarrow> time \<Rightarrow> time \<Rightarrow> 'q \<Rightarrow> (Store, 'v) act"
    and validated :: "'v \<Rightarrow> 'p option"
    and mint :: "pricing \<Rightarrow> duration \<Rightarrow> string \<Rightarrow> time \<Rightarrow> time \<Rightarrow> string option \<Rightarrow> (Store, 'm) act"
    and minted :: "'m \<Rightarrow> (string \<times> 'p) option"
    and ofUnified :: "UnifiedPrice \<Rightarrow> 'p res"
  assumes validate_known:
      "GetSearchResult s sid = Some r \<Longrightarrow> sid \<noteq> [] \<Longrightarrow> i < length (sd_Prices (sr_Data r)) \<Longrightarrow>
       length (sd_Prices (sr_Data r)) < 2 ^ 31 \<Longrightarrow> ofUnified (sd_Prices (sr_Data r) ! i) = Ok p \<Longrightarrow>
       \<exists>v. validate vid now later (request sid (first + word_of_nat i)) s =
             (Ok v, AddValidationResult later vid \<lparr>vd_InitialSearchData = sr_Data r, vd_VerifiedPrice = sd_Prices (sr_Data r) ! i\<rparr> s) \<and>
           validated v = Some p"
    and validate_unknown:
      "GetSearchResult s sid = None \<Longrightarrow> sid \<noteq> [] \<Longrightarrow>
       \<exists>v. validate vid now later (request sid k) s = (Ok v, s) \<and> validated v = None"
    and validate_beyond:
      "GetSearchResult s sid = Some r \<Longrightarrow> sid \<noteq> [] \<Longrightarrow> length (sd_Prices (sr_Data r)) \<le> i \<Longrightarrow> i < 2 ^ 31 - 1 \<Longrightarrow>
       \<exists>v. validate vid now later (request sid (first + word_of_nat i)) s = (Ok v, s) \<and> validated v = None"
    and mint_known:
      "GetValidationResult s vid = Some w \<Longrightarrow> vid \<noteq> [] \<Longrightarrow> RealisticPriceEnabled cfg \<Longrightarrow>
       ofUnified (vd_VerifiedPrice (vr_Data w)) = Ok p \<Longrightarrow>
       \<exists>m. mint cfg buyable mid now later (Some vid) s =
             (Ok m, AddMintResult later mid (sd_SeatMapID (vd_InitialSearchData (vr_Data w))) s) \<and> minted m = Some (mid, p)"
    and mint_unknown:
      "GetValidationResult s vid = None \<Longrightarrow> \<exists>m. mint cfg buyable mid now later (Some vid) s = (Ok m, s) \<and> minted m = None"
begin

text \<open>Whatever else happens to the store in between, a result that is validated within ten minutes of its search and
  minted within ten minutes of the validation is minted at the price that was found.\<close>

lemma price_kept:
  assumes "GetSearchResult s sid = Some r" "sid \<noteq> []" "vid \<noteq> []" "i < length (sd_Prices (sr_Data r))"
    and "length (sd_Prices (sr_Data r)) < 2 ^ 31" and p: "ofUnified (sd_Prices (sr_Data r) ! i) = Ok p"
    and ops1: "\<forall>(t, op) \<in> set ops1. \<not> touchesSearch op sid \<and> t \<le> sr_CreatedAt r + EntryTimeout"
    and ops2: "\<forall>(t, op) \<in> set ops2. \<not> touchesValidation op vid \<and> t \<le> later + EntryTimeout"
    and "RealisticPriceEnabled cfg"
  shows "\<exists>v s1 m s2. validate vid now later (request sid (first + word_of_nat i)) (store_run ops1 s) = (Ok v, s1) \<and>
    validated v = Some p \<and> mint cfg buyable mid now' later' (Some vid) (store_run ops2 s1) = (Ok m, s2) \<and> minted m = Some (mid, p) \<and>
    GetMintResult s2 mid = Some \<lparr>mr_MintID = mid, mr_SeatMapID = sd_SeatMapID (sr_Data r), mr_CreatedAt = later', mr_Bought = False\<rparr>"
proof -
  let ?d = "\<lparr>vd_InitialSearchData = sr_Data r, vd_VerifiedPrice = sd_Prices (sr_Data r) ! i\<rparr>"
  let ?w = "\<lparr>vr_Data = ?d, vr_CreatedAt = later\<rparr>"
  let ?s1 = "AddValidationResult later vid ?d (store_run ops1 s)"
  have "GetSearchResult (store_run ops1 s) sid = Some r" by (rule searches.fresh_kept[OF assms(1) ops1])
  from validate_known[OF this assms(2,4,5) p] obtain v where
    v: "validate vid now later (request sid (first + word_of_nat i)) (store_run ops1 s) = (Ok v, ?s1)" "validated v = Some p" by blast
  have "GetValidationResult (store_run ops2 ?s1) vid = Some ?w"
    using ops2 by (intro validations.fresh_kept) auto
  from mint_known[OF this assms(3,9), of p buyable mid now' later'] p obtain m where
    "mint cfg buyable mid now' later' (Some vid) (store_run ops2 ?s1) =
       (Ok m, AddMintResult later' mid (sd_SeatMapID (sr_Data r)) (store_run ops2 ?s1))" "minted m = Some (mid, p)" by auto
  then show ?thesis using v by (intro exI[of _ v] exI[of _ ?s1] exI[of _ m] exI) auto
qed

end

text \<open>
  A search service of a version: the answer has an identifier and numbered results with their prices, and what is stored
  under the identifier are these prices. \<open>usable\<close> holds of the requests whose currency survives the representation
  shared by all versions.
\<close>

locale search_version = booking_version +
  fixes search :: "'a \<Rightarrow> (Store, 'r) act"
    and found :: "'r \<Rightarrow> (string \<times> (32 word \<times> 'p) list) option"
    and usable :: "'a \<Rightarrow> bool"
  assumes search_stores:
    "usable x \<Longrightarrow> search x s = (Ok resp, s') \<Longrightarrow> found resp = Some (sid, shown) \<Longrightarrow>
     \<exists>t d. s' = AddSearchResult t sid d s \<and> map ofUnified (sd_Prices d) = map (\<lambda>(k, p). Ok p) shown \<and>
       map fst shown = map (\<lambda>i. first + word_of_nat i) [0..<length shown]"
begin

lemma shown_price_minted:
  assumes x: "usable x" and search: "search x s = (Ok resp, s0)" and found: "found resp = Some (sid, shown)"
    and shown: "(k, p) \<in> set shown" "length shown < 2 ^ 31" and ids: "sid \<noteq> []" "vid \<noteq> []" and cfg: "RealisticPriceEnabled cfg"
    and ops1: "\<And>r. GetSearchResult s0 sid = Some r \<Longrightarrow> \<forall>(t, op) \<in> set ops1. \<not> touchesSearch op sid \<and> t \<le> sr_CreatedAt r + EntryTimeout"
    and ops2: "\<forall>(t, op) \<in> set ops2. \<not> touchesValidation op vid \<and> t \<le> later + EntryTimeout"
  shows "\<exists>v s1 m s2. validate vid now later (request sid k) (store_run ops1 s0) = (Ok v, s1) \<and> validated v = Some p \<and>
    mint cfg buyable mid now' later' (Some vid) (store_run ops2 s1) = (Ok m, s2) \<and> minted m = Some (mid, p)"
proof -
  obtain t d where d: "s0 = AddSearchResult t sid d s" "map ofUnified (sd_Prices d) = map (\<lambda>(k, p). Ok p) shown"
      "map fst shown = map (\<lambda>i. first + word_of_nat i) [0..<length shown]"
    using search_stores[OF x search found] by blast
  obtain i where i: "i < length shown" "shown ! i = (k, p)" using shown(1) by (metis in_set_conv_nth)
  have len: "length (sd_Prices d) = length shown" using arg_cong[OF d(2), of length] by simp
  have "ofUnified (sd_Prices d ! i) = Ok p"
    using arg_cong[OF d(2), of "\<lambda>xs. xs ! i"] i len by simp
  moreover have "k = first + word_of_nat i" using arg_cong[OF d(3), of "\<lambda>xs. xs ! i"] i by simp
  moreover have g: "GetSearchResult s0 sid = Some \<lparr>sr_Data = d, sr_CreatedAt = t\<rparr>" using d(1) by simp
  ultimately show ?thesis
    using price_kept[OF g ids, of i p ops1 ops2 later cfg now buyable mid now' later'] i(1) len shown(2) ops1[OF g] ops2 cfg by auto
qed

end

section \<open>The three versions\<close>

definition requestV3 :: "string \<Rightarrow> int32 \<Rightarrow> validationObjectV3 option" where
  "requestV3 sid k = Some \<lparr>vo3_SearchIdentifier = Some \<lparr>si3_ResultId = k, si3_SearchId = Some sid\<rparr>, vo3_Rest = []\<rparr>"

definition requestV4 :: "string \<Rightarrow> uint32 \<Rightarrow> validationObjectV4 option" where
  "requestV4 sid k = Some \<lparr>vo_SearchResultIdentifier = Some \<lparr>sri_ResultId = k, sri_SearchId = Some sid\<rparr>, vo_Rest = []\<rparr>"

definition validatedV4 :: "validationResponseV4 \<Rightarrow> mockPriceV4 option" where
  "validatedV4 r = (case r of MockSuccess v \<Rightarrow> Some (vs_TotalPrice v) | MockError _ \<Rightarrow> None)"

definition mintedV3 :: "mockMintV3 \<Rightarrow> (string \<times> mockPriceV3) option" where
  "mintedV3 m = (case (mm3_MintId m, mm3_Price m) of (Some mid, Some p) \<Rightarrow> Some (mid, p) | _ \<Rightarrow> None)"

definition mockMinted :: "mockMintV4 \<Rightarrow> (string \<times> mockPriceV4) option" where
  "mockMinted r = (case r of MockSuccess m \<Rightarrow> Some (mm_MintId m, mm_Price m) | MockError _ \<Rightarrow> None)"

lemma sint_of_nat32: "i < 2 ^ 31 \<Longrightarrow> sint (word_of_nat i :: 32 word) = int i"
  by (simp add: signed_of_nat signed_take_bit_int_eq_self)

lemma unat_of_nat32: "i < 2 ^ 32 \<Longrightarrow> unat (word_of_nat i :: 32 word) = i"
  by (simp add: unsigned_of_nat take_bit_nat_eq_self)

lemma index_in_range:
  assumes "i < n" "n < 2 ^ 31"
  shows "\<not> (word_of_nat n :: 32 word) \<le> word_of_nat i"
  using assms by (simp add: word_le_nat_alt unat_of_nat32)

lemma index_beyond:
  assumes "n \<le> i" "i < 2 ^ 31"
  shows "(word_of_nat n :: 32 word) \<le> word_of_nat i"
  using assms by (simp add: word_le_nat_alt unat_of_nat32)

lemma next_not_zero: "i < 2 ^ 31 \<Longrightarrow> (1 + word_of_nat i :: 32 word) \<noteq> 0"
proof
  assume i: "i < 2 ^ 31" and z: "(1 + word_of_nat i :: 32 word) = 0"
  have "(word_of_nat (Suc i) :: 32 word) = 0" using z by simp
  then have "unat (word_of_nat (Suc i) :: 32 word) = 0" by simp
  then show False using i unat_of_nat32[of "Suc i"] by simp
qed

lemmas validation_defs = ValidationV3_def ValidationV4_def ValidationV5_def requestV3_def requestV4_def validatedV4_def
  errValidationV3_def errValidationRespV4_def errValidationRespV5_def

interpretation book3: booking_version 1 requestV3 "\<lambda>uuid now later. ValidationV3 uuid later" vres3_Price MintV3 mintedV3 ToPriceV3
  by unfold_locales
    (auto simp: validation_defs MintV3_def mintedV3_def sint_of_nat32 next_not_zero Let_def split: option.splits)

interpretation book4: booking_version 0 requestV4 ValidationV4 validatedV4 MintV4 mockMinted "\<lambda>u. Ok (ToPriceV4 u)"
  by unfold_locales
    (auto simp: validation_defs MintV4_def mockMinted_def unat_of_nat32 index_in_range index_beyond Let_def
      split: option.splits)

interpretation book5: booking_version 0 requestV4 ValidationV5 validatedV4 MintV5 mockMinted "\<lambda>u. Ok (ToPriceV5 u)"
  by unfold_locales
    (auto simp: validation_defs MintV5_def mockMinted_def unat_of_nat32 index_in_range index_beyond Let_def
      split: option.splits)

lemma aLift_bind: "aBind (aLift r) (\<lambda>e. e) k s = (case r of Ok v \<Rightarrow> k v s | Fail e \<Rightarrow> (Fail e, s) | Panic t \<Rightarrow> (Panic t, s))"
  by (simp add: aBind_def split: res.splits)

text \<open>The loops of the search handlers number their results and remember the price of each.\<close>

definition shownResults :: "('a \<Rightarrow> 32 word) \<Rightarrow> ('a \<Rightarrow> 'p) \<Rightarrow> 'a list \<Rightarrow> (32 word \<times> 'p) list" where
  "shownResults idOf priceOf results = map (\<lambda>a. (idOf a, priceOf a)) results"

definition numbered :: "('a \<Rightarrow> 32 word) \<Rightarrow> ('a \<Rightarrow> 'p) \<Rightarrow> (UnifiedPrice \<Rightarrow> 'p res) \<Rightarrow> 32 word \<Rightarrow> ('a \<times> UnifiedPrice) list \<Rightarrow> bool" where
  "numbered idOf priceOf ofUnified n rs \<longleftrightarrow>
     (\<forall>i < length rs. idOf (fst (rs ! i)) = n + word_of_nat i \<and> ofUnified (snd (rs ! i)) = Ok (priceOf (fst (rs ! i))))"

lemma numbered_Nil [simp]: "numbered idOf priceOf ofU n []"
  by (simp add: numbered_def)

lemma numbered_append:
  assumes "numbered idOf priceOf ofU n rs" and "numbered idOf priceOf ofU (n + word_of_nat (length rs)) rs'"
  shows "numbered idOf priceOf ofU n (rs @ rs')"
  unfolding numbered_def
proof (intro allI impI)
  fix i assume i: "i < length (rs @ rs')"
  show "idOf (fst ((rs @ rs') ! i)) = n + word_of_nat i \<and> ofU (snd ((rs @ rs') ! i)) = Ok (priceOf (fst ((rs @ rs') ! i)))"
  proof (cases "i < length rs")
    case True
    then show ?thesis using assms(1) by (simp add: numbered_def nth_append)
  next
    case False
    have "n + word_of_nat i = n + word_of_nat (length rs) + word_of_nat (i - length rs)"
      using False by (simp add: add.assoc flip: of_nat_add)
    then show ?thesis using False i assms(2) by (simp add: numbered_def nth_append)
  qed
qed

lemma numbered_loop:
  assumes "numberRes f n xs = Ok rs"
    and "\<And>x k a u. x \<in> set xs \<Longrightarrow> f x k = Ok (a, u) \<Longrightarrow> idOf a = k \<and> ofU u = Ok (priceOf a)"
  shows "numbered idOf priceOf ofU n rs"
  unfolding numbered_def
proof (intro allI impI)
  fix i assume "i < length rs"
  then have "f (xs ! i) (n + word_of_nat i) = Ok (fst (rs ! i), snd (rs ! i))" "xs ! i \<in> set xs"
    using numberRes_nth[OF assms(1), of i] numberRes_length[OF assms(1)] by auto
  then show "idOf (fst (rs ! i)) = n + word_of_nat i \<and> ofU (snd (rs ! i)) = Ok (priceOf (fst (rs ! i)))"
    using assms(2) by blast
qed

lemma numbered_stores:
  assumes "numbered idOf priceOf ofU n rs"
  shows "map ofU (map snd rs) = map (\<lambda>(k, p). Ok p) (shownResults idOf priceOf (map fst rs))"
    and "map fst (shownResults idOf priceOf (map fst rs)) = map (\<lambda>i. n + word_of_nat i) [0..<length (shownResults idOf priceOf (map fst rs))]"
proof -
  have "ofU b = Ok (priceOf a)" if ab: "(a, b) \<in> set rs" for a b
  proof -
    obtain i where "i < length rs" "rs ! i = (a, b)" using ab by (auto simp: in_set_conv_nth)
    then show ?thesis using assms by (auto simp: numbered_def)
  qed
  then show "map ofU (map snd rs) = map (\<lambda>(k, p). Ok p) (shownResults idOf priceOf (map fst rs))"
    by (auto simp: shownResults_def)
qed (use assms in \<open>auto simp: numbered_def shownResults_def intro!: nth_equalityI\<close>)

end
