(* ===== verification/Mock_Accommodation.thy ===== *)
theory Mock_Accommodation
  imports Mock_Book
begin

text \<open>
  The accommodation handlers of the mock partner plugin, \<^verbatim>\<open>pp-mock/handlers/accommodation/v3\<close> to \<^verbatim>\<open>v5\<close>: filters over
  the properties, search, product info, product list and short list. The properties themselves, data the
  program embeds, are arguments. Of a message the fields are kept that the code reads or sets; the others are in a
  field \<open>Rest\<close> that is only copied. A repeated field holds no nil message. The printed queries in the alert of an
  empty search of version 3 are left out.
\<close>

section \<open>Properties\<close>

record geoTree =
  gt_CityOrResort :: string
  gt_Region :: string
  gt_Country :: int32

record room =
  rm_SupplierCode :: string
  rm_SupplierName :: string
  rm_OriginalName :: string
  rm_Beds :: bytes
  rm_MealPlans :: "bytes list"

text \<open>The addresses of the contact info, each by its geo tree: \<open>None\<close> when there is no contact info.\<close>

record property =
  pr_ProductCodes :: "bytes list"
  pr_SupplierCode :: "bytes option"
  pr_Addresses :: "geoTree option list option"
  pr_LastModified :: "time option"
  pr_Status :: int32
  pr_CategoryUnit :: int32
  pr_Rest :: bytes

record extendedProperty =
  ep_Property :: "property option"
  ep_Rooms :: "room list"
  ep_LocalizedDescriptions :: "descriptionSet list"
  ep_LocalizedRoomDescriptions :: "descriptionSet list"
  ep_Rest :: bytes

text \<open>Reading the property of an extended property, and its first address.\<close>

definition onProperty :: "extendedProperty \<Rightarrow> (property \<Rightarrow> 'a res) \<Rightarrow> 'a res" where
  "onProperty prop k = (case ep_Property prop of None \<Rightarrow> Panic nilDereference | Some p \<Rightarrow> k p)"

definition firstAddress :: "property \<Rightarrow> geoTree option res" where
  "firstAddress p =
     (case pr_Addresses p of None \<Rightarrow> Panic nilDereference | Some [] \<Rightarrow> Panic indexOutOfRange | Some (a # _) \<Rightarrow> Ok a)"

definition noLocation :: "geoTree option \<Rightarrow> bool" where
  "noLocation g \<longleftrightarrow> (case g of None \<Rightarrow> True | Some g \<Rightarrow> gt_CityOrResort g = [] \<and> gt_Region g = [] \<and> gt_Country g = 0)"

definition inLocation :: "geoTree \<Rightarrow> geoTree option \<Rightarrow> bool" where
  "inLocation g address \<longleftrightarrow>
     (case address of None \<Rightarrow> False
      | Some a \<Rightarrow> (gt_CityOrResort g = [] \<or> gt_CityOrResort a = gt_CityOrResort g) \<and>
                 (gt_Country g = 0 \<or> gt_Country a = gt_Country g) \<and>
                 (gt_Region g = [] \<or> gt_Region a = gt_Region g))"

section \<open>Filters of version 3 (v3/filters.go)\<close>

definition filterExtendedPropertiesByProductCodesV3 :: "extendedProperty list \<Rightarrow> bytes list \<Rightarrow> extendedProperty list res" where
  "filterExtendedPropertiesByProductCodesV3 properties productCodes =
     (if length productCodes = 0 then Ok properties
      else filterRes (\<lambda>prop. onProperty prop (\<lambda>p.
             Ok (list_ex (\<lambda>code. list_ex (\<lambda>propCode. propCode = code) (pr_ProductCodes p)) productCodes))) properties)"

definition filterExtendedPropertiesBySupplierCodesV3 :: "extendedProperty list \<Rightarrow> bytes list \<Rightarrow> extendedProperty list res" where
  "filterExtendedPropertiesBySupplierCodesV3 properties supplierCodes =
     (if length supplierCodes = 0 then Ok properties
      else filterRes (\<lambda>prop. onProperty prop (\<lambda>p. Ok (list_ex (\<lambda>code. pr_SupplierCode p = Some code) supplierCodes))) properties)"

definition filterExtendedPropertiesByGeoTreeLocationV3 :: "extendedProperty list \<Rightarrow> geoTree option \<Rightarrow> extendedProperty list res" where
  "filterExtendedPropertiesByGeoTreeLocationV3 properties geoTreeLocation =
     (if noLocation geoTreeLocation then Ok properties
      else filterRes (\<lambda>prop. onProperty prop (\<lambda>p.
             onErr (firstAddress p) (\<lambda>e. e) (\<lambda>address. Ok (inLocation (the geoTreeLocation) address)))) properties)"

definition filterExtendedPropertiesByLanguageV3 :: "extendedProperty list \<Rightarrow> int32 list \<Rightarrow> extendedProperty list" where
  "filterExtendedPropertiesByLanguageV3 properties languages =
     (if length languages = 0 then properties
      else concat (map (\<lambda>property.
        let filteredDescriptions = filter (\<lambda>descSet. list_ex (\<lambda>reqLang. ds_Language descSet = reqLang) languages) (ep_LocalizedDescriptions property);
            filteredRoomDescriptions = filter (\<lambda>roomDescSet. list_ex (\<lambda>reqLang. ds_Language roomDescSet = reqLang) languages) (ep_LocalizedRoomDescriptions property)
        in if length filteredDescriptions > 0 \<or> length filteredRoomDescriptions > 0
           then [property\<lparr>ep_LocalizedDescriptions := filteredDescriptions, ep_LocalizedRoomDescriptions := filteredRoomDescriptions\<rparr>]
           else []) properties))"

definition filterPropertiesByLastModifiedV3 :: "extendedProperty list \<Rightarrow> time \<Rightarrow> property list res" where
  "filterPropertiesByLastModifiedV3 properties lastModified =
     onErr (filterRes (\<lambda>prop. onProperty prop (\<lambda>p. Ok (\<not> AsTime (pr_LastModified p) < lastModified))) properties) (\<lambda>e. e)
       (\<lambda>ps. Ok (map (\<lambda>prop. the (ep_Property prop)) ps))"

section \<open>Filters of versions 4 and 5 (v4/filters.go, v5/filters.go)\<close>

definition filterExtendedPropertiesByProductCodesV4 :: "extendedProperty list \<Rightarrow> bytes list \<Rightarrow> extendedProperty list res" where
  "filterExtendedPropertiesByProductCodesV4 properties productCodes =
     (if length productCodes = 0 then Ok properties
      else filterRes (\<lambda>prop. onProperty prop (\<lambda>p.
             Ok (list_ex (\<lambda>code. list_ex (\<lambda>propCode. propCode = code) (pr_ProductCodes p)) productCodes))) properties)"

definition filterExtendedPropertiesBySupplierCodesV4 :: "extendedProperty list \<Rightarrow> bytes list \<Rightarrow> extendedProperty list res" where
  "filterExtendedPropertiesBySupplierCodesV4 properties supplierCodes =
     (if length supplierCodes = 0 then Ok properties
      else filterRes (\<lambda>prop. onProperty prop (\<lambda>p. Ok (list_ex (\<lambda>code. pr_SupplierCode p = Some code) supplierCodes))) properties)"

definition filterExtendedPropertiesByGeoTreeLocationV4 :: "extendedProperty list \<Rightarrow> geoTree option \<Rightarrow> extendedProperty list res" where
  "filterExtendedPropertiesByGeoTreeLocationV4 properties geoTreeLocation =
     (if noLocation geoTreeLocation then Ok properties
      else filterRes (\<lambda>prop. onProperty prop (\<lambda>p.
             onErr (firstAddress p) (\<lambda>e. e) (\<lambda>address. Ok (inLocation (the geoTreeLocation) address)))) properties)"

definition filterExtendedPropertiesByLanguageV4 :: "extendedProperty list \<Rightarrow> int32 list \<Rightarrow> extendedProperty list" where
  "filterExtendedPropertiesByLanguageV4 properties languages =
     (if length languages = 0 then properties
      else concat (map (\<lambda>property.
        let filteredDescriptions = FilterDescriptionsV4 (ep_LocalizedDescriptions property) languages
        in if length filteredDescriptions > 0 then [property\<lparr>ep_LocalizedDescriptions := filteredDescriptions\<rparr>] else []) properties))"

text \<open>Without codes the nil property of an extended property is passed on, as a nil element.\<close>

definition filterPropertiesBySupplierCodesV4 :: "extendedProperty list \<Rightarrow> bytes list \<Rightarrow> property option list res" where
  "filterPropertiesBySupplierCodesV4 properties supplierCodes =
     (if length supplierCodes = 0 then Ok (map ep_Property properties)
      else onErr (filterRes (\<lambda>prop. onProperty prop (\<lambda>p. Ok (list_ex (\<lambda>code. pr_SupplierCode p = Some code) supplierCodes))) properties)
             (\<lambda>e. e) (\<lambda>ps. Ok (map ep_Property ps)))"

record propertyShortListItem =
  psi_SupplierCode :: "bytes option"
  psi_Status :: int32

definition filterShortItemsByModifierAfterV4 :: "extendedProperty list \<Rightarrow> time \<Rightarrow> propertyShortListItem list res" where
  "filterShortItemsByModifierAfterV4 properties modifiedAfter =
     onErr (filterRes (\<lambda>prop. onProperty prop (\<lambda>p. Ok (AsTime (pr_LastModified p) > modifiedAfter))) properties) (\<lambda>e. e)
       (\<lambda>ps. Ok (map (\<lambda>prop. let p = the (ep_Property prop) in \<lparr>psi_SupplierCode = pr_SupplierCode p, psi_Status = pr_Status p\<rparr>) ps))"

definition filterExtendedPropertiesByProductCodesV5 :: "extendedProperty list \<Rightarrow> bytes list \<Rightarrow> extendedProperty list res" where
  "filterExtendedPropertiesByProductCodesV5 properties productCodes =
     (if length productCodes = 0 then Ok properties
      else filterRes (\<lambda>prop. onProperty prop (\<lambda>p.
             Ok (list_ex (\<lambda>code. list_ex (\<lambda>propCode. propCode = code) (pr_ProductCodes p)) productCodes))) properties)"

definition filterExtendedPropertiesBySupplierCodesV5 :: "extendedProperty list \<Rightarrow> bytes list \<Rightarrow> extendedProperty list res" where
  "filterExtendedPropertiesBySupplierCodesV5 properties supplierCodes =
     (if length supplierCodes = 0 then Ok properties
      else filterRes (\<lambda>prop. onProperty prop (\<lambda>p. Ok (list_ex (\<lambda>code. pr_SupplierCode p = Some code) supplierCodes))) properties)"

definition filterExtendedPropertiesByGeoTreeLocationV5 :: "extendedProperty list \<Rightarrow> geoTree option \<Rightarrow> extendedProperty list res" where
  "filterExtendedPropertiesByGeoTreeLocationV5 properties geoTreeLocation =
     (if noLocation geoTreeLocation then Ok properties
      else filterRes (\<lambda>prop.
             case ep_Property prop of None \<Rightarrow> Ok False
             | Some p \<Rightarrow> (case pr_Addresses p of
                 None \<Rightarrow> Ok False
               | Some addresses \<Rightarrow>
                   if length addresses = 0 then Ok False
                   else let address = addresses ! 0 in Ok (inLocation (the geoTreeLocation) address))) properties)"

definition filterExtendedPropertiesByLanguageV5 :: "extendedProperty list \<Rightarrow> int32 list \<Rightarrow> extendedProperty list" where
  "filterExtendedPropertiesByLanguageV5 properties languages =
     (if length languages = 0 then properties
      else concat (map (\<lambda>property.
        let filteredDescriptions = FilterDescriptionsV4 (ep_LocalizedDescriptions property) languages
        in if length filteredDescriptions > 0 then [property\<lparr>ep_LocalizedDescriptions := filteredDescriptions\<rparr>] else []) properties))"

definition filterPropertiesBySupplierCodesV5 :: "extendedProperty list \<Rightarrow> bytes list \<Rightarrow> property option list res" where
  "filterPropertiesBySupplierCodesV5 properties supplierCodes =
     (if length supplierCodes = 0 then Ok (map ep_Property properties)
      else onErr (filterRes (\<lambda>prop. onProperty prop (\<lambda>p. Ok (list_ex (\<lambda>code. pr_SupplierCode p = Some code) supplierCodes))) properties)
             (\<lambda>e. e) (\<lambda>ps. Ok (map ep_Property ps)))"

definition filterShortItemsByModifierAfterV5 :: "extendedProperty list \<Rightarrow> time \<Rightarrow> propertyShortListItem list res" where
  "filterShortItemsByModifierAfterV5 properties modifiedAfter =
     onErr (filterRes (\<lambda>prop. onProperty prop (\<lambda>p. Ok (AsTime (pr_LastModified p) > modifiedAfter))) properties) (\<lambda>e. e)
       (\<lambda>ps. Ok (map (\<lambda>prop. let p = the (ep_Property prop) in \<lparr>psi_SupplierCode = pr_SupplierCode p, psi_Status = pr_Status p\<rparr>) ps))"

section \<open>Search in versions 4 and 5 (accommodation_search.go)\<close>

record accommodationSearchRequest =
  asr_Currency :: "currencyV4 option option"
  asr_TravelPeriod :: "uint32 travelPeriod option"
  asr_LocationGeoTree :: "geoTree option"
  asr_ProductCodes :: "bytes list"
  asr_SupplierCodes :: "bytes list"
  asr_Travellers :: "uint32 traveller list"

record unit4 =
  u_SupplierRoomCode :: string
  u_SupplierRoomName :: string
  u_OriginalRoomName :: string
  u_TravelPeriod :: "uint32 travelPeriod"
  u_TravellerIds :: "uint32 list"
  u_Beds :: bytes
  u_Price :: mockPriceV4
  u_ServicePrice :: mockPriceV4
  u_MealPlan :: "bytes option"
  u_RatePlanCode :: string
  u_RemainingUnits :: int
  u_PropertyCode :: "bytes list"
  u_SupplierCode :: "bytes option"

record cancelPenalty =
  pen_Start :: time
  pen_End :: time
  pen_Value :: mockPriceV4
  pen_ValidForRatePlans :: "string list"

record accommodationResult =
  ar_ResultId :: uint32
  ar_TotalPrice :: mockPriceV4
  ar_CancelPenalties :: "cancelPenalty list"
  ar_Unit :: unit4

record accommodationSearchSuccess =
  ass_Header :: mockHeaderV4
  ass_SearchId :: expiringUUID
  ass_Results :: "accommodationResult list"
  ass_Travellers :: "uint32 traveller list"

type_synonym accommodationSearchResponse = "accommodationSearchSuccess mockResponse"

definition getTravellerIDsV4 :: "uint32 traveller list \<Rightarrow> uint32 list" where
  "getTravellerIDsV4 travellers = map (\<lambda>i. TravellerId (travellers ! i)) [0..<length travellers]"

definition getTravellerIDsV5 :: "uint32 traveller list \<Rightarrow> uint32 list" where
  "getTravellerIDsV5 travellers = map (\<lambda>i. TravellerId (travellers ! i)) [0..<length travellers]"

text \<open>A date with the fields of a date that may be nil.\<close>

definition copyDate :: "dateV4 option \<Rightarrow> dateV4 option" where
  "copyDate date =
     (case date of None \<Rightarrow> Some \<lparr>date_Year = 0, date_Month = 0, date_Day = 0\<rparr>
      | Some d \<Rightarrow> Some \<lparr>date_Year = date_Year d, date_Month = date_Month d, date_Day = date_Day d\<rparr>)"

text \<open>The price of all nights, computed with 64 bits.\<close>

definition unitPriceValue :: "int \<Rightarrow> int" where
  "unitPriceValue duration = sint (word_of_int (DefaultPricePerNight * duration) :: int64)"

text \<open>The penalties of a cancellation: nothing until seven days before the stay, then a tenth of the price, during the
  stay all of it.\<close>

definition cancelPenalties :: "time \<Rightarrow> time \<Rightarrow> time \<Rightarrow> mockPriceV4 \<Rightarrow> int \<Rightarrow> string \<Rightarrow> cancelPenalty list" where
  "cancelPenalties now startDateTime endDateTime price penaltyBaseValue ratePlan =
     (let free = (if startDateTime > now + FreeCancellationDuration
                  then [\<lparr>pen_Start = now, pen_End = startDateTime - FreeCancellationDuration,
                         pen_Value = \<lparr>mp_Value = ''0'', mp_Decimals = mp_Decimals price, mp_Currency = mp_Currency price\<rparr>,
                         pen_ValidForRatePlans = [ratePlan]\<rparr>] else []);
          penalty1StartSeconds = max (Unix (startDateTime - FreeCancellationDuration)) (Unix now)
      in free @
         [\<lparr>pen_Start = unixTime penalty1StartSeconds, pen_End = startDateTime,
           pen_Value = \<lparr>mp_Value = show_int (quot penaltyBaseValue 10), mp_Decimals = mp_Decimals price, mp_Currency = mp_Currency price\<rparr>,
           pen_ValidForRatePlans = [ratePlan]\<rparr>,
          \<lparr>pen_Start = startDateTime, pen_End = endDateTime, pen_Value = price, pen_ValidForRatePlans = [ratePlan]\<rparr>])"

text \<open>The price of a result, of its service and the base of its penalties: as computed, or normalized when pricing is
  realistic.\<close>

definition resultPrices ::
  "pricing \<Rightarrow> (mockPriceV4 \<Rightarrow> UnifiedPrice res) \<Rightarrow> (UnifiedPrice \<Rightarrow> mockPriceV4) \<Rightarrow> mockPriceV4 \<Rightarrow> mockPriceV4 \<Rightarrow> int \<Rightarrow>
     (UnifiedPrice \<times> mockPriceV4 \<times> mockPriceV4 \<times> int) res" where
  "resultPrices cfg toUnified toPrice unitPrice servicePrice value =
     onErr (toUnified unitPrice) (\<lambda>e. e) (\<lambda>validationPrice.
     if RealisticPriceEnabled cfg
     then let validationPrice = NormalizeRealistic cfg validationPrice; unitPrice = toPrice validationPrice in
          onErr (toUnified servicePrice) (\<lambda>e. e) (\<lambda>service.
            Ok (validationPrice, unitPrice, toPrice (NormalizeRealistic cfg service),
                (case SetString10 (mp_Value unitPrice) of Some v \<Rightarrow> v | None \<Rightarrow> value)))
     else Ok (validationPrice, unitPrice, servicePrice, value))"

definition roomResultV4 ::
  "pricing \<Rightarrow> time \<Rightarrow> accommodationSearchRequest \<Rightarrow> uint32 travelPeriod \<Rightarrow> extendedProperty \<times> room \<Rightarrow> uint32 \<Rightarrow>
     (accommodationResult \<times> UnifiedPrice) res" where
  "roomResultV4 cfg now req period = (\<lambda>(prop, room) resultIDnum.
     let startDate = tp_StartDate period; endDate = tp_EndDate period;
         startDateTime = DateV4ToTime startDate; endDateTime = DateV4ToTime endDate;
         value = unitPriceValue (DaysBetweenDatesV4 endDate startDate);
         unitPrice = \<lparr>mp_Value = show_int value, mp_Decimals = 0, mp_Currency = asr_Currency req\<rparr>;
         servicePrice = \<lparr>mp_Value = ''100'', mp_Decimals = 0, mp_Currency = asr_Currency req\<rparr>
     in if rm_MealPlans room = [] then Panic indexOutOfRange
        else onProperty prop (\<lambda>p.
        onErr (resultPrices cfg PriceV4ToUnifiedPrice ToPriceV4 unitPrice servicePrice value) (\<lambda>e. e)
          (\<lambda>(validationPrice, price, service, penaltyBaseValue).
            Ok (\<lparr>ar_ResultId = resultIDnum, ar_TotalPrice = price,
                 ar_CancelPenalties = cancelPenalties now startDateTime endDateTime price penaltyBaseValue ''DS'',
                 ar_Unit = \<lparr>u_SupplierRoomCode = rm_SupplierCode room, u_SupplierRoomName = rm_SupplierName room,
                   u_OriginalRoomName = rm_OriginalName room,
                   u_TravelPeriod = \<lparr>tp_StartDate = copyDate startDate, tp_EndDate = copyDate endDate\<rparr>,
                   u_TravellerIds = getTravellerIDsV4 (asr_Travellers req), u_Beds = rm_Beds room, u_Price = price, u_ServicePrice = service,
                   u_MealPlan = Some (rm_MealPlans room ! 0), u_RatePlanCode = ''DS'', u_RemainingUnits = 100,
                   u_PropertyCode = pr_ProductCodes p, u_SupplierCode = pr_SupplierCode p\<rparr>\<rparr>, validationPrice))))"

definition roomResultV5 ::
  "pricing \<Rightarrow> time \<Rightarrow> accommodationSearchRequest \<Rightarrow> uint32 travelPeriod \<Rightarrow> extendedProperty \<times> room \<Rightarrow> uint32 \<Rightarrow>
     (accommodationResult \<times> UnifiedPrice) res" where
  "roomResultV5 cfg now req period = (\<lambda>(prop, room) resultIDnum.
     let startDate = tp_StartDate period; endDate = tp_EndDate period;
         startDateTime = DateV4ToTime startDate; endDateTime = DateV4ToTime endDate;
         value = unitPriceValue (DaysBetweenDatesV4 endDate startDate);
         mealPlan = (case rm_MealPlans room of [] \<Rightarrow> None | m # _ \<Rightarrow> Some m);
         unitPrice = \<lparr>mp_Value = show_int value, mp_Decimals = 0, mp_Currency = asr_Currency req\<rparr>;
         servicePrice = \<lparr>mp_Value = ''100'', mp_Decimals = 0, mp_Currency = asr_Currency req\<rparr>
     in onProperty prop (\<lambda>p.
        onErr (resultPrices cfg PriceV5ToUnifiedPrice ToPriceV5 unitPrice servicePrice value) (\<lambda>e. e)
          (\<lambda>(validationPrice, price, service, penaltyBaseValue).
            Ok (\<lparr>ar_ResultId = resultIDnum, ar_TotalPrice = price,
                 ar_CancelPenalties = cancelPenalties now startDateTime endDateTime price penaltyBaseValue ''DS'',
                 ar_Unit = \<lparr>u_SupplierRoomCode = rm_SupplierCode room, u_SupplierRoomName = rm_SupplierName room,
                   u_OriginalRoomName = rm_OriginalName room,
                   u_TravelPeriod = \<lparr>tp_StartDate = copyDate startDate, tp_EndDate = copyDate endDate\<rparr>,
                   u_TravellerIds = getTravellerIDsV5 (asr_Travellers req), u_Beds = rm_Beds room, u_Price = price, u_ServicePrice = service,
                   u_MealPlan = mealPlan, u_RatePlanCode = ''DS'', u_RemainingUnits = 100,
                   u_PropertyCode = pr_ProductCodes p, u_SupplierCode = pr_SupplierCode p\<rparr>\<rparr>, validationPrice))))"

text \<open>The answer of a search, and what it leaves in the store when it has results.\<close>

definition searchAnswer ::
  "string \<Rightarrow> time \<Rightarrow> time \<Rightarrow> uint32 traveller list \<Rightarrow> (accommodationResult \<times> UnifiedPrice) list \<Rightarrow> (Store, accommodationSearchResponse) act" where
  "searchAnswer uuid now later travellers results = (\<lambda>s.
     let searchResults = map fst results;
         resp = \<lparr>ass_Header = SuccessHeaderV4, ass_SearchId = NewExpiringUUIDWithTime uuid now, ass_Results = searchResults,
                 ass_Travellers = travellers\<rparr>
     in if length searchResults = 0
        then (Ok (MockSuccess (resp\<lparr>ass_Header := AddHeaderAlertV4 (ass_Header resp) NO_CONTENT [PStr ''No results found'']\<rparr>)), s)
        else (Ok (MockSuccess resp),
              AddSearchResult later uuid \<lparr>sd_NumResults = int (length searchResults), sd_NumTravelers = int (length travellers),
                sd_SeatMapID = [], sd_Prices = map snd results\<rparr> s))"

definition allRooms :: "extendedProperty list \<Rightarrow> (extendedProperty \<times> room) list" where
  "allRooms props = concat (map (\<lambda>prop. map (Pair prop) (ep_Rooms prop)) props)"

definition AccommodationSearchV4 ::
  "extendedProperty list \<Rightarrow> pricing \<Rightarrow> string \<Rightarrow> time \<Rightarrow> time \<Rightarrow> accommodationSearchRequest \<Rightarrow> (Store, accommodationSearchResponse) act" where
  "AccommodationSearchV4 propertiesV4 cfg uuid now later req =
     (case asr_TravelPeriod req of
        None \<Rightarrow> aLift (Panic nilDereference)
      | Some period \<Rightarrow>
          if \<not> IsTravelPeriodAllowedV4WithTime now period
          then aRet (MockError (ErrorHeaderV4 BUSINESS_PROCESS_ERROR TravelPeriodErrorStr))
          else aBind (aLift (filterExtendedPropertiesByGeoTreeLocationV4 propertiesV4 (asr_LocationGeoTree req))) (\<lambda>e. e) (\<lambda>filteredProps.
               aBind (aLift (filterExtendedPropertiesByProductCodesV4 filteredProps (asr_ProductCodes req))) (\<lambda>e. e) (\<lambda>filteredProps.
               aBind (aLift (filterExtendedPropertiesBySupplierCodesV4 filteredProps (asr_SupplierCodes req))) (\<lambda>e. e) (\<lambda>filteredProps.
               aBind (aLift (numberRes (roomResultV4 cfg now req period) 0 (allRooms filteredProps))) (\<lambda>e. e) (\<lambda>results.
                 searchAnswer uuid now later (asr_Travellers req) results)))))"

definition AccommodationSearchV5 ::
  "extendedProperty list \<Rightarrow> pricing \<Rightarrow> string \<Rightarrow> time \<Rightarrow> time \<Rightarrow> accommodationSearchRequest \<Rightarrow> (Store, accommodationSearchResponse) act" where
  "AccommodationSearchV5 propertiesV5 cfg uuid now later req =
     (if asr_Currency req = None
      then aRet (MockError (ErrorHeaderV4 BUSINESS_PROCESS_ERROR [PStr ''search_parameters.currency is required'']))
      else case asr_TravelPeriod req of
        None \<Rightarrow> aRet (MockError (ErrorHeaderV4 BUSINESS_PROCESS_ERROR [PStr ''travel_period (start_date and end_date) is required'']))
      | Some period \<Rightarrow>
          if tp_StartDate period = None \<or> tp_EndDate period = None
          then aRet (MockError (ErrorHeaderV4 BUSINESS_PROCESS_ERROR [PStr ''travel_period (start_date and end_date) is required'']))
          else if \<not> IsTravelPeriodAllowedV4WithTime now period
          then aRet (MockError (ErrorHeaderV4 BUSINESS_PROCESS_ERROR TravelPeriodErrorStr))
          else aBind (aLift (filterExtendedPropertiesByGeoTreeLocationV5 propertiesV5 (asr_LocationGeoTree req))) (\<lambda>e. e) (\<lambda>filteredProps.
               aBind (aLift (filterExtendedPropertiesByProductCodesV5 filteredProps (asr_ProductCodes req))) (\<lambda>e. e) (\<lambda>filteredProps.
               aBind (aLift (filterExtendedPropertiesBySupplierCodesV5 filteredProps (asr_SupplierCodes req))) (\<lambda>e. e) (\<lambda>filteredProps.
               aBind (aLift (numberRes (roomResultV5 cfg now req period) 0 (allRooms filteredProps))) (\<lambda>e. e) (\<lambda>results.
                 searchAnswer uuid now later (asr_Travellers req) results)))))"

section \<open>Search in version 3\<close>

record accommodationQueryV3 =
  aq_QueryId :: int32
  aq_TravelPeriod :: "int32 travelPeriod option"
  aq_LocationGeoTree :: "geoTree option"
  aq_ProductCodes :: "bytes list"
  aq_SupplierCodes :: "bytes list"
  aq_Travellers :: "int32 traveller list"

record accommodationSearchRequestV3 =
  asr3_Queries :: "accommodationQueryV3 list"
  asr3_Currency :: "currencyV3 option option"

record unit3 =
  u3_Type :: int32
  u3_SupplierRoomCode :: string
  u3_SupplierRoomName :: string
  u3_OriginalRoomName :: string
  u3_TravelPeriod :: "int32 travelPeriod"
  u3_TravellerIds :: "int32 list"
  u3_Beds :: bytes
  u3_Price :: mockPriceV3
  u3_SupplierCode :: "bytes option"

record accommodationResultV3 =
  ar3_ResultId :: int32
  ar3_QueryId :: int32
  ar3_TotalPrice :: mockPriceV3
  ar3_Units :: "unit3 list"

record accommodationSearchResponseV3 =
  asr3_Header :: mockHeaderV1
  asr3_Results :: "accommodationResultV3 list"
  asr3_SearchId :: "string option"

definition errSearchV3 :: "msgtext \<Rightarrow> accommodationSearchResponseV3" where
  "errSearchV3 message = \<lparr>asr3_Header = ErrorHeaderV1 message, asr3_Results = [], asr3_SearchId = None\<rparr>"

definition getTravellerIDsV3 :: "int32 traveller list \<Rightarrow> int32 list" where
  "getTravellerIDsV3 travellers = map (\<lambda>i. TravellerId (travellers ! i)) [0..<length travellers]"

text \<open>The first query whose period is missing or not allowed; each is checked at the time it is reached.\<close>

fun badPeriodV3 :: "(nat \<Rightarrow> time) \<Rightarrow> accommodationQueryV3 list \<Rightarrow> msgtext option" where
  "badPeriodV3 clk [] = None"
| "badPeriodV3 clk (query # queries) =
     (case aq_TravelPeriod query of
        None \<Rightarrow> Some [PStr ''Mandatory field TravelPeriod is missing. A travel period is required to search for accommodations (with limits of start/end values of now() / now() + 60 days)'']
      | Some period \<Rightarrow>
          if \<not> IsTravelPeriodAllowedV1 (clk 0) period then Some TravelPeriodErrorStr
          else badPeriodV3 (\<lambda>i. clk (Suc i)) queries)"

definition copyDateV1 :: "dateV1 option \<Rightarrow> dateV1 option" where
  "copyDateV1 date =
     (case date of None \<Rightarrow> Some \<lparr>date_Year = 0, date_Month = 0, date_Day = 0\<rparr>
      | Some d \<Rightarrow> Some \<lparr>date_Year = date_Year d, date_Month = date_Month d, date_Day = date_Day d\<rparr>)"

text \<open>The units of a result; the category of the property is read for every room, its supplier code too.\<close>

definition unitsV3 :: "accommodationSearchRequestV3 \<Rightarrow> accommodationQueryV3 \<Rightarrow> extendedProperty \<Rightarrow> unit3 list res" where
  "unitsV3 req query prop =
     (if ep_Rooms prop = [] then Ok []
      else onProperty prop (\<lambda>p. Ok (map (\<lambda>room.
        \<lparr>u3_Type = pr_CategoryUnit p, u3_SupplierRoomCode = rm_SupplierCode room, u3_SupplierRoomName = rm_SupplierName room,
         u3_OriginalRoomName = rm_OriginalName room,
         u3_TravelPeriod = (case aq_TravelPeriod query of
             None \<Rightarrow> \<lparr>tp_StartDate = copyDateV1 None, tp_EndDate = copyDateV1 None\<rparr>
           | Some period \<Rightarrow> \<lparr>tp_StartDate = copyDateV1 (tp_StartDate period), tp_EndDate = copyDateV1 (tp_EndDate period)\<rparr>),
         u3_TravellerIds = getTravellerIDsV3 (aq_Travellers query), u3_Beds = rm_Beds room,
         u3_Price = \<lparr>mp3_Value = DefaultPricePerNightStr, mp3_Decimals = DefaultPricePerNightDecimals, mp3_Currency = asr3_Currency req\<rparr>,
         u3_SupplierCode = pr_SupplierCode p\<rparr>) (ep_Rooms prop))))"

definition propertyResultV3 ::
  "pricing \<Rightarrow> accommodationSearchRequestV3 \<Rightarrow> accommodationQueryV3 \<times> extendedProperty \<Rightarrow> int32 \<Rightarrow> (accommodationResultV3 \<times> UnifiedPrice) res" where
  "propertyResultV3 cfg req = (\<lambda>(query, prop) resultIDnum.
     let period = aq_TravelPeriod query;
         duration = DaysBetweenDatesV1 (Option.bind period tp_EndDate) (Option.bind period tp_StartDate);
         searchPrice = \<lparr>mp3_Value = show_int (unitPriceValue duration), mp3_Decimals = DefaultPricePerNightDecimals, mp3_Currency = asr3_Currency req\<rparr>
     in onErr (unitsV3 req query prop) (\<lambda>e. e) (\<lambda>units.
        onErr (shownPrice cfg PriceV3ToUnifiedPrice ToPriceV3 searchPrice) (\<lambda>e. e) (\<lambda>(shown, validationPrice).
          Ok (\<lparr>ar3_ResultId = resultIDnum, ar3_QueryId = aq_QueryId query, ar3_TotalPrice = shown, ar3_Units = units\<rparr>, validationPrice))))"

fun queryResultsV3 ::
  "extendedProperty list \<Rightarrow> pricing \<Rightarrow> accommodationSearchRequestV3 \<Rightarrow> int32 \<Rightarrow> accommodationQueryV3 list \<Rightarrow>
     (accommodationResultV3 \<times> UnifiedPrice) list res" where
  "queryResultsV3 propertiesV3 cfg req resultIDnum [] = Ok []"
| "queryResultsV3 propertiesV3 cfg req resultIDnum (query # queries) =
     onErr (filterExtendedPropertiesByGeoTreeLocationV3 propertiesV3 (aq_LocationGeoTree query)) (\<lambda>e. e) (\<lambda>filteredProps.
     onErr (filterExtendedPropertiesByProductCodesV3 filteredProps (aq_ProductCodes query)) (\<lambda>e. e) (\<lambda>filteredProps.
     onErr (filterExtendedPropertiesBySupplierCodesV3 filteredProps (aq_SupplierCodes query)) (\<lambda>e. e) (\<lambda>filteredProps.
     onErr (numberRes (propertyResultV3 cfg req) resultIDnum (map (Pair query) filteredProps)) (\<lambda>e. e) (\<lambda>results.
     onErr (queryResultsV3 propertiesV3 cfg req (resultIDnum + word_of_nat (length results)) queries) (\<lambda>e. e) (\<lambda>rest.
       Ok (results @ rest))))))"

definition AccommodationSearchV3 ::
  "extendedProperty list \<Rightarrow> pricing \<Rightarrow> string \<Rightarrow> (nat \<Rightarrow> time) \<Rightarrow> time \<Rightarrow> accommodationSearchRequestV3 \<Rightarrow> (Store, accommodationSearchResponseV3) act" where
  "AccommodationSearchV3 propertiesV3 cfg uuid clk later req =
     (if length (asr3_Queries req) = 0 then aRet (errSearchV3 [PStr ''No queries provided''])
      else if asr3_Currency req = None
      then aRet (errSearchV3 [PStr ''Mandatory field SearchParametersGeneric.Currency is missing''])
      else case badPeriodV3 clk (asr3_Queries req) of
        Some message \<Rightarrow> aRet (errSearchV3 message)
      | None \<Rightarrow>
          if \<not> sameTravellersV3 (map aq_Travellers (asr3_Queries req))
          then aRet (errSearchV3 [PStr ''Unsupported: Traveller definitions must be identical in all queries''])
          else aBind (aLift (queryResultsV3 propertiesV3 cfg req 1 (asr3_Queries req))) (\<lambda>e. e) (\<lambda>results s.
                 let searchResults = map fst results;
                     response = \<lparr>asr3_Header = SuccessHeaderV1, asr3_Results = searchResults, asr3_SearchId = None\<rparr>
                 in if length searchResults = 0
                    then (Ok (response\<lparr>asr3_Header := SuccessHeaderV1\<lparr>mh_Alerts := [InfoAlert [PStr ''No results found for search '']]\<rparr>\<rparr>), s)
                    else (Ok (response\<lparr>asr3_SearchId := Some uuid\<rparr>),
                          AddSearchResult later uuid \<lparr>sd_NumResults = int (length searchResults),
                            sd_NumTravelers = int (length (aq_Travellers (asr3_Queries req ! 0))), sd_SeatMapID = [], sd_Prices = map snd results\<rparr> s)))"

section \<open>Product info, list and short list\<close>

definition AccommodationProductInfoV3 :: "extendedProperty list \<Rightarrow> bytes list \<Rightarrow> int32 list \<Rightarrow> (mockHeaderV1 \<times> extendedProperty list) res" where
  "AccommodationProductInfoV3 propertiesV3 supplierCodes languages =
     onErr (filterExtendedPropertiesBySupplierCodesV3 propertiesV3 supplierCodes) (\<lambda>e. e) (\<lambda>filteredProperties.
       Ok (listAnswerV1 ''No properties found that match request'' (filterExtendedPropertiesByLanguageV3 filteredProperties languages)))"

definition AccommodationProductListV3 :: "extendedProperty list \<Rightarrow> time option \<Rightarrow> (mockHeaderV1 \<times> property list) res" where
  "AccommodationProductListV3 propertiesV3 modifiedAfter =
     onErr (filterPropertiesByLastModifiedV3 propertiesV3 (AsTime modifiedAfter)) (\<lambda>e. e) (\<lambda>filteredProperties.
       Ok (listAnswerV1 ''No properties found that match request'' filteredProperties))"

definition AccommodationProductInfoV4 ::
  "extendedProperty list \<Rightarrow> bytes list \<Rightarrow> int32 list \<Rightarrow> (mockHeaderV4 \<times> extendedProperty list) mockResponse res" where
  "AccommodationProductInfoV4 propertiesV4 supplierCodes languages =
     onErr (filterExtendedPropertiesBySupplierCodesV4 propertiesV4 supplierCodes) (\<lambda>e. e) (\<lambda>filteredProperties.
       Ok (listAnswerV4 ''No properties found that match request'' (filterExtendedPropertiesByLanguageV4 filteredProperties languages)))"

definition AccommodationProductListV4 :: "extendedProperty list \<Rightarrow> bytes list \<Rightarrow> (mockHeaderV4 \<times> property option list) mockResponse res" where
  "AccommodationProductListV4 propertiesV4 supplierCodes =
     onErr (filterPropertiesBySupplierCodesV4 propertiesV4 supplierCodes) (\<lambda>e. e) (\<lambda>filteredProperties.
       Ok (listAnswerV4 ''No properties found that match request'' filteredProperties))"

definition AccommodationProductShortListV4 ::
  "extendedProperty list \<Rightarrow> time option \<Rightarrow> (mockHeaderV4 \<times> propertyShortListItem list) mockResponse res" where
  "AccommodationProductShortListV4 propertiesV4 modifiedAfter =
     onErr (filterShortItemsByModifierAfterV4 propertiesV4 (AsTime modifiedAfter)) (\<lambda>e. e) (\<lambda>filteredProperties.
       Ok (listAnswerV4 ''No properties found that match request'' filteredProperties))"

definition AccommodationProductInfoV5 ::
  "extendedProperty list \<Rightarrow> bytes list \<Rightarrow> int32 list \<Rightarrow> (mockHeaderV4 \<times> extendedProperty list) mockResponse res" where
  "AccommodationProductInfoV5 propertiesV5 supplierCodes languages =
     onErr (filterExtendedPropertiesBySupplierCodesV5 propertiesV5 supplierCodes) (\<lambda>e. e) (\<lambda>filteredProperties.
       Ok (listAnswerV4 ''No properties found that match request'' (filterExtendedPropertiesByLanguageV5 filteredProperties languages)))"

definition AccommodationProductListV5 :: "extendedProperty list \<Rightarrow> bytes list \<Rightarrow> (mockHeaderV4 \<times> property option list) mockResponse res" where
  "AccommodationProductListV5 propertiesV5 supplierCodes =
     onErr (filterPropertiesBySupplierCodesV5 propertiesV5 supplierCodes) (\<lambda>e. e) (\<lambda>filteredProperties.
       Ok (listAnswerV4 ''No properties found that match request'' filteredProperties))"

definition AccommodationProductShortListV5 ::
  "extendedProperty list \<Rightarrow> time option \<Rightarrow> (mockHeaderV4 \<times> propertyShortListItem list) mockResponse res" where
  "AccommodationProductShortListV5 propertiesV5 modifiedAfter =
     onErr (filterShortItemsByModifierAfterV5 propertiesV5 (AsTime modifiedAfter)) (\<lambda>e. e) (\<lambda>filteredProperties.
       Ok (listAnswerV4 ''No properties found that match request'' filteredProperties))"

section \<open>The prices shown are the prices stored\<close>

definition foundV4 :: "accommodationSearchResponse \<Rightarrow> (string \<times> (32 word \<times> mockPriceV4) list) option" where
  "foundV4 resp = (case resp of
     MockSuccess r \<Rightarrow> if ass_Results r = [] then None
       else Some (eu_Id (ass_SearchId r), shownResults ar_ResultId ar_TotalPrice (ass_Results r))
   | MockError _ \<Rightarrow> None)"

definition foundV3 :: "accommodationSearchResponseV3 \<Rightarrow> (string \<times> (32 word \<times> mockPriceV3) list) option" where
  "foundV3 resp = map_option (\<lambda>sid. (sid, shownResults ar3_ResultId ar3_TotalPrice (asr3_Results resp))) (asr3_SearchId resp)"

lemma resultPricesV4:
  assumes "resultPrices cfg PriceV4ToUnifiedPrice ToPriceV4 up sp v = Ok (u, price, service, base)"
    and "RealisticPriceEnabled cfg \<or> plainCurrencyV4 (mp_Currency up)"
  shows "ToPriceV4 u = price"
proof (cases "RealisticPriceEnabled cfg")
  case False
  then have "plainV4 up" "PriceV4ToUnifiedPrice up = Ok u" "price = up"
    using assms by (auto simp: resultPrices_def plainV4_def onErr_eq_Ok_iff)
  then show ?thesis using pv4.shown_price by simp
qed (use assms(1) in \<open>auto simp: resultPrices_def onErr_eq_Ok_iff Let_def\<close>)

lemma resultPricesV5:
  assumes "resultPrices cfg PriceV5ToUnifiedPrice ToPriceV5 up sp v = Ok (u, price, service, base)"
    and "RealisticPriceEnabled cfg \<or> plainCurrencyV4 (mp_Currency up)"
  shows "ToPriceV5 u = price"
proof (cases "RealisticPriceEnabled cfg")
  case False
  then have "plainV4 up" "PriceV5ToUnifiedPrice up = Ok u" "price = up"
    using assms by (auto simp: resultPrices_def plainV4_def onErr_eq_Ok_iff)
  then show ?thesis using pv5.shown_price by simp
qed (use assms(1) in \<open>auto simp: resultPrices_def onErr_eq_Ok_iff Let_def\<close>)

lemma onProperty_Ok: "onProperty prop k = Ok v \<longleftrightarrow> (\<exists>p. ep_Property prop = Some p \<and> k p = Ok v)"
  by (auto simp: onProperty_def split: option.splits)

lemma roomResultV4_shown:
  assumes "roomResultV4 cfg now req period x k = Ok (a, u)" and "RealisticPriceEnabled cfg \<or> plainCurrencyV4 (asr_Currency req)"
  shows "ar_ResultId a = k \<and> Ok (ToPriceV4 u) = Ok (ar_TotalPrice a)"
  using assms by (cases x) (auto simp: roomResultV4_def Let_def onProperty_Ok onErr_eq_Ok_iff split: if_splits dest!: resultPricesV4)

lemma roomResultV5_shown:
  assumes "roomResultV5 cfg now req period x k = Ok (a, u)" and "RealisticPriceEnabled cfg \<or> plainCurrencyV4 (asr_Currency req)"
  shows "ar_ResultId a = k \<and> Ok (ToPriceV5 u) = Ok (ar_TotalPrice a)"
  using assms by (cases x) (auto simp: roomResultV5_def Let_def onProperty_Ok onErr_eq_Ok_iff dest!: resultPricesV5)

lemma searchAnswer_stores:
  assumes "searchAnswer uuid now later travellers results s = (Ok resp, s')" and "foundV4 resp = Some (sid, shown)"
  shows "\<exists>d. s' = AddSearchResult later sid d s \<and> sd_Prices d = map snd results \<and> shown = shownResults ar_ResultId ar_TotalPrice (map fst results)"
  using assms by (auto simp: searchAnswer_def foundV4_def Let_def NewExpiringUUIDWithTime_def split: if_splits)

text \<open>A search with an answer that has results went through the loop over the rooms.\<close>

lemma AccommodationSearchV4_loop:
  assumes "AccommodationSearchV4 props cfg uuid now later req s = (Ok resp, s')" and "foundV4 resp = Some (sid, shown)"
  shows "\<exists>period rooms results. asr_TravelPeriod req = Some period \<and> IsTravelPeriodAllowedV4WithTime now period \<and>
    numberRes (roomResultV4 cfg now req period) 0 rooms = Ok results \<and>
    searchAnswer uuid now later (asr_Travellers req) results s = (Ok resp, s')"
  using assms by (auto simp: AccommodationSearchV4_def aLift_bind foundV4_def split: option.splits if_splits res.splits)

lemma AccommodationSearchV5_loop:
  assumes "AccommodationSearchV5 props cfg uuid now later req s = (Ok resp, s')" and "foundV4 resp = Some (sid, shown)"
  shows "\<exists>period rooms results. asr_TravelPeriod req = Some period \<and> IsTravelPeriodAllowedV4WithTime now period \<and>
    numberRes (roomResultV5 cfg now req period) 0 rooms = Ok results \<and>
    searchAnswer uuid now later (asr_Travellers req) results s = (Ok resp, s')"
  using assms by (auto simp: AccommodationSearchV5_def aLift_bind foundV4_def split: option.splits if_splits res.splits)

lemma stores_from_loop:
  assumes "numbered ar_ResultId ar_TotalPrice ofU 0 results" and "searchAnswer uuid now later travellers results s = (Ok resp, s')"
    and "foundV4 resp = Some (sid, shown)"
  shows "\<exists>t d. s' = AddSearchResult t sid d s \<and> map ofU (sd_Prices d) = map (\<lambda>(k, p). Ok p) shown \<and>
    map fst shown = map (\<lambda>i. 0 + word_of_nat i) [0..<length shown]"
proof -
  obtain d where "s' = AddSearchResult later sid d s" "sd_Prices d = map snd results"
      "shown = shownResults ar_ResultId ar_TotalPrice (map fst results)"
    using searchAnswer_stores[OF assms(2,3)] by blast
  then show ?thesis using numbered_stores[OF assms(1)] by (intro exI[of _ later] exI[of _ d]) simp
qed

interpretation acc4: search_version 0 requestV4 ValidationV4 validatedV4 MintV4 mockMinted "\<lambda>u. Ok (ToPriceV4 u)"
  "\<lambda>(props, cfg, uuid, now, later, req). AccommodationSearchV4 props cfg uuid now later req" foundV4
  "\<lambda>(props, cfg, uuid, now, later, req). RealisticPriceEnabled cfg \<or> plainCurrencyV4 (asr_Currency req)"
proof (unfold_locales, clarify)
  fix props cfg uuid now later req s resp s' sid shown
  assume u: "RealisticPriceEnabled cfg \<or> plainCurrencyV4 (asr_Currency req)"
    and "AccommodationSearchV4 props cfg uuid now later req s = (Ok resp, s')" and f: "foundV4 resp = Some (sid, shown)"
  then obtain period rooms results where "numberRes (roomResultV4 cfg now req period) 0 rooms = Ok results"
      and a: "searchAnswer uuid now later (asr_Travellers req) results s = (Ok resp, s')"
    using AccommodationSearchV4_loop by blast
  then have "numbered ar_ResultId ar_TotalPrice (\<lambda>u. Ok (ToPriceV4 u)) 0 results"
    using roomResultV4_shown u by (intro numbered_loop) blast+
  then show "\<exists>t d. s' = AddSearchResult t sid d s \<and> map (\<lambda>u. Ok (ToPriceV4 u)) (sd_Prices d) = map (\<lambda>(k, p). Ok p) shown \<and>
      map fst shown = map (\<lambda>i. 0 + word_of_nat i) [0..<length shown]"
    using stores_from_loop a f by blast
qed

interpretation acc5: search_version 0 requestV4 ValidationV5 validatedV4 MintV5 mockMinted "\<lambda>u. Ok (ToPriceV5 u)"
  "\<lambda>(props, cfg, uuid, now, later, req). AccommodationSearchV5 props cfg uuid now later req" foundV4
  "\<lambda>(props, cfg, uuid, now, later, req). RealisticPriceEnabled cfg \<or> plainCurrencyV4 (asr_Currency req)"
proof (unfold_locales, clarify)
  fix props cfg uuid now later req s resp s' sid shown
  assume u: "RealisticPriceEnabled cfg \<or> plainCurrencyV4 (asr_Currency req)"
    and "AccommodationSearchV5 props cfg uuid now later req s = (Ok resp, s')" and f: "foundV4 resp = Some (sid, shown)"
  then obtain period rooms results where "numberRes (roomResultV5 cfg now req period) 0 rooms = Ok results"
      and a: "searchAnswer uuid now later (asr_Travellers req) results s = (Ok resp, s')"
    using AccommodationSearchV5_loop by blast
  then have "numbered ar_ResultId ar_TotalPrice (\<lambda>u. Ok (ToPriceV5 u)) 0 results"
    using roomResultV5_shown u by (intro numbered_loop) blast+
  then show "\<exists>t d. s' = AddSearchResult t sid d s \<and> map (\<lambda>u. Ok (ToPriceV5 u)) (sd_Prices d) = map (\<lambda>(k, p). Ok p) shown \<and>
      map fst shown = map (\<lambda>i. 0 + word_of_nat i) [0..<length shown]"
    using stores_from_loop a f by blast
qed

lemma propertyResultV3_shown:
  assumes "propertyResultV3 cfg req x k = Ok (a, u)" and "RealisticPriceEnabled cfg \<or> plainCurrencyV3 (asr3_Currency req)"
  shows "ar3_ResultId a = k \<and> ToPriceV3 u = Ok (ar3_TotalPrice a)"
proof -
  obtain query pr where x: "x = (query, pr)" by (cases x)
  let ?d = "DaysBetweenDatesV1 (Option.bind (aq_TravelPeriod query) tp_EndDate) (Option.bind (aq_TravelPeriod query) tp_StartDate)"
  let ?p = "\<lparr>mp3_Value = show_int (unitPriceValue ?d), mp3_Decimals = DefaultPricePerNightDecimals, mp3_Currency = asr3_Currency req\<rparr>"
  have "RealisticPriceEnabled cfg \<or> plainV3 ?p" using assms(2) by (auto simp: plainV3_def DefaultPricePerNightDecimals_def)
  moreover have "shownPrice cfg PriceV3ToUnifiedPrice ToPriceV3 ?p = Ok (ar3_TotalPrice a, u)" "ar3_ResultId a = k"
    using assms(1) x by (auto simp: propertyResultV3_def Let_def onErr_eq_Ok_iff)
  ultimately show ?thesis using pv3.shownPrice_stored by blast
qed

lemma queryResultsV3_numbered:
  assumes "queryResultsV3 props cfg req n queries = Ok results" and "RealisticPriceEnabled cfg \<or> plainCurrencyV3 (asr3_Currency req)"
  shows "numbered ar3_ResultId ar3_TotalPrice ToPriceV3 n results"
  using assms(1)
proof (induction queries arbitrary: n results)
  case (Cons query queries)
  obtain fp rs rest where "numberRes (propertyResultV3 cfg req) n (map (Pair query) fp) = Ok rs"
      and rest: "queryResultsV3 props cfg req (n + word_of_nat (length rs)) queries = Ok rest" "results = rs @ rest"
    using Cons.prems by (auto simp: onErr_eq_Ok_iff)
  then have "numbered ar3_ResultId ar3_TotalPrice ToPriceV3 n rs"
    using propertyResultV3_shown assms(2) by (intro numbered_loop) blast+
  then show ?case using numbered_append Cons.IH[OF rest(1)] rest(2) by blast
qed simp

interpretation acc3: search_version 1 requestV3 "\<lambda>uuid now later. ValidationV3 uuid later" vres3_Price MintV3 mintedV3 ToPriceV3
  "\<lambda>(props, cfg, uuid, clk, later, req). AccommodationSearchV3 props cfg uuid clk later req" foundV3
  "\<lambda>(props, cfg, uuid, clk, later, req). RealisticPriceEnabled cfg \<or> plainCurrencyV3 (asr3_Currency req)"
proof (unfold_locales, clarify)
  fix props cfg uuid clk later req s resp s' sid shown
  assume u: "RealisticPriceEnabled cfg \<or> plainCurrencyV3 (asr3_Currency req)"
    and a: "AccommodationSearchV3 props cfg uuid clk later req s = (Ok resp, s')" and f: "foundV3 resp = Some (sid, shown)"
  let ?d = "\<lambda>results. \<lparr>sd_NumResults = int (length results), sd_NumTravelers = int (length (aq_Travellers (asr3_Queries req ! 0))),
      sd_SeatMapID = [], sd_Prices = map snd results\<rparr>"
  obtain results where r: "queryResultsV3 props cfg req 1 (asr3_Queries req) = Ok results"
      and d: "s' = AddSearchResult later sid (?d results) s"
      and sh: "shown = shownResults ar3_ResultId ar3_TotalPrice (map fst results)"
    using a f by (auto simp: AccommodationSearchV3_def aLift_bind foundV3_def errSearchV3_def Let_def split: option.splits if_splits res.splits)
  show "\<exists>t d. s' = AddSearchResult t sid d s \<and> map ToPriceV3 (sd_Prices d) = map (\<lambda>(k, p). Ok p) shown \<and>
      map fst shown = map (\<lambda>i. 1 + word_of_nat i) [0..<length shown]"
    using numbered_stores[OF queryResultsV3_numbered[OF r u]] sh d by (intro exI[of _ later] exI[of _ "?d results"]) simp
qed

section \<open>Versions 4 and 5 agree on complete data\<close>

definition complete :: "extendedProperty \<Rightarrow> bool" where
  "complete prop \<longleftrightarrow>
     (case ep_Property prop of None \<Rightarrow> False | Some p \<Rightarrow> (case pr_Addresses p of Some (a # as) \<Rightarrow> True | _ \<Rightarrow> False)) \<and>
     list_all (\<lambda>room. rm_MealPlans room \<noteq> []) (ep_Rooms prop)"

lemma completeD: "complete prop \<Longrightarrow> \<exists>p a as. ep_Property prop = Some p \<and> pr_Addresses p = Some (a # as)"
  by (auto simp: complete_def split: option.splits list.splits)

lemma complete_rooms: "complete prop \<Longrightarrow> room \<in> set (ep_Rooms prop) \<Longrightarrow> rm_MealPlans room \<noteq> []"
  by (auto simp: complete_def list_all_iff)

lemma geoFilter_V4_V5:
  assumes "\<forall>prop \<in> set props. complete prop"
  shows "filterExtendedPropertiesByGeoTreeLocationV4 props g = filterExtendedPropertiesByGeoTreeLocationV5 props g"
  unfolding filterExtendedPropertiesByGeoTreeLocationV4_def filterExtendedPropertiesByGeoTreeLocationV5_def
  using assms
  by (intro if_cong refl filterRes_cong) (fastforce dest!: bspec completeD simp: onProperty_def firstAddress_def)

lemma roomResult_V4_V5: "rm_MealPlans room \<noteq> [] \<Longrightarrow> roomResultV4 cfg now req period (prop, room) k = roomResultV5 cfg now req period (prop, room) k"
  by (cases "rm_MealPlans room") (simp_all add: roomResultV4_def roomResultV5_def priceV4_V5 getTravellerIDsV4_def getTravellerIDsV5_def)

lemma filters_subset:
  "filterExtendedPropertiesByGeoTreeLocationV5 props g = Ok ps \<Longrightarrow> set ps \<subseteq> set props"
  "filterExtendedPropertiesByProductCodesV5 props codes = Ok ps \<Longrightarrow> set ps \<subseteq> set props"
  "filterExtendedPropertiesBySupplierCodesV5 props codes = Ok ps \<Longrightarrow> set ps \<subseteq> set props"
  unfolding filterExtendedPropertiesByGeoTreeLocationV5_def filterExtendedPropertiesByProductCodesV5_def
    filterExtendedPropertiesBySupplierCodesV5_def
  by (simp_all split: if_splits add: filterRes_subset)

section \<open>The penalties of a cancellation\<close>

fun contiguous :: "cancelPenalty list \<Rightarrow> bool" where
  "contiguous (p # q # ps) \<longleftrightarrow> pen_Start p < pen_End p \<and> pen_End p = pen_Start q \<and> contiguous (q # ps)"
| "contiguous [p] \<longleftrightarrow> pen_Start p < pen_End p"
| "contiguous [] \<longleftrightarrow> True"

definition penaltyAmounts :: "cancelPenalty list \<Rightarrow> int list \<Rightarrow> bool" where
  "penaltyAmounts ps xs \<longleftrightarrow> map (\<lambda>p. SetString10 (mp_Value (pen_Value p))) ps = map Some xs"

text \<open>The ranges follow each other without gaps from now to the end of the stay, and the amounts grow from nothing, or a
  tenth, to the whole price.\<close>

definition penaltySchedule :: "time \<Rightarrow> time \<Rightarrow> int \<Rightarrow> cancelPenalty list \<Rightarrow> bool" where
  "penaltySchedule now stayEnd v ps \<longleftrightarrow>
     ps \<noteq> [] \<and> contiguous ps \<and> pen_Start (hd ps) \<le> now \<and> now - pen_Start (hd ps) < second \<and> pen_End (last ps) = stayEnd \<and>
     (\<exists>xs. penaltyAmounts ps xs \<and> sorted xs \<and> 0 \<le> hd xs \<and> last xs = v)"

lemma quot_tenth: "0 \<le> v \<Longrightarrow> 0 \<le> quot v 10 \<and> quot v 10 \<le> v"
proof -
  assume v: "0 \<le> v"
  have "0 \<le> v div 10" "v div 10 \<le> v" using v by presburger+
  then show ?thesis using v by (simp add: quot_def sgn_if)
qed

lemma cancelPenalties_schedule:
  assumes "now < startT" "startT < endT" "startT = n * day" "SetString10 (mp_Value price) = Some v" "0 \<le> v"
  shows "penaltySchedule now endT v (cancelPenalties now startT endT price v rp)"
proof -
  have sec: "Unix (startT - FreeCancellationDuration) = n * 86400 - 604800"
    using assms(3) by (simp add: Unix_def FreeCancellationDuration_def)
  have nowsec: "Unix now * second \<le> now" "now - Unix now * second < second"
    by (simp_all add: Unix_def flip: minus_mod_eq_div_mult)
  have free: "startT - FreeCancellationDuration = (n * 86400 - 604800) * second"
    using assms(3) by (simp add: FreeCancellationDuration_def)
  have q: "SetString10 (show_int (quot v 10)) = Some (quot v 10)" "0 \<le> quot v 10" "quot v 10 \<le> v"
    using SetString10_show_int quot_tenth[OF assms(5)] by auto
  have z: "SetString10 ''0'' = Some 0" by code_simp
  show ?thesis
  proof (cases "startT > now + FreeCancellationDuration")
    case True
    then have "Unix now * second < (n * 86400 - 604800) * second" using nowsec(1) free by linarith
    then have "Unix now \<le> n * 86400 - 604800" by simp
    then have m: "unixTime (max (Unix (startT - FreeCancellationDuration)) (Unix now)) = startT - FreeCancellationDuration"
      using free sec by (simp add: unixTime_def max_def)
    have "penaltyAmounts (cancelPenalties now startT endT price v rp) [0, quot v 10, v]"
      using True z q(1) assms(4) by (simp add: penaltyAmounts_def cancelPenalties_def Let_def)
    then show ?thesis
      using True m assms q unfolding penaltySchedule_def
      by (intro conjI exI[of _ "[0, quot v 10, v]"]) (auto simp: cancelPenalties_def FreeCancellationDuration_def)
  next
    case False
    then have "(n * 86400 - 604800) * second \<le> now" using free by linarith
    then have "(n * 86400 - 604800) * second < (Unix now + 1) * second" using nowsec(2) by (simp add: algebra_simps)
    then have "n * 86400 - 604800 \<le> Unix now" by simp
    then have m: "unixTime (max (Unix (startT - FreeCancellationDuration)) (Unix now)) = Unix now * second"
      using sec by (simp add: unixTime_def max_def)
    have "penaltyAmounts (cancelPenalties now startT endT price v rp) [quot v 10, v]"
      using False q(1) assms(4) by (simp add: penaltyAmounts_def cancelPenalties_def Let_def)
    then show ?thesis
      using False m assms q nowsec unfolding penaltySchedule_def
      by (intro conjI exI[of _ "[quot v 10, v]"]) (auto simp: cancelPenalties_def)
  qed
qed

text \<open>The price of an allowed stay does not overflow.\<close>

lemma unitPriceValue_exact: "1 \<le> n \<Longrightarrow> n \<le> 60 \<Longrightarrow> unitPriceValue n = 10533 * n"
  unfolding unitPriceValue_def DefaultPricePerNight_def
  by (rule sint_big_Int64[unfolded big_Int64_def]) simp_all

section \<open>Properties\<close>

lemma search_V4_V5_loop:
  assumes "\<forall>prop \<in> set props. complete prop"
  shows "numberRes (roomResultV4 cfg now req period) k (allRooms props) = numberRes (roomResultV5 cfg now req period) k (allRooms props)"
  using assms by (intro numberRes_cong) (auto simp: allRooms_def intro!: roomResult_V4_V5 dest: complete_rooms)

text \<open>The searches of versions 4 and 5 of the accommodation service give the same answer and leave the same
  store on every request that names a currency and both dates, provided every property has an address and every room a
  meal plan; version 5 was written for the data on which version 4 panics.\<close>

lemma accommodation_versions_agree:
  assumes "\<forall>prop \<in> set props. complete prop" and "asr_Currency req \<noteq> None"
    and "asr_TravelPeriod req = Some period" "tp_StartDate period \<noteq> None" "tp_EndDate period \<noteq> None"
  shows "AccommodationSearchV4 props cfg uuid now later req s = AccommodationSearchV5 props cfg uuid now later req s"
proof -
  have f: "filterExtendedPropertiesByProductCodesV4 = filterExtendedPropertiesByProductCodesV5"
    "filterExtendedPropertiesBySupplierCodesV4 = filterExtendedPropertiesBySupplierCodesV5"
    unfolding filterExtendedPropertiesByProductCodesV4_def filterExtendedPropertiesByProductCodesV5_def
      filterExtendedPropertiesBySupplierCodesV4_def filterExtendedPropertiesBySupplierCodesV5_def fun_eq_iff
    by simp_all
  have "numberRes (roomResultV4 cfg now req period) 0 (allRooms ps3) = numberRes (roomResultV5 cfg now req period) 0 (allRooms ps3)"
    if "filterExtendedPropertiesByGeoTreeLocationV5 props (asr_LocationGeoTree req) = Ok ps1"
      "filterExtendedPropertiesByProductCodesV5 ps1 (asr_ProductCodes req) = Ok ps2"
      "filterExtendedPropertiesBySupplierCodesV5 ps2 (asr_SupplierCodes req) = Ok ps3" for ps1 ps2 ps3
    using filters_subset(1)[OF that(1)] filters_subset(2)[OF that(2)] filters_subset(3)[OF that(3)] assms(1)
    by (intro search_V4_V5_loop) blast
  then show ?thesis
    using assms unfolding AccommodationSearchV4_def AccommodationSearchV5_def geoFilter_V4_V5[OF assms(1)] f
    by (auto simp: aLift_bind split: res.splits)
qed

definition sample_property :: extendedProperty where
  "sample_property =
     \<lparr>ep_Property = Some \<lparr>pr_ProductCodes = [[1]], pr_SupplierCode = Some [2], pr_Addresses = Some [None], pr_LastModified = None, pr_Status = 0,
        pr_CategoryUnit = 0, pr_Rest = []\<rparr>,
      ep_Rooms = [\<lparr>rm_SupplierCode = ''R1'', rm_SupplierName = ''Room'', rm_OriginalName = ''Room'', rm_Beds = [], rm_MealPlans = [[3]]\<rparr>,
                  \<lparr>rm_SupplierCode = ''R2'', rm_SupplierName = ''Suite'', rm_OriginalName = ''Suite'', rm_Beds = [], rm_MealPlans = [[3]]\<rparr>],
      ep_LocalizedDescriptions = [], ep_LocalizedRoomDescriptions = [], ep_Rest = []\<rparr>"

text \<open>Two nights from the third of January 1970, searched on the first.\<close>

definition sample_stay :: accommodationSearchRequest where
  "sample_stay =
     \<lparr>asr_Currency = Some (Some NativeTokenV4),
      asr_TravelPeriod = Some \<lparr>tp_StartDate = Some \<lparr>date_Year = 1970, date_Month = 1, date_Day = 3\<rparr>,
        tp_EndDate = Some \<lparr>date_Year = 1970, date_Month = 1, date_Day = 5\<rparr>\<rparr>,
      asr_LocationGeoTree = None, asr_ProductCodes = [], asr_SupplierCodes = [[2]], asr_Travellers = []\<rparr>"

lemma accommodation_versions_agree_witness:
  "AccommodationSearchV4 [sample_property] defaultPricing ''s'' 0 0 sample_stay GetStore =
   AccommodationSearchV5 [sample_property] defaultPricing ''s'' 0 0 sample_stay GetStore"
  by (rule accommodation_versions_agree[where period = "the (asr_TravelPeriod sample_stay)"])
    (simp_all add: complete_def sample_property_def sample_stay_def)

text \<open>What a room of an allowed stay costs, however it is priced.\<close>

lemma NormalizeRealistic_value:
  "up_Price (NormalizeRealistic cfg u) \<in> {up_Price u, RealisticNativeBaseUnits cfg}"
  by (simp add: NormalizeRealistic_def)

lemma PriceV5ToUnified_value:
  assumes "PriceV5ToUnifiedPrice p = Ok u"
  shows "up_Price u = mp_Value p" "up_Decimals u = mp_Decimals p" "mp_Currency p = Some (Some NativeTokenV4) \<Longrightarrow> up_IsNative u"
  using assms by (auto simp: PriceV5ToUnifiedPrice_def unified_defs split: option.splits currencyV4.splits)

lemma resultPricesV5_value:
  assumes r: "resultPrices cfg PriceV5ToUnifiedPrice ToPriceV5 up sp v = Ok (u, price, service, base)"
    and v: "SetString10 (mp_Value up) = Some v" "0 \<le> v" and n: "SetString10 (RealisticNativeBaseUnits cfg) = Some n" "0 \<le> n"
  shows "SetString10 (mp_Value price) = Some base \<and> 0 \<le> base \<and> base \<in> {v, n} \<and> (\<not> RealisticPriceEnabled cfg \<longrightarrow> base = v)"
proof (cases "RealisticPriceEnabled cfg")
  case True
  then obtain u0 where u0: "PriceV5ToUnifiedPrice up = Ok u0" "price = ToPriceV5 (NormalizeRealistic cfg u0)"
      "base = (case SetString10 (mp_Value price) of Some v \<Rightarrow> v | None \<Rightarrow> v)"
    using r by (auto simp: resultPrices_def onErr_eq_Ok_iff Let_def)
  have "mp_Value price \<in> {mp_Value up, RealisticNativeBaseUnits cfg}"
    using NormalizeRealistic_value[of cfg u0] PriceV5ToUnified_value(1)[OF u0(1)] u0(2) by (simp add: ToPriceV5_def)
  then show ?thesis using u0(3) v n True by auto
next
  case False
  then show ?thesis using r v by (auto simp: resultPrices_def onErr_eq_Ok_iff)
qed

lemma roomResultV5_value:
  assumes r: "roomResultV5 cfg now req period x k = Ok (a, u)" and al: "IsTravelPeriodAllowedV4WithTime now period"
    and n: "SetString10 (RealisticNativeBaseUnits cfg) = Some n" "0 \<le> n"
  shows "\<exists>nights v. 1 \<le> nights \<and> nights \<le> 60 \<and> SetString10 (mp_Value (ar_TotalPrice a)) = Some v \<and>
    v \<in> {10533 * nights, n} \<and> (\<not> RealisticPriceEnabled cfg \<longrightarrow> v = 10533 * nights) \<and> u_Price (ar_Unit a) = ar_TotalPrice a \<and>
    DateV4ToTime (tp_EndDate period) = DateV4ToTime (tp_StartDate period) + nights * day \<and>
    penaltySchedule now (DateV4ToTime (tp_EndDate period)) v (ar_CancelPenalties a)"
proof -
  let ?n = "DaysBetweenDatesV4 (tp_EndDate period) (tp_StartDate period)"
  let ?up = "\<lparr>mp_Value = show_int (unitPriceValue ?n), mp_Decimals = 0, mp_Currency = asr_Currency req\<rparr>"
  let ?sp = "\<lparr>mp_Value = ''100'', mp_Decimals = 0, mp_Currency = asr_Currency req\<rparr>"
  have nights: "1 \<le> ?n" "?n \<le> 60" using allowed_nightsV4(1)[OF al] by auto
  then have val: "unitPriceValue ?n = 10533 * ?n" by (rule unitPriceValue_exact)
  obtain u' price service base where rp: "resultPrices cfg PriceV5ToUnifiedPrice ToPriceV5 ?up ?sp (unitPriceValue ?n) = Ok (u', price, service, base)"
      and a: "ar_TotalPrice a = price" "u_Price (ar_Unit a) = price"
        "ar_CancelPenalties a = cancelPenalties now (DateV4ToTime (tp_StartDate period)) (DateV4ToTime (tp_EndDate period)) price base ''DS''"
    using r by (cases x) (auto simp: roomResultV5_def Let_def onProperty_Ok onErr_eq_Ok_iff)
  have "SetString10 (mp_Value ?up) = Some (unitPriceValue ?n)" "0 \<le> unitPriceValue ?n"
    using val nights SetString10_show_int[of "unitPriceValue ?n"] by simp_all
  from resultPricesV5_value[OF rp this n] have
    base: "SetString10 (mp_Value price) = Some base" "0 \<le> base" "base \<in> {10533 * ?n, n}" "\<not> RealisticPriceEnabled cfg \<longrightarrow> base = 10533 * ?n"
    unfolding val by auto
  obtain d where d: "DateV4ToTime (tp_StartDate period) = d * day" using DateToTime_days(2) by metis
  have "DateV4ToTime (tp_StartDate period) < DateV4ToTime (tp_EndDate period)"
    using allowed_nightsV4(2)[OF al] nights by simp
  then have "penaltySchedule now (DateV4ToTime (tp_EndDate period)) base (ar_CancelPenalties a)"
    unfolding a(3) using allowed_nightsV4(3)[OF al] d base by (intro cancelPenalties_schedule) auto
  then show ?thesis using base a nights allowed_nightsV4(2)[OF al] by (intro exI[of _ ?n] exI[of _ base]) auto
qed


definition sample_room_offer :: accommodationResult where
  "sample_room_offer = (case fst (AccommodationSearchV5 [sample_property] defaultPricing ''s'' 0 0 sample_stay GetStore) of
     Ok (MockSuccess r) \<Rightarrow> ass_Results r ! 0)"

lemma sample_amount: "SetString10 (RealisticNativeBaseUnits defaultPricing) = Some 10533"
  by code_simp

lemma sample_dates:
  "DateV4ToTime (Some \<lparr>date_Year = 1970, date_Month = 1, date_Day = 3\<rparr>) = 2 * day"
  "DateV4ToTime (Some \<lparr>date_Year = 1970, date_Month = 1, date_Day = 5\<rparr>) = 4 * day"
  by (simp_all add: DateV4ToTime_def time_Date_def yearStart_def monthStarts_def isLeap_def)

lemma sample_stay_allowed: "IsTravelPeriodAllowedV4WithTime 0 (the (asr_TravelPeriod sample_stay))"
  by (simp add: IsTravelPeriodAllowedV4WithTime_def sample_stay_def sample_dates Truncate_day_def TravelPeriodMinStartOffset_def TravelPeriodMaxDuration_def Let_def)

lemma sample_filters:
  "filterExtendedPropertiesByGeoTreeLocationV5 [sample_property] (asr_LocationGeoTree sample_stay) = Ok [sample_property]"
  "filterExtendedPropertiesByProductCodesV5 [sample_property] (asr_ProductCodes sample_stay) = Ok [sample_property]"
  "filterExtendedPropertiesBySupplierCodesV5 [sample_property] (asr_SupplierCodes sample_stay) = Ok [sample_property]"
  by code_simp+

lemma sample_rooms: "length (allRooms [sample_property]) = 2"
  by code_simp

lemma sample_results: "\<exists>rs. numberRes (roomResultV5 cfg 0 sample_stay period) 0 (allRooms [sample_property]) = Ok rs \<and> length rs = 2"
proof -
  have "\<exists>rs. numberRes (roomResultV5 cfg 0 sample_stay period) 0 (allRooms [sample_property]) = Ok rs"
    by (rule numberRes_total)
      (auto simp: allRooms_def roomResultV5_def Let_def sample_property_def sample_stay_def onProperty_def
        resultPrices_def PriceV5ToUnifiedPrice_def unified_defs)
  then show ?thesis using numberRes_length[of "roomResultV5 cfg 0 sample_stay period" 0 "allRooms [sample_property]"] sample_rooms by fastforce
qed

lemma sample_search:
  "\<exists>r d. AccommodationSearchV5 [sample_property] cfg ''s'' 0 0 sample_stay GetStore = (Ok (MockSuccess r), AddSearchResult 0 ''s'' d GetStore) \<and>
     length (ass_Results r) = 2 \<and> eu_Id (ass_SearchId r) = ''s''"
proof -
  obtain period where p: "asr_TravelPeriod sample_stay = Some period" by (simp add: sample_stay_def)
  obtain rs where rs: "numberRes (roomResultV5 cfg 0 sample_stay period) 0 (allRooms [sample_property]) = Ok rs" "length rs = 2"
    using sample_results by blast
  have "AccommodationSearchV5 [sample_property] cfg ''s'' 0 0 sample_stay GetStore = searchAnswer ''s'' 0 0 (asr_Travellers sample_stay) rs GetStore"
    using sample_stay_allowed sample_filters rs(1) p
    unfolding AccommodationSearchV5_def by (auto simp: aLift_bind sample_stay_def)
  then show ?thesis using rs(2) by (auto simp: searchAnswer_def NewExpiringUUIDWithTime_def Let_def)
qed


lemma roomResultV5_native:
  assumes "roomResultV5 cfg now req period x k = Ok (a, u)" and "RealisticPriceEnabled cfg" and "asr_Currency req = Some (Some NativeTokenV4)"
  shows "\<exists>u0. up_IsNative u0 \<and> ar_TotalPrice a = ToPriceV5 (NormalizeRealistic cfg u0)"
  using assms by (cases x) (auto simp: roomResultV5_def Let_def onProperty_Ok onErr_eq_Ok_iff resultPrices_def dest!: PriceV5ToUnified_value(3))

lemma shown_native:
  assumes "AccommodationSearchV5 props cfg uuid now later req s = (Ok resp, s')" and f: "foundV4 resp = Some (sid, shown)"
    and "(k, p) \<in> set shown" and c: "RealisticPriceEnabled cfg" "asr_Currency req = Some (Some NativeTokenV4)"
  shows "\<exists>u0. up_IsNative u0 \<and> p = ToPriceV5 (NormalizeRealistic cfg u0)"
proof -
  obtain period rooms results where l: "numberRes (roomResultV5 cfg now req period) 0 rooms = Ok results"
      and ans: "searchAnswer uuid now later (asr_Travellers req) results s = (Ok resp, s')"
    using AccommodationSearchV5_loop[OF assms(1) f] by blast
  have "shown = shownResults ar_ResultId ar_TotalPrice (map fst results)"
    using ans f by (auto simp: searchAnswer_def foundV4_def Let_def split: if_splits)
  then obtain i where i: "i < length results" "p = ar_TotalPrice (fst (results ! i))"
    using assms(3) by (auto simp: shownResults_def in_set_conv_nth)
  have "roomResultV5 cfg now req period (rooms ! i) (0 + word_of_nat i) = Ok (fst (results ! i), snd (results ! i))"
    using numberRes_nth[OF l, of i] numberRes_length[OF l] i by simp
  from roomResultV5_native[OF this c] show ?thesis using i(2) by simp
qed

text \<open>Property C18: an offer of the mock plugin survives to the chain. When a version 5 accommodation search shows a price
  in the native token under realistic pricing, then whatever else the store is asked to do within the life of the
  entries, validating the shown result succeeds at that price, minting the validation succeeds at that price, and
  the bot reads the minted price as exactly the configured number of base units of the native token.\<close>

lemma shown_offer_charged:
  assumes search: "AccommodationSearchV5 props cfg uuid now0 later0 req s = (Ok resp, s0)" and found: "foundV4 resp = Some (sid, shown)"
    and native: "RealisticPriceEnabled cfg" "asr_Currency req = Some (Some NativeTokenV4)" "SetString10 (RealisticNativeBaseUnits cfg) = Some n"
    and shown: "(k, p) \<in> set shown" "length shown < 2 ^ 31" and ids: "sid \<noteq> []" "vid \<noteq> []"
    and ops1: "\<And>r. GetSearchResult s0 sid = Some r \<Longrightarrow> \<forall>(t, op) \<in> set ops1. \<not> touchesSearch op sid \<and> t \<le> sr_CreatedAt r + EntryTimeout"
    and ops2: "\<forall>(t, op) \<in> set ops2. \<not> touchesValidation op vid \<and> t \<le> later + EntryTimeout"
  shows "\<exists>v s1 m s2. ValidationV5 vid now later (requestV4 sid k) (store_run ops1 s0) = (Ok v, s1) \<and> validatedV4 v = Some p \<and>
    MintV5 cfg buyable mid now' later' (Some vid) (store_run ops2 s1) = (Ok m, s2) \<and> mockMinted m = Some (mid, p) \<and>
    fst (GetPriceAndTokenV5 hex env tokens (Some (sentV4 p))) = Ok (n, NativePaymentToken, 0)"
proof -
  obtain u where "up_IsNative u" "p = ToPriceV5 (NormalizeRealistic cfg u)"
    using shown_native[OF search found shown(1) native(1,2)] by blast
  then have "fst (GetPriceAndTokenV5 hex env tokens (Some (sentV4 p))) = Ok (n, NativePaymentToken, 0)"
    using normalized_native_verbatim(2)[OF _ native(3)] by simp
  moreover note acc5.shown_price_minted[of "(props, cfg, uuid, now0, later0, req)" s resp s0 sid shown k p vid cfg ops1 ops2 later now buyable mid now' later',
    simplified, OF search found shown(1) shown(2)[simplified] ids native(1) ops1 ops2]
  ultimately show ?thesis by blast
qed

definition sample_realistic :: pricing where
  "sample_realistic = SetRealisticPrice True ''5000'' None defaultPricing"

lemma sample_realistic_amount:
  "RealisticPriceEnabled sample_realistic" "SetString10 (RealisticNativeBaseUnits sample_realistic) = Some 5000"
  by code_simp+

lemma shown_offer_charged_witness:
  "\<exists>s0 p v s1 m s2. ValidationV5 ''v'' 1 2 (requestV4 ''s'' 0) (store_run [(minute, OpCleanup), (minute, OpMint ''other'' [])] s0) = (Ok v, s1) \<and>
    validatedV4 v = Some p \<and>
    MintV5 sample_realistic BuyableUntil_Default ''m'' 3 4 (Some ''v'') (store_run [(minute, OpCleanup)] s1) = (Ok m, s2) \<and>
    mockMinted m = Some (''m'', p) \<and>
    fst (GetPriceAndTokenV5 (\<lambda>_. 7) sample_erc20 \<lparr>erc20Cache = Map.empty\<rparr> (Some (sentV4 p))) = Ok (5000, NativePaymentToken, 0)"
proof -
  let ?ops = "[(minute, OpCleanup), (minute, OpMint ''other'' [])]"
  obtain r d where r: "AccommodationSearchV5 [sample_property] sample_realistic ''s'' 0 0 sample_stay GetStore =
        (Ok (MockSuccess r), AddSearchResult 0 ''s'' d GetStore)" "length (ass_Results r) = 2" "eu_Id (ass_SearchId r) = ''s''"
    using sample_search by blast
  let ?shown = "shownResults ar_ResultId ar_TotalPrice (ass_Results r)"
  have f: "foundV4 (MockSuccess r) = Some (''s'', ?shown)" using r(2,3) by (auto simp: foundV4_def)
  have len: "length ?shown < 2 ^ 31" using r(2) by (simp add: shownResults_def)
  have ids: "map fst ?shown = map (\<lambda>i. 0 + word_of_nat i) [0..<length ?shown]"
    using acc5.search_stores[of "([sample_property], sample_realistic, ''s'', 0, 0, sample_stay)", OF _ _ f] r(1) sample_realistic_amount(1)
    by simp blast
  have "fst (?shown ! 0) = 0" using arg_cong[OF ids, of "\<lambda>xs. xs ! 0"] r(2) by (simp add: shownResults_def)
  moreover have "?shown ! 0 \<in> set ?shown" using r(2) by (simp add: shownResults_def)
  ultimately obtain p where p: "(0, p) \<in> set ?shown" by (metis prod.collapse)
  show ?thesis
    using shown_offer_charged[OF r(1) f sample_realistic_amount(1) _ sample_realistic_amount(2) p len, of "''v''" ?ops "[(minute, OpCleanup)]" 2
        1 BuyableUntil_Default "''m''" 3 4 "\<lambda>_. 7" sample_erc20 "\<lparr>erc20Cache = Map.empty\<rparr>"]
    by (simp add: sample_stay_def EntryTimeout_def) blast
qed

end
