(* ===== verification/Mock_Transport.thy ===== *)
theory Mock_Transport
  imports Mock_Book
begin

text \<open>
  The transport services of the mock plugin (pp-mock/handlers/transport, versions 3 to 5) and the trips they
  search (pp-mock/services/data/transport): the check of the sample trips, the filters, the search with its
  early answers and the product lists. Of a trip the fields the code reads are modelled, the others are kept as
  bytes. A location is the code its getter returns. Messages that may be nil are options and reading a
  field of nil panics; cloning a message gives an equal one. Protobuf text rendered into an alert is left out.
\<close>

abbreviation (input) hour :: duration where "hour \<equiv> 3600000000000"

section \<open>Trips (services/data/transport)\<close>

record transitEvent =
  te_DateTime :: "time option"
  te_LocationCode :: "bytes option"

record basicSegment =
  bs_Departure :: "transitEvent option"
  bs_Arrival :: "transitEvent option"
  bs_Rest :: bytes

record tripBasic =
  tbas_SupplierCode :: "bytes option"
  tbas_LastModified :: "time option"
  tbas_Segments :: "basicSegment list"
  tbas_Rest :: bytes

record extendedSegment =
  es_SeatMapId :: "string option"
  es_Rest :: bytes

record tripExtended =
  tx_SupplierCode :: "bytes option"
  tx_Price :: "mockPriceV4 option"
  tx_Segments :: "extendedSegment list"
  tx_Rest :: bytes

record TripV4 =
  trip_Basic :: "tripBasic option"
  trip_Extended :: "tripExtended option"

type_synonym TripV5 = TripV4

text \<open>The loop of \<open>Verify\<close> over the segments.\<close>

fun verifySegments :: "nat \<Rightarrow> basicSegment list \<Rightarrow> unit res" where
  "verifySegments i [] = Ok ()"
| "verifySegments i (segment # segments) =
     onPtr (bs_Departure segment) (\<lambda>departure.
       if te_LocationCode departure = None
       then Fail (Err [PStr ''trip segment '', PInt (int i), PStr '' missing departure or arrival location code''] [])
       else onPtr (bs_Arrival segment) (\<lambda>arrival.
         if te_LocationCode arrival = None
         then Fail (Err [PStr ''trip segment '', PInt (int i), PStr '' missing departure or arrival location code''] [])
         else verifySegments (Suc i) segments))"

definition VerifyV4 :: "TripV4 \<Rightarrow> unit res" where
  "VerifyV4 t =
     onPtr (trip_Basic t) (\<lambda>basic. onPtr (trip_Extended t) (\<lambda>extended.
       if tbas_SupplierCode basic \<noteq> tx_SupplierCode extended
       then Fail (Err [PStr ''trip basic and extended supplier code mismatch''] [])
       else if length (tbas_Segments basic) \<noteq> length (tx_Segments extended)
       then Fail (Err [PStr ''trip basic and extended segments length mismatch''] [])
       else verifySegments 0 (tbas_Segments basic)))"

definition VerifyV5 :: "TripV5 \<Rightarrow> unit res" where
  "VerifyV5 t =
     onPtr (trip_Basic t) (\<lambda>basic. onPtr (trip_Extended t) (\<lambda>extended.
       if tbas_SupplierCode basic \<noteq> tx_SupplierCode extended
       then Fail (Err [PStr ''trip basic and extended supplier code mismatch''] [])
       else if length (tbas_Segments basic) \<noteq> length (tx_Segments extended)
       then Fail (Err [PStr ''trip basic and extended segments length mismatch''] [])
       else verifySegments 0 (tbas_Segments basic)))"

text \<open>Pairing the two lists of trips; an error of \<open>Verify\<close> panics.\<close>

fun pairTrips :: "(TripV4 \<Rightarrow> unit res) \<Rightarrow> nat \<Rightarrow> tripBasic option list \<Rightarrow> tripExtended option list \<Rightarrow> TripV4 list res" where
  "pairTrips verify i [] extended = Ok []"
| "pairTrips verify i (b # basic) [] = Panic indexOutOfRange"
| "pairTrips verify i (b # basic) (e # extended) =
     (let trip = \<lparr>trip_Basic = b, trip_Extended = e\<rparr> in
      case verify trip of
        Ok _ \<Rightarrow> onErr (pairTrips verify (Suc i) basic extended) (\<lambda>e. e) (\<lambda>trips. Ok (trip # trips))
      | Fail err \<Rightarrow> Panic (PStr ''mock data error: trip basic/extended at index '' # PInt (int i) # PStr '' are invalid: '' # Error err)
      | Panic t \<Rightarrow> Panic t)"

definition VerifyAndGetTrips :: "tripBasic option list \<Rightarrow> tripExtended option list \<Rightarrow> TripV4 list res" where
  "VerifyAndGetTrips basic extended =
     (if length basic \<noteq> length extended
      then Panic [PStr ''mock data error: number of transport v4 basic trips ('', PInt (int (length basic)),
             PStr '') does not match number of extended trips ('', PInt (int (length extended)), PStr '')'']
      else pairTrips VerifyV4 0 basic extended)"

definition VerifyAndGetTripsV5 :: "tripBasic option list \<Rightarrow> tripExtended option list \<Rightarrow> TripV5 list res" where
  "VerifyAndGetTripsV5 basic extended =
     (if length basic \<noteq> length extended
      then Panic [PStr ''mock data error: number of transport v5 basic trips ('', PInt (int (length basic)),
             PStr '') does not match number of extended trips ('', PInt (int (length extended)), PStr '')'']
      else pairTrips VerifyV5 0 basic extended)"

definition CloneV4 :: "TripV4 list \<Rightarrow> TripV4 list" where "CloneV4 trips = map (\<lambda>t. t) trips"
definition BasicV4 :: "TripV4 list \<Rightarrow> tripBasic option list" where "BasicV4 trips = map trip_Basic trips"
definition ExtendedV4 :: "TripV4 list \<Rightarrow> tripExtended option list" where "ExtendedV4 trips = map trip_Extended trips"
definition CloneV5 :: "TripV5 list \<Rightarrow> TripV5 list" where "CloneV5 trips = map (\<lambda>t. t) trips"
definition BasicV5 :: "TripV5 list \<Rightarrow> tripBasic option list" where "BasicV5 trips = map trip_Basic trips"
definition ExtendedV5 :: "TripV5 list \<Rightarrow> tripExtended option list" where "ExtendedV5 trips = map trip_Extended trips"

section \<open>Queries\<close>

record queryEvent =
  qe_Date :: "uint32 date option"
  qe_LocationCodes :: "bytes list option"

record searchParametersTransport =
  qp_Codes :: "bytes list"
  qp_MaxSegments :: uint32

record queryTrip =
  qt_Departure :: "queryEvent option"
  qt_Arrival :: "queryEvent option"
  qt_SearchParametersTransport :: "searchParametersTransport option"

record transportQuery =
  tq_QueryId :: uint32
  tq_Trips :: "queryTrip option list"
  tq_Travellers :: "uint32 traveller list"

section \<open>Filters of versions 4 and 5\<close>

definition filterTripsBasicByModifiedAfterV4 :: "tripBasic list \<Rightarrow> time \<Rightarrow> tripBasic list" where
  "filterTripsBasicByModifiedAfterV4 trips lastModified = filter (\<lambda>trip. \<not> AsTime (tbas_LastModified trip) < lastModified) trips"

definition filterTripsBySupplierCodesV4 :: "TripV4 list \<Rightarrow> bytes list \<Rightarrow> TripV4 list res" where
  "filterTripsBySupplierCodesV4 trips supplierCodes =
     (if length supplierCodes = 0 then Ok (CloneV4 trips)
      else filterRes (\<lambda>trip. onPtr (trip_Basic trip) (\<lambda>basic. Ok (list_ex (\<lambda>code. tbas_SupplierCode basic = Some code) supplierCodes))) trips)"

definition filterTripsByMaxSegmentsV4 :: "TripV4 list \<Rightarrow> uint32 \<Rightarrow> TripV4 list res" where
  "filterTripsByMaxSegmentsV4 trips maxSegments =
     (if maxSegments = 0 then Ok (CloneV4 trips)
      else filterRes (\<lambda>trip. onPtr (trip_Basic trip) (\<lambda>basic. Ok (int (length (tbas_Segments basic)) \<le> uint maxSegments))) trips)"

text \<open>Whether a trip leaves on the day of its first departure and ends on the day of its last arrival that the query
  asks for; the second day is only read if the first fits.\<close>

definition tripOnDates :: "basicSegment list \<Rightarrow> queryTrip \<Rightarrow> bool res" where
  "tripOnDates segments query =
     onPtr (bs_Departure (hd segments)) (\<lambda>departure. onPtr (bs_Arrival (last segments)) (\<lambda>arrival.
     onPtr (qt_Departure query) (\<lambda>queryDeparture.
       if Some (TimeToDateV4 (AsTime (te_DateTime departure))) = qe_Date queryDeparture
       then onPtr (qt_Arrival query) (\<lambda>queryArrival. Ok (Some (TimeToDateV4 (AsTime (te_DateTime arrival))) = qe_Date queryArrival))
       else Ok False)))"

definition filterTripsByDatesV4 :: "TripV4 list \<Rightarrow> queryTrip \<Rightarrow> TripV4 list res" where
  "filterTripsByDatesV4 trips query = filterRes (\<lambda>trip. onPtr (trip_Basic trip) (\<lambda>basic.
     if tbas_Segments basic = [] then Panic indexOutOfRange else tripOnDates (tbas_Segments basic) query)) trips"

definition tripAtLocations :: "basicSegment list \<Rightarrow> bytes list option \<Rightarrow> bytes list option \<Rightarrow> bool res" where
  "tripAtLocations segments departureCodes arrivalCodes =
     onPtr (bs_Departure (hd segments)) (\<lambda>departure. onPtr departureCodes (\<lambda>codes.
       if \<not> list_ex (\<lambda>code. Some code = te_LocationCode departure) codes then Ok False
       else onPtr (bs_Arrival (last segments)) (\<lambda>arrival. onPtr arrivalCodes (\<lambda>codes.
         Ok (list_ex (\<lambda>code. Some code = te_LocationCode arrival) codes)))))"

definition filterTripsByLocationsV4 :: "TripV4 list \<Rightarrow> queryTrip \<Rightarrow> TripV4 list res" where
  "filterTripsByLocationsV4 trips query =
     onPtr (qt_Departure query) (\<lambda>queryDeparture. onPtr (qt_Arrival query) (\<lambda>queryArrival.
       filterRes (\<lambda>trip. onPtr (trip_Basic trip) (\<lambda>basic.
         if tbas_Segments basic = [] then Panic indexOutOfRange
         else tripAtLocations (tbas_Segments basic) (qe_LocationCodes queryDeparture) (qe_LocationCodes queryArrival))) trips))"

definition filterTripsByCurrencyV4 :: "TripV4 list \<Rightarrow> currencyV4 option option \<Rightarrow> TripV4 list res" where
  "filterTripsByCurrencyV4 trips currency =
     filterRes (\<lambda>trip. onPtr (trip_Extended trip) (\<lambda>extended. onPtr (tx_Price extended) (\<lambda>price. Ok (mp_Currency price = currency)))) trips"

definition filterTripsBasicByModifiedAfterV5 :: "tripBasic list \<Rightarrow> time \<Rightarrow> tripBasic list" where
  "filterTripsBasicByModifiedAfterV5 trips lastModified = filter (\<lambda>trip. \<not> AsTime (tbas_LastModified trip) < lastModified) trips"

definition filterTripsBySupplierCodesV5 :: "TripV5 list \<Rightarrow> bytes list \<Rightarrow> TripV5 list res" where
  "filterTripsBySupplierCodesV5 trips supplierCodes =
     (if length supplierCodes = 0 then Ok (CloneV5 trips)
      else filterRes (\<lambda>trip. onPtr (trip_Basic trip) (\<lambda>basic. Ok (list_ex (\<lambda>code. tbas_SupplierCode basic = Some code) supplierCodes))) trips)"

definition filterTripsByMaxSegmentsV5 :: "TripV5 list \<Rightarrow> uint32 \<Rightarrow> TripV5 list res" where
  "filterTripsByMaxSegmentsV5 trips maxSegments =
     (if maxSegments = 0 then Ok (CloneV5 trips)
      else filterRes (\<lambda>trip. onPtr (trip_Basic trip) (\<lambda>basic. Ok (int (length (tbas_Segments basic)) \<le> uint maxSegments))) trips)"

definition filterTripsByDatesV5 :: "TripV5 list \<Rightarrow> queryTrip \<Rightarrow> TripV5 list res" where
  "filterTripsByDatesV5 trips query = filterRes (\<lambda>trip. onPtr (trip_Basic trip) (\<lambda>basic.
     if length (tbas_Segments basic) = 0 then Ok False else tripOnDates (tbas_Segments basic) query)) trips"

definition filterTripsByLocationsV5 :: "TripV5 list \<Rightarrow> queryTrip \<Rightarrow> TripV5 list res" where
  "filterTripsByLocationsV5 trips query =
     onPtr (qt_Departure query) (\<lambda>queryDeparture. onPtr (qt_Arrival query) (\<lambda>queryArrival.
       filterRes (\<lambda>trip. onPtr (trip_Basic trip) (\<lambda>basic.
         if length (tbas_Segments basic) = 0 then Ok False
         else tripAtLocations (tbas_Segments basic) (qe_LocationCodes queryDeparture) (qe_LocationCodes queryArrival))) trips))"

definition filterTripsByCurrencyV5 :: "TripV5 list \<Rightarrow> currencyV4 option option \<Rightarrow> TripV5 list res" where
  "filterTripsByCurrencyV5 trips currency =
     (if currency = None then Ok (CloneV5 trips)
      else filterRes (\<lambda>trip. onPtr (trip_Extended trip) (\<lambda>extended. onPtr (tx_Price extended) (\<lambda>price. Ok (mp_Currency price = currency)))) trips)"

section \<open>Search in versions 4 and 5\<close>

record transportSearchRequest =
  tsr_Queries :: "transportQuery list"
  tsr_Currency :: "currencyV4 option option"

record transportResult =
  tr_ResultId :: uint32
  tr_QueryId :: uint32
  tr_TravellerIds :: "uint32 list"
  tr_TravellingTrips :: "tripExtended option list"
  tr_TotalPrice :: mockPriceV4

record transportSearchSuccess =
  tss_Header :: mockHeaderV4
  tss_SearchId :: expiringUUID
  tss_Results :: "transportResult list"

type_synonym transportSearchResponse = "transportSearchSuccess mockResponse"

definition errSearchRespV4 :: "mockErrorCode \<Rightarrow> string \<Rightarrow> transportSearchResponse" where
  "errSearchRespV4 code message = MockError (ErrorHeaderV4 code [PStr message])"

definition errSearchRespV5 :: "mockErrorCode \<Rightarrow> string \<Rightarrow> transportSearchResponse" where
  "errSearchRespV5 code message = MockError (ErrorHeaderV4 code [PStr message])"

definition sameTravellersV4 :: "'a list list \<Rightarrow> bool" where
  "sameTravellersV4 travellers =
     list_all (\<lambda>i. list_all (\<lambda>j. ProtoSlicesEqual (travellers ! i) (travellers ! j)) [Suc i..<length travellers]) [0..<length travellers]"

fun badDatesV4 :: "queryTrip option list \<Rightarrow> bool res" where
  "badDatesV4 [] = Ok False"
| "badDatesV4 (queryTrip # queryTrips) =
     onPtr queryTrip (\<lambda>trip. onPtr (qt_Departure trip) (\<lambda>departure. onPtr (qt_Arrival trip) (\<lambda>arrival.
       if \<not> AreTravelDatesValidV4 (qe_Date departure) (qe_Date arrival) then Ok True else badDatesV4 queryTrips)))"

fun badQueryV4 :: "uint32 list \<Rightarrow> transportQuery list \<Rightarrow> string option res" where
  "badQueryV4 uniqueQueryIDs [] = Ok None"
| "badQueryV4 uniqueQueryIDs (query # queries) =
     (if tq_QueryId query \<in> set uniqueQueryIDs then Ok (Some ''Unsupported: Duplicate QueryId found in queries'')
      else onErr (badDatesV4 (tq_Trips query)) (\<lambda>e. e) (\<lambda>bad.
        if bad then Ok (Some ''Invalid travel dates: departure must be before arrival'')
        else badQueryV4 (tq_QueryId query # uniqueQueryIDs) queries))"

text \<open>The decimals of the two currencies the search supports.\<close>

definition currencyDecimalsV4 :: "currencyV4 option \<Rightarrow> int32 option" where
  "currencyDecimalsV4 c = (case c of Some NativeTokenV4 \<Rightarrow> Some NativeTokenDecimals | Some (IsoCurrencyV4 _) \<Rightarrow> Some ISODecimals | _ \<Rightarrow> None)"

text \<open>The filters of a query, one trip of the query after the other.\<close>

fun queryTripsV4 :: "TripV4 list \<Rightarrow> queryTrip option list \<Rightarrow> TripV4 list res" where
  "queryTripsV4 filteredTrips [] = Ok filteredTrips"
| "queryTripsV4 filteredTrips (queryTrip # queryTrips) =
     onPtr queryTrip (\<lambda>trip.
     onErr (filterTripsByDatesV4 filteredTrips trip) (\<lambda>e. e) (\<lambda>filteredTrips.
     onErr (filterTripsByLocationsV4 filteredTrips trip) (\<lambda>e. e) (\<lambda>filteredTrips.
     case qt_SearchParametersTransport trip of
       None \<Rightarrow> queryTripsV4 filteredTrips queryTrips
     | Some params \<Rightarrow>
         onErr (filterTripsBySupplierCodesV4 filteredTrips (qp_Codes params)) (\<lambda>e. e) (\<lambda>filteredTrips.
         onErr (filterTripsByMaxSegmentsV4 filteredTrips (qp_MaxSegments params)) (\<lambda>e. e) (\<lambda>filteredTrips.
           queryTripsV4 filteredTrips queryTrips)))))"

fun queryTripsV5 :: "TripV5 list \<Rightarrow> queryTrip option list \<Rightarrow> TripV5 list res" where
  "queryTripsV5 filteredTrips [] = Ok filteredTrips"
| "queryTripsV5 filteredTrips (queryTrip # queryTrips) =
     onPtr queryTrip (\<lambda>trip.
     onErr (filterTripsByDatesV5 filteredTrips trip) (\<lambda>e. e) (\<lambda>filteredTrips.
     onErr (filterTripsByLocationsV5 filteredTrips trip) (\<lambda>e. e) (\<lambda>filteredTrips.
     case qt_SearchParametersTransport trip of
       None \<Rightarrow> queryTripsV5 filteredTrips queryTrips
     | Some params \<Rightarrow>
         onErr (filterTripsBySupplierCodesV5 filteredTrips (qp_Codes params)) (\<lambda>e. e) (\<lambda>filteredTrips.
         onErr (filterTripsByMaxSegmentsV5 filteredTrips (qp_MaxSegments params)) (\<lambda>e. e) (\<lambda>filteredTrips.
           queryTripsV5 filteredTrips queryTrips)))))"

text \<open>The total of the prices of the trips. An error is one of \<open>ToBigInt\<close>.\<close>

fun totalPriceV4 :: "int32 \<Rightarrow> int \<Rightarrow> TripV4 list \<Rightarrow> int res" where
  "totalPriceV4 decimals totalPriceBig [] = Ok totalPriceBig"
| "totalPriceV4 decimals totalPriceBig (trip # trips) =
     onPtr (trip_Extended trip) (\<lambda>extended. onPtr (tx_Price extended) (\<lambda>price.
     onErr (MustUInt32ToInt32 (mp_Decimals price)) (\<lambda>e. e) (\<lambda>priceDecimals.
     onErr (ToBigInt (mp_Value price) priceDecimals decimals) (\<lambda>e. e) (\<lambda>tripPriceBig.
       totalPriceV4 decimals (totalPriceBig + tripPriceBig) trips))))"

definition tripsResultV4 ::
  "pricing \<Rightarrow> currencyV4 option \<Rightarrow> int32 \<Rightarrow> uint32 \<Rightarrow> transportQuery \<Rightarrow> TripV4 list \<Rightarrow> int \<Rightarrow> (transportResult \<times> UnifiedPrice) res" where
  "tripsResultV4 cfg currency decimals resultID query trips totalPriceBig =
     onErr (MustInt32ToUInt32 decimals) (\<lambda>e. e) (\<lambda>priceDecimals.
     let searchPrice = \<lparr>mp_Value = show_int totalPriceBig, mp_Decimals = priceDecimals, mp_Currency = Some currency\<rparr> in
     onErr (shownPrice cfg PriceV4ToUnifiedPrice (\<lambda>u. Ok (ToPriceV4 u)) searchPrice) (\<lambda>e. e) (\<lambda>(shown, validationPrice).
       Ok (\<lparr>tr_ResultId = resultID, tr_QueryId = tq_QueryId query, tr_TravellerIds = GetTravellerIDsV4 (tq_Travellers query),
            tr_TravellingTrips = ExtendedV4 trips, tr_TotalPrice = shown\<rparr>, validationPrice)))"

definition tripsResultV5 ::
  "pricing \<Rightarrow> currencyV4 option \<Rightarrow> int32 \<Rightarrow> uint32 \<Rightarrow> transportQuery \<Rightarrow> TripV5 list \<Rightarrow> int \<Rightarrow> (transportResult \<times> UnifiedPrice) res" where
  "tripsResultV5 cfg currency decimals resultID query trips totalPriceBig =
     onErr (MustInt32ToUInt32 decimals) (\<lambda>e. e) (\<lambda>priceDecimals.
     let searchPrice = \<lparr>mp_Value = show_int totalPriceBig, mp_Decimals = priceDecimals, mp_Currency = Some currency\<rparr> in
     onErr (shownPrice cfg PriceV5ToUnifiedPrice (\<lambda>u. Ok (ToPriceV5 u)) searchPrice) (\<lambda>e. e) (\<lambda>(shown, validationPrice).
       Ok (\<lparr>tr_ResultId = resultID, tr_QueryId = tq_QueryId query, tr_TravellerIds = GetTravellerIDsV4 (tq_Travellers query),
            tr_TravellingTrips = ExtendedV5 trips, tr_TotalPrice = shown\<rparr>, validationPrice)))"

text \<open>The loop over the queries, shared by the versions: \<open>Inl\<close> the results, \<open>Inr\<close> the error of the amount that
  ends the search with an error response. A query without trips is skipped and uses no number.\<close>

fun queryResults ::
  "('q \<Rightarrow> 't list res) \<Rightarrow> ('t list \<Rightarrow> int res) \<Rightarrow> (32 word \<Rightarrow> 'q \<Rightarrow> 't list \<Rightarrow> int \<Rightarrow> ('a \<times> UnifiedPrice) res) \<Rightarrow>
     32 word \<Rightarrow> 'q list \<Rightarrow> (('a \<times> UnifiedPrice) list + err) res" where
  "queryResults trips amountOf result resultID [] = Ok (Inl [])"
| "queryResults trips amountOf result resultID (query # queries) =
     onErr (trips query) (\<lambda>e. e) (\<lambda>filteredTrips.
       if length filteredTrips = 0 then queryResults trips amountOf result resultID queries
       else case amountOf filteredTrips of
         Fail e \<Rightarrow> Ok (Inr e)
       | Panic t \<Rightarrow> Panic t
       | Ok amount \<Rightarrow>
           onErr (result resultID query filteredTrips amount) (\<lambda>e. e) (\<lambda>r.
           onErr (queryResults trips amountOf result (resultID + 1) queries) (\<lambda>e. e) (\<lambda>rest.
             Ok (case rest of Inl rs \<Rightarrow> Inl (r # rs) | Inr e \<Rightarrow> Inr e))))"

text \<open>The seat map of the first segment of the first trip of the first result.\<close>

definition seatMapID :: "transportResult list \<Rightarrow> string res" where
  "seatMapID results =
     (case tr_TravellingTrips (hd results) of
        [] \<Rightarrow> Panic indexOutOfRange
      | trip # _ \<Rightarrow> onPtr trip (\<lambda>extended. case tx_Segments extended of
            [] \<Rightarrow> Panic indexOutOfRange
          | segment # _ \<Rightarrow> Ok (case es_SeatMapId segment of None \<Rightarrow> [] | Some i \<Rightarrow> i)))"

definition transportAnswer ::
  "string \<Rightarrow> time \<Rightarrow> time \<Rightarrow> transportQuery list \<Rightarrow> (transportResult \<times> UnifiedPrice) list \<Rightarrow> (Store, transportSearchResponse) act" where
  "transportAnswer uuid now later queries results = (\<lambda>s.
     let searchResults = map fst results;
         resp = \<lparr>tss_Header = SuccessHeaderV4, tss_SearchId = NewExpiringUUIDWithTime uuid now, tss_Results = searchResults\<rparr>
     in if length searchResults = 0
        then (Ok (MockSuccess (resp\<lparr>tss_Header := AddHeaderAlertV4 (tss_Header resp) NO_CONTENT [PStr ''No results found'']\<rparr>)), s)
        else case seatMapID searchResults of
          Ok seatMap \<Rightarrow> (Ok (MockSuccess resp),
              AddSearchResult later uuid \<lparr>sd_NumResults = int (length searchResults), sd_NumTravelers = int (length (tq_Travellers (hd queries))),
                sd_SeatMapID = seatMap, sd_Prices = map snd results\<rparr> s)
        | Fail e \<Rightarrow> (Fail e, s)
        | Panic t \<Rightarrow> (Panic t, s))"

definition TransportSearchV4 ::
  "TripV4 list \<Rightarrow> pricing \<Rightarrow> string \<Rightarrow> time \<Rightarrow> time \<Rightarrow> transportSearchRequest \<Rightarrow> (Store, transportSearchResponse) act" where
  "TransportSearchV4 tripsV4 cfg uuid now later req =
     (if \<not> sameTravellersV4 (map tq_Travellers (tsr_Queries req))
      then aRet (errSearchRespV4 UNIMPLEMENTED ''Unsupported: Traveller definitions must be identical in all queries'')
      else aBind (aLift (badQueryV4 [] (tsr_Queries req))) (\<lambda>e. e) (\<lambda>bad.
      case bad of
        Some message \<Rightarrow> aRet (errSearchRespV4 BUSINESS_PROCESS_ERROR message)
      | None \<Rightarrow>
          case tsr_Currency req of
            None \<Rightarrow> aLift (Panic nilDereference)
          | Some currency \<Rightarrow>
              case currencyDecimalsV4 currency of
                None \<Rightarrow> aRet (errSearchRespV4 INVALID_CURRENCY ''Not supported currency type; only NativeToken and ISOCurrency are supported'')
              | Some currencyDecimals \<Rightarrow>
                  aBind (aLift (filterTripsByCurrencyV4 tripsV4 (tsr_Currency req))) (\<lambda>e. e) (\<lambda>tripsFilteredByCurrency.
                  aBind (aLift (queryResults (\<lambda>query. queryTripsV4 tripsFilteredByCurrency (tq_Trips query)) (totalPriceV4 currencyDecimals 0)
                    (tripsResultV4 cfg currency currencyDecimals) 0 (tsr_Queries req))) (\<lambda>e. e) (\<lambda>results.
                  case results of
                    Inr _ \<Rightarrow> aRet (errSearchRespV4 INTERNAL ''Failed to convert tripSegment price to big int'')
                  | Inl results \<Rightarrow> transportAnswer uuid now later (tsr_Queries req) results))))"

definition TransportSearchV5 ::
  "TripV5 list \<Rightarrow> pricing \<Rightarrow> string \<Rightarrow> time \<Rightarrow> time \<Rightarrow> transportSearchRequest \<Rightarrow> (Store, transportSearchResponse) act" where
  "TransportSearchV5 tripsV5 cfg uuid now later req =
     (case tsr_Currency req of
        None \<Rightarrow> aRet (errSearchRespV5 BUSINESS_PROCESS_ERROR ''search_parameters.currency is required'')
      | Some currency \<Rightarrow>
          if \<not> sameTravellersV4 (map tq_Travellers (tsr_Queries req))
          then aRet (errSearchRespV5 UNIMPLEMENTED ''Unsupported: Traveller definitions must be identical in all queries'')
          else aBind (aLift (badQueryV4 [] (tsr_Queries req))) (\<lambda>e. e) (\<lambda>bad.
          case bad of
            Some message \<Rightarrow> aRet (errSearchRespV5 BUSINESS_PROCESS_ERROR message)
          | None \<Rightarrow>
              case currencyDecimalsV4 currency of
                None \<Rightarrow> aRet (errSearchRespV5 INVALID_CURRENCY ''Not supported currency type; only NativeToken and ISOCurrency are supported'')
              | Some currencyDecimals \<Rightarrow>
                  aBind (aLift (filterTripsByCurrencyV5 tripsV5 (tsr_Currency req))) (\<lambda>e. e) (\<lambda>tripsFilteredByCurrency.
                  aBind (aLift (queryResults (\<lambda>query. queryTripsV5 tripsFilteredByCurrency (tq_Trips query)) (totalPriceV4 currencyDecimals 0)
                    (tripsResultV5 cfg currency currencyDecimals) 0 (tsr_Queries req))) (\<lambda>e. e) (\<lambda>results.
                  case results of
                    Inr _ \<Rightarrow> aRet (errSearchRespV5 INTERNAL ''Failed to convert tripSegment price to big int'')
                  | Inl results \<Rightarrow> transportAnswer uuid now later (tsr_Queries req) results))))"

definition TransportProductListV4 :: "tripBasic list \<Rightarrow> time option \<Rightarrow> (mockHeaderV4 \<times> tripBasic list) mockResponse" where
  "TransportProductListV4 tripsBasicV4 modifiedAfter =
     listAnswerV4 ''No trips found that match request'' (filterTripsBasicByModifiedAfterV4 tripsBasicV4 (AsTime modifiedAfter))"

definition TransportProductListV5 :: "tripBasic list \<Rightarrow> time option \<Rightarrow> (mockHeaderV4 \<times> tripBasic list) mockResponse" where
  "TransportProductListV5 tripsBasicV5 modifiedAfter =
     listAnswerV4 ''No trips found''
       (case modifiedAfter of None \<Rightarrow> tripsBasicV5 | Some t \<Rightarrow> filterTripsBasicByModifiedAfterV5 tripsBasicV5 t)"

section \<open>Version 3\<close>

record segmentInfoV3 =
  si_Departure :: "transitEvent option"
  si_Arrival :: "transitEvent option"
  si_ProductCode :: "bytes option"

record segmentV3 =
  sg_Info :: "segmentInfoV3 option"
  sg_Rest :: bytes

record tripExtendedV3 =
  tx3_Price :: "mockPriceV3 option"
  tx3_Segments :: "segmentV3 list"
  tx3_Rest :: bytes

record tripBasicV3 =
  tb3_LastModified :: "time option"
  tb3_Rest :: bytes

definition filterTripsByProductCodesV3 :: "tripExtendedV3 list \<Rightarrow> bytes list \<Rightarrow> tripExtendedV3 list" where
  "filterTripsByProductCodesV3 trips productCodes =
     (if length productCodes = 0 then trips
      else filter (\<lambda>trip. list_ex (\<lambda>segment. list_ex (\<lambda>code. Option.bind (sg_Info segment) si_ProductCode = Some code) productCodes) (tx3_Segments trip)) trips)"

definition filterTripsByMaxSegmentsV3 :: "tripExtendedV3 list \<Rightarrow> int32 \<Rightarrow> tripExtendedV3 list" where
  "filterTripsByMaxSegmentsV3 trips maxSegments = filter (\<lambda>trip. int (length (tx3_Segments trip)) \<le> sint maxSegments) trips"

definition filterTripsByLastModifiedV3 :: "tripBasicV3 list \<Rightarrow> time \<Rightarrow> tripBasicV3 list" where
  "filterTripsByLastModifiedV3 trips lastModified = filter (\<lambda>trip. \<not> AsTime (tb3_LastModified trip) < lastModified) trips"

text \<open>The day of an event, from the seconds of its time stamp.\<close>

definition eventDate :: "transitEvent \<Rightarrow> time res" where
  "eventDate event = onPtr (te_DateTime event) (\<lambda>t. Ok (Truncate_day (unixTime (Unix t))))"

definition filterTripsByDatesV3 :: "tripExtendedV3 list \<Rightarrow> queryTrip \<Rightarrow> tripExtendedV3 list res" where
  "filterTripsByDatesV3 trips query =
     onPtr (qt_Departure query) (\<lambda>queryDeparture.
     let queryDepartureDate = DateV1ToTime (qe_Date queryDeparture) in
     filterRes (\<lambda>trip.
       if length (tx3_Segments trip) = 0 then Ok False
       else onPtr (sg_Info (hd (tx3_Segments trip))) (\<lambda>firstInfo. onPtr (si_Departure firstInfo) (\<lambda>departure.
         onErr (eventDate departure) (\<lambda>e. e) (\<lambda>firstSegmentDepartureDate.
         case Option.bind (qt_Arrival query) qe_Date of
           Some date \<Rightarrow>
             onPtr (sg_Info (last (tx3_Segments trip))) (\<lambda>lastInfo. onPtr (si_Arrival lastInfo) (\<lambda>arrival.
             onErr (eventDate arrival) (\<lambda>e. e) (\<lambda>lastSegmentArrivalDate.
               Ok (firstSegmentDepartureDate = queryDepartureDate \<and> lastSegmentArrivalDate = DateV1ToTime (Some date)))))
         | None \<Rightarrow> Ok (firstSegmentDepartureDate = queryDepartureDate))))) trips)"

definition filterTripsByLocationsV3 :: "tripExtendedV3 list \<Rightarrow> queryTrip \<Rightarrow> tripExtendedV3 list res" where
  "filterTripsByLocationsV3 trips query =
     filterRes (\<lambda>trip.
       if length (tx3_Segments trip) = 0 then Ok False
       else onPtr (sg_Info (hd (tx3_Segments trip))) (\<lambda>firstInfo. onPtr (si_Departure firstInfo) (\<lambda>departure.
         if te_LocationCode departure = None then Ok False
         else onPtr (qt_Departure query) (\<lambda>queryDeparture. onPtr (qe_LocationCodes queryDeparture) (\<lambda>codes.
           if \<not> list_ex (\<lambda>code. Some code = te_LocationCode departure) codes then Ok False
           else case Option.bind (qt_Arrival query) qe_LocationCodes of
             None \<Rightarrow> Ok True
           | Some codes \<Rightarrow>
               onPtr (sg_Info (last (tx3_Segments trip))) (\<lambda>lastInfo. onPtr (si_Arrival lastInfo) (\<lambda>arrival.
                 if te_LocationCode arrival = None then Ok False
                 else Ok (list_ex (\<lambda>code. Some code = te_LocationCode arrival) codes)))))))) trips"

definition filterTripsByCurrencyV3 :: "tripExtendedV3 list \<Rightarrow> currencyV3 option option \<Rightarrow> tripExtendedV3 list res" where
  "filterTripsByCurrencyV3 trips currency =
     filterRes (\<lambda>trip. onPtr (tx3_Price trip) (\<lambda>price. Ok (mp3_Currency price = currency))) trips"

record transportSearchRequestV3 =
  tsr3_Queries :: "transportQuery list"
  tsr3_Currency :: "currencyV3 option option"

record transportResultV3 =
  tr3_ResultId :: int32
  tr3_QueryId :: int32
  tr3_TravellerIds :: "int32 list"
  tr3_TravellingTrips :: "tripExtendedV3 list"
  tr3_TotalPrice :: mockPriceV3

record transportSearchResponseV3 =
  tss3_Header :: mockHeaderV1
  tss3_Results :: "transportResultV3 list"
  tss3_SearchId :: "string option"

definition headerOnlyV3 :: "mockHeaderV1 \<Rightarrow> transportSearchResponseV3" where
  "headerOnlyV3 header = \<lparr>tss3_Header = header, tss3_Results = [], tss3_SearchId = None\<rparr>"

text \<open>The first trip of a query that is not supported, with the message.\<close>

fun badTripV3 :: "nat \<Rightarrow> nat \<Rightarrow> queryTrip option list \<Rightarrow> msgtext option" where
  "badTripV3 queryIndex queryTripIndex [] = None"
| "badTripV3 queryIndex queryTripIndex (queryTrip # queryTrips) =
     (case queryTrip of
        None \<Rightarrow> Some [PStr ''Invalid query['', PInt (int queryIndex), PStr ''].QueryTrips['', PInt (int queryTripIndex), PStr '']: can'', PStr (CHR 0x27 # ''t be nil'')]
      | Some trip \<Rightarrow>
          (case (qt_Departure trip, qt_Arrival trip) of
             (Some departure, Some arrival) \<Rightarrow>
               if qe_Date departure = None then Some [PStr ''Invalid trip filter: departure date must be provided'']
               else if qe_LocationCodes departure = None \<or> qe_LocationCodes arrival = None
               then Some [PStr ''Unsupported trip filter: departure and arrival must provide location codes'']
               else if qe_Date arrival \<noteq> None \<and> \<not> AreTravelDatesValidV1 (qe_Date departure) (qe_Date arrival)
               then Some [PStr ''Invalid travel dates: departure must be before arrival'']
               else badTripV3 queryIndex (Suc queryTripIndex) queryTrips
           | _ \<Rightarrow> Some [PStr ''Invalid trip filter: departure and arrival must be provided'']))"

fun badQueryV3 :: "nat \<Rightarrow> transportQuery list \<Rightarrow> msgtext option" where
  "badQueryV3 queryIndex [] = None"
| "badQueryV3 queryIndex (query # queries) =
     (case badTripV3 queryIndex 0 (tq_Trips query) of Some message \<Rightarrow> Some message | None \<Rightarrow> badQueryV3 (Suc queryIndex) queries)"

definition currencyDecimalsV3 :: "currencyV3 option \<Rightarrow> int32 option" where
  "currencyDecimalsV3 c = (case c of Some NativeTokenV3 \<Rightarrow> Some NativeTokenDecimals | Some (IsoCurrencyV3 _) \<Rightarrow> Some ISODecimals | _ \<Rightarrow> None)"

fun queryTripsV3 :: "tripExtendedV3 list \<Rightarrow> queryTrip option list \<Rightarrow> tripExtendedV3 list res" where
  "queryTripsV3 filteredTrips [] = Ok filteredTrips"
| "queryTripsV3 filteredTrips (queryTrip # queryTrips) =
     onPtr queryTrip (\<lambda>trip.
     onErr (filterTripsByDatesV3 filteredTrips trip) (\<lambda>e. e) (\<lambda>filteredTrips.
     onErr (filterTripsByLocationsV3 filteredTrips trip) (\<lambda>e. e) (\<lambda>filteredTrips.
     case qt_SearchParametersTransport trip of
       None \<Rightarrow> queryTripsV3 filteredTrips queryTrips
     | Some params \<Rightarrow>
         let filteredTrips = filterTripsByProductCodesV3 filteredTrips (qp_Codes params);
             filteredTrips = (if qp_MaxSegments params \<noteq> 0 then filterTripsByMaxSegmentsV3 filteredTrips (qp_MaxSegments params) else filteredTrips)
         in queryTripsV3 filteredTrips queryTrips)))"

fun totalPriceV3 :: "int32 \<Rightarrow> int \<Rightarrow> tripExtendedV3 list \<Rightarrow> int res" where
  "totalPriceV3 decimals totalPrice [] = Ok totalPrice"
| "totalPriceV3 decimals totalPrice (trip # trips) =
     onPtr (tx3_Price trip) (\<lambda>price.
     onErr (ToBigInt (mp3_Value price) (mp3_Decimals price) decimals) (\<lambda>e. e) (\<lambda>priceBig.
       totalPriceV3 decimals (totalPrice + priceBig) trips))"

definition tripsResultV3 ::
  "pricing \<Rightarrow> currencyV3 option \<Rightarrow> int32 \<Rightarrow> int32 \<Rightarrow> transportQuery \<Rightarrow> tripExtendedV3 list \<Rightarrow> int \<Rightarrow> (transportResultV3 \<times> UnifiedPrice) res" where
  "tripsResultV3 cfg currency decimals resultIDnum query trips totalPrice =
     (let searchPrice = \<lparr>mp3_Value = show_int totalPrice, mp3_Decimals = decimals, mp3_Currency = Some currency\<rparr> in
      onErr (shownPrice cfg PriceV3ToUnifiedPrice ToPriceV3 searchPrice) (\<lambda>e. e) (\<lambda>(shown, validationPrice).
        Ok (\<lparr>tr3_ResultId = resultIDnum, tr3_QueryId = tq_QueryId query, tr3_TravellerIds = GetTravellerIDsV3 (tq_Travellers query),
             tr3_TravellingTrips = trips, tr3_TotalPrice = shown\<rparr>, validationPrice)))"

definition TransportSearchV3 ::
  "tripExtendedV3 list \<Rightarrow> pricing \<Rightarrow> string \<Rightarrow> time \<Rightarrow> transportSearchRequestV3 \<Rightarrow> (Store, transportSearchResponseV3) act" where
  "TransportSearchV3 tripsExtendedV3 cfg uuid later req =
     (if length (tsr3_Queries req) = 0 then aRet (headerOnlyV3 (ErrorHeaderV1 [PStr ''No queries provided'']))
      else case tsr3_Currency req of
        None \<Rightarrow> aRet (headerOnlyV3 (ErrorHeaderV1 [PStr ''SearchParameters.Currency is required'']))
      | Some currency \<Rightarrow>
      if \<not> sameTravellersV3 (map tq_Travellers (tsr3_Queries req))
      then aRet (headerOnlyV3 (ErrorHeaderV1 [PStr ''Unsupported: Traveller definitions must be identical in all queries'']))
      else case badQueryV3 0 (tsr3_Queries req) of
        Some message \<Rightarrow> aRet (headerOnlyV3 (ErrorHeaderV1 message))
      | None \<Rightarrow>
      case currencyDecimalsV3 currency of
        None \<Rightarrow> aRet (headerOnlyV3 (ErrorHeaderV1 [PStr ''not supported currency type; only NativeToken and IsoCurrency are supported'']))
      | Some decimals \<Rightarrow>
          aBind (aLift (filterTripsByCurrencyV3 tripsExtendedV3 (tsr3_Currency req))) (\<lambda>e. e) (\<lambda>tripsFilteredByCurrency.
          if length tripsFilteredByCurrency = 0
          then aRet (headerOnlyV3 (SuccessHeaderWithInfoV1 [PStr ''No trips found for currency '']))
          else aBind (aLift (queryResults (\<lambda>query. queryTripsV3 tripsFilteredByCurrency (tq_Trips query)) (totalPriceV3 decimals 0)
                  (tripsResultV3 cfg currency decimals) 1 (tsr3_Queries req))) (\<lambda>e. e) (\<lambda>results s.
               case results of
                 Inr e \<Rightarrow> (Ok (headerOnlyV3 (ErrorHeaderV1 (PStr ''Failed to convert tripSegment price: '' # Error e))), s)
               | Inl results \<Rightarrow>
                   let searchResults = map fst results;
                       response = \<lparr>tss3_Header = SuccessHeaderV1, tss3_Results = searchResults, tss3_SearchId = None\<rparr>
                   in if length searchResults = 0
                      then (Ok (response\<lparr>tss3_Header := SuccessHeaderV1\<lparr>mh_Alerts := [InfoAlert [PStr ''No results found for search '']]\<rparr>\<rparr>), s)
                      else (Ok (response\<lparr>tss3_SearchId := Some uuid\<rparr>),
                            AddSearchResult later uuid \<lparr>sd_NumResults = int (length searchResults),
                              sd_NumTravelers = int (length (tq_Travellers (hd (tsr3_Queries req)))), sd_SeatMapID = [], sd_Prices = map snd results\<rparr> s))))"

definition TransportProductListV3 :: "tripBasicV3 list \<Rightarrow> time option \<Rightarrow> mockHeaderV1 \<times> tripBasicV3 list" where
  "TransportProductListV3 tripsBasicV3 modifiedAfter =
     listAnswerV1 ''No trips found that match request'' (filterTripsByLastModifiedV3 tripsBasicV3 (AsTime modifiedAfter))"

section \<open>The prices shown are the prices stored\<close>

lemma prepend_Inl: "(case x of Inl rs \<Rightarrow> Inl (r # rs) | Inr e \<Rightarrow> Inr e) = Inl xs \<longleftrightarrow> (\<exists>rs. x = Inl rs \<and> xs = r # rs)"
  by (auto split: sum.splits)

text \<open>A step of the loop over the queries: the query is skipped, or it gives the first result.\<close>

lemma queryResults_step:
  assumes "queryResults trips amountOf result n (query # queries) = Ok (Inl rs)"
  obtains (skip) "trips query = Ok []" "queryResults trips amountOf result n queries = Ok (Inl rs)"
    | (keep) ts amount r rs' where "trips query = Ok ts" "ts \<noteq> []" "amountOf ts = Ok amount" "result n query ts amount = Ok r"
      "queryResults trips amountOf result (n + 1) queries = Ok (Inl rs')" "rs = r # rs'"
proof -
  obtain ts where ts: "trips query = Ok ts" using assms by (auto simp: onErr_eq_Ok_iff)
  show thesis
  proof (cases "ts = []")
    case True
    then show ?thesis using assms ts skip by simp
  next
    case False
    then show ?thesis using assms ts keep[of ts] by (cases "amountOf ts") (auto simp: onErr_eq_Ok_iff prepend_Inl)
  qed
qed

lemma queryResults_cases:
  assumes "queryResults trips amountOf result n queries = Ok (Inl rs)"
  shows "\<forall>r \<in> set rs. \<exists>k query ts amount. query \<in> set queries \<and> trips query = Ok ts \<and> ts \<noteq> [] \<and> amountOf ts = Ok amount \<and>
    result k query ts amount = Ok r"
  using assms
proof (induction queries arbitrary: n rs)
  case (Cons query queries)
  from Cons.prems show ?case
  proof (cases rule: queryResults_step)
    case skip
    then show ?thesis using Cons.IH[of n rs] by fastforce
  next
    case (keep ts amount r rs')
    then show ?thesis using Cons.IH[of "n + 1" rs'] by fastforce
  qed
qed simp

lemma numbered_Cons:
  assumes "idOf (fst r) = n" "ofU (snd r) = Ok (priceOf (fst r))" and "numbered idOf priceOf ofU (n + 1) rs"
  shows "numbered idOf priceOf ofU n (r # rs)"
  using numbered_append[of idOf priceOf ofU n "[r]" rs] assms by (simp add: numbered_def)

lemma queryResults_numbered:
  assumes "queryResults trips amountOf result n queries = Ok (Inl rs)"
    and step: "\<And>k query ts amount a u. result k query ts amount = Ok (a, u) \<Longrightarrow> idOf a = k \<and> ofU u = Ok (priceOf a)"
  shows "numbered idOf priceOf ofU n rs"
  using assms(1)
proof (induction queries arbitrary: n rs)
  case (Cons query queries)
  from Cons.prems show ?case
  proof (cases rule: queryResults_step)
    case (keep ts amount r rs')
    then show ?thesis using Cons.IH[of "n + 1" rs'] step[of n query ts amount "fst r" "snd r"] by (auto intro!: numbered_Cons)
  qed (use Cons.IH in blast)
qed simp

definition tripsFoundV4 :: "transportSearchResponse \<Rightarrow> (string \<times> (32 word \<times> mockPriceV4) list) option" where
  "tripsFoundV4 resp = (case resp of
     MockSuccess r \<Rightarrow> if tss_Results r = [] then None
       else Some (eu_Id (tss_SearchId r), shownResults tr_ResultId tr_TotalPrice (tss_Results r))
   | MockError _ \<Rightarrow> None)"

definition tripsFoundV3 :: "transportSearchResponseV3 \<Rightarrow> (string \<times> (32 word \<times> mockPriceV3) list) option" where
  "tripsFoundV3 resp = (case tss3_SearchId resp of None \<Rightarrow> None
     | Some sid \<Rightarrow> Some (sid, shownResults tr3_ResultId tr3_TotalPrice (tss3_Results resp)))"

lemma tripsResult_shown:
  "tripsResultV4 cfg c d k query ts amount = Ok (a, u) \<Longrightarrow> RealisticPriceEnabled cfg \<or> plainCurrencyV4 (Some c) \<Longrightarrow>
     tr_ResultId a = k \<and> Ok (ToPriceV4 u) = Ok (tr_TotalPrice a)"
  "tripsResultV5 cfg c d k query ts amount = Ok (a, u) \<Longrightarrow> RealisticPriceEnabled cfg \<or> plainCurrencyV4 (Some c) \<Longrightarrow>
     tr_ResultId a = k \<and> Ok (ToPriceV5 u) = Ok (tr_TotalPrice a)"
  by (auto simp: tripsResultV4_def tripsResultV5_def Let_def onErr_eq_Ok_iff plainV4_def dest!: pv4.shownPrice_stored pv5.shownPrice_stored)

lemma tripsResultV3_shown:
  "tripsResultV3 cfg c d k query ts amount = Ok (a, u) \<Longrightarrow> RealisticPriceEnabled cfg \<or> plainCurrencyV3 (Some c) \<and> 0 \<le> sint d \<Longrightarrow>
     tr3_ResultId a = k \<and> ToPriceV3 u = Ok (tr3_TotalPrice a)"
  by (auto simp: tripsResultV3_def Let_def onErr_eq_Ok_iff plainV3_def dest!: pv3.shownPrice_stored)

lemma transportAnswer_stores:
  assumes "transportAnswer uuid now later queries results s = (Ok resp, s')" and "tripsFoundV4 resp = Some (sid, shown)"
    and "numbered tr_ResultId tr_TotalPrice ofU 0 results"
  shows "\<exists>t d. s' = AddSearchResult t sid d s \<and> map ofU (sd_Prices d) = map (\<lambda>(k, p). Ok p) shown \<and>
    map fst shown = map (\<lambda>i. 0 + word_of_nat i) [0..<length shown]"
proof -
  obtain d where "s' = AddSearchResult later sid d s" "sd_Prices d = map snd results"
      "shown = shownResults tr_ResultId tr_TotalPrice (map fst results)"
    using assms(1,2) by (auto simp: transportAnswer_def tripsFoundV4_def Let_def NewExpiringUUIDWithTime_def split: if_splits res.splits)
  then show ?thesis using numbered_stores[OF assms(3)] by (intro exI[of _ later] exI[of _ d]) simp
qed

lemma TransportSearchV4_loop:
  assumes "TransportSearchV4 trips cfg uuid now later req s = (Ok resp, s')" and "tripsFoundV4 resp = Some (sid, shown)"
  shows "\<exists>c d ts results. tsr_Currency req = Some c \<and> currencyDecimalsV4 c = Some d \<and> filterTripsByCurrencyV4 trips (Some c) = Ok ts \<and>
    queryResults (\<lambda>query. queryTripsV4 ts (tq_Trips query)) (totalPriceV4 d 0) (tripsResultV4 cfg c d) 0 (tsr_Queries req) = Ok (Inl results) \<and>
    transportAnswer uuid now later (tsr_Queries req) results s = (Ok resp, s')"
  using assms by (auto simp: TransportSearchV4_def aLift_bind tripsFoundV4_def errSearchRespV4_def split: option.splits if_splits res.splits sum.splits)

lemma TransportSearchV5_loop:
  assumes "TransportSearchV5 trips cfg uuid now later req s = (Ok resp, s')" and "tripsFoundV4 resp = Some (sid, shown)"
  shows "\<exists>c d ts results. tsr_Currency req = Some c \<and> currencyDecimalsV4 c = Some d \<and> filterTripsByCurrencyV5 trips (Some c) = Ok ts \<and>
    queryResults (\<lambda>query. queryTripsV5 ts (tq_Trips query)) (totalPriceV4 d 0) (tripsResultV5 cfg c d) 0 (tsr_Queries req) = Ok (Inl results) \<and>
    transportAnswer uuid now later (tsr_Queries req) results s = (Ok resp, s')"
  using assms by (auto simp: TransportSearchV5_def aLift_bind tripsFoundV4_def errSearchRespV5_def split: option.splits if_splits res.splits sum.splits)

interpretation transport4: search_version 0 requestV4 ValidationV4 validatedV4 MintV4 mockMinted "\<lambda>u. Ok (ToPriceV4 u)"
  "\<lambda>(trips, cfg, uuid, now, later, req). TransportSearchV4 trips cfg uuid now later req" tripsFoundV4
  "\<lambda>(trips, cfg, uuid, now, later, req). RealisticPriceEnabled cfg \<or> plainCurrencyV4 (tsr_Currency req)"
proof (unfold_locales, clarify)
  fix trips cfg uuid now later req s resp s' sid shown
  assume u: "RealisticPriceEnabled cfg \<or> plainCurrencyV4 (tsr_Currency req)"
    and "TransportSearchV4 trips cfg uuid now later req s = (Ok resp, s')" and f: "tripsFoundV4 resp = Some (sid, shown)"
  then obtain c d ts results where c: "tsr_Currency req = Some c"
      and q: "queryResults (\<lambda>query. queryTripsV4 ts (tq_Trips query)) (totalPriceV4 d 0) (tripsResultV4 cfg c d) 0 (tsr_Queries req) = Ok (Inl results)"
      and a: "transportAnswer uuid now later (tsr_Queries req) results s = (Ok resp, s')"
    using TransportSearchV4_loop by blast
  have "numbered tr_ResultId tr_TotalPrice (\<lambda>u. Ok (ToPriceV4 u)) 0 results"
    using queryResults_numbered[OF q, of tr_ResultId] tripsResult_shown(1) u c by metis
  then show "\<exists>t d. s' = AddSearchResult t sid d s \<and> map (\<lambda>u. Ok (ToPriceV4 u)) (sd_Prices d) = map (\<lambda>(k, p). Ok p) shown \<and>
      map fst shown = map (\<lambda>i. 0 + word_of_nat i) [0..<length shown]"
    using transportAnswer_stores[OF a f] by blast
qed

interpretation transport5: search_version 0 requestV4 ValidationV5 validatedV4 MintV5 mockMinted "\<lambda>u. Ok (ToPriceV5 u)"
  "\<lambda>(trips, cfg, uuid, now, later, req). TransportSearchV5 trips cfg uuid now later req" tripsFoundV4
  "\<lambda>(trips, cfg, uuid, now, later, req). RealisticPriceEnabled cfg \<or> plainCurrencyV4 (tsr_Currency req)"
proof (unfold_locales, clarify)
  fix trips cfg uuid now later req s resp s' sid shown
  assume u: "RealisticPriceEnabled cfg \<or> plainCurrencyV4 (tsr_Currency req)"
    and "TransportSearchV5 trips cfg uuid now later req s = (Ok resp, s')" and f: "tripsFoundV4 resp = Some (sid, shown)"
  then obtain c d ts results where c: "tsr_Currency req = Some c"
      and q: "queryResults (\<lambda>query. queryTripsV5 ts (tq_Trips query)) (totalPriceV4 d 0) (tripsResultV5 cfg c d) 0 (tsr_Queries req) = Ok (Inl results)"
      and a: "transportAnswer uuid now later (tsr_Queries req) results s = (Ok resp, s')"
    using TransportSearchV5_loop by blast
  have "numbered tr_ResultId tr_TotalPrice (\<lambda>u. Ok (ToPriceV5 u)) 0 results"
    using queryResults_numbered[OF q, of tr_ResultId] tripsResult_shown(2) u c by metis
  then show "\<exists>t d. s' = AddSearchResult t sid d s \<and> map (\<lambda>u. Ok (ToPriceV5 u)) (sd_Prices d) = map (\<lambda>(k, p). Ok p) shown \<and>
      map fst shown = map (\<lambda>i. 0 + word_of_nat i) [0..<length shown]"
    using transportAnswer_stores[OF a f] by blast
qed

lemma currencyDecimalsV3_nonneg: "currencyDecimalsV3 c = Some d \<Longrightarrow> 0 \<le> sint d"
  by (auto simp: currencyDecimalsV3_def split: option.splits currencyV3.splits)

interpretation transport3: search_version 1 requestV3 "\<lambda>uuid now later. ValidationV3 uuid later" vres3_Price MintV3 mintedV3 ToPriceV3
  "\<lambda>(trips, cfg, uuid, later, req). TransportSearchV3 trips cfg uuid later req" tripsFoundV3
  "\<lambda>(trips, cfg, uuid, later, req). RealisticPriceEnabled cfg \<or> plainCurrencyV3 (tsr3_Currency req)"
proof (unfold_locales, clarify)
  fix trips cfg uuid later req s resp s' sid shown
  assume u: "RealisticPriceEnabled cfg \<or> plainCurrencyV3 (tsr3_Currency req)"
    and a: "TransportSearchV3 trips cfg uuid later req s = (Ok resp, s')" and f: "tripsFoundV3 resp = Some (sid, shown)"
  let ?d = "\<lambda>results. \<lparr>sd_NumResults = int (length results), sd_NumTravelers = int (length (tq_Travellers (hd (tsr3_Queries req)))),
      sd_SeatMapID = [], sd_Prices = map snd results\<rparr>"
  obtain c d ts results where c: "tsr3_Currency req = Some c" "currencyDecimalsV3 c = Some d"
      and q: "queryResults (\<lambda>query. queryTripsV3 ts (tq_Trips query)) (totalPriceV3 d 0) (tripsResultV3 cfg c d) 1 (tsr3_Queries req) = Ok (Inl results)"
      and s': "s' = AddSearchResult later sid (?d results) s"
      and sh: "shown = shownResults tr3_ResultId tr3_TotalPrice (map fst results)"
    using a f by (auto simp: TransportSearchV3_def aLift_bind tripsFoundV3_def headerOnlyV3_def Let_def
        split: option.splits if_splits res.splits sum.splits)
  have "numbered tr3_ResultId tr3_TotalPrice ToPriceV3 1 results"
    using queryResults_numbered[OF q, of tr3_ResultId] tripsResultV3_shown u c currencyDecimalsV3_nonneg by metis
  from numbered_stores[OF this] show "\<exists>t d. s' = AddSearchResult t sid d s \<and> map ToPriceV3 (sd_Prices d) = map (\<lambda>(k, p). Ok p) shown \<and>
      map fst shown = map (\<lambda>i. 1 + word_of_nat i) [0..<length shown]"
    using sh s' by (intro exI[of _ later] exI[of _ "?d results"]) simp
qed

section \<open>What a transport search finds\<close>

text \<open>The reference: a trip fits a trip of a query if it departs and arrives on the days and at one of the places asked for, is of
  one of the suppliers and has no more segments than allowed.\<close>

definition eventMatches :: "transitEvent option \<Rightarrow> queryEvent \<Rightarrow> bool" where
  "eventMatches event q = (case event of None \<Rightarrow> False | Some e \<Rightarrow>
     qe_Date q = Some (TimeToDateV4 (AsTime (te_DateTime e))) \<and>
     (case (te_LocationCode e, qe_LocationCodes q) of (Some code, Some codes) \<Rightarrow> code \<in> set codes | _ \<Rightarrow> False))"

definition paramsMatch :: "tripBasic \<Rightarrow> searchParametersTransport option \<Rightarrow> bool" where
  "paramsMatch basic params = (case params of None \<Rightarrow> True | Some p \<Rightarrow>
     (qp_Codes p = [] \<or> (\<exists>code \<in> set (qp_Codes p). tbas_SupplierCode basic = Some code)) \<and>
     (qp_MaxSegments p = 0 \<or> int (length (tbas_Segments basic)) \<le> uint (qp_MaxSegments p)))"

definition tripMatches :: "TripV4 \<Rightarrow> queryTrip option \<Rightarrow> bool" where
  "tripMatches t queryTrip = (case (trip_Basic t, queryTrip) of
     (Some basic, Some q) \<Rightarrow> tbas_Segments basic \<noteq> [] \<and>
       (case (qt_Departure q, qt_Arrival q) of
          (Some departure, Some arrival) \<Rightarrow> eventMatches (bs_Departure (hd (tbas_Segments basic))) departure \<and>
            eventMatches (bs_Arrival (last (tbas_Segments basic))) arrival
        | _ \<Rightarrow> False) \<and> paramsMatch basic (qt_SearchParametersTransport q)
   | _ \<Rightarrow> False)"

definition tripPrice :: "TripV4 \<Rightarrow> mockPriceV4 option" where
  "tripPrice t = Option.bind (trip_Extended t) tx_Price"

definition tripAmount :: "int32 \<Rightarrow> TripV4 \<Rightarrow> int" where
  "tripAmount d t = (case tripPrice t of None \<Rightarrow> 0 | Some p \<Rightarrow> the (SetString10 (mp_Value p)) * 10 ^ nat (sint d - uint (mp_Decimals p)))"

text \<open>Each filter keeps the trips that pass its test.\<close>

lemma filterRes_as_filter:
  "filterRes P xs = Ok ys \<Longrightarrow> (\<And>x r. x \<in> set xs \<Longrightarrow> P x = Ok r \<Longrightarrow> r = Q x) \<Longrightarrow> ys = filter Q xs"
  by (induction xs arbitrary: ys) (auto simp: onErr_eq_Ok_iff)

lemma tripOnDates_Ok:
  "tripOnDates segs q = Ok b \<Longrightarrow> \<exists>d qd. bs_Departure (hd segs) = Some d \<and> qt_Departure q = Some qd \<and>
     (b \<longleftrightarrow> qe_Date qd = Some (TimeToDateV4 (AsTime (te_DateTime d))) \<and>
       (\<exists>a qa. bs_Arrival (last segs) = Some a \<and> qt_Arrival q = Some qa \<and> qe_Date qa = Some (TimeToDateV4 (AsTime (te_DateTime a)))))"
  by (auto simp: tripOnDates_def onPtr_Ok_iff split: if_splits)

lemma tripAtLocations_Ok:
  "tripAtLocations segs dc ac = Ok b \<Longrightarrow> \<exists>d codes. bs_Departure (hd segs) = Some d \<and> dc = Some codes \<and>
     (b \<longleftrightarrow> (\<exists>code \<in> set codes. te_LocationCode d = Some code) \<and>
       (\<exists>a codes'. bs_Arrival (last segs) = Some a \<and> ac = Some codes' \<and> (\<exists>code \<in> set codes'. te_LocationCode a = Some code)))"
  by (auto simp: tripAtLocations_def onPtr_Ok_iff list_ex_iff split: if_splits) metis+

definition onTheDates :: "queryTrip \<Rightarrow> TripV4 \<Rightarrow> bool" where
  "onTheDates q t \<longleftrightarrow> (\<exists>basic d qd a qa. trip_Basic t = Some basic \<and> tbas_Segments basic \<noteq> [] \<and> bs_Departure (hd (tbas_Segments basic)) = Some d \<and>
     bs_Arrival (last (tbas_Segments basic)) = Some a \<and> qt_Departure q = Some qd \<and> qt_Arrival q = Some qa \<and>
     qe_Date qd = Some (TimeToDateV4 (AsTime (te_DateTime d))) \<and> qe_Date qa = Some (TimeToDateV4 (AsTime (te_DateTime a))))"

definition atThePlaces :: "queryTrip \<Rightarrow> TripV4 \<Rightarrow> bool" where
  "atThePlaces q t \<longleftrightarrow> (\<exists>basic d qd a qa dc ac. trip_Basic t = Some basic \<and> tbas_Segments basic \<noteq> [] \<and> bs_Departure (hd (tbas_Segments basic)) = Some d \<and>
     bs_Arrival (last (tbas_Segments basic)) = Some a \<and> qt_Departure q = Some qd \<and> qt_Arrival q = Some qa \<and>
     qe_LocationCodes qd = Some dc \<and> qe_LocationCodes qa = Some ac \<and>
     (\<exists>code \<in> set dc. te_LocationCode d = Some code) \<and> (\<exists>code \<in> set ac. te_LocationCode a = Some code))"

lemma filterTripsV5:
  "filterTripsByDatesV5 ts q = Ok ts' \<Longrightarrow> ts' = filter (onTheDates q) ts"
  "filterTripsByLocationsV5 ts q = Ok ts' \<Longrightarrow> ts' = filter (atThePlaces q) ts"
  subgoal
    unfolding filterTripsByDatesV5_def
    by (erule filterRes_as_filter) (auto simp: onPtr_Ok_iff onTheDates_def dest: tripOnDates_Ok split: if_splits)
  subgoal
    unfolding filterTripsByLocationsV5_def onPtr_Ok_iff
    by (elim exE conjE, erule filterRes_as_filter)
      (auto simp: onPtr_Ok_iff atThePlaces_def dest: tripAtLocations_Ok split: if_splits)
  done

lemma filterParamsV5:
  "filterTripsBySupplierCodesV5 ts codes = Ok ts' \<Longrightarrow>
     ts' = filter (\<lambda>t. codes = [] \<or> (\<exists>basic. trip_Basic t = Some basic \<and> (\<exists>code \<in> set codes. tbas_SupplierCode basic = Some code))) ts"
  "filterTripsByMaxSegmentsV5 ts n = Ok ts' \<Longrightarrow>
     ts' = filter (\<lambda>t. n = 0 \<or> (\<exists>basic. trip_Basic t = Some basic \<and> int (length (tbas_Segments basic)) \<le> uint n)) ts"
  by (auto simp: filterTripsBySupplierCodesV5_def filterTripsByMaxSegmentsV5_def CloneV5_def onPtr_Ok_iff list_ex_iff
      elim!: filterRes_as_filter split: if_splits)

lemma tripMatches_split:
  "tripMatches t (Some q) \<longleftrightarrow> onTheDates q t \<and> atThePlaces q t \<and> (\<exists>basic. trip_Basic t = Some basic \<and> paramsMatch basic (qt_SearchParametersTransport q))"
  by (auto simp: tripMatches_def onTheDates_def atThePlaces_def eventMatches_def split: option.splits)

lemma onTheDates_basic: "trip_Basic t = None \<Longrightarrow> \<not> onTheDates q t"
  by (simp add: onTheDates_def)

lemma tripMatches_None:
  "qt_SearchParametersTransport q = None \<Longrightarrow> onTheDates q t \<and> atThePlaces q t \<longleftrightarrow> tripMatches t (Some q)"
  by (cases "trip_Basic t") (simp_all add: tripMatches_split paramsMatch_def onTheDates_basic)

lemma tripMatches_Some:
  "qt_SearchParametersTransport q = Some p \<Longrightarrow>
   (onTheDates q t \<and> atThePlaces q t) \<and>
   (qp_Codes p = [] \<or> (\<exists>basic. trip_Basic t = Some basic \<and> (\<exists>code \<in> set (qp_Codes p). tbas_SupplierCode basic = Some code))) \<and>
   (qp_MaxSegments p = 0 \<or> (\<exists>basic. trip_Basic t = Some basic \<and> int (length (tbas_Segments basic)) \<le> uint (qp_MaxSegments p))) \<longleftrightarrow>
   tripMatches t (Some q)"
  by (cases "trip_Basic t") (simp_all add: tripMatches_split paramsMatch_def onTheDates_basic)

lemma queryTripsV5_filter: "queryTripsV5 ts qs = Ok ts' \<Longrightarrow> ts' = filter (\<lambda>t. list_all (tripMatches t) qs) ts"
proof (induction qs arbitrary: ts)
  case (Cons queryTrip qs)
  obtain q ts1 ts2 where q: "queryTrip = Some q" "filterTripsByDatesV5 ts q = Ok ts1" "filterTripsByLocationsV5 ts1 q = Ok ts2"
    using Cons.prems by (auto simp: onPtr_Ok_iff onErr_eq_Ok_iff)
  have ts2: "ts2 = filter (\<lambda>t. onTheDates q t \<and> atThePlaces q t) ts"
    using filterTripsV5(1)[OF q(2)] filterTripsV5(2)[OF q(3)] by (simp add: conj_commute)
  have ts3: "queryTripsV5 (filter (\<lambda>t. tripMatches t (Some q)) ts) qs = Ok ts'"
  proof (cases "qt_SearchParametersTransport q")
    case None
    have "ts2 = filter (\<lambda>t. tripMatches t (Some q)) ts"
      unfolding ts2 tripMatches_None[OF None] by (rule refl)
    then show ?thesis using Cons.prems q None by simp
  next
    case (Some params)
    then obtain ts3 ts4 where ts4: "filterTripsBySupplierCodesV5 ts2 (qp_Codes params) = Ok ts3"
        "filterTripsByMaxSegmentsV5 ts3 (qp_MaxSegments params) = Ok ts4" "queryTripsV5 ts4 qs = Ok ts'"
      using Cons.prems q by (auto simp: onErr_eq_Ok_iff)
    have "ts4 = filter (\<lambda>t. tripMatches t (Some q)) ts"
      unfolding filterParamsV5(2)[OF ts4(2)] filterParamsV5(1)[OF ts4(1)] ts2 filter_filter tripMatches_Some[OF Some, symmetric]
      by (simp only: conj_assoc)
    then show ?thesis using ts4(3) by simp
  qed
  show ?case unfolding Cons.IH[OF ts3] filter_filter q(1) by simp
qed simp

lemma filterTripsByCurrencyV5_filter:
  "filterTripsByCurrencyV5 ts (Some c) = Ok ts' \<Longrightarrow> ts' = filter (\<lambda>t. \<exists>p. tripPrice t = Some p \<and> mp_Currency p = Some c) ts"
  by (auto simp: filterTripsByCurrencyV5_def onPtr_Ok_iff tripPrice_def elim!: filterRes_as_filter)

lemma tripAmount_exact:
  assumes "ToBigInt (mp_Value p) n d = Ok x" and "MustUInt32ToInt32 (mp_Decimals p) = Ok n" and "tripPrice t = Some p"
  shows "x = tripAmount d t"
proof -
  have n: "sint n = uint (mp_Decimals p)" "0 \<le> sint n" using c_MustUInt32ToInt32.conv_exact[OF assms(2)] by simp_all
  obtain v where v: "sint n \<le> sint d" "SetString10 (mp_Value p) = Some v" "x * 10 ^ nat (sint n) = v * 10 ^ nat (sint d)"
    using ToBigInt_OkD[OF assms(1) n(2)] by blast
  have "nat (sint d) = nat (sint d - sint n) + nat (sint n)" using v(1) n(2) by linarith
  then have "x * 10 ^ nat (sint n) = (v * 10 ^ nat (sint d - sint n)) * 10 ^ nat (sint n)" using v(3) by (simp add: power_add)
  then show ?thesis using v(2) n(1) assms(3) by (simp add: tripAmount_def)
qed

lemma totalPriceV4_sum: "totalPriceV4 d acc ts = Ok x \<Longrightarrow> x = acc + sum_list (map (tripAmount d) ts)"
proof (induction ts arbitrary: acc)
  case (Cons t ts)
  then obtain e p n y where "trip_Extended t = Some e" "tx_Price e = Some p" "MustUInt32ToInt32 (mp_Decimals p) = Ok n"
      "ToBigInt (mp_Value p) n d = Ok y" and r: "totalPriceV4 d (acc + y) ts = Ok x"
    by (auto simp: onPtr_Ok_iff onErr_eq_Ok_iff)
  then have "y = tripAmount d t" by (intro tripAmount_exact) (auto simp: tripPrice_def)
  then show ?case using Cons.IH[OF r] by simp
qed simp

text \<open>Property C26: what the transport search finds. Every result of version 5 belongs to one of the queries; its trips are exactly
  the sample trips priced in the requested currency that fit every trip of that query, and there is at least one;
  and, unless pricing is realistic, its total price is the exact sum of their prices at the decimals of the currency.\<close>

lemma transport_offer:
  assumes "TransportSearchV5 trips cfg uuid now later req s = (Ok (MockSuccess r), s')" and "a \<in> set (tss_Results r)"
  shows "\<exists>query c d ts. query \<in> set (tsr_Queries req) \<and> tr_QueryId a = tq_QueryId query \<and> tsr_Currency req = Some c \<and> currencyDecimalsV4 c = Some d \<and>
    ts = filter (\<lambda>t. (\<exists>p. tripPrice t = Some p \<and> mp_Currency p = Some c) \<and> list_all (tripMatches t) (tq_Trips query)) trips \<and>
    ts \<noteq> [] \<and> tr_TravellingTrips a = map trip_Extended ts \<and>
    (\<not> RealisticPriceEnabled cfg \<longrightarrow>
       tr_TotalPrice a = \<lparr>mp_Value = show_int (sum_list (map (tripAmount d) ts)), mp_Decimals = d, mp_Currency = Some c\<rparr>)"
proof -
  have f: "tripsFoundV4 (MockSuccess r) = Some (eu_Id (tss_SearchId r), shownResults tr_ResultId tr_TotalPrice (tss_Results r))"
    using assms(2) by (auto simp: tripsFoundV4_def)
  obtain c d ts0 results where c: "tsr_Currency req = Some c" "currencyDecimalsV4 c = Some d" "filterTripsByCurrencyV5 trips (Some c) = Ok ts0"
      and q: "queryResults (\<lambda>query. queryTripsV5 ts0 (tq_Trips query)) (totalPriceV4 d 0) (tripsResultV5 cfg c d) 0 (tsr_Queries req) = Ok (Inl results)"
      and ans: "transportAnswer uuid now later (tsr_Queries req) results s = (Ok (MockSuccess r), s')"
    using TransportSearchV5_loop[OF assms(1) f] by blast
  have "tss_Results r = map fst results" using ans by (auto simp: transportAnswer_def Let_def split: if_splits res.splits)
  then obtain u where "(a, u) \<in> set results" using assms(2) by auto
  then obtain k query ts amount where r: "query \<in> set (tsr_Queries req)" "queryTripsV5 ts0 (tq_Trips query) = Ok ts" "ts \<noteq> []"
      "totalPriceV4 d 0 ts = Ok amount" "tripsResultV5 cfg c d k query ts amount = Ok (a, u)"
    using queryResults_cases[OF q] by blast
  have a: "tr_QueryId a = tq_QueryId query" "tr_TravellingTrips a = map trip_Extended ts"
    "\<not> RealisticPriceEnabled cfg \<longrightarrow> tr_TotalPrice a = \<lparr>mp_Value = show_int amount, mp_Decimals = d, mp_Currency = Some c\<rparr>"
    using r(5) by (auto simp: tripsResultV5_def Let_def onErr_eq_Ok_iff ExtendedV5_def shownPrice_def MustInt32ToUInt32_def split: if_splits)
  have "ts = filter (\<lambda>t. (\<exists>p. tripPrice t = Some p \<and> mp_Currency p = Some c) \<and> list_all (tripMatches t) (tq_Trips query)) trips"
    using queryTripsV5_filter[OF r(2)] filterTripsByCurrencyV5_filter[OF c(3)] by (simp add: conj_commute)
  then show ?thesis using a c r(1,3) totalPriceV4_sum[OF r(4)] by auto
qed

text \<open>A trip of one segment on the first of January 1970, priced at five native tokens, and a query it fits; a second trip is in another currency.\<close>

definition sample_trip :: "currencyV4 \<Rightarrow> TripV4" where
  "sample_trip c =
     \<lparr>trip_Basic = Some \<lparr>tbas_SupplierCode = Some [1], tbas_LastModified = None,
        tbas_Segments = [\<lparr>bs_Departure = Some \<lparr>te_DateTime = Some hour, te_LocationCode = Some [65]\<rparr>,
                          bs_Arrival = Some \<lparr>te_DateTime = Some (3 * hour), te_LocationCode = Some [66]\<rparr>, bs_Rest = []\<rparr>], tbas_Rest = []\<rparr>,
      trip_Extended = Some \<lparr>tx_SupplierCode = Some [1], tx_Price = Some \<lparr>mp_Value = ''5'', mp_Decimals = 0, mp_Currency = Some (Some c)\<rparr>,
        tx_Segments = [\<lparr>es_SeatMapId = Some ''map'', es_Rest = []\<rparr>], tx_Rest = []\<rparr>\<rparr>"

definition sample_leg :: queryTrip where
  "sample_leg = \<lparr>qt_Departure = Some \<lparr>qe_Date = Some \<lparr>date_Year = 1970, date_Month = 1, date_Day = 1\<rparr>, qe_LocationCodes = Some [[65], [67]]\<rparr>,
     qt_Arrival = Some \<lparr>qe_Date = Some \<lparr>date_Year = 1970, date_Month = 1, date_Day = 1\<rparr>, qe_LocationCodes = Some [[66]]\<rparr>,
     qt_SearchParametersTransport = Some \<lparr>qp_Codes = [[1]], qp_MaxSegments = 2\<rparr>\<rparr>"

definition sample_journey :: transportSearchRequest where
  "sample_journey =
     \<lparr>tsr_Queries = [\<lparr>tq_QueryId = 7, tq_Trips = [Some sample_leg], tq_Travellers = []\<rparr>], tsr_Currency = Some (Some NativeTokenV4)\<rparr>"

lemma sample_trip_day:
  assumes "0 \<le> t" "t < day"
  shows "TimeToDateV4 t = \<lparr>date_Year = 1970, date_Month = 1, date_Day = 1\<rparr>"
proof -
  let ?d = "\<lparr>date_Year = 1970, date_Month = 1, date_Day = 1\<rparr> :: dateV4"
  have t: "t div day = 0" "t mod day = t" by (rule div_pos_pos_trivial[OF assms], rule mod_pos_pos_trivial[OF assms])
  have "time_Year t = 1970" unfolding time_Year_def yearAndDay_def t(1) by code_simp
  moreover have "calendarDateV4 ?d" by (simp add: calendarDateV4_def calendarDate_def daysIn_def)
  moreover have "DateV4ToTime (Some ?d) = 0" by (simp add: DateV4ToTime_def time_Date_def yearStart_def monthStarts_def isLeap_def)
  moreover have "Truncate_day t = 0" unfolding Truncate_day_def t(2) by (simp only: diff_self)
  ultimately show ?thesis using TimeToDateV4_iff[of ?d t] by simp
qed

lemma sample_trip_amount: "ToBigInt ''5'' 0 NativeTokenDecimals = Ok 5000000000000000000"
  by code_simp

lemma sample_journey_search:
  "\<exists>r s' a. TransportSearchV5 [sample_trip NativeTokenV4, sample_trip (IsoCurrencyV4 1)] defaultPricing ''s'' 0 0 sample_journey GetStore = (Ok (MockSuccess r), s') \<and>
     tss_Results r = [a]"
  by (simp add: TransportSearchV5_def sample_journey_def sample_leg_def sample_trip_def sameTravellersV4_def AreTravelDatesValidV4_def currencyDecimalsV4_def
      filterTripsByCurrencyV5_def filterTripsByDatesV5_def filterTripsByLocationsV5_def filterTripsBySupplierCodesV5_def filterTripsByMaxSegmentsV5_def
      tripOnDates_def tripAtLocations_def AsTime_def sample_trip_day aLift_bind MustUInt32ToInt32_def sample_trip_amount tripsResultV5_def MustInt32ToUInt32_def
      shownPrice_def defaultPricing_def PriceV5ToUnifiedPrice_def unified_defs transportAnswer_def seatMapID_def ExtendedV5_def Let_def)

lemma transport_offer_witness:
  "\<exists>r s' a. TransportSearchV5 [sample_trip NativeTokenV4, sample_trip (IsoCurrencyV4 1)] defaultPricing ''s'' 0 0 sample_journey GetStore = (Ok (MockSuccess r), s') \<and>
     tss_Results r = [a] \<and> tr_QueryId a = 7 \<and> tr_TravellingTrips a = [trip_Extended (sample_trip NativeTokenV4)] \<and>
     SetString10 (mp_Value (tr_TotalPrice a)) = Some 5000000000000000000"
proof -
  let ?trips = "[sample_trip NativeTokenV4, sample_trip (IsoCurrencyV4 1)]"
  obtain r s' a where r: "TransportSearchV5 ?trips defaultPricing ''s'' 0 0 sample_journey GetStore = (Ok (MockSuccess r), s')" "tss_Results r = [a]"
    using sample_journey_search by blast
  have m: "tripMatches (sample_trip c) (Some sample_leg)" for c
    by (simp add: tripMatches_def sample_trip_def sample_leg_def eventMatches_def paramsMatch_def AsTime_def sample_trip_day)
  have p: "tripPrice (sample_trip x) = Some \<lparr>mp_Value = ''5'', mp_Decimals = 0, mp_Currency = Some (Some x)\<rparr>" for x
    by (simp add: tripPrice_def sample_trip_def)
  obtain query c d ts where q: "query \<in> set (tsr_Queries sample_journey)" "tr_QueryId a = tq_QueryId query" "tsr_Currency sample_journey = Some c"
      "currencyDecimalsV4 c = Some d"
      "ts = filter (\<lambda>t. (\<exists>p. tripPrice t = Some p \<and> mp_Currency p = Some c) \<and> list_all (tripMatches t) (tq_Trips query)) ?trips"
      "tr_TravellingTrips a = map trip_Extended ts"
      "tr_TotalPrice a = \<lparr>mp_Value = show_int (sum_list (map (tripAmount d) ts)), mp_Decimals = d, mp_Currency = Some c\<rparr>"
    using transport_offer[OF r(1), of a] r(2) by (auto simp: defaultPricing_def)
  have c: "tq_QueryId query = 7" "tq_Trips query = [Some sample_leg]" "c = Some NativeTokenV4" "d = NativeTokenDecimals"
    using q(1,3,4) by (auto simp: sample_journey_def currencyDecimalsV4_def)
  have ts: "ts = [sample_trip NativeTokenV4]" unfolding q(5) c by (simp add: m p)
  have "SetString10 ''5'' = Some 5" by code_simp
  then have "tripAmount d (sample_trip NativeTokenV4) = 5000000000000000000" unfolding c(4) by (simp add: tripAmount_def p)
  then have "SetString10 (mp_Value (tr_TotalPrice a)) = Some 5000000000000000000"
    using q(7) SetString10_show_int[of 5000000000000000000] by (simp add: ts)
  then show ?thesis using q(2,6) r c(1) ts by simp
qed

section \<open>Verified trips, and where the versions differ\<close>

lemma pairTrips_Ok:
  "pairTrips verify i basic extended = Ok ts \<Longrightarrow> length basic = length extended \<Longrightarrow>
     map trip_Basic ts = basic \<and> map trip_Extended ts = extended \<and> (\<forall>t \<in> set ts. verify t = Ok ())"
proof (induction verify i basic extended arbitrary: ts rule: pairTrips.induct)
  case (3 verify i b basic e extended)
  let ?t = "\<lparr>trip_Basic = b, trip_Extended = e\<rparr>"
  obtain ts' where "verify ?t = Ok ()" "pairTrips verify (Suc i) basic extended = Ok ts'" "ts = ?t # ts'"
    using "3.prems"(1) by (cases "verify ?t") (auto simp: Let_def onErr_eq_Ok_iff)
  then show ?case using "3.IH"[of ?t "()" ts'] "3.prems"(2) by simp
qed auto

text \<open>The check of the sample data keeps the trips, with nothing missing that \<open>Verify\<close> reads, and never returns an error: it panics.\<close>

lemma VerifyAndGetTrips_Ok:
  assumes "VerifyAndGetTrips basic extended = Ok ts"
  shows "BasicV4 ts = basic" "ExtendedV4 ts = extended" "\<forall>t \<in> set ts. VerifyV4 t = Ok ()"
  using assms pairTrips_Ok[of VerifyV4 0 basic extended ts] by (auto simp: VerifyAndGetTrips_def BasicV4_def ExtendedV4_def split: if_splits)

lemma verify_V4_V5: "VerifyV4 = VerifyV5"
  by (simp add: fun_eq_iff VerifyV4_def VerifyV5_def)

text \<open>A trip without segments passes the check, and a version 4 search that reaches its dates panics; version 5 skips it.\<close>

lemma empty_trip_panics_V4:
  assumes "trip_Basic t = Some basic" "tbas_Segments basic = []" and "trip_Extended t = Some extended" "tx_Segments extended = []"
    and "tbas_SupplierCode basic = tx_SupplierCode extended"
  shows "VerifyV4 t = Ok ()" "filterTripsByDatesV4 (t # ts) q = Panic indexOutOfRange"
    "filterTripsByDatesV5 (t # ts) q = filterTripsByDatesV5 ts q"
  using assms by (auto simp: VerifyV4_def filterTripsByDatesV4_def filterTripsByDatesV5_def onErr_def split: res.splits)

text \<open>On trips that all have segments the two versions search alike.\<close>

definition hasSegments :: "TripV4 \<Rightarrow> bool" where
  "hasSegments t \<longleftrightarrow> (case trip_Basic t of None \<Rightarrow> True | Some basic \<Rightarrow> tbas_Segments basic \<noteq> [])"

lemma filters_V4_V5:
  "\<forall>t \<in> set ts. hasSegments t \<Longrightarrow> filterTripsByDatesV4 ts q = filterTripsByDatesV5 ts q"
  "\<forall>t \<in> set ts. hasSegments t \<Longrightarrow> filterTripsByLocationsV4 ts q = filterTripsByLocationsV5 ts q"
  "filterTripsBySupplierCodesV4 = filterTripsBySupplierCodesV5" "filterTripsByMaxSegmentsV4 = filterTripsByMaxSegmentsV5"
  by (auto simp: filterTripsByDatesV4_def filterTripsByDatesV5_def filterTripsByLocationsV4_def filterTripsByLocationsV5_def hasSegments_def onPtr_def
      filterTripsBySupplierCodesV4_def filterTripsBySupplierCodesV5_def filterTripsByMaxSegmentsV4_def filterTripsByMaxSegmentsV5_def CloneV4_def CloneV5_def
      fun_eq_iff intro!: filterRes_cong split: option.splits)

lemma filtersV5_subset:
  "filterTripsByDatesV5 ts q = Ok ts' \<Longrightarrow> set ts' \<subseteq> set ts" "filterTripsByLocationsV5 ts q = Ok ts' \<Longrightarrow> set ts' \<subseteq> set ts"
  "filterTripsBySupplierCodesV5 ts codes = Ok ts' \<Longrightarrow> set ts' \<subseteq> set ts" "filterTripsByMaxSegmentsV5 ts n = Ok ts' \<Longrightarrow> set ts' \<subseteq> set ts"
  "filterTripsByCurrencyV5 ts c = Ok ts' \<Longrightarrow> set ts' \<subseteq> set ts"
  using filterTripsV5 filterParamsV5
  by (fastforce simp: filterTripsByCurrencyV5_def CloneV5_def dest: filterRes_subset split: if_splits)+

lemma queryTrips_V4_V5: "\<forall>t \<in> set ts. hasSegments t \<Longrightarrow> queryTripsV4 ts qs = queryTripsV5 ts qs"
proof (induction qs arbitrary: ts)
  case (Cons q qs)
  have s: "\<forall>t \<in> set ts'. hasSegments t" if "set ts' \<subseteq> set ts" for ts' using that Cons.prems by blast
  show ?case
  proof (cases q)
    case (Some trip)
    have "queryTripsV4 ts' qs = queryTripsV5 ts' qs" if "set ts' \<subseteq> set ts" for ts' using s[OF that] by (rule Cons.IH)
    then show ?thesis
      using Some Cons.prems filters_V4_V5(2)[OF s] filtersV5_subset
      by (auto simp: filters_V4_V5(1,3,4) onErr_def split: res.splits option.splits) (meson order_trans)+
  qed simp
qed simp

lemma queryResults_cong:
  "(\<And>query. query \<in> set queries \<Longrightarrow> trips query = trips' query) \<Longrightarrow>
   queryResults trips amountOf result n queries = queryResults trips' amountOf result n queries"
  by (induction queries arbitrary: n) (auto simp: onErr_def split: res.splits)

lemma transport_versions_agree:
  assumes "\<forall>t \<in> set trips. hasSegments t" and "tsr_Currency req = Some c"
  shows "TransportSearchV4 trips cfg uuid now later req = TransportSearchV5 trips cfg uuid now later req"
proof -
  have c: "filterTripsByCurrencyV4 trips (Some c) = filterTripsByCurrencyV5 trips (Some c)"
    by (simp add: filterTripsByCurrencyV4_def filterTripsByCurrencyV5_def)
  have r: "tripsResultV4 = tripsResultV5" by (simp add: fun_eq_iff tripsResultV4_def tripsResultV5_def priceV4_V5 ExtendedV4_def ExtendedV5_def)
  have q: "queryResults (\<lambda>query. queryTripsV4 ts (tq_Trips query)) amountOf result n queries =
      queryResults (\<lambda>query. queryTripsV5 ts (tq_Trips query)) amountOf result n queries"
    if "filterTripsByCurrencyV5 trips (Some c) = Ok ts" for ts amountOf result n queries
    using filtersV5_subset(5)[OF that] assms(1) by (intro queryResults_cong queryTrips_V4_V5) blast
  have e: "errSearchRespV4 = errSearchRespV5" by (simp add: fun_eq_iff errSearchRespV4_def errSearchRespV5_def)
  show ?thesis
    unfolding TransportSearchV4_def TransportSearchV5_def assms(2) c r e
    by (rule ext) (auto simp: aLift_bind q split: option.splits res.splits)
qed

end
