(* ===== verification/Mock_Activity.thy ===== *)
theory Mock_Activity
  imports Mock_Book
begin

text \<open>
  The activity services of the mock plugin (pp-mock/handlers/activity, versions 3 to 5): filters, search, product
  info, lists and short lists, and the check of the sample activities (pp-mock/services/data/activity). Of a message
  the fields the code reads are modelled, the others are kept as bytes; nil messages are \<open>None\<close>. The search numbers
  and prices clones of the sample results, which it may change.
\<close>

section \<open>Activities\<close>

record activityInfo =
  inf_SupplierCode :: "bytes option"
  inf_LastModified :: "time option"
  inf_Status :: int32
  inf_Rest :: bytes

record activityExtended =
  ax_Activity :: "activityInfo option"
  ax_Descriptions :: "descriptionSet list"
  ax_Units :: "string list"
  ax_Services :: "string list"
  ax_Zones :: "string list"
  ax_Rest :: bytes

record activityShortListItem =
  asi_SupplierCode :: "bytes option"
  asi_Status :: int32

text \<open>A search result; its total price is a message with a price in it.\<close>

record activityResult =
  act_ResultId :: uint32
  act_SupplierCode :: "bytes option"
  act_UnitCode :: string
  act_ServiceCode :: string
  act_ZoneCodes :: "string list"
  act_TotalPrice :: "mockPriceV4 option option"
  act_SeatMapId :: "string option"
  act_Rest :: bytes

section \<open>Filters of versions 4 and 5\<close>

definition filterExtendedBySupplierCodesV4 :: "activityExtended list \<Rightarrow> bytes list \<Rightarrow> activityExtended list res" where
  "filterExtendedBySupplierCodesV4 activities supplierCodes =
     (if length supplierCodes = 0 then Ok activities
      else filterRes (\<lambda>activity. onPtr (ax_Activity activity) (\<lambda>info. Ok (list_ex (\<lambda>code. inf_SupplierCode info = Some code) supplierCodes))) activities)"

definition filterExtendedByModifiedAfterV4 :: "activityExtended list \<Rightarrow> time \<Rightarrow> activityExtended list res" where
  "filterExtendedByModifiedAfterV4 activities modifiedAfter =
     filterRes (\<lambda>activity. onPtr (ax_Activity activity) (\<lambda>info. Ok (AsTime (inf_LastModified info) > modifiedAfter))) activities"

definition filterExtendedByLanguageV4 :: "activityExtended list \<Rightarrow> int32 list \<Rightarrow> activityExtended list" where
  "filterExtendedByLanguageV4 activities languages =
     (if length languages = 0 then activities
      else concat (map (\<lambda>activity.
        let filteredDescriptions = FilterDescriptionsV4 (ax_Descriptions activity) languages
        in if length filteredDescriptions > 0 then [activity\<lparr>ax_Descriptions := filteredDescriptions\<rparr>] else []) activities))"

definition filterSearchResultActivitiesBySupplierCodesV4 :: "activityResult list \<Rightarrow> bytes list \<Rightarrow> activityResult list" where
  "filterSearchResultActivitiesBySupplierCodesV4 activities supplierCodes =
     (if length supplierCodes = 0 then activities
      else filter (\<lambda>activity. list_ex (\<lambda>code. act_SupplierCode activity = Some code) supplierCodes) activities)"

definition filterSearchResultActivitiesByServiceCodesV4 :: "activityResult list \<Rightarrow> string list \<Rightarrow> activityResult list" where
  "filterSearchResultActivitiesByServiceCodesV4 activities serviceCodes =
     (if length serviceCodes = 0 then activities
      else filter (\<lambda>activity. list_ex (\<lambda>code. act_ServiceCode activity = code) serviceCodes) activities)"

definition filterSearchResultActivitiesByCurrencyV4 :: "activityResult list \<Rightarrow> currencyV4 option option \<Rightarrow> activityResult list res" where
  "filterSearchResultActivitiesByCurrencyV4 activities currency =
     filterRes (\<lambda>activity. onPtr (act_TotalPrice activity) (\<lambda>totalPrice. onPtr totalPrice (\<lambda>price. Ok (mp_Currency price = currency)))) activities"

definition extendedToShortListItemV4 :: "activityExtended list \<Rightarrow> activityShortListItem list res" where
  "extendedToShortListItemV4 activities =
     mapRes (\<lambda>activity. onPtr (ax_Activity activity) (\<lambda>info. Ok \<lparr>asi_SupplierCode = inf_SupplierCode info, asi_Status = inf_Status info\<rparr>)) activities"

definition extendedToActivityInfoV4 :: "activityExtended list \<Rightarrow> activityInfo option list" where
  "extendedToActivityInfoV4 activities = map ax_Activity activities"

text \<open>The number and the price of a result, version 4.\<close>

definition activityResultV4 :: "pricing \<Rightarrow> activityResult \<Rightarrow> uint32 \<Rightarrow> (activityResult \<times> UnifiedPrice) res" where
  "activityResultV4 cfg activity resultIDnum =
     onPtr (act_TotalPrice activity) (\<lambda>totalPrice. onPtr totalPrice (\<lambda>price.
     onErr (shownPrice cfg PriceV4ToUnifiedPrice (\<lambda>u. Ok (ToPriceV4 u)) price) (\<lambda>e. e) (\<lambda>(shown, validationPrice).
       Ok (activity\<lparr>act_ResultId := resultIDnum, act_TotalPrice := Some (Some shown)\<rparr>, validationPrice))))"

definition filterExtendedBySupplierCodesV5 :: "activityExtended list \<Rightarrow> bytes list \<Rightarrow> activityExtended list res" where
  "filterExtendedBySupplierCodesV5 activities supplierCodes =
     (if length supplierCodes = 0 then Ok activities
      else filterRes (\<lambda>activity. onPtr (ax_Activity activity) (\<lambda>info. Ok (list_ex (\<lambda>code. inf_SupplierCode info = Some code) supplierCodes))) activities)"

definition filterExtendedByModifiedAfterV5 :: "activityExtended list \<Rightarrow> time \<Rightarrow> activityExtended list res" where
  "filterExtendedByModifiedAfterV5 activities modifiedAfter =
     filterRes (\<lambda>activity. onPtr (ax_Activity activity) (\<lambda>info. Ok (AsTime (inf_LastModified info) > modifiedAfter))) activities"

definition filterExtendedByLanguageV5 :: "activityExtended list \<Rightarrow> int32 list \<Rightarrow> activityExtended list" where
  "filterExtendedByLanguageV5 activities languages =
     (if length languages = 0 then activities
      else concat (map (\<lambda>activity.
        let filteredDescriptions = FilterDescriptionsV4 (ax_Descriptions activity) languages
        in if length filteredDescriptions > 0 then [activity\<lparr>ax_Descriptions := filteredDescriptions\<rparr>] else []) activities))"

definition filterSearchResultActivitiesBySupplierCodesV5 :: "activityResult list \<Rightarrow> bytes list \<Rightarrow> activityResult list" where
  "filterSearchResultActivitiesBySupplierCodesV5 activities supplierCodes =
     (if length supplierCodes = 0 then activities
      else filter (\<lambda>activity. list_ex (\<lambda>code. act_SupplierCode activity = Some code) supplierCodes) activities)"

definition filterSearchResultActivitiesByServiceCodesV5 :: "activityResult list \<Rightarrow> string list \<Rightarrow> activityResult list" where
  "filterSearchResultActivitiesByServiceCodesV5 activities serviceCodes =
     (if length serviceCodes = 0 then activities
      else filter (\<lambda>activity. list_ex (\<lambda>code. act_ServiceCode activity = code) serviceCodes) activities)"

definition filterSearchResultActivitiesByCurrencyV5 :: "activityResult list \<Rightarrow> currencyV4 option option \<Rightarrow> activityResult list res" where
  "filterSearchResultActivitiesByCurrencyV5 activities currency =
     (if currency = None then Ok activities
      else filterRes (\<lambda>activity. onPtr (act_TotalPrice activity) (\<lambda>totalPrice. onPtr totalPrice (\<lambda>price. Ok (mp_Currency price = currency)))) activities)"

definition extendedToShortListItemV5 :: "activityExtended list \<Rightarrow> activityShortListItem list res" where
  "extendedToShortListItemV5 activities =
     mapRes (\<lambda>activity. onPtr (ax_Activity activity) (\<lambda>info. Ok \<lparr>asi_SupplierCode = inf_SupplierCode info, asi_Status = inf_Status info\<rparr>)) activities"

definition extendedToActivityInfoV5 :: "activityExtended list \<Rightarrow> activityInfo option list" where
  "extendedToActivityInfoV5 activities = map ax_Activity activities"

text \<open>The number and the price of a result, version 5.\<close>

definition activityResultV5 :: "pricing \<Rightarrow> activityResult \<Rightarrow> uint32 \<Rightarrow> (activityResult \<times> UnifiedPrice) res" where
  "activityResultV5 cfg activity resultIDnum =
     onPtr (act_TotalPrice activity) (\<lambda>totalPrice. onPtr totalPrice (\<lambda>price.
     onErr (shownPrice cfg PriceV5ToUnifiedPrice (\<lambda>u. Ok (ToPriceV5 u)) price) (\<lambda>e. e) (\<lambda>(shown, validationPrice).
       Ok (activity\<lparr>act_ResultId := resultIDnum, act_TotalPrice := Some (Some shown)\<rparr>, validationPrice))))"

section \<open>Search in versions 4 and 5\<close>

text \<open>The search parameters may be missing, and in them the currency.\<close>

record activitySearchRequest =
  acr_SearchParameters :: "currencyV4 option option option"
  acr_TravelPeriod :: "uint32 travelPeriod option"
  acr_SupplierCodes :: "bytes list"
  acr_ServiceCodes :: "string list"
  acr_Travellers :: "uint32 traveller list"

record activitySearchSuccess =
  acs_Header :: mockHeaderV4
  acs_SearchId :: expiringUUID
  acs_Travellers :: "uint32 traveller list"
  acs_Results :: "activityResult list"

type_synonym activitySearchResponse = "activitySearchSuccess mockResponse"

definition IsTravelPeriodAllowedV4 :: "time \<Rightarrow> uint32 travelPeriod option \<Rightarrow> bool res" where
  "IsTravelPeriodAllowedV4 now travelPeriod = onPtr travelPeriod (\<lambda>period. Ok (IsTravelPeriodAllowedV4WithTime now period))"

definition activityAnswer ::
  "string \<Rightarrow> time \<Rightarrow> time \<Rightarrow> uint32 traveller list \<Rightarrow> (activityResult \<times> UnifiedPrice) list \<Rightarrow> (Store, activitySearchResponse) act" where
  "activityAnswer uuid now later travellers results = (\<lambda>s.
     let filteredActivities = map fst results;
         resp = \<lparr>acs_Header = SuccessHeaderV4, acs_SearchId = NewExpiringUUIDWithTime uuid now, acs_Travellers = travellers, acs_Results = filteredActivities\<rparr>
     in if length filteredActivities = 0
        then (Ok (MockSuccess (resp\<lparr>acs_Header := AddHeaderAlertV4 (acs_Header resp) NO_CONTENT [PStr ''No results found for search'']\<rparr>)), s)
        else (Ok (MockSuccess resp),
              AddSearchResult later uuid \<lparr>sd_NumResults = int (length filteredActivities), sd_NumTravelers = int (length travellers),
                sd_SeatMapID = (case act_SeatMapId (hd filteredActivities) of None \<Rightarrow> [] | Some i \<Rightarrow> i), sd_Prices = map snd results\<rparr> s))"

definition ActivitySearchV4 ::
  "activityResult list \<Rightarrow> pricing \<Rightarrow> string \<Rightarrow> time \<Rightarrow> time \<Rightarrow> time \<Rightarrow> activitySearchRequest \<Rightarrow> (Store, activitySearchResponse) act" where
  "ActivitySearchV4 activitySearchResultV4 cfg uuid now now' later req =
     aBind (aLift (IsTravelPeriodAllowedV4 now (acr_TravelPeriod req))) (\<lambda>e. e) (\<lambda>allowed.
     if \<not> allowed then aRet (MockError (ErrorHeaderV4 BUSINESS_PROCESS_ERROR TravelPeriodErrorStr))
     else let filteredActivities = filterSearchResultActivitiesBySupplierCodesV4 activitySearchResultV4 (acr_SupplierCodes req);
              filteredActivities = filterSearchResultActivitiesByServiceCodesV4 filteredActivities (acr_ServiceCodes req)
          in aBind (aLift (onPtr (acr_SearchParameters req) (\<lambda>currency. filterSearchResultActivitiesByCurrencyV4 filteredActivities currency))) (\<lambda>e. e) (\<lambda>filteredActivities.
             aBind (aLift (numberRes (activityResultV4 cfg) 0 filteredActivities)) (\<lambda>e. e) (\<lambda>results.
               activityAnswer uuid now' later (acr_Travellers req) results)))"

definition ActivitySearchV5 ::
  "activityResult list \<Rightarrow> pricing \<Rightarrow> string \<Rightarrow> time \<Rightarrow> time \<Rightarrow> time \<Rightarrow> activitySearchRequest \<Rightarrow> (Store, activitySearchResponse) act" where
  "ActivitySearchV5 activitySearchResultV5 cfg uuid now now' later req =
     (case Option.bind (acr_SearchParameters req) (\<lambda>c. c) of
        None \<Rightarrow> aRet (MockError (ErrorHeaderV4 BUSINESS_PROCESS_ERROR [PStr ''search_parameters.currency is required'']))
      | Some currency \<Rightarrow>
          if Option.bind (acr_TravelPeriod req) tp_StartDate = None \<or> Option.bind (acr_TravelPeriod req) tp_EndDate = None
          then aRet (MockError (ErrorHeaderV4 BUSINESS_PROCESS_ERROR [PStr ''travel_period (start_date and end_date) is required'']))
          else aBind (aLift (IsTravelPeriodAllowedV4 now (acr_TravelPeriod req))) (\<lambda>e. e) (\<lambda>allowed.
            if \<not> allowed then aRet (MockError (ErrorHeaderV4 BUSINESS_PROCESS_ERROR TravelPeriodErrorStr))
            else let filteredActivities = filterSearchResultActivitiesBySupplierCodesV5 activitySearchResultV5 (acr_SupplierCodes req);
                     filteredActivities = filterSearchResultActivitiesByServiceCodesV5 filteredActivities (acr_ServiceCodes req)
                 in aBind (aLift (filterSearchResultActivitiesByCurrencyV5 filteredActivities (Some currency))) (\<lambda>e. e) (\<lambda>filteredActivities.
                    aBind (aLift (numberRes (activityResultV5 cfg) 0 filteredActivities)) (\<lambda>e. e) (\<lambda>results.
                      activityAnswer uuid now' later (acr_Travellers req) results))))"

section \<open>Product info, list and short list\<close>

definition ActivityProductInfoV4 :: "activityExtended list \<Rightarrow> bytes list \<Rightarrow> int32 list \<Rightarrow> (mockHeaderV4 \<times> activityExtended list) mockResponse res" where
  "ActivityProductInfoV4 activityExtendedV4 supplierCodes languages =
     onErr (filterExtendedBySupplierCodesV4 activityExtendedV4 supplierCodes) (\<lambda>e. e) (\<lambda>filteredActivities.
       Ok (listAnswerV4 ''No activities found that match request'' (filterExtendedByLanguageV4 filteredActivities languages)))"

definition ActivityProductListV4 :: "activityExtended list \<Rightarrow> bytes list \<Rightarrow> (mockHeaderV4 \<times> activityInfo option list) mockResponse res" where
  "ActivityProductListV4 activityExtendedV4 supplierCodes =
     onErr (filterExtendedBySupplierCodesV4 activityExtendedV4 supplierCodes) (\<lambda>e. e) (\<lambda>filteredActivities.
       Ok (listAnswerV4 ''No activities found that match request'' (extendedToActivityInfoV4 filteredActivities)))"

definition ActivityProductShortListV4 :: "activityExtended list \<Rightarrow> time option \<Rightarrow> (mockHeaderV4 \<times> activityShortListItem list) mockResponse res" where
  "ActivityProductShortListV4 activityExtendedV4 modifiedAfter =
     onErr (filterExtendedByModifiedAfterV4 activityExtendedV4 (AsTime modifiedAfter)) (\<lambda>e. e) (\<lambda>filteredActivities.
     onErr (extendedToShortListItemV4 filteredActivities) (\<lambda>e. e) (\<lambda>items.
       Ok (listAnswerV4 ''No activities found that match request'' items)))"

definition ActivityProductInfoV5 :: "activityExtended list \<Rightarrow> bytes list \<Rightarrow> int32 list \<Rightarrow> (mockHeaderV4 \<times> activityExtended list) mockResponse res" where
  "ActivityProductInfoV5 activityExtendedV5 supplierCodes languages =
     onErr (filterExtendedBySupplierCodesV5 activityExtendedV5 supplierCodes) (\<lambda>e. e) (\<lambda>filteredActivities.
       Ok (listAnswerV4 ''No activities found that match request'' (filterExtendedByLanguageV5 filteredActivities languages)))"

definition ActivityProductListV5 :: "activityExtended list \<Rightarrow> bytes list \<Rightarrow> (mockHeaderV4 \<times> activityInfo option list) mockResponse res" where
  "ActivityProductListV5 activityExtendedV5 supplierCodes =
     onErr (filterExtendedBySupplierCodesV5 activityExtendedV5 supplierCodes) (\<lambda>e. e) (\<lambda>filteredActivities.
       Ok (listAnswerV4 ''No activities found that match request'' (extendedToActivityInfoV5 filteredActivities)))"

definition ActivityProductShortListV5 :: "activityExtended list \<Rightarrow> time option \<Rightarrow> (mockHeaderV4 \<times> activityShortListItem list) mockResponse res" where
  "ActivityProductShortListV5 activityExtendedV5 modifiedAfter =
     onErr (filterExtendedByModifiedAfterV5 activityExtendedV5 (AsTime modifiedAfter)) (\<lambda>e. e) (\<lambda>filteredActivities.
     onErr (extendedToShortListItemV5 filteredActivities) (\<lambda>e. e) (\<lambda>items.
       Ok (listAnswerV4 ''No activities found that match request'' items)))"

section \<open>Version 3\<close>

record activityInfoV3 =
  ai3_ProductCode :: "string option"
  ai3_ServiceCode :: string

record activityResultV3 =
  act3_ResultId :: int32
  act3_Info :: "activityInfoV3 option"
  act3_Price :: "mockPriceV3 option"
  act3_Rest :: bytes

record activityV3 =
  av3_LastModified :: "time option"
  av3_Rest :: bytes

record activityExtendedV3 =
  ax3_SupplierCode :: "bytes option"
  ax3_Activity :: "activityV3 option"
  ax3_Descriptions :: "descriptionSet list"
  ax3_Rest :: bytes

definition filterBySupplierCodesV3 :: "activityExtendedV3 list \<Rightarrow> bytes list \<Rightarrow> activityExtendedV3 list" where
  "filterBySupplierCodesV3 activities supplierCodes =
     (if length supplierCodes = 0 then activities
      else filter (\<lambda>activity. list_ex (\<lambda>code. ax3_SupplierCode activity = Some code) supplierCodes) activities)"

definition filterExtendedByLastModifiedV3 :: "activityExtendedV3 list \<Rightarrow> time \<Rightarrow> activityExtendedV3 list res" where
  "filterExtendedByLastModifiedV3 activities lastModified =
     filterRes (\<lambda>activity. onPtr (ax3_Activity activity) (\<lambda>a. Ok (\<not> AsTime (av3_LastModified a) < lastModified))) activities"

definition filterByLastModifiedV3 :: "activityV3 list \<Rightarrow> time \<Rightarrow> activityV3 list" where
  "filterByLastModifiedV3 activities lastModified = filter (\<lambda>activity. \<not> AsTime (av3_LastModified activity) < lastModified) activities"

definition filterByLanguageV3 :: "activityExtendedV3 list \<Rightarrow> int32 list \<Rightarrow> activityExtendedV3 list" where
  "filterByLanguageV3 activities languages =
     (if length languages = 0 then activities
      else concat (map (\<lambda>activity.
        let filteredDescriptions = filter (\<lambda>descSet. list_ex (\<lambda>reqLang. ds_Language descSet = reqLang) languages) (ax3_Descriptions activity)
        in if length filteredDescriptions > 0 then [activity\<lparr>ax3_Descriptions := filteredDescriptions\<rparr>] else []) activities))"

definition filterSearchResultActivitiesByProductCodesV3 :: "activityResultV3 list \<Rightarrow> string list \<Rightarrow> activityResultV3 list res" where
  "filterSearchResultActivitiesByProductCodesV3 activities productCodes =
     (if length productCodes = 0 then Ok activities
      else filterRes (\<lambda>activity. onPtr (act3_Info activity) (\<lambda>info. onPtr (ai3_ProductCode info) (\<lambda>productCode.
        Ok (list_ex (\<lambda>code. productCode = code) productCodes)))) activities)"

definition filterSearchResultActivitiesByServiceCodesV3 :: "activityResultV3 list \<Rightarrow> string list \<Rightarrow> activityResultV3 list res" where
  "filterSearchResultActivitiesByServiceCodesV3 activities serviceCodes =
     (if length serviceCodes = 0 then Ok activities
      else filterRes (\<lambda>activity. onPtr (act3_Info activity) (\<lambda>info. Ok (list_ex (\<lambda>code. ai3_ServiceCode info = code) serviceCodes))) activities)"

definition filterSearchResultByCurrencyV3 :: "activityResultV3 list \<Rightarrow> currencyV3 option option \<Rightarrow> activityResultV3 list res" where
  "filterSearchResultByCurrencyV3 activities currency =
     filterRes (\<lambda>activity. onPtr (act3_Price activity) (\<lambda>price. Ok (mp3_Currency price = currency))) activities"

record searchParametersActivityV3 =
  spa_ProductCodes :: "string list"
  spa_ServiceCodes :: "string list"

record activitySearchRequestV3 =
  acr3_Currency :: "currencyV3 option option"
  acr3_TravelPeriod :: "int32 travelPeriod option"
  acr3_SearchParametersActivity :: "searchParametersActivityV3 option"
  acr3_Travellers :: "int32 traveller list"

record activitySearchResponseV3 =
  acs3_Header :: mockHeaderV1
  acs3_Results :: "activityResultV3 list"
  acs3_Travellers :: "int32 traveller list"
  acs3_SearchId :: "string option"

definition errActivityV3 :: "msgtext \<Rightarrow> activitySearchResponseV3" where
  "errActivityV3 message = \<lparr>acs3_Header = ErrorHeaderV1 message, acs3_Results = [], acs3_Travellers = [], acs3_SearchId = None\<rparr>"

definition activityResultOfV3 :: "pricing \<Rightarrow> activityResultV3 \<Rightarrow> int32 \<Rightarrow> (activityResultV3 \<times> UnifiedPrice) res" where
  "activityResultOfV3 cfg activity resultIDnum =
     onPtr (act3_Price activity) (\<lambda>price.
     onErr (shownPrice cfg PriceV3ToUnifiedPrice ToPriceV3 price) (\<lambda>e. e) (\<lambda>(shown, validationPrice).
       Ok (activity\<lparr>act3_ResultId := resultIDnum, act3_Price := Some shown\<rparr>, validationPrice)))"

definition ActivitySearchV3 ::
  "activityResultV3 list \<Rightarrow> pricing \<Rightarrow> string \<Rightarrow> time \<Rightarrow> time \<Rightarrow> activitySearchRequestV3 \<Rightarrow> (Store, activitySearchResponseV3) act" where
  "ActivitySearchV3 activitySearchResultV3 cfg uuid now later req =
     (if acr3_Currency req = None then aRet (errActivityV3 [PStr ''Mandatory field SearchParametersGeneric.Currency is missing''])
      else case acr3_TravelPeriod req of
        None \<Rightarrow> aRet (errActivityV3 [PStr ''Mandatory field TravelPeriod is missing. A travel period is required to search for activities (with limits of start/end values of now() / now() + 60 days)''])
      | Some period \<Rightarrow>
          if \<not> IsTravelPeriodAllowedV1 now period then aRet (errActivityV3 TravelPeriodErrorStr)
          else if length (acr3_Travellers req) = 0
          then aRet (errActivityV3 [PStr ''Mandatory field Travellers is missing. At least one traveller is required to search for activities.''])
          else aBind (aLift (onPtr (acr3_SearchParametersActivity req) (\<lambda>params.
                 onErr (filterSearchResultActivitiesByProductCodesV3 activitySearchResultV3 (spa_ProductCodes params)) (\<lambda>e. e) (\<lambda>filteredActivities.
                 onErr (filterSearchResultActivitiesByServiceCodesV3 filteredActivities (spa_ServiceCodes params)) (\<lambda>e. e) (\<lambda>filteredActivities.
                 onErr (filterSearchResultByCurrencyV3 filteredActivities (acr3_Currency req)) (\<lambda>e. e) (\<lambda>filteredActivities.
                   numberRes (activityResultOfV3 cfg) 1 filteredActivities)))))) (\<lambda>e. e) (\<lambda>results s.
               let filteredActivities = map fst results;
                   response = \<lparr>acs3_Header = SuccessHeaderV1, acs3_Results = filteredActivities, acs3_Travellers = acr3_Travellers req, acs3_SearchId = None\<rparr>
               in if length filteredActivities = 0
                  then (Ok (response\<lparr>acs3_Header := SuccessHeaderV1\<lparr>mh_Alerts := [InfoAlert [PStr ''No results found for search'']]\<rparr>\<rparr>), s)
                  else (Ok (response\<lparr>acs3_SearchId := Some uuid\<rparr>),
                        AddSearchResult later uuid \<lparr>sd_NumResults = int (length filteredActivities), sd_NumTravelers = int (length (acr3_Travellers req)),
                          sd_SeatMapID = [], sd_Prices = map snd results\<rparr> s)))"

definition ActivityProductInfoV3 :: "activityExtendedV3 list \<Rightarrow> bytes list \<Rightarrow> time option \<Rightarrow> int32 list \<Rightarrow> (mockHeaderV1 \<times> activityExtendedV3 list) res" where
  "ActivityProductInfoV3 activityExtendedsV3 supplierCodes modifiedAfter languages =
     onErr (filterExtendedByLastModifiedV3 (filterBySupplierCodesV3 activityExtendedsV3 supplierCodes) (AsTime modifiedAfter)) (\<lambda>e. e) (\<lambda>filteredActivities.
       Ok (listAnswerV1 ''No activities found that match request'' (filterByLanguageV3 filteredActivities languages)))"

definition ActivityProductListV3 :: "activityV3 list \<Rightarrow> time option \<Rightarrow> mockHeaderV1 \<times> activityV3 list" where
  "ActivityProductListV3 activitiesV3 modifiedAfter =
     listAnswerV1 ''No activities found that match request'' (filterByLastModifiedV3 activitiesV3 (AsTime modifiedAfter))"

section \<open>The prices shown are the prices stored\<close>

definition shownTotal :: "activityResult \<Rightarrow> mockPriceV4" where "shownTotal a = the (the (act_TotalPrice a))"

definition activitiesFoundV4 :: "activitySearchResponse \<Rightarrow> (string \<times> (32 word \<times> mockPriceV4) list) option" where
  "activitiesFoundV4 resp = (case resp of
     MockSuccess r \<Rightarrow> if acs_Results r = [] then None
       else Some (eu_Id (acs_SearchId r), shownResults act_ResultId shownTotal (acs_Results r))
   | MockError _ \<Rightarrow> None)"

definition shownTotalV3 :: "activityResultV3 \<Rightarrow> mockPriceV3" where "shownTotalV3 a = the (act3_Price a)"

definition activitiesFoundV3 :: "activitySearchResponseV3 \<Rightarrow> (string \<times> (32 word \<times> mockPriceV3) list) option" where
  "activitiesFoundV3 resp = (case acs3_SearchId resp of None \<Rightarrow> None
     | Some sid \<Rightarrow> Some (sid, shownResults act3_ResultId shownTotalV3 (acs3_Results resp)))"

lemma activityResult_shown:
  "activityResultV4 cfg x k = Ok (a, u) \<Longrightarrow> RealisticPriceEnabled cfg \<or> (\<forall>p. act_TotalPrice x = Some (Some p) \<longrightarrow> plainV4 p) \<Longrightarrow>
     act_ResultId a = k \<and> Ok (ToPriceV4 u) = Ok (shownTotal a)"
  "activityResultV5 cfg x k = Ok (a, u) \<Longrightarrow> RealisticPriceEnabled cfg \<or> (\<forall>p. act_TotalPrice x = Some (Some p) \<longrightarrow> plainV4 p) \<Longrightarrow>
     act_ResultId a = k \<and> Ok (ToPriceV5 u) = Ok (shownTotal a)"
  "activityResultOfV3 cfg y k = Ok (b, u) \<Longrightarrow> RealisticPriceEnabled cfg \<or> (\<forall>p. act3_Price y = Some p \<longrightarrow> plainV3 p) \<Longrightarrow>
     act3_ResultId b = k \<and> ToPriceV3 u = Ok (shownTotalV3 b)"
  by (auto simp: activityResultV4_def activityResultV5_def activityResultOfV3_def shownTotal_def shownTotalV3_def onPtr_Ok_iff onErr_eq_Ok_iff
      dest!: pv4.shownPrice_stored pv5.shownPrice_stored pv3.shownPrice_stored)

lemma activityAnswer_stores:
  assumes "activityAnswer uuid now later travellers results s = (Ok resp, s')" and "activitiesFoundV4 resp = Some (sid, shown)"
    and "numbered act_ResultId shownTotal ofU 0 results"
  shows "\<exists>t d. s' = AddSearchResult t sid d s \<and> map ofU (sd_Prices d) = map (\<lambda>(k, p). Ok p) shown \<and>
    map fst shown = map (\<lambda>i. 0 + word_of_nat i) [0..<length shown]"
proof -
  obtain d where "s' = AddSearchResult later sid d s" "sd_Prices d = map snd results"
      "shown = shownResults act_ResultId shownTotal (map fst results)"
    using assms(1,2) by (auto simp: activityAnswer_def activitiesFoundV4_def Let_def NewExpiringUUIDWithTime_def split: if_splits)
  then show ?thesis using numbered_stores[OF assms(3)] by (intro exI[of _ later] exI[of _ d]) simp
qed

lemma ActivitySearchV4_loop:
  assumes "ActivitySearchV4 acts cfg uuid now now' later req s = (Ok resp, s')" and "activitiesFoundV4 resp = Some (sid, shown)"
  shows "\<exists>as results. set as \<subseteq> set acts \<and> numberRes (activityResultV4 cfg) 0 as = Ok results \<and>
    activityAnswer uuid now' later (acr_Travellers req) results s = (Ok resp, s')"
proof -
  let ?as = "filterSearchResultActivitiesByServiceCodesV4 (filterSearchResultActivitiesBySupplierCodesV4 acts (acr_SupplierCodes req)) (acr_ServiceCodes req)"
  obtain c as results where "filterSearchResultActivitiesByCurrencyV4 ?as c = Ok as" "numberRes (activityResultV4 cfg) 0 as = Ok results"
      "activityAnswer uuid now' later (acr_Travellers req) results s = (Ok resp, s')"
    using assms by (auto simp: ActivitySearchV4_def aLift_bind onPtr_def activitiesFoundV4_def Let_def split: option.splits if_splits res.splits)
  moreover have "set ?as \<subseteq> set acts"
    by (auto simp: filterSearchResultActivitiesByServiceCodesV4_def filterSearchResultActivitiesBySupplierCodesV4_def)
  moreover have "set as \<subseteq> set ?as" if "filterSearchResultActivitiesByCurrencyV4 ?as c = Ok as" for c as
    using that by (auto simp: filterSearchResultActivitiesByCurrencyV4_def dest: filterRes_subset split: if_splits)
  ultimately show ?thesis by blast
qed

lemma ActivitySearchV5_loop:
  assumes "ActivitySearchV5 acts cfg uuid now now' later req s = (Ok resp, s')" and "activitiesFoundV4 resp = Some (sid, shown)"
  shows "\<exists>as results. set as \<subseteq> set acts \<and> numberRes (activityResultV5 cfg) 0 as = Ok results \<and>
    activityAnswer uuid now' later (acr_Travellers req) results s = (Ok resp, s')"
proof -
  let ?as = "filterSearchResultActivitiesByServiceCodesV5 (filterSearchResultActivitiesBySupplierCodesV5 acts (acr_SupplierCodes req)) (acr_ServiceCodes req)"
  obtain c as results where "filterSearchResultActivitiesByCurrencyV5 ?as c = Ok as" "numberRes (activityResultV5 cfg) 0 as = Ok results"
      "activityAnswer uuid now' later (acr_Travellers req) results s = (Ok resp, s')"
    using assms by (auto simp: ActivitySearchV5_def aLift_bind onPtr_def activitiesFoundV4_def Let_def split: option.splits if_splits res.splits)
  moreover have "set ?as \<subseteq> set acts"
    by (auto simp: filterSearchResultActivitiesByServiceCodesV5_def filterSearchResultActivitiesBySupplierCodesV5_def)
  moreover have "set as \<subseteq> set ?as" if "filterSearchResultActivitiesByCurrencyV5 ?as c = Ok as" for c as
    using that by (auto simp: filterSearchResultActivitiesByCurrencyV5_def dest: filterRes_subset split: if_splits)
  ultimately show ?thesis by blast
qed

interpretation activity4: search_version 0 requestV4 ValidationV4 validatedV4 MintV4 mockMinted "\<lambda>u. Ok (ToPriceV4 u)"
  "\<lambda>(acts, cfg, uuid, now, now', later, req). ActivitySearchV4 acts cfg uuid now now' later req" activitiesFoundV4
  "\<lambda>(acts, cfg, uuid, now, now', later, req). RealisticPriceEnabled cfg \<or> (\<forall>a \<in> set acts. \<forall>p. act_TotalPrice a = Some (Some p) \<longrightarrow> plainV4 p)"
proof (unfold_locales, clarify)
  fix acts cfg uuid now now' later req s resp s' sid shown
  assume u: "RealisticPriceEnabled cfg \<or> (\<forall>a \<in> set acts. \<forall>p. act_TotalPrice a = Some (Some p) \<longrightarrow> plainV4 p)"
    and a: "ActivitySearchV4 acts cfg uuid now now' later req s = (Ok resp, s')" and f: "activitiesFoundV4 resp = Some (sid, shown)"
  obtain as results where as: "set as \<subseteq> set acts" and l: "numberRes (activityResultV4 cfg) 0 as = Ok results"
      and ans: "activityAnswer uuid now' later (acr_Travellers req) results s = (Ok resp, s')"
    using ActivitySearchV4_loop[OF a f] by blast
  have "numbered act_ResultId shownTotal (\<lambda>u. Ok (ToPriceV4 u)) 0 results"
    using as u by (intro numbered_loop[OF l] activityResult_shown(1)) blast+
  then show "\<exists>t d. s' = AddSearchResult t sid d s \<and> map (\<lambda>u. Ok (ToPriceV4 u)) (sd_Prices d) = map (\<lambda>(k, p). Ok p) shown \<and>
      map fst shown = map (\<lambda>i. 0 + word_of_nat i) [0..<length shown]"
    by (rule activityAnswer_stores[OF ans f])
qed

interpretation activity5: search_version 0 requestV4 ValidationV5 validatedV4 MintV5 mockMinted "\<lambda>u. Ok (ToPriceV5 u)"
  "\<lambda>(acts, cfg, uuid, now, now', later, req). ActivitySearchV5 acts cfg uuid now now' later req" activitiesFoundV4
  "\<lambda>(acts, cfg, uuid, now, now', later, req). RealisticPriceEnabled cfg \<or> (\<forall>a \<in> set acts. \<forall>p. act_TotalPrice a = Some (Some p) \<longrightarrow> plainV4 p)"
proof (unfold_locales, clarify)
  fix acts cfg uuid now now' later req s resp s' sid shown
  assume u: "RealisticPriceEnabled cfg \<or> (\<forall>a \<in> set acts. \<forall>p. act_TotalPrice a = Some (Some p) \<longrightarrow> plainV4 p)"
    and a: "ActivitySearchV5 acts cfg uuid now now' later req s = (Ok resp, s')" and f: "activitiesFoundV4 resp = Some (sid, shown)"
  obtain as results where as: "set as \<subseteq> set acts" and l: "numberRes (activityResultV5 cfg) 0 as = Ok results"
      and ans: "activityAnswer uuid now' later (acr_Travellers req) results s = (Ok resp, s')"
    using ActivitySearchV5_loop[OF a f] by blast
  have "numbered act_ResultId shownTotal (\<lambda>u. Ok (ToPriceV5 u)) 0 results"
    using as u by (intro numbered_loop[OF l] activityResult_shown(2)) blast+
  then show "\<exists>t d. s' = AddSearchResult t sid d s \<and> map (\<lambda>u. Ok (ToPriceV5 u)) (sd_Prices d) = map (\<lambda>(k, p). Ok p) shown \<and>
      map fst shown = map (\<lambda>i. 0 + word_of_nat i) [0..<length shown]"
    by (rule activityAnswer_stores[OF ans f])
qed

interpretation activity3: search_version 1 requestV3 "\<lambda>uuid now later. ValidationV3 uuid later" vres3_Price MintV3 mintedV3 ToPriceV3
  "\<lambda>(acts, cfg, uuid, now, later, req). ActivitySearchV3 acts cfg uuid now later req" activitiesFoundV3
  "\<lambda>(acts, cfg, uuid, now, later, req). RealisticPriceEnabled cfg \<or> (\<forall>a \<in> set acts. \<forall>p. act3_Price a = Some p \<longrightarrow> plainV3 p)"
proof (unfold_locales, clarify)
  fix acts cfg uuid now later req s resp s' sid shown
  assume u: "RealisticPriceEnabled cfg \<or> (\<forall>a \<in> set acts. \<forall>p. act3_Price a = Some p \<longrightarrow> plainV3 p)"
    and a: "ActivitySearchV3 acts cfg uuid now later req s = (Ok resp, s')" and f: "activitiesFoundV3 resp = Some (sid, shown)"
  let ?d = "\<lambda>results. \<lparr>sd_NumResults = int (length results), sd_NumTravelers = int (length (acr3_Travellers req)),
      sd_SeatMapID = [], sd_Prices = map snd results\<rparr>"
  let ?found = "onPtr (acr3_SearchParametersActivity req) (\<lambda>params.
      onErr (filterSearchResultActivitiesByProductCodesV3 acts (spa_ProductCodes params)) (\<lambda>e. e) (\<lambda>as.
      onErr (filterSearchResultActivitiesByServiceCodesV3 as (spa_ServiceCodes params)) (\<lambda>e. e) (\<lambda>as.
      onErr (filterSearchResultByCurrencyV3 as (acr3_Currency req)) (\<lambda>e. e) (\<lambda>as. numberRes (activityResultOfV3 cfg) 1 as))))"
  obtain results where r: "?found = Ok results" and s': "s' = AddSearchResult later sid (?d results) s"
      and sh: "shown = shownResults act3_ResultId shownTotalV3 (map fst results)"
    using a f by (auto simp: ActivitySearchV3_def aLift_bind activitiesFoundV3_def errActivityV3_def Let_def
        split: option.splits if_splits res.splits)
  obtain params :: searchParametersActivityV3 and as1 as2 as where as: "filterSearchResultActivitiesByProductCodesV3 acts (spa_ProductCodes params) = Ok as1"
      "filterSearchResultActivitiesByServiceCodesV3 as1 (spa_ServiceCodes params) = Ok as2"
      "filterSearchResultByCurrencyV3 as2 (acr3_Currency req) = Ok as" and l: "numberRes (activityResultOfV3 cfg) 1 as = Ok results"
    using r unfolding onPtr_Ok_iff onErr_eq_Ok_iff by blast
  have "set as1 \<subseteq> set acts" "set as2 \<subseteq> set as1" "set as \<subseteq> set as2"
    using as by (auto simp: filterSearchResultActivitiesByProductCodesV3_def filterSearchResultActivitiesByServiceCodesV3_def filterSearchResultByCurrencyV3_def
        dest: filterRes_subset split: if_splits)
  then have "numbered act3_ResultId shownTotalV3 ToPriceV3 1 results"
    using u by (intro numbered_loop[OF l] activityResult_shown(3)) blast+
  from numbered_stores[OF this] show "\<exists>t d. s' = AddSearchResult t sid d s \<and> map ToPriceV3 (sd_Prices d) = map (\<lambda>(k, p). Ok p) shown \<and>
      map fst shown = map (\<lambda>i. 1 + word_of_nat i) [0..<length shown]"
    using sh s' by (intro exI[of _ later] exI[of _ "?d results"]) simp
qed

section \<open>The check of the sample activities (services/data/activity)\<close>

text \<open>The unit and service of every expected search result, in the order of the three loops.\<close>

definition expectedResults :: "activityExtended list \<Rightarrow> (activityExtended \<times> string \<times> string) list" where
  "expectedResults extended =
     concat (map (\<lambda>activity. concat (map (\<lambda>unit. map (\<lambda>service. (activity, unit, service)) (ax_Services activity)) (ax_Units activity))) extended)"

fun verifyResults :: "(activityExtended \<times> string \<times> string) list \<Rightarrow> activityResult list \<Rightarrow> unit res" where
  "verifyResults [] results = Ok ()"
| "verifyResults (e # expected) [] = Panic indexOutOfRange"
| "verifyResults ((activity, unit, service) # expected) (searchResult # results) =
     onPtr (ax_Activity activity) (\<lambda>info.
       if inf_SupplierCode info \<noteq> act_SupplierCode searchResult
       then Panic [PStr ''activityExtendedInfo and searchResult supplier code mismatch'']
       else if unit \<noteq> act_UnitCode searchResult then Panic [PStr ''activityExtendedInfo and searchResult unit code mismatch'']
       else if service \<noteq> act_ServiceCode searchResult then Panic [PStr ''activityExtendedInfo and searchResult service code mismatch'']
       else if \<not> list_all (\<lambda>code. list_ex (\<lambda>z. z = code) (ax_Zones activity)) (act_ZoneCodes searchResult)
       then Panic [PStr ''activityExtendedInfo and searchResult zone code mismatch'']
       else verifyResults expected results)"

definition activity_Verify :: "activityExtended list \<Rightarrow> activityResult list \<Rightarrow> unit res" where
  "activity_Verify extended results =
     (let expectedCount = sum_list (map (\<lambda>activity. length (ax_Units activity) * length (ax_Services activity)) extended)
      in if length results \<noteq> expectedCount
         then Panic [PStr ''mock data error: expected '', PInt (int expectedCount), PStr '' search results but got '', PInt (int (length results))]
         else verifyResults (expectedResults extended) results)"

definition activity_VerifyV5 :: "activityExtended list \<Rightarrow> activityResult list \<Rightarrow> unit res" where
  "activity_VerifyV5 extended results =
     (let expectedCount = sum_list (map (\<lambda>activity. length (ax_Units activity) * length (ax_Services activity)) extended)
      in if length results \<noteq> expectedCount
         then Panic [PStr ''mock data error: expected '', PInt (int expectedCount), PStr '' search results but got '', PInt (int (length results))]
         else verifyResults (expectedResults extended) results)"

text \<open>The check accepts exactly the results that belong, one by one, to the units and services of the activities: the count it
  compares first is the number of its loop steps, so it never reads beyond the results.\<close>

definition resultBelongs :: "activityExtended \<times> string \<times> string \<Rightarrow> activityResult \<Rightarrow> bool" where
  "resultBelongs = (\<lambda>(activity, unit, service) r. (\<exists>info. ax_Activity activity = Some info \<and> inf_SupplierCode info = act_SupplierCode r) \<and>
     act_UnitCode r = unit \<and> act_ServiceCode r = service \<and> set (act_ZoneCodes r) \<subseteq> set (ax_Zones activity))"

lemma expectedResults_length:
  "length (expectedResults extended) = sum_list (map (\<lambda>activity. length (ax_Units activity) * length (ax_Services activity)) extended)"
  by (simp add: expectedResults_def length_concat comp_def sum_list_triv)

lemma verifyResults_iff:
  "length expected = length results \<Longrightarrow> verifyResults expected results = Ok () \<longleftrightarrow> list_all2 resultBelongs expected results"
proof (induction expected results rule: verifyResults.induct)
  case (3 activity unit service expected r results)
  have "(\<forall>code \<in> set (act_ZoneCodes r). \<exists>z \<in> set (ax_Zones activity). z = code) \<longleftrightarrow> set (act_ZoneCodes r) \<subseteq> set (ax_Zones activity)" by blast
  then show ?case using 3 by (cases "ax_Activity activity") (auto simp: resultBelongs_def list_all_iff list_ex_iff)
qed auto

lemma activity_Verify_iff:
  "activity_Verify extended results = Ok () \<longleftrightarrow> list_all2 resultBelongs (expectedResults extended) results"
  by (auto simp: activity_Verify_def Let_def verifyResults_iff expectedResults_length[symmetric] dest: list_all2_lengthD)

lemma activity_Verify_V5: "activity_VerifyV5 = activity_Verify"
  by (simp add: fun_eq_iff activity_Verify_def activity_VerifyV5_def)

end
