(* ===== verification/Mock_Seat_Map.thy ===== *)
theory Mock_Seat_Map
  imports Mock_Book
begin

text \<open>
  The seat map services of the mock plugin (pp-mock/handlers/seat_map/v4): the seat map in the requested languages,
  where sections nest to any depth, and the availability of the seats of a search result or of a mint, which goes
  through the store. A section without subsections is one whose alternative is another; nil messages are \<open>None\<close>.
\<close>

section \<open>Seat maps\<close>

record localizedName =
  nm_Language :: int32
  nm_Text :: string

datatype seatSection = Section (section_Names: "localizedName list") (section_Subsections: "seatSection list option") (section_Rest: bytes)

record seatMap =
  sm_Id :: "string option"
  sm_Sections :: "seatSection list"
  sm_Rest :: bytes

record seatMapInventory =
  smi_Id :: "string option"
  smi_Rest :: bytes

fun filterSeatMapByID :: "seatMap list \<Rightarrow> string option \<Rightarrow> seatMap option" where
  "filterSeatMapByID [] mapID = None"
| "filterSeatMapByID (seatMap # seatMaps) mapID = (if sm_Id seatMap = mapID then Some seatMap else filterSeatMapByID seatMaps mapID)"

fun filterSeatMapAvailabilityByID :: "seatMapInventory list \<Rightarrow> string \<Rightarrow> seatMapInventory option res" where
  "filterSeatMapAvailabilityByID [] mapID = Ok None"
| "filterSeatMapAvailabilityByID (seatMap # seatMaps) mapID =
     onPtr (smi_Id seatMap) (\<lambda>i. if i = mapID then Ok (Some seatMap) else filterSeatMapAvailabilityByID seatMaps mapID)"

text \<open>The names of a section in the languages asked for, and whether they lack a name somewhere below.\<close>

fun filterSeatMapSectionLocalization :: "int32 list \<Rightarrow> seatSection \<Rightarrow> seatSection \<times> bool" where
  "filterSeatMapSectionLocalization langSet (Section names subsections rest) =
     (if length langSet = 0 then (Section names subsections rest, False)
      else let kept = filter (\<lambda>name. nm_Language name \<in> set langSet) names;
               children = (case subsections of None \<Rightarrow> [] | Some sections \<Rightarrow> map (filterSeatMapSectionLocalization langSet) sections)
           in (Section kept (map_option (\<lambda>_. map fst children) subsections) rest,
               length names \<noteq> 0 \<and> length kept = 0 \<or> list_ex snd children))"

definition filterSeatMapLocalization :: "seatMap \<Rightarrow> int32 list \<Rightarrow> seatMap \<times> bool" where
  "filterSeatMapLocalization seatMap languages =
     (let langSet = remdups languages;
          sections = map (filterSeatMapSectionLocalization langSet) (sm_Sections seatMap)
      in (seatMap\<lparr>sm_Sections := map fst sections\<rparr>, list_ex snd sections))"

definition SeatMap :: "seatMap list \<Rightarrow> string option \<Rightarrow> int32 list \<Rightarrow> (mockHeaderV4 \<times> seatMap) mockResponse" where
  "SeatMap seatMapV4 mapId languages =
     (case filterSeatMapByID seatMapV4 mapId of
        None \<Rightarrow> MockError (ErrorHeaderV4 INVALID_IDENTIFIERS [PStr ''Seat map not found''])
      | Some seatMap \<Rightarrow>
          case filterSeatMapLocalization seatMap languages of (seatMap, missingLocalization) \<Rightarrow>
            MockSuccess (if missingLocalization
              then AddHeaderAlertV4 SuccessHeaderV4 INFORMATIONAL [PStr ''Seat map is missing localized string for requested languages'']
              else SuccessHeaderV4, seatMap))"

section \<open>Availability\<close>

datatype seatMapIdentifier = BySearchResult "string option option" | ByMintId "string option" | NoIdentifier

definition SeatMapAvailability :: "seatMapInventory list \<Rightarrow> seatMapIdentifier \<Rightarrow> (Store, (mockHeaderV4 \<times> seatMapInventory) mockResponse) act" where
  "SeatMapAvailability seatMapAvailabilityV4 ident = (\<lambda>s.
     let seatMapID = (case ident of
           BySearchResult sri \<Rightarrow> onPtr sri (\<lambda>searchId. onPtr searchId (\<lambda>searchId.
             Ok (case GetSearchResult s searchId of Some r \<Rightarrow> sd_SeatMapID (sr_Data r) | None \<Rightarrow> [])))
         | ByMintId mintId \<Rightarrow> onPtr mintId (\<lambda>mintId. Ok (case GetMintResult s mintId of Some r \<Rightarrow> mr_SeatMapID r | None \<Rightarrow> []))
         | NoIdentifier \<Rightarrow> Ok [])
     in (onErr seatMapID (\<lambda>e. e) (\<lambda>mapID.
         onErr (filterSeatMapAvailabilityByID seatMapAvailabilityV4 mapID) (\<lambda>e. e) (\<lambda>found.
           case found of
             None \<Rightarrow> Ok (MockError (ErrorHeaderV4 INVALID_IDENTIFIERS [PStr ''Seat map availability not found for given identifier'']))
           | Some seatMap \<Rightarrow> Ok (MockSuccess (SuccessHeaderV4, seatMap)))), s))"

section \<open>What the services answer\<close>

text \<open>All sections of a tree, in the order of the code, with their names.\<close>

fun allNames :: "seatSection \<Rightarrow> localizedName list list" where
  "allNames (Section names subsections rest) =
     names # concat (map allNames (case subsections of None \<Rightarrow> [] | Some sections \<Rightarrow> sections))"

lemma filterSection_names:
  assumes "langSet \<noteq> []"
  shows "allNames (fst (filterSeatMapSectionLocalization langSet sec)) = map (filter (\<lambda>name. nm_Language name \<in> set langSet)) (allNames sec) \<and>
    (snd (filterSeatMapSectionLocalization langSet sec) \<longleftrightarrow>
       (\<exists>names \<in> set (allNames sec). names \<noteq> [] \<and> (\<forall>name \<in> set names. nm_Language name \<notin> set langSet)))"
proof (induction sec)
  case (Section names subsections rest)
  show ?case
  proof (cases subsections)
    case None
    then show ?thesis using assms by (auto simp: Let_def filter_empty_conv)
  next
    case (Some sections)
    then have IH: "\<And>sec. sec \<in> set sections \<Longrightarrow>
        allNames (fst (filterSeatMapSectionLocalization langSet sec)) = map (filter (\<lambda>name. nm_Language name \<in> set langSet)) (allNames sec) \<and>
        (snd (filterSeatMapSectionLocalization langSet sec) \<longleftrightarrow>
          (\<exists>names \<in> set (allNames sec). names \<noteq> [] \<and> (\<forall>name \<in> set names. nm_Language name \<notin> set langSet)))"
      using Section by simp
    then have "concat (map (\<lambda>sec. allNames (fst (filterSeatMapSectionLocalization langSet sec))) sections) =
        concat (map (\<lambda>sec. map (filter (\<lambda>name. nm_Language name \<in> set langSet)) (allNames sec)) sections)"
      by (intro arg_cong[where f = concat] map_cong) simp_all
    then show ?thesis using Some assms IH by (auto simp: Let_def filter_empty_conv map_concat comp_def list_ex_iff)
  qed
qed

lemma filterSection_all_languages: "filterSeatMapSectionLocalization [] sec = (sec, False)"
  by (cases sec) simp

text \<open>The names of all sections of a seat map.\<close>

definition mapNames :: "seatMap \<Rightarrow> localizedName list list" where
  "mapNames m = concat (map allNames (sm_Sections m))"

text \<open>The seat map answered is the first with the identifier; its sections keep exactly the names in the languages asked for, or
  all if none is asked for; and the alert says exactly whether some section lost all its names.\<close>

lemma seat_map_localized:
  assumes "SeatMap maps mapId languages = MockSuccess (header, m)"
  shows "\<exists>m0. find (\<lambda>m. sm_Id m = mapId) maps = Some m0 \<and> sm_Id m = mapId \<and>
    mapNames m = (if languages = [] then mapNames m0 else map (filter (\<lambda>name. nm_Language name \<in> set languages)) (mapNames m0)) \<and>
    (header \<noteq> SuccessHeaderV4 \<longleftrightarrow> languages \<noteq> [] \<and> (\<exists>names \<in> set (mapNames m0). names \<noteq> [] \<and> (\<forall>name \<in> set names. nm_Language name \<notin> set languages)))"
proof -
  have find: "filterSeatMapByID ms i = find (\<lambda>m. sm_Id m = i) ms" for ms i by (induction ms) simp_all
  obtain m0 where m0: "find (\<lambda>m. sm_Id m = mapId) maps = Some m0"
      and m: "m = m0\<lparr>sm_Sections := map (fst \<circ> filterSeatMapSectionLocalization (remdups languages)) (sm_Sections m0)\<rparr>"
      and h: "header \<noteq> SuccessHeaderV4 \<longleftrightarrow> list_ex (snd \<circ> filterSeatMapSectionLocalization (remdups languages)) (sm_Sections m0)"
    using assms by (auto simp: SeatMap_def find filterSeatMapLocalization_def Let_def AddHeaderAlertV4_def SuccessHeaderV4_def list_ex_iff split: option.splits if_splits)
  have i: "sm_Id m0 = mapId" using m0 by (auto simp: find_Some_iff)
  show ?thesis
  proof (cases "languages = []")
    case True
    then have "mapNames m = mapNames m0" "\<not> header \<noteq> SuccessHeaderV4"
      using m h by (auto simp: mapNames_def filterSection_all_languages comp_def list_ex_iff)
    then show ?thesis using m0 m i True by (intro exI[of _ m0]) simp
  next
    case False
    then have l: "remdups languages \<noteq> []" by simp
    have "mapNames m = map (filter (\<lambda>name. nm_Language name \<in> set languages)) (mapNames m0)"
      using filterSection_names[OF l] m by (simp add: mapNames_def map_concat comp_def)
    moreover have "header \<noteq> SuccessHeaderV4 \<longleftrightarrow> (\<exists>names \<in> set (mapNames m0). names \<noteq> [] \<and> (\<forall>name \<in> set names. nm_Language name \<notin> set languages))"
      using filterSection_names[OF l] h by (auto simp: mapNames_def list_ex_iff)
    ultimately show ?thesis using m0 m i False by (intro exI[of _ m0]) simp
  qed
qed

text \<open>The seats of a mint are those of the search it came from: what was asked by the search result before can be asked by the mint afterwards.\<close>

lemma seat_map_follows_mint:
  assumes "ValidationV5 vid now later (requestV4 sid k) s = (Ok (MockSuccess v), s1)"
    and "MintV5 cfg buyable mid now' later' (Some vid) s1 = (Ok (MockSuccess m), s2)"
  shows "fst (SeatMapAvailability seats (ByMintId (Some mid)) s2) = fst (SeatMapAvailability seats (BySearchResult (Some (Some sid))) s)"
proof -
  obtain r where "GetSearchResult s sid = Some r" "GetValidationResult s1 vid = Some \<lparr>vr_Data = \<lparr>vd_InitialSearchData = sr_Data r,
      vd_VerifiedPrice = sd_Prices (sr_Data r) ! unat k\<rparr>, vr_CreatedAt = later\<rparr>"
    using assms(1) by (auto simp: ValidationV5_def requestV4_def errValidationRespV5_def Let_def split: option.splits if_splits res.splits)
  then show ?thesis using assms(2) by (auto simp: MintV5_def SeatMapAvailability_def Let_def split: if_splits)
qed

end
