(* ===== verification/Mock_Data.thy ===== *)
theory Mock_Data
  imports Mock_Accommodation Mock_Transport Mock_Activity Mock_Seat_Map "HOL-Library.AList"
begin

text \<open>
  The sample data of the mock plugin (pp-mock/services/data): reading and validating the embedded JSON files, the check of the
  service facts against their definitions (pp-mock/services/data/accommodation) and the initialization of all tables,
  which panics on the first flaw. JSON, protojson and protovalidate are parameters; \<open>codec\<close> holds the two of a message type.
\<close>

section \<open>Reading a file\<close>

record 'm codec =
  pc_Unmarshal :: "bytes \<Rightarrow> 'm res"
  pc_Validate :: "'m \<Rightarrow> unit res"

fun unmarshalItems :: "(bytes \<Rightarrow> 'm res) \<Rightarrow> nat \<Rightarrow> bytes list \<Rightarrow> 'm list res" where
  "unmarshalItems unmarshal i [] = Ok []"
| "unmarshalItems unmarshal i (raw # raws) =
     onErr (unmarshal raw) (\<lambda>e. Err ([PStr ''item '', PInt (int i), PStr '': protojson unmarshal failed: ''] @ Error e) [e]) (\<lambda>msg.
     onErr (unmarshalItems unmarshal (Suc i) raws) (\<lambda>e. e) (\<lambda>messages. Ok (msg # messages)))"

fun validateItems :: "('m \<Rightarrow> unit res) \<Rightarrow> nat \<Rightarrow> 'm list \<Rightarrow> unit res" where
  "validateItems validate i [] = Ok ()"
| "validateItems validate i (item # messages) =
     onErr (validate item) (\<lambda>e. Err ([PStr ''error validating item '', PInt (int i), PStr '': ''] @ Error e) [e]) (\<lambda>_.
       validateItems validate (Suc i) messages)"

definition unmarshalStrictAndValidate :: "(bytes \<Rightarrow> bytes list res) \<Rightarrow> 'm codec \<Rightarrow> bytes \<Rightarrow> 'm list res" where
  "unmarshalStrictAndValidate decodeArray c jsonData =
     onErr (decodeArray jsonData) (wrap ''invalid JSON array: '') (\<lambda>raws.
     onErr (unmarshalItems (pc_Unmarshal c) 0 raws) (\<lambda>e. e) (\<lambda>messages.
     onErr (validateItems (pc_Validate c) 0 messages) (\<lambda>e. e) (\<lambda>_.
       Ok messages)))"

definition mustUnmarshalStrictAndValidate :: "(bytes \<Rightarrow> bytes list res) \<Rightarrow> 'm codec \<Rightarrow> bytes \<Rightarrow> string \<Rightarrow> 'm list res" where
  "mustUnmarshalStrictAndValidate decodeArray c jsonData panicMsg =
     (case unmarshalStrictAndValidate decodeArray c jsonData of
        Ok messages \<Rightarrow> Ok messages
      | Fail e \<Rightarrow> Panic (PStr panicMsg # PStr '': '' # Error e)
      | Panic t \<Rightarrow> Panic t)"

section \<open>Service facts (services/data/accommodation)\<close>

datatype serviceFact = ServiceFact (fact_Code: string) (fact_Details: "serviceFact list")

record factDefinition =
  fd_Code :: string
  fd_Rest :: bytes

record helper =
  expectedDefinitionsLen :: nat
  definitions :: "(string \<times> factDefinition) list"

fun setFactDefinition :: "factDefinition list \<Rightarrow> serviceFact \<Rightarrow> helper \<Rightarrow> helper res"
  and setFactDefinitions :: "factDefinition list \<Rightarrow> serviceFact list \<Rightarrow> helper \<Rightarrow> helper res" where
  "setFactDefinition factDefinitions (ServiceFact code details) h =
     (let h = h\<lparr>expectedDefinitionsLen := expectedDefinitionsLen h + 1\<rparr> in
      case find (\<lambda>factDefinition. code = fd_Code factDefinition) factDefinitions of
        Some factDefinition \<Rightarrow> setFactDefinitions factDefinitions details (h\<lparr>definitions := AList.update code factDefinition (definitions h)\<rparr>)
      | None \<Rightarrow> Panic [PStr ''mock data error: service fact code '', PStr code, PStr '' has no matching fact definition''])"
| "setFactDefinitions factDefinitions [] h = Ok h"
| "setFactDefinitions factDefinitions (serviceFact # facts) h =
     onErr (setFactDefinition factDefinitions serviceFact h) (\<lambda>e. e) (\<lambda>h. setFactDefinitions factDefinitions facts h)"

definition VerifyAndGetMapping :: "serviceFact list \<Rightarrow> factDefinition list \<Rightarrow> (string \<times> factDefinition) list res" where
  "VerifyAndGetMapping facts factDefinitions =
     onErr (setFactDefinitions factDefinitions facts \<lparr>expectedDefinitionsLen = 0, definitions = []\<rparr>) (\<lambda>e. e) (\<lambda>h.
       if length (definitions h) \<noteq> expectedDefinitionsLen h
       then Panic [PStr ''mock data error: some service facts have no matching fact definitions'']
       else Ok (definitions h))"

section \<open>The tables\<close>

record mockFiles =
  propertiesV3JSON :: bytes
  propertiesV4JSON :: bytes
  serviceFactsV5JSON :: bytes
  serviceFactDefinitionsV5JSON :: bytes
  tripsV3BasicJSON :: bytes
  tripsV3ExtendedJSON :: bytes
  tripsV4BasicJSON :: bytes
  tripsV4ExtendedJSON :: bytes
  activityV3JSON :: bytes
  activityV3ExtendedJSON :: bytes
  activitySearchResultV3JSON :: bytes
  activityExtendedV4JSON :: bytes
  activitySearchResultV4JSON :: bytes
  seatMapV4JSON :: bytes
  seatMapAvailabilityV4JSON :: bytes

record mockCodecs =
  cPropertyV3 :: "extendedProperty codec"
  cPropertyV4 :: "extendedProperty codec"
  cPropertyV5 :: "extendedProperty codec"
  cServiceFactV5 :: "serviceFact codec"
  cFactDefinitionV5 :: "factDefinition codec"
  cTripBasicV3 :: "tripBasicV3 codec"
  cTripExtendedV3 :: "tripExtendedV3 codec"
  cTripBasicV4 :: "tripBasic codec"
  cTripExtendedV4 :: "tripExtended codec"
  cTripBasicV5 :: "tripBasic codec"
  cTripExtendedV5 :: "tripExtended codec"
  cActivityV3 :: "activityV3 codec"
  cActivityExtendedV3 :: "activityExtendedV3 codec"
  cActivityResultV3 :: "activityResultV3 codec"
  cActivityExtendedV4 :: "activityExtended codec"
  cActivityResultV4 :: "activityResult codec"
  cActivityExtendedV5 :: "activityExtended codec"
  cActivityResultV5 :: "activityResult codec"
  cSeatMapV4 :: "seatMap codec"
  cSeatMapInventoryV4 :: "seatMapInventory codec"

text \<open>The tables of the four kinds of products, in the order they are loaded.\<close>

record accommodationData =
  PropertiesV3 :: "extendedProperty list"
  PropertiesV4 :: "extendedProperty list"
  PropertiesV5 :: "extendedProperty list"
  ServiceFactsV5 :: "serviceFact list"
  ServiceFactDefinitionsV5 :: "factDefinition list"
  ServiceFactDefinitionsV5Mapping :: "(string \<times> factDefinition) list"

definition init_accommodation :: "(bytes \<Rightarrow> bytes list res) \<Rightarrow> mockCodecs \<Rightarrow> mockFiles \<Rightarrow> accommodationData res" where
  "init_accommodation decodeArray codecs files =
     onErr (mustUnmarshalStrictAndValidate decodeArray (cPropertyV3 codecs) (propertiesV3JSON files) ''error unmarshaling properties v3'') (\<lambda>e. e) (\<lambda>d_PropertiesV3.
     onErr (mustUnmarshalStrictAndValidate decodeArray (cPropertyV4 codecs) (propertiesV4JSON files) ''error unmarshaling properties v4'') (\<lambda>e. e) (\<lambda>d_PropertiesV4.
     onErr (mustUnmarshalStrictAndValidate decodeArray (cPropertyV5 codecs) (propertiesV4JSON files) ''error unmarshaling properties v5'') (\<lambda>e. e) (\<lambda>d_PropertiesV5.
     onErr (mustUnmarshalStrictAndValidate decodeArray (cServiceFactV5 codecs) (serviceFactsV5JSON files) ''error unmarshaling service facts v5'') (\<lambda>e. e) (\<lambda>d_ServiceFactsV5.
     onErr (mustUnmarshalStrictAndValidate decodeArray (cFactDefinitionV5 codecs) (serviceFactDefinitionsV5JSON files) ''error unmarshaling service fact definitions v5'') (\<lambda>e. e) (\<lambda>d_ServiceFactDefinitionsV5.
     onErr (VerifyAndGetMapping d_ServiceFactsV5 d_ServiceFactDefinitionsV5) (\<lambda>e. e) (\<lambda>d_ServiceFactDefinitionsV5Mapping.
       Ok \<lparr>PropertiesV3 = d_PropertiesV3, PropertiesV4 = d_PropertiesV4, PropertiesV5 = d_PropertiesV5,
         ServiceFactsV5 = d_ServiceFactsV5, ServiceFactDefinitionsV5 = d_ServiceFactDefinitionsV5, ServiceFactDefinitionsV5Mapping = d_ServiceFactDefinitionsV5Mapping\<rparr>))))))"

record transportData =
  TripsBasicV3 :: "tripBasicV3 list"
  TripsExtendedV3 :: "tripExtendedV3 list"
  TripsBasicV4 :: "tripBasic list"
  TripsExtendedV4 :: "tripExtended list"
  TripsV4 :: "TripV4 list"
  TripsBasicV5 :: "tripBasic list"
  TripsExtendedV5 :: "tripExtended list"
  TripsV5 :: "TripV5 list"

definition init_transport :: "(bytes \<Rightarrow> bytes list res) \<Rightarrow> mockCodecs \<Rightarrow> mockFiles \<Rightarrow> transportData res" where
  "init_transport decodeArray codecs files =
     onErr (mustUnmarshalStrictAndValidate decodeArray (cTripBasicV3 codecs) (tripsV3BasicJSON files) ''error unmarshaling trips basic v3'') (\<lambda>e. e) (\<lambda>d_TripsBasicV3.
     onErr (mustUnmarshalStrictAndValidate decodeArray (cTripExtendedV3 codecs) (tripsV3ExtendedJSON files) ''error unmarshaling trips extended v3'') (\<lambda>e. e) (\<lambda>d_TripsExtendedV3.
     onErr (mustUnmarshalStrictAndValidate decodeArray (cTripBasicV4 codecs) (tripsV4BasicJSON files) ''error unmarshaling trips basic v4'') (\<lambda>e. e) (\<lambda>d_TripsBasicV4.
     onErr (mustUnmarshalStrictAndValidate decodeArray (cTripExtendedV4 codecs) (tripsV4ExtendedJSON files) ''error unmarshaling trips extended v4'') (\<lambda>e. e) (\<lambda>d_TripsExtendedV4.
     onErr (VerifyAndGetTrips (map Some d_TripsBasicV4) (map Some d_TripsExtendedV4)) (\<lambda>e. e) (\<lambda>d_TripsV4.
     onErr (mustUnmarshalStrictAndValidate decodeArray (cTripBasicV5 codecs) (tripsV4BasicJSON files) ''error unmarshaling trips basic v5'') (\<lambda>e. e) (\<lambda>d_TripsBasicV5.
     onErr (mustUnmarshalStrictAndValidate decodeArray (cTripExtendedV5 codecs) (tripsV4ExtendedJSON files) ''error unmarshaling trips extended v5'') (\<lambda>e. e) (\<lambda>d_TripsExtendedV5.
     onErr (VerifyAndGetTripsV5 (map Some d_TripsBasicV5) (map Some d_TripsExtendedV5)) (\<lambda>e. e) (\<lambda>d_TripsV5.
       Ok \<lparr>TripsBasicV3 = d_TripsBasicV3, TripsExtendedV3 = d_TripsExtendedV3, TripsBasicV4 = d_TripsBasicV4,
         TripsExtendedV4 = d_TripsExtendedV4, TripsV4 = d_TripsV4, TripsBasicV5 = d_TripsBasicV5,
         TripsExtendedV5 = d_TripsExtendedV5, TripsV5 = d_TripsV5\<rparr>))))))))"

record activityData =
  ActivityV3 :: "activityV3 list"
  ActivityExtendedV3 :: "activityExtendedV3 list"
  ActivitySearchResultV3 :: "activityResultV3 list"
  ActivityExtendedV4 :: "activityExtended list"
  ActivitySearchResultV4 :: "activityResult list"
  ActivityExtendedV5 :: "activityExtended list"
  ActivitySearchResultV5 :: "activityResult list"

definition init_activity :: "(bytes \<Rightarrow> bytes list res) \<Rightarrow> mockCodecs \<Rightarrow> mockFiles \<Rightarrow> activityData res" where
  "init_activity decodeArray codecs files =
     onErr (mustUnmarshalStrictAndValidate decodeArray (cActivityV3 codecs) (activityV3JSON files) ''error unmarshaling activities v3'') (\<lambda>e. e) (\<lambda>d_ActivityV3.
     onErr (mustUnmarshalStrictAndValidate decodeArray (cActivityExtendedV3 codecs) (activityV3ExtendedJSON files) ''error unmarshaling activities extended v3'') (\<lambda>e. e) (\<lambda>d_ActivityExtendedV3.
     onErr (mustUnmarshalStrictAndValidate decodeArray (cActivityResultV3 codecs) (activitySearchResultV3JSON files) ''error unmarshaling activities search v3'') (\<lambda>e. e) (\<lambda>d_ActivitySearchResultV3.
     onErr (mustUnmarshalStrictAndValidate decodeArray (cActivityExtendedV4 codecs) (activityExtendedV4JSON files) ''error unmarshaling activities extended v4'') (\<lambda>e. e) (\<lambda>d_ActivityExtendedV4.
     onErr (mustUnmarshalStrictAndValidate decodeArray (cActivityResultV4 codecs) (activitySearchResultV4JSON files) ''error unmarshaling activities search v4'') (\<lambda>e. e) (\<lambda>d_ActivitySearchResultV4.
     onErr (activity_Verify d_ActivityExtendedV4 d_ActivitySearchResultV4) (\<lambda>e. e) (\<lambda>_.
     onErr (mustUnmarshalStrictAndValidate decodeArray (cActivityExtendedV5 codecs) (activityExtendedV4JSON files) ''error unmarshaling activities extended v5'') (\<lambda>e. e) (\<lambda>d_ActivityExtendedV5.
     onErr (mustUnmarshalStrictAndValidate decodeArray (cActivityResultV5 codecs) (activitySearchResultV4JSON files) ''error unmarshaling activity search result v5'') (\<lambda>e. e) (\<lambda>d_ActivitySearchResultV5.
     onErr (activity_VerifyV5 d_ActivityExtendedV5 d_ActivitySearchResultV5) (\<lambda>e. e) (\<lambda>_.
       Ok \<lparr>ActivityV3 = d_ActivityV3, ActivityExtendedV3 = d_ActivityExtendedV3, ActivitySearchResultV3 = d_ActivitySearchResultV3,
         ActivityExtendedV4 = d_ActivityExtendedV4, ActivitySearchResultV4 = d_ActivitySearchResultV4, ActivityExtendedV5 = d_ActivityExtendedV5,
         ActivitySearchResultV5 = d_ActivitySearchResultV5\<rparr>)))))))))"

record seatMapData =
  SeatMapV4 :: "seatMap list"
  SeatMapAvailabilityV4 :: "seatMapInventory list"

definition init_seatMap :: "(bytes \<Rightarrow> bytes list res) \<Rightarrow> mockCodecs \<Rightarrow> mockFiles \<Rightarrow> seatMapData res" where
  "init_seatMap decodeArray codecs files =
     onErr (mustUnmarshalStrictAndValidate decodeArray (cSeatMapV4 codecs) (seatMapV4JSON files) ''error unmarshaling seat map v4'') (\<lambda>e. e) (\<lambda>d_SeatMapV4.
     onErr (mustUnmarshalStrictAndValidate decodeArray (cSeatMapInventoryV4 codecs) (seatMapAvailabilityV4JSON files) ''error unmarshaling seat map availability v4'') (\<lambda>e. e) (\<lambda>d_SeatMapAvailabilityV4.
       Ok \<lparr>SeatMapV4 = d_SeatMapV4, SeatMapAvailabilityV4 = d_SeatMapAvailabilityV4\<rparr>))"

record mockData =
  md_accommodation :: accommodationData
  md_transport :: transportData
  md_activity :: activityData
  md_seatMap :: seatMapData

definition mock_init :: "(bytes \<Rightarrow> bytes list res) \<Rightarrow> mockCodecs \<Rightarrow> mockFiles \<Rightarrow> mockData res" where
  "mock_init decodeArray codecs files =
     onErr (init_accommodation decodeArray codecs files) (\<lambda>e. e) (\<lambda>d_accommodation.
     onErr (init_transport decodeArray codecs files) (\<lambda>e. e) (\<lambda>d_transport.
     onErr (init_activity decodeArray codecs files) (\<lambda>e. e) (\<lambda>d_activity.
     onErr (init_seatMap decodeArray codecs files) (\<lambda>e. e) (\<lambda>d_seatMap.
       Ok \<lparr>md_accommodation = d_accommodation, md_transport = d_transport, md_activity = d_activity, md_seatMap = d_seatMap\<rparr>))))"

section \<open>What the checks accept\<close>

lemma unmarshalStrictAndValidate_Ok:
  assumes "unmarshalStrictAndValidate decodeArray c f = Ok ms"
  shows "\<exists>raws. decodeArray f = Ok raws \<and> list_all2 (\<lambda>raw m. pc_Unmarshal c raw = Ok m \<and> pc_Validate c m = Ok ()) raws ms"
proof -
  have u: "unmarshalItems g i raws = Ok ms \<Longrightarrow> list_all2 (\<lambda>raw m. g raw = Ok m) raws ms" for g i raws ms
    by (induction raws arbitrary: i ms) (auto simp: onErr_eq_Ok_iff)
  have v: "validateItems g i ms = Ok () \<Longrightarrow> \<forall>m \<in> set ms. g m = Ok ()" for g i ms
    by (induction ms arbitrary: i) (auto simp: onErr_eq_Ok_iff)
  obtain raws where r: "decodeArray f = Ok raws" "unmarshalItems (pc_Unmarshal c) 0 raws = Ok ms" "validateItems (pc_Validate c) 0 ms = Ok ()"
    using assms by (auto simp: unmarshalStrictAndValidate_def onErr_eq_Ok_iff)
  then show ?thesis using u[OF r(2)] v[OF r(3)] by (auto simp: list_all2_conv_all_nth)
qed

text \<open>The codes of the facts, with those of their details.\<close>

fun factCodes :: "serviceFact \<Rightarrow> string list" where
  "factCodes (ServiceFact code details) = code # concat (map factCodes details)"

definition lookupFact :: "factDefinition list \<Rightarrow> string \<Rightarrow> factDefinition option" where
  "lookupFact defs code = find (\<lambda>d. code = fd_Code d) defs"

text \<open>The loop over the codes, as a fold.\<close>

definition defineAll :: "factDefinition list \<Rightarrow> string list \<Rightarrow> helper \<Rightarrow> helper" where
  "defineAll defs codes h = fold (\<lambda>code h. h\<lparr>expectedDefinitionsLen := expectedDefinitionsLen h + 1,
     definitions := AList.update code (the (lookupFact defs code)) (definitions h)\<rparr>) codes h"

lemma setFactDefinition_fold:
  "setFactDefinition defs f h = Ok h' \<longleftrightarrow> (\<forall>c \<in> set (factCodes f). lookupFact defs c \<noteq> None) \<and> h' = defineAll defs (factCodes f) h"
  "setFactDefinitions defs fs h = Ok h' \<longleftrightarrow>
     (\<forall>c \<in> set (concat (map factCodes fs)). lookupFact defs c \<noteq> None) \<and> h' = defineAll defs (concat (map factCodes fs)) h"
proof (induction defs f h and defs fs h arbitrary: h' and h' rule: setFactDefinition_setFactDefinitions.induct)
  case (1 defs code details h)
  then show ?case by (cases "lookupFact defs code") (simp_all add: Let_def lookupFact_def defineAll_def)
next
  case (3 defs f fs h)
  then show ?case by (auto simp: onErr_eq_Ok_iff defineAll_def)
qed (auto simp: defineAll_def)

lemma defineAll_fields:
  "expectedDefinitionsLen (defineAll defs codes h) = expectedDefinitionsLen h + length codes"
  "map_of (definitions (defineAll defs codes h)) = (\<lambda>c. if c \<in> set codes then Some (the (lookupFact defs c)) else map_of (definitions h) c)"
  "distinct (map fst (definitions h)) \<Longrightarrow> distinct (map fst (definitions (defineAll defs codes h)))"
  by (induction codes arbitrary: h) (auto simp: defineAll_def update_conv' fun_eq_iff distinct_update)

text \<open>The service facts of the sample data. Their check succeeds exactly if every code, those of details at any depth included, has a
  definition and no code occurs twice; the mapping then sends each code to its first definition, and nothing else.\<close>

lemma fact_mapping:
  "VerifyAndGetMapping facts defs = Ok m \<longleftrightarrow>
     (let codes = concat (map factCodes facts) in
      set codes \<subseteq> fd_Code ` set defs \<and> distinct codes \<and> m = definitions (defineAll defs codes \<lparr>expectedDefinitionsLen = 0, definitions = []\<rparr>) \<and>
      map_of m = (\<lambda>c. if c \<in> set codes then lookupFact defs c else None))"
proof -
  let ?h = "\<lparr>expectedDefinitionsLen = 0, definitions = []\<rparr>" and ?codes = "concat (map factCodes facts)"
  let ?m = "definitions (defineAll defs ?codes ?h)"
  have dom: "lookupFact defs c \<noteq> None \<longleftrightarrow> c \<in> fd_Code ` set defs" for c by (auto simp: lookupFact_def find_None_iff)
  have d: "distinct (map fst ?m)" by (rule defineAll_fields(3)) simp
  have "set (map fst ?m) = dom (map_of ?m)" by (simp add: dom_map_of_conv_image_fst)
  also have "\<dots> = set ?codes" by (auto simp: defineAll_fields(2) split: if_splits)
  finally have "length ?m = card (set ?codes)" using distinct_card[OF d] by simp
  then have len: "length ?m = length ?codes \<longleftrightarrow> distinct ?codes" by (metis card_distinct distinct_card)
  have "VerifyAndGetMapping facts defs = Ok m \<longleftrightarrow>
      (\<forall>c \<in> set ?codes. lookupFact defs c \<noteq> None) \<and> length ?m = length ?codes \<and> m = ?m"
    unfolding VerifyAndGetMapping_def onErr_eq_Ok_iff setFactDefinition_fold(2) by (auto simp: defineAll_fields(1))
  moreover have "map_of ?m = (\<lambda>c. if c \<in> set ?codes then lookupFact defs c else None)" if "\<forall>c \<in> set ?codes. lookupFact defs c \<noteq> None"
    using that unfolding defineAll_fields(2) by (auto simp: fun_eq_iff)
  ultimately show ?thesis unfolding len Let_def dom by blast
qed

lemma init_checks:
  "init_transport decodeArray codecs files = Ok t \<Longrightarrow> VerifyAndGetTrips (map Some (TripsBasicV4 t)) (map Some (TripsExtendedV4 t)) = Ok (TripsV4 t)"
  "init_activity decodeArray codecs files = Ok a \<Longrightarrow> activity_Verify (ActivityExtendedV4 a) (ActivitySearchResultV4 a) = Ok ()"
  "init_activity decodeArray codecs files = Ok a \<Longrightarrow> activity_VerifyV5 (ActivityExtendedV5 a) (ActivitySearchResultV5 a) = Ok ()"
  "init_accommodation decodeArray codecs files = Ok c \<Longrightarrow>
     VerifyAndGetMapping (ServiceFactsV5 c) (ServiceFactDefinitionsV5 c) = Ok (ServiceFactDefinitionsV5Mapping c)"
  by (auto simp: init_transport_def init_activity_def init_accommodation_def onErr_eq_Ok_iff)

text \<open>The plugin starts only with sample data that fits together: the trips of the searches are those of the lists, in both versions, and every
  search result belongs to a unit and a service of an activity.\<close>

lemma mock_init_checked:
  assumes "mock_init decodeArray codecs files = Ok d"
  shows "BasicV4 (TripsV4 (md_transport d)) = map Some (TripsBasicV4 (md_transport d))"
    "ExtendedV4 (TripsV4 (md_transport d)) = map Some (TripsExtendedV4 (md_transport d))"
    "\<forall>t \<in> set (TripsV4 (md_transport d)). VerifyV4 t = Ok ()"
    "list_all2 resultBelongs (expectedResults (ActivityExtendedV4 (md_activity d))) (ActivitySearchResultV4 (md_activity d))"
    "list_all2 resultBelongs (expectedResults (ActivityExtendedV5 (md_activity d))) (ActivitySearchResultV5 (md_activity d))"
    "VerifyAndGetMapping (ServiceFactsV5 (md_accommodation d)) (ServiceFactDefinitionsV5 (md_accommodation d)) =
       Ok (ServiceFactDefinitionsV5Mapping (md_accommodation d))"
proof -
  have i: "init_accommodation decodeArray codecs files = Ok (md_accommodation d)" "init_transport decodeArray codecs files = Ok (md_transport d)"
    "init_activity decodeArray codecs files = Ok (md_activity d)"
    using assms by (auto simp: mock_init_def onErr_eq_Ok_iff)
  show "BasicV4 (TripsV4 (md_transport d)) = map Some (TripsBasicV4 (md_transport d))"
    "ExtendedV4 (TripsV4 (md_transport d)) = map Some (TripsExtendedV4 (md_transport d))" "\<forall>t \<in> set (TripsV4 (md_transport d)). VerifyV4 t = Ok ()"
    using VerifyAndGetTrips_Ok[OF init_checks(1)[OF i(2)]] by blast+
  show "list_all2 resultBelongs (expectedResults (ActivityExtendedV4 (md_activity d))) (ActivitySearchResultV4 (md_activity d))"
    "list_all2 resultBelongs (expectedResults (ActivityExtendedV5 (md_activity d))) (ActivitySearchResultV5 (md_activity d))"
    using init_checks(2,3)[OF i(3)] by (simp_all add: activity_Verify_V5 activity_Verify_iff)
  show "VerifyAndGetMapping (ServiceFactsV5 (md_accommodation d)) (ServiceFactDefinitionsV5 (md_accommodation d)) =
       Ok (ServiceFactDefinitionsV5Mapping (md_accommodation d))"
    by (rule init_checks(4)[OF i(1)])
qed

end
