(* ===== verification/Mock_Events.thy ===== *)
theory Mock_Events
  imports Mock_Common "HOL-Library.Sublist"
begin

text \<open>
  The event server of the mock partner plugin (\<^verbatim>\<open>pp-mock/events/events.go\<close>): every unary request is offered to
  \<open>SendProtoEvent\<close>, one goroutine takes the events and hands each to every open \<open>Subscribe\<close> stream. The goroutines
  are a step relation: a step runs a goroutine up to its next blocking operation (a mutex, an unbuffered channel, a
  call on the stream). The critical sections of \<open>subscribe\<close> and \<open>unsubscribe\<close> do not block, so each is one step,
  which cannot be taken while \<open>propagate\<close> holds the read lock. \<open>proto.Marshal\<close> and the descriptor are parameters.

  An unbuffered channel is a rendezvous of a sending and a receiving goroutine. Sending on a closed channel, closing
  one twice and using the nil event of a closed channel panic, and nothing recovers: the process ends (\<open>ev_crashed\<close>).
\<close>

section \<open>State\<close>

record SubscribeResponse =
  er_Data :: bytes
  er_TypeName :: string

text \<open>The goroutine of \<open>Start\<close>: at its \<open>select\<close>, in \<open>propagate\<close> with the keys still to visit, in \<open>stop\<close> before it
  has the mutex, in the loop that drains the channel, or ended.\<close>

datatype serverPc = SelectLoop | Propagating SubscribeResponse "string list" | AwaitMutex | Draining | LoopEnded

text \<open>A call of \<open>SendProtoEvent\<close>: before it has the mutex, at the send on \<open>eventChan\<close>, or back.\<close>

datatype 'm senderPc = SendLocking 'm | SendBlocked SubscribeResponse | SendReturned "unit res"

text \<open>A call of \<open>Subscribe\<close>: at its \<open>select\<close>, in \<open>stream.Send\<close>, in the deferred \<open>unsubscribe\<close> before it has the lock,
  or back.\<close>

datatype streamPc =
  StreamSelect string nat
| StreamSending string nat SubscribeResponse
| StreamLeaving string "unit res"
| StreamReturned "unit res"

record stream_call =
  sc_pc :: streamPc
  sc_done :: bool
  sc_sent :: "SubscribeResponse list"
  sc_joined :: nat

datatype mutexHolder = HeldBySender nat | HeldByServer

text \<open>A channel is a number, \<open>ev_chans\<close> counts those made. \<open>ev_taken\<close> and \<open>sc_joined\<close> record history: the events the
  goroutine took and how many there were when the stream subscribed.\<close>

record 'm eventServer =
  subscriptionChans :: "string \<rightharpoonup> nat"
  ev_chans :: nat
  ev_closed :: "nat set"
  ev_stopClosed :: bool
  ev_sendMutex :: "mutexHolder option"
  ev_isStopped :: bool
  ev_eventChanClosed :: bool
  ev_loop :: serverPc
  ev_ctxDone :: bool
  ev_senders :: "nat \<rightharpoonup> 'm senderPc"
  ev_streams :: "nat \<rightharpoonup> stream_call"
  ev_taken :: "SubscribeResponse list"
  ev_crashed :: bool

definition events_NewServer :: "'m eventServer" where
  "events_NewServer = \<lparr>subscriptionChans = Map.empty, ev_chans = 0, ev_closed = {}, ev_stopClosed = False, ev_sendMutex = None,
     ev_isStopped = False, ev_eventChanClosed = False, ev_loop = SelectLoop, ev_ctxDone = False, ev_senders = Map.empty,
     ev_streams = Map.empty, ev_taken = [], ev_crashed = False\<rparr>"

section \<open>Operations\<close>

text \<open>\<open>SendProtoEvent\<close> once it holds the mutex: \<open>Ok None\<close> is the early return of a stopped sender.\<close>

definition SendProtoEvent :: "('m \<Rightarrow> err + bytes) \<Rightarrow> ('m \<Rightarrow> string) \<Rightarrow> bool \<Rightarrow> 'm \<Rightarrow> SubscribeResponse option res" where
  "SendProtoEvent marshal fullName stopped m =
     (if stopped then Ok None
      else case marshal m of Inl e \<Rightarrow> Fail e | Inr b \<Rightarrow> Ok (Some \<lparr>er_Data = b, er_TypeName = fullName m\<rparr>))"

definition send_locked :: "('m \<Rightarrow> err + bytes) \<Rightarrow> ('m \<Rightarrow> string) \<Rightarrow> nat \<Rightarrow> 'm \<Rightarrow> 'm eventServer \<Rightarrow> 'm eventServer" where
  "send_locked marshal fullName i m s =
     (case SendProtoEvent marshal fullName (ev_isStopped s) m of
        Ok None \<Rightarrow> s\<lparr>ev_senders := (ev_senders s)(i \<mapsto> SendReturned (Ok ()))\<rparr>
      | Ok (Some e) \<Rightarrow> s\<lparr>ev_senders := (ev_senders s)(i \<mapsto> SendBlocked e), ev_sendMutex := Some (HeldBySender i)\<rparr>
      | Fail e \<Rightarrow> s\<lparr>ev_senders := (ev_senders s)(i \<mapsto> SendReturned (Fail e))\<rparr>
      | Panic t \<Rightarrow> s\<lparr>ev_crashed := True\<rparr>)"

text \<open>The receiver of \<open>eventChan\<close> lets the sender return, which gives the mutex back.\<close>

definition send_received :: "nat \<Rightarrow> 'm eventServer \<Rightarrow> 'm eventServer" where
  "send_received i s = s\<lparr>ev_senders := (ev_senders s)(i \<mapsto> SendReturned (Ok ())), ev_sendMutex := None\<rparr>"

definition subscribe :: "string \<Rightarrow> nat \<Rightarrow> 'm eventServer \<Rightarrow> 'm eventServer" where
  "subscribe subscriptionID j s =
     s\<lparr>subscriptionChans := (subscriptionChans s)(subscriptionID \<mapsto> ev_chans s), ev_chans := Suc (ev_chans s),
       ev_streams := (ev_streams s)(j \<mapsto> \<lparr>sc_pc = StreamSelect subscriptionID (ev_chans s), sc_done = False, sc_sent = [],
         sc_joined = length (ev_taken s)\<rparr>)\<rparr>"

definition unsubscribe :: "string \<Rightarrow> 'm eventServer \<Rightarrow> 'm eventServer" where
  "unsubscribe subscriptionID s =
     (case subscriptionChans s subscriptionID of
        None \<Rightarrow> s
      | Some ch \<Rightarrow> s\<lparr>ev_closed := insert ch (ev_closed s), subscriptionChans := (subscriptionChans s)(subscriptionID := None)\<rparr>)"

definition set_stream :: "nat \<Rightarrow> stream_call \<Rightarrow> 'm eventServer \<Rightarrow> 'm eventServer" where
  "set_stream j c s = s\<lparr>ev_streams := (ev_streams s)(j \<mapsto> c)\<rparr>"

text \<open>The rest of \<open>stop\<close> after the loop over \<open>eventChan\<close>: it closes the channel, unlocks and closes \<open>stopChan\<close>. Such a
  loop ends only when the channel is closed.\<close>

definition stop_drained :: "'m eventServer \<Rightarrow> 'm eventServer" where
  "stop_drained s =
     (if ev_eventChanClosed s then s\<lparr>ev_crashed := True\<rparr>
      else s\<lparr>ev_eventChanClosed := True, ev_sendMutex := None, ev_stopClosed := True, ev_loop := LoopEnded\<rparr>)"

definition readLocked :: "'m eventServer \<Rightarrow> bool" where
  "readLocked s \<longleftrightarrow> (case ev_loop s of Propagating _ _ \<Rightarrow> True | _ \<Rightarrow> False)"

section \<open>Steps\<close>

text \<open>The name of a subscription is the time in nanoseconds. \<open>uniq\<close> says whether the clock gives a new subscription a
  name no open one has.\<close>

inductive ev_act :: "bool \<Rightarrow> ('m \<Rightarrow> err + bytes) \<Rightarrow> ('m \<Rightarrow> string) \<Rightarrow> 'm eventServer \<Rightarrow> 'm eventServer \<Rightarrow> bool"
  for uniq marshal fullName where
  ctx_done: "ev_act uniq marshal fullName s (s\<lparr>ev_ctxDone := True\<rparr>)"
| sends: "ev_senders s i = None \<Longrightarrow> ev_act uniq marshal fullName s (s\<lparr>ev_senders := (ev_senders s)(i \<mapsto> SendLocking m)\<rparr>)"
| locks: "ev_senders s i = Some (SendLocking m) \<Longrightarrow> ev_sendMutex s = None \<Longrightarrow>
    ev_act uniq marshal fullName s (send_locked marshal fullName i m s)"
| sends_closed: "ev_senders s i = Some (SendBlocked e) \<Longrightarrow> ev_eventChanClosed s \<Longrightarrow> ev_act uniq marshal fullName s (s\<lparr>ev_crashed := True\<rparr>)"
| takes: "ev_loop s = SelectLoop \<Longrightarrow> ev_senders s i = Some (SendBlocked e) \<Longrightarrow> \<not> ev_eventChanClosed s \<Longrightarrow>
    distinct ks \<Longrightarrow> set ks = dom (subscriptionChans s) \<Longrightarrow>
    ev_act uniq marshal fullName s ((send_received i s)\<lparr>ev_loop := Propagating e ks, ev_taken := ev_taken s @ [e]\<rparr>)"
| hands: "ev_loop s = Propagating e (k # ks) \<Longrightarrow> subscriptionChans s k = Some ch \<Longrightarrow> ch \<notin> ev_closed s \<Longrightarrow>
    ev_streams s j = Some c \<Longrightarrow> sc_pc c = StreamSelect d ch \<Longrightarrow>
    ev_act uniq marshal fullName s ((set_stream j (c\<lparr>sc_pc := StreamSending d ch e\<rparr>) s)\<lparr>ev_loop := Propagating e ks\<rparr>)"
| hands_closed: "ev_loop s = Propagating e (k # ks) \<Longrightarrow> subscriptionChans s k = Some ch \<Longrightarrow> ch \<in> ev_closed s \<Longrightarrow>
    ev_act uniq marshal fullName s (s\<lparr>ev_crashed := True\<rparr>)"
| propagated: "ev_loop s = Propagating e [] \<Longrightarrow> ev_act uniq marshal fullName s (s\<lparr>ev_loop := SelectLoop\<rparr>)"
| sees_done: "ev_loop s = SelectLoop \<Longrightarrow> ev_ctxDone s \<Longrightarrow> ev_act uniq marshal fullName s (s\<lparr>ev_loop := AwaitMutex\<rparr>)"
| stop_locks: "ev_loop s = AwaitMutex \<Longrightarrow> ev_sendMutex s = None \<Longrightarrow>
    ev_act uniq marshal fullName s (s\<lparr>ev_sendMutex := Some HeldByServer, ev_isStopped := True, ev_loop := Draining\<rparr>)"
| drains: "ev_loop s = Draining \<Longrightarrow> ev_senders s i = Some (SendBlocked e) \<Longrightarrow> ev_act uniq marshal fullName s (send_received i s)"
| drain_ends: "ev_loop s = Draining \<Longrightarrow> ev_eventChanClosed s \<Longrightarrow> ev_act uniq marshal fullName s (stop_drained s)"
| subscribes: "ev_streams s j = None \<Longrightarrow> \<not> readLocked s \<Longrightarrow> (uniq \<Longrightarrow> subscriptionChans s (show_int nanos) = None) \<Longrightarrow>
    ev_act uniq marshal fullName s (subscribe (show_int nanos) j s)"
| stream_done: "ev_streams s j = Some c \<Longrightarrow> ev_act uniq marshal fullName s (set_stream j (c\<lparr>sc_done := True\<rparr>) s)"
| stream_sent: "ev_streams s j = Some c \<Longrightarrow> sc_pc c = StreamSending d ch e \<Longrightarrow>
    ev_act uniq marshal fullName s (set_stream j (c\<lparr>sc_pc := StreamSelect d ch, sc_sent := sc_sent c @ [e]\<rparr>) s)"
| stream_fails: "ev_streams s j = Some c \<Longrightarrow> sc_pc c = StreamSending d ch e \<Longrightarrow>
    ev_act uniq marshal fullName s (set_stream j (c\<lparr>sc_pc := StreamLeaving d (Fail x)\<rparr>) s)"
| stream_nil: "ev_streams s j = Some c \<Longrightarrow> sc_pc c = StreamSelect d ch \<Longrightarrow> ch \<in> ev_closed s \<Longrightarrow>
    ev_act uniq marshal fullName s (s\<lparr>ev_crashed := True\<rparr>)"
| stream_stops: "ev_streams s j = Some c \<Longrightarrow> sc_pc c = StreamSelect d ch \<Longrightarrow> ev_stopClosed s \<or> sc_done c \<Longrightarrow>
    ev_act uniq marshal fullName s (set_stream j (c\<lparr>sc_pc := StreamLeaving d (Ok ())\<rparr>) s)"
| unsubscribes: "ev_streams s j = Some c \<Longrightarrow> sc_pc c = StreamLeaving d r \<Longrightarrow> \<not> readLocked s \<Longrightarrow>
    ev_act uniq marshal fullName s (unsubscribe d (set_stream j (c\<lparr>sc_pc := StreamReturned r\<rparr>) s))"

definition ev_step :: "bool \<Rightarrow> ('m \<Rightarrow> err + bytes) \<Rightarrow> ('m \<Rightarrow> string) \<Rightarrow> 'm eventServer \<Rightarrow> 'm eventServer \<Rightarrow> bool" where
  "ev_step uniq marshal fullName s s' \<longleftrightarrow> \<not> ev_crashed s \<and> ev_act uniq marshal fullName s s'"

inductive_cases ev_actE [consumes 1, case_names ctx_done sends locks sends_closed takes hands hands_closed propagated sees_done
  stop_locks drains drain_ends subscribes stream_done stream_sent stream_fails stream_nil stream_stops unsubscribes]:
  "ev_act uniq marshal fullName s s'"

section \<open>The mutex of the sender\<close>

lemma send_locked_cases:
  obtains (returns) r where "send_locked marshal fullName i m s = s\<lparr>ev_senders := (ev_senders s)(i \<mapsto> SendReturned r)\<rparr>"
  | (blocks) e where "\<not> ev_isStopped s"
      "send_locked marshal fullName i m s = s\<lparr>ev_senders := (ev_senders s)(i \<mapsto> SendBlocked e), ev_sendMutex := Some (HeldBySender i)\<rparr>"
  by (cases "ev_isStopped s"; cases "marshal m") (auto simp: send_locked_def SendProtoEvent_def)

definition blocked :: "(nat \<rightharpoonup> 'm senderPc) \<Rightarrow> nat \<Rightarrow> bool" where
  "blocked calls i \<longleftrightarrow> (case calls i of Some (SendBlocked _) \<Rightarrow> True | _ \<Rightarrow> False)"

definition lock_ok :: "serverPc \<Rightarrow> mutexHolder option \<Rightarrow> (nat \<rightharpoonup> 'm senderPc) \<Rightarrow> bool \<Rightarrow> bool \<Rightarrow> bool \<Rightarrow> bool" where
  "lock_ok lp holder calls stopped eventClosed stopClosed \<longleftrightarrow> \<not> eventClosed \<and> \<not> stopClosed \<and> lp \<noteq> LoopEnded \<and>
     (\<forall>i. blocked calls i \<longleftrightarrow> holder = Some (HeldBySender i)) \<and>
     (holder = Some HeldByServer \<longleftrightarrow> lp = Draining) \<and> (stopped \<longleftrightarrow> lp = Draining)"

definition lock_inv :: "'m eventServer \<Rightarrow> bool" where
  "lock_inv s \<longleftrightarrow> lock_ok (ev_loop s) (ev_sendMutex s) (ev_senders s) (ev_isStopped s) (ev_eventChanClosed s) (ev_stopClosed s)"

lemma blocked_simps [simp]:
  "blocked (calls(i \<mapsto> SendBlocked e)) j \<longleftrightarrow> j = i \<or> blocked calls j"
  "blocked (calls(i \<mapsto> SendLocking m)) j \<longleftrightarrow> j \<noteq> i \<and> blocked calls j"
  "blocked (calls(i \<mapsto> SendReturned r)) j \<longleftrightarrow> j \<noteq> i \<and> blocked calls j"
  by (auto simp: blocked_def)

lemma blocked_iff: "blocked calls i \<longleftrightarrow> (\<exists>e. calls i = Some (SendBlocked e))"
  by (auto simp: blocked_def split: option.splits senderPc.splits)

lemma lock_ok_loop: "lock_ok lp h calls st ec sc \<Longrightarrow> lp \<noteq> Draining \<Longrightarrow> lp' \<noteq> Draining \<Longrightarrow> lp' \<noteq> LoopEnded \<Longrightarrow> lock_ok lp' h calls st ec sc"
  by (simp add: lock_ok_def)

lemma lock_ok_sender:
  "lock_ok lp h calls st ec sc \<Longrightarrow> \<not> blocked calls i \<Longrightarrow> lock_ok lp h (calls(i \<mapsto> SendLocking m)) st ec sc"
  "lock_ok lp h calls st ec sc \<Longrightarrow> \<not> blocked calls i \<Longrightarrow> lock_ok lp h (calls(i \<mapsto> SendReturned r)) st ec sc"
  by (auto simp: lock_ok_def)

lemma lock_ok_blocks: "lock_ok lp None calls st ec sc \<Longrightarrow> lock_ok lp (Some (HeldBySender i)) (calls(i \<mapsto> SendBlocked e)) st ec sc"
  by (auto simp: lock_ok_def)

lemma lock_ok_received:
  "lock_ok lp h calls st ec sc \<Longrightarrow> blocked calls i \<Longrightarrow> lp' \<noteq> Draining \<Longrightarrow> lp' \<noteq> LoopEnded \<Longrightarrow>
     lock_ok lp' None (calls(i \<mapsto> SendReturned r)) st ec sc"
  by (auto simp: lock_ok_def)

lemma unsubscribe_sel [simp]:
  "ev_chans (unsubscribe d s) = ev_chans s" "ev_stopClosed (unsubscribe d s) = ev_stopClosed s" "ev_sendMutex (unsubscribe d s) = ev_sendMutex s"
  "ev_isStopped (unsubscribe d s) = ev_isStopped s" "ev_eventChanClosed (unsubscribe d s) = ev_eventChanClosed s"
  "ev_loop (unsubscribe d s) = ev_loop s" "ev_ctxDone (unsubscribe d s) = ev_ctxDone s" "ev_senders (unsubscribe d s) = ev_senders s"
  "ev_streams (unsubscribe d s) = ev_streams s" "ev_taken (unsubscribe d s) = ev_taken s" "ev_crashed (unsubscribe d s) = ev_crashed s"
  by (simp_all add: unsubscribe_def split: option.split)

lemma lock_inv_step:
  assumes "ev_act uniq marshal fullName s s'" and "lock_inv s"
  shows "lock_inv s'"
  using assms(1)
proof (cases rule: ev_actE)
  case (sends i m)
  then show ?thesis using assms(2) by (simp add: lock_inv_def blocked_def lock_ok_sender)
next
  case (locks i m)
  then show ?thesis using assms(2)
    by (cases rule: send_locked_cases[of marshal fullName i m s]) (simp_all add: lock_inv_def blocked_def lock_ok_sender lock_ok_blocks)
next
  case (takes i e ks)
  then show ?thesis using assms(2) by (simp add: lock_inv_def send_received_def blocked_def lock_ok_received)
next
  case (drains i e)
  then have "ev_sendMutex s = Some HeldByServer" "ev_sendMutex s = Some (HeldBySender i)" using assms(2) unfolding lock_inv_def lock_ok_def blocked_iff by blast+
  then show ?thesis by simp
next
  case stop_locks
  then show ?thesis using assms(2) by (auto simp: lock_inv_def lock_ok_def)
next
  case drain_ends
  then show ?thesis using assms(2) by (simp add: lock_inv_def lock_ok_def)
qed (use assms(2) in \<open>auto simp: lock_inv_def set_stream_def subscribe_def intro: lock_ok_loop\<close>)

lemma lock_inv_init: "lock_inv events_NewServer"
  by (simp add: lock_inv_def lock_ok_def events_NewServer_def blocked_def)

interpretation sender_lock: step_invariant "ev_step uniq marshal fullName" lock_inv for uniq marshal fullName
  by unfold_locales (auto simp: ev_step_def intro: lock_inv_step)

text \<open>\<open>stop\<close> never gets past its loop over \<open>eventChan\<close>, which is closed only after that loop: the stop channel is never
  closed, and \<open>Subscribe\<close> never returns because the server stops.\<close>

theorem stop_never_completes:
  assumes "(ev_step uniq marshal fullName)\<^sup>*\<^sup>* events_NewServer s"
  shows "\<not> ev_stopClosed s \<and> \<not> ev_eventChanClosed s \<and> ev_loop s \<noteq> LoopEnded"
  using sender_lock.run_keeps[OF assms lock_inv_init] unfolding lock_inv_def lock_ok_def by blast

text \<open>Nor does a call of \<open>SendProtoEvent\<close> return once \<open>stop\<close> has the mutex: the answer to a stopped sender is never given.\<close>

definition no_returns :: "'m eventServer \<Rightarrow> 'm eventServer \<Rightarrow> bool" where
  "no_returns s0 s \<longleftrightarrow> lock_inv s \<and> ev_loop s = Draining \<and>
     (\<forall>i r. ev_senders s i = Some (SendReturned r) \<longrightarrow> ev_senders s0 i = Some (SendReturned r))"

lemma no_returns_step:
  assumes "ev_act uniq marshal fullName s s'" and "no_returns s0 s"
  shows "no_returns s0 s'"
proof -
  have l: "lock_inv s" "ev_loop s = Draining" "\<forall>i. \<not> blocked (ev_senders s) i" "ev_sendMutex s \<noteq> None" "\<not> ev_eventChanClosed s"
    using assms(2) unfolding no_returns_def lock_inv_def lock_ok_def by auto
  have "lock_inv s'" using lock_inv_step[OF assms(1) l(1)] .
  moreover have "ev_loop s' = Draining \<and> (\<forall>i r. ev_senders s' i = Some (SendReturned r) \<longrightarrow> ev_senders s i = Some (SendReturned r))"
    using assms(1) by (cases rule: ev_actE) (use l in \<open>auto simp: blocked_iff set_stream_def subscribe_def split: if_splits\<close>)
  ultimately show ?thesis using assms(2) unfolding no_returns_def by blast
qed

interpretation stopping: step_invariant "ev_step uniq marshal fullName" "no_returns s0" for uniq marshal fullName s0
  by unfold_locales (auto simp: ev_step_def intro: no_returns_step)

theorem stop_blocks_senders:
  assumes "(ev_step uniq marshal fullName)\<^sup>*\<^sup>* events_NewServer s" and "ev_loop s = Draining"
    and "(ev_step uniq marshal fullName)\<^sup>*\<^sup>* s s'"
  shows "ev_loop s' = Draining \<and> (\<forall>i r. ev_senders s' i = Some (SendReturned r) \<longrightarrow> ev_senders s i = Some (SendReturned r))"
  using stopping.run_keeps[OF assms(3), of s] sender_lock.run_keeps[OF assms(1) lock_inv_init] assms(2)
  unfolding no_returns_def by blast

section \<open>The subscriptions\<close>

fun stream_id :: "streamPc \<Rightarrow> string option" where
  "stream_id (StreamSelect d _) = Some d"
| "stream_id (StreamSending d _ _) = Some d"
| "stream_id (StreamLeaving d _) = Some d"
| "stream_id (StreamReturned _) = None"

fun stream_chan :: "streamPc \<Rightarrow> nat option" where
  "stream_chan (StreamSelect _ ch) = Some ch"
| "stream_chan (StreamSending _ ch _) = Some ch"
| "stream_chan _ = None"

text \<open>What a stream got: the events it sent on and the one it is sending. What it is to get of the event at hand.\<close>

fun in_hand :: "streamPc \<Rightarrow> SubscribeResponse list" where
  "in_hand (StreamSending _ _ e) = [e]"
| "in_hand _ = []"

definition received :: "stream_call \<Rightarrow> SubscribeResponse list" where
  "received c = sc_sent c @ in_hand (sc_pc c)"

fun to_come :: "serverPc \<Rightarrow> string \<Rightarrow> SubscribeResponse list" where
  "to_come (Propagating e ks) d = (if d \<in> set ks then [e] else [])"
| "to_come _ d = []"

text \<open>The open subscriptions have channels of their own, none of them closed.\<close>

definition chans_ok :: "(string \<rightharpoonup> nat) \<Rightarrow> nat \<Rightarrow> nat set \<Rightarrow> serverPc \<Rightarrow> bool" where
  "chans_ok chans n closed lp \<longleftrightarrow> (\<forall>d ch. chans d = Some ch \<longrightarrow> ch < n \<and> ch \<notin> closed) \<and> (\<forall>ch \<in> closed. ch < n) \<and>
     (\<forall>d d' ch. chans d = Some ch \<longrightarrow> chans d' = Some ch \<longrightarrow> d = d') \<and>
     (case lp of Propagating e ks \<Rightarrow> distinct ks \<and> set ks \<subseteq> dom chans | _ \<Rightarrow> True)"

text \<open>A stream sent a prefix of the events taken since it subscribed; while it is open it got them all, but for the one
  being propagated.\<close>

definition stream_ok :: "(string \<rightharpoonup> nat) \<Rightarrow> serverPc \<Rightarrow> SubscribeResponse list \<Rightarrow> stream_call \<Rightarrow> bool" where
  "stream_ok chans lp taken c \<longleftrightarrow> sc_joined c \<le> length taken \<and> prefix (sc_sent c) (drop (sc_joined c) taken) \<and>
     (\<forall>d. stream_id (sc_pc c) = Some d \<longrightarrow> d \<in> dom chans) \<and>
     (\<forall>d ch. stream_id (sc_pc c) = Some d \<longrightarrow> stream_chan (sc_pc c) = Some ch \<longrightarrow>
        chans d = Some ch \<and> received c @ to_come lp d = drop (sc_joined c) taken)"

definition own_ids :: "(nat \<rightharpoonup> stream_call) \<Rightarrow> bool" where
  "own_ids streams \<longleftrightarrow> (\<forall>j j' c c' d. streams j = Some c \<longrightarrow> streams j' = Some c' \<longrightarrow>
     stream_id (sc_pc c) = Some d \<longrightarrow> stream_id (sc_pc c') = Some d \<longrightarrow> j = j')"

definition chan_inv :: "'m eventServer \<Rightarrow> bool" where
  "chan_inv s \<longleftrightarrow> chans_ok (subscriptionChans s) (ev_chans s) (ev_closed s) (ev_loop s) \<and>
     (\<forall>j c. ev_streams s j = Some c \<longrightarrow> stream_ok (subscriptionChans s) (ev_loop s) (ev_taken s) c) \<and>
     own_ids (ev_streams s)"

lemma own_ids_upd:
  assumes "own_ids streams" and "\<forall>d j' c'. stream_id (sc_pc c) = Some d \<longrightarrow> streams j' = Some c' \<longrightarrow> stream_id (sc_pc c') = Some d \<longrightarrow> j' = j"
  shows "own_ids (streams(j \<mapsto> c))"
  using assms unfolding own_ids_def by (auto split: if_splits)

text \<open>A stream whose program counter changes but not its name.\<close>

lemma own_ids_same:
  assumes "own_ids streams" and "streams j = Some c" and "stream_id (sc_pc c') = stream_id (sc_pc c) \<or> stream_id (sc_pc c') = None"
  shows "own_ids (streams(j \<mapsto> c'))"
  using assms(3) by (intro own_ids_upd[OF assms(1)]) (use assms(1,2) in \<open>auto simp: own_ids_def\<close>)

lemma chan_inv_stream:
  assumes "chan_inv s" and "ev_streams s j = Some c" and "stream_id (sc_pc c') = stream_id (sc_pc c) \<or> stream_id (sc_pc c') = None"
    and "stream_ok (subscriptionChans s) (ev_loop s) (ev_taken s) c'"
  shows "chan_inv (set_stream j c' s)"
  using assms own_ids_same[of "ev_streams s" j c c'] by (auto simp: chan_inv_def set_stream_def)

lemma chan_inv_streamD: "chan_inv s \<Longrightarrow> ev_streams s j = Some c \<Longrightarrow> stream_ok (subscriptionChans s) (ev_loop s) (ev_taken s) c"
  by (simp add: chan_inv_def)

lemma stream_ok_openD: "stream_ok chans lp taken c \<Longrightarrow> stream_id (sc_pc c) = Some d \<Longrightarrow> \<exists>ch. chans d = Some ch"
  unfolding stream_ok_def by blast

lemma stream_ok_loop: "stream_ok chans lp taken c \<Longrightarrow> \<forall>d. to_come lp' d = to_come lp d \<Longrightarrow> stream_ok chans lp' taken c"
  unfolding stream_ok_def by presburger

lemma chans_ok_idle: "chans_ok chans n closed lp \<Longrightarrow> \<forall>e ks. lp' \<noteq> Propagating e ks \<Longrightarrow> chans_ok chans n closed lp'"
  unfolding chans_ok_def by (cases lp') auto

lemma chan_inv_loop:
  assumes "chan_inv s" and "\<forall>d. to_come lp d = to_come (ev_loop s) d" and "\<forall>e ks. lp \<noteq> Propagating e ks"
  shows "chan_inv (s\<lparr>ev_loop := lp\<rparr>)"
  using assms(1) stream_ok_loop[OF _ assms(2)] chans_ok_idle[OF _ assms(3)] unfolding chan_inv_def by auto

text \<open>An event is taken: every open stream is to get it.\<close>

lemma stream_ok_taken:
  assumes "stream_ok chans lp taken c" and "\<forall>d. to_come lp d = []" and "set ks = dom chans"
  shows "stream_ok chans (Propagating e ks) (taken @ [e]) c"
  using assms by (auto simp: stream_ok_def)

lemma chan_inv_takes:
  assumes "chan_inv s" and "ev_loop s = SelectLoop" and "distinct ks" and "set ks = dom (subscriptionChans s)"
  shows "chan_inv ((send_received i s)\<lparr>ev_loop := Propagating e ks, ev_taken := ev_taken s @ [e]\<rparr>)"
  using assms stream_ok_taken[of "subscriptionChans s" SelectLoop "ev_taken s" _ ks e]
  by (auto simp: chan_inv_def chans_ok_def send_received_def)

text \<open>An event is handed to the stream of the next key.\<close>

lemma stream_ok_other:
  assumes "stream_ok chans (Propagating e (k # ks)) taken c" and "stream_id (sc_pc c) \<noteq> Some k"
  shows "stream_ok chans (Propagating e ks) taken c"
  using assms by (auto simp: stream_ok_def)

lemma stream_ok_handed:
  assumes "stream_ok chans (Propagating e (k # ks)) taken c" and "sc_pc c = StreamSelect k ch" and "k \<notin> set ks"
  shows "stream_ok chans (Propagating e ks) taken (c\<lparr>sc_pc := StreamSending k ch e\<rparr>)"
  using assms by (auto simp: stream_ok_def received_def)

lemma chan_inv_hands:
  assumes inv: "chan_inv s" and lp: "ev_loop s = Propagating e (k # ks)" and k: "subscriptionChans s k = Some ch"
    and j: "ev_streams s j = Some c" and pc: "sc_pc c = StreamSelect d ch"
  shows "chan_inv ((set_stream j (c\<lparr>sc_pc := StreamSending d ch e\<rparr>) s)\<lparr>ev_loop := Propagating e ks\<rparr>)"
proof -
  have ok: "stream_ok (subscriptionChans s) (Propagating e (k # ks)) (ev_taken s) c'" if "ev_streams s j' = Some c'" for j' c'
    using inv that lp unfolding chan_inv_def by metis
  have cs: "chans_ok (subscriptionChans s) (ev_chans s) (ev_closed s) (Propagating e (k # ks))" using inv lp unfolding chan_inv_def by metis
  have d: "d = k" using ok[OF j] pc k cs by (auto simp: stream_ok_def chans_ok_def)
  have "stream_id (sc_pc c') \<noteq> Some k" if "ev_streams s j' = Some c'" "j' \<noteq> j" for j' c'
    using inv that j pc d unfolding chan_inv_def own_ids_def by (metis stream_id.simps(1))
  then have "stream_ok (subscriptionChans s) (Propagating e ks) (ev_taken s) c'" if "ev_streams s j' = Some c'" "j' \<noteq> j" for j' c'
    using that ok by (metis stream_ok_other)
  moreover have "stream_ok (subscriptionChans s) (Propagating e ks) (ev_taken s) (c\<lparr>sc_pc := StreamSending d ch e\<rparr>)"
    using ok[OF j] pc cs unfolding d by (auto intro: stream_ok_handed simp: chans_ok_def)
  moreover have "own_ids ((ev_streams s)(j \<mapsto> c\<lparr>sc_pc := StreamSending d ch e\<rparr>))"
    using inv j pc unfolding chan_inv_def by (intro own_ids_same) auto
  ultimately show ?thesis using cs by (auto simp: chan_inv_def set_stream_def chans_ok_def)
qed

text \<open>A stream subscribes or leaves while no event is propagated.\<close>

lemma not_readLocked: "\<not> readLocked s \<longleftrightarrow> (\<forall>e ks. ev_loop s \<noteq> Propagating e ks)"
  by (auto simp: readLocked_def split: serverPc.splits)

lemma to_come_idle: "\<not> readLocked s \<Longrightarrow> to_come (ev_loop s) d = []"
  by (cases "ev_loop s") (auto simp: readLocked_def)

lemma stream_ok_extend: "stream_ok chans lp taken c \<Longrightarrow> chans d = None \<Longrightarrow> stream_ok (chans(d \<mapsto> n)) lp taken c"
  unfolding stream_ok_def by (metis dom_fun_upd domIff fun_upd_other insertI2 option.distinct(1))

lemma stream_ok_remove: "stream_ok chans lp taken c \<Longrightarrow> stream_id (sc_pc c) \<noteq> Some d \<Longrightarrow> stream_ok (chans(d := None)) lp taken c"
  unfolding stream_ok_def by (metis domIff fun_upd_other)

lemma chans_ok_new:
  assumes "chans_ok chans n closed lp" and "\<forall>e ks. lp \<noteq> Propagating e ks"
  shows "chans_ok (chans(d \<mapsto> n)) (Suc n) closed lp"
  using assms unfolding chans_ok_def by (auto split: serverPc.splits if_splits simp: less_Suc_eq)

lemma chans_ok_close:
  assumes "chans_ok chans n closed lp" and "\<forall>e ks. lp \<noteq> Propagating e ks" and "chans d = Some ch"
  shows "chans_ok (chans(d := None)) n (insert ch closed) lp"
  using assms unfolding chans_ok_def by (auto split: serverPc.splits if_splits)

lemma chan_inv_subscribes:
  assumes inv: "chan_inv s" and idle: "\<not> readLocked s" and d: "subscriptionChans s d = None"
  shows "chan_inv (subscribe d j s)"
proof -
  let ?c = "\<lparr>sc_pc = StreamSelect d (ev_chans s), sc_done = False, sc_sent = [], sc_joined = length (ev_taken s)\<rparr>"
  have "stream_ok ((subscriptionChans s)(d \<mapsto> ev_chans s)) (ev_loop s) (ev_taken s) c" if "ev_streams s j' = Some c" for j' c
    using stream_ok_extend[of _ _ _ _ d "ev_chans s", OF chan_inv_streamD[OF inv that] d] .
  moreover have "stream_ok ((subscriptionChans s)(d \<mapsto> ev_chans s)) (ev_loop s) (ev_taken s) ?c"
    using to_come_idle[OF idle] by (simp add: stream_ok_def received_def)
  moreover have "stream_id (sc_pc c) \<noteq> Some d" if "ev_streams s j' = Some c" for j' c
    using stream_ok_openD[OF chan_inv_streamD[OF inv that], of d] d by auto
  then have "own_ids ((ev_streams s)(j \<mapsto> ?c))" using inv unfolding chan_inv_def by (intro own_ids_upd) auto
  moreover have "chans_ok ((subscriptionChans s)(d \<mapsto> ev_chans s)) (Suc (ev_chans s)) (ev_closed s) (ev_loop s)"
    using inv idle unfolding chan_inv_def not_readLocked by (blast intro: chans_ok_new)
  ultimately show ?thesis unfolding chan_inv_def subscribe_def by simp
qed

lemma chan_inv_unsubscribes:
  assumes inv: "chan_inv s" and idle: "\<not> readLocked s" and j: "ev_streams s j = Some c" and pc: "sc_pc c = StreamLeaving d r"
  shows "chan_inv (unsubscribe d (set_stream j (c\<lparr>sc_pc := StreamReturned r\<rparr>) s))"
proof -
  let ?c = "c\<lparr>sc_pc := StreamReturned r\<rparr>"
  obtain ch where ch: "subscriptionChans s d = Some ch" using stream_ok_openD[OF chan_inv_streamD[OF inv j], of d] pc by auto
  have "stream_id (sc_pc c') \<noteq> Some d" if "ev_streams s j' = Some c'" "j' \<noteq> j" for j' c'
    using inv that j pc unfolding chan_inv_def own_ids_def by (metis stream_id.simps(3))
  then have "stream_ok ((subscriptionChans s)(d := None)) (ev_loop s) (ev_taken s) c'" if "ev_streams s j' = Some c'" "j' \<noteq> j" for j' c'
    using that by (blast intro: stream_ok_remove chan_inv_streamD[OF inv])
  moreover have "stream_ok ((subscriptionChans s)(d := None)) (ev_loop s) (ev_taken s) ?c"
    using chan_inv_streamD[OF inv j] by (simp add: stream_ok_def)
  moreover have "own_ids ((ev_streams s)(j \<mapsto> ?c))" using inv j unfolding chan_inv_def by (intro own_ids_same) auto
  moreover have "chans_ok ((subscriptionChans s)(d := None)) (ev_chans s) (insert ch (ev_closed s)) (ev_loop s)"
    using inv idle ch unfolding chan_inv_def not_readLocked by (blast intro: chans_ok_close)
  ultimately show ?thesis by (simp add: chan_inv_def unsubscribe_def set_stream_def ch)
qed

lemma stream_ok_pc:
  assumes "stream_ok chans lp taken c" and "stream_id pc = stream_id (sc_pc c)" and "stream_chan pc = None"
  shows "stream_ok chans lp taken (c\<lparr>sc_pc := pc\<rparr>)"
  using assms unfolding stream_ok_def by simp

lemma stream_ok_sent:
  assumes "stream_ok chans lp taken c" and "sc_pc c = StreamSending d ch e"
  shows "stream_ok chans lp taken (c\<lparr>sc_pc := StreamSelect d ch, sc_sent := sc_sent c @ [e]\<rparr>)"
proof -
  have "sc_sent c @ [e] @ to_come lp d = drop (sc_joined c) taken" using assms by (simp add: stream_ok_def received_def)
  moreover from this have "prefix (sc_sent c @ [e]) (drop (sc_joined c) taken)" unfolding prefix_def by (metis append_assoc)
  ultimately show ?thesis using assms by (simp add: stream_ok_def received_def)
qed

lemma chan_inv_step:
  assumes "ev_act True marshal fullName s s'" and "chan_inv s"
  shows "chan_inv s'"
  using assms(1)
proof (cases rule: ev_actE)
  case (locks i m)
  then show ?thesis using assms(2)
    by (cases rule: send_locked_cases[of marshal fullName i m s]) (simp_all add: chan_inv_def)
next
  case (takes i e ks)
  then show ?thesis using chan_inv_takes[OF assms(2)] by simp
next
  case (hands e k ks ch j c d)
  then show ?thesis using chan_inv_hands[OF assms(2)] by simp
next
  case (propagated e)
  then show ?thesis using chan_inv_loop[OF assms(2)] by simp
next
  case sees_done
  then show ?thesis using chan_inv_loop[OF assms(2)] by simp
next
  case stop_locks
  then show ?thesis using chan_inv_loop[OF assms(2), of Draining] by (simp add: chan_inv_def)
next
  case (subscribes j nanos)
  then show ?thesis using chan_inv_subscribes[OF assms(2)] by simp
next
  case (stream_done j c)
  then show ?thesis using chan_inv_streamD[OF assms(2)] chan_inv_stream[OF assms(2)] by (simp add: stream_ok_def received_def)
next
  case (stream_sent j c d ch e)
  then show ?thesis using stream_ok_sent[OF chan_inv_streamD[OF assms(2)]] chan_inv_stream[OF assms(2)] by simp
next
  case (stream_fails j c d ch e x)
  then show ?thesis using stream_ok_pc[OF chan_inv_streamD[OF assms(2)]] chan_inv_stream[OF assms(2)] by simp
next
  case (stream_stops j c d ch)
  then show ?thesis using stream_ok_pc[OF chan_inv_streamD[OF assms(2)]] chan_inv_stream[OF assms(2)] by simp
next
  case (unsubscribes j c d r)
  then show ?thesis using chan_inv_unsubscribes[OF assms(2)] by simp
qed (use assms(2) in \<open>simp_all add: chan_inv_def send_received_def stop_drained_def\<close>)

text \<open>No channel is used after it is closed, so nothing panics.\<close>

lemma no_crash_step:
  assumes "ev_act True marshal fullName s s'" and "lock_inv s" and "chan_inv s" and "\<not> ev_crashed s"
  shows "\<not> ev_crashed s'"
  using assms(1)
proof (cases rule: ev_actE)
  case (locks i m)
  then show ?thesis using assms(4) by (cases rule: send_locked_cases[of marshal fullName i m s]) simp_all
next
  case (stream_nil j c d ch)
  then have "subscriptionChans s d = Some ch" using chan_inv_streamD[OF assms(3), of j c] by (simp add: stream_ok_def)
  then show ?thesis using assms(3) stream_nil unfolding chan_inv_def chans_ok_def by blast
next
  case (hands_closed e k ks ch)
  then show ?thesis using assms(3) unfolding chan_inv_def chans_ok_def by blast
qed (use assms(2,4) in \<open>simp_all add: lock_inv_def lock_ok_def send_received_def set_stream_def subscribe_def\<close>)

definition ev_inv :: "'m eventServer \<Rightarrow> bool" where
  "ev_inv s \<longleftrightarrow> lock_inv s \<and> chan_inv s \<and> \<not> ev_crashed s"

lemma ev_inv_init: "ev_inv events_NewServer"
  by (simp add: ev_inv_def lock_inv_init chan_inv_def chans_ok_def own_ids_def) (simp add: events_NewServer_def)

interpretation event_server: step_invariant "ev_step True marshal fullName" ev_inv for marshal fullName
  by unfold_locales (auto simp: ev_step_def ev_inv_def intro: lock_inv_step chan_inv_step dest: no_crash_step)

text \<open>Property C28: the events of the mock plugin reach its subscribers. With a clock that names no two open subscriptions alike, the server never panics and every stream sends on a prefix
  of the events taken since it subscribed, in their order; a stream that waits for the next event while none is
  propagated has sent them all.\<close>

theorem events_delivered:
  assumes "(ev_step True marshal fullName)\<^sup>*\<^sup>* events_NewServer s"
  shows "\<not> ev_crashed s \<and>
    (\<forall>j c. ev_streams s j = Some c \<longrightarrow> prefix (sc_sent c) (drop (sc_joined c) (ev_taken s)) \<and>
       (\<forall>d ch. sc_pc c = StreamSelect d ch \<longrightarrow> \<not> readLocked s \<longrightarrow> sc_sent c = drop (sc_joined c) (ev_taken s)))"
proof -
  have inv: "ev_inv s" using event_server.run_keeps[OF assms ev_inv_init] .
  have "stream_ok (subscriptionChans s) (ev_loop s) (ev_taken s) c" if "ev_streams s j = Some c" for j c
    using inv that unfolding ev_inv_def by (blast dest: chan_inv_streamD)
  then show ?thesis using inv to_come_idle[of s] by (fastforce simp: ev_inv_def stream_ok_def received_def)
qed

section \<open>Two goroutines that wait for each other\<close>

text \<open>A stream ends while \<open>propagate\<close> waits to hand it an event: \<open>unsubscribe\<close> waits for the lock \<open>propagate\<close> holds, and
  \<open>propagate\<close> for a receiver that will not come.\<close>

definition wedged :: "SubscribeResponse \<Rightarrow> string \<Rightarrow> string list \<Rightarrow> nat \<Rightarrow> 'm eventServer \<Rightarrow> bool" where
  "wedged e k ks j s \<longleftrightarrow> ev_loop s = Propagating e (k # ks) \<and>
     (case ev_streams s j of Some c \<Rightarrow> (\<exists>r. sc_pc c = StreamLeaving k r) | None \<Rightarrow> False)"

definition stuck_since :: "SubscribeResponse \<Rightarrow> string \<Rightarrow> string list \<Rightarrow> nat \<Rightarrow> 'm eventServer \<Rightarrow> 'm eventServer \<Rightarrow> bool" where
  "stuck_since e k ks j s0 s \<longleftrightarrow> ev_inv s \<and> wedged e k ks j s \<and> ev_taken s = ev_taken s0 \<and>
     (\<forall>i x. ev_senders s0 i = Some (SendBlocked x) \<longrightarrow> ev_senders s i = Some (SendBlocked x))"

lemma wedged_no_receiver:
  assumes "chan_inv s" and "wedged e k ks j s" and "subscriptionChans s k = Some ch" and "ev_streams s i = Some c"
  shows "sc_pc c \<noteq> StreamSelect d ch"
proof
  assume pc: "sc_pc c = StreamSelect d ch"
  obtain c' r where c': "ev_streams s j = Some c'" "sc_pc c' = StreamLeaving k r" using assms(2) unfolding wedged_def by (auto split: option.splits)
  have "subscriptionChans s d = Some ch" using chan_inv_streamD[OF assms(1,4)] pc by (simp add: stream_ok_def)
  then have "d = k" using assms(1,3) unfolding chan_inv_def chans_ok_def by blast
  then have "i = j" using assms(1,4) c' pc unfolding chan_inv_def own_ids_def by (metis stream_id.simps(1,3))
  then show False using c' assms(4) pc by simp
qed

lemma wedged_step:
  assumes "ev_act True marshal fullName s s'" and "chan_inv s" and "wedged e k ks j s"
  shows "wedged e k ks j s' \<and> ev_taken s' = ev_taken s \<and>
    (\<forall>i x. ev_senders s i = Some (SendBlocked x) \<longrightarrow> ev_senders s' i = Some (SendBlocked x))"
proof -
  have lp: "ev_loop s = Propagating e (k # ks)" and rl: "readLocked s" using assms(3) by (auto simp: wedged_def readLocked_def)
  show ?thesis
    using assms(1)
  proof (cases rule: ev_actE)
    case (locks i m)
    then show ?thesis using assms(3)
      by (cases rule: send_locked_cases[of marshal fullName i m s]) (auto simp: wedged_def)
  next
    case (hands e' k' ks' ch i c d)
    then show ?thesis using wedged_no_receiver[OF assms(2,3)] lp by simp
  qed (use assms(3) lp rl in \<open>auto simp: wedged_def set_stream_def split: option.splits\<close>)
qed

interpretation stuck: step_invariant "ev_step True marshal fullName" "stuck_since e k ks j s0" for marshal fullName e k ks j s0
proof unfold_locales
  fix x y :: "'a eventServer"
  assume xy: "ev_step True marshal fullName x y" and st: "stuck_since e k ks j s0 x"
  then have "ev_inv y" using event_server.step_keeps unfolding stuck_since_def by blast
  then show "stuck_since e k ks j s0 y" using wedged_step[of marshal fullName x y e k ks j] xy st unfolding stuck_since_def ev_step_def ev_inv_def by metis
qed

text \<open>From there the server takes no further event, and a request that is sending one never goes on.\<close>

theorem wedged_forever:
  assumes "(ev_step True marshal fullName)\<^sup>*\<^sup>* events_NewServer s" and "wedged e k ks j s" and "(ev_step True marshal fullName)\<^sup>*\<^sup>* s s'"
  shows "ev_loop s' = Propagating e (k # ks) \<and> ev_taken s' = ev_taken s \<and>
    (\<forall>i x. ev_senders s i = Some (SendBlocked x) \<longrightarrow> ev_senders s' i = Some (SendBlocked x))"
proof -
  have "stuck_since e k ks j s s" using event_server.run_keeps[OF assms(1) ev_inv_init] assms(2) unfolding stuck_since_def by blast
  then have "stuck_since e k ks j s s'" using stuck.run_keeps[OF assms(3)] by blast
  then show ?thesis unfolding stuck_since_def wedged_def by blast
qed

lemma ev_run_snoc: "(ev_step uniq marshal fullName)\<^sup>*\<^sup>* z s \<Longrightarrow> \<not> ev_crashed s \<Longrightarrow> ev_act uniq marshal fullName s s' \<Longrightarrow> (ev_step uniq marshal fullName)\<^sup>*\<^sup>* z s'"
  by (auto simp: ev_step_def intro: rtranclp.rtrancl_into_rtrancl)

text \<open>One subscriber, one request and a client that leaves at the wrong moment are enough.\<close>

lemma wedge_reachable:
  "\<exists>s k. (ev_step True Inr (\<lambda>_. ''event''))\<^sup>*\<^sup>* events_NewServer s \<and> wedged \<lparr>er_Data = [7], er_TypeName = ''event''\<rparr> k [] 0 s"
proof -
  define d where "d = show_int 1"
  define e :: SubscribeResponse where "e = \<lparr>er_Data = [7], er_TypeName = ''event''\<rparr>"
  define s1 :: "bytes eventServer" where "s1 = subscribe d 0 events_NewServer"
  define s2 where "s2 = s1\<lparr>ev_senders := (ev_senders s1)(0 \<mapsto> SendLocking [7])\<rparr>"
  define s3 where "s3 = send_locked Inr (\<lambda>_. ''event'') 0 [7] s2"
  define s4 where "s4 = (send_received 0 s3)\<lparr>ev_loop := Propagating e [d], ev_taken := ev_taken s3 @ [e]\<rparr>"
  define s5 where "s5 = set_stream 0 (the (ev_streams s4 0)\<lparr>sc_done := True\<rparr>) s4"
  define s6 where "s6 = set_stream 0 (the (ev_streams s5 0)\<lparr>sc_pc := StreamLeaving d (Ok ())\<rparr>) s5"
  note s1' = s1_def[unfolded subscribe_def events_NewServer_def, simplified]
  note s2' = s2_def[unfolded s1', simplified]
  note s3' = s3_def[unfolded s2' send_locked_def SendProtoEvent_def, simplified, folded e_def]
  note s4' = s4_def[unfolded s3' send_received_def, simplified]
  note s5' = s5_def[unfolded s4' set_stream_def, simplified]
  note s6' = s6_def[unfolded s5' set_stream_def, simplified]
  have "ev_act True Inr (\<lambda>_. ''event'') events_NewServer s1" unfolding s1_def d_def by (rule subscribes) (simp_all add: events_NewServer_def readLocked_def)
  moreover have "ev_act True Inr (\<lambda>_. ''event'') s1 s2" unfolding s2_def by (rule sends) (simp add: s1')
  moreover have "ev_act True Inr (\<lambda>_. ''event'') s2 s3" unfolding s3_def by (rule locks) (simp_all add: s2')
  moreover have "ev_act True Inr (\<lambda>_. ''event'') s3 s4" unfolding s4_def by (rule takes) (simp_all add: s3')
  moreover have "ev_act True Inr (\<lambda>_. ''event'') s4 s5" unfolding s5_def by (rule stream_done) (simp add: s4')
  moreover have "ev_act True Inr (\<lambda>_. ''event'') s5 s6" unfolding s6_def by (rule stream_stops[where ch = 0]) (simp_all add: s5')
  ultimately have "(ev_step True Inr (\<lambda>_. ''event''))\<^sup>*\<^sup>* events_NewServer s6"
    by (intro ev_run_snoc[of _ _ _ _ s5 s6] ev_run_snoc[of _ _ _ _ s4 s5] ev_run_snoc[of _ _ _ _ s3 s4] ev_run_snoc[of _ _ _ _ s2 s3]
        ev_run_snoc[of _ _ _ _ s1 s2] ev_run_snoc[of _ _ _ _ events_NewServer s1] rtranclp.rtrancl_refl)
      (simp_all add: events_NewServer_def s1' s2' s3' s4' s5')
  moreover have "wedged e d [] 0 s6" by (simp add: wedged_def s6')
  ultimately show ?thesis unfolding e_def by blast
qed

text \<open>Two streams opened in the same nanosecond share a name: the first to leave closes the channel of the second, which
  then reads a nil event and panics.\<close>

lemma same_nanosecond_crashes:
  "\<exists>s. (ev_step False (Inr :: bytes \<Rightarrow> err + bytes) (\<lambda>_. ''event''))\<^sup>*\<^sup>* events_NewServer s \<and> ev_crashed s"
proof -
  define d where "d = show_int 1"
  define s1 :: "bytes eventServer" where "s1 = subscribe d 0 events_NewServer"
  define s2 where "s2 = subscribe d 1 s1"
  define s3 where "s3 = set_stream 0 (the (ev_streams s2 0)\<lparr>sc_done := True\<rparr>) s2"
  define s4 where "s4 = set_stream 0 (the (ev_streams s3 0)\<lparr>sc_pc := StreamLeaving d (Ok ())\<rparr>) s3"
  define s5 where "s5 = unsubscribe d (set_stream 0 (the (ev_streams s4 0)\<lparr>sc_pc := StreamReturned (Ok ())\<rparr>) s4)"
  define s6 where "s6 = s5\<lparr>ev_crashed := True\<rparr>"
  note s1' = s1_def[unfolded subscribe_def events_NewServer_def, simplified]
  note s2' = s2_def[unfolded s1' subscribe_def, simplified]
  note s3' = s3_def[unfolded s2' set_stream_def, simplified]
  note s4' = s4_def[unfolded s3' set_stream_def, simplified]
  note s5' = s5_def[unfolded s4' set_stream_def unsubscribe_def, simplified]
  have "ev_act False Inr (\<lambda>_. ''event'') events_NewServer s1"
    unfolding s1_def d_def by (rule subscribes) (simp_all add: events_NewServer_def readLocked_def)
  moreover have "ev_act False Inr (\<lambda>_. ''event'') s1 s2" unfolding s2_def d_def by (rule subscribes) (simp_all add: s1' readLocked_def)
  moreover have "ev_act False Inr (\<lambda>_. ''event'') s2 s3" unfolding s3_def by (rule stream_done) (simp add: s2')
  moreover have "ev_act False Inr (\<lambda>_. ''event'') s3 s4" unfolding s4_def by (rule stream_stops[where ch = 0]) (simp_all add: s3')
  moreover have "ev_act False Inr (\<lambda>_. ''event'') s4 s5" unfolding s5_def by (rule unsubscribes) (simp_all add: s4' readLocked_def)
  moreover have "ev_act False Inr (\<lambda>_. ''event'') s5 s6"
    unfolding s6_def by (rule stream_nil[of _ 1 "the (ev_streams s5 1)" d 1]) (simp_all add: s5')
  ultimately have "(ev_step False Inr (\<lambda>_. ''event''))\<^sup>*\<^sup>* events_NewServer s6"
    by (intro ev_run_snoc[of _ _ _ _ s5 s6] ev_run_snoc[of _ _ _ _ s4 s5] ev_run_snoc[of _ _ _ _ s3 s4] ev_run_snoc[of _ _ _ _ s2 s3]
        ev_run_snoc[of _ _ _ _ s1 s2] ev_run_snoc[of _ _ _ _ events_NewServer s1] rtranclp.rtrancl_refl)
      (simp_all add: events_NewServer_def s1' s2' s3' s4' s5')
  then show ?thesis by (intro exI[of _ s6]) (simp add: s6_def)
qed

theorem events_delivered_witness:
  "\<exists>s :: bytes eventServer. (ev_step True Inr (\<lambda>_. ''event''))\<^sup>*\<^sup>* events_NewServer s \<and> readLocked s \<and> \<not> ev_crashed s \<and>
     (\<exists>c. ev_streams s 0 = Some c \<and> prefix (sc_sent c) (drop (sc_joined c) (ev_taken s)))"
proof -
  obtain s :: "bytes eventServer" and k where s: "(ev_step True Inr (\<lambda>_. ''event''))\<^sup>*\<^sup>* events_NewServer s"
      "wedged \<lparr>er_Data = [7], er_TypeName = ''event''\<rparr> k [] 0 s"
    using wedge_reachable by blast
  then obtain c where "ev_streams s 0 = Some c" "readLocked s" by (auto simp: wedged_def readLocked_def split: option.splits)
  then show ?thesis using events_delivered[OF s(1)] s(1) by blast
qed

end
