(* ===== verification/Mock_Server.thy ===== *)
theory Mock_Server
  imports Mock_Book Mock_Events
begin

text \<open>
  The gRPC server of the mock partner plugin (\<^verbatim>\<open>pp-mock/server/server.go\<close>, \<^verbatim>\<open>pp-mock/metadata/metadata.go\<close>): its
  interceptors, their chain and the settings \<open>Run\<close> reads from the environment. Listening, serving and log lines are left
  out. A handler acts on the plugin's state; \<open>protovalidate.Validate\<close>, the sender of events and the parsers of the
  incoming metadata are parameters.
\<close>

section \<open>Calls\<close>

datatype rpcCode = InvalidArgument | Internal

text \<open>An error of a handler, or one made by \<open>status.Errorf\<close>; its text as \<open>%v\<close> prints it.\<close>

datatype rpcErr = PlainErr err | StatusErr rpcCode msgtext

fun codeName :: "rpcCode \<Rightarrow> string" where
  "codeName InvalidArgument = ''InvalidArgument''"
| "codeName Internal = ''Internal''"

fun rpcErrText :: "rpcErr \<Rightarrow> msgtext" where
  "rpcErrText (PlainErr e) = Error e"
| "rpcErrText (StatusErr c t) = [PStr ''rpc error: code = '', PStr (codeName c), PStr '' desc = ''] @ t"

text \<open>Go's \<open>any\<close>, tested for \<open>proto.Message\<close>: a message, or a value of another type, of which the code prints the type.\<close>

datatype 'm any = Proto 'm | NotProto string

datatype 'a rpcRes = RpcOk 'a | RpcFail rpcErr | RpcPanic msgtext

text \<open>The context holds the incoming metadata and what \<open>ContextWithMetadata\<close> put in it.\<close>

record rpcCtx =
  cx_incoming :: "(string \<rightharpoonup> string list) option"
  cx_metadata :: "grpc_metadata option"

type_synonym ('s, 'q, 'r) rpcHandler = "rpcCtx \<Rightarrow> 'q any \<Rightarrow> 's \<Rightarrow> 'r any rpcRes \<times> 's"

section \<open>Interceptors (server.go)\<close>

text \<open>An error of the sender is logged only.\<close>

definition eventSenderInterceptor :: "('q \<Rightarrow> 's \<Rightarrow> err option \<times> 's) \<Rightarrow> ('s, 'q, 'r) rpcHandler \<Rightarrow> ('s, 'q, 'r) rpcHandler" where
  "eventSenderInterceptor sendEvent handler = (\<lambda>ctx req s.
     handler ctx req (case req of Proto m \<Rightarrow> snd (sendEvent m s) | NotProto _ \<Rightarrow> s))"

definition ContextWithMetadata :: "(string \<Rightarrow> address) \<Rightarrow> (string \<Rightarrow> timestamps res) \<Rightarrow> rpcCtx \<Rightarrow> rpcCtx" where
  "ContextWithMetadata HexToAddress json_Unmarshal ctx =
     ctx\<lparr>cx_metadata := Some (FromGRPCContext HexToAddress json_Unmarshal (cx_incoming ctx))\<rparr>"

definition metadataExtractorInterceptor ::
  "(string \<Rightarrow> address) \<Rightarrow> (string \<Rightarrow> timestamps res) \<Rightarrow> ('s, 'q, 'r) rpcHandler \<Rightarrow> ('s, 'q, 'r) rpcHandler" where
  "metadataExtractorInterceptor HexToAddress json_Unmarshal handler = (\<lambda>ctx req s.
     handler (ContextWithMetadata HexToAddress json_Unmarshal ctx) req s)"

definition loggingInterceptor :: "('s, 'q, 'r) rpcHandler \<Rightarrow> ('s, 'q, 'r) rpcHandler" where
  "loggingInterceptor handler = (\<lambda>ctx req s. case handler ctx req s of
       (RpcFail e, s) \<Rightarrow> (RpcFail (StatusErr Internal (PStr ''error handling request: '' # rpcErrText e)), s)
     | (r, s) \<Rightarrow> (r, s))"

definition protoValidateInterceptor ::
  "('q \<Rightarrow> err option) \<Rightarrow> ('r \<Rightarrow> err option) \<Rightarrow> ('s, 'q, 'r) rpcHandler \<Rightarrow> ('s, 'q, 'r) rpcHandler" where
  "protoValidateInterceptor validReq validResp handler = (\<lambda>ctx req s.
     case req of
       NotProto t \<Rightarrow> (RpcFail (StatusErr InvalidArgument [PStr ''request is not a proto message: '', PStr t]), s)
     | Proto m \<Rightarrow>
         (case validReq m of
            Some e \<Rightarrow> (RpcFail (StatusErr InvalidArgument (PStr ''request validation failed: '' # Error e)), s)
          | None \<Rightarrow>
              (case handler ctx req s of
                 (RpcOk (NotProto t), s) \<Rightarrow> (RpcFail (StatusErr Internal [PStr ''response is not a proto message: '', PStr t]), s)
               | (RpcOk (Proto p), s) \<Rightarrow>
                   (case validResp p of
                      Some e \<Rightarrow> (RpcFail (StatusErr Internal (PStr ''response validation failed: '' # Error e)), s)
                    | None \<Rightarrow> (RpcOk (Proto p), s))
               | (r, s) \<Rightarrow> (r, s))))"

text \<open>\<open>grpc.ChainUnaryInterceptor\<close> in \<open>Run\<close>: the first interceptor is the outermost.\<close>

definition interceptorChain ::
  "('q \<Rightarrow> 's \<Rightarrow> err option \<times> 's) \<Rightarrow> (string \<Rightarrow> address) \<Rightarrow> (string \<Rightarrow> timestamps res) \<Rightarrow> ('q \<Rightarrow> err option) \<Rightarrow> ('r \<Rightarrow> err option) \<Rightarrow>
    ('s, 'q, 'r) rpcHandler \<Rightarrow> ('s, 'q, 'r) rpcHandler" where
  "interceptorChain sendEvent HexToAddress json_Unmarshal validReq validResp handler =
     eventSenderInterceptor sendEvent
       (metadataExtractorInterceptor HexToAddress json_Unmarshal
         (loggingInterceptor
           (protoValidateInterceptor validReq validResp handler)))"

text \<open>\<open>dummySender\<close>, used when events are disabled.\<close>

definition dummySender_SendProtoEvent :: "'q \<Rightarrow> 's \<Rightarrow> err option \<times> 's" where
  "dummySender_SendProtoEvent m s = (None, s)"

section \<open>Settings of a run\<close>

definition EnvKeyEventsEnabled :: string where "EnvKeyEventsEnabled = ''TTMB_PARTNER_PLUGIN_MOCK_EVENTS''"
definition EnvKeyPort :: string where "EnvKeyPort = ''TTMB_PARTNER_PLUGIN_MOCK_PORT''"
definition EnvE2ETestMode :: string where "EnvE2ETestMode = ''TTMB_PARTNER_PLUGIN_MOCK_TEST_MODE''"
definition EnvKeyRealisticPrice :: string where "EnvKeyRealisticPrice = ''TTMB_PARTNER_PLUGIN_MOCK_REALISTIC_PRICE''"
definition EnvKeyTokenDecimals :: string where "EnvKeyTokenDecimals = ''TTMB_PARTNER_PLUGIN_MOCK_TOKEN_DECIMALS''"
definition EnvKeyBaseUnits :: string where "EnvKeyBaseUnits = ''TTMB_PARTNER_PLUGIN_MOCK_BASE_UNITS''"
definition DefaultPort :: int where "DefaultPort = 50051"

definition Getenv :: "(string \<rightharpoonup> string) \<Rightarrow> string \<Rightarrow> string" where
  "Getenv env k = (case env k of None \<Rightarrow> [] | Some v \<Rightarrow> v)"

definition envTrue :: "(string \<rightharpoonup> string) \<Rightarrow> string \<Rightarrow> bool" where
  "envTrue env k \<longleftrightarrow> Getenv env k = ''true''"

record runSettings =
  rs_pricing :: pricing
  rs_eventsEnabled :: bool
  rs_port :: int
  rs_BuyableUntilDefault :: duration

definition mock_Run :: "(string \<rightharpoonup> string) \<Rightarrow> pricing \<Rightarrow> runSettings res" where
  "mock_Run env cfg =
     onErr (ParseTokenDecimals (Getenv env EnvKeyTokenDecimals)) id (\<lambda>tokenDecimals.
     let cfg = SetRealisticPrice (envTrue env EnvKeyRealisticPrice) (Getenv env EnvKeyBaseUnits) (Some tokenDecimals) cfg in
     onErr (case env EnvKeyPort of None \<Rightarrow> Ok DefaultPort | Some p \<Rightarrow> Atoi p) id (\<lambda>port.
     Ok \<lparr>rs_pricing = cfg, rs_eventsEnabled = envTrue env EnvKeyEventsEnabled, rs_port = port,
         rs_BuyableUntilDefault = (if envTrue env EnvE2ETestMode then BuyableUntil_E2E else BuyableUntil_Default)\<rparr>))"

section \<open>What a call does\<close>

text \<open>The handler runs on a validated request only, once, with the caller's metadata in its context and after the event; the
  caller gets a validated response, or an error of one kind: the code \<open>InvalidArgument\<close> of the inner interceptor does
  not reach it.\<close>

theorem mock_call:
  fixes handler :: "('s, 'q, 'r) rpcHandler"
  assumes "interceptorChain sendEvent HexToAddress json_Unmarshal validReq validResp handler ctx (Proto m) s = (res, s')"
  defines "s1 \<equiv> snd (sendEvent m s)"
    and "ctx1 \<equiv> ctx\<lparr>cx_metadata := Some (FromGRPCContext HexToAddress json_Unmarshal (cx_incoming ctx))\<rparr>"
  shows "(validReq m \<noteq> None \<longrightarrow> s' = s1 \<and> (\<exists>t. res = RpcFail (StatusErr Internal t))) \<and>
    (validReq m = None \<longrightarrow> s' = snd (handler ctx1 (Proto m) s1)) \<and>
    (\<forall>a. res = RpcOk a \<longrightarrow> validReq m = None \<and> (\<exists>p. a = Proto p \<and> validResp p = None \<and> fst (handler ctx1 (Proto m) s1) = RpcOk (Proto p))) \<and>
    (\<forall>e. res = RpcFail e \<longrightarrow> (\<exists>t. e = StatusErr Internal t))"
proof (cases "validReq m")
  case None
  then show ?thesis using assms
    by (cases "handler ctx1 (Proto m) s1")
      (auto simp: interceptorChain_def eventSenderInterceptor_def metadataExtractorInterceptor_def ContextWithMetadata_def
        loggingInterceptor_def protoValidateInterceptor_def split: rpcRes.splits any.splits option.splits)
qed (use assms in \<open>auto simp: interceptorChain_def eventSenderInterceptor_def metadataExtractorInterceptor_def
  loggingInterceptor_def protoValidateInterceptor_def\<close>)

text \<open>With the metadata interceptor in place \<open>FromContext\<close> finds the metadata of the call.\<close>

lemma FromContext_of_call:
  "mock_FromContext (cx_metadata (ContextWithMetadata HexToAddress json_Unmarshal ctx)) = FromGRPCContext HexToAddress json_Unmarshal (cx_incoming ctx)"
  by (simp add: mock_FromContext_def ContextWithMetadata_def)

text \<open>The settings of a run: only the decimals and the port can be wrong, and the decimals are reported first.\<close>

theorem mock_Run_cases:
  "(\<exists>c. mock_Run env cfg = Ok c) \<longleftrightarrow>
     (\<exists>d. ParseTokenDecimals (Getenv env EnvKeyTokenDecimals) = Ok d) \<and> (\<forall>p. env EnvKeyPort = Some p \<longrightarrow> (\<exists>n. Atoi p = Ok n))"
  "ParseTokenDecimals (Getenv env EnvKeyTokenDecimals) = Fail e \<Longrightarrow> mock_Run env cfg = Fail e"
  by (cases "ParseTokenDecimals (Getenv env EnvKeyTokenDecimals)"; cases "env EnvKeyPort"; cases "Atoi (the (env EnvKeyPort))")
    (auto simp: mock_Run_def Let_def)

text \<open>Without any variable set the plugin listens on the default port, without events, with fixed prices.\<close>

lemma mock_Run_defaults:
  "mock_Run Map.empty defaultPricing =
     Ok \<lparr>rs_pricing = defaultPricing, rs_eventsEnabled = False, rs_port = 50051, rs_BuyableUntilDefault = 5 * minute\<rparr>"
  by (simp add: mock_Run_def Getenv_def envTrue_def DefaultPort_def ParseTokenDecimals_def SetRealisticPrice_def defaultPricing_def
      BuyableUntil_Default_def TrimSpace_def)

end
