(* ===== verification/Spec2Isabelle.thy ===== *)
theory Spec2Isabelle
  imports Conversion Price Matrix_Login Matrix_Messenger Encoding Resolver Event_Runs Processor_Runs Cancellation_Runs
    Scheduler Service_Methods Subscriber Bot Mock_Data Mock_Server
begin

text \<open>
  \<^bold>\<open>The Travel Token Messenger Bot.\<close> A bot acts for an account of the Travel Token Marketplace. It exchanges
  signed, encrypted messages with the bots of other accounts through a Matrix homeserver, forwards
  requests to its partner plugin (a gRPC service of the operator), mints and buys booking tokens on an
  EVM chain, watches the chain for sales, expired reservations and cancellations, and serves its own
  partner over gRPC. This development models the bot's own Go code (file names below are relative to
  \<^verbatim>\<open>src/\<close>) and proves what makes its parts correct.

  \<^bold>\<open>Conventions (\<open>Go_Prelude\<close>, \<open>Effects\<close>).\<close> A function that may fail returns \<open>res\<close>: a value, an error, or a
  panic; errors carry their text and what they wrap, so that \<open>errors.Is\<close> is computed. Fixed-width integers are
  words and wrap; a Go \<open>int\<close> used as a length is a natural number or an \<open>int\<close> within the range the code has
  checked; times and durations are \<open>int\<close> nanoseconds. Stateful code is an \<open>act\<close> (state to result and new state), code in a
  database transaction a \<open>dbm\<close>. Goroutines that interleave are \<open>inductive\<close> step relations, and what each of their
  steps keeps holds in every run (locale \<open>step_invariant\<close>). Third-party code (go-ethereum and the contract
  bindings, mautrix, SQLite, gRPC, protobuf, JSON, zstd, AES and ECIES, viper, zap) appears as fields of
  environment records; what a theorem needs of it is a hypothesis with a name, such as \<open>signature_law\<close>,
  \<open>evicts_only\<close> or \<open>grpc_ok\<close>, and every such theorem has a witness with concrete functions. Logging is left out. Mutexes
  make the sections they guard single steps.

  \<^bold>\<open>Receiving and sending messages.\<close>
  \<^item> \<open>Matrix_Reassembly\<close> (\<^verbatim>\<open>pkg/matrix\<close>, \<^verbatim>\<open>internal/matrix/messenger/messages.go\<close>): event contents, chunk reassembly, eviction. Reassembly
    refines an abstract specification by sets of indices; a message is delivered exactly once, when its last index
    arrives, in any order of arrival; nothing complete or stale stays behind.
  \<^item> \<open>Matrix_Messenger\<close> (\<^verbatim>\<open>messenger.go\<close>, \<^verbatim>\<open>rooms.go\<close>, \<^verbatim>\<open>internal/matrix/client\<close>): rooms, invites, sending; what is sent is what the peer receives,
    and the room cache is sound.
  \<^item> \<open>Matrix_Login\<close> (\<^verbatim>\<open>internal/matrix/client\<close>): login with the signed public key; the printed key and signature can be read back with
    their checksums, and the client is only ever the expected user.
  \<^item> \<open>Encoding\<close> (\<^verbatim>\<open>internal/messaging/encoding\<close>, \<^verbatim>\<open>encryption\<close>): session keys, the byte layout, chunking, signatures, the cache of
    public keys. Decoding inverts encoding; what is decoded is authentic and current.
  \<^item> \<open>Metadata\<close>, \<open>Services\<close> (\<^verbatim>\<open>pkg/metadata\<close>, \<^verbatim>\<open>internal/messaging/message\<close>, \<^verbatim>\<open>service_registry.go\<close>, tables of \<^verbatim>\<open>internal/rpc/generated\<close>): time
    stamps, message types, which services are served.
  \<^item> \<open>Resolver\<close> (\<^verbatim>\<open>internal/resolver\<close>): which bot of an account is addressed; unreachable bots are rotated out.
  \<^item> \<open>Processor\<close>, \<open>Processor_Runs\<close> (\<^verbatim>\<open>internal/messaging/processor.go\<close>): authorization, answering, waiting for responses. Messages of
    bots that are not authorized have no effect; responses find their requests however goroutines interleave.
  The theorem below composes encoding, sending, reassembly and decoding.

  \<^bold>\<open>Trading.\<close>
  \<^item> \<open>Conversion\<close>, \<open>Price\<close> (\<^verbatim>\<open>pkg/conversion\<close>, \<^verbatim>\<open>pkg/price\<close>, \<^verbatim>\<open>pkg/erc20\<close>, \<^verbatim>\<open>internal/price\<close>): checked conversions (locale \<open>checked_conversion\<close>)
    and exact scaling of decimal prices (locale \<open>price_handler\<close>, one instance per message version).
  \<^item> \<open>Ttm_Accounts\<close>, \<open>Booking\<close> (\<^verbatim>\<open>pkg/ttm_accounts\<close>, \<^verbatim>\<open>pkg/booking\<close>): contract calls and transactions. A transaction is sent at most once
    and believed only with its receipt; a token is bought only at its reserved price; cached authorizations are never
    stale for longer than the timeout.
  \<^item> \<open>Mint\<close>, \<open>Mint_Trade\<close> (\<^verbatim>\<open>response_handler.go\<close>, \<^verbatim>\<open>mint*.go\<close>): the supplier mints, the distributor buys (locale \<open>mint_version\<close>).
  \<^item> \<open>Cancellation\<close>, \<open>Cancellation_Runs\<close> (\<^verbatim>\<open>internal/cancellation/v1\<close> to \<^verbatim>\<open>v3\<close>): each request sends at most its one transaction; the three
    versions are instances of the locale \<open>cancellation_version\<close>, and version 3 equals version 2.

  \<^bold>\<open>Watching the chain.\<close>
  \<^item> \<open>Database\<close> (\<^verbatim>\<open>pkg/database/sqlite\<close>): sessions with an arbitrary schedule of driver failures; they are atomic (locale
    \<open>transactional\<close>, interpreted in \<open>Encoding\<close> and \<open>Resolver\<close>).
  \<^item> \<open>Subscription_Storage\<close>, \<open>Partner_Plugin\<close>, \<open>Event_Listener\<close>, \<open>Event_Handlers\<close>, \<open>Event_Runs\<close> (\<^verbatim>\<open>internal/eventlistener\<close>, \<^verbatim>\<open>internal/partnerplugin\<close>): the
    five event handlers satisfy one contract (locale \<open>event_handler\<close>): all or nothing; no subscription is dropped without its
    notification; the timer is armed for the earliest reservation.
  \<^item> \<open>Subscriber\<close> (\<^verbatim>\<open>internal/eventlistener/subscriber\<close>): the goroutines that feed the handlers; a panic of a handler reaches the
    reader of the error channel.
  \<^item> \<open>Scheduler\<close> (\<^verbatim>\<open>pkg/scheduler\<close>): executions are recorded before they happen and are bounded by the elapsed periods.

  \<^bold>\<open>The process.\<close>
  \<^item> \<open>Rpc_Server\<close> (\<^verbatim>\<open>internal/rpc/server\<close>): requests of the own partner and the interceptors around them, composed with the
    cancellation services.
  \<^item> \<open>Service_Methods\<close> (\<^verbatim>\<open>internal/rpc/generated\<close>): the typed servers and clients of all services. The 48 services are instances of
    two templates, so there is one definition per template with the service as an argument. Calls are answered in
    their own type, and what a plugin answers is what the asking partner gets.
  \<^item> \<open>Config\<close>, \<open>Version\<close>, \<open>App\<close>, \<open>Bot\<close> (\<^verbatim>\<open>config\<close>, \<^verbatim>\<open>internal/version\<close>, \<^verbatim>\<open>internal/app\<close>, \<^verbatim>\<open>internal/rpc/client\<close>, \<^verbatim>\<open>cmd\<close>): reading the configuration, the
    construction of the components, and the run of all of them as tasks of an error group: start order, result, orderly
    end.

  \<^bold>\<open>The mock partner plugin (\<^verbatim>\<open>pp-mock\<close>).\<close> The plugin that stands in for an operator in development and tests: it searches sample data, and a result
  can be validated and then minted.
  \<^item> \<open>Mock_State\<close> (\<^verbatim>\<open>config\<close>, \<^verbatim>\<open>handlers/state\<close>): pricing, the price that all versions share (locale \<open>price_version\<close>) and the store of
    searches, validations and mints (locale \<open>entry_table\<close>). A normalized price in the native token is charged as written.
  \<^item> \<open>Mock_Common\<close> (\<^verbatim>\<open>common\<close>, \<^verbatim>\<open>localization\<close>, \<^verbatim>\<open>metadata\<close>): the calendar of package time, travel periods, headers. A date is read back from its time.
  \<^item> \<open>Mock_Book\<close> (\<^verbatim>\<open>handlers/book\<close>, \<^verbatim>\<open>notification\<close>, \<^verbatim>\<open>cancellation\<close>, \<^verbatim>\<open>ping\<close>): validation and mint keep the price of the search (locales
    \<open>booking_version\<close> and \<open>search_version\<close>, interpreted for every version of every search).
  \<^item> \<open>Mock_Accommodation\<close>, \<open>Mock_Transport\<close>, \<open>Mock_Activity\<close>, \<open>Mock_Seat_Map\<close> (\<^verbatim>\<open>handlers\<close>): the product services in their versions. What a search finds and
    offers, agreement of versions, and that an offer shown is the price the bot charges.
  \<^item> \<open>Mock_Data\<close> (\<^verbatim>\<open>services/data\<close>): loading and checking the sample data.
  \<^item> \<open>Mock_Events\<close> (\<^verbatim>\<open>events\<close>): the goroutines that hand every request to the subscribed streams, as a step relation over mutexes and unbuffered
    channels. Streams get the events in order and nothing is used after it is closed; where goroutines wait for each other for ever.
  \<^item> \<open>Mock_Server\<close> (\<^verbatim>\<open>server\<close>): the chain of interceptors around every handler, and the settings of a run.

  \<^bold>\<open>Loops and bounds.\<close> Every loop of the code is structural recursion or a function with a termination proof; the loops
  over 32-bit chunk indices terminate by the distance to the count. The poll for a reservation recurses on the attempts
  left (\<open>pollLoop\<close>), with one read more than sleeps. Nothing uses fuel. The runs of the step relations are of any length.

  \<^bold>\<open>Flaws.\<close> Where the code does not do what it means to, the lemma that shows it stands with its component:
  metadata of 65534 bytes panics the decoder (\<open>Encoding\<close>), a bot of two accounts keeps its status (\<open>Resolver\<close>), a late
  response blocks its goroutine (\<open>Processor_Runs\<close>), the timeout handler spins or panics (\<open>Event_Runs\<close>), version 3 answers are paid
  unseen and a mint without ID is lost (\<open>Mint_Trade\<close>), the currency of refunds is ignored (\<open>Cancellation_Runs\<close>), sub-second periods
  run once (\<open>Scheduler\<close>), a retry delay wraps (\<open>Config\<close>), a sample trip without segments panics version 4 of the transport search
  (\<open>Mock_Transport\<close>), a full refund of the mock plugin is one base unit (\<open>Mock_Book\<close>), a stream that ends
  while an event is handed out blocks the event server, and stopping it never completes (\<open>Mock_Events\<close>).

  \<^bold>\<open>Not modelled.\<close> \<^verbatim>\<open>proto/pb\<close> and the mocks are generated; \<^verbatim>\<open>internal/utils/tls\<close>
  only passes data between libraries; \<^verbatim>\<open>tests/e2e\<close> is a test program; of \<^verbatim>\<open>pp-mock\<close> the registration of the services
  and listening are left out. Header versions in the answers of the mint and cancellation services, gRPC contexts and deadlines
  are left out of those models.
\<close>

section \<open>Messages between bots\<close>

text \<open>Property C12: a message crosses the network. One bot encodes and signs a message and sends its chunks;
  if the other bot gets the events in any order, redelivered and interleaved with anything else, then
  the arrival of the last missing chunk, and nothing before it, delivers one encoded message, with the
  account that sent it, and decoding and verifying that under the address of the delivering sender
  gives the message that was encoded, provided the sender is the bot that signed it, the cryptographic
  primitives behave as documented, the metadata blocks are shorter than 65534 bytes, and the message
  is read before it expires.\<close>

lemma message_crosses_network:
  assumes "encodeWith E now maxSize recipient msg k acct = Ok enc"
    and "signature_law E D (addr (input_sender e))" "coding_law E D" "content_law E D msg"
    and "\<And>pk. recipient = Some pk \<Longrightarrow> cipher_law E D pk" and "key_ok k"
    and "publicBytes E now recipient msg k acct = Ok pub" "length pub < 65534"
    and "privateBytes E msg = Ok prv" "length prv < 65534"
    and "0 \<le> now" "now < 2 ^ 62" "now' \<le> unixTime (Unix (now + defaultExpirationTime))"
    and "SendMessage L evr mx uuid m enc sendTo acct = (Ok u, m')"
    and "\<forall>x \<in> set (mx_log m). effect_id x \<noteq> Some uuid"
    and "2 \<le> length (ChunkedEncodedMessage enc)" and "msgs uuid = None"
    and "\<forall>i \<in> set (is @ [e]). carries uuid (mx_log m') i \<and> t0 \<le> input_time i \<and> (is_sweep i \<longrightarrow> input_time i - t0 \<le> partialMessageTTL)"
    and "\<not> {..<word_of_nat (length (ChunkedEncodedMessage enc))} \<subseteq> fst ` set (arrivals_of self uuid is)"
    and "{..<word_of_nat (length (ChunkedEncodedMessage enc))} \<subseteq> fst ` set (arrivals_of self uuid (is @ [e]))"
    and "faults (enc_db st) = (\<lambda>_. None)"
  shows "deliveries addr self uuid msgs is = [] \<and>
    (\<exists>d st'. deliveries addr self uuid msgs (is @ [e]) = [d] \<and> EncSenderTTMAccountAddress d = acct \<and>
       DecodeAndVerifyMessage D ev now' spare st (EncMessage d) (SenderBotAddress d) =
         (Ok (msg\<lparr>msg_Timestamps := Some (case msg_Timestamps msg of None \<Rightarrow> [] | Some t \<Rightarrow> t)\<rparr>, usedKey recipient k, acct), st'))"
proof -
  have d: "deliveries addr self uuid msgs is = [] \<and> deliveries addr self uuid msgs (is @ [e]) =
      [\<lparr>EncMessage = enc, EncSenderTTMAccountAddress = acct, SenderBotAddress = addr (input_sender e)\<rparr>]"
    by (rule send_then_receive[where msgs = msgs, OF assms(14-20)])
  obtain body where body: "concat (ChunkedEncodedMessage enc) = BigEndian_PutUint32 1 @ body"
    and sig: "crypto_Sign E (Keccak256 E (concat (ChunkedEncodedMessage enc))) = Ok (EncSignature enc)"
    using encodeWith_Ok[OF assms(1)] by metis
  obtain pk where pk: "SigToPub D (Keccak256 D (concat (ChunkedEncodedMessage enc))) (EncSignature enc) = Ok pk"
      "PubkeyToAddress D pk = addr (input_sender e)"
    using assms(2) sig by (auto simp: signature_law_def)
  have "decodeAndVerifyMessageV1 D now' (body, spare) = Ok (msg, usedKey recipient k, acct)"
    using decode_of_encode[OF assms(1,3-13), of spare] body by simp
  then show ?thesis
    using d decode_head[OF body pk, of ev now' spare st] setBotPubKey_no_faults[OF assms(21), of D ev "addr (input_sender e)" pk] pk(2)
    by auto
qed

text \<open>The ping of the samples, in four chunks that arrive in the opposite order, with its header last.\<close>

definition sample_ping_chunk :: "nat \<Rightarrow> input" where
  "sample_ping_chunk i = ChunkEvent 5 \<lparr>Sender = ''peer'', Parsed = ParsedChunk
     \<lparr>mce_ChunkData = \<lparr>MessageID = ''id'', Data = ChunkedEncodedMessage (sample_encoded [1, 2, 3]) ! i\<rparr>, ChunkIndex = word_of_nat i\<rparr>\<rparr>"

definition sample_ping_header :: input where
  "sample_ping_header = SignedEvent 6 \<lparr>Sender = ''peer'', Parsed = ParsedSigned
     \<lparr>sme_ChunkData = \<lparr>MessageID = ''id'', Data = ChunkedEncodedMessage (sample_encoded [1, 2, 3]) ! 0\<rparr>, ChunksCount = 4,
       Signature = [7], SenderTTMAccountAddress = 1\<rparr>\<rparr>"

lemma message_crosses_network_witness:
  "\<exists>d st'. deliveries (\<lambda>_. 7) ''me'' ''id'' Map.empty (map sample_ping_chunk [3, 2, 1] @ [sample_ping_header]) = [d] \<and>
     DecodeAndVerifyMessage (sample_enc [1, 2, 3]) (\<lambda>m. m) 1000 [] sample_decoder (EncMessage d) (SenderBotAddress d) =
       (Ok (sample_msg\<lparr>msg_Timestamps := Some []\<rparr>, Some sample_key, 1), st')"
proof -
  let ?enc = "sample_encoded [1, 2, 3]"
  let ?is = "map sample_ping_chunk [3, 2, 1]"
  let ?S = "SendMessage sample_lib (\<lambda>m. m) sample_mx ''id'' sample_sender ?enc 7 1"
  have "fst ?S = Ok ()" by code_simp
  then have send: "?S = (Ok (), snd ?S)" by (metis prod.collapse)
  have fresh: "\<forall>x \<in> set (mx_log sample_sender). effect_id x \<noteq> Some ''id''" by code_simp
  have len: "length (ChunkedEncodedMessage ?enc) = 4" by code_simp
  have log: "mx_log (snd ?S) = [CreatedRoom ''@0xab:h'' ''new'',
      SentSigned ''new'' \<lparr>sme_ChunkData = \<lparr>MessageID = ''id'', Data = ChunkedEncodedMessage ?enc ! 0\<rparr>, ChunksCount = 4,
        Signature = [7], SenderTTMAccountAddress = 1\<rparr>] @
      map (\<lambda>i. SentChunk ''new'' \<lparr>mce_ChunkData = \<lparr>MessageID = ''id'', Data = ChunkedEncodedMessage ?enc ! i\<rparr>, ChunkIndex = word_of_nat i\<rparr>) [1, 2, 3]"
    by code_simp
  have carried: "\<forall>i \<in> set (?is @ [sample_ping_header]). carries ''id'' (mx_log (snd ?S)) i \<and> 5 \<le> input_time i \<and>
      (is_sweep i \<longrightarrow> input_time i - 5 \<le> partialMessageTTL)"
    unfolding log by (auto simp: sample_ping_chunk_def sample_ping_header_def)
  have arrived: "fst ` set (arrivals_of ''me'' ''id'' ?is) = {3, 2, 1}" "fst ` set (arrivals_of ''me'' ''id'' (?is @ [sample_ping_header])) = {3, 2, 1, 0}"
    by code_simp+
  have below: "{..<word_of_nat (length (ChunkedEncodedMessage ?enc))} = {0, 1, 2, 3 :: uint32}" unfolding len by (auto simp: word_less_nat_alt word_unat_eq_iff)
  have missing: "\<not> {..<word_of_nat (length (ChunkedEncodedMessage ?enc))} \<subseteq> fst ` set (arrivals_of ''me'' ''id'' ?is)"
    and complete: "{..<word_of_nat (length (ChunkedEncodedMessage ?enc))} \<subseteq> fst ` set (arrivals_of ''me'' ''id'' (?is @ [sample_ping_header]))"
    unfolding below arrived by simp_all
  have t: "1000 \<le> unixTime (Unix (0 + defaultExpirationTime))" by (simp add: Unix_def unixTime_def)
  have f: "faults (enc_db sample_decoder) = (\<lambda>_. None)" by (simp add: sample_decoder_def)
  have two: "2 \<le> length (ChunkedEncodedMessage ?enc)" using len by simp
  have lens: "length [1 :: 8 word, 2, 3] \<le> 65535" "length [1 :: 8 word, 2, 3] < 65534" "length [9 :: 8 word] < 65534" "(0 :: time) \<le> 0" "(0 :: time) < 2 ^ 62"
    by simp_all
  have "(Map.empty :: partials) ''id'' = None" by simp
  from message_crosses_network[where addr = "\<lambda>_. 7" and ev = "\<lambda>m. m" and spare = "[]" and now = 0 and self = "''me''" and msgs = Map.empty,
      OF sample_encodes[OF lens(1)] sample_laws(1-4) sample_laws(5) sample_laws(7) lens(2) sample_laws(6) lens(3-5) t send fresh two this
        carried missing complete f]
  show ?thesis by (auto simp only: usedKey_def sample_msg_def message.simps option.simps if_False list.inject)
qed

end
